(* ===== verification/Py_Prelude.thy ===== *)
theory Py_Prelude
  imports Main "HOL-Library.AList" "HOL-Library.Char_ord" "HOL-Library.List_Lexorder"
    "HOL-Library.Product_Lexorder"
begin

section \<open>Python values, exceptions and strings\<close>

text \<open>
  The part of Python that the components of the laboratory share: decoded JSON values,
  insertion-ordered dictionaries, exceptions as values, loops that may raise, and the
  string functions the code calls.  A Python string is modelled by a \<^typ>\<open>string\<close>,
  so by a list of code points below 256; integers are unbounded (\<^typ>\<open>int\<close>).
\<close>

named_theorems raises_intro \<open>how an exception predicate passes through a construct\<close>
named_theorems py_simps \<open>characteristic equations of the Python string functions\<close>

subsection \<open>JSON values and dictionaries\<close>

text \<open>
  What \<^verbatim>\<open>json.loads\<close> returns.  A float carries its \<^verbatim>\<open>repr\<close>: no code modelled here
  computes with a float that came from JSON.  A dictionary is the list of its items in
  insertion order; its keys are distinct in every value Python can build.
\<close>

datatype json =
    JNull
  | JBool bool
  | JInt int
  | JFloat string
  | JStr string
  | JList "json list"
  | JObj "(string \<times> json) list"

type_synonym dict = "(string \<times> json) list"
type_synonym sdict = "(string \<times> string) list"

text \<open>\<^verbatim>\<open>hash(value)\<close> is defined: lists and dictionaries are unhashable.\<close>

fun hashable :: "json \<Rightarrow> bool" where
  "hashable (JList _) = False"
| "hashable (JObj _) = False"
| "hashable _ = True"

text \<open>\<^verbatim>\<open>d[k] = v\<close> and \<^verbatim>\<open>d.pop(k, None)\<close>; assignment keeps the position of an old key.\<close>

abbreviation dict_set :: "'k \<Rightarrow> 'v \<Rightarrow> ('k \<times> 'v) list \<Rightarrow> ('k \<times> 'v) list" where
  "dict_set \<equiv> AList.update"

definition dict_pop :: "'k \<Rightarrow> ('k \<times> 'v) list \<Rightarrow> ('k \<times> 'v) list" where
  "dict_pop k d = filter (\<lambda>p. fst p \<noteq> k) d"

text \<open>\<^verbatim>\<open>d.update(e)\<close>: the items of \<open>e\<close> one after the other.\<close>

definition dict_update :: "('k \<times> 'v) list \<Rightarrow> ('k \<times> 'v) list \<Rightarrow> ('k \<times> 'v) list" where
  "dict_update d e = fold (\<lambda>p. dict_set (fst p) (snd p)) e d"

text \<open>\<^verbatim>\<open>d.get(k, default)\<close>.\<close>

definition dict_get :: "'k \<Rightarrow> 'v \<Rightarrow> ('k \<times> 'v) list \<Rightarrow> 'v" where
  "dict_get k v d = (case map_of d k of Some x \<Rightarrow> x | None \<Rightarrow> v)"

definition has_key :: "'k \<Rightarrow> ('k \<times> 'v) list \<Rightarrow> bool" where
  "has_key k d \<longleftrightarrow> k \<in> fst ` set d"

lemma has_key_map_of: "has_key k d \<longleftrightarrow> (\<exists>v. map_of d k = Some v)"
  using map_of_eq_None_iff [of d k] by (auto simp: has_key_def)

lemma map_of_dict_set [simp]: "map_of (dict_set k v d) = (map_of d)(k \<mapsto> v)"
  by (simp add: update_conv')

lemma dict_set_new: "k \<notin> fst ` set d \<Longrightarrow> dict_set k v d = d @ [(k, v)]"
  by (induction d) auto

lemma map_of_dict_pop [simp]: "map_of (dict_pop k d) = (map_of d)(k := None)"
proof
  fix x
  show "map_of (dict_pop k d) x = ((map_of d)(k := None)) x"
    by (induction d) (auto simp: dict_pop_def)
qed

lemma distinct_dict_pop: "distinct (map fst d) \<Longrightarrow> distinct (map fst (dict_pop k d))"
  by (simp add: dict_pop_def distinct_map_filter)

lemma map_of_dict_update: "map_of (dict_update d e) k = (case map_of (rev e) k of None \<Rightarrow> map_of d k | Some v \<Rightarrow> Some v)"
proof (induction e arbitrary: d)
  case Nil
  then show ?case by (simp add: dict_update_def)
next
  case (Cons p e)
  have "dict_update d (p # e) = dict_update (dict_set (fst p) (snd p) d) e"
    by (simp add: dict_update_def)
  then show ?case
    by (auto simp: Cons.IH map_add_def split: option.splits)
qed

subsection \<open>Exceptions as values\<close>

text \<open>
  The exceptions the modelled code raises, with their message.  \<^verbatim>\<open>TopologyError\<close>,
  \<^verbatim>\<open>AuditError\<close> and \<^verbatim>\<open>json.JSONDecodeError\<close> are subclasses of \<^verbatim>\<open>ValueError\<close>, and \<^verbatim>\<open>LaunchError\<close> of
  \<^verbatim>\<open>RuntimeError\<close>; \<open>is_ValueError\<close> and \<open>is_RuntimeError\<close> are what an
  \<^verbatim>\<open>except\<close> clause matches.
\<close>

datatype py_exc =
    TopologyError string
  | JSONDecodeError string
  | ValueError string
  | LaunchError string
  | RuntimeError string
  | KeyError string
  | TypeError string
  | AttributeError string
  | OverflowError string
  | EOFError string
  | IndexError string
  | OSError string
  | AuditError string
  | StructError string
  | ZeroDivisionError string
  | SystemExit int

type_synonym 'a res = "py_exc + 'a"

fun is_ValueError :: "py_exc \<Rightarrow> bool" where
  "is_ValueError (TopologyError _) = True"
| "is_ValueError (JSONDecodeError _) = True"
| "is_ValueError (ValueError _) = True"
| "is_ValueError (AuditError _) = True"
| "is_ValueError _ = False"

fun is_RuntimeError :: "py_exc \<Rightarrow> bool" where
  "is_RuntimeError (LaunchError _) = True"
| "is_RuntimeError (RuntimeError _) = True"
| "is_RuntimeError _ = False"

fun is_TopologyError :: "py_exc \<Rightarrow> bool" where
  "is_TopologyError (TopologyError _) = True"
| "is_TopologyError _ = False"

fun is_OSError :: "py_exc \<Rightarrow> bool" where
  "is_OSError (OSError _) = True"
| "is_OSError _ = False"

text \<open>Statement sequencing: the first exception leaves the block.\<close>

definition rbind :: "'e + 'a \<Rightarrow> ('a \<Rightarrow> 'e + 'b) \<Rightarrow> 'e + 'b" where
  "rbind m f = (case m of Inl e \<Rightarrow> Inl e | Inr x \<Rightarrow> f x)"

lemma rbind_simps [simp]:
  "rbind (Inl e) f = Inl e"
  "rbind (Inr x) f = f x"
  by (simp_all add: rbind_def)

lemma rbind_eq_Inr [simp]: "rbind m f = Inr y \<longleftrightarrow> (\<exists>x. m = Inr x \<and> f x = Inr y)"
  by (cases m) auto

lemma rbind_eq_Inl: "rbind m f = Inl e \<longleftrightarrow> m = Inl e \<or> (\<exists>x. m = Inr x \<and> f x = Inl e)"
  by (cases m) auto

lemma guard_eq_Inr [simp]: "(if b then Inl e else m) = Inr y \<longleftrightarrow> \<not> b \<and> m = Inr y"
  by simp

lemma rbind_cong [fundef_cong]:
  "m = m' \<Longrightarrow> (\<And>x. m' = Inr x \<Longrightarrow> f x = g x) \<Longrightarrow> rbind m f = rbind m' g"
  by (cases m') auto

lemma rbind_assoc: "rbind (rbind m f) g = rbind m (\<lambda>x. rbind (f x) g)"
  by (cases m) auto

text \<open>\<^verbatim>\<open>d[k]\<close> raises \<^verbatim>\<open>KeyError\<close> on a missing key.\<close>

definition getitem :: "string \<Rightarrow> (string \<times> 'v) list \<Rightarrow> 'v res" where
  "getitem k d = (case map_of d k of Some v \<Rightarrow> Inr v | None \<Rightarrow> Inl (KeyError k))"

lemma getitem_eq_Inr [simp]: "getitem k d = Inr v \<longleftrightarrow> map_of d k = Some v"
  by (auto simp: getitem_def split: option.splits)

lemma getitem_present: "has_key k d \<Longrightarrow> getitem k d = Inr (the (map_of d k))"
  by (auto simp: getitem_def has_key_map_of)

text \<open>A loop whose body may raise: \<^verbatim>\<open>for x in xs: s = body(x, s)\<close>.\<close>

primrec rfold :: "('x \<Rightarrow> 's \<Rightarrow> 'e + 's) \<Rightarrow> 'x list \<Rightarrow> 's \<Rightarrow> 'e + 's" where
  "rfold body [] s = Inr s"
| "rfold body (x # xs) s = rbind (body x s) (rfold body xs)"

lemma rfold_append: "rfold body (xs @ ys) s = rbind (rfold body xs s) (rfold body ys)"
proof (induction xs arbitrary: s)
  case (Cons x xs)
  then show ?case by (cases "body x s") auto
qed simp

lemma rfold_Inl:
  "rfold body xs s = Inl e \<Longrightarrow>
     \<exists>pre x post t. xs = pre @ x # post \<and> rfold body pre s = Inr t \<and> body x t = Inl e"
proof (induction xs arbitrary: s)
  case (Cons x xs)
  show ?case
  proof (cases "body x s")
    case (Inl e')
    with Cons.prems show ?thesis by (intro exI [of _ "[]"]) auto
  next
    case (Inr t)
    with Cons.prems Cons.IH [of t] obtain pre y post u where
      "xs = pre @ y # post" "rfold body pre t = Inr u" "body y u = Inl e"
      by auto
    with Inr show ?thesis by (intro exI [of _ "x # pre"]) auto
  qed
qed simp

text \<open>Which exceptions a computation may raise.\<close>

definition raises_only :: "('e \<Rightarrow> bool) \<Rightarrow> 'e + 'a \<Rightarrow> bool" where
  "raises_only P m \<longleftrightarrow> (case m of Inl e \<Rightarrow> P e | Inr _ \<Rightarrow> True)"

lemma raises_only_Inr [raises_intro]: "raises_only P (Inr x)"
  by (simp add: raises_only_def)

lemma raises_only_Inl: "P e \<Longrightarrow> raises_only P (Inl e)"
  by (simp add: raises_only_def)

lemma raises_only_rbind [raises_intro]:
  "raises_only P m \<Longrightarrow> (\<And>x. m = Inr x \<Longrightarrow> raises_only P (f x)) \<Longrightarrow> raises_only P (rbind m f)"
  by (cases m) (auto simp: raises_only_def)

lemma raises_only_if [raises_intro]:
  "(b \<Longrightarrow> raises_only P m) \<Longrightarrow> (\<not> b \<Longrightarrow> raises_only P n) \<Longrightarrow> raises_only P (if b then m else n)"
  by simp

text \<open>Predicates that admit every \<^verbatim>\<open>TopologyError\<close>, whatever its message.\<close>

definition admits_topology :: "(py_exc \<Rightarrow> bool) \<Rightarrow> bool" where
  "admits_topology P \<longleftrightarrow> (\<forall>m. P (TopologyError m))"

lemma admits_is_TopologyError [simp]: "admits_topology is_TopologyError"
  by (simp add: admits_topology_def)

lemma raises_TopologyError [raises_intro]: "admits_topology P \<Longrightarrow> raises_only P (Inl (TopologyError m))"
  by (simp add: admits_topology_def raises_only_def)

lemma raises_only_weaken:
  "raises_only is_TopologyError m \<Longrightarrow> admits_topology P \<Longrightarrow> raises_only P m"
  unfolding raises_only_def admits_topology_def
  by (auto split: sum.splits elim!: is_TopologyError.elims)

lemma raises_onlyD: "raises_only P m \<Longrightarrow> m = Inl e \<Longrightarrow> P e"
  by (simp add: raises_only_def)

text \<open>
  The contract of a loop body: it keeps an invariant between the elements handled so far
  and the state, and under the invariant it raises only permitted exceptions.  Every
  validating loop of the code is one instance.
\<close>

locale checked_loop =
  fixes body :: "'x \<Rightarrow> 's \<Rightarrow> 'e + 's"
    and inv :: "'x list \<Rightarrow> 's \<Rightarrow> bool"
    and permitted :: "'e \<Rightarrow> bool"
  assumes body_inv: "inv done s \<Longrightarrow> body x s = Inr s' \<Longrightarrow> inv (done @ [x]) s'"
    and body_raises: "inv done s \<Longrightarrow> raises_only permitted (body x s)"
begin

lemma loop_inv_from: "inv done s \<Longrightarrow> rfold body xs s = Inr s' \<Longrightarrow> inv (done @ xs) s'"
proof (induction xs arbitrary: s "done")
  case (Cons x xs)
  from Cons.prems obtain t where "body x s = Inr t" "rfold body xs t = Inr s'"
    by auto
  with Cons.prems(1) Cons.IH [of "done @ [x]" t] show ?case
    by (simp add: body_inv)
qed simp

lemma loop_inv: "inv [] s \<Longrightarrow> rfold body xs s = Inr s' \<Longrightarrow> inv xs s'"
  using loop_inv_from [of "[]"] by simp

lemma loop_raises_from: "inv done s \<Longrightarrow> raises_only permitted (rfold body xs s)"
proof (induction xs arbitrary: s "done")
  case Nil
  then show ?case by (simp add: raises_only_Inr)
next
  case (Cons x xs)
  then show ?case
    by (auto intro!: raises_only_rbind body_raises intro: body_inv)
qed

lemma loop_raises: "inv [] s \<Longrightarrow> raises_only permitted (rfold body xs s)"
  by (rule loop_raises_from)

end

text \<open>
  The contract of a concurrent component: every step of any of its threads keeps the invariant, so
  every reachable state has it.
\<close>

locale transition_invariant =
  fixes step :: "'s \<Rightarrow> 's \<Rightarrow> bool" and inv :: "'s \<Rightarrow> bool"
  assumes step_inv: "step s s' \<Longrightarrow> inv s \<Longrightarrow> inv s'"
begin

lemma reachable_inv: "step\<^sup>*\<^sup>* s s' \<Longrightarrow> inv s \<Longrightarrow> inv s'"
  by (induction rule: rtranclp_induct) (auto intro: step_inv)

end

subsection \<open>Integers as text\<close>

definition digit_char :: "nat \<Rightarrow> char" where
  "digit_char n = char_of (48 + n)"

definition is_digit :: "char \<Rightarrow> bool" where
  "is_digit c \<longleftrightarrow> 48 \<le> (of_char c :: nat) \<and> (of_char c :: nat) \<le> 57"

definition digit_val :: "char \<Rightarrow> nat" where
  "digit_val c = of_char c - 48"

fun show_nat :: "nat \<Rightarrow> string" where
  "show_nat n = (if n < 10 then [digit_char n] else show_nat (n div 10) @ [digit_char (n mod 10)])"

declare show_nat.simps [simp del]

text \<open>\<^verbatim>\<open>str(i)\<close> for an integer.\<close>

definition str_int :: "int \<Rightarrow> string" where
  "str_int i = (if i < 0 then CHR ''-'' # show_nat (nat (- i)) else show_nat (nat i))"

text \<open>
  \<^verbatim>\<open>int(s)\<close> for a string: surrounding white space is dropped, then an optional sign and
  decimal digits, where single underscores may stand between digits.
\<close>

definition is_space :: "char \<Rightarrow> bool" where
  "is_space c \<longleftrightarrow> (of_char c :: nat) \<in> {9, 10, 11, 12, 13, 28, 29, 30, 31, 32, 133, 160}"

text \<open>The same by the bits of a character, for evaluation.\<close>

lemma is_digit_code [code]:
  "is_digit (Char b0 b1 b2 b3 b4 b5 b6 b7) \<longleftrightarrow> \<not> b7 \<and> \<not> b6 \<and> b5 \<and> b4 \<and> (\<not> b3 \<or> \<not> b2 \<and> \<not> b1)"
  by (cases b0; cases b1; cases b2; cases b3; cases b4; cases b5; cases b6; cases b7) (simp_all add: is_digit_def)

lemma is_space_code [code]:
  "is_space (Char b0 b1 b2 b3 b4 b5 b6 b7) \<longleftrightarrow> \<not> b6 \<and>
     (if b7 then (\<not> b5 \<and> \<not> b4 \<and> \<not> b3 \<and> b2 \<and> \<not> b1 \<and> b0) \<or> (b5 \<and> \<not> b4 \<and> \<not> b3 \<and> \<not> b2 \<and> \<not> b1 \<and> \<not> b0)
      else if b5 then \<not> b4 \<and> \<not> b3 \<and> \<not> b2 \<and> \<not> b1 \<and> \<not> b0
      else b3 \<and> (if b4 then b2 else if b2 then \<not> b1 else b1 \<or> b0))"
  by (cases b0; cases b1; cases b2; cases b3; cases b4; cases b5; cases b6; cases b7) (simp_all add: is_space_def)

definition lstrip :: "string \<Rightarrow> string" where
  "lstrip s = dropWhile is_space s"

definition strip :: "string \<Rightarrow> string" where
  "strip s = rev (dropWhile is_space (rev (lstrip s)))"

fun int_digits :: "nat \<Rightarrow> string \<Rightarrow> nat option" where
  "int_digits a [] = Some a"
| "int_digits a (c # cs) =
     (if is_digit c then int_digits (10 * a + digit_val c) cs
      else if c = CHR ''_'' \<and> cs \<noteq> [] \<and> is_digit (hd cs) then int_digits a cs
      else None)"

definition parse_nat :: "string \<Rightarrow> nat option" where
  "parse_nat s = (if s \<noteq> [] \<and> is_digit (hd s) then int_digits 0 s else None)"

definition parse_int :: "string \<Rightarrow> int option" where
  "parse_int s = (let t = strip s in
     case t of
       [] \<Rightarrow> None
     | c # cs \<Rightarrow>
         if c = CHR ''-'' then map_option (\<lambda>n. - int n) (parse_nat cs)
         else if c = CHR ''+'' then map_option int (parse_nat cs)
         else map_option int (parse_nat t))"

definition py_int :: "string \<Rightarrow> int res" where
  "py_int s = (case parse_int s of Some i \<Rightarrow> Inr i
     | None \<Rightarrow> Inl (ValueError ''invalid literal for int() with base 10''))"

lemma of_char_digit_char: "n < 10 \<Longrightarrow> (of_char (digit_char n) :: nat) = 48 + n"
  by (simp add: digit_char_def)

lemma is_digit_digit_char [simp]: "n < 10 \<Longrightarrow> is_digit (digit_char n)"
  by (simp add: is_digit_def of_char_digit_char)

lemma digit_val_digit_char [simp]: "n < 10 \<Longrightarrow> digit_val (digit_char n) = n"
  by (simp add: digit_val_def of_char_digit_char)

lemma show_nat_digits: "\<forall>c \<in> set (show_nat n). is_digit c"
proof (induction n rule: show_nat.induct)
  case (1 n)
  then show ?case by (cases "n < 10") (auto simp: show_nat.simps [of n])
qed

lemma show_nat_not_Nil [simp]: "show_nat n \<noteq> []"
  by (subst show_nat.simps) simp

lemma int_digits_snoc:
  "\<forall>c \<in> set s. is_digit c \<Longrightarrow> is_digit d \<Longrightarrow>
     int_digits a (s @ [d]) = map_option (\<lambda>v. 10 * v + digit_val d) (int_digits a s)"
  by (induction s arbitrary: a) auto

lemma int_digits_show_nat: "int_digits 0 (show_nat n) = Some n"
proof (induction n rule: show_nat.induct)
  case (1 n)
  then show ?case
    by (cases "n < 10")
      (simp_all add: show_nat.simps [of n] int_digits_snoc show_nat_digits)
qed

lemma parse_nat_show_nat [simp]: "parse_nat (show_nat n) = Some n"
  using hd_in_set [OF show_nat_not_Nil] show_nat_digits [of n]
  by (auto simp: parse_nat_def int_digits_show_nat)

lemma digit_not_space: "is_digit c \<Longrightarrow> \<not> is_space c"
  by (auto simp: is_digit_def is_space_def)

lemma dropWhile_hd_id: "xs = [] \<or> \<not> P (hd xs) \<Longrightarrow> dropWhile P xs = xs"
  by (cases xs) auto

lemma strip_id: "s \<noteq> [] \<Longrightarrow> \<not> is_space (hd s) \<Longrightarrow> \<not> is_space (last s) \<Longrightarrow> strip s = s"
  by (simp add: strip_def lstrip_def dropWhile_hd_id hd_rev)

lemma show_nat_hd_last: "is_digit (hd (show_nat n))" "is_digit (last (show_nat n))"
  using show_nat_digits [of n] by auto

text \<open>Printing an integer and reading it back is the identity.\<close>

lemma parse_int_str_int [simp]: "parse_int (str_int i) = Some i"
proof (cases "i < 0")
  case True
  have "strip (str_int i) = str_int i"
    using True show_nat_hd_last(2) [of "nat (- i)"]
    by (intro strip_id) (auto simp: str_int_def last_ConsR dest: digit_not_space, simp add: is_space_def)
  with True show ?thesis
    by (simp add: parse_int_def str_int_def)
next
  case False
  have hd: "is_digit (hd (show_nat (nat i)))" and la: "is_digit (last (show_nat (nat i)))"
    by (fact show_nat_hd_last)+
  have st: "strip (show_nat (nat i)) = show_nat (nat i)"
    using hd la by (intro strip_id) (auto simp: digit_not_space)
  obtain c cs where c: "show_nat (nat i) = c # cs"
    by (cases "show_nat (nat i)") auto
  with hd have "is_digit c" by simp
  then have "c \<noteq> CHR ''-''" "c \<noteq> CHR ''+''"
    by (auto simp: is_digit_def)
  moreover have "parse_nat (c # cs) = Some (nat i)"
    using parse_nat_show_nat [of "nat i"] by (simp only: c)
  ultimately show ?thesis
    using False st c by (simp add: parse_int_def str_int_def)
qed

lemma py_int_str_int [simp]: "py_int (str_int i) = Inr i"
  by (simp add: py_int_def)

lemma str_int_inj [simp]: "str_int i = str_int j \<longleftrightarrow> i = j"
  by (metis option.inject parse_int_str_int)

subsection \<open>String functions\<close>

definition startswith :: "string \<Rightarrow> string \<Rightarrow> bool" where
  "startswith s p \<longleftrightarrow> take (length p) s = p"

definition endswith :: "string \<Rightarrow> string \<Rightarrow> bool" where
  "endswith s p \<longleftrightarrow> startswith (rev s) (rev p)"

definition removeprefix :: "string \<Rightarrow> string \<Rightarrow> string" where
  "removeprefix s p = (if startswith s p then drop (length p) s else s)"

definition removesuffix :: "string \<Rightarrow> string \<Rightarrow> string" where
  "removesuffix s p = (if endswith s p then take (length s - length p) s else s)"

text \<open>\<^verbatim>\<open>s.partition(c)\<close> for a one-character separator: (head, found, tail).\<close>

definition partition_at :: "char \<Rightarrow> string \<Rightarrow> string \<times> bool \<times> string" where
  "partition_at c s = (takeWhile (\<lambda>x. x \<noteq> c) s, c \<in> set s, drop 1 (dropWhile (\<lambda>x. x \<noteq> c) s))"

text \<open>\<^verbatim>\<open>sep.join(xs)\<close> and \<^verbatim>\<open>s.replace(old, new)\<close> for single characters.\<close>

fun join :: "string \<Rightarrow> string list \<Rightarrow> string" where
  "join sep [] = []"
| "join sep [x] = x"
| "join sep (x # y # xs) = x @ sep @ join sep (y # xs)"

definition replace_char :: "char \<Rightarrow> char \<Rightarrow> string \<Rightarrow> string" where
  "replace_char old new s = map (\<lambda>c. if c = old then new else c) s"

text \<open>\<^verbatim>\<open>s.split(c)\<close> for a one-character separator: always at least one field.\<close>

fun split_on :: "char \<Rightarrow> string \<Rightarrow> string list" where
  "split_on c [] = [[]]"
| "split_on c (x # xs) =
     (if x = c then [] # split_on c xs
      else (case split_on c xs of [] \<Rightarrow> [[x]] | f # fs \<Rightarrow> (x # f) # fs))"

text \<open>\<^verbatim>\<open>s.splitlines()\<close>: a final line break opens no further line.\<close>

definition is_linebreak :: "char \<Rightarrow> bool" where
  "is_linebreak c \<longleftrightarrow> (of_char c :: nat) \<in> {10, 11, 12, 13, 28, 29, 30, 133}"

fun split_lines :: "string \<Rightarrow> string \<Rightarrow> string list" where
  "split_lines cur [] = (if cur = [] then [] else [rev cur])"
| "split_lines cur (c # cs) =
     (if c = CHR 0x0D \<and> cs \<noteq> [] \<and> hd cs = CHR 0x0A then rev cur # split_lines [] (tl cs)
      else if is_linebreak c then rev cur # split_lines [] cs
      else split_lines (c # cur) cs)"

definition splitlines :: "string \<Rightarrow> string list" where
  "splitlines s = split_lines [] s"

lemma startswith_append [simp]: "startswith (p @ s) p"
  by (simp add: startswith_def)

lemma startswith_iff: "startswith s p \<longleftrightarrow> (\<exists>t. s = p @ t)"
  by (metis append_eq_conv_conj startswith_def append_take_drop_id)

lemma endswith_iff: "endswith s p \<longleftrightarrow> (\<exists>t. s = t @ p)"
  by (metis endswith_def startswith_iff rev_append rev_rev_ident)

lemma removeprefix_append [simp]: "removeprefix (p @ s) p = s"
  by (simp add: removeprefix_def)

lemma partition_at_append:
  "c \<notin> set k \<Longrightarrow> partition_at c (k @ c # v) = (k, True, v)"
  by (induction k) (auto simp: partition_at_def)

lemma split_on_not_Nil [simp]: "split_on c s \<noteq> []"
  by (induction s) (auto split: list.splits)

lemma join_chars: "set (join sep ws) \<subseteq> set sep \<union> \<Union> (set ` set ws)"
  by (induction sep ws rule: join.induct) auto

text \<open>\<^verbatim>\<open>s.split()\<close>: the runs of characters that are not white space; \<open>cur\<close> is the reversed run.\<close>

fun split_words :: "string \<Rightarrow> string \<Rightarrow> string list" where
  "split_words cur [] = (if cur = [] then [] else [rev cur])"
| "split_words cur (c # cs) =
     (if is_space c then (if cur = [] then split_words [] cs else rev cur # split_words [] cs)
      else split_words (c # cur) cs)"

definition str_words :: "string \<Rightarrow> string list" where
  "str_words s = split_words [] s"

definition is_plain_word :: "string \<Rightarrow> bool" where
  "is_plain_word w \<longleftrightarrow> w \<noteq> [] \<and> list_all (\<lambda>c. \<not> is_space c) w"

lemma split_words_run: "list_all (\<lambda>c. \<not> is_space c) w \<Longrightarrow> split_words cur (w @ s) = split_words (rev w @ cur) s"
  by (induction w arbitrary: cur) auto

lemma str_words_join: "list_all is_plain_word ws \<Longrightarrow> str_words (join '' '' ws) = ws"
  unfolding str_words_def
proof (induction "'' ''" ws rule: join.induct)
  case (2 x)
  then show ?case using split_words_run [of x "[]" "[]"] by (simp add: is_plain_word_def)
next
  case (3 x y xs)
  then show ?case
    using split_words_run [of x "[]" "'' '' @ join '' '' (y # xs)"] by (simp add: is_plain_word_def is_space_def)
qed simp

lemma split_words_plain: "list_all (\<lambda>c. \<not> is_space c) cur \<Longrightarrow> list_all is_plain_word (split_words cur s)"
  by (induction cur s rule: split_words.induct) (auto simp: is_plain_word_def)

lemma str_words_plain: "list_all is_plain_word (str_words s)"
  by (simp add: str_words_def split_words_plain)

text \<open>\<^verbatim>\<open>sorted(set(xs))\<close> and \<^verbatim>\<open>repr\<close> of a string and of a list of strings.\<close>

definition sorted_set :: "'a::linorder list \<Rightarrow> 'a list" where
  "sorted_set xs = sort (remdups xs)"

definition hex_digit :: "nat \<Rightarrow> char" where
  "hex_digit n = (if n < 10 then char_of (48 + n) else char_of (87 + n))"

text \<open>\<^verbatim>\<open>f"{n:x}"\<close>.\<close>

fun show_hex :: "nat \<Rightarrow> string" where
  "show_hex n = (if n < 16 then [hex_digit n] else show_hex (n div 16) @ [hex_digit (n mod 16)])"

declare show_hex.simps [simp del]

definition repr_char :: "char \<Rightarrow> char \<Rightarrow> string" where
  "repr_char q c = (let n = (of_char c :: nat) in
     if c = q \<or> c = CHR 0x5C then [CHR 0x5C, c]
     else if n = 10 then [CHR 0x5C, CHR ''n'']
     else if n = 13 then [CHR 0x5C, CHR ''r'']
     else if n = 9 then [CHR 0x5C, CHR ''t'']
     else if n < 32 \<or> (127 \<le> n \<and> n \<le> 160) \<or> n = 173
       then [CHR 0x5C, CHR ''x'', hex_digit (n div 16), hex_digit (n mod 16)]
     else [c])"

definition repr_str :: "string \<Rightarrow> string" where
  "repr_str s = (let q = (if CHR 0x27 \<in> set s \<and> CHR 0x22 \<notin> set s then CHR 0x22 else CHR 0x27)
     in [q] @ concat (map (repr_char q) s) @ [q])"

definition repr_strs :: "string list \<Rightarrow> string" where
  "repr_strs xs = ''['' @ join '', '' (map repr_str xs) @ '']''"

text \<open>
  \<^verbatim>\<open>repr\<close> and \<^verbatim>\<open>str\<close> of a decoded JSON value, and \<^verbatim>\<open>value[i]\<close> on a value of
  unknown shape with a non-negative index.
\<close>

fun json_repr :: "json \<Rightarrow> string" where
  "json_repr JNull = ''None''"
| "json_repr (JBool b) = (if b then ''True'' else ''False'')"
| "json_repr (JInt i) = str_int i"
| "json_repr (JFloat s) = s"
| "json_repr (JStr s) = repr_str s"
| "json_repr (JList xs) = ''['' @ join '', '' (map json_repr xs) @ '']''"
| "json_repr (JObj d) = ''{'' @ join '', '' (map (\<lambda>(k, v). repr_str k @ '': '' @ json_repr v) d) @ ''}''"

definition py_str :: "json \<Rightarrow> string" where
  "py_str v = (case v of JStr s \<Rightarrow> s | _ \<Rightarrow> json_repr v)"

definition jindex :: "nat \<Rightarrow> json \<Rightarrow> json res" where
  "jindex i value = (case value of
       JList xs \<Rightarrow> if i < length xs then Inr (xs ! i) else Inl (IndexError ''list index out of range'')
     | JObj _ \<Rightarrow> Inl (KeyError ''integer key'')
     | JStr s \<Rightarrow> if i < length s then Inr (JStr [s ! i]) else Inl (IndexError ''string index out of range'')
     | _ \<Rightarrow> Inl (TypeError ''object is not subscriptable''))"

definition jget :: "string \<Rightarrow> json \<Rightarrow> json res" where
  "jget k value = (case value of
       JObj d \<Rightarrow> getitem k d
     | _ \<Rightarrow> Inl (TypeError ''object is not subscriptable by a string''))"

subsection \<open>Environment, paths and child processes\<close>

text \<open>
  \<^verbatim>\<open>os.environ.get(k, default)\<close> and its integer reading.  The environment is the dictionary of
  its variables.
\<close>

definition env_get :: "sdict \<Rightarrow> string \<Rightarrow> string \<Rightarrow> string" where
  "env_get env k v = dict_get k v env"

definition env_int :: "sdict \<Rightarrow> string \<Rightarrow> string \<Rightarrow> int res" where
  "env_int env k v = py_int (env_get env k v)"

text \<open>
  \<^verbatim>\<open>pathlib.PurePosixPath\<close>: a root, which is empty, one or exactly two slashes, and the components
  without empty and dot components.  \<open>path_join\<close> is the operator \<^verbatim>\<open>/\<close>: an absolute
  right operand replaces the left one.
\<close>

record ppath =
  pp_root :: string
  pp_parts :: "string list"

definition to_path :: "string \<Rightarrow> ppath" where
  "to_path s =
     (let slashes = length (takeWhile (\<lambda>c. c = CHR ''/'') s)
      in \<lparr>pp_root = (if slashes = 0 then [] else if slashes = 2 then ''//'' else ''/''),
          pp_parts = filter (\<lambda>p. p \<noteq> [] \<and> p \<noteq> ''.'') (split_on (CHR ''/'') s)\<rparr>)"

definition path_str :: "ppath \<Rightarrow> string" where
  "path_str p = (if pp_root p = [] \<and> pp_parts p = [] then ''.'' else pp_root p @ join ''/'' (pp_parts p))"

definition path_join :: "ppath \<Rightarrow> ppath \<Rightarrow> ppath" where
  "path_join a b = (if pp_root b \<noteq> [] then b else a\<lparr>pp_parts := pp_parts a @ pp_parts b\<rparr>)"

definition is_relative_to :: "ppath \<Rightarrow> ppath \<Rightarrow> bool" where
  "is_relative_to p base \<longleftrightarrow> pp_root p = pp_root base \<and>
     take (length (pp_parts base)) (pp_parts p) = pp_parts base"

definition relative_to :: "ppath \<Rightarrow> ppath \<Rightarrow> ppath" where
  "relative_to p base = \<lparr>pp_root = [], pp_parts = drop (length (pp_parts base)) (pp_parts p)\<rparr>"

text \<open>\<^verbatim>\<open>str(base / name)\<close> for a base given as text.\<close>

definition path_under :: "string \<Rightarrow> string \<Rightarrow> string" where
  "path_under base name = path_str (path_join (to_path base) (to_path name))"

text \<open>
  A finished child process, and what a command of the laboratory leaves behind: its exit status
  and the children it ran, each with its argument vector and environment.
\<close>

record proc =
  pr_code :: int
  pr_out :: string
  pr_err :: string

type_synonym child = "string list \<times> sdict"
type_synonym outcome = "int \<times> child list"

end
