(* ===== verification/Topology.thy ===== *)
theory Topology
  imports Py_Prelude
begin

section \<open>The topology compiler\<close>

text \<open>
  Model of \<^verbatim>\<open>ubsim_lab/topology.py\<close>: the field validators, the loops over nodes,
  devices and links, and \<open>compile_topology\<close>, which turns a decoded JSON document into
  a launch plan or raises.  Every \<^verbatim>\<open>d[k]\<close> of the source is \<open>getitem\<close>, which raises
  \<^verbatim>\<open>KeyError\<close> on a missing key; every dictionary or set lookup with an unhashable key
  raises \<^verbatim>\<open>TypeError\<close>.  Sets of the source are lists without repetition.
\<close>

subsection \<open>Field validators\<close>

definition QEMU_CPUS :: "string list" where
  "QEMU_CPUS = [''cortex-a53'', ''cortex-a57'', ''cortex-a72'', ''cortex-a76'',
     ''cortex-a710'', ''neoverse-n1'', ''neoverse-n2'', ''neoverse-v1'', ''max'']"

definition t_fields :: "json \<Rightarrow> string list \<Rightarrow> string list \<Rightarrow> string \<Rightarrow> dict res" where
  "t_fields value allowed required loc = (case value of
       JObj d \<Rightarrow>
         (let extra = sorted_set (filter (\<lambda>k. k \<notin> set allowed) (map fst d));
              missing = sorted_set (filter (\<lambda>k. \<not> has_key k d) required)
          in if extra \<noteq> [] \<or> missing \<noteq> []
             then Inl (TopologyError (loc @ '': unknown fields '' @ repr_strs extra @
                    ''; missing fields '' @ repr_strs missing))
             else Inr d)
     | _ \<Rightarrow> Inl (TopologyError (loc @ '' must be an object'')))"

definition t_list :: "json \<Rightarrow> string \<Rightarrow> json list res" where
  "t_list value loc = (case value of
       JList (x # xs) \<Rightarrow> Inr (x # xs)
     | _ \<Rightarrow> Inl (TopologyError (loc @ '' must be a non-empty array'')))"

definition t_integer :: "json \<Rightarrow> string \<Rightarrow> int \<Rightarrow> int res" where
  "t_integer value loc minimum = (case value of
       JInt i \<Rightarrow> if i < minimum
         then Inl (TopologyError (loc @ '' must be an integer >= '' @ str_int minimum))
         else Inr i
     | _ \<Rightarrow> Inl (TopologyError (loc @ '' must be an integer >= '' @ str_int minimum)))"

definition name_chars :: string where
  "name_chars = ''abcdefghijklmnopqrstuvwxyzABCDEFGHIJKLMNOPQRSTUVWXYZ0123456789_-''"

definition name_ok :: "string \<Rightarrow> bool" where
  "name_ok s \<longleftrightarrow> s \<noteq> [] \<and> list_all (\<lambda>c. c \<in> set name_chars) s"

definition t_name :: "json \<Rightarrow> string \<Rightarrow> string res" where
  "t_name value loc = (case value of
       JStr s \<Rightarrow> if name_ok s then Inr s
         else Inl (TopologyError (loc @ '' must use letters, digits, '' @ repr_str ''_'' @
                '' or '' @ repr_str ''-''))
     | _ \<Rightarrow> Inl (TopologyError (loc @ '' must use letters, digits, '' @ repr_str ''_'' @
                '' or '' @ repr_str ''-'')))"

definition t_choice :: "json \<Rightarrow> string list \<Rightarrow> string \<Rightarrow> string res" where
  "t_choice value choices loc = (case value of
       JStr s \<Rightarrow> if s \<in> set choices then Inr s
         else Inl (TopologyError (loc @ '' must be one of '' @ join '', '' (sorted_set choices)))
     | _ \<Rightarrow> Inl (TopologyError (loc @ '' must be one of '' @ join '', '' (sorted_set choices))))"

text \<open>\<^verbatim>\<open>xs.index(x)\<close>.\<close>

definition index_of :: "'a \<Rightarrow> 'a list \<Rightarrow> nat" where
  "index_of x xs = length (takeWhile (\<lambda>y. y \<noteq> x) xs)"

definition list_index :: "json \<Rightarrow> string list \<Rightarrow> nat res" where
  "list_index value xs = (case value of
       JStr s \<Rightarrow> if s \<in> set xs then Inr (index_of s xs) else Inl (ValueError ''not in list'')
     | _ \<Rightarrow> Inl (ValueError ''not in list''))"

definition item_where :: "string \<Rightarrow> nat \<Rightarrow> string" where
  "item_where what i = what @ ''['' @ str_int (int i) @ '']''"

subsection \<open>Nodes\<close>

record qemu_machine =
  qm_cpu :: string
  qm_cores :: int
  qm_memory_mib :: int

record node_state =
  ns_names :: "string list"
  ns_simulators :: "string list"
  ns_profiles :: "string list"
  ns_qemu :: "qemu_machine list"

definition GEM5_PROFILES :: "string list" where
  "GEM5_PROFILES = [''fast'', ''kvm'', ''server'', ''modern'', ''udma400'']"

definition check_gem5_node :: "dict \<Rightarrow> string \<Rightarrow> node_state \<Rightarrow> node_state res" where
  "check_gem5_node node name st =
     (if list_ex (\<lambda>f. has_key f node) [''cpu'', ''cores'', ''memory_mib'']
      then Inl (TopologyError (name @ '': gem5 per-node CPU and memory settings are not supported yet''))
      else rbind (t_choice (dict_get ''profile'' JNull node) GEM5_PROFILES (name @ ''.profile''))
        (\<lambda>profile. Inr (st\<lparr>ns_profiles := List.insert profile (ns_profiles st)\<rparr>)))"

definition check_qemu_node :: "dict \<Rightarrow> string \<Rightarrow> node_state \<Rightarrow> node_state res" where
  "check_qemu_node node name st =
     (if has_key ''profile'' node
      then Inl (TopologyError (name @ '': QEMU uses cpu, cores and memory_mib, not profile''))
      else rbind (t_choice (dict_get ''cpu'' (JStr ''cortex-a72'') node) QEMU_CPUS (name @ ''.cpu''))
        (\<lambda>cpu. rbind (t_integer (dict_get ''cores'' (JInt 1) node) (name @ ''.cores'') 1)
        (\<lambda>cores. rbind (t_integer (dict_get ''memory_mib'' (JInt 1024) node) (name @ ''.memory_mib'') 512)
        (\<lambda>memory_mib.
           if cores > 16 \<or> memory_mib > 8192
           then Inl (TopologyError (name @ '': QEMU limit is 16 cores and 8192 MiB per node''))
           else Inr (st\<lparr>ns_qemu := ns_qemu st @
                  [\<lparr>qm_cpu = cpu, qm_cores = cores, qm_memory_mib = memory_mib\<rparr>]\<rparr>)))))"

definition check_node :: "nat \<times> json \<Rightarrow> node_state \<Rightarrow> node_state res" where
  "check_node x st =
     (let loc = item_where ''nodes'' (fst x) in
      rbind (t_fields (snd x) [''id'', ''simulator'', ''profile'', ''cpu'', ''cores'', ''memory_mib'']
               [''id'', ''simulator''] loc)
      (\<lambda>node. rbind (getitem ''id'' node)
      (\<lambda>raw_id. rbind (t_name raw_id (loc @ ''.id''))
      (\<lambda>name.
         if name \<in> set (ns_names st) then Inl (TopologyError (''duplicate node id '' @ name))
         else rbind (getitem ''simulator'' node)
           (\<lambda>raw_sim. rbind (t_choice raw_sim [''gem5'', ''qemu''] (name @ ''.simulator''))
           (\<lambda>simulator.
              let st' = st\<lparr>ns_names := ns_names st @ [name],
                           ns_simulators := List.insert simulator (ns_simulators st)\<rparr>
              in if simulator = ''gem5'' then check_gem5_node node name st'
                 else check_qemu_node node name st'))))))"

definition check_nodes :: "json list \<Rightarrow> node_state res" where
  "check_nodes nodes = rfold check_node (enumerate 0 nodes)
     \<lparr>ns_names = [], ns_simulators = [], ns_profiles = [], ns_qemu = []\<rparr>"

subsection \<open>Machine and switch\<close>

definition check_machine_entries :: "string \<Rightarrow> dict \<Rightarrow> unit res" where
  "check_machine_entries field machine =
     (if has_key field machine then
        rbind (getitem field machine) (\<lambda>v.
        rbind (t_integer v (''machine.'' @ field) 1) (\<lambda>n.
        if n > 1024 then Inl (TopologyError (''machine.'' @ field @ '' exceeds gem5 launcher limit''))
        else Inr ()))
      else Inr ())"

definition check_machine :: "dict \<Rightarrow> string \<Rightarrow> dict res" where
  "check_machine spec simulator =
     (if has_key ''machine'' spec then
        if simulator \<noteq> ''gem5''
        then Inl (TopologyError ''machine CPU tuning is currently supported only for gem5'')
        else
          rbind (getitem ''machine'' spec) (\<lambda>raw.
          rbind (t_fields raw [''o3_lq_entries'', ''o3_sq_entries'', ''l1d_prefetcher'', ''memory_size_gb'']
                   [] ''machine'') (\<lambda>machine.
          rbind (if has_key ''memory_size_gb'' machine then
                   rbind (getitem ''memory_size_gb'' machine) (\<lambda>v.
                   rbind (t_integer v ''machine.memory_size_gb'' 4) (\<lambda>gb.
                   if gb > 128 then Inl (TopologyError ''machine.memory_size_gb exceeds 128'')
                   else Inr ()))
                 else Inr ()) (\<lambda>_.
          rbind (check_machine_entries ''o3_lq_entries'' machine) (\<lambda>_.
          rbind (check_machine_entries ''o3_sq_entries'' machine) (\<lambda>_.
          rbind (if has_key ''l1d_prefetcher'' machine then
                   rbind (getitem ''l1d_prefetcher'' machine) (\<lambda>v.
                   rbind (t_choice v [''none'', ''stride'', ''stride_exclusive'',
                            ''stride_exclusive_d4'', ''stride_exclusive_xpage'']
                            ''machine.l1d_prefetcher'') (\<lambda>_. Inr ()))
                 else Inr ()) (\<lambda>_. Inr machine))))))
      else Inr [])"

definition check_switch :: "json list \<Rightarrow> (string option \<times> int) res" where
  "check_switch switches =
     (if length switches > 1
      then Inl (TopologyError ''current ns-3 adapter supports at most one switch'')
      else case switches of
        [] \<Rightarrow> Inr (None, 0)
      | raw # _ \<Rightarrow>
          rbind (t_fields raw [''id'', ''type'', ''delay_ns''] [''id'', ''type'', ''delay_ns''] ''switches[0]'')
          (\<lambda>switch. rbind (getitem ''id'' switch)
          (\<lambda>raw_id. rbind (t_name raw_id ''switches[0].id'')
          (\<lambda>switch_name. rbind (getitem ''type'' switch)
          (\<lambda>ty. if ty \<noteq> JStr ''ns3ub''
             then Inl (TopologyError ''switches[0].type must be ns3ub'')
             else rbind (getitem ''delay_ns'' switch)
               (\<lambda>d. rbind (t_integer d ''switches[0].delay_ns'' 0)
               (\<lambda>delay. Inr (Some switch_name, delay))))))))"

subsection \<open>Devices\<close>

record device_state =
  ds_by_node :: "(string \<times> dict) list"
  ds_by_device :: "(string \<times> dict) list"
  ds_counts :: "int list"
  ds_limits :: "int list"
  ds_specified :: nat

definition port_limit :: "string \<Rightarrow> int" where
  "port_limit simulator = (if simulator = ''gem5'' then 16 else 8)"

definition check_max_jettys :: "dict \<Rightarrow> string \<Rightarrow> device_state \<Rightarrow> device_state res" where
  "check_max_jettys device name st =
     (if has_key ''max_jettys'' device then
        rbind (getitem ''max_jettys'' device) (\<lambda>v.
        rbind (t_integer v (name @ ''.max_jettys'') 2) (\<lambda>limit.
        if limit > 65535
        then Inl (TopologyError (name @ ''.max_jettys exceeds the device limit 65535''))
        else Inr (st\<lparr>ds_specified := ds_specified st + 1,
                     ds_limits := List.insert limit (ds_limits st)\<rparr>)))
      else Inr st)"

text \<open>\<^verbatim>\<open>device["node"] not in node_names or device["node"] in by_node\<close>.\<close>

definition device_node :: "json \<Rightarrow> string list \<Rightarrow> (string \<times> dict) list \<Rightarrow> string \<Rightarrow> string res" where
  "device_node raw node_names by_node name =
     (let bad = Inl (TopologyError (name @ '': node must exist and have exactly one UDMA device'')) in
      case raw of
        JStr node \<Rightarrow> if node \<notin> set node_names \<or> has_key node by_node then bad else Inr node
      | _ \<Rightarrow> bad)"

definition check_device ::
    "string list \<Rightarrow> string \<Rightarrow> string option \<Rightarrow> nat \<times> json \<Rightarrow> device_state \<Rightarrow> device_state res" where
  "check_device node_names simulator switch_name x st =
     (let loc = item_where ''devices'' (fst x) in
      rbind (t_fields (snd x) [''id'', ''node'', ''type'', ''eid'', ''ports'', ''max_jettys'']
               [''id'', ''node'', ''type'', ''eid'', ''ports''] loc)
      (\<lambda>device. rbind (getitem ''id'' device)
      (\<lambda>raw_id. rbind (t_name raw_id (loc @ ''.id''))
      (\<lambda>name.
         if has_key name (ds_by_device st) \<or> Some name = switch_name
         then Inl (TopologyError (''duplicate component id '' @ name))
         else rbind (getitem ''node'' device)
      (\<lambda>raw_node. rbind (device_node raw_node node_names (ds_by_node st) name)
      (\<lambda>node. rbind (getitem ''type'' device)
      (\<lambda>ty. if ty \<noteq> JStr ''udma''
             then Inl (TopologyError (name @ '': only UDMA devices are supported''))
             else rbind (list_index raw_node node_names)
      (\<lambda>node_index. rbind (getitem ''eid'' device)
      (\<lambda>raw_eid. rbind (t_integer raw_eid (name @ ''.eid'') 0)
      (\<lambda>eid. if eid \<noteq> 256 + int node_index
             then Inl (TopologyError (name @ '': current launcher requires EID '' @ str_int (256 + int node_index)))
             else rbind (getitem ''ports'' device)
      (\<lambda>raw_ports. rbind (t_integer raw_ports (name @ ''.ports'') 1)
      (\<lambda>count. if count > port_limit simulator
             then Inl (TopologyError (name @ '': port count exceeds current '' @ simulator @ '' limit''))
             else rbind (check_max_jettys device name (st\<lparr>ds_counts := List.insert count (ds_counts st)\<rparr>))
      (\<lambda>st'. Inr (st'\<lparr>ds_by_node := dict_set node device (ds_by_node st'),
                       ds_by_device := dict_set name device (ds_by_device st')\<rparr>))))))))))))))"

definition check_devices ::
    "string list \<Rightarrow> string \<Rightarrow> string option \<Rightarrow> json list \<Rightarrow> device_state res" where
  "check_devices node_names simulator switch_name devices =
     rfold (check_device node_names simulator switch_name) (enumerate 0 devices)
       \<lparr>ds_by_node = [], ds_by_device = [], ds_counts = [], ds_limits = [], ds_specified = 0\<rparr>"

subsection \<open>Links\<close>

definition unhashable :: "'a res" where
  "unhashable = Inl (TypeError ''unhashable type'')"

definition direct_links :: "json list \<Rightarrow> nat \<Rightarrow> int \<Rightarrow> (string \<times> dict) list \<Rightarrow> (int \<times> int) list res" where
  "direct_links links node_count port_count by_device =
     (if node_count \<noteq> 2 \<or> port_count \<noteq> 1 \<or> length links \<noteq> 1
      then Inl (TopologyError ''direct UB link requires two nodes, one port each and one link'')
      else
        rbind (t_fields (hd links)
                 [''device'', ''device_port'', ''peer_device'', ''peer_port'', ''rate_gbps'', ''latency_ns'']
                 [''device'', ''device_port'', ''peer_device'', ''peer_port'', ''rate_gbps'', ''latency_ns'']
                 ''links[0]'')
        (\<lambda>link. rbind (getitem ''device'' link)
        (\<lambda>a. rbind (getitem ''peer_device'' link)
        (\<lambda>b. if \<not> hashable a \<or> \<not> hashable b then unhashable
           else if set [a, b] \<noteq> set (map (JStr \<circ> fst) by_device)
           then Inl (TopologyError ''direct UB link must connect the two distinct UDMA devices'')
           else rbind (getitem ''device_port'' link)
        (\<lambda>raw_dp. rbind (t_integer raw_dp ''links[0].device_port'' 0)
        (\<lambda>dp. rbind (if dp \<noteq> 0 then Inr True
                else rbind (getitem ''peer_port'' link)
                  (\<lambda>raw_pp. rbind (t_integer raw_pp ''links[0].peer_port'' 0) (\<lambda>pp. Inr (pp \<noteq> 0))))
        (\<lambda>bad. if bad
           then Inl (TopologyError ''direct UB link must use port 0 on both devices'')
           else rbind (getitem ''rate_gbps'' link)
        (\<lambda>raw_rate. rbind (t_integer raw_rate ''links[0].rate_gbps'' 1)
        (\<lambda>rate. rbind (getitem ''latency_ns'' link)
        (\<lambda>raw_lat. rbind (t_integer raw_lat ''links[0].latency_ns'' 2)
        (\<lambda>latency. if rate > 100000 \<or> latency > 1000000000
           then Inl (TopologyError ''direct UB link rate or delay exceeds launcher limit'')
           else Inr [(rate, latency div 2), (rate, latency - latency div 2)])))))))))))"

record link_state =
  ls_device_ports :: "(string \<times> int) list"
  ls_switch_ports :: "int list"
  ls_by_device :: "(string \<times> (int \<times> int)) list"

text \<open>
  \<^verbatim>\<open>link["device"] not in by_device or link["switch"] != switch_name\<close>: the first test
  hashes the value.
\<close>

definition link_device ::
    "json \<Rightarrow> json \<Rightarrow> string option \<Rightarrow> (string \<times> dict) list \<Rightarrow> string \<Rightarrow> string res" where
  "link_device raw_dev raw_sw switch_name by_device loc =
     (let bad = Inl (TopologyError (loc @ '': unknown device or switch'')) in
      if \<not> hashable raw_dev then unhashable
      else case raw_dev of
        JStr dev \<Rightarrow>
          if \<not> has_key dev by_device \<or>
             raw_sw \<noteq> (case switch_name of None \<Rightarrow> JNull | Some s \<Rightarrow> JStr s)
          then bad else Inr dev
      | _ \<Rightarrow> bad)"

definition check_link ::
    "string list \<Rightarrow> string option \<Rightarrow> int \<Rightarrow> (string \<times> dict) list \<Rightarrow> nat \<times> json \<Rightarrow>
     link_state \<Rightarrow> link_state res" where
  "check_link node_names switch_name port_count by_device x st =
     (let loc = item_where ''links'' (fst x) in
      rbind (t_fields (snd x)
               [''device'', ''device_port'', ''switch'', ''switch_port'', ''rate_gbps'', ''latency_ns'']
               [''device'', ''device_port'', ''switch'', ''switch_port'', ''rate_gbps'', ''latency_ns'']
               loc)
      (\<lambda>link. rbind (getitem ''device'' link)
      (\<lambda>raw_dev. rbind (getitem ''switch'' link)
      (\<lambda>raw_sw. rbind (link_device raw_dev raw_sw switch_name by_device loc)
      (\<lambda>dev. rbind (getitem ''device_port'' link)
      (\<lambda>raw_dp. rbind (t_integer raw_dp (loc @ ''.device_port'') 0)
      (\<lambda>device_port. rbind (getitem ''switch_port'' link)
      (\<lambda>raw_sp. rbind (t_integer raw_sp (loc @ ''.switch_port'') 0)
      (\<lambda>switch_port. if device_port \<ge> port_count
             then Inl (TopologyError (loc @ '': device port out of range''))
             else rbind (getitem dev by_device)
      (\<lambda>device. rbind (getitem ''node'' device)
      (\<lambda>raw_node. rbind (list_index raw_node node_names)
      (\<lambda>node_index. let required_port = int node_index * port_count + device_port in
             if switch_port \<noteq> required_port
             then Inl (TopologyError (loc @ '': current adapter maps this port to switch port '' @
                    str_int required_port))
             else if (dev, device_port) \<in> set (ls_device_ports st) \<or> switch_port \<in> set (ls_switch_ports st)
             then Inl (TopologyError (loc @ '': port is connected more than once''))
             else rbind (getitem ''rate_gbps'' link)
      (\<lambda>raw_rate. rbind (t_integer raw_rate (loc @ ''.rate_gbps'') 1)
      (\<lambda>rate. rbind (getitem ''latency_ns'' link)
      (\<lambda>raw_lat. rbind (t_integer raw_lat (loc @ ''.latency_ns'') 1)
      (\<lambda>latency. if rate > 100000 \<or> latency > 1000000000
             then Inl (TopologyError (loc @ '': rate or propagation delay exceeds launcher limit''))
             else let previous = dict_get dev (rate, latency) (ls_by_device st) in
               if previous \<noteq> (rate, latency)
               then Inl (TopologyError (loc @
                      '': all ports of one device currently need the same rate and delay''))
               else Inr \<lparr>ls_device_ports = ls_device_ports st @ [(dev, device_port)],
                         ls_switch_ports = ls_switch_ports st @ [switch_port],
                         ls_by_device = dict_set dev previous (ls_by_device st)\<rparr>))))))))))))))))"

primrec rmap :: "('a \<Rightarrow> 'e + 'b) \<Rightarrow> 'a list \<Rightarrow> 'e + 'b list" where
  "rmap f [] = Inr []"
| "rmap f (x # xs) = rbind (f x) (\<lambda>y. rbind (rmap f xs) (\<lambda>ys. Inr (y # ys)))"

definition device_id_of :: "(string \<times> dict) list \<Rightarrow> string \<Rightarrow> json res" where
  "device_id_of by_node node = rbind (getitem node by_node) (getitem ''id'')"

text \<open>\<^verbatim>\<open>d[value]\<close> where the key is a JSON value.\<close>

definition jlookup :: "json \<Rightarrow> (string \<times> 'v) list \<Rightarrow> 'v res" where
  "jlookup v d = (case v of
       JStr k \<Rightarrow> getitem k d
     | _ \<Rightarrow> if hashable v then Inl (KeyError ''not a string key'') else unhashable)"

definition link_of_node ::
    "(string \<times> dict) list \<Rightarrow> (string \<times> (int \<times> int)) list \<Rightarrow> string \<Rightarrow> (int \<times> int) res" where
  "link_of_node by_node link_by_device node =
     rbind (device_id_of by_node node) (\<lambda>v. jlookup v link_by_device)"

definition switch_links ::
    "json list \<Rightarrow> string list \<Rightarrow> string option \<Rightarrow> int \<Rightarrow> (string \<times> dict) list \<Rightarrow>
     (string \<times> dict) list \<Rightarrow> (int \<times> int) list res" where
  "switch_links links node_names switch_name port_count by_node by_device =
     (if int (length links) \<noteq> int (length node_names) * port_count
      then Inl (TopologyError ''every device port needs one dedicated switch link'')
      else rbind (rfold (check_link node_names switch_name port_count by_device) (enumerate 0 links)
                    \<lparr>ls_device_ports = [], ls_switch_ports = [], ls_by_device = []\<rparr>)
             (\<lambda>st. rmap (link_of_node by_node (ls_by_device st)) node_names))"

subsection \<open>The plan\<close>

datatype machine_plan = QemuMachine qemu_machine | Gem5Machine dict

record plan =
  p_name :: string
  p_simulator :: string
  p_node_ids :: "string list"
  p_device_ids :: "json list"
  p_switch_id :: "string option"
  p_fabric_layout :: string
  p_backend :: string
  p_port_count :: int
  p_max_jettys :: int
  p_jetty_limit_explicit :: bool
  p_switch_delay_ns :: int
  p_sync :: string
  p_checkpoint :: string
  p_node_links :: "(int \<times> int) list"
  p_machines :: "machine_plan list"

definition gem5_machine :: "dict \<Rightarrow> json \<Rightarrow> machine_plan res" where
  "gem5_machine machine node = rbind (jget ''profile'' node)
     (\<lambda>p. Inr (Gem5Machine (dict_update [(''profile'', p)] machine)))"

text \<open>The checks between the node loop and the machine section.\<close>

definition node_rules :: "node_state \<Rightarrow> nat \<Rightarrow> string \<Rightarrow> string res" where
  "node_rules ns node_count checkpoint =
     (if length (ns_simulators ns) \<noteq> 1
      then Inl (TopologyError ''mixed gem5/QEMU nodes need a new synchronized launcher'')
      else let simulator = hd (ns_simulators ns) in
        if simulator = ''gem5'' \<and> \<not> (2 \<le> node_count \<and> node_count \<le> 8)
        then Inl (TopologyError ''current gem5 launcher supports 2..8 nodes'')
        else if simulator = ''qemu'' \<and> \<not> (2 \<le> node_count \<and> node_count \<le> 8)
        then Inl (TopologyError ''current QEMU launcher supports 2..8 nodes'')
        else if length (ns_profiles ns) > 1
        then Inl (TopologyError ''current gem5 launcher requires one shared machine profile'')
        else if simulator = ''qemu'' \<and> checkpoint \<noteq> ''none''
        then Inl (TopologyError ''current QEMU launcher does not support checkpoint restore'')
        else Inr simulator)"

text \<open>The checks after the device loop; the result is the common port count.\<close>

definition device_rules :: "device_state \<Rightarrow> nat \<Rightarrow> nat \<Rightarrow> int res" where
  "device_rules ds node_count device_count =
     (if length (ds_by_node ds) \<noteq> node_count \<or> device_count \<noteq> node_count
      then Inl (TopologyError ''current launcher requires exactly one UDMA device per node'')
      else if length (ds_counts ds) \<noteq> 1 \<or> length (ds_limits ds) > 1 \<or>
              ds_specified ds \<notin> {0, device_count}
      then Inl (TopologyError ''current launcher requires equal port and Jetty limits on all devices'')
      else Inr (hd (ds_counts ds)))"

definition t_switches :: "json \<Rightarrow> json list res" where
  "t_switches value = (case value of
       JList xs \<Rightarrow> Inr xs
     | _ \<Rightarrow> Inl (TopologyError ''switches must be an array''))"

definition compile_topology :: "json \<Rightarrow> plan res" where
  "compile_topology raw =
     rbind (t_fields raw [''schema_version'', ''name'', ''nodes'', ''devices'', ''switches'',
              ''links'', ''execution'', ''machine'']
              [''schema_version'', ''name'', ''nodes'', ''devices'', ''switches'', ''links'',
               ''execution''] ''topology'')
     (\<lambda>spec. rbind (getitem ''schema_version'' spec)
     (\<lambda>version. if version \<noteq> JInt 1
        then Inl (TopologyError ''only schema_version 1 is supported'')
        else rbind (rbind (getitem ''name'' spec) (\<lambda>v. t_name v ''name''))
     (\<lambda>name. rbind (rbind (getitem ''nodes'' spec) (\<lambda>v. t_list v ''nodes''))
     (\<lambda>nodes. rbind (rbind (getitem ''devices'' spec) (\<lambda>v. t_list v ''devices''))
     (\<lambda>devices. rbind (rbind (getitem ''switches'' spec) t_switches)
     (\<lambda>switches. rbind (rbind (getitem ''links'' spec) (\<lambda>v. t_list v ''links''))
     (\<lambda>links. rbind (rbind (getitem ''execution'' spec) (\<lambda>v.
           t_fields v [''sync'', ''checkpoint''] [''sync'', ''checkpoint''] ''execution''))
     (\<lambda>execution. rbind (rbind (getitem ''sync'' execution) (\<lambda>v.
           t_choice v [''off'', ''required''] ''execution.sync''))
     (\<lambda>sync. rbind (rbind (getitem ''checkpoint'' execution) (\<lambda>v.
           t_choice v [''none'', ''auto''] ''execution.checkpoint''))
     (\<lambda>checkpoint. rbind (check_nodes nodes)
     (\<lambda>ns. rbind (node_rules ns (length nodes) checkpoint)
     (\<lambda>simulator. rbind (check_machine spec simulator)
     (\<lambda>machine. rbind (check_switch switches)
     (\<lambda>(switch_name, switch_delay). rbind (check_devices (ns_names ns) simulator switch_name devices)
     (\<lambda>ds. rbind (device_rules ds (length nodes) (length devices))
     (\<lambda>port_count. rbind (if switches = []
           then direct_links links (length nodes) port_count (ds_by_device ds)
           else switch_links links (ns_names ns) switch_name port_count (ds_by_node ds) (ds_by_device ds))
     (\<lambda>node_links. rbind (rmap (device_id_of (ds_by_node ds)) (ns_names ns))
     (\<lambda>device_ids. rbind (if simulator = ''qemu'' then Inr (map QemuMachine (ns_qemu ns))
           else rmap (gem5_machine machine) nodes)
     (\<lambda>machines. Inr
        \<lparr>p_name = name, p_simulator = simulator, p_node_ids = ns_names ns,
         p_device_ids = device_ids, p_switch_id = switch_name,
         p_fabric_layout = (if switches = [] then ''direct'' else ''switch''),
         p_backend = ''native-json'', p_port_count = port_count,
         p_max_jettys = (if ds_limits ds \<noteq> [] then hd (ds_limits ds)
           else if simulator = ''qemu'' \<or> ''modern'' \<in> set (ns_profiles ns) then 47 else 1152),
         p_jetty_limit_explicit = (ds_limits ds \<noteq> []),
         p_switch_delay_ns = switch_delay, p_sync = sync, p_checkpoint = checkpoint,
         p_node_links = node_links, p_machines = machines\<rparr>)))))))))))))))))))"

text \<open>The entries of \<^verbatim>\<open>links\<close> in a document.\<close>

definition raw_links :: "json \<Rightarrow> json list" where
  "raw_links raw = (case raw of
       JObj spec \<Rightarrow> (case map_of spec ''links'' of Some (JList links) \<Rightarrow> links | _ \<Rightarrow> [])
     | _ \<Rightarrow> [])"

subsection \<open>The shipped two-head configurations\<close>

text \<open>\<^verbatim>\<open>configs/topology-gem5-two-heads.json\<close> and \<^verbatim>\<open>configs/topology-qemu-two-heads.json\<close>, decoded.\<close>

definition gem5_two_heads :: json where
  "gem5_two_heads = JObj [
     (''schema_version'', JInt 1),
     (''name'', JStr ''gem5-two-heads''),
     (''nodes'', JList [JObj [(''id'', JStr ''head-a''), (''simulator'', JStr ''gem5''), (''profile'', JStr ''modern'')],
       JObj [(''id'', JStr ''head-b''), (''simulator'', JStr ''gem5''), (''profile'', JStr ''modern'')]]),
     (''machine'', JObj [(''o3_lq_entries'', JInt 64), (''o3_sq_entries'', JInt 64), (''l1d_prefetcher'', JStr ''stride_exclusive'')]),
     (''devices'', JList [JObj [(''id'', JStr ''udma-a''), (''node'', JStr ''head-a''), (''type'', JStr ''udma''), (''eid'', JInt 256), (''ports'', JInt 1), (''max_jettys'', JInt 47)],
       JObj [(''id'', JStr ''udma-b''), (''node'', JStr ''head-b''), (''type'', JStr ''udma''), (''eid'', JInt 257), (''ports'', JInt 1), (''max_jettys'', JInt 47)]]),
     (''switches'', JList [JObj [(''id'', JStr ''switch-0''), (''type'', JStr ''ns3ub''), (''delay_ns'', JInt 500)]]),
     (''links'', JList [JObj [(''device'', JStr ''udma-a''), (''device_port'', JInt 0), (''switch'', JStr ''switch-0''), (''switch_port'', JInt 0), (''rate_gbps'', JInt 400), (''latency_ns'', JInt 375)],
       JObj [(''device'', JStr ''udma-b''), (''device_port'', JInt 0), (''switch'', JStr ''switch-0''), (''switch_port'', JInt 1), (''rate_gbps'', JInt 400), (''latency_ns'', JInt 375)]]),
     (''execution'', JObj [(''sync'', JStr ''required''), (''checkpoint'', JStr ''auto'')])]"

definition qemu_two_heads :: json where
  "qemu_two_heads = JObj [
     (''schema_version'', JInt 1),
     (''name'', JStr ''qemu-two-heads-one-400g-switch''),
     (''nodes'', JList [JObj [(''id'', JStr ''head-a''), (''simulator'', JStr ''qemu'')],
       JObj [(''id'', JStr ''head-b''), (''simulator'', JStr ''qemu'')]]),
     (''devices'', JList [JObj [(''id'', JStr ''udma-a''), (''node'', JStr ''head-a''), (''type'', JStr ''udma''), (''eid'', JInt 256), (''ports'', JInt 1), (''max_jettys'', JInt 47)],
       JObj [(''id'', JStr ''udma-b''), (''node'', JStr ''head-b''), (''type'', JStr ''udma''), (''eid'', JInt 257), (''ports'', JInt 1), (''max_jettys'', JInt 47)]]),
     (''switches'', JList [JObj [(''id'', JStr ''switch-0''), (''type'', JStr ''ns3ub''), (''delay_ns'', JInt 500)]]),
     (''links'', JList [JObj [(''device'', JStr ''udma-a''), (''device_port'', JInt 0), (''switch'', JStr ''switch-0''), (''switch_port'', JInt 0), (''rate_gbps'', JInt 400), (''latency_ns'', JInt 375)],
       JObj [(''device'', JStr ''udma-b''), (''device_port'', JInt 0), (''switch'', JStr ''switch-0''), (''switch_port'', JInt 1), (''rate_gbps'', JInt 400), (''latency_ns'', JInt 375)]]),
     (''execution'', JObj [(''sync'', JStr ''off''), (''checkpoint'', JStr ''none'')])]"

text \<open>
  The plans of both; \<^verbatim>\<open>configs/topology-gem5-direct-link.json\<close>, which differs
  from it in name, switches and links, with its plan; and a document whose links name a list
  where a device name is expected.
\<close>

definition gem5_two_heads_plan :: plan where
  "gem5_two_heads_plan =
     \<lparr>p_name = ''gem5-two-heads'', p_simulator = ''gem5'', p_node_ids = [''head-a'', ''head-b''],
      p_device_ids = [JStr ''udma-a'', JStr ''udma-b''], p_switch_id = Some ''switch-0'',
      p_fabric_layout = ''switch'', p_backend = ''native-json'', p_port_count = 1,
      p_max_jettys = 47, p_jetty_limit_explicit = True, p_switch_delay_ns = 500,
      p_sync = ''required'', p_checkpoint = ''auto'', p_node_links = [(400, 375), (400, 375)],
      p_machines = replicate 2 (Gem5Machine [(''profile'', JStr ''modern''), (''o3_lq_entries'', JInt 64),
        (''o3_sq_entries'', JInt 64), (''l1d_prefetcher'', JStr ''stride_exclusive'')])\<rparr>"

definition qemu_two_heads_plan :: plan where
  "qemu_two_heads_plan =
     \<lparr>p_name = ''qemu-two-heads-one-400g-switch'', p_simulator = ''qemu'', p_node_ids = [''head-a'', ''head-b''],
      p_device_ids = [JStr ''udma-a'', JStr ''udma-b''], p_switch_id = Some ''switch-0'',
      p_fabric_layout = ''switch'', p_backend = ''native-json'', p_port_count = 1,
      p_max_jettys = 47, p_jetty_limit_explicit = True, p_switch_delay_ns = 500,
      p_sync = ''off'', p_checkpoint = ''none'', p_node_links = [(400, 375), (400, 375)],
      p_machines = replicate 2 (QemuMachine \<lparr>qm_cpu = ''cortex-a72'', qm_cores = 1, qm_memory_mib = 1024\<rparr>)\<rparr>"

definition with_field :: "string \<Rightarrow> json \<Rightarrow> json \<Rightarrow> json" where
  "with_field k v raw = (case raw of JObj d \<Rightarrow> JObj (dict_set k v d) | _ \<Rightarrow> raw)"

definition gem5_direct_link :: json where
  "gem5_direct_link = with_field ''switches'' (JList [])
     (with_field ''links'' (JList [JObj [(''device'', JStr ''udma-a''), (''device_port'', JInt 0),
        (''peer_device'', JStr ''udma-b''), (''peer_port'', JInt 0), (''rate_gbps'', JInt 400),
        (''latency_ns'', JInt 750)]])
     (with_field ''name'' (JStr ''gem5-two-heads-direct-400g'') gem5_two_heads))"

definition unhashable_device :: json where
  "unhashable_device = with_field ''links'' (JList (replicate 2 (JObj [(''device'', JList []), (''device_port'', JInt 0),
        (''switch'', JStr ''switch-0''), (''switch_port'', JInt 0), (''rate_gbps'', JInt 400),
        (''latency_ns'', JInt 375)]))) gem5_two_heads"

definition gem5_direct_plan :: plan where
  "gem5_direct_plan = gem5_two_heads_plan\<lparr>p_name := ''gem5-two-heads-direct-400g'', p_switch_id := None,
     p_fabric_layout := ''direct'', p_switch_delay_ns := 0\<rparr>"

end
