(* ===== verification/Topology_Facts.thy ===== *)
theory Topology_Facts
  imports Topology
begin

section \<open>What the topology compiler guarantees\<close>

text \<open>
  Facts about the validators, the invariant of each validating loop (an interpretation of
  \<open>checked_loop\<close>), the exceptions each stage can raise, and the well-formedness of an
  accepted plan.
\<close>

subsection \<open>Validators\<close>

lemma sorted_set_Nil [simp]: "sorted_set xs = [] \<longleftrightarrow> xs = []"
  by (simp add: sorted_set_def) (metis remdups_eq_nil_iff set_empty set_sort)

lemma t_integer_Inr [simp]: "t_integer v l m = Inr i \<longleftrightarrow> v = JInt i \<and> m \<le> i"
  by (auto simp: t_integer_def split: json.splits if_splits)

lemma t_name_Inr [simp]: "t_name v l = Inr s \<longleftrightarrow> v = JStr s \<and> name_ok s"
  by (auto simp: t_name_def split: json.splits if_splits)

lemma t_choice_Inr [simp]: "t_choice v cs l = Inr s \<longleftrightarrow> v = JStr s \<and> s \<in> set cs"
  by (auto simp: t_choice_def split: json.splits if_splits)

lemma t_list_Inr [simp]: "t_list v l = Inr xs \<longleftrightarrow> v = JList xs \<and> xs \<noteq> []"
  by (auto simp: t_list_def split: json.splits list.splits)

lemma t_fields_Inr [simp]:
  "t_fields v allowed required l = Inr d \<longleftrightarrow>
     v = JObj d \<and> fst ` set d \<subseteq> set allowed \<and> list_all (\<lambda>k. has_key k d) required"
  by (auto simp: t_fields_def Let_def filter_empty_conv list_all_iff split: json.splits if_splits)

lemma list_index_Inr [simp]:
  "list_index v xs = Inr i \<longleftrightarrow> (\<exists>s. v = JStr s \<and> s \<in> set xs \<and> i = index_of s xs)"
  by (auto simp: list_index_def split: json.splits)

lemma jget_Inr [simp]: "jget k v = Inr x \<longleftrightarrow> (\<exists>d. v = JObj d \<and> map_of d k = Some x)"
  by (auto simp: jget_def split: json.splits)

lemma index_of_less: "x \<in> set xs \<Longrightarrow> index_of x xs < length xs"
  by (induction xs) (auto simp: index_of_def)

lemma nth_index_of [simp]: "x \<in> set xs \<Longrightarrow> xs ! index_of x xs = x"
  by (induction xs) (auto simp: index_of_def)

lemma index_of_nth: "distinct xs \<Longrightarrow> i < length xs \<Longrightarrow> index_of (xs ! i) xs = i"
  by (metis index_of_less nth_eq_iff_index_eq nth_index_of nth_mem)

lemma rmap_Inr: "rmap f xs = Inr ys \<longleftrightarrow> list_all2 (\<lambda>x y. f x = Inr y) xs ys"
proof (induction xs arbitrary: ys)
  case (Cons x xs)
  then show ?case by (cases ys) auto
qed auto

lemma rmap_total: "(\<And>x. x \<in> set xs \<Longrightarrow> \<exists>y. f x = Inr y) \<Longrightarrow> \<exists>ys. rmap f xs = Inr ys \<and> length ys = length xs"
  by (induction xs) fastforce+

lemma rmap_returns: "(\<And>x. x \<in> set xs \<Longrightarrow> \<exists>y. f x = Inr y) \<Longrightarrow> \<exists>ys. rmap f xs = Inr ys"
  using rmap_total by blast

lemma rmap_raises [raises_intro]:
  "list_all (\<lambda>x. raises_only P (f x)) xs \<Longrightarrow> raises_only P (rmap f xs)"
  by (induction xs) (auto intro!: raises_intro)

subsection \<open>Exceptions of the validators\<close>

lemma t_integer_raises [raises_intro]: "admits_topology P \<Longrightarrow> raises_only P (t_integer v l m)"
  by (auto simp: t_integer_def raises_only_def admits_topology_def split: json.splits)

lemma t_name_raises [raises_intro]: "admits_topology P \<Longrightarrow> raises_only P (t_name v l)"
  by (auto simp: t_name_def raises_only_def admits_topology_def split: json.splits)

lemma t_choice_raises [raises_intro]: "admits_topology P \<Longrightarrow> raises_only P (t_choice v cs l)"
  by (auto simp: t_choice_def raises_only_def admits_topology_def split: json.splits)

lemma t_list_raises [raises_intro]: "admits_topology P \<Longrightarrow> raises_only P (t_list v l)"
  by (auto simp: t_list_def raises_only_def admits_topology_def split: json.splits list.splits)

lemma t_fields_raises [raises_intro]: "admits_topology P \<Longrightarrow> raises_only P (t_fields v a r l)"
  by (auto simp: t_fields_def raises_only_def admits_topology_def Let_def split: json.splits)

lemma getitem_raises [raises_intro]: "has_key k d \<Longrightarrow> raises_only P (getitem k d)"
  by (simp add: getitem_present raises_only_Inr)

lemma list_index_raises [raises_intro]:
  "v \<in> JStr ` set xs \<Longrightarrow> raises_only P (list_index v xs)"
  by (auto simp: list_index_def raises_only_Inr)

text \<open>
  The exceptions of the compiler: its own \<^verbatim>\<open>TopologyError\<close> and, from hashing a list or
  an object given as a device name, \<^verbatim>\<open>TypeError\<close>.
\<close>

fun topology_exc :: "py_exc \<Rightarrow> bool" where
  "topology_exc (TopologyError _) = True"
| "topology_exc (TypeError _) = True"
| "topology_exc _ = False"

lemma admits_topology_exc [simp]: "admits_topology topology_exc"
  by (simp add: admits_topology_def)

lemma map_of_dict_get: "map_of d k = Some v \<Longrightarrow> dict_get k w d = v"
  by (simp add: dict_get_def)

lemma dict_get_neq: "dict_get k w d = v \<Longrightarrow> v \<noteq> w \<Longrightarrow> map_of d k = Some v"
  by (auto simp: dict_get_def split: option.splits)

subsection \<open>The node loop\<close>

definition qemu_machine_ok :: "qemu_machine \<Rightarrow> bool" where
  "qemu_machine_ok m \<longleftrightarrow> qm_cpu m \<in> set QEMU_CPUS \<and> 1 \<le> qm_cores m \<and> qm_cores m \<le> 16 \<and>
     512 \<le> qm_memory_mib m \<and> qm_memory_mib m \<le> 8192"

definition node_named :: "json \<Rightarrow> string \<Rightarrow> bool" where
  "node_named raw name \<longleftrightarrow> (\<exists>d. raw = JObj d \<and> map_of d ''id'' = Some (JStr name))"

definition node_profile :: "json \<Rightarrow> bool" where
  "node_profile raw \<longleftrightarrow> (\<exists>d p. raw = JObj d \<and> map_of d ''profile'' = Some (JStr p) \<and> p \<in> set GEM5_PROFILES)"

definition node_inv :: "(nat \<times> json) list \<Rightarrow> node_state \<Rightarrow> bool" where
  "node_inv done st \<longleftrightarrow>
     distinct (ns_names st) \<and> list_all name_ok (ns_names st) \<and>
     list_all2 (\<lambda>x n. node_named (snd x) n) done (ns_names st) \<and>
     distinct (ns_simulators st) \<and> set (ns_simulators st) \<subseteq> {''gem5'', ''qemu''} \<and>
     (''qemu'' \<notin> set (ns_simulators st) \<longrightarrow> list_all (\<lambda>x. node_profile (snd x)) done) \<and>
     (''gem5'' \<notin> set (ns_simulators st) \<longrightarrow> length (ns_qemu st) = length done) \<and>
     list_all qemu_machine_ok (ns_qemu st) \<and> set (ns_profiles st) \<subseteq> set GEM5_PROFILES"

lemma check_gem5_node_Inr:
  "check_gem5_node node name st = Inr st' \<longleftrightarrow>
     \<not> list_ex (\<lambda>f. has_key f node) [''cpu'', ''cores'', ''memory_mib''] \<and>
     (\<exists>p. map_of node ''profile'' = Some (JStr p) \<and> p \<in> set GEM5_PROFILES \<and>
          st' = st\<lparr>ns_profiles := List.insert p (ns_profiles st)\<rparr>)"
  by (auto simp: check_gem5_node_def dict_get_def split: option.splits)

lemma check_qemu_node_Inr:
  "check_qemu_node node name st = Inr st' \<Longrightarrow>
     \<exists>cpu cores mem. qemu_machine_ok \<lparr>qm_cpu = cpu, qm_cores = cores, qm_memory_mib = mem\<rparr> \<and>
       st' = st\<lparr>ns_qemu := ns_qemu st @ [\<lparr>qm_cpu = cpu, qm_cores = cores, qm_memory_mib = mem\<rparr>]\<rparr>"
  by (auto simp: check_qemu_node_def qemu_machine_ok_def not_less split: if_splits)

lemma check_gem5_node_raises [raises_intro]:
  "admits_topology P \<Longrightarrow> raises_only P (check_gem5_node node name st)"
  unfolding check_gem5_node_def by (intro raises_intro) simp_all

lemma check_qemu_node_raises [raises_intro]:
  "admits_topology P \<Longrightarrow> raises_only P (check_qemu_node node name st)"
  unfolding check_qemu_node_def by (intro raises_intro) simp_all

definition node_entered :: "string \<Rightarrow> string \<Rightarrow> node_state \<Rightarrow> node_state" where
  "node_entered name sim st = st\<lparr>ns_names := ns_names st @ [name],
     ns_simulators := List.insert sim (ns_simulators st)\<rparr>"

lemma check_node_Inr:
  "check_node x st = Inr st' \<Longrightarrow>
     \<exists>node name. snd x = JObj node \<and> map_of node ''id'' = Some (JStr name) \<and> name_ok name \<and>
       name \<notin> set (ns_names st) \<and>
       (check_gem5_node node name (node_entered name ''gem5'' st) = Inr st' \<or>
        check_qemu_node node name (node_entered name ''qemu'' st) = Inr st')"
  by (auto simp: check_node_def node_entered_def Let_def split: if_splits)

lemma check_node_inv:
  assumes inv: "node_inv done st" and step: "check_node x st = Inr st'"
  shows "node_inv (done @ [x]) st'"
proof -
  from check_node_Inr [OF step] obtain node name where
      raw: "snd x = JObj node" "map_of node ''id'' = Some (JStr name)"
    and new: "name_ok name" "name \<notin> set (ns_names st)"
    and rest: "check_gem5_node node name (node_entered name ''gem5'' st) = Inr st' \<or>
        check_qemu_node node name (node_entered name ''qemu'' st) = Inr st'"
    by blast
  have named: "node_named (snd x) name"
    using raw by (simp add: node_named_def)
  from rest show ?thesis
  proof
    assume "check_gem5_node node name (node_entered name ''gem5'' st) = Inr st'"
    then obtain p where p: "map_of node ''profile'' = Some (JStr p)" "p \<in> set GEM5_PROFILES"
      and st': "st' = (node_entered name ''gem5'' st)\<lparr>ns_profiles := List.insert p (ns_profiles st)\<rparr>"
      by (auto simp: check_gem5_node_Inr node_entered_def)
    have "node_profile (snd x)"
      using p raw by (auto simp: node_profile_def)
    with inv named new p st' show ?thesis
      by (auto simp: node_inv_def node_entered_def list_all2_append list_all2_lengthD)
  next
    assume "check_qemu_node node name (node_entered name ''qemu'' st) = Inr st'"
    with inv named new show ?thesis
      by (auto dest!: check_qemu_node_Inr simp: node_inv_def node_entered_def list_all2_append
          list_all2_lengthD)
  qed
qed

lemma check_node_raises: "raises_only is_TopologyError (check_node x st)"
  unfolding check_node_def Let_def
  by (intro raises_intro) (auto simp: list_all_iff)

interpretation nodes: checked_loop check_node node_inv is_TopologyError
  by unfold_locales (auto intro: check_node_inv check_node_raises)

lemma node_inv_init [simp]:
  "node_inv [] \<lparr>ns_names = [], ns_simulators = [], ns_profiles = [], ns_qemu = []\<rparr>"
  by (simp add: node_inv_def)

lemma check_nodes_inv: "check_nodes nodes = Inr ns \<Longrightarrow> node_inv (enumerate 0 nodes) ns"
  unfolding check_nodes_def by (erule nodes.loop_inv [rotated]) simp

lemma check_nodes_raises [raises_intro]: "admits_topology P \<Longrightarrow> raises_only P (check_nodes nodes)"
  unfolding check_nodes_def by (rule raises_only_weaken, rule nodes.loop_raises) simp_all

subsection \<open>Machine, switch and the rules between the loops\<close>

lemma check_machine_raises [raises_intro]: "admits_topology P \<Longrightarrow> raises_only P (check_machine spec sim)"
  unfolding check_machine_def check_machine_entries_def by (intro raises_intro) simp_all

lemma check_switch_raises [raises_intro]:
  assumes P: "admits_topology P"
  shows "raises_only P (check_switch switches)"
proof (cases switches)
  case Nil
  then show ?thesis by (simp add: check_switch_def raises_intro)
next
  case (Cons raw rest)
  then show ?thesis
    unfolding check_switch_def Cons list.case by (intro raises_intro) (simp_all add: P)
qed

lemma check_switch_Inr:
  "check_switch switches = Inr (name, delay) \<Longrightarrow>
     0 \<le> delay \<and> (switches = [] \<longleftrightarrow> name = None) \<and> length switches \<le> 1 \<and>
     (\<forall>n. name = Some n \<longrightarrow> name_ok n)"
  by (auto simp: check_switch_def split: if_splits list.splits)

lemma node_rules_raises [raises_intro]: "admits_topology P \<Longrightarrow> raises_only P (node_rules ns n cp)"
  unfolding node_rules_def Let_def by (intro raises_intro) simp_all

lemma device_rules_raises [raises_intro]: "admits_topology P \<Longrightarrow> raises_only P (device_rules ds n m)"
  unfolding device_rules_def by (intro raises_intro) simp_all

lemma node_rules_Inr:
  assumes "node_rules ns n cp = Inr sim" and "node_inv done ns"
  shows "ns_simulators ns = [sim]" "sim = ''gem5'' \<or> sim = ''qemu''" "2 \<le> n" "n \<le> 8"
    "sim = ''qemu'' \<longrightarrow> cp = ''none''" "length (ns_profiles ns) \<le> 1"
proof -
  from assms(1) have len: "length (ns_simulators ns) = 1" and sim: "sim = hd (ns_simulators ns)"
    by (auto simp: node_rules_def Let_def split: if_splits)
  then show s: "ns_simulators ns = [sim]"
    by (cases "ns_simulators ns") auto
  with assms(2) show "sim = ''gem5'' \<or> sim = ''qemu''"
    by (auto simp: node_inv_def)
  with assms(1) s show "2 \<le> n" "n \<le> 8" "sim = ''qemu'' \<longrightarrow> cp = ''none''" "length (ns_profiles ns) \<le> 1"
    by (auto simp: node_rules_def Let_def split: if_splits)
qed

subsection \<open>The device loop\<close>

text \<open>
  What is known of a device that passed the loop: its name, its node, the identifier the
  launcher derives from the node's position, and its port count.
\<close>

definition device_ok :: "string list \<Rightarrow> string \<Rightarrow> string \<Rightarrow> string \<Rightarrow> dict \<Rightarrow> bool" where
  "device_ok node_names simulator name node d \<longleftrightarrow>
     map_of d ''id'' = Some (JStr name) \<and> map_of d ''node'' = Some (JStr node) \<and>
     name_ok name \<and> node \<in> set node_names \<and>
     map_of d ''eid'' = Some (JInt (256 + int (index_of node node_names))) \<and>
     (\<exists>c. map_of d ''ports'' = Some (JInt c) \<and> 1 \<le> c \<and> c \<le> port_limit simulator)"

definition device_inv ::
    "string list \<Rightarrow> string \<Rightarrow> string option \<Rightarrow> (nat \<times> json) list \<Rightarrow> device_state \<Rightarrow> bool" where
  "device_inv node_names simulator switch_name done st \<longleftrightarrow>
     distinct (map fst (ds_by_node st)) \<and> distinct (map fst (ds_by_device st)) \<and>
     length (ds_by_node st) = length done \<and> length (ds_by_device st) = length done \<and>
     (\<forall>(node, d) \<in> set (ds_by_node st). \<exists>name. device_ok node_names simulator name node d \<and>
        (name, d) \<in> set (ds_by_device st) \<and> JObj d \<in> snd ` set done \<and>
        (\<forall>c. map_of d ''ports'' = Some (JInt c) \<longrightarrow> c \<in> set (ds_counts st))) \<and>
     (\<forall>(name, d) \<in> set (ds_by_device st). \<exists>node. device_ok node_names simulator name node d \<and>
        (node, d) \<in> set (ds_by_node st)) \<and>
     (\<forall>name \<in> fst ` set (ds_by_device st). Some name \<noteq> switch_name) \<and>
     (\<forall>c \<in> set (ds_counts st). 1 \<le> c \<and> c \<le> port_limit simulator) \<and>
     (\<forall>l \<in> set (ds_limits st). 2 \<le> l \<and> l \<le> 65535)"

lemma device_inv_init [simp]:
  "device_inv nn sim sw [] \<lparr>ds_by_node = [], ds_by_device = [], ds_counts = [], ds_limits = [], ds_specified = 0\<rparr>"
  by (simp add: device_inv_def)

lemma device_inv_by_node:
  assumes "device_inv nn sim sw done st" and "(node, d) \<in> set (ds_by_node st)"
  shows "\<exists>name. device_ok nn sim name node d \<and> (name, d) \<in> set (ds_by_device st) \<and>
     JObj d \<in> snd ` set done \<and> (\<forall>c. map_of d ''ports'' = Some (JInt c) \<longrightarrow> c \<in> set (ds_counts st))"
  using assms unfolding device_inv_def by - (elim conjE, drule (1) bspec, simp)

lemma device_inv_by_device:
  assumes "device_inv nn sim sw done st" and "(name, d) \<in> set (ds_by_device st)"
  shows "\<exists>node. device_ok nn sim name node d \<and> (node, d) \<in> set (ds_by_node st)"
  using assms unfolding device_inv_def by - (elim conjE, drule (1) bspec, simp)

lemma check_max_jettys_Inr:
  "check_max_jettys d name st = Inr st' \<Longrightarrow>
     ds_by_node st' = ds_by_node st \<and> ds_by_device st' = ds_by_device st \<and>
     ds_counts st' = ds_counts st \<and>
     (\<forall>l \<in> set (ds_limits st'). l \<in> set (ds_limits st) \<or> (2 \<le> l \<and> l \<le> 65535))"
  by (auto simp: check_max_jettys_def not_less split: if_splits)

lemma check_max_jettys_raises [raises_intro]:
  "admits_topology P \<Longrightarrow> raises_only P (check_max_jettys d name st)"
  unfolding check_max_jettys_def by (intro raises_intro) simp_all

lemma device_node_Inr [simp]:
  "device_node raw nn by_node name = Inr n \<longleftrightarrow> raw = JStr n \<and> n \<in> set nn \<and> \<not> has_key n by_node"
  by (auto simp: device_node_def Let_def split: json.splits)

lemma device_node_raises [raises_intro]: "admits_topology P \<Longrightarrow> raises_only P (device_node raw nn by_node name)"
  by (auto simp: device_node_def raises_only_def admits_topology_def Let_def split: json.splits)

lemma check_device_Inr:
  assumes "check_device nn sim sw x st = Inr st'"
  shows "\<exists>d name node c. snd x = JObj d \<and> device_ok nn sim name node d \<and>
     name \<notin> fst ` set (ds_by_device st) \<and> node \<notin> fst ` set (ds_by_node st) \<and> Some name \<noteq> sw \<and>
     map_of d ''ports'' = Some (JInt c) \<and>
     ds_by_node st' = ds_by_node st @ [(node, d)] \<and> ds_by_device st' = ds_by_device st @ [(name, d)] \<and>
     ds_counts st' = List.insert c (ds_counts st) \<and>
     (\<forall>l \<in> set (ds_limits st'). l \<in> set (ds_limits st) \<or> (2 \<le> l \<and> l \<le> 65535))"
proof -
  from assms obtain d name node c s where
    "snd x = JObj d" "map_of d ''id'' = Some (JStr name)" "name_ok name"
    "name \<notin> fst ` set (ds_by_device st)" "Some name \<noteq> sw"
    "map_of d ''node'' = Some (JStr node)" "node \<in> set nn" "node \<notin> fst ` set (ds_by_node st)"
    "map_of d ''eid'' = Some (JInt (256 + int (index_of node nn)))"
    "map_of d ''ports'' = Some (JInt c)" "1 \<le> c" "c \<le> port_limit sim"
    "check_max_jettys d name (st\<lparr>ds_counts := List.insert c (ds_counts st)\<rparr>) = Inr s"
    "st' = s\<lparr>ds_by_node := dict_set node d (ds_by_node s), ds_by_device := dict_set name d (ds_by_device s)\<rparr>"
    by (auto simp: check_device_def Let_def has_key_def not_less split: if_splits)
  then show ?thesis
    using check_max_jettys_Inr [of d name "st\<lparr>ds_counts := List.insert c (ds_counts st)\<rparr>" s]
    by (auto simp: device_ok_def dict_set_new)
qed

lemma check_device_inv:
  assumes inv: "device_inv nn sim sw done st" and step: "check_device nn sim sw x st = Inr st'"
  shows "device_inv nn sim sw (done @ [x]) st'"
proof -
  from check_device_Inr [OF step] obtain d name node c where
      x: "snd x = JObj d" and ok: "device_ok nn sim name node d"
    and new: "name \<notin> fst ` set (ds_by_device st)" "node \<notin> fst ` set (ds_by_node st)" "Some name \<noteq> sw"
    and c: "map_of d ''ports'' = Some (JInt c)"
    and st': "ds_by_node st' = ds_by_node st @ [(node, d)]" "ds_by_device st' = ds_by_device st @ [(name, d)]"
      "ds_counts st' = List.insert c (ds_counts st)"
    and lim: "\<forall>l \<in> set (ds_limits st'). l \<in> set (ds_limits st) \<or> (2 \<le> l \<and> l \<le> 65535)"
    by blast
  have cb: "1 \<le> c \<and> c \<le> port_limit sim"
    using ok c by (simp add: device_ok_def)
  have old: "\<exists>m. device_ok nn sim m n e \<and>
      (m, e) \<in> set (ds_by_device st') \<and> JObj e \<in> snd ` set (done @ [x]) \<and>
      (\<forall>k. map_of e ''ports'' = Some (JInt k) \<longrightarrow> k \<in> set (ds_counts st'))"
    if "(n, e) \<in> set (ds_by_node st)" for n e
    using device_inv_by_node [OF inv that] by (auto simp: st')
  have old': "\<exists>n. device_ok nn sim m n e \<and> (n, e) \<in> set (ds_by_node st')"
    if "(m, e) \<in> set (ds_by_device st)" for m e
    using device_inv_by_device [OF inv that] by (auto simp: st')
  have JObj: "JObj d \<in> snd ` set (done @ [x])"
    using x by (metis image_eqI in_set_conv_decomp)
  show ?thesis
    unfolding device_inv_def
  proof (intro conjI)
    show "\<forall>(n, e) \<in> set (ds_by_node st'). \<exists>m. device_ok nn sim m n e \<and>
        (m, e) \<in> set (ds_by_device st') \<and> JObj e \<in> snd ` set (done @ [x]) \<and>
        (\<forall>k. map_of e ''ports'' = Some (JInt k) \<longrightarrow> k \<in> set (ds_counts st'))"
      using old ok JObj c by (auto simp: st')
    show "\<forall>(m, e) \<in> set (ds_by_device st'). \<exists>n. device_ok nn sim m n e \<and> (n, e) \<in> set (ds_by_node st')"
      using old' ok by (auto simp: st')
  qed (use inv new st' cb lim in \<open>auto simp: device_inv_def\<close>)
qed

lemma check_device_raises: "raises_only is_TopologyError (check_device nn sim sw x st)"
  unfolding check_device_def Let_def
  by (intro raises_intro) (auto simp: list_all_iff)

interpretation devs: checked_loop "check_device nn sim sw" "device_inv nn sim sw" is_TopologyError
  for nn sim sw
  by unfold_locales (auto intro: check_device_inv check_device_raises)

lemma check_devices_inv:
  "check_devices nn sim sw devices = Inr ds \<Longrightarrow> device_inv nn sim sw (enumerate 0 devices) ds"
  unfolding check_devices_def by (erule devs.loop_inv [rotated]) simp

lemma check_devices_raises [raises_intro]: "admits_topology P \<Longrightarrow> raises_only P (check_devices nn sim sw devices)"
  unfolding check_devices_def by (rule raises_only_weaken, rule devs.loop_raises) simp_all

subsection \<open>The link loop\<close>

definition link_wires :: "string list \<Rightarrow> int \<Rightarrow> (string \<times> dict) list \<Rightarrow> json \<Rightarrow> string \<Rightarrow> int \<Rightarrow> bool" where
  "link_wires node_names port_count by_device raw dev port \<longleftrightarrow>
     (\<exists>l e node. raw = JObj l \<and> map_of l ''device'' = Some (JStr dev) \<and>
        map_of l ''device_port'' = Some (JInt port) \<and>
        map_of by_device dev = Some e \<and> map_of e ''node'' = Some (JStr node) \<and>
        map_of l ''switch_port'' = Some (JInt (int (index_of node node_names) * port_count + port)))"

definition link_inv ::
    "string list \<Rightarrow> int \<Rightarrow> (string \<times> dict) list \<Rightarrow> (nat \<times> json) list \<Rightarrow> link_state \<Rightarrow> bool" where
  "link_inv nn pc by_device done st \<longleftrightarrow>
     (\<forall>dev e. map_of by_device dev = Some e \<longrightarrow> (\<exists>n. map_of e ''node'' = Some (JStr n) \<and> n \<in> set nn)) \<and>
     distinct (ls_device_ports st) \<and> length (ls_device_ports st) = length done \<and>
     (\<forall>x \<in> set (ls_device_ports st). has_key (fst x) by_device \<and> 0 \<le> snd x \<and> snd x < pc \<and>
        has_key (fst x) (ls_by_device st) \<and>
        (\<exists>raw \<in> snd ` set done. link_wires nn pc by_device raw (fst x) (snd x))) \<and>
     (\<forall>dev r l. map_of (ls_by_device st) dev = Some (r, l) \<longrightarrow>
        1 \<le> r \<and> r \<le> 100000 \<and> 1 \<le> l \<and> l \<le> 1000000000)"

lemma link_inv_port:
  assumes "link_inv nn pc by_device done st" and "(dev, port) \<in> set (ls_device_ports st)"
  shows "has_key dev by_device \<and> 0 \<le> port \<and> port < pc \<and> has_key dev (ls_by_device st) \<and>
     (\<exists>raw \<in> snd ` set done. link_wires nn pc by_device raw dev port)"
  using assms unfolding link_inv_def by - (elim conjE, drule (1) bspec, simp)

lemma link_device_Inr [simp]:
  "link_device raw raw_sw sw by_device loc = Inr dev \<longleftrightarrow>
     raw = JStr dev \<and> has_key dev by_device \<and> raw_sw = (case sw of None \<Rightarrow> JNull | Some s \<Rightarrow> JStr s)"
  by (cases raw) (auto simp: link_device_def unhashable_def Let_def)

lemma link_device_raises [raises_intro]:
  "raises_only topology_exc (link_device raw raw_sw sw by_device loc)"
  by (auto simp: link_device_def raises_only_def unhashable_def Let_def split: json.splits)

lemma check_link_Inr:
  assumes "check_link nn sw pc by_device x st = Inr st'"
  shows "\<exists>dev port r l. has_key dev by_device \<and> 0 \<le> port \<and> port < pc \<and>
     link_wires nn pc by_device (snd x) dev port \<and> (dev, port) \<notin> set (ls_device_ports st) \<and>
     ls_device_ports st' = ls_device_ports st @ [(dev, port)] \<and>
     ls_by_device st' = dict_set dev (r, l) (ls_by_device st) \<and>
     1 \<le> r \<and> r \<le> 100000 \<and> 1 \<le> l \<and> l \<le> 1000000000"
  using assms
  by (auto simp: check_link_def Let_def link_wires_def not_less not_le split: if_splits) blast

lemma check_link_inv:
  assumes inv: "link_inv nn pc by_device done st" and step: "check_link nn sw pc by_device x st = Inr st'"
  shows "link_inv nn pc by_device (done @ [x]) st'"
proof -
  from check_link_Inr [OF step] obtain dev port r l where
      dev: "has_key dev by_device" "0 \<le> port" "port < pc" "link_wires nn pc by_device (snd x) dev port"
    and new: "(dev, port) \<notin> set (ls_device_ports st)"
    and st': "ls_device_ports st' = ls_device_ports st @ [(dev, port)]"
      "ls_by_device st' = dict_set dev (r, l) (ls_by_device st)"
    and bounds: "1 \<le> r" "r \<le> 100000" "1 \<le> l" "l \<le> 1000000000"
    by blast
  have old: "\<forall>y \<in> set (ls_device_ports st). has_key (fst y) by_device \<and> 0 \<le> snd y \<and> snd y < pc \<and>
        has_key (fst y) (ls_by_device st') \<and>
        (\<exists>raw \<in> snd ` set (done @ [x]). link_wires nn pc by_device raw (fst y) (snd y))"
    using inv by (auto simp: link_inv_def st' has_key_map_of)
  show ?thesis
    using inv old dev new bounds by (auto simp: link_inv_def st' has_key_map_of split: if_splits)
qed

definition link_endpoints_hashable :: "json \<Rightarrow> bool" where
  "link_endpoints_hashable raw = (case raw of
       JObj l \<Rightarrow> hashable (dict_get ''device'' JNull l) \<and> hashable (dict_get ''peer_device'' JNull l)
     | _ \<Rightarrow> True)"

lemma link_device_raises_hashable:
  "hashable raw \<Longrightarrow> raises_only is_TopologyError (link_device raw raw_sw sw by_device loc)"
  by (auto simp: link_device_def raises_only_def unhashable_def Let_def split: json.splits)

lemma check_link_raises_if:
  assumes inv: "link_inv nn pc by_device done st"
    and dev: "\<And>raw_dev raw_sw loc. link_endpoints_hashable (snd x) \<longrightarrow> hashable raw_dev \<Longrightarrow>
        raises_only P (link_device raw_dev raw_sw sw by_device loc)"
    and P: "admits_topology P"
  shows "raises_only P (check_link nn sw pc by_device x st)"
proof -
  have known: "map_of by_device dev = Some d \<Longrightarrow> \<exists>n. map_of d ''node'' = Some (JStr n) \<and> n \<in> set nn" for dev d
    using inv by (simp add: link_inv_def)
  have has_node: "has_key ''node'' d" if "getitem dev by_device = Inr d" for dev d
    using known [of dev d] that by (auto simp: has_key_map_of)
  have in_nn: "v \<in> JStr ` set nn" if "getitem dev by_device = Inr d" "getitem ''node'' d = Inr v" for dev d v
    using known [of dev d] that by auto
  show ?thesis
    unfolding check_link_def Let_def
    apply (rule raises_only_rbind, rule t_fields_raises, rule P)
    apply (rule raises_only_rbind, rule getitem_raises, simp)
    apply (rule raises_only_rbind, rule getitem_raises, simp)
    apply (rule raises_only_rbind, rule dev)
     apply (simp add: link_endpoints_hashable_def dict_get_def)
    by (rule raises_intro P | assumption | erule has_node | erule (1) in_nn | simp)+
qed

lemma check_link_raises:
  "link_inv nn pc by_device done st \<Longrightarrow> raises_only topology_exc (check_link nn sw pc by_device x st)"
  by (erule check_link_raises_if) (auto intro: link_device_raises)

lemma check_link_raises_hashable:
  "link_inv nn pc by_device done st \<Longrightarrow> link_endpoints_hashable (snd x) \<Longrightarrow>
     raises_only is_TopologyError (check_link nn sw pc by_device x st)"
  by (erule check_link_raises_if) (auto intro: link_device_raises_hashable)

interpretation lks: checked_loop "check_link nn sw pc by_device" "link_inv nn pc by_device" topology_exc
  for nn sw pc by_device
  by unfold_locales (auto intro: check_link_inv check_link_raises)

text \<open>
  The device loop leaves one device per node; with equal lengths the names and the
  devices are in bijection.
\<close>

lemma by_node_keys:
  assumes inv: "device_inv nn sim sw done ds" and len: "length (ds_by_node ds) = length nn"
    and nn: "distinct nn"
  shows "fst ` set (ds_by_node ds) = set nn"
proof (rule card_subset_eq)
  show "fst ` set (ds_by_node ds) \<subseteq> set nn"
    using device_inv_by_node [OF inv] by (fastforce simp: device_ok_def)
  have "card (fst ` set (ds_by_node ds)) = length (map fst (ds_by_node ds))"
    using inv by (metis device_inv_def distinct_card set_map)
  then show "card (fst ` set (ds_by_node ds)) = card (set nn)"
    using len nn by (simp add: distinct_card)
qed simp

lemma link_inv_init:
  assumes inv: "device_inv nn sim sw done ds"
  shows "link_inv nn pc (ds_by_device ds) [] \<lparr>ls_device_ports = [], ls_switch_ports = [], ls_by_device = []\<rparr>"
proof -
  have "\<exists>n. map_of e ''node'' = Some (JStr n) \<and> n \<in> set nn" if "map_of (ds_by_device ds) dev = Some e" for dev e
    using device_inv_by_device [OF inv map_of_SomeD [OF that]] by (auto simp: device_ok_def)
  then show ?thesis
    by (simp add: link_inv_def)
qed

text \<open>
  Counting: as many links as device ports, no endpoint twice, so every port of every
  device is wired.
\<close>

lemma all_ports_wired:
  assumes inv: "link_inv nn pc by_device done st" and pc: "0 < pc"
    and len: "int (length done) = int (length by_device) * pc"
    and dist: "distinct (map fst by_device)"
  shows "set (ls_device_ports st) = fst ` set by_device \<times> {0..<pc}"
proof (rule card_subset_eq)
  show "set (ls_device_ports st) \<subseteq> fst ` set by_device \<times> {0..<pc}"
    using link_inv_port [OF inv] by (auto simp: has_key_def)
  have "card (fst ` set by_device) = length by_device"
    using dist by (metis distinct_card length_map set_map)
  then have "card (fst ` set by_device \<times> {0..<pc}) = length by_device * nat pc"
    by (simp add: card_cartesian_product)
  also have "\<dots> = length done"
  proof -
    have "int (length by_device * nat pc) = int (length done)"
      using len pc by simp
    then show ?thesis by (simp only: of_nat_eq_iff)
  qed
  also have "\<dots> = card (set (ls_device_ports st))"
    using inv by (simp add: link_inv_def distinct_card)
  finally show "card (set (ls_device_ports st)) = card (fst ` set by_device \<times> {0..<pc})"
    by simp
qed simp

lemma jlookup_Inr [simp]: "jlookup v d = Inr x \<longleftrightarrow> (\<exists>k. v = JStr k \<and> map_of d k = Some x)"
  by (cases v) (auto simp: jlookup_def unhashable_def)

lemma link_of_node_Inr [simp]:
  "link_of_node by_node lbd node = Inr r \<longleftrightarrow>
     (\<exists>d dev. map_of by_node node = Some d \<and> map_of d ''id'' = Some (JStr dev) \<and> map_of lbd dev = Some r)"
  by (auto simp: link_of_node_def device_id_of_def)

lemma node_has_device:
  assumes inv: "device_inv nn sim sw done ds" and keys: "fst ` set (ds_by_node ds) = set nn"
    and node: "node \<in> set nn"
  shows "\<exists>d dev. map_of (ds_by_node ds) node = Some d \<and> device_ok nn sim dev node d \<and>
     map_of (ds_by_device ds) dev = Some d"
proof -
  from keys node obtain d where d: "(node, d) \<in> set (ds_by_node ds)"
    by (metis imageE prod.collapse)
  then have "map_of (ds_by_node ds) node = Some d"
    using inv by (simp add: device_inv_def)
  moreover from device_inv_by_node [OF inv d] obtain dev where
    "device_ok nn sim dev node d" "(dev, d) \<in> set (ds_by_device ds)"
    by blast
  moreover then have "map_of (ds_by_device ds) dev = Some d"
    using inv by (simp add: device_inv_def)
  ultimately show ?thesis by blast
qed

lemma device_id_of_Inr:
  assumes inv: "device_inv nn sim sw done ds" and keys: "fst ` set (ds_by_node ds) = set nn"
    and node: "node \<in> set nn"
  shows "\<exists>dev d. device_id_of (ds_by_node ds) node = Inr (JStr dev) \<and>
     map_of (ds_by_device ds) dev = Some d \<and> device_ok nn sim dev node d"
  using node_has_device [OF assms] by (auto simp: device_id_of_def device_ok_def)

text \<open>No lookup of the switch branch fails: the source's last \<^verbatim>\<open>KeyError\<close> is unreachable.\<close>

lemma switch_links_lookup:
  assumes inv: "device_inv nn sim sw ddone ds" and keys: "fst ` set (ds_by_node ds) = set nn"
    and li: "link_inv nn pc (ds_by_device ds) done st" and pc: "0 < pc"
    and len: "int (length done) = int (length (ds_by_device ds)) * pc"
    and node: "node \<in> set nn"
  shows "\<exists>r l. link_of_node (ds_by_node ds) (ls_by_device st) node = Inr (r, l) \<and>
     1 \<le> r \<and> r \<le> 100000 \<and> 1 \<le> l \<and> l \<le> 1000000000"
proof -
  from node_has_device [OF inv keys node] obtain d dev where
      d: "map_of (ds_by_node ds) node = Some d" "map_of d ''id'' = Some (JStr dev)"
    and dev: "map_of (ds_by_device ds) dev = Some d"
    by (auto simp: device_ok_def)
  have "distinct (map fst (ds_by_device ds))"
    using inv by (simp add: device_inv_def)
  from all_ports_wired [OF li pc len this] have "(dev, 0) \<in> set (ls_device_ports st)"
    using dev pc by (force dest: map_of_SomeD)
  with link_inv_port [OF li] have "has_key dev (ls_by_device st)"
    by blast
  then obtain r l where rl: "map_of (ls_by_device st) dev = Some (r, l)"
    by (auto simp: has_key_map_of)
  with li have "1 \<le> r \<and> r \<le> 100000 \<and> 1 \<le> l \<and> l \<le> 1000000000"
    by (simp add: link_inv_def)
  with d rl show ?thesis by auto
qed

subsection \<open>The stages of an accepted document\<close>

text \<open>
  An accepted document went through every stage; this predicate names the intermediate
  results, so that properties of a plan are read off the stage lemmas above.
\<close>

definition accepted ::
    "json \<Rightarrow> plan \<Rightarrow> json list \<Rightarrow> json list \<Rightarrow> json list \<Rightarrow> json list \<Rightarrow> dict \<Rightarrow> node_state \<Rightarrow> device_state \<Rightarrow> bool" where
  "accepted raw p nodes devices switches links machine ns ds \<longleftrightarrow>
     name_ok (p_name p) \<and>
     (\<exists>spec ex. raw = JObj spec \<and> map_of spec ''name'' = Some (JStr (p_name p)) \<and>
        map_of spec ''nodes'' = Some (JList nodes) \<and> map_of spec ''devices'' = Some (JList devices) \<and>
        map_of spec ''switches'' = Some (JList switches) \<and> map_of spec ''links'' = Some (JList links) \<and>
        map_of spec ''execution'' = Some (JObj ex) \<and> map_of ex ''sync'' = Some (JStr (p_sync p)) \<and>
        check_machine spec (p_simulator p) = Inr machine) \<and>
     check_nodes nodes = Inr ns \<and> p_node_ids p = ns_names ns \<and>
     node_rules ns (length nodes) (p_checkpoint p) = Inr (p_simulator p) \<and>
     check_switch switches = Inr (p_switch_id p, p_switch_delay_ns p) \<and>
     check_devices (ns_names ns) (p_simulator p) (p_switch_id p) devices = Inr ds \<and>
     device_rules ds (length nodes) (length devices) = Inr (p_port_count p) \<and>
     (if switches = [] then direct_links links (length nodes) (p_port_count p) (ds_by_device ds)
      else switch_links links (ns_names ns) (p_switch_id p) (p_port_count p) (ds_by_node ds) (ds_by_device ds))
       = Inr (p_node_links p) \<and>
     rmap (device_id_of (ds_by_node ds)) (ns_names ns) = Inr (p_device_ids p) \<and>
     (if p_simulator p = ''qemu'' then Inr (map QemuMachine (ns_qemu ns)) else rmap (gem5_machine machine) nodes)
       = Inr (p_machines p) \<and>
     p_sync p \<in> {''off'', ''required''} \<and> p_checkpoint p \<in> {''none'', ''auto''} \<and>
     p_fabric_layout p = (if switches = [] then ''direct'' else ''switch'') \<and>
     p_max_jettys p = (if ds_limits ds \<noteq> [] then hd (ds_limits ds)
       else if p_simulator p = ''qemu'' \<or> ''modern'' \<in> set (ns_profiles ns) then 47 else 1152) \<and>
     p_jetty_limit_explicit p = (ds_limits ds \<noteq> [])"

lemma t_switches_Inr [simp]: "t_switches v = Inr xs \<longleftrightarrow> v = JList xs"
  by (auto simp: t_switches_def split: json.splits)

lemma t_switches_raises [raises_intro]: "admits_topology P \<Longrightarrow> raises_only P (t_switches v)"
  by (auto simp: t_switches_def raises_only_def admits_topology_def split: json.splits)

lemmas stage_iffs = rbind_eq_Inr guard_eq_Inr getitem_eq_Inr t_fields_Inr t_name_Inr t_list_Inr
  t_choice_Inr t_switches_Inr sum.inject Sum_Type.sum.distinct split_paired_Ex prod.case

lemma compile_topology_accepted:
  assumes "compile_topology raw = Inr p"
  shows "\<exists>nodes devices switches links machine ns ds. accepted raw p nodes devices switches links machine ns ds"
  using assms unfolding compile_topology_def stage_iffs
  apply (elim exE conjE)
  apply hypsubst
  unfolding accepted_def plan.select_convs list.set
  by (rule exI conjI refl | assumption)+

lemma accepted_rules:
  "accepted raw p nodes devices switches links machine ns ds \<Longrightarrow>
     node_rules ns (length nodes) (p_checkpoint p) = Inr (p_simulator p)"
  by (simp add: accepted_def)

lemma device_stage:
  assumes nodes: "check_nodes nodes = Inr ns"
    and devs: "check_devices (ns_names ns) sim sw devices = Inr ds"
    and rules: "device_rules ds (length nodes) (length devices) = Inr pc"
  shows "node_inv (enumerate 0 nodes) ns" "distinct (ns_names ns)" "length (ns_names ns) = length nodes"
    "device_inv (ns_names ns) sim sw (enumerate 0 devices) ds"
    "length devices = length nodes" "fst ` set (ds_by_node ds) = set (ns_names ns)"
    "length (ds_by_device ds) = length (ns_names ns)"
    "1 \<le> pc" "pc \<le> port_limit sim" "ds_counts ds = [pc]"
proof -
  show ni: "node_inv (enumerate 0 nodes) ns"
    by (rule check_nodes_inv [OF nodes])
  then show d: "distinct (ns_names ns)" and l: "length (ns_names ns) = length nodes"
    by (auto simp: node_inv_def dest: list_all2_lengthD)
  show di: "device_inv (ns_names ns) sim sw (enumerate 0 devices) ds"
    by (rule check_devices_inv [OF devs])
  from rules have len: "length (ds_by_node ds) = length nodes" and dl: "length devices = length nodes"
    and one: "length (ds_counts ds) = 1" and hd: "pc = hd (ds_counts ds)"
    by (auto simp: device_rules_def)
  show "length devices = length nodes" by (rule dl)
  show "fst ` set (ds_by_node ds) = set (ns_names ns)"
    by (rule by_node_keys [OF di _ d]) (simp add: len l)
  show "length (ds_by_device ds) = length (ns_names ns)"
    using di dl l by (simp add: device_inv_def)
  show c: "ds_counts ds = [pc]"
    using one hd by (cases "ds_counts ds") auto
  with di show "1 \<le> pc" "pc \<le> port_limit sim"
    by (simp_all add: device_inv_def)
qed

lemma accepted_facts:
  assumes acc: "accepted raw p nodes devices switches links machine ns ds"
  shows "node_inv (enumerate 0 nodes) ns" "distinct (p_node_ids p)" "length (p_node_ids p) = length nodes"
    "device_inv (p_node_ids p) (p_simulator p) (p_switch_id p) (enumerate 0 devices) ds"
    "length devices = length nodes" "fst ` set (ds_by_node ds) = set (p_node_ids p)"
    "length (ds_by_device ds) = length (p_node_ids p)"
    "1 \<le> p_port_count p" "p_port_count p \<le> port_limit (p_simulator p)"
    "ds_counts ds = [p_port_count p]"
proof -
  note acc' = acc [unfolded accepted_def]
  from acc' have nodes: "check_nodes nodes = Inr ns" and ids: "p_node_ids p = ns_names ns"
    and devs: "check_devices (ns_names ns) (p_simulator p) (p_switch_id p) devices = Inr ds"
    and rules: "device_rules ds (length nodes) (length devices) = Inr (p_port_count p)"
    by simp_all
  note stage = device_stage [OF nodes devs rules]
  show "node_inv (enumerate 0 nodes) ns" "distinct (p_node_ids p)" "length (p_node_ids p) = length nodes"
    "device_inv (p_node_ids p) (p_simulator p) (p_switch_id p) (enumerate 0 devices) ds"
    "length devices = length nodes" "fst ` set (ds_by_node ds) = set (p_node_ids p)"
    "length (ds_by_device ds) = length (p_node_ids p)"
    "1 \<le> p_port_count p" "p_port_count p \<le> port_limit (p_simulator p)"
    "ds_counts ds = [p_port_count p]"
    unfolding ids by (fact stage)+
qed

subsection \<open>Well-formed plans\<close>

definition link_ok :: "int \<times> int \<Rightarrow> bool" where
  "link_ok rl \<longleftrightarrow> 1 \<le> fst rl \<and> fst rl \<le> 100000 \<and> 1 \<le> snd rl \<and> snd rl \<le> 1000000000"

fun machine_ok :: "string \<Rightarrow> machine_plan \<Rightarrow> bool" where
  "machine_ok sim (QemuMachine m) \<longleftrightarrow> sim = ''qemu'' \<and> qemu_machine_ok m"
| "machine_ok sim (Gem5Machine d) \<longleftrightarrow> sim = ''gem5'' \<and> has_key ''profile'' d"

definition plan_ok :: "plan \<Rightarrow> bool" where
  "plan_ok p \<longleftrightarrow>
     name_ok (p_name p) \<and> p_simulator p \<in> {''gem5'', ''qemu''} \<and>
     2 \<le> length (p_node_ids p) \<and> length (p_node_ids p) \<le> 8 \<and>
     distinct (p_node_ids p) \<and> list_all name_ok (p_node_ids p) \<and>
     length (p_device_ids p) = length (p_node_ids p) \<and> distinct (p_device_ids p) \<and>
     list_all (\<lambda>v. \<exists>s. v = JStr s \<and> name_ok s \<and> Some s \<noteq> p_switch_id p) (p_device_ids p) \<and>
     p_fabric_layout p = (if p_switch_id p = None then ''direct'' else ''switch'') \<and>
     1 \<le> p_port_count p \<and> p_port_count p \<le> port_limit (p_simulator p) \<and>
     2 \<le> p_max_jettys p \<and> p_max_jettys p \<le> 65535 \<and> 0 \<le> p_switch_delay_ns p \<and>
     p_sync p \<in> {''off'', ''required''} \<and> p_checkpoint p \<in> {''none'', ''auto''} \<and>
     (p_simulator p = ''qemu'' \<longrightarrow> p_checkpoint p = ''none'') \<and>
     length (p_node_links p) = length (p_node_ids p) \<and> list_all link_ok (p_node_links p) \<and>
     length (p_machines p) = length (p_node_ids p) \<and> list_all (machine_ok (p_simulator p)) (p_machines p)"

lemma direct_links_Inr:
  "direct_links links n pc bd = Inr rls \<Longrightarrow>
     n = 2 \<and> pc = 1 \<and> (\<exists>l r lat. links = [JObj l] \<and> map_of l ''rate_gbps'' = Some (JInt r) \<and>
       map_of l ''latency_ns'' = Some (JInt lat) \<and> 1 \<le> r \<and> r \<le> 100000 \<and> 2 \<le> lat \<and> lat \<le> 1000000000 \<and>
       rls = [(r, lat div 2), (r, lat - lat div 2)])"
  by (cases links) (auto simp: direct_links_def unhashable_def not_less split: if_splits)

lemma switch_links_Inr:
  assumes sw: "switch_links links nn swn pc (ds_by_node ds) (ds_by_device ds) = Inr rls"
    and inv: "device_inv nn sim swn' ddone ds"
  shows "\<exists>st. link_inv nn pc (ds_by_device ds) (enumerate 0 links) st \<and>
     int (length links) = int (length nn) * pc \<and>
     list_all2 (\<lambda>n rl. link_of_node (ds_by_node ds) (ls_by_device st) n = Inr rl) nn rls"
proof -
  from sw obtain st where len: "int (length links) = int (length nn) * pc"
    and st: "rfold (check_link nn swn pc (ds_by_device ds)) (enumerate 0 links)
           \<lparr>ls_device_ports = [], ls_switch_ports = [], ls_by_device = []\<rparr> = Inr st"
    and rls: "rmap (link_of_node (ds_by_node ds) (ls_by_device st)) nn = Inr rls"
    by (auto simp: switch_links_def)
  from lks.loop_inv [OF link_inv_init [OF inv] st] len rls show ?thesis
    unfolding rmap_Inr by blast
qed

lemma accepted_links_ok:
  assumes acc: "accepted raw p nodes devices switches links machine ns ds"
  shows "length (p_node_links p) = length (p_node_ids p)" "list_all link_ok (p_node_links p)"
proof -
  note f = accepted_facts [OF acc]
  have "length (p_node_links p) = length (p_node_ids p) \<and> list_all link_ok (p_node_links p)"
  proof (cases "switches = []")
    case True
    with acc have "direct_links links (length nodes) (p_port_count p) (ds_by_device ds) = Inr (p_node_links p)"
      by (simp add: accepted_def)
    from direct_links_Inr [OF this] f(3) show ?thesis
      by (auto simp: link_ok_def)
  next
    case False
    with acc have sw: "switch_links links (p_node_ids p) (p_switch_id p) (p_port_count p)
        (ds_by_node ds) (ds_by_device ds) = Inr (p_node_links p)"
      by (simp add: accepted_def)
    from switch_links_Inr [OF this f(4)] obtain st where
        li: "link_inv (p_node_ids p) (p_port_count p) (ds_by_device ds) (enumerate 0 links) st"
      and len: "int (length links) = int (length (p_node_ids p)) * p_port_count p"
      and all: "list_all2 (\<lambda>n rl. link_of_node (ds_by_node ds) (ls_by_device st) n = Inr rl)
          (p_node_ids p) (p_node_links p)"
      by blast
    have pc: "0 < p_port_count p" using f(8) by simp
    have cnt: "int (length (enumerate 0 links)) = int (length (ds_by_device ds)) * p_port_count p"
      using len f(7) by simp
    have "link_ok (p_node_links p ! i)" if "i < length (p_node_links p)" for i
      using switch_links_lookup [OF f(4) f(6) li pc cnt, of "p_node_ids p ! i"]
        list_all2_nthD2 [OF all that] list_all2_lengthD [OF all] that
      by (auto simp: link_ok_def simp del: link_of_node_Inr)
    with list_all2_lengthD [OF all] show ?thesis
      by (auto simp: list_all_length)
  qed
  then show "length (p_node_links p) = length (p_node_ids p)" "list_all link_ok (p_node_links p)"
    by simp_all
qed

lemma accepted_machines_ok:
  assumes acc: "accepted raw p nodes devices switches links machine ns ds"
    and sim: "ns_simulators ns = [p_simulator p]" "p_simulator p = ''gem5'' \<or> p_simulator p = ''qemu''"
  shows "length (p_machines p) = length (p_node_ids p)" "list_all (machine_ok (p_simulator p)) (p_machines p)"
proof -
  note f = accepted_facts [OF acc]
  have "length (p_machines p) = length nodes \<and> list_all (machine_ok (p_simulator p)) (p_machines p)"
  proof (cases "p_simulator p = ''qemu''")
    case True
    with acc have "p_machines p = map QemuMachine (ns_qemu ns)"
      by (simp add: accepted_def)
    with f(1) sim True show ?thesis
      by (simp add: node_inv_def list_all_iff)
  next
    case False
    with acc have all: "list_all2 (\<lambda>n m. gem5_machine machine n = Inr m) nodes (p_machines p)"
      by (simp add: accepted_def rmap_Inr)
    have "has_key ''profile'' (dict_update [(''profile'', v)] machine)" for v
      unfolding has_key_map_of map_of_dict_update by (auto split: option.split)
    then have "machine_ok (p_simulator p) m" if "gem5_machine machine n = Inr m" for n m
      using that sim(2) False by (auto simp: gem5_machine_def)
    with all have "list_all (machine_ok (p_simulator p)) (p_machines p)"
      by (auto simp: list_all_length list_all2_conv_all_nth)
    with all show ?thesis by (simp add: list_all2_lengthD)
  qed
  with f(3) show "length (p_machines p) = length (p_node_ids p)"
      "list_all (machine_ok (p_simulator p)) (p_machines p)"
    by simp_all
qed

lemma accepted_device_ids:
  assumes acc: "accepted raw p nodes devices switches links machine ns ds" and i: "i < length (p_node_ids p)"
  shows "\<exists>dev d. p_device_ids p ! i = JStr dev \<and> map_of (ds_by_device ds) dev = Some d \<and>
     device_ok (p_node_ids p) (p_simulator p) dev (p_node_ids p ! i) d"
proof -
  note f = accepted_facts [OF acc]
  from acc have "list_all2 (\<lambda>n v. device_id_of (ds_by_node ds) n = Inr v) (p_node_ids p) (p_device_ids p)"
    by (simp add: accepted_def rmap_Inr)
  then have "device_id_of (ds_by_node ds) (p_node_ids p ! i) = Inr (p_device_ids p ! i)"
    using i by (rule list_all2_nthD)
  with device_id_of_Inr [OF f(4) f(6) nth_mem [OF i]] show ?thesis
    by auto
qed

lemma accepted_device_ids_length:
  "accepted raw p nodes devices switches links machine ns ds \<Longrightarrow> length (p_device_ids p) = length (p_node_ids p)"
  by (auto simp: accepted_def rmap_Inr dest: list_all2_lengthD)

lemma accepted_device_ids_distinct:
  assumes acc: "accepted raw p nodes devices switches links machine ns ds"
  shows "distinct (p_device_ids p)"
  unfolding distinct_conv_nth
proof (intro allI impI)
  fix i j
  assume "i < length (p_device_ids p)" "j < length (p_device_ids p)" and ij: "i \<noteq> j"
  then have i: "i < length (p_node_ids p)" and j: "j < length (p_node_ids p)"
    by (simp_all add: accepted_device_ids_length [OF acc])
  from accepted_device_ids [OF acc i] accepted_device_ids [OF acc j] accepted_facts(2) [OF acc] i j ij
  show "p_device_ids p ! i \<noteq> p_device_ids p ! j"
    by (auto simp: device_ok_def nth_eq_iff_index_eq)
qed

subsection \<open>Exceptions of the whole compiler\<close>

text \<open>
  What may leave the compiler: a \<^verbatim>\<open>TopologyError\<close>, or a \<^verbatim>\<open>TypeError\<close> when some link names a
  device by a list or an object.
\<close>

definition compile_exc :: "json list \<Rightarrow> py_exc \<Rightarrow> bool" where
  "compile_exc links e \<longleftrightarrow>
     is_TopologyError e \<or> (topology_exc e \<and> \<not> list_all link_endpoints_hashable links)"

lemma admits_compile_exc [simp]: "admits_topology (compile_exc links)"
  by (simp add: admits_topology_def compile_exc_def)

lemma direct_links_raises_if:
  assumes "\<not> list_all link_endpoints_hashable links \<longrightarrow> (\<forall>m. P (TypeError m))" and P: "admits_topology P"
  shows "raises_only P (direct_links links n pc by_device)"
proof (cases "\<exists>d. links = [JObj d]")
  case True
  then obtain d where links: "links = [JObj d]" by blast
  have un: "raises_only P (unhashable :: (int \<times> int) list res)"
    if "getitem ''device'' d = Inr a" "getitem ''peer_device'' d = Inr b" "\<not> hashable a \<or> \<not> hashable b" for a b
    using assms(1) that by (auto simp: links link_endpoints_hashable_def dict_get_def unhashable_def raises_only_def)
  show ?thesis
    unfolding direct_links_def links list.sel
    apply (rule raises_only_if, rule raises_TopologyError, rule P)
    apply (rule raises_only_rbind, rule t_fields_raises, rule P)
    apply (rule raises_only_rbind, rule getitem_raises, simp)
    apply (rule raises_only_rbind, rule getitem_raises, simp)
    apply (rule raises_only_if, rule un, simp, simp, assumption)
    by (rule raises_intro P | assumption | simp)+
next
  case False
  then show ?thesis
    using P by (cases links)
      (auto simp: direct_links_def t_fields_def raises_only_def admits_topology_def split: json.splits)
qed

lemma direct_links_raises: "raises_only (compile_exc links) (direct_links links n pc by_device)"
  by (rule direct_links_raises_if) (simp_all add: compile_exc_def)

lemma switch_links_raises:
  assumes inv: "device_inv nn sim sw ddone ds" and keys: "fst ` set (ds_by_node ds) = set nn"
    and pc: "0 < pc" and len: "length (ds_by_device ds) = length nn"
  shows "raises_only (compile_exc links) (switch_links links nn sw pc (ds_by_node ds) (ds_by_device ds))"
proof (cases "int (length links) = int (length nn) * pc")
  case cnt: True
  let ?s0 = "\<lparr>ls_device_ports = [], ls_switch_ports = [], ls_by_device = []\<rparr>"
  let ?loop = "rfold (check_link nn sw pc (ds_by_device ds)) (enumerate 0 links) ?s0"
  have i0: "link_inv nn pc (ds_by_device ds) [] ?s0"
    by (rule link_inv_init [OF inv])
  have "compile_exc links e" if e: "?loop = Inl e" for e
  proof -
    have te: "topology_exc e"
      using lks.loop_raises [OF i0] e by (rule raises_onlyD)
    from rfold_Inl [OF e] obtain pre x post t where
        split: "enumerate 0 links = pre @ x # post"
      and pre: "rfold (check_link nn sw pc (ds_by_device ds)) pre ?s0 = Inr t"
      and body: "check_link nn sw pc (ds_by_device ds) x t = Inl e"
      by blast
    from lks.loop_inv [OF i0 pre] have it: "link_inv nn pc (ds_by_device ds) pre t" .
    have "snd x \<in> set links"
      using arg_cong [OF split, of "map snd"] by (simp add: in_set_conv_decomp)
    then show ?thesis
      using check_link_raises_hashable [OF it, of x sw] body te
      by (auto simp: compile_exc_def list_all_iff raises_only_def)
  qed
  moreover have "raises_only (compile_exc links) (rmap (link_of_node (ds_by_node ds) (ls_by_device st)) nn)"
    if "?loop = Inr st" for st
  proof (rule rmap_raises, unfold list_all_iff, rule ballI)
    fix node assume "node \<in> set nn"
    from switch_links_lookup [OF inv keys lks.loop_inv [OF i0 that] pc _ this] cnt len
    show "raises_only (compile_exc links) (link_of_node (ds_by_node ds) (ls_by_device st) node)"
      by (auto simp: raises_only_Inr simp del: link_of_node_Inr)
  qed
  ultimately show ?thesis
    using cnt unfolding switch_links_def
    by (simp add: raises_only_rbind raises_only_def [of _ ?loop] split: sum.split)
qed (simp add: switch_links_def raises_intro)

subsection \<open>What the compiler raises\<close>

lemma snd_set_enumerate [simp]: "snd ` set (enumerate n xs) = set xs"
  by (simp flip: set_map)

lemma raw_links_JObj: "map_of spec ''links'' = Some (JList links) \<Longrightarrow> raw_links (JObj spec) = links"
  by (simp add: raw_links_def)

lemma switch_links_stage_raises:
  assumes "check_nodes nodes = Inr ns" and "check_devices (ns_names ns) sim sw devices = Inr ds"
    and "device_rules ds (length nodes) (length devices) = Inr pc"
  shows "raises_only (compile_exc links)
     (switch_links links (ns_names ns) sw pc (ds_by_node ds) (ds_by_device ds))"
proof -
  note stage = device_stage [OF assms]
  show ?thesis
    by (rule switch_links_raises [OF stage(4) stage(6) _ stage(7)]) (use stage(8) in simp)
qed

lemma device_ids_stage_raises:
  assumes "check_nodes nodes = Inr ns" and "check_devices (ns_names ns) sim sw devices = Inr ds"
    and "device_rules ds (length nodes) (length devices) = Inr pc"
  shows "list_all (\<lambda>n. raises_only P (device_id_of (ds_by_node ds) n)) (ns_names ns)"
proof -
  note stage = device_stage [OF assms]
  show ?thesis
    using device_id_of_Inr [OF stage(4) stage(6)] by (fastforce simp: list_all_iff raises_only_def)
qed

lemma machines_stage_raises:
  assumes nodes: "check_nodes nodes = Inr ns" and rules: "node_rules ns n cp = Inr sim" and sim: "sim \<noteq> ''qemu''"
  shows "list_all (\<lambda>raw. raises_only P (gem5_machine machine raw)) nodes"
proof -
  from node_rules_Inr(1) [OF rules check_nodes_inv [OF nodes]] sim
  have "list_all (\<lambda>x. node_profile (snd x)) (enumerate 0 nodes)"
    using check_nodes_inv [OF nodes] by (simp add: node_inv_def)
  then have "list_all node_profile nodes"
    by (metis (mono_tags, lifting) list_all_length length_enumerate nth_enumerate_eq snd_conv)
  then show ?thesis
    by (auto simp: list_all_iff node_profile_def gem5_machine_def jget_def getitem_def raises_only_def)
qed

lemma compile_topology_raises_only: "raises_only (compile_exc (raw_links raw)) (compile_topology raw)"
  unfolding compile_topology_def split_beta
  by (intro raises_intro admits_compile_exc)
    (simp_all split: if_splits
       add: raw_links_JObj direct_links_raises switch_links_stage_raises device_ids_stage_raises
         machines_stage_raises)

lemma accepted_raw_links:
  "accepted raw p nodes devices switches links machine ns ds \<Longrightarrow> raw_links raw = links"
  by (auto simp: accepted_def raw_links_def)

subsection \<open>Evaluation on the example documents\<close>

lemma compile_gem5_two_heads: "compile_topology gem5_two_heads = Inr gem5_two_heads_plan"
  by code_simp

lemma compile_qemu_two_heads: "compile_topology qemu_two_heads = Inr qemu_two_heads_plan"
  by code_simp

lemma compile_gem5_direct_link: "compile_topology gem5_direct_link = Inr gem5_direct_plan"
  by code_simp

lemma compile_unhashable_device:
  "compile_topology unhashable_device = Inl (TypeError ''unhashable type'')"
  by code_simp

subsection \<open>Main properties\<close>



text \<open>
  C4.  The compiler rejects a document only with its own \<^verbatim>\<open>TopologyError\<close>, with one exception:
  a \<^verbatim>\<open>TypeError\<close> escapes, and only when some link of the document gives a list or an object where
  a device name is expected.  In particular no \<^verbatim>\<open>KeyError\<close>, \<^verbatim>\<open>IndexError\<close> or plain
  \<^verbatim>\<open>ValueError\<close> can be raised.
\<close>

theorem compile_topology_raises:
  assumes "compile_topology raw = Inl e"
  shows "is_TopologyError e \<or> (\<exists>m. e = TypeError m) \<and> \<not> list_all link_endpoints_hashable (raw_links raw)"
  using raises_onlyD [OF compile_topology_raises_only assms]
  by (cases e) (auto simp: compile_exc_def)

theorem compile_topology_raises_witness:
  "compile_topology unhashable_device = Inl (TypeError ''unhashable type'') \<and>
   \<not> list_all link_endpoints_hashable (raw_links unhashable_device)"
  using compile_topology_raises [OF compile_unhashable_device] compile_unhashable_device by simp

text \<open>
  C7.  In an accepted document with a switch there is one link per device port, and port \<open>k\<close> of
  the device of the \<open>i\<close>-th node is wired to switch port \<open>i * port_count + k\<close>, the numbering the
  ns-3 adapter assumes.
\<close>

theorem compile_topology_wiring:
  assumes "compile_topology raw = Inr p" and "p_switch_id p \<noteq> None"
    and i: "i < length (p_node_ids p)" and k: "0 \<le> k" "k < p_port_count p"
  shows "int (length (raw_links raw)) = int (length (p_node_ids p)) * p_port_count p \<and>
    (\<exists>l dev. JObj l \<in> set (raw_links raw) \<and> p_device_ids p ! i = JStr dev \<and>
       map_of l ''device'' = Some (JStr dev) \<and> map_of l ''device_port'' = Some (JInt k) \<and>
       map_of l ''switch_port'' = Some (JInt (int i * p_port_count p + k)))"
proof -
  from compile_topology_accepted [OF assms(1)] obtain nodes devices switches links machine ns ds where
    acc: "accepted raw p nodes devices switches links machine ns ds"
    by blast
  note f = accepted_facts [OF acc]
  let ?nn = "p_node_ids p" and ?pc = "p_port_count p"
  have ids: "p_node_ids p = ns_names ns" and chk: "check_switch switches = Inr (p_switch_id p, p_switch_delay_ns p)"
    using acc by (simp_all add: accepted_def)
  have "switches \<noteq> []"
    using check_switch_Inr [OF chk] assms(2) by blast
  then have "switch_links links (ns_names ns) (p_switch_id p) ?pc (ds_by_node ds) (ds_by_device ds) = Inr (p_node_links p)"
    using acc by (simp add: accepted_def)
  then obtain st where li: "link_inv ?nn ?pc (ds_by_device ds) (enumerate 0 links) st"
    and len: "int (length links) = int (length ?nn) * ?pc"
    unfolding ids [symmetric] using switch_links_Inr [OF _ f(4)] by blast
  from accepted_device_ids [OF acc i] obtain dev d where
      dev: "p_device_ids p ! i = JStr dev" "map_of (ds_by_device ds) dev = Some d"
    and ok: "device_ok ?nn (p_simulator p) dev (?nn ! i) d"
    by blast
  have "set (ls_device_ports st) = fst ` set (ds_by_device ds) \<times> {0..<?pc}"
    by (rule all_ports_wired [OF li]) (use f(4,7,8) len in \<open>simp_all add: device_inv_def\<close>)
  then have "(dev, k) \<in> set (ls_device_ports st)"
    using k dev(2) by (force dest: map_of_SomeD)
  from link_inv_port [OF li this] obtain raw' where
    "raw' \<in> set links" "link_wires ?nn ?pc (ds_by_device ds) raw' dev k"
    by (auto simp only: snd_set_enumerate)
  moreover have "index_of (?nn ! i) ?nn = i"
    using f(2) i by (rule index_of_nth)
  ultimately show ?thesis
    using dev ok len by (auto simp: link_wires_def accepted_raw_links [OF acc] device_ok_def)
qed

theorem compile_topology_wiring_witness:
  "\<exists>l. JObj l \<in> set (raw_links gem5_two_heads) \<and> map_of l ''device'' = Some (JStr ''udma-b'') \<and>
     map_of l ''device_port'' = Some (JInt 0) \<and> map_of l ''switch_port'' = Some (JInt 1)"
  using compile_topology_wiring [OF compile_gem5_two_heads, of 1 0]
  by (simp add: gem5_two_heads_plan_def)

text \<open>
  On a direct link the two directions share the link's rate, and the delays given to the two
  nodes are positive, differ by at most one nanosecond and add up to the link's latency.
\<close>

theorem compile_topology_direct_delay:
  assumes "compile_topology raw = Inr p" and "p_switch_id p = None"
  shows "\<exists>l r lat a b. raw_links raw = [JObj l] \<and> map_of l ''rate_gbps'' = Some (JInt r) \<and>
     map_of l ''latency_ns'' = Some (JInt lat) \<and> p_node_links p = [(r, a), (r, b)] \<and>
     a + b = lat \<and> 1 \<le> a \<and> a \<le> b \<and> b \<le> a + 1"
proof -
  from compile_topology_accepted [OF assms(1)] obtain nodes devices switches links machine ns ds where
    acc: "accepted raw p nodes devices switches links machine ns ds"
    by blast
  have chk: "check_switch switches = Inr (p_switch_id p, p_switch_delay_ns p)"
    using acc by (simp add: accepted_def)
  then have "switches = []"
    using check_switch_Inr [OF chk] assms(2) by blast
  then have "direct_links links (length nodes) (p_port_count p) (ds_by_device ds) = Inr (p_node_links p)"
    using acc by (simp add: accepted_def)
  from direct_links_Inr [OF this] show ?thesis
    by (auto simp: accepted_raw_links [OF acc])
qed

theorem compile_topology_direct_delay_witness:
  "\<exists>r lat a b. p_node_links gem5_direct_plan = [(r, a), (r, b)] \<and> a + b = lat \<and> 1 \<le> a"
  using compile_topology_direct_delay [OF compile_gem5_direct_link]
  by (auto simp: gem5_direct_plan_def)

end
