(* ===== verification/Profile_Defaults.thy ===== *)
theory Profile_Defaults
  imports Py_Prelude
begin

section \<open>The gem5 profile table\<close>

text \<open>
  The data of \<^verbatim>\<open>ubsim_lab/gem5_profile_defaults.json\<close>, which
  \<^verbatim>\<open>config_runtime.py\<close> loads as \<^verbatim>\<open>PROFILE_DEFAULTS\<close>.  All five profiles have the same
  keys in the same order, so the table is one list of keys and one list of values per profile.
\<close>

definition profile_keys :: "string list" where
  "profile_keys =
     [''auto_o3_lifecycle'', ''benchmark_cpu'', ''cache_line_size'', ''cache_prefetcher'',
      ''cache_replacement_policy'', ''coherent_bus_forward_latency_cycles'',
      ''coherent_bus_frontend_latency_cycles'', ''coherent_bus_header_latency_cycles'',
      ''coherent_bus_response_latency_cycles'', ''coherent_bus_snoop_response_latency_cycles'',
      ''comparison_benchmark_profile'', ''comparison_ctp'', ''comparison_inline_bytes'',
      ''comparison_jettys'', ''comparison_operation'', ''comparison_transport_mode'',
      ''completion_event_slots'', ''core_bus_snoop_filter_capacity'', ''cpu_boot_model'',
      ''cpu_count'', ''cpu_event_queue_policy'', ''cpu_freq'', ''cpu_mode'', ''cpu_roi_model'',
      ''cpu_switch_policy'', ''ctp_max_retransmissions'', ''ctp_retransmission'', ''ctp_rto_ps'',
      ''direct_wqe_latency'', ''direct_wqe_max_blocks'', ''dma_backend'', ''dma_max_outstanding'',
      ''dma_request_segmentation'', ''dma_transport'', ''execution_mode'',
      ''external_udma_host_latency_ns'', ''external_udma_poll_interval'', ''fabric_freq'',
      ''fabric_width_bytes'', ''fast_boot_noncaching'', ''guest_memory_limit'',
      ''initial_memory_mode'', ''io_bus_forward_latency_cycles'',
      ''io_bus_frontend_latency_cycles'', ''io_bus_header_latency_cycles'',
      ''io_bus_response_latency_cycles'', ''io_cache_assoc'',
      ''io_cache_latency_tag_data_response_cycles'', ''io_cache_mshrs'', ''io_cache_size'',
      ''io_cache_targets_per_mshr'', ''io_cache_write_buffers'', ''kvm_host_cpu_contract'',
      ''l1d_assoc'', ''l1d_clusivity'', ''l1d_latency_tag_data_response_cycles'', ''l1d_mshrs'',
      ''l1d_size'', ''l1d_targets_per_mshr'', ''l1d_write_buffers'', ''l1i_assoc'',
      ''l1i_clusivity'', ''l1i_latency_tag_data_response_cycles'', ''l1i_mshrs'', ''l1i_size'',
      ''l1i_targets_per_mshr'', ''l1i_write_buffers'', ''l2_assoc'', ''l2_clusivity'',
      ''l2_latency_tag_data_response_cycles'', ''l2_mshrs'', ''l2_size'', ''l2_targets_per_mshr'',
      ''l2_write_buffers'', ''l3_assoc'', ''l3_bus_snoop_filter_capacity'', ''l3_clusivity'',
      ''l3_freq'', ''l3_latency_tag_data_response_cycles'', ''l3_mshrs'', ''l3_size'',
      ''l3_targets_per_mshr'', ''l3_write_buffers'', ''last_cache_level'', ''lifecycle_sync'',
      ''m5ops_base'', ''m5ops_mode'', ''manifest_version'', ''max_jettys'', ''max_jfc_depth'',
      ''max_jfr_depth'', ''max_jfs_depth'', ''max_read_outstanding'',
      ''membus_snoop_filter_capacity'', ''memory_address_mapping'',
      ''memory_bus_forward_latency_cycles'', ''memory_bus_frontend_latency_cycles'',
      ''memory_bus_header_latency_cycles'', ''memory_bus_response_latency_cycles'',
      ''memory_bus_snoop_response_latency_cycles'', ''memory_channel_interleave_bytes'',
      ''memory_channel_xor_low_bit'', ''memory_channels'', ''memory_controller_backend_latency'',
      ''memory_controller_command_window'', ''memory_controller_frontend_latency'',
      ''memory_max_accesses_per_row'', ''memory_min_reads_per_switch'',
      ''memory_min_writes_per_switch'', ''memory_page_policy'', ''memory_ranks_per_channel'',
      ''memory_read_buffer_bursts_per_channel'', ''memory_scheduler'', ''memory_size'',
      ''memory_type'', ''memory_write_buffer_bursts_per_channel'',
      ''memory_write_high_threshold_percent'', ''memory_write_low_threshold_percent'',
      ''network_backend'', ''node0_link_latency_ns'', ''node0_link_rate_gbps'',
      ''node1_link_latency_ns'', ''node1_link_rate_gbps'', ''node_count'', ''o3_branch_predictor'',
      ''o3_fetch_buffer_bytes'', ''o3_fetch_queue_entries'', ''o3_fu_pool'',
      ''o3_fu_pool_signature'', ''o3_iq_entries'', ''o3_load_ports'', ''o3_lq_entries'',
      ''o3_phys_cc_regs'', ''o3_phys_float_regs'', ''o3_phys_int_regs'', ''o3_phys_mat_regs'',
      ''o3_phys_vec_pred_regs'', ''o3_phys_vec_regs'', ''o3_rob_entries'', ''o3_sq_entries'',
      ''o3_store_ports'', ''o3_width'', ''online_cpu_count'', ''oob_link_speed'', ''packet_trace'',
      ''payload_dma_latency'', ''payload_dma_rate_gbps'', ''peer_latency_ns'',
      ''peer_link_overhead_bytes'', ''peer_link_rate_gbps'', ''peer_port_map'',
      ''peer_port_selection'', ''peer_serialization_stages'', ''peer_switch_delay'',
      ''peer_topology'', ''pipe_data'', ''profile'', ''profile_revision'', ''provider'',
      ''public_jettys'', ''restore_checkpoint'', ''routing'', ''sq_control_bytes'',
      ''sq_fetch_burst_wqebbs'', ''sq_fetch_latency'', ''sq_fetch_max_outstanding'',
      ''sq_prefetch_wqebbs'', ''sq_sge_bytes'', ''sq_wqebb_latency'', ''sync_mode'',
      ''sync_quantum_ns'', ''sync_request'', ''template_checkpoint'', ''ub_fabric_layout'',
      ''ub_port_count'', ''ub_transport'', ''udma_address_translation'', ''udma_iotlb_entries'',
      ''udma_iotlb_policy'', ''udma_poll_interval'', ''udma_state_format'',
      ''virtual_time_synchronization'', ''wqebb_bytes'', ''write_payload_read_window'']"

definition fast_values :: "string list" where
  "fast_values =
     [''0'', ''0'', ''64'', ''none'', ''lru'', ''0'', ''1'', ''1'', ''1'', ''1'',
      ''ctp-rm-send-imm-i128'', ''1'', ''128'', ''1'', ''SEND_IMM'', ''RM'', ''64'', ''2MiB'',
      ''AtomicSimpleCPU'', ''1'', ''single_event_queue'', ''3GHz'', ''atomic_fast'',
      ''AtomicSimpleCPU'', ''none'', ''7'', ''off'', ''25600000'', ''0ns'', ''0'', ''udma'',
      ''16'', ''cacheline_and_4KiB_boundaries'', ''native_gem5_request_port_dynamic'', ''native'',
      ''100'', ''1us'', ''1GHz'', ''16'', ''0'', ''1GB'', ''atomic'', ''1'', ''2'', ''1'', ''2'',
      ''8'', ''1,1,1'', ''32'', ''1kB'', ''32'', ''32'', ''not_applicable'', ''2'',
      ''mostly_incl'', ''2,2,1'', ''16'', ''32kB'', ''16'', ''16'', ''3'', ''mostly_incl'',
      ''1,1,1'', ''4'', ''48kB'', ''8'', ''8'', ''16'', ''mostly_excl'', ''12,12,5'', ''32'',
      ''1MB'', ''8'', ''8'', ''16'', ''8MiB'', ''mostly_excl'', ''1GHz'', ''20,20,20'', ''20'',
      ''16MB'', ''12'', ''8'', ''2'', ''1'', ''0x10010000'', ''inst'', ''1'', ''1152'', ''4096'',
      ''1024'', ''1024'', ''0'', ''64MiB'', ''RoRaBaCoCh'', ''4'', ''3'', ''1'', ''2'', ''4'',
      ''128'', ''0'', ''1'', ''10ns'', ''10ns'', ''10ns'', ''16'', ''16'', ''16'',
      ''open_adaptive'', ''1'', ''32'', ''frfcfs'', ''4GB'', ''DDR3_1600_8x8'', ''64'', ''85'',
      ''50'', ''modular-ns3ub'', ''100'', ''400'', ''100'', ''400'', ''2'', ''TournamentBP'',
      ''64'', ''32'', ''DefaultFUPool'',
      ''int_alu6,int_muldiv2,fp_alu4,fp_muldiv2,simd4,pred1,rdwr4,ipr1'', ''64'', ''4'', ''32'',
      ''1280'', ''256'', ''256'', ''2'', ''32'', ''256'', ''192'', ''32'', ''2'', ''8'', ''1'',
      ''100Gbps'', ''0'', ''0ns'', ''0'', ''100'', ''0'', ''400'', ''identity'', ''tp-context'',
      ''1'', ''0ns'', ''l1-switch'', ''0'', ''fast'', ''udma400-atomic-fast-functional-v2'',
      ''official'', ''128'', ''none'', ''dynamic_eid'', ''48'', ''16'', ''0ns'', ''4'', ''64'',
      ''16'', ''0ns'', ''adapter-local'', ''100'', ''auto'', ''0'', ''switch'', ''1'',
      ''switch-adapter'', ''context_pgd_control_abi_v2'', ''64'',
      ''fully_associative_lru_4KiB_context_tagged'', ''10ns'', ''4'', ''lifecycle'', ''64'', ''8'']"

definition kvm_values :: "string list" where
  "kvm_values =
     [''0'', ''0'', ''64'', ''none'', ''lru'', ''0'', ''1'', ''1'', ''1'', ''1'',
      ''ctp-rm-send-imm-i128'', ''1'', ''128'', ''1'', ''SEND_IMM'', ''RM'', ''64'', ''2MiB'',
      ''ArmV8KvmCPU'', ''1'', ''single_event_queue'', ''3GHz'', ''kvm'', ''ArmV8KvmCPU'', ''none'',
      ''7'', ''off'', ''25600000'', ''0ns'', ''0'', ''udma'', ''16'',
      ''cacheline_and_4KiB_boundaries'', ''native_gem5_request_port_dynamic'', ''native'', ''100'',
      ''1us'', ''1GHz'', ''16'', ''0'', ''1GB'', ''atomic_noncaching'', ''1'', ''2'', ''1'', ''2'',
      ''8'', ''1,1,1'', ''32'', ''1kB'', ''32'', ''32'', ''official_provider_host_dependent_ksva'',
      ''2'', ''mostly_incl'', ''2,2,1'', ''16'', ''32kB'', ''16'', ''16'', ''3'', ''mostly_incl'',
      ''1,1,1'', ''4'', ''48kB'', ''8'', ''8'', ''16'', ''mostly_excl'', ''12,12,5'', ''32'',
      ''1MB'', ''8'', ''8'', ''16'', ''8MiB'', ''mostly_excl'', ''1GHz'', ''20,20,20'', ''20'',
      ''16MB'', ''12'', ''8'', ''2'', ''0'', ''0x10010000'', ''addr'', ''1'', ''1152'', ''4096'',
      ''1024'', ''1024'', ''0'', ''64MiB'', ''RoRaBaCoCh'', ''4'', ''3'', ''1'', ''2'', ''4'',
      ''128'', ''0'', ''1'', ''10ns'', ''10ns'', ''10ns'', ''16'', ''16'', ''16'',
      ''open_adaptive'', ''1'', ''32'', ''frfcfs'', ''4GB'', ''DDR3_1600_8x8'', ''64'', ''85'',
      ''50'', ''modular-ns3ub'', ''100'', ''400'', ''100'', ''400'', ''2'', ''TournamentBP'',
      ''64'', ''32'', ''DefaultFUPool'',
      ''int_alu6,int_muldiv2,fp_alu4,fp_muldiv2,simd4,pred1,rdwr4,ipr1'', ''64'', ''4'', ''32'',
      ''1280'', ''256'', ''256'', ''2'', ''32'', ''256'', ''192'', ''32'', ''2'', ''8'', ''1'',
      ''100Gbps'', ''0'', ''0ns'', ''0'', ''100'', ''0'', ''400'', ''identity'', ''tp-context'',
      ''1'', ''0ns'', ''l1-switch'', ''0'', ''kvm'', ''udma400-kvm-functional-v2'', ''official'',
      ''128'', ''none'', ''dynamic_eid'', ''48'', ''16'', ''0ns'', ''4'', ''64'', ''16'', ''0ns'',
      ''adapter-local'', ''100'', ''auto'', ''0'', ''switch'', ''1'', ''switch-adapter'',
      ''context_pgd_control_abi_v2'', ''64'', ''fully_associative_lru_4KiB_context_tagged'',
      ''1ms'', ''4'', ''disabled'', ''64'', ''8'']"

definition modern_values :: "string list" where
  "modern_values =
     [''1'', ''2'', ''64'', ''none'', ''lru'', ''0'', ''1'', ''1'', ''1'', ''1'',
      ''ctp-rm-send-imm-i128'', ''1'', ''128'', ''1'', ''SEND_IMM'', ''RM'', ''64'', ''2MiB'',
      ''AtomicSimpleCPU'', ''4'', ''single_event_queue'', ''3.2GHz'', ''server_o3'', ''ArmO3CPU'',
      ''perftest_lifecycle_enter_o3_exit_atomic'', ''7'', ''off'', ''25600000'', ''0ns'', ''0'',
      ''udma'', ''16'', ''cacheline_and_4KiB_boundaries'', ''native_gem5_request_port_dynamic'',
      ''native'', ''100'', ''1us'', ''2GHz'', ''64'', ''1'', ''2GB'', ''atomic_noncaching'', ''1'',
      ''2'', ''1'', ''2'', ''8'', ''1,1,1'', ''32'', ''2MB'', ''32'', ''32'', ''not_applicable'',
      ''4'', ''mostly_incl'', ''2,2,1'', ''16'', ''64kB'', ''16'', ''16'', ''4'', ''mostly_incl'',
      ''1,1,1'', ''8'', ''64kB'', ''8'', ''8'', ''8'', ''mostly_excl'', ''12,12,5'', ''32'',
      ''1MB'', ''16'', ''16'', ''16'', ''8MiB'', ''mostly_excl'', ''2GHz'', ''20,20,20'', ''64'',
      ''32MB'', ''16'', ''32'', ''3'', ''1'', ''0x10010000'', ''inst'', ''1'', ''47'', ''524288'',
      ''8192'', ''8192'', ''256'', ''64MiB'', ''RoRaBaCoCh'', ''4'', ''3'', ''1'', ''2'', ''4'',
      ''128'', ''0'', ''16'', ''10ns'', ''10ns'', ''10ns'', ''16'', ''16'', ''16'',
      ''open_adaptive'', ''1'', ''64'', ''frfcfs'', ''4GB'', ''DDR5_6400_4x8'', ''128'', ''85'',
      ''50'', ''modular-ns3ub'', ''375'', ''400'', ''375'', ''400'', ''2'', ''TournamentBP'',
      ''64'', ''32'', ''DefaultFUPool'',
      ''int_alu6,int_muldiv2,fp_alu4,fp_muldiv2,simd4,pred1,rdwr4,ipr1'', ''64'', ''4'', ''32'',
      ''1280'', ''256'', ''256'', ''2'', ''32'', ''256'', ''192'', ''32'', ''2'', ''8'', ''4'',
      ''100Gbps'', ''0'', ''0ns'', ''0'', ''375'', ''0'', ''400'', ''identity'', ''tp-context'',
      ''1'', ''500ns'', ''l1-switch'', ''0'', ''modern'', ''modern-arm-o3-ddr5-6400-v4'',
      ''official'', ''1'', ''none'', ''dynamic_eid'', ''48'', ''16'', ''0ns'', ''4'', ''64'',
      ''16'', ''0ns'', ''adapter-local'', ''100'', ''auto'', ''0'', ''switch'', ''1'',
      ''switch-adapter'', ''context_pgd_control_abi_v2'', ''64'',
      ''fully_associative_lru_4KiB_context_tagged'', ''10ns'', ''4'', ''lifecycle'', ''64'', ''8'']"

definition server_values :: "string list" where
  "server_values =
     [''0'', ''2'', ''64'', ''none'', ''lru'', ''0'', ''1'', ''1'', ''1'', ''1'',
      ''ctp-rm-send-imm-i128'', ''1'', ''128'', ''1'', ''SEND_IMM'', ''RM'', ''64'', ''2MiB'',
      ''AtomicSimpleCPU'', ''4'', ''single_event_queue'', ''3GHz'', ''server_o3'', ''ArmO3CPU'',
      ''send_lat_roi_enter_o3_exit_atomic'', ''7'', ''off'', ''25600000'', ''0ns'', ''0'',
      ''udma'', ''16'', ''cacheline_and_4KiB_boundaries'', ''native_gem5_request_port_dynamic'',
      ''native'', ''100'', ''1us'', ''2GHz'', ''64'', ''0'', ''8GB'', ''atomic'', ''1'', ''2'',
      ''1'', ''2'', ''8'', ''1,1,1'', ''32'', ''1kB'', ''32'', ''32'', ''not_applicable'', ''4'',
      ''mostly_incl'', ''2,2,1'', ''16'', ''64kB'', ''16'', ''16'', ''4'', ''mostly_incl'',
      ''1,1,1'', ''8'', ''64kB'', ''8'', ''8'', ''8'', ''mostly_excl'', ''12,12,5'', ''32'',
      ''1MB'', ''16'', ''16'', ''16'', ''8MiB'', ''mostly_excl'', ''2GHz'', ''20,20,20'', ''64'',
      ''32MB'', ''16'', ''32'', ''3'', ''1'', ''0x10010000'', ''inst'', ''1'', ''1152'', ''4096'',
      ''1024'', ''1024'', ''0'', ''64MiB'', ''RoRaBaCoCh'', ''4'', ''3'', ''1'', ''2'', ''4'',
      ''128'', ''0'', ''8'', ''10ns'', ''10ns'', ''10ns'', ''16'', ''16'', ''16'',
      ''open_adaptive'', ''1'', ''64'', ''frfcfs'', ''4GB'', ''DDR4_2400_8x8'', ''128'', ''85'',
      ''50'', ''modular-ns3ub'', ''100'', ''400'', ''100'', ''400'', ''2'', ''TournamentBP'',
      ''64'', ''32'', ''DefaultFUPool'',
      ''int_alu6,int_muldiv2,fp_alu4,fp_muldiv2,simd4,pred1,rdwr4,ipr1'', ''64'', ''4'', ''32'',
      ''1280'', ''256'', ''256'', ''2'', ''32'', ''256'', ''192'', ''32'', ''2'', ''8'', ''4'',
      ''100Gbps'', ''0'', ''0ns'', ''0'', ''100'', ''0'', ''400'', ''identity'', ''tp-context'',
      ''1'', ''0ns'', ''l1-switch'', ''0'', ''server'', ''server-o3-ddr4-coherent-tdma-v5'',
      ''official'', ''128'', ''none'', ''dynamic_eid'', ''48'', ''16'', ''0ns'', ''4'', ''64'',
      ''16'', ''0ns'', ''adapter-local'', ''100'', ''auto'', ''0'', ''switch'', ''1'',
      ''switch-adapter'', ''context_pgd_control_abi_v2'', ''64'',
      ''fully_associative_lru_4KiB_context_tagged'', ''10ns'', ''4'', ''lifecycle'', ''64'', ''8'']"

definition udma400_values :: "string list" where
  "udma400_values =
     [''0'', ''-1'', ''64'', ''none'', ''lru'', ''0'', ''1'', ''1'', ''1'', ''1'',
      ''ctp-rm-send-imm-i128'', ''1'', ''128'', ''1'', ''SEND_IMM'', ''RM'', ''64'', ''2MiB'',
      ''AtomicSimpleCPU'', ''1'', ''single_event_queue'', ''3GHz'', ''atomic_cache'',
      ''AtomicSimpleCPU'', ''none'', ''7'', ''off'', ''25600000'', ''0ns'', ''0'', ''udma'',
      ''16'', ''cacheline_and_4KiB_boundaries'', ''native_gem5_request_port_dynamic'', ''native'',
      ''100'', ''1us'', ''1GHz'', ''16'', ''0'', ''1GB'', ''atomic'', ''1'', ''2'', ''1'', ''2'',
      ''8'', ''1,1,1'', ''32'', ''1kB'', ''32'', ''32'', ''not_applicable'', ''2'',
      ''mostly_incl'', ''2,2,1'', ''16'', ''32kB'', ''16'', ''16'', ''3'', ''mostly_incl'',
      ''1,1,1'', ''4'', ''48kB'', ''8'', ''8'', ''16'', ''mostly_excl'', ''12,12,5'', ''32'',
      ''1MB'', ''8'', ''8'', ''16'', ''8MiB'', ''mostly_excl'', ''1GHz'', ''20,20,20'', ''20'',
      ''16MB'', ''12'', ''8'', ''2'', ''1'', ''0x10010000'', ''inst'', ''1'', ''1152'', ''4096'',
      ''1024'', ''1024'', ''0'', ''64MiB'', ''RoRaBaCoCh'', ''4'', ''3'', ''1'', ''2'', ''4'',
      ''128'', ''0'', ''1'', ''10ns'', ''10ns'', ''10ns'', ''16'', ''16'', ''16'',
      ''open_adaptive'', ''1'', ''32'', ''frfcfs'', ''4GB'', ''DDR3_1600_8x8'', ''64'', ''85'',
      ''50'', ''modular-ns3ub'', ''100'', ''400'', ''100'', ''400'', ''2'', ''TournamentBP'',
      ''64'', ''32'', ''DefaultFUPool'',
      ''int_alu6,int_muldiv2,fp_alu4,fp_muldiv2,simd4,pred1,rdwr4,ipr1'', ''64'', ''4'', ''32'',
      ''1280'', ''256'', ''256'', ''2'', ''32'', ''256'', ''192'', ''32'', ''2'', ''8'', ''1'',
      ''100Gbps'', ''0'', ''0ns'', ''0'', ''100'', ''0'', ''400'', ''identity'', ''tp-context'',
      ''1'', ''0ns'', ''l1-switch'', ''0'', ''udma400'', ''udma400-atomic-cache-v1'', ''official'',
      ''128'', ''none'', ''dynamic_eid'', ''48'', ''16'', ''0ns'', ''4'', ''64'', ''16'', ''0ns'',
      ''adapter-local'', ''100'', ''auto'', ''0'', ''switch'', ''1'', ''switch-adapter'',
      ''context_pgd_control_abi_v2'', ''64'', ''fully_associative_lru_4KiB_context_tagged'',
      ''10ns'', ''4'', ''lifecycle'', ''64'', ''8'']"

definition PROFILE_DEFAULTS :: "(string \<times> sdict) list" where
  "PROFILE_DEFAULTS =
     [(''fast'', zip profile_keys fast_values),
      (''kvm'', zip profile_keys kvm_values),
      (''modern'', zip profile_keys modern_values),
      (''server'', zip profile_keys server_values),
      (''udma400'', zip profile_keys udma400_values)]"

text \<open>The keys are in strictly increasing order, hence distinct.\<close>

lemma profile_keys_increasing: "successively (<) profile_keys"
  by code_simp

lemma profile_keys_distinct: "distinct profile_keys"
  using profile_keys_increasing
  by (simp add: successively_conv_sorted_wrt strict_sorted_iff)

lemma profile_values_length:
  "length fast_values = length profile_keys" "length kvm_values = length profile_keys"
  "length modern_values = length profile_keys" "length server_values = length profile_keys"
  "length udma400_values = length profile_keys"
  by code_simp+

lemma profile_defaults_keys:
  assumes "map_of PROFILE_DEFAULTS profile = Some d"
  shows "map fst d = profile_keys"
  using assms by (auto simp: PROFILE_DEFAULTS_def profile_values_length split: if_splits)

end
