(* ===== verification/Config_Runtime.thy ===== *)
theory Config_Runtime
  imports Topology_Facts Profile_Defaults
begin

section \<open>Resolving a topology to a gem5 manifest\<close>

text \<open>
  Model of \<^verbatim>\<open>ubsim_lab/config_runtime.py\<close>.  The manifest is a dictionary of strings; a JSON
  value that the source stores or formats appears as its \<^verbatim>\<open>str\<close>, which is what every later
  use of the manifest prints.
\<close>

subsection \<open>The resolver\<close>

definition min_of :: "int list \<Rightarrow> int res" where
  "min_of xs = (case xs of [] \<Rightarrow> Inl (ValueError ''min() arg is an empty sequence'')
     | x # ys \<Rightarrow> Inr (fold min ys x))"

definition node_key :: "nat \<Rightarrow> string \<Rightarrow> string" where
  "node_key i field = ''node'' @ str_int (int i) @ field"

definition set_node_link :: "nat \<times> (int \<times> int) \<Rightarrow> sdict \<Rightarrow> sdict" where
  "set_node_link x values = (case x of (index, (rate, latency)) \<Rightarrow>
     dict_set (node_key index ''_link_rate_gbps'') (str_int rate)
       (dict_set (node_key index ''_link_latency_ns'') (str_int latency) values))"

definition drop_node_link :: "nat \<Rightarrow> sdict \<Rightarrow> sdict" where
  "drop_node_link index values =
     dict_pop (node_key index ''_link_rate_gbps'') (dict_pop (node_key index ''_link_latency_ns'') values)"

definition lifecycle_updates :: "string \<Rightarrow> bool \<Rightarrow> sdict" where
  "lifecycle_updates profile lifecycle =
     (if profile = ''modern'' \<and> lifecycle
      then [(''auto_o3_lifecycle'', ''1''), (''fast_boot_noncaching'', ''1''),
            (''initial_memory_mode'', ''atomic_noncaching''),
            (''cpu_switch_policy'', ''perftest_lifecycle_enter_o3_exit_atomic'')]
      else [(''auto_o3_lifecycle'', ''0''), (''fast_boot_noncaching'', ''0'')] @
           (if profile = ''modern''
            then [(''initial_memory_mode'', ''atomic''),
                  (''cpu_switch_policy'', ''send_lat_roi_enter_o3_exit_atomic'')]
            else []))"

definition machine_field :: "string \<Rightarrow> string \<Rightarrow> dict \<Rightarrow> sdict \<Rightarrow> sdict" where
  "machine_field key target machine values =
     (case map_of machine key of Some v \<Rightarrow> dict_set target (py_str v) values | None \<Rightarrow> values)"

definition initrd_of :: "string \<Rightarrow> string \<Rightarrow> string" where
  "initrd_of profile memory =
     (if profile = ''modern'' \<and> memory = ''4GB''
      then ''out/official-udma-64k-node-template-20261021.cpio.gz''
      else ''out/official-udma-64k-20261015.cpio.gz'')"

definition resolved_updates ::
    "string \<Rightarrow> string \<Rightarrow> string \<Rightarrow> int \<Rightarrow> int \<Rightarrow> bool \<Rightarrow> plan \<Rightarrow> int \<Rightarrow> string \<Rightarrow> sdict" where
  "resolved_updates root profile memory latency quantum lifecycle plan rate public_jettys =
     [(''initrd_path'', path_under root (initrd_of profile memory)),
      (''execution_mode'', ''native''),
      (''node_count'', str_int (int (length (p_node_ids plan)))),
      (''memory_size'', memory),
      (''peer_latency_ns'', str_int latency),
      (''sync_quantum_ns'', str_int quantum),
      (''external_udma_host_latency_ns'', str_int quantum),
      (''sync_request'', if lifecycle then ''roi'' else ''off''),
      (''virtual_time_synchronization'', if lifecycle then ''lifecycle'' else ''disabled''),
      (''lifecycle_sync'', if lifecycle then ''1'' else ''0''),
      (''restore_checkpoint'', ''none''),
      (''template_checkpoint'', ''0''),
      (''ub_fabric_layout'', p_fabric_layout plan),
      (''ub_port_count'', str_int (p_port_count plan)),
      (''peer_link_rate_gbps'', str_int rate),
      (''peer_switch_delay'', str_int (p_switch_delay_ns plan) @ ''ns''),
      (''max_jettys'', str_int (p_max_jettys plan)),
      (''public_jettys'', public_jettys)]"

definition spec_machine :: "dict \<Rightarrow> dict res" where
  "spec_machine spec = (case map_of spec ''machine'' of
       None \<Rightarrow> Inr []
     | Some (JObj d) \<Rightarrow> Inr d
     | Some _ \<Rightarrow> Inl (AttributeError ''get''))"

text \<open>\<^verbatim>\<open>PROFILE_DEFAULTS[profile]\<close> for a JSON value: an unhashable one raises \<^verbatim>\<open>TypeError\<close>.\<close>

definition profile_values :: "json \<Rightarrow> (string \<times> sdict) res" where
  "profile_values v = (case v of
       JStr profile \<Rightarrow> rbind (getitem profile PROFILE_DEFAULTS) (\<lambda>d. Inr (profile, d))
     | _ \<Rightarrow> if hashable v then Inl (KeyError ''profile'') else unhashable)"

definition finish_manifest :: "dict \<Rightarrow> plan \<Rightarrow> sdict \<Rightarrow> sdict" where
  "finish_manifest machine plan values =
     (let v1 = machine_field ''o3_lq_entries'' ''o3_lq_entries'' machine values;
          v2 = machine_field ''o3_sq_entries'' ''o3_sq_entries'' machine v1;
          v3 = machine_field ''l1d_prefetcher'' ''cache_prefetcher'' machine v2;
          v4 = fold set_node_link (enumerate 0 (p_node_links plan)) v3
      in fold drop_node_link [length (p_node_ids plan)..<8] v4)"

definition resolve_gem5 :: "string \<Rightarrow> dict \<Rightarrow> plan \<Rightarrow> sdict res" where
  "resolve_gem5 root spec plan =
     (if p_simulator plan \<noteq> ''gem5''
      then Inl (ValueError ''gem5 configuration requires gem5 topology'')
      else rbind (getitem ''nodes'' spec)
        (\<lambda>nodes. rbind (jindex 0 nodes)
        (\<lambda>node. rbind (jget ''profile'' node)
        (\<lambda>raw_profile. rbind (profile_values raw_profile)
        (\<lambda>(profile, values). rbind (min_of (map snd (p_node_links plan)))
        (\<lambda>latency. let quantum = (if profile = ''modern'' then min 100 latency else latency) in
           rbind (spec_machine spec)
        (\<lambda>machine. let memory = py_str (dict_get ''memory_size_gb'' (JInt 32) machine) @ ''GB'' in
           rbind (getitem ''execution'' spec)
        (\<lambda>execution. rbind (jget ''sync'' execution)
        (\<lambda>sync. let lifecycle = (sync = JStr ''required'') in
           rbind (if p_jetty_limit_explicit plan then Inr ''1'' else getitem ''public_jettys'' values)
        (\<lambda>public_jettys. Inr (finish_manifest machine plan
             (dict_update
               (dict_update values (resolved_updates root profile memory latency quantum lifecycle plan
                  (fst (hd (p_node_links plan))) public_jettys))
               (lifecycle_updates profile lifecycle)))))))))))))"

end
