(* ===== verification/Config_Facts.thy ===== *)
theory Config_Facts
  imports Config_Runtime
begin

section \<open>Properties of the resolved manifest\<close>

text \<open>
  Resolution is total on compiled gem5 topologies, keeps every key of the profile table, writes
  exactly the links of the plan, and never chooses a synchronisation quantum above a link delay.
\<close>

subsection \<open>Keys of the per-node links\<close>

definition link_fields :: "string list" where
  "link_fields = [''_link_latency_ns'', ''_link_rate_gbps'']"

definition is_link_key :: "string \<Rightarrow> bool" where
  "is_link_key k \<longleftrightarrow> (\<exists>i f. f \<in> set link_fields \<and> k = node_key i f)"

lemma digits_append_inject:
  assumes "\<forall>c \<in> set s. is_digit c" "\<forall>c \<in> set t. is_digit c" "s @ CHR ''_'' # f = t @ CHR ''_'' # g"
  shows "s = t \<and> f = g"
proof -
  have und: "\<not> is_digit (CHR ''_'')" by (simp add: is_digit_def)
  have "takeWhile is_digit (s @ CHR ''_'' # f) = s" "takeWhile is_digit (t @ CHR ''_'' # g) = t"
    using assms(1,2) und by simp_all
  with assms(3) show ?thesis by simp
qed

lemma node_key_inject:
  assumes "node_key i f = node_key j g" and "f \<in> set link_fields" and "g \<in> set link_fields"
  shows "i = j \<and> f = g"
proof -
  from assms(2,3) obtain f' g' where fg: "f = CHR ''_'' # f'" "g = CHR ''_'' # g'"
    by (auto simp: link_fields_def)
  have "show_nat i @ CHR ''_'' # f' = show_nat j @ CHR ''_'' # g'"
    using assms(1) by (simp add: node_key_def str_int_def fg)
  from digits_append_inject [OF show_nat_digits show_nat_digits this]
  show ?thesis
    unfolding fg by (metis option.inject parse_nat_show_nat)
qed

lemma node_key_rate_latency [simp]:
  "node_key i ''_link_rate_gbps'' \<noteq> node_key j ''_link_latency_ns''"
  "node_key j ''_link_latency_ns'' \<noteq> node_key i ''_link_rate_gbps''"
  "node_key i ''_link_latency_ns'' = node_key j ''_link_latency_ns'' \<longleftrightarrow> i = j"
  "node_key i ''_link_rate_gbps'' = node_key j ''_link_rate_gbps'' \<longleftrightarrow> i = j"
  using node_key_inject [of i "''_link_rate_gbps''" j "''_link_latency_ns''"]
    node_key_inject [of i "''_link_latency_ns''" j "''_link_latency_ns''"]
    node_key_inject [of i "''_link_rate_gbps''" j "''_link_rate_gbps''"]
  by (auto simp: link_fields_def)

lemma not_link_key:
  "\<not> is_link_key k \<Longrightarrow> k \<noteq> node_key i ''_link_rate_gbps'' \<and> k \<noteq> node_key i ''_link_latency_ns''"
  by (auto simp: is_link_key_def link_fields_def)

lemma link_key_shape: "is_link_key k \<Longrightarrow> \<exists>c s. k = ''node'' @ c # s \<and> is_digit c"
proof -
  assume "is_link_key k"
  then obtain i f where "k = ''node'' @ show_nat i @ f"
    by (auto simp: is_link_key_def node_key_def str_int_def)
  moreover obtain c s where "show_nat i = c # s" by (cases "show_nat i") auto
  moreover have "is_digit c" using show_nat_digits [of i] \<open>show_nat i = c # s\<close> by simp
  ultimately show ?thesis by auto
qed

subsection \<open>The loops that write and drop links\<close>

lemma set_node_links_other:
  "\<not> is_link_key k \<Longrightarrow> map_of (fold set_node_link xs d) k = map_of d k"
  by (induction xs arbitrary: d) (auto simp: set_node_link_def dest: not_link_key split: prod.split)

lemma drop_node_links_other:
  "\<not> is_link_key k \<Longrightarrow> map_of (fold drop_node_link is d) k = map_of d k"
  by (induction "is" arbitrary: d) (auto simp: drop_node_link_def dest: not_link_key)

lemma drop_node_links_kept:
  "f \<in> set link_fields \<Longrightarrow> i \<notin> set is \<Longrightarrow>
     map_of (fold drop_node_link is d) (node_key i f) = map_of d (node_key i f)"
  by (induction "is" arbitrary: d) (auto simp: drop_node_link_def link_fields_def)

lemma drop_node_links_dropped:
  "f \<in> set link_fields \<Longrightarrow> i \<in> set is \<Longrightarrow> map_of (fold drop_node_link is d) (node_key i f) = None"
proof (induction "is" arbitrary: d)
  case (Cons j js)
  show ?case
  proof (cases "i \<in> set js")
    case False
    with Cons.prems have "i = j" by simp
    with Cons.prems False show ?thesis
      by (simp add: drop_node_links_kept) (auto simp: drop_node_link_def link_fields_def)
  qed (use Cons in simp)
qed simp

lemma set_node_link_at:
  "map_of (set_node_link (n, x) d) (node_key n ''_link_latency_ns'') = Some (str_int (snd x))"
  "map_of (set_node_link (n, x) d) (node_key n ''_link_rate_gbps'') = Some (str_int (fst x))"
  by (simp_all add: set_node_link_def split: prod.split)

lemma set_node_links_before:
  "f \<in> set link_fields \<Longrightarrow> n < m \<Longrightarrow>
     map_of (fold set_node_link (enumerate m links) d) (node_key n f) = map_of d (node_key n f)"
  by (induction links arbitrary: m d) (auto simp: set_node_link_def link_fields_def split: prod.split)

lemma set_node_links_at:
  assumes "i < length links"
  shows "map_of (fold set_node_link (enumerate n links) d) (node_key (n + i) ''_link_latency_ns'') =
       Some (str_int (snd (links ! i)))"
    and "map_of (fold set_node_link (enumerate n links) d) (node_key (n + i) ''_link_rate_gbps'') =
       Some (str_int (fst (links ! i)))"
  using assms
proof (induction links arbitrary: n d i)
  case (Cons x links)
  {
    case 1
    then show ?case
      using Cons.IH(1) [of "i - 1" "Suc n"]
      by (cases i) (simp_all add: set_node_links_before set_node_link_at link_fields_def)
  next
    case 2
    then show ?case
      using Cons.IH(2) [of "i - 1" "Suc n"]
      by (cases i) (simp_all add: set_node_links_before set_node_link_at link_fields_def)
  }
qed simp_all

lemma machine_field_other: "k \<noteq> target \<Longrightarrow> map_of (machine_field key target machine d) k = map_of d k"
  by (simp add: machine_field_def split: option.split)

lemma machine_field_has: "has_key k d \<Longrightarrow> has_key k (machine_field key target machine d)"
  by (auto simp: machine_field_def has_key_map_of split: option.split)

lemma dict_update_has: "has_key k d \<Longrightarrow> has_key k (dict_update d e)"
  by (auto simp: has_key_map_of map_of_dict_update split: option.split)

lemma dict_update_has_new: "k \<in> fst ` set e \<Longrightarrow> has_key k (dict_update d e)"
  unfolding has_key_map_of map_of_dict_update
  by (metis (mono_tags, lifting) has_key_def has_key_map_of option.simps(5) set_rev)

lemma link_loops_has:
  assumes "\<not> is_link_key k"
  shows "has_key k (fold drop_node_link is d) \<longleftrightarrow> has_key k d"
    and "has_key k (fold set_node_link xs d) \<longleftrightarrow> has_key k d"
  using assms by (simp_all add: has_key_map_of drop_node_links_other set_node_links_other)

lemma finish_manifest_has: "has_key k d \<Longrightarrow> \<not> is_link_key k \<Longrightarrow> has_key k (finish_manifest machine plan d)"
  unfolding finish_manifest_def Let_def by (simp add: link_loops_has machine_field_has)

lemma finish_manifest_other:
  "\<not> is_link_key k \<Longrightarrow> k \<notin> {''o3_lq_entries'', ''o3_sq_entries'', ''cache_prefetcher''} \<Longrightarrow>
     map_of (finish_manifest machine plan d) k = map_of d k"
  unfolding finish_manifest_def Let_def
  by (simp add: drop_node_links_other set_node_links_other machine_field_other)

subsection \<open>Totality on compiled topologies\<close>

lemma check_machine_object:
  "check_machine spec sim = Inr machine \<Longrightarrow> spec_machine spec = Inr machine"
  unfolding check_machine_def spec_machine_def
  by (auto simp: has_key_map_of split: if_splits option.splits)

lemma accepted_first_profile:
  assumes acc: "accepted raw p nodes devices switches links machine ns ds" and sim: "p_simulator p = ''gem5''"
  shows "\<exists>d profile. nodes \<noteq> [] \<and> nodes ! 0 = JObj d \<and> map_of d ''profile'' = Some (JStr profile) \<and>
     profile \<in> set GEM5_PROFILES"
proof -
  from acc have rules: "node_rules ns (length nodes) (p_checkpoint p) = Inr (p_simulator p)"
    by (simp add: accepted_def)
  note inv = accepted_facts(1) [OF acc]
  note n = node_rules_Inr [OF rules inv]
  have "list_all (\<lambda>x. node_profile (snd x)) (enumerate 0 nodes)"
    using inv n(1) sim by (simp add: node_inv_def)
  moreover have "0 < length nodes" using n(3) by linarith
  ultimately have "node_profile (nodes ! 0)"
    by (auto simp: list_all_length nth_enumerate_eq)
  with \<open>0 < length nodes\<close> show ?thesis
    by (auto simp: node_profile_def)
qed

lemma profile_values_known:
  "profile \<in> set GEM5_PROFILES \<Longrightarrow> \<exists>d. profile_values (JStr profile) = Inr (profile, d) \<and> map fst d = profile_keys \<and>
     map_of PROFILE_DEFAULTS profile = Some d"
  by (auto simp: profile_values_def GEM5_PROFILES_def PROFILE_DEFAULTS_def getitem_def profile_values_length)

lemma min_of_Inr:
  assumes "xs \<noteq> []"
  shows "\<exists>m. min_of xs = Inr m \<and> m \<in> set xs \<and> (\<forall>x \<in> set xs. m \<le> x)"
proof -
  obtain y ys where xs: "xs = y # ys" using assms by (cases xs) auto
  have "fold min ys y = Min (set (y # ys))"
    by (rule Min.set_eq_fold [symmetric])
  then show ?thesis
    unfolding xs by (simp add: min_of_def Min_in Min_le del: fold.simps)
      (metis List.finite_set Min_in Min_le finite_insert insertE insertI1 insert_not_empty)
qed

lemma public_jettys_key: "''public_jettys'' \<in> set profile_keys"
  by code_simp

definition resolved_form ::
    "string \<Rightarrow> plan \<Rightarrow> dict \<Rightarrow> string \<Rightarrow> sdict \<Rightarrow> int \<Rightarrow> string \<Rightarrow> sdict" where
  "resolved_form root p machine profile vals latency pj = finish_manifest machine p
     (dict_update (dict_update vals (resolved_updates root profile
          (py_str (dict_get ''memory_size_gb'' (JInt 32) machine) @ ''GB'') latency
          (if profile = ''modern'' then min 100 latency else latency) (p_sync p = ''required'') p
          (fst (hd (p_node_links p))) pj))
        (lifecycle_updates profile (p_sync p = ''required'')))"

lemma resolve_accepted:
  assumes "compile_topology (JObj spec) = Inr p" and "p_simulator p = ''gem5''"
  obtains machine profile vals latency pj where
    "resolve_gem5 root spec p = Inr (resolved_form root p machine profile vals latency pj)"
    and "map fst vals = profile_keys" and "profile \<in> set GEM5_PROFILES"
    and "latency \<in> snd ` set (p_node_links p)" and "\<forall>l \<in> set (p_node_links p). latency \<le> snd l"
    and "map_of PROFILE_DEFAULTS profile = Some vals"
proof -
  from compile_topology_accepted [OF assms(1)] obtain nodes devices switches links machine ns ds where
    acc: "accepted (JObj spec) p nodes devices switches links machine ns ds"
    by blast
  from accepted_first_profile [OF acc assms(2)] obtain d profile where
    prof: "nodes \<noteq> []" "nodes ! 0 = JObj d" "map_of d ''profile'' = Some (JStr profile)" "profile \<in> set GEM5_PROFILES"
    by blast
  from profile_values_known [OF prof(4)] obtain vals where
    vals: "profile_values (JStr profile) = Inr (profile, vals)" "map fst vals = profile_keys"
      "map_of PROFILE_DEFAULTS profile = Some vals"
    by blast
  have "p_node_links p \<noteq> []"
    using compile_topology_accepted [OF assms(1)] accepted_links_ok(1) [OF acc] accepted_facts(3) [OF acc] prof(1)
    by auto
  then obtain latency where lat: "min_of (map snd (p_node_links p)) = Inr latency"
      "latency \<in> snd ` set (p_node_links p)" "\<forall>l \<in> set (p_node_links p). latency \<le> snd l"
    using min_of_Inr [of "map snd (p_node_links p)"] by auto
  from acc obtain ex where spec: "map_of spec ''nodes'' = Some (JList nodes)"
      "map_of spec ''execution'' = Some (JObj ex)" "map_of ex ''sync'' = Some (JStr (p_sync p))"
      "check_machine spec (p_simulator p) = Inr machine"
    by (auto simp: accepted_def)
  have "has_key ''public_jettys'' vals"
    using vals(2) public_jettys_key by (metis has_key_def set_map)
  then obtain pj where pj: "(if p_jetty_limit_explicit p then Inr ''1'' else getitem ''public_jettys'' vals) = Inr pj"
    by (cases "p_jetty_limit_explicit p") (simp_all add: getitem_present)
  have "resolve_gem5 root spec p = Inr (resolved_form root p machine profile vals latency pj)"
    unfolding resolve_gem5_def resolved_form_def
    using prof vals lat spec assms(2) pj check_machine_object [OF spec(4)]
    by (simp add: getitem_def jindex_def jget_def Let_def)
  from that [OF this vals(2) prof(4) lat(2,3) vals(3)] show ?thesis .
qed

lemma not_link_keys:
  "\<not> is_link_key ''sync_quantum_ns''" "\<not> is_link_key ''peer_latency_ns''"
  "\<not> is_link_key ''external_udma_host_latency_ns''" "\<not> is_link_key ''virtual_time_synchronization''"
  by (auto dest!: link_key_shape)

lemma resolved_value:
  assumes "map_of (rev e) k = Some v" and "map_of (rev l) k = None" and "\<not> is_link_key k"
    and "k \<notin> {''o3_lq_entries'', ''o3_sq_entries'', ''cache_prefetcher''}"
  shows "map_of (finish_manifest machine p (dict_update (dict_update d e) l)) k = Some v"
  using assms by (simp add: finish_manifest_other map_of_dict_update)

lemma resolved_default:
  assumes "map_of (rev e) k = None" and "map_of (rev l) k = None" and "\<not> is_link_key k"
    and "k \<notin> {''o3_lq_entries'', ''o3_sq_entries'', ''cache_prefetcher''}"
  shows "map_of (finish_manifest machine p (dict_update (dict_update d e) l)) k = map_of d k"
  using assms by (simp add: finish_manifest_other map_of_dict_update)

lemma resolve_quantum:
  assumes "compile_topology (JObj spec) = Inr p" and "p_simulator p = ''gem5''"
    and "resolve_gem5 root spec p = Inr m"
  obtains latency profile where "map_of m ''peer_latency_ns'' = Some (str_int latency)"
    and "map_of m ''sync_quantum_ns'' = Some (str_int (if profile = ''modern'' then min 100 latency else latency))"
    and "map_of m ''external_udma_host_latency_ns'' = map_of m ''sync_quantum_ns''"
    and "map_of m ''virtual_time_synchronization'' =
        Some (if p_sync p = ''required'' then ''lifecycle'' else ''disabled'')"
    and "latency \<in> snd ` set (p_node_links p)" and "\<forall>l \<in> set (p_node_links p). latency \<le> snd l"
proof -
  obtain machine profile vals latency pj where
      res: "resolve_gem5 root spec p = Inr (resolved_form root p machine profile vals latency pj)"
    and lat: "latency \<in> snd ` set (p_node_links p)" "\<forall>l \<in> set (p_node_links p). latency \<le> snd l"
    by (rule resolve_accepted [OF assms(1,2)])
  have m: "m = resolved_form root p machine profile vals latency pj"
    using res assms(3) by simp
  have val: "map_of m ''peer_latency_ns'' = Some (str_int latency)"
    "map_of m ''sync_quantum_ns'' = Some (str_int (if profile = ''modern'' then min 100 latency else latency))"
    "map_of m ''external_udma_host_latency_ns'' = Some (str_int (if profile = ''modern'' then min 100 latency else latency))"
    "map_of m ''virtual_time_synchronization'' = Some (if p_sync p = ''required'' then ''lifecycle'' else ''disabled'')"
    unfolding m resolved_form_def
    by (rule resolved_value; simp add: not_link_keys resolved_updates_def lifecycle_updates_def)+
  show ?thesis
    using val lat by (intro that) simp_all
qed

subsection \<open>Main properties\<close>

definition gem5_spec :: dict where
  "gem5_spec = (case gem5_two_heads of JObj d \<Rightarrow> d | _ \<Rightarrow> [])"

lemma compile_gem5_spec: "compile_topology (JObj gem5_spec) = Inr gem5_two_heads_plan"
  using compile_gem5_two_heads by (simp add: gem5_spec_def gem5_two_heads_def)

lemma gem5_plan_simulator: "p_simulator gem5_two_heads_plan = ''gem5''"
  by (simp add: gem5_two_heads_plan_def)



text \<open>
  The manifest carries exactly the links of the plan: node \<open>i\<close> below the node count has
  the plan's delay and rate, and no key is left for the nodes from the count up to eight, whatever
  the profile table held.
\<close>

theorem resolve_gem5_links:
  assumes "compile_topology (JObj spec) = Inr p" and "p_simulator p = ''gem5''"
    and "resolve_gem5 root spec p = Inr m" and "i < 8"
  shows "map_of m (node_key i ''_link_latency_ns'') =
       (if i < length (p_node_ids p) then Some (str_int (snd (p_node_links p ! i))) else None) \<and>
     map_of m (node_key i ''_link_rate_gbps'') =
       (if i < length (p_node_ids p) then Some (str_int (fst (p_node_links p ! i))) else None)"
proof -
  obtain machine profile vals latency pj where
      res: "resolve_gem5 root spec p = Inr (resolved_form root p machine profile vals latency pj)"
    by (rule resolve_accepted [OF assms(1,2)])
  have m: "m = resolved_form root p machine profile vals latency pj"
    using res assms(3) by simp
  from compile_topology_accepted [OF assms(1)] have len: "length (p_node_links p) = length (p_node_ids p)"
    using accepted_links_ok(1) by blast
  show ?thesis
    using assms(4) set_node_links_at [of i "p_node_links p" 0]
    by (auto simp: m resolved_form_def finish_manifest_def Let_def len link_fields_def
        drop_node_links_kept drop_node_links_dropped)
qed

text \<open>
  C21.  The synchronisation quantum is safe: it is positive and at most the smallest link delay of
  the plan, so no message can arrive inside the quantum in which it was sent; the host link uses the
  same value.
\<close>

theorem resolve_gem5_quantum:
  assumes "compile_topology (JObj spec) = Inr p" and "p_simulator p = ''gem5''"
    and "resolve_gem5 root spec p = Inr m"
  shows "\<exists>q. map_of m ''sync_quantum_ns'' = Some (str_int q) \<and>
     map_of m ''external_udma_host_latency_ns'' = Some (str_int q) \<and> 1 \<le> q \<and>
     (\<forall>l \<in> set (p_node_links p). q \<le> snd l)"
proof -
  obtain latency profile where v: "map_of m ''sync_quantum_ns'' =
        Some (str_int (if profile = ''modern'' then min 100 latency else latency))"
      "map_of m ''external_udma_host_latency_ns'' = map_of m ''sync_quantum_ns''"
      "latency \<in> snd ` set (p_node_links p)" "\<forall>l \<in> set (p_node_links p). latency \<le> snd l"
    by (rule resolve_quantum [OF assms])
  from compile_topology_accepted [OF assms(1)] have "list_all link_ok (p_node_links p)"
    using accepted_links_ok(2) by blast
  then have "1 \<le> latency"
    using v(3) by (auto simp: list_all_iff link_ok_def)
  with v show ?thesis
    by (intro exI [of _ "if profile = ''modern'' then min 100 latency else latency"]) (auto simp: min_def)
qed

lemma resolve_gem5_spec: "\<exists>m. resolve_gem5 ''/lab'' gem5_spec gem5_two_heads_plan = Inr m"
  by (rule resolve_accepted [OF compile_gem5_spec gem5_plan_simulator]) blast

theorem resolve_gem5_links_witness:
  "\<exists>m. resolve_gem5 ''/lab'' gem5_spec gem5_two_heads_plan = Inr m \<and>
     map_of m (node_key 1 ''_link_latency_ns'') = Some (str_int 375) \<and>
     map_of m (node_key 2 ''_link_latency_ns'') = None"
proof -
  from resolve_gem5_spec obtain m where m: "resolve_gem5 ''/lab'' gem5_spec gem5_two_heads_plan = Inr m"
    by blast
  note links = resolve_gem5_links [OF compile_gem5_spec gem5_plan_simulator m]
  from links [of 1] links [of 2] m show ?thesis
    by (auto simp: gem5_two_heads_plan_def)
qed

theorem resolve_gem5_quantum_witness:
  "\<exists>m q. resolve_gem5 ''/lab'' gem5_spec gem5_two_heads_plan = Inr m \<and>
     map_of m ''sync_quantum_ns'' = Some (str_int q) \<and> 1 \<le> q \<and> q \<le> 375"
proof -
  from resolve_gem5_spec obtain m where m: "resolve_gem5 ''/lab'' gem5_spec gem5_two_heads_plan = Inr m"
    by blast
  from resolve_gem5_quantum [OF compile_gem5_spec gem5_plan_simulator m] m show ?thesis
    by (auto simp: gem5_two_heads_plan_def)
qed

end
