(* ===== verification/Lab_Cli.thy ===== *)
theory Lab_Cli
  imports Py_Prelude
begin

section \<open>The command line: options, manifests and checkpoint selection\<close>

text \<open>
  Model of \<^verbatim>\<open>ubsim_lab/cli.py\<close> but for its \<^verbatim>\<open>main\<close>, which is in the theory Lab_Main.
  A command runs in a \<open>lab_world\<close>: the environment, the files it asks about, the child
  processes it runs (a function from argument vector and environment to the finished process) and
  the retained checkpoints.  A command returns its exit status together with the children it ran.
\<close>

subsection \<open>The world a command runs in\<close>

record checkpoint_dir =
  cd_name :: string
  cd_manifest :: string
  cd_metadata :: "string option"
  cd_exists :: "string \<Rightarrow> bool"

record lab_world =
  lw_root :: string
  lw_env :: sdict
  lw_is_file :: "string \<Rightarrow> bool"
  lw_run :: "string list \<Rightarrow> sdict \<Rightarrow> proc"
  lw_system :: string
  lw_machine :: string
  lw_sha256 :: "string \<Rightarrow> string option"
  lw_checkpoints :: "checkpoint_dir list"

text \<open>
  \<open>lw_sha256 path\<close> is the SHA-256 digest of a regular file, \<^const>\<open>None\<close> when there is none.
\<close>

record lab_command =
  lc_script :: string
  lc_summary :: string

definition COMMANDS :: "(string \<times> lab_command) list" where
  "COMMANDS = [
     (''start'', \<lparr>lc_script = ''scripts/run/run-dual.sh'', lc_summary = ''start the multi-node full-system simulation''\<rparr>),
     (''start-qemu'', \<lparr>lc_script = ''scripts/run/run-qemu.sh'', lc_summary = ''start the QEMU UB-HOST probe environment''\<rparr>),
     (''start-qemu-dual'', \<lparr>lc_script = ''scripts/run/run-qemu-dual.sh'', lc_summary = ''start two QEMU guests on the modular ns-3 UB fabric''\<rparr>),
     (''status-qemu'', \<lparr>lc_script = ''scripts/run/status-qemu-dual.sh'', lc_summary = ''show the QEMU dual-node process and boot state''\<rparr>),
     (''stop-qemu'', \<lparr>lc_script = ''scripts/run/stop-qemu-dual.sh'', lc_summary = ''stop the QEMU dual-node environment''\<rparr>),
     (''status'', \<lparr>lc_script = ''scripts/run/status-dual.sh'', lc_summary = ''show node and switch process state''\<rparr>),
     (''stop'', \<lparr>lc_script = ''scripts/run/stop-dual.sh'', lc_summary = ''stop the current multi-node simulation''\<rparr>),
     (''sync'', \<lparr>lc_script = ''scripts/run/sync-dual.sh'', lc_summary = ''finish guest network and time-sync setup''\<rparr>),
     (''checkpoint'', \<lparr>lc_script = ''scripts/run/checkpoint-dual.sh'', lc_summary = ''save a coordinated gem5/UDMA checkpoint''\<rparr>),
     (''checkpoint-template'', \<lparr>lc_script = ''scripts/run/checkpoint-template.sh'', lc_summary = ''save one node-neutral gem5 checkpoint''\<rparr>),
     (''latency'', \<lparr>lc_script = ''scripts/run/run-latency.sh'', lc_summary = ''run the standard two-node send_lat test''\<rparr>),
     (''latency-pair'', \<lparr>lc_script = ''scripts/run/run-node-pair-latency.sh'', lc_summary = ''test an arbitrary server/client node pair''\<rparr>),
     (''latency-pairs'', \<lparr>lc_script = ''scripts/run/run-paired-latency.sh'', lc_summary = ''test adjacent node pairs concurrently''\<rparr>),
     (''sweep-latency'', \<lparr>lc_script = ''scripts/run/sweep-latency.sh'', lc_summary = ''scan send_lat across message sizes''\<rparr>),
     (''rma-regression'', \<lparr>lc_script = ''scripts/run/run-rma-regression.sh'', lc_summary = ''run the timed modular SEND/READ/WRITE matrix''\<rparr>),
     (''qemu-rma-regression'', \<lparr>lc_script = ''scripts/run/run-qemu-rma-regression.sh'', lc_summary = ''run the QEMU functional SEND/READ/WRITE matrix''\<rparr>),
     (''validate-server'', \<lparr>lc_script = ''scripts/validation/validate-server-profile.sh'', lc_summary = ''validate the modeled server profile''\<rparr>)]"

definition CHECKPOINT_IGNORED_MANIFEST_KEYS :: "string list" where
  "CHECKPOINT_IGNORED_MANIFEST_KEYS =
     [''restore_checkpoint'', ''execution_mode'', ''endpoint_eids'', ''peer_ring_bytes'',
      ''dist_link_speed'', ''max_read_outstanding'', ''write_payload_read_window'',
      ''ub_fabric_layout'', ''peer_switch_delay'', ''initrd_path'']"

definition BUILD_TARGETS :: sdict where
  "BUILD_TARGETS = [
     (''all'', ''scripts/build-all.sh''),
     (''gem5'', ''scripts/build/build_gem5.sh''),
     (''qemu'', ''scripts/build/build_qemu.sh''),
     (''kernel'', ''scripts/build/build_olk66.sh''),
     (''umdk'', ''scripts/build/build_umdk.sh''),
     (''initramfs'', ''official-udma/build_initramfs.sh''),
     (''template-initramfs'', ''scripts/build/build-template-initramfs.sh''),
     (''ns3ub'', ''scripts/build-ns3ub-adapter.sh''),
     (''udma-model'', ''scripts/build/build_udma_model.sh''),
     (''udma-device'', ''scripts/build/build_udma_device_sim.sh''),
     (''udma-optimized'', ''scripts/build/build_udma_optimized.sh''),
     (''optimized-initramfs'', ''scripts/build/build_udma_optimized_image.sh''),
     (''ub-switch'', ''scripts/build/build_ub_switch_sim.sh''),
     (''mooncake'', ''scripts/build-mooncake-urma.sh''),
     (''mooncake-initramfs'', ''scripts/package-mooncake-urma-initramfs.sh'')]"

subsection \<open>Global options\<close>

definition cli_runtime :: "string \<Rightarrow> string res" where
  "cli_runtime value = (if value \<notin> {''auto'', ''native''}
     then Inl (ValueError ''only native runtime is supported'') else Inr ''native'')"

text \<open>The tail of \<^verbatim>\<open>option.split("=", 1)[1]\<close> for an option that contains an equals sign.\<close>

definition after_equals :: "string \<Rightarrow> string" where
  "after_equals s = snd (snd (partition_at (CHR ''='') s))"

fun global_options :: "string \<Rightarrow> string list \<Rightarrow> (string \<times> string list) res" where
  "global_options runtime [] = rbind (cli_runtime runtime) (\<lambda>r. Inr (r, []))"
| "global_options runtime (option # rest) =
     (if \<not> startswith option ''--'' then rbind (cli_runtime runtime) (\<lambda>r. Inr (r, option # rest))
      else if option = ''--help'' \<or> option = ''--version'' then Inl (SystemExit 0)
      else if option = ''--runtime'' then
        (case rest of [] \<Rightarrow> Inl (ValueError ''--runtime requires a value'')
         | value # rest' \<Rightarrow> global_options value rest')
      else if startswith option ''--runtime='' then global_options (after_equals option) rest
      else Inl (ValueError (''unknown global option: '' @ option)))"

definition split_global_options :: "sdict \<Rightarrow> string list \<Rightarrow> (string \<times> string list) res" where
  "split_global_options env argv = global_options (env_get env ''UBSIM_EXECUTION_MODE'' ''auto'') argv"

subsection \<open>Scripts\<close>

definition script_environment :: "lab_world \<Rightarrow> string \<Rightarrow> sdict" where
  "script_environment w runtime =
     (let env = dict_set ''UBSIM_EXECUTION_MODE'' runtime (lw_env w)
      in dict_set ''UBSIM_LAB_ROOT'' (dict_get ''UBSIM_LAB_ROOT'' (lw_root w) env) env)"

definition cli_script :: "lab_world \<Rightarrow> string \<Rightarrow> string list \<Rightarrow> string \<Rightarrow> outcome" where
  "cli_script w relative args runtime =
     (let path = path_under (lw_root w) relative in
      if \<not> lw_is_file w path then (2, [])
      else let argv = [''bash'', path] @ args; env = script_environment w runtime
           in (pr_code (lw_run w argv env), [(argv, env)]))"

subsection \<open>Manifests\<close>

definition manifest_line :: "string \<Rightarrow> sdict \<Rightarrow> sdict" where
  "manifest_line raw result =
     (case partition_at (CHR ''='') raw of
        (key, separator, value) \<Rightarrow> if separator \<and> key \<noteq> [] then dict_set key value result else result)"

definition parse_manifest :: "string \<Rightarrow> sdict" where
  "parse_manifest text = fold manifest_line (splitlines text) []"

text \<open>\<^verbatim>\<open>"".join(f"{key}={value}\n" for key, value in manifest.items())\<close>, as the launcher writes it.\<close>

definition print_manifest :: "sdict \<Rightarrow> string" where
  "print_manifest d = concat (map (\<lambda>(k, v). k @ ''='' @ v @ [CHR 0x0A]) d)"

subsection \<open>Checkpoint selection\<close>

definition is_node_link_key :: "string \<Rightarrow> bool" where
  "is_node_link_key key \<longleftrightarrow> startswith key ''node'' \<and>
     (endswith key ''_link_latency_ns'' \<or> endswith key ''_link_rate_gbps'')"

definition checkpoint_keys :: "sdict \<Rightarrow> bool \<Rightarrow> string list" where
  "checkpoint_keys desired template =
     (let keys = filter (\<lambda>k. k \<notin> set CHECKPOINT_IGNORED_MANIFEST_KEYS) (map fst desired)
      in if template
         then filter (\<lambda>k. k \<noteq> ''node_count'' \<and> k \<noteq> ''template_checkpoint'' \<and> \<not> is_node_link_key k) keys
         else keys)"

definition checkpoint_defaults :: sdict where
  "checkpoint_defaults =
     [(''auto_o3_lifecycle'', ''0''), (''fast_boot_noncaching'', ''0''), (''max_jfs_depth'', ''1024''),
      (''max_jfr_depth'', ''1024''), (''max_jfc_depth'', ''4096''), (''max_jettys'', ''1152''),
      (''public_jettys'', ''128''), (''template_checkpoint'', ''0'')]"

definition manifest_value :: "sdict \<Rightarrow> string \<Rightarrow> string option" where
  "manifest_value manifest key =
     (let value = (case map_of manifest key of Some v \<Rightarrow> Some v | None \<Rightarrow> map_of checkpoint_defaults key)
      in if value = None \<and> startswith key ''node'' then
           (if endswith key ''_link_latency_ns'' then map_of manifest ''peer_latency_ns''
            else if endswith key ''_link_rate_gbps'' then map_of manifest ''peer_link_rate_gbps''
            else value)
         else value)"

definition mismatched :: "sdict \<Rightarrow> sdict \<Rightarrow> string \<Rightarrow> bool" where
  "mismatched desired manifest key =
     (let value = manifest_value manifest key in
      if key = ''udma_state_format'' \<and> map_of desired key = Some ''4'' \<and> value = Some ''3'' then False
      else value \<noteq> map_of desired key)"

definition checkpoint_required :: "bool \<Rightarrow> int \<Rightarrow> string list" where
  "checkpoint_required template node_count =
     (if template then [''template-cpt/m5.cpt'']
      else map (\<lambda>n. ''node'' @ str_int n @ ''-cpt'') [0..node_count - 1] @
           map (\<lambda>n. ''udma-node'' @ str_int n @ ''.state'') [0..node_count - 1])"

definition checkpoint_metadata :: "checkpoint_dir \<Rightarrow> sdict" where
  "checkpoint_metadata c = (case cd_metadata c of Some text \<Rightarrow> parse_manifest text | None \<Rightarrow> [])"

definition image_mismatch :: "sdict \<Rightarrow> string option \<Rightarrow> sdict \<Rightarrow> bool" where
  "image_mismatch desired image_hash metadata \<longleftrightarrow>
     image_hash \<noteq> None \<and>
     (map_of metadata ''initramfs_sha256'' \<noteq> None \<or> map_of desired ''profile'' = Some ''modern'') \<and>
     map_of metadata ''initramfs_sha256'' \<noteq> image_hash"

definition checkpoint_compatible :: "sdict \<Rightarrow> int \<Rightarrow> string option \<Rightarrow> checkpoint_dir \<Rightarrow> bool" where
  "checkpoint_compatible desired node_count image_hash c =
     (let manifest = parse_manifest (cd_manifest c);
          metadata = checkpoint_metadata c;
          template = (map_of metadata ''checkpoint_kind'' = Some ''node-template-v1'')
      in if list_ex (mismatched desired manifest) (checkpoint_keys desired template) then False
         else if \<not> list_all (cd_exists c) (checkpoint_required template node_count) then False
         else \<not> image_mismatch desired image_hash metadata)"

text \<open>
  The image whose content a checkpoint must match.  An empty string counts as absent.
\<close>

definition configured_image :: "lab_world \<Rightarrow> sdict \<Rightarrow> string option \<Rightarrow> string option" where
  "configured_image w desired image_path = (case image_path of
       Some p \<Rightarrow> Some p
     | None \<Rightarrow> (case map_of (lw_env w) ''UBSIM_INITRD'' of
           Some (c # cs) \<Rightarrow> Some (c # cs)
         | _ \<Rightarrow> map_of desired ''initrd_path''))"

definition checkpoint_image :: "lab_world \<Rightarrow> sdict \<Rightarrow> string option \<Rightarrow> string" where
  "checkpoint_image w desired image_path =
     (case configured_image w desired image_path of
        Some (c # cs) \<Rightarrow>
          (let container_root = to_path ''/workspace/ubsim-gem5-lab''; image = to_path (c # cs)
           in if is_relative_to image container_root
              then path_str (path_join (to_path (lw_root w)) (relative_to image container_root))
              else path_str image)
      | _ \<Rightarrow> path_under (lw_root w) ''out/official-udma-64k-20261015.cpio.gz'')"

definition checkpoint_stamp :: "checkpoint_dir \<Rightarrow> string \<times> string" where
  "checkpoint_stamp c = (dict_get ''created_utc'' '''' (checkpoint_metadata c), cd_name c)"

definition select_compatible_checkpoint ::
    "lab_world \<Rightarrow> sdict \<Rightarrow> string option \<Rightarrow> string option res" where
  "select_compatible_checkpoint w desired image_path =
     rbind (py_int (dict_get ''node_count'' ''2'' desired)) (\<lambda>node_count.
       let image_hash = lw_sha256 w (checkpoint_image w desired image_path) in
       if image_hash = None \<and> map_of desired ''profile'' = Some ''modern'' then Inr None
       else case map checkpoint_stamp
                   (filter (checkpoint_compatible desired node_count image_hash) (lw_checkpoints w)) of
              [] \<Rightarrow> Inr None
            | x # xs \<Rightarrow> Inr (Some (snd (fold max xs x))))"

subsection \<open>The commands that compose them\<close>

definition start_script :: string where
  "start_script = ''scripts/run/run-dual.sh''"

definition start_ready :: "lab_world \<Rightarrow> string list \<Rightarrow> string \<Rightarrow> outcome res" where
  "start_ready w args runtime =
     (if ''--help'' \<in> set args \<or> ''-h'' \<in> set args then Inr (cli_script w start_script args runtime)
      else if list_ex (\<lambda>v. v = ''--restore-checkpoint'' \<or> startswith v ''--restore-checkpoint='') args
      then Inr (2, [])
      else let argv = [''bash'', path_under (lw_root w) start_script] @ args @ [''--print-config''];
               env = script_environment w runtime;
               probe = lw_run w argv env
           in if pr_code probe \<noteq> 0 then Inr (pr_code probe, [(argv, env)])
              else rbind (select_compatible_checkpoint w (parse_manifest (pr_out probe)) None)
                (\<lambda>selected. case selected of
                     None \<Rightarrow> Inr (2, [(argv, env)])
                   | Some name \<Rightarrow>
                       if ''--print-config'' \<in> set args then Inr (0, [(argv, env)])
                       else case cli_script w start_script (args @ [''--restore-checkpoint'', name]) runtime of
                              (code, children) \<Rightarrow> Inr (code, (argv, env) # children)))"

definition cli_build :: "lab_world \<Rightarrow> string \<Rightarrow> string list \<Rightarrow> string \<Rightarrow> outcome res" where
  "cli_build w target args runtime =
     rbind (getitem target BUILD_TARGETS) (\<lambda>relative.
       if target = ''gem5'' \<and> lw_system w = ''Darwin'' \<and> lw_machine w = ''arm64''
       then Inr (cli_script w ''scripts/build/build_gem5_macos.sh'' args runtime)
       else Inr (cli_script w relative args runtime))"

fun requested_target_arch :: "string list \<Rightarrow> string option" where
  "requested_target_arch [] = None"
| "requested_target_arch (value # rest) =
     (if value = ''--target-arch'' \<and> rest \<noteq> [] then Some (hd rest)
      else if startswith value ''--target-arch='' then Some (after_equals value)
      else requested_target_arch rest)"

text \<open>
  \<^verbatim>\<open>str.isdigit\<close>: besides the ASCII digits it accepts the superscripts two, three and
  one of Latin-1, which \<^verbatim>\<open>int\<close> rejects.
\<close>

definition py_isdigit :: "string \<Rightarrow> bool" where
  "py_isdigit s \<longleftrightarrow> s \<noteq> [] \<and>
     list_all (\<lambda>c. is_digit c \<or> (of_char c :: nat) \<in> {178, 179, 185}) s"

definition cli_attach :: "lab_world \<Rightarrow> string list \<Rightarrow> string \<Rightarrow> outcome res" where
  "cli_attach w args runtime =
     (if length args \<noteq> 1 \<or> \<not> py_isdigit (hd args) then Inr (2, [])
      else rbind (py_int (hd args))
        (\<lambda>node. rbind (env_int (lw_env w) ''UBSIM_DUAL_UART0'' ''3460'')
        (\<lambda>uart0. rbind (env_int (lw_env w) ''UBSIM_DUAL_UART1'' ''3470'')
        (\<lambda>uart1. let stride = uart1 - uart0 in
           if node < 0 \<or> stride \<le> 0 then Inr (2, [])
           else let env0 = lw_env w;
                    env1 = (if has_key ''UBSIM_M5TERM_PORT'' env0 then env0
                            else dict_set ''UBSIM_M5TERM_PORT'' (str_int (uart0 + node * stride)) env0);
                    env2 = dict_set ''UBSIM_EXECUTION_MODE'' runtime env1;
                    env3 = dict_set ''UBSIM_LAB_ROOT'' (dict_get ''UBSIM_LAB_ROOT'' (lw_root w) env2) env2;
                    argv = [''bash'', path_under (lw_root w) ''scripts/run/attach.sh'']
                in Inr (pr_code (lw_run w argv env3), [(argv, env3)])))))"

end
