(* ===== verification/Qemu_Ports.thy ===== *)
theory Qemu_Ports
  imports Py_Prelude
begin

section \<open>Local listener ports of a QEMU topology\<close>

text \<open>
  Model of \<^verbatim>\<open>ubsim_lab/qemu_ports.py\<close>.  The environment is an argument; the ports of one
  kind form an arithmetic progression, and the allocation is refused unless all ports are distinct
  and unprivileged.
\<close>

subsection \<open>The allocation\<close>

record port_map =
  pm_uart :: "int list"
  pm_ssh :: "int list"
  pm_oob :: "int list"

text \<open>\<^verbatim>\<open>[base + i * (second - base) for i in range(count)]\<close>.\<close>

definition port_row :: "int \<Rightarrow> int \<Rightarrow> int \<Rightarrow> int list" where
  "port_row first second count = map (\<lambda>i. first + i * (second - first)) [0..count - 1]"

definition flat_ports :: "port_map \<Rightarrow> int list" where
  "flat_ports p = pm_uart p @ pm_ssh p @ pm_oob p"

definition qemu_ports :: "sdict \<Rightarrow> int \<Rightarrow> port_map res" where
  "qemu_ports env count =
     (if \<not> (2 \<le> count \<and> count \<le> 8) then Inl (ValueError ''QEMU supports 2-8 hosts'')
      else rbind (env_int env ''UBSIM_QEMU_UART0'' ''3560'')
        (\<lambda>uart0. rbind (env_int env ''UBSIM_QEMU_UART1'' ''3570'')
        (\<lambda>uart1. rbind (env_int env ''UBSIM_QEMU_SSH0_PORT'' ''2220'')
        (\<lambda>ssh0. rbind (env_int env ''UBSIM_QEMU_SSH1_PORT'' ''2221'')
        (\<lambda>ssh1. rbind (env_int env ''UBSIM_QEMU_OOB_PORT'' ''4560'')
        (\<lambda>oob.
           if uart1 \<le> uart0 \<or> ssh1 \<le> ssh0
           then Inl (ValueError ''QEMU UART and SSH second ports must exceed first ports'')
           else let ports = \<lparr>pm_uart = port_row uart0 uart1 count,
                             pm_ssh = port_row ssh0 ssh1 count,
                             pm_oob = (if count > 2 then map (\<lambda>i. oob + i) [0..count - 1] else [oob])\<rparr>;
                    flat = flat_ports ports
             in if list_ex (\<lambda>port. \<not> (1024 \<le> port \<and> port \<le> 65535)) flat \<or>
                   card (set flat) \<noteq> length flat
                then Inl (ValueError ''QEMU local ports must be unique and within 1024-65535'')
                else Inr ports))))))"

subsection \<open>Rows of ports\<close>

lemma length_port_row [simp]: "length (port_row a b n) = nat n"
  by (simp add: port_row_def)

lemma nth_port_row [simp]: "i < nat n \<Longrightarrow> port_row a b n ! i = a + int i * (b - a)"
  by (simp add: port_row_def nth_upto)

lemma port_row_distinct: "a < b \<Longrightarrow> distinct (port_row a b n)"
  by (auto simp: distinct_conv_nth)

text \<open>The ends of a row bound it, so a range check on the ends covers the row.\<close>

lemma port_row_bounds:
  assumes "a < b" and "p \<in> set (port_row a b n)"
  shows "a \<le> p \<and> p \<le> a + (n - 1) * (b - a)"
proof -
  from assms(2) obtain i where "0 \<le> i" "i \<le> n - 1" "p = a + i * (b - a)"
    by (auto simp: port_row_def)
  with assms(1) show ?thesis
    by (auto intro: mult_right_mono)
qed

lemma ports_refused_iff:
  "list_ex (\<lambda>x. \<not> P x) xs \<or> card (set xs) \<noteq> length xs \<longleftrightarrow> \<not> (list_all P xs \<and> distinct xs)"
  using card_distinct distinct_card by (auto simp: list_ex_iff list_all_iff)

lemma qemu_ports_Inr:
  assumes "qemu_ports env n = Inr p"
  shows "2 \<le> n \<and> n \<le> 8 \<and> distinct (flat_ports p) \<and>
     list_all (\<lambda>x. 1024 \<le> x \<and> x \<le> 65535) (flat_ports p) \<and>
     (\<exists>u0 u1 s0 s1 oob. env_int env ''UBSIM_QEMU_UART0'' ''3560'' = Inr u0 \<and>
        env_int env ''UBSIM_QEMU_UART1'' ''3570'' = Inr u1 \<and> u0 < u1 \<and> s0 < s1 \<and>
        p = \<lparr>pm_uart = port_row u0 u1 n, pm_ssh = port_row s0 s1 n,
             pm_oob = (if n > 2 then map (\<lambda>i. oob + i) [0..n - 1] else [oob])\<rparr>)"
  using assms unfolding qemu_ports_def Let_def ports_refused_iff guard_eq_Inr rbind_eq_Inr
    sum.inject not_not de_Morgan_disj not_le
  by (elim exE conjE, hypsubst) (intro conjI exI, assumption+, rule refl)

text \<open>
  An accepted allocation gives each of the 2..8 hosts its own UART and SSH port and, with
  more than two hosts, its own out-of-band port; all ports of all kinds are pairwise distinct
  and lie in 1024..65535; and the UART ports are the arithmetic progression from the two
  configured ones, which \<^verbatim>\<open>attach\<close> recomputes.
\<close>

theorem qemu_ports_sound:
  assumes "qemu_ports env n = Inr p"
  shows "distinct (pm_uart p @ pm_ssh p @ pm_oob p) \<and>
     (\<forall>x \<in> set (pm_uart p @ pm_ssh p @ pm_oob p). 1024 \<le> x \<and> x \<le> 65535) \<and>
     length (pm_uart p) = nat n \<and> length (pm_ssh p) = nat n \<and>
     length (pm_oob p) = (if n > 2 then nat n else 1) \<and>
     (\<exists>u0 u1. env_int env ''UBSIM_QEMU_UART0'' ''3560'' = Inr u0 \<and>
        env_int env ''UBSIM_QEMU_UART1'' ''3570'' = Inr u1 \<and> u0 < u1 \<and>
        (\<forall>i < nat n. pm_uart p ! i = u0 + int i * (u1 - u0)))"
  using qemu_ports_Inr [OF assms] by (auto simp: flat_ports_def list_all_iff)

lemma qemu_ports_three:
  "qemu_ports [] 3 = Inr \<lparr>pm_uart = [3560, 3570, 3580], pm_ssh = [2220, 2221, 2222], pm_oob = [4560, 4561, 4562]\<rparr>"
  by code_simp

theorem qemu_ports_sound_witness:
  "distinct [3560, 3570, 3580, 2220, 2221, 2222, 4560, 4561, 4562 :: int] \<and>
   (\<exists>u0 u1. env_int [] ''UBSIM_QEMU_UART0'' ''3560'' = Inr u0 \<and>
      env_int [] ''UBSIM_QEMU_UART1'' ''3570'' = Inr u1 \<and> u0 < u1)"
  using qemu_ports_sound [OF qemu_ports_three] by auto

text \<open>
  With an empty environment every host count the topology compiler accepts has an
  allocation: the default bases never collide.
\<close>

theorem qemu_ports_default:
  assumes "2 \<le> n" and "n \<le> 8"
  shows "\<exists>p. qemu_ports [] n = Inr p"
proof -
  from assms have "n \<in> set [2..8]" by (simp only: set_upto atLeastAtMost_iff)
  moreover have "list_all (\<lambda>n. \<not> isl (qemu_ports [] n)) [2..8]"
    by code_simp
  ultimately have "\<not> isl (qemu_ports [] n)"
    unfolding list_all_iff by (rule bspec [rotated])
  then show ?thesis
    by (cases "qemu_ports [] n") auto
qed

theorem qemu_ports_default_witness: "\<exists>p. qemu_ports [] 8 = Inr p"
  by (rule qemu_ports_default) simp_all

end
