(* ===== verification/Launcher.thy ===== *)
theory Launcher
  imports Config_Facts Lab_Cli Qemu_Ports
begin

section \<open>The native process launcher\<close>

text \<open>
  Model of \<^verbatim>\<open>ubsim_lab/config_launcher.py\<close>.  A launch is a computation on a
  \<open>launch_state\<close> that may raise: the state records every process that was started, the
  \<^verbatim>\<open>started\<close> list of the source, the processes that were terminated, and the files written
  and removed.  What the operating system decides is part of the \<open>launch_world\<close>: whether the
  n-th process can be started and its process-id file written, which sockets appear in time, whether
  the fabric connects, the exit status of the memory check, and the file tests.
\<close>

subsection \<open>The gem5 command line\<close>

definition GEM5_OPTIONS :: "string list" where
  "GEM5_OPTIONS =
     [''cpu'', ''m5ops-base'', ''cpu-freq'', ''num-cpus'', ''benchmark-cpu'', ''o3-width'',
      ''o3-rob-entries'', ''o3-iq-entries'', ''o3-lq-entries'', ''o3-sq-entries'',
      ''o3-load-ports'', ''o3-store-ports'', ''o3-fetch-buffer-bytes'', ''o3-fetch-queue-entries'',
      ''o3-phys-int-regs'', ''o3-phys-float-regs'', ''o3-phys-vec-regs'',
      ''o3-phys-vec-pred-regs'', ''o3-phys-mat-regs'', ''last-cache-level'', ''cache-line-size'',
      ''l1i-size'', ''l1i-assoc'', ''l1i-latency'', ''l1i-mshrs'', ''l1i-targets-per-mshr'',
      ''l1i-write-buffers'', ''l1d-size'', ''l1d-prefetcher'', ''l1d-assoc'', ''l1d-latency'',
      ''l1d-mshrs'', ''l1d-targets-per-mshr'', ''l1d-write-buffers'', ''l2-size'', ''l2-assoc'',
      ''l2-latency'', ''l2-mshrs'', ''l2-targets-per-mshr'', ''l2-write-buffers'', ''l3-size'',
      ''l3-assoc'', ''l3-latency'', ''l3-mshrs'', ''l3-targets-per-mshr'', ''l3-write-buffers'',
      ''fabric-freq'', ''fabric-width-bytes'', ''coherent-bus-frontend-latency'',
      ''coherent-bus-forward-latency'', ''coherent-bus-response-latency'',
      ''coherent-bus-snoop-response-latency'', ''coherent-bus-header-latency'',
      ''memory-bus-frontend-latency'', ''memory-bus-forward-latency'',
      ''memory-bus-response-latency'', ''memory-bus-snoop-response-latency'',
      ''memory-bus-header-latency'', ''core-bus-snoop-filter-capacity'',
      ''l3-bus-snoop-filter-capacity'', ''membus-snoop-filter-capacity'',
      ''io-bus-frontend-latency'', ''io-bus-forward-latency'', ''io-bus-response-latency'',
      ''io-bus-header-latency'', ''io-cache-size'', ''io-cache-assoc'', ''io-cache-latency'',
      ''io-cache-mshrs'', ''io-cache-targets-per-mshr'', ''io-cache-write-buffers'', ''mem-size'',
      ''guest-mem-limit'', ''mem-type'', ''mem-channels'', ''mem-channels-intlv'',
      ''mem-addr-mapping'', ''xor-low-bit'', ''mem-ranks'', ''mem-read-buffer-size'',
      ''mem-write-buffer-size'', ''mem-page-policy'', ''mem-max-accesses-per-row'',
      ''mem-sched-policy'', ''mem-write-high-thresh'', ''mem-write-low-thresh'',
      ''mem-min-writes-per-switch'', ''mem-min-reads-per-switch'', ''mem-ctrl-frontend-latency'',
      ''mem-ctrl-backend-latency'', ''mem-ctrl-command-window'']"

definition GEM5_KEY_OVERRIDES :: sdict where
  "GEM5_KEY_OVERRIDES =
     [(''cpu'', ''cpu_mode''), (''num-cpus'', ''cpu_count''),
      (''l1d-prefetcher'', ''cache_prefetcher''), (''mem-size'', ''memory_size''),
      (''guest-mem-limit'', ''guest_memory_limit''), (''mem-type'', ''memory_type''),
      (''mem-channels-intlv'', ''memory_channel_interleave_bytes''),
      (''mem-addr-mapping'', ''memory_address_mapping''),
      (''xor-low-bit'', ''memory_channel_xor_low_bit''),
      (''mem-ranks'', ''memory_ranks_per_channel''),
      (''mem-read-buffer-size'', ''memory_read_buffer_bursts_per_channel''),
      (''mem-write-buffer-size'', ''memory_write_buffer_bursts_per_channel''),
      (''mem-sched-policy'', ''memory_scheduler''),
      (''mem-write-high-thresh'', ''memory_write_high_threshold_percent''),
      (''mem-write-low-thresh'', ''memory_write_low_threshold_percent''),
      (''mem-ctrl-frontend-latency'', ''memory_controller_frontend_latency''),
      (''mem-ctrl-backend-latency'', ''memory_controller_backend_latency''),
      (''mem-ctrl-command-window'', ''memory_controller_command_window'')]"

definition gem5_key :: "string \<Rightarrow> string" where
  "gem5_key option = (case map_of GEM5_KEY_OVERRIDES option of
       Some key \<Rightarrow> key
     | None \<Rightarrow>
         (let key = replace_char (CHR ''-'') (CHR ''_'') option in
          if list_ex (startswith key) [''l1i_'', ''l1d_'', ''l2_'', ''l3_'', ''io_cache_''] \<and> endswith key ''_latency''
          then key @ ''_tag_data_response_cycles''
          else if list_ex (startswith key) [''coherent_bus_'', ''memory_bus_'', ''io_bus_''] \<and> endswith key ''_latency''
          then key @ ''_cycles''
          else if key = ''mem_channels'' then ''memory_channels''
          else if startswith key ''mem_'' then ''memory_'' @ drop 4 key
          else key))"

text \<open>\<^verbatim>\<open>f"{n:02x}"\<close>.\<close>

definition hex2 :: "nat \<Rightarrow> string" where
  "hex2 n = (let s = show_hex n in if length s < 2 then ''0'' @ s else s)"

record launch_world =
  lx_lab :: lab_world
  lx_darwin :: bool
  lx_machine :: string
  lx_python :: string
  lx_is_dir :: "string \<Rightarrow> bool"
  lx_exists :: "string \<Rightarrow> bool"
  lx_any_live :: "string \<Rightarrow> bool"
  lx_memory_check :: "string list \<Rightarrow> int"
  lx_spawn_ok :: "nat \<Rightarrow> bool"
  lx_pidfile_ok :: "nat \<Rightarrow> bool"
  lx_socket :: "string \<Rightarrow> bool"
  lx_connected :: bool

abbreviation lx_root :: "launch_world \<Rightarrow> string" where
  "lx_root w \<equiv> lw_root (lx_lab w)"

abbreviation lx_env :: "launch_world \<Rightarrow> sdict" where
  "lx_env w \<equiv> lw_env (lx_lab w)"

definition node_dir :: "string \<Rightarrow> string \<Rightarrow> nat \<Rightarrow> string" where
  "node_dir run_root prefix node = path_under run_root (prefix @ str_int (int node))"

definition dual_tap :: "sdict \<Rightarrow> nat \<Rightarrow> string" where
  "dual_tap env node =
     (if node = 0 then env_get env ''UBSIM_DUAL_TAP0'' ''/tmp/ubsim-dual.eth0.sock''
      else if node = 1 then env_get env ''UBSIM_DUAL_TAP1'' ''/tmp/ubsim-dual.eth1.sock''
      else ''/tmp/ubsim-dual.eth'' @ str_int (int node) @ ''.sock'')"

text \<open>\<^verbatim>\<open>Path(os.environ.get(name, str(ROOT / relative)))\<close>.\<close>

definition env_path :: "launch_world \<Rightarrow> string \<Rightarrow> string \<Rightarrow> string" where
  "env_path w name relative =
     path_str (to_path (env_get (lx_env w) name (path_under (lx_root w) relative)))"

definition gem5_binary :: "launch_world \<Rightarrow> string" where
  "gem5_binary w = env_path w ''UBSIM_GEM5''
     (if lx_darwin w then ''gem5/build/ARM_MAC/gem5.opt'' else ''gem5/build/ARM/gem5.opt'')"

definition gem5_config :: "launch_world \<Rightarrow> string" where
  "gem5_config w = env_path w ''UBSIM_CONFIG'' ''configs/arm64_fs.py''"

definition gem5_kernel :: "launch_world \<Rightarrow> string" where
  "gem5_kernel w = env_path w ''UBSIM_KERNEL'' ''artifacts/kernel-64k-20261015/vmlinux''"

definition gem5_option :: "sdict \<Rightarrow> string \<Rightarrow> string res" where
  "gem5_option manifest option =
     rbind (getitem (gem5_key option) manifest) (\<lambda>v. Inr (''--'' @ option @ ''='' @ v))"

definition identity_file :: "string \<Rightarrow> nat \<Rightarrow> string" where
  "identity_file run_root node = path_under (node_dir run_root ''node'' node) ''identity.txt''"

text \<open>
  The argument vector for one node.  The identity file that a template restore writes is an effect
  of the caller.
\<close>

definition gem5_command ::
    "launch_world \<Rightarrow> sdict \<Rightarrow> nat \<Rightarrow> string \<Rightarrow> string option \<Rightarrow> bool \<Rightarrow> string list res" where
  "gem5_command w manifest node run_root checkpoint template =
     (let out = node_dir run_root ''node'' node;
          script = (if template then identity_file run_root node
                    else env_get (lx_env w) ''UBSIM_GUEST_READFILE'' [])
      in rbind (getitem ''initrd_path'' manifest)
        (\<lambda>initrd. rbind (rmap (gem5_option manifest) GEM5_OPTIONS)
        (\<lambda>options. rbind (getitem ''auto_o3_lifecycle'' manifest)
        (\<lambda>auto_o3. rbind (getitem ''fast_boot_noncaching'' manifest)
        (\<lambda>fast_boot. rbind (env_int (lx_env w) ''UBSIM_DUAL_UART0'' ''3460'')
        (\<lambda>uart0. rbind (env_int (lx_env w) ''UBSIM_DUAL_UART1'' ''3470'')
        (\<lambda>uart1. rbind (getitem ''oob_link_speed'' manifest)
        (\<lambda>speed. rbind (getitem ''peer_latency_ns'' manifest)
        (\<lambda>delay. rbind (getitem ''provider'' manifest)
        (\<lambda>provider. Inr (
           [gem5_binary w, ''--listener-mode=on'', ''--outdir='' @ out, gem5_config w,
            ''--kernel='' @ gem5_kernel w, ''--initrd='' @ path_str (to_path initrd),
            ''--root-device=/dev/ram'', ''--script='' @ script] @
           options @ [''--dist-size=0''] @
           (if auto_o3 = ''1'' then [''--auto-o3-lifecycle''] else []) @
           (if fast_boot = ''1'' then [''--fast-boot-noncaching''] else []) @
           (case checkpoint of
              None \<Rightarrow> []
            | Some c \<Rightarrow> [''--restore-from='' @ path_under c
                (if template then ''template-cpt'' else ''node'' @ str_int (int node) @ ''-cpt'')]) @
           [''--eth-tap-socket='' @ dual_tap (lx_env w) node, ''--eth-link-speed='' @ speed,
            ''--eth-link-delay='' @ delay @ ''ns'',
            ''--terminal-port='' @ str_int (uart0 + int node * (uart1 - uart0)),
            ''--eth-mac=02:00:00:00:00:'' @ hex2 (node + 1),
            ''--extra-cmdline=ubsim_node='' @ (if template then ''template'' else str_int (int node)) @ '' '' @
              (if template then ''ubsim_template=1 '' else []) @ ''ubsim_provider='' @ provider])))))))))))"

subsection \<open>Launches as computations\<close>

record spawned =
  sp_argv :: "string list"
  sp_pidfile :: string
  sp_logfile :: string
  sp_env :: "sdict option"

record launch_state =
  ls_spawned :: "spawned list"
  ls_started :: "nat list"
  ls_terminated :: "nat list"
  ls_files :: "(string \<times> string) list"
  ls_removed :: "string list"
  ls_dirs :: "string list"

type_synonym 'a launch = "launch_state \<Rightarrow> 'a res \<times> launch_state"

definition launch_init :: launch_state where
  "launch_init = \<lparr>ls_spawned = [], ls_started = [], ls_terminated = [], ls_files = [], ls_removed = [], ls_dirs = []\<rparr>"

definition lret :: "'a \<Rightarrow> 'a launch" where
  "lret x s = (Inr x, s)"

definition llift :: "'a res \<Rightarrow> 'a launch" where
  "llift r s = (r, s)"

definition lbind :: "'a launch \<Rightarrow> ('a \<Rightarrow> 'b launch) \<Rightarrow> 'b launch" where
  "lbind m f s = (case m s of (Inl e, s') \<Rightarrow> (Inl e, s') | (Inr x, s') \<Rightarrow> f x s')"

primrec lfor :: "('x \<Rightarrow> unit launch) \<Rightarrow> 'x list \<Rightarrow> unit launch" where
  "lfor body [] = lret ()"
| "lfor body (x # xs) = lbind (body x) (\<lambda>_. lfor body xs)"

definition lwrite :: "string \<Rightarrow> string \<Rightarrow> unit launch" where
  "lwrite path text s = (Inr (), s\<lparr>ls_files := ls_files s @ [(path, text)]\<rparr>)"

definition lremove :: "string list \<Rightarrow> unit launch" where
  "lremove paths s = (Inr (), s\<lparr>ls_removed := ls_removed s @ paths\<rparr>)"

definition lmkdirs :: "string list \<Rightarrow> unit launch" where
  "lmkdirs paths s = (Inr (), s\<lparr>ls_dirs := ls_dirs s @ paths\<rparr>)"

text \<open>
  \<^verbatim>\<open>_spawn\<close>: start the process, write its process-id file, append it to
  \<^verbatim>\<open>started\<close>, in this order.  Processes are numbered in the order they start.
\<close>

definition spawn :: "launch_world \<Rightarrow> string list \<Rightarrow> string \<Rightarrow> string \<Rightarrow> sdict option \<Rightarrow> unit launch" where
  "spawn w command pidfile logfile env s =
     (let n = length (ls_spawned s) in
      if \<not> lx_spawn_ok w n then (Inl (OSError ''Popen''), s)
      else let s1 = s\<lparr>ls_spawned := ls_spawned s @
                    [\<lparr>sp_argv = ''nohup'' # command, sp_pidfile = pidfile, sp_logfile = logfile, sp_env = env\<rparr>]\<rparr>
           in if \<not> lx_pidfile_ok w n then (Inl (OSError ''write_text''), s1)
              else (Inr (), s1\<lparr>ls_started := ls_started s1 @ [n]\<rparr>))"

definition wait_socket :: "launch_world \<Rightarrow> string \<Rightarrow> unit launch" where
  "wait_socket w path =
     (if lx_socket w path then lret ()
      else llift (Inl (LaunchError (''UDMA socket did not appear: '' @ path))))"

text \<open>\<^verbatim>\<open>except BaseException\<close>: terminate what was started, last first, and raise again.\<close>

definition with_rollback :: "'a launch \<Rightarrow> 'a launch" where
  "with_rollback m s = (case m s of
       (Inr x, s') \<Rightarrow> (Inr x, s')
     | (Inl e, s') \<Rightarrow> (Inl e, s'\<lparr>ls_terminated := ls_terminated s' @ rev (ls_started s')\<rparr>))"

definition check_memory :: "launch_world \<Rightarrow> string \<Rightarrow> nat \<Rightarrow> string \<Rightarrow> unit launch" where
  "check_memory w phase nodes mem_size =
     (if lx_memory_check w [lx_python w, path_under (lx_root w) ''tools/host_memory_guard.py'', ''check'',
           ''--phase'', phase, ''--nodes'', str_int (int nodes), ''--mem-size'', mem_size] \<noteq> 0
      then llift (Inl (LaunchError ''host memory preflight failed'')) else lret ())"

primrec require_files :: "launch_world \<Rightarrow> string list \<Rightarrow> unit launch" where
  "require_files w [] = lret ()"
| "require_files w (path # paths) =
     (if \<not> lw_is_file (lx_lab w) path then llift (Inl (LaunchError (''missing required artifact: '' @ path)))
      else require_files w paths)"

definition owned_names :: "string list" where
  "owned_names = [''switch'', ''ub-switch'', ''oob-switch'', ''ub-fabric'', ''run-manifest.txt'',
     ''sync.ready'', ''memory-guard.pid'', ''memory-guard.log'', ''memory-guard.stopped'',
     ''memory-guard.stderr.log'']"

definition clear_owned_run_paths :: "launch_world \<Rightarrow> string \<Rightarrow> unit launch" where
  "clear_owned_run_paths w run_root =
     (if run_root = ''/'' \<or> run_root = ''.''
      then llift (Inl (LaunchError (''unsafe run output directory: '' @ run_root)))
      else lremove (filter (\<lambda>p. lx_is_dir w p \<or> lx_exists w p) (map (path_under run_root) owned_names) @
             filter (lx_is_dir w) (concat (map (\<lambda>prefix. map (node_dir run_root prefix) [0..<8])
               [''node'', ''udma-node'']))))"

subsection \<open>Starting gem5 nodes\<close>

fun contains :: "string \<Rightarrow> string \<Rightarrow> bool" where
  "contains [] p = (p = [])"
| "contains (c # s) p = (startswith (c # s) p \<or> contains s p)"

definition gem5_select :: "launch_world \<Rightarrow> sdict \<Rightarrow> plan \<Rightarrow> string option res" where
  "gem5_select w manifest plan =
     (if p_checkpoint plan = ''auto''
      then rbind (getitem ''initrd_path'' manifest)
        (\<lambda>image. select_compatible_checkpoint (lx_lab w) manifest (Some image))
      else Inr None)"

definition checkpoint_path :: "launch_world \<Rightarrow> string option \<Rightarrow> string option" where
  "checkpoint_path w selected = (case selected of
       Some (c # cs) \<Rightarrow> Some (path_under (path_under (lx_root w) ''checkpoints'') (c # cs))
     | _ \<Rightarrow> None)"

definition is_template :: "launch_world \<Rightarrow> string option \<Rightarrow> bool" where
  "is_template w selected = (case selected of
       None \<Rightarrow> False
     | Some name \<Rightarrow> (case find (\<lambda>c. cd_name c = name) (lw_checkpoints (lx_lab w)) of
           None \<Rightarrow> False
         | Some c \<Rightarrow> (case cd_metadata c of
               None \<Rightarrow> False
             | Some text \<Rightarrow> contains text ''checkpoint_kind=node-template-v1'')))"

definition host_arch :: "launch_world \<Rightarrow> string" where
  "host_arch w = (if lx_machine w = ''arm64'' \<and> \<not> lx_darwin w then ''aarch64'' else lx_machine w)"

definition udma_default :: "launch_world \<Rightarrow> string" where
  "udma_default w = ''artifacts/udma-device-sim-build-'' @ (if lx_darwin w then ''darwin'' else ''linux'') @
     ''-'' @ host_arch w @ ''/udma-device-sim''"

definition ns3_default :: "launch_world \<Rightarrow> string" where
  "ns3_default w = ''sources/ns-3-ub/build-'' @ (if lx_darwin w then ''macos'' else ''linux'') @
     ''/scratch/ns3.44-ub-net-adapter''"

definition dual_socket :: "nat \<Rightarrow> string \<Rightarrow> string" where
  "dual_socket node kind = ''/tmp/ubsim-dual.node'' @ str_int (int node) @ ''.'' @ kind"

definition gem5_sockets :: "sdict \<Rightarrow> nat \<Rightarrow> string list" where
  "gem5_sockets env count =
     concat (map (\<lambda>node. [dual_socket node ''ub-host.sock'', dual_socket node ''ub-net.sock'']) [0..<count]) @
     map (\<lambda>node. dual_socket node ''udma.shm'') [0..<count] @
     [env_get env ''UBSIM_DUAL_TAP0'' ''/tmp/ubsim-dual.eth0.sock'',
      env_get env ''UBSIM_DUAL_TAP1'' ''/tmp/ubsim-dual.eth1.sock''] @
     map (\<lambda>node. ''/tmp/ubsim-dual.eth'' @ str_int (int node) @ ''.sock'') [2..<count]"

definition gem5_sync :: "sdict \<Rightarrow> string res" where
  "gem5_sync manifest = rbind (getitem ''virtual_time_synchronization'' manifest)
     (\<lambda>v. Inr (if v = ''enabled'' then ''required'' else ''off''))"

definition manifest_int :: "sdict \<Rightarrow> string \<Rightarrow> int res" where
  "manifest_int manifest key = rbind (getitem key manifest) py_int"

definition link_at :: "plan \<Rightarrow> nat \<Rightarrow> (int \<times> int) res" where
  "link_at plan node = (if node < length (p_node_links plan) then Inr (p_node_links plan ! node)
     else Inl (IndexError ''list index out of range''))"

definition udma_flags :: sdict where
  "udma_flags = [(''max-jfs-depth'', ''max_jfs_depth''), (''max-jfr-depth'', ''max_jfr_depth''),
     (''max-jfc-depth'', ''max_jfc_depth''), (''max-jettys'', ''max_jettys''),
     (''public-jettys'', ''public_jettys''), (''sq-prefetch-wqebbs'', ''sq_prefetch_wqebbs''),
     (''sq-fetch-burst-wqebbs'', ''sq_fetch_burst_wqebbs''),
     (''sq-fetch-max-outstanding'', ''sq_fetch_max_outstanding''),
     (''completion-event-slots'', ''completion_event_slots''),
     (''write-payload-read-window'', ''write_payload_read_window'')]"

definition flag_args :: "sdict \<Rightarrow> string \<times> string \<Rightarrow> string list res" where
  "flag_args manifest fk = rbind (getitem (snd fk) manifest) (\<lambda>v. Inr [''--'' @ fst fk, v])"

definition udma_args ::
    "string \<Rightarrow> sdict \<Rightarrow> plan \<Rightarrow> string option \<Rightarrow> bool \<Rightarrow> string \<Rightarrow> string \<Rightarrow> nat \<Rightarrow> string list res" where
  "udma_args udma manifest plan checkpoint template run_root sync node =
     rbind (manifest_int manifest ''external_udma_host_latency_ns'')
     (\<lambda>host_ns. rbind (link_at plan node)
     (\<lambda>link. rbind (manifest_int manifest ''sync_quantum_ns'')
     (\<lambda>quantum. rbind (getitem ''ub_port_count'' manifest)
     (\<lambda>ports. rbind (rmap (flag_args manifest) udma_flags)
     (\<lambda>flags. rbind (getitem ''profile'' manifest)
     (\<lambda>profile. rbind (manifest_int manifest ''max_read_outstanding'')
     (\<lambda>reads. rbind (getitem ''max_read_outstanding'' manifest)
     (\<lambda>reads_text. rbind (getitem ''lifecycle_sync'' manifest)
     (\<lambda>lifecycle. Inr (
        [udma, ''--host-socket'', dual_socket node ''ub-host.sock'', ''--net-socket'',
         dual_socket node ''ub-net.sock'', ''--shm'', dual_socket node ''udma.shm'', ''--sync'', sync,
         ''--host-link-latency-ps'', str_int (host_ns * 1000),
         ''--net-link-latency-ps'', str_int (snd link * 1000),
         ''--sync-interval-ps'', str_int (quantum * 1000),
         ''--eid'', str_int (256 + int node), ''--ports'', ports] @
        concat flags @
        (if profile = ''modern'' then [''--one-shot-jfc-notifications'', ''--pipelined-completion-dma''] else []) @
        (if reads \<noteq> 0 then [''--max-read-outstanding'', reads_text] else []) @
        (if lifecycle = ''1'' then [''--lifecycle-sync''] else []) @
        (case checkpoint of
           Some c \<Rightarrow> if template then []
             else [''--state-in'', path_under c (''udma-node'' @ str_int (int node) @ ''.state'')]
         | None \<Rightarrow> []) @
        [''--state-out'', path_under run_root (''udma-node'' @ str_int (int node) @ ''/state.bin'')]))))))))))"

definition delay_units :: "(string \<times> int) list" where
  "delay_units = [(''ps'', 1), (''ns'', 1000), (''us'', 1000000), (''ms'', 1000000000), (''s'', 1000000000000)]"

definition picoseconds :: "string \<Rightarrow> int res" where
  "picoseconds value = (case find (\<lambda>u. endswith value (fst u)) delay_units of
       Some (unit, scale) \<Rightarrow>
         rbind (py_int (take (length value - length unit) value)) (\<lambda>n. Inr (n * scale))
     | None \<Rightarrow> Inl (LaunchError (''invalid delay: '' @ value)))"

definition endpoint_args :: "string \<Rightarrow> nat \<times> (int \<times> int) \<Rightarrow> string list" where
  "endpoint_args socket x = (case x of (node, (rate, latency)) \<Rightarrow>
     [''--endpoint'', socket @ '','' @ str_int (256 + int node) @ '','' @ str_int (latency * 1000) @ '','' @
        str_int rate])"

definition gem5_ns3_args :: "string \<Rightarrow> sdict \<Rightarrow> plan \<Rightarrow> string \<Rightarrow> string list res" where
  "gem5_ns3_args ns3 manifest plan sync =
     rbind (getitem ''ub_port_count'' manifest)
     (\<lambda>ports. rbind (manifest_int manifest ''peer_latency_ns'')
     (\<lambda>latency. rbind (rbind (getitem ''peer_switch_delay'' manifest) picoseconds)
     (\<lambda>switch_ps. rbind (getitem ''peer_link_rate_gbps'' manifest)
     (\<lambda>rate. rbind (manifest_int manifest ''sync_quantum_ns'')
     (\<lambda>quantum. rbind (getitem ''ctp_retransmission'' manifest)
     (\<lambda>retr. rbind (getitem ''ctp_rto_ps'' manifest)
     (\<lambda>rto. rbind (getitem ''ctp_max_retransmissions'' manifest)
     (\<lambda>max_retr. rbind (getitem ''lifecycle_sync'' manifest)
     (\<lambda>lifecycle. Inr (
        [ns3, ''--ports'', ports, ''--link-delay-ps'', str_int (latency * 1000),
         ''--switch-delay-ps'', str_int switch_ps, ''--rate-gbps'', rate, ''--sync'', sync,
         ''--sync-interval-ps'', str_int (quantum * 1000), ''--ctp-retransmission'', retr,
         ''--ctp-rto-ps'', rto, ''--ctp-max-retransmissions'', max_retr] @
        (if p_fabric_layout plan = ''direct'' then [''--direct-link''] else []) @
        (if lifecycle = ''1'' then [''--lifecycle-sync''] else []) @
        concat (map (\<lambda>x. endpoint_args (dual_socket (fst x) ''ub-net.sock'') x)
          (enumerate 0 (p_node_links plan)))))))))))))"

definition gem5_env :: "launch_world \<Rightarrow> sdict \<Rightarrow> string \<Rightarrow> nat \<Rightarrow> sdict res" where
  "gem5_env w manifest sync node =
     rbind (getitem ''pipe_data'' manifest)
     (\<lambda>pipe. rbind (getitem ''packet_trace'' manifest)
     (\<lambda>trace. rbind (getitem ''lifecycle_sync'' manifest)
     (\<lambda>lifecycle. rbind (getitem ''external_udma_poll_interval'' manifest)
     (\<lambda>poll. rbind (getitem ''external_udma_host_latency_ns'' manifest)
     (\<lambda>host_ns. rbind (getitem ''sync_quantum_ns'' manifest)
     (\<lambda>quantum. rbind (py_int host_ns)
     (\<lambda>host. Inr (dict_update (lx_env w)
        [(''M5_PATH'', env_get (lx_env w) ''UBSIM_M5_PATH'' (path_under (lx_root w) ''system'')),
         (''UBSIM_PIPE_DATA'', pipe), (''UBSIM_TRACE_PACKETS'', trace),
         (''UBSIM_ADAPTER_LOCAL_SYNC'', ''1''), (''UBSIM_LIFECYCLE_SYNC'', lifecycle),
         (''OPENURMA_ADAPTER_LOCAL_SYNC'', ''1''), (''OPENURMA_LIFECYCLE_SYNC'', lifecycle),
         (''UBSIM_EXIT_AFTER_CHECKPOINT'', ''1''),
         (''UBSIM_UDMA_HOST_SOCKET'', dual_socket node ''ub-host.sock''),
         (''UBSIM_UDMA_HOST_POLL_INTERVAL'', poll),
         (''UBSIM_UDMA_HOST_SYNC'', if sync = ''required'' then ''1'' else ''0''),
         (''UBSIM_UDMA_HOST_LIFECYCLE_SYNC'', lifecycle),
         (''UBSIM_UDMA_HOST_LINK_LATENCY'', host_ns @ ''ns''),
         (''UBSIM_UDMA_HOST_SYNC_INTERVAL'', quantum @ ''ns''),
         (''UBSIM_UDMA_HOST_PIO_LATENCY'', str_int (2 * host) @ ''ns'')]))))))))"

definition start_udma ::
    "launch_world \<Rightarrow> string \<Rightarrow> sdict \<Rightarrow> plan \<Rightarrow> string option \<Rightarrow> bool \<Rightarrow> string \<Rightarrow> string \<Rightarrow> nat \<Rightarrow> unit launch" where
  "start_udma w udma manifest plan checkpoint template run_root sync node =
     lbind (llift (udma_args udma manifest plan checkpoint template run_root sync node))
     (\<lambda>args. spawn w args (path_under (node_dir run_root ''udma-node'' node) ''udma.pid'')
        (path_under (node_dir run_root ''udma-node'' node) ''udma.log'') None)"

definition start_gem5_node ::
    "launch_world \<Rightarrow> sdict \<Rightarrow> string option \<Rightarrow> bool \<Rightarrow> string \<Rightarrow> string \<Rightarrow> nat \<Rightarrow> unit launch" where
  "start_gem5_node w manifest checkpoint template run_root sync node =
     lbind (llift (gem5_env w manifest sync node))
     (\<lambda>env. lbind (if template then lwrite (identity_file run_root node) (str_int (int node) @ [CHR 0x0A])
                   else lret ())
     (\<lambda>_. lbind (llift (gem5_command w manifest node run_root checkpoint template))
     (\<lambda>command. spawn w command (path_under (node_dir run_root ''node'' node) ''gem5.pid'')
        (path_under (node_dir run_root ''node'' node) ''gem5.log'') (Some env))))"

definition gem5_processes ::
    "launch_world \<Rightarrow> string \<Rightarrow> string \<Rightarrow> sdict \<Rightarrow> plan \<Rightarrow> string option \<Rightarrow> bool \<Rightarrow> string \<Rightarrow> string \<Rightarrow> unit launch" where
  "gem5_processes w udma ns3 manifest plan checkpoint template run_root sync =
     (let count = length (p_node_ids plan) in
      lbind (lfor (start_udma w udma manifest plan checkpoint template run_root sync) [0..<count])
      (\<lambda>_. lbind (lfor (wait_socket w) (take (count * 2) (gem5_sockets (lx_env w) count)))
      (\<lambda>_. lbind (llift (gem5_ns3_args ns3 manifest plan sync))
      (\<lambda>args. lbind (spawn w args (path_under run_root ''ub-switch/gem5.pid'')
                 (path_under run_root ''ub-switch/gem5.log'') None)
      (\<lambda>_. lbind (lfor (start_gem5_node w manifest checkpoint template run_root sync) [0..<count])
      (\<lambda>_. lbind (spawn w [lx_python w, path_under (lx_root w) ''tools/host_memory_guard.py'', ''monitor'',
                   ''--run-root'', run_root, ''--nodes'', str_int (int count), ''--stop-script'',
                   path_under (lx_root w) ''scripts/run/stop-dual.sh'']
                 (path_under run_root ''memory-guard.pid'') (path_under run_root ''memory-guard.stderr.log'') None)
      (\<lambda>_. lbind (if lx_connected w then lret ()
                   else llift (Inl (LaunchError ''ns-3 fabric did not connect; inspect switch and UDMA logs'')))
      (\<lambda>_. spawn w ([lx_python w, path_under (lx_root w) ''tools/ethernet_relay.py''] @
                   map (\<lambda>node. ''unix:'' @ dual_tap (lx_env w) node) [0..<count])
                 (path_under run_root ''oob-switch/relay.pid'') (path_under run_root ''oob-switch/relay.log'')
                 None))))))))"

definition start_gem5 :: "launch_world \<Rightarrow> dict \<Rightarrow> plan \<Rightarrow> string launch" where
  "start_gem5 w spec plan =
     lbind (llift (resolve_gem5 (lx_root w) spec plan))
     (\<lambda>resolved. lbind (llift (gem5_select w resolved plan))
     (\<lambda>selected. let checkpoint = checkpoint_path w selected;
                     template = (checkpoint \<noteq> None \<and> is_template w selected) in
        lbind (llift (if template then getitem ''profile'' resolved else Inr ''modern''))
     (\<lambda>profile. if template \<and> profile \<noteq> ''modern''
        then llift (Inl (LaunchError ''node templates support the modern profile only''))
        else let manifest = dict_set ''restore_checkpoint''
                   (case selected of Some (c # cs) \<Rightarrow> c # cs | _ \<Rightarrow> ''none'') resolved;
                 count = length (p_node_ids plan);
                 run_root = env_path w ''UBSIM_DUAL_OUT'' ''run-dual'' in
          if lx_any_live w run_root then llift (Inl (LaunchError ''simulation processes are already running''))
          else lbind (llift (getitem ''memory_size'' manifest))
     (\<lambda>memory. lbind (check_memory w ''start'' count memory)
     (\<lambda>_. let udma = env_path w ''UBSIM_UDMA_DEVICE_BINARY'' (udma_default w);
              ns3 = env_path w ''UBSIM_UB_SWITCH_BINARY'' (ns3_default w) in
        lbind (llift (gem5_command w manifest 0 run_root checkpoint template))
     (\<lambda>_. lbind (llift (getitem ''initrd_path'' manifest))
     (\<lambda>initrd. lbind (require_files w [gem5_binary w, gem5_config w, path_str (to_path initrd), udma, ns3,
                  gem5_kernel w])
     (\<lambda>_. lbind (clear_owned_run_paths w run_root)
     (\<lambda>_. lbind (lmkdirs (concat (map (\<lambda>node. [node_dir run_root ''node'' node, node_dir run_root ''udma-node'' node])
                  [0..<count]) @ map (path_under run_root) [''ub-switch'', ''oob-switch'']))
     (\<lambda>_. lbind (lwrite (path_under run_root ''run-manifest.txt'') (print_manifest manifest))
     (\<lambda>_. lbind (lremove (gem5_sockets (lx_env w) count))
     (\<lambda>_. lbind (llift (gem5_sync manifest))
     (\<lambda>sync. lbind (with_rollback (gem5_processes w udma ns3 manifest plan checkpoint template run_root sync))
     (\<lambda>_. lret run_root))))))))))))))"

subsection \<open>Starting QEMU nodes\<close>

definition qemu_machines :: "plan \<Rightarrow> qemu_machine list res" where
  "qemu_machines plan = rmap (\<lambda>m. case m of
       QemuMachine q \<Rightarrow> Inr q | Gem5Machine _ \<Rightarrow> Inl (KeyError ''memory_mib'')) (p_machines plan)"

definition max_of :: "int list \<Rightarrow> int res" where
  "max_of xs = (case xs of [] \<Rightarrow> Inl (ValueError ''max() arg is an empty sequence'')
     | x # ys \<Rightarrow> Inr (fold max ys x))"

definition qemu_udma :: "launch_world \<Rightarrow> string" where
  "qemu_udma w =
     (let udma = env_path w ''UBSIM_UDMA_DEVICE_BINARY'' (udma_default w);
          fallback = path_under (lx_root w) ''artifacts/udma-device-sim-build/udma-device-sim''
      in if \<not> lw_is_file (lx_lab w) udma \<and> lw_is_file (lx_lab w) fallback then fallback else udma)"

definition knob_table :: "(string \<times> string \<times> string) list" where
  "knob_table =
     [(''sq_prefetch_wqebbs'', ''UBSIM_SQ_PREFETCH_WQEBBS'', ''64''),
      (''sq_fetch_burst_wqebbs'', ''UBSIM_SQ_FETCH_BURST_WQEBBS'', ''16''),
      (''sq_fetch_max_outstanding'', ''UBSIM_SQ_FETCH_MAX_OUTSTANDING'', ''4''),
      (''completion_event_slots'', ''UBSIM_COMPLETION_EVENT_SLOTS'', ''64''),
      (''max_jfs_depth'', ''UBSIM_UDMA_MAX_JFS_DEPTH'', ''8192''),
      (''max_jfr_depth'', ''UBSIM_UDMA_MAX_JFR_DEPTH'', ''8192''),
      (''max_jfc_depth'', ''UBSIM_UDMA_MAX_JFC_DEPTH'', ''524288''),
      (''dma_max_outstanding'', ''UBSIM_QEMU_DMA_MAX_OUTSTANDING'', ''256''),
      (''iotlb_entries'', ''UBSIM_QEMU_IOTLB_ENTRIES'', ''4096''),
      (''icount_shift'', ''UBSIM_QEMU_ICOUNT_SHIFT'', ''0''),
      (''ctp_retransmission'', ''UBSIM_CTP_RETRANSMISSION'', ''off''),
      (''ctp_rto_ps'', ''UBSIM_CTP_RTO_PS'', ''25600000''),
      (''ctp_max_retransmissions'', ''UBSIM_CTP_MAX_RETRANSMISSIONS'', ''7'')]"

definition qemu_knobs :: "sdict \<Rightarrow> sdict" where
  "qemu_knobs env =
     (let knobs = map (\<lambda>(key, name, v). (key, env_get env name v)) knob_table
      in if map_of knobs ''ctp_retransmission'' = Some ''auto''
         then dict_set ''ctp_retransmission'' ''off'' knobs else knobs)"

definition common_text :: "('a \<Rightarrow> string) \<Rightarrow> 'a list \<Rightarrow> string" where
  "common_text f xs = (if list_all (\<lambda>x. f x = f (hd xs)) xs then f (hd xs) else ''mixed'')"

definition qemu_node_values :: "port_map \<Rightarrow> nat \<Rightarrow> nat \<times> (qemu_machine \<times> (int \<times> int)) \<Rightarrow> sdict" where
  "qemu_node_values ports count x = (case x of (node, (machine, (rate, latency))) \<Rightarrow>
     [(node_key node ''_cpu_type'', qm_cpu machine),
      (node_key node ''_cpu_count'', str_int (qm_cores machine)),
      (node_key node ''_memory_mib'', str_int (qm_memory_mib machine)),
      (node_key node ''_uart_port'', str_int (pm_uart ports ! node)),
      (node_key node ''_ssh_port'', str_int (pm_ssh ports ! node)),
      (node_key node ''_oob_port'', str_int (pm_oob ports ! (if count > 2 then node else 0))),
      (node_key node ''_link_rate_gbps'', str_int rate),
      (node_key node ''_link_latency_ns'', str_int latency)])"

definition qemu_mode :: "bool \<Rightarrow> bool \<Rightarrow> string" where
  "qemu_mode timing icount_enabled = (if timing then ''timing''
     else if icount_enabled then ''icount-unsynchronized'' else ''functional'')"

definition qemu_values ::
    "launch_world \<Rightarrow> plan \<Rightarrow> port_map \<Rightarrow> qemu_machine list \<Rightarrow> bool \<Rightarrow> bool \<Rightarrow> int \<Rightarrow> int \<Rightarrow> sdict \<Rightarrow> sdict" where
  "qemu_values w plan ports machines timing icount_enabled host_latency link_latency knobs =
     (let count = length (p_node_ids plan);
          base = dict_update
            [(''runtime'', ''qemu-tcg-'' @ qemu_mode timing icount_enabled),
             (''node_count'', str_int (int count)), (''network_backend'', ''modular-ns3ub''),
             (''ub_fabric_layout'', p_fabric_layout plan),
             (''synchronization'', if timing then ''required'' else ''off''),
             (''icount_enabled'', if icount_enabled then ''1'' else ''0''),
             (''host_poll_ns'', if timing then ''1000000'' else ''1000''),
             (''uart0'', str_int (pm_uart ports ! 0)), (''uart1'', str_int (pm_uart ports ! 1)),
             (''oob_port'', str_int (pm_oob ports ! 0)), (''ssh0_port'', str_int (pm_ssh ports ! 0)),
             (''ssh1_port'', str_int (pm_ssh ports ! 1)),
             (''peer_link_rate_gbps'', str_int (fst (hd (p_node_links plan)))),
             (''host_link_latency_ns'', str_int host_latency),
             (''max_jettys'', str_int (p_max_jettys plan)), (''public_jettys'', ''1''),
             (''udma_state_format'', ''3''),
             (''qemu_binary'', env_path w ''UBSIM_QEMU'' ''sources/qemu-11.1.1/build/qemu-system-aarch64''),
             (''udma_device_binary'', qemu_udma w),
             (''ns3_binary'', env_path w ''UBSIM_NS3UB_ADAPTER'' (ns3_default w)),
             (''kernel_image'', env_path w ''UBSIM_QEMU_KERNEL'' ''artifacts/kernel-64k-20261015/Image''),
             (''initrd_image'', env_path w ''UBSIM_INITRD'' ''out/official-udma-64k-20261015.cpio.gz''),
             (''port_count'', str_int (p_port_count plan)), (''peer_latency_ns'', str_int link_latency),
             (''switch_delay_ns'', str_int (p_switch_delay_ns plan))] knobs;
          nodes = fold (\<lambda>x v. dict_update v (qemu_node_values ports count x))
            (enumerate 0 (zip machines (p_node_links plan))) base
      in dict_update nodes
           [(''cpu_type'', common_text qm_cpu machines),
            (''cpu_count'', common_text (\<lambda>m. str_int (qm_cores m)) machines),
            (''memory_mib'', common_text (\<lambda>m. str_int (qm_memory_mib m)) machines),
            (''oob_backend'', if count > 2 then ''learning-relay'' else ''direct-socket'')])"

definition qemu_socket :: "nat \<Rightarrow> string \<Rightarrow> string" where
  "qemu_socket node kind = ''/tmp/ubsim-qemu-dual.node'' @ str_int (int node) @ ''.'' @ kind"

definition qemu_flags :: sdict where
  "qemu_flags = [(''sq-prefetch-wqebbs'', ''sq_prefetch_wqebbs''),
     (''sq-fetch-burst-wqebbs'', ''sq_fetch_burst_wqebbs''),
     (''sq-fetch-max-outstanding'', ''sq_fetch_max_outstanding''),
     (''completion-event-slots'', ''completion_event_slots''),
     (''max-jfs-depth'', ''max_jfs_depth''), (''max-jfr-depth'', ''max_jfr_depth''),
     (''max-jfc-depth'', ''max_jfc_depth'')]"

definition qemu_udma_args ::
    "launch_world \<Rightarrow> plan \<Rightarrow> sdict \<Rightarrow> string \<Rightarrow> string \<Rightarrow> int \<Rightarrow> nat \<times> (int \<times> int) \<Rightarrow> string list res" where
  "qemu_udma_args w plan knobs run_root sync host_latency x = (case x of (node, (rate, latency)) \<Rightarrow>
     rbind (getitem ''dma_max_outstanding'' knobs)
     (\<lambda>dma. rbind (rmap (flag_args knobs) qemu_flags)
     (\<lambda>flags. rbind (getitem ''iotlb_entries'' knobs)
     (\<lambda>iotlb. Inr (
        [qemu_udma w, ''--host-socket'', qemu_socket node ''host.sock'', ''--net-socket'',
         qemu_socket node ''net.sock'', ''--shm'', qemu_socket node ''shm'', ''--sync'', sync,
         ''--host-link-latency-ps'', str_int (host_latency * 1000),
         ''--net-link-latency-ps'', str_int (latency * 1000),
         ''--host-sync-interval-ps'', str_int (host_latency * 1000),
         ''--net-sync-interval-ps'', str_int (latency * 1000),
         ''--eid'', str_int (256 + int node), ''--ports'', str_int (p_port_count plan),
         ''--dma-max-outstanding'', dma] @ concat flags @
        [''--max-jettys'', str_int (p_max_jettys plan), ''--public-jettys'', ''1'',
         ''--iotlb-entries'', iotlb, ''--state-out'',
         path_under run_root (''udma-node'' @ str_int (int node) @ ''/state.bin'')])))))"

definition qemu_ns3_args ::
    "launch_world \<Rightarrow> plan \<Rightarrow> sdict \<Rightarrow> string \<Rightarrow> int \<Rightarrow> string list res" where
  "qemu_ns3_args w plan knobs sync link_latency =
     rbind (getitem ''ctp_retransmission'' knobs)
     (\<lambda>retr. rbind (getitem ''ctp_rto_ps'' knobs)
     (\<lambda>rto. rbind (getitem ''ctp_max_retransmissions'' knobs)
     (\<lambda>max_retr. Inr (
        [env_path w ''UBSIM_NS3UB_ADAPTER'' (ns3_default w), ''--ports'', str_int (p_port_count plan),
         ''--link-delay-ps'', str_int (link_latency * 1000),
         ''--switch-delay-ps'', str_int (p_switch_delay_ns plan * 1000),
         ''--rate-gbps'', str_int (fst (hd (p_node_links plan))), ''--sync'', sync,
         ''--sync-interval-ps'', str_int (link_latency * 1000), ''--ctp-retransmission'', retr,
         ''--ctp-rto-ps'', rto, ''--ctp-max-retransmissions'', max_retr] @
        (if p_fabric_layout plan = ''direct'' then [''--direct-link''] else []) @
        concat (map (\<lambda>x. endpoint_args (qemu_socket (fst x) ''net.sock'') x)
          (enumerate 0 (p_node_links plan)))))))"

definition qemu_oob_netdev :: "port_map \<Rightarrow> nat \<Rightarrow> nat \<Rightarrow> string" where
  "qemu_oob_netdev ports count node =
     (if count > 2 then ''socket,id=oob,listen=127.0.0.1:'' @ str_int (pm_oob ports ! node)
      else if node = 0 then ''socket,id=oob,listen=127.0.0.1:'' @ str_int (pm_oob ports ! 0)
      else ''socket,id=oob,connect=127.0.0.1:'' @ str_int (pm_oob ports ! 0))"

definition qemu_args ::
    "launch_world \<Rightarrow> port_map \<Rightarrow> nat \<Rightarrow> bool \<Rightarrow> sdict \<Rightarrow> string \<Rightarrow> nat \<times> qemu_machine \<Rightarrow> string list res" where
  "qemu_args w ports count icount_enabled knobs run_root x = (case x of (node, machine) \<Rightarrow>
     rbind (if icount_enabled then getitem ''icount_shift'' knobs else Inr [])
     (\<lambda>shift. Inr (
        [env_path w ''UBSIM_QEMU'' ''sources/qemu-11.1.1/build/qemu-system-aarch64'', ''-machine'',
         ''virt,accel=tcg,gic-version=2,highmem=off'', ''-cpu'', qm_cpu machine] @
        (if icount_enabled then [''-icount'', ''shift='' @ shift @ '',sleep=off''] else []) @
        [''-smp'', str_int (qm_cores machine), ''-m'', str_int (qm_memory_mib machine),
         ''-kernel'', env_path w ''UBSIM_QEMU_KERNEL'' ''artifacts/kernel-64k-20261015/Image'',
         ''-initrd'', env_path w ''UBSIM_INITRD'' ''out/official-udma-64k-20261015.cpio.gz'',
         ''-append'', ''console=ttyAMA0 rdinit=/init nokaslr loglevel=5 ubsim_node='' @ str_int (int node) @
           '' ubsim_provider=official ubsim_auto_net=1 ubsim_ssh=1'',
         ''-display'', ''none'', ''-monitor'', ''none'', ''-no-reboot'',
         ''-chardev'', ''socket,id=uart0,host=127.0.0.1,port='' @ str_int (pm_uart ports ! node) @
           '',server=on,wait=off,logfile='' @ node_dir run_root ''node'' node @ ''/system.terminal,logappend=on'',
         ''-serial'', ''chardev:uart0'',
         ''-device'', ''e1000,netdev=oob,mac=02:00:00:00:00:'' @ hex2 (node + 1),
         ''-netdev'', qemu_oob_netdev ports count node,
         ''-device'', ''e1000,netdev=ssh,mac=02:00:00:00:10:'' @ hex2 (node + 1),
         ''-netdev'', ''user,id=ssh,hostfwd=tcp:127.0.0.1:'' @ str_int (pm_ssh ports ! node) @ ''-:22''])))"

definition qemu_env :: "launch_world \<Rightarrow> bool \<Rightarrow> int \<Rightarrow> nat \<Rightarrow> sdict" where
  "qemu_env w timing host_latency node = dict_update (lx_env w)
     [(''UBSIM_QEMU_UB_HOST_SOCKET'', qemu_socket node ''host.sock''),
      (''UBSIM_QEMU_UB_HOST_SYNC'', if timing then ''required'' else ''off''),
      (''UBSIM_QEMU_UB_HOST_POLL_NS'', if timing then ''1000000'' else ''1000''),
      (''UBSIM_QEMU_UB_HOST_LATENCY_PS'', str_int (host_latency * 1000)),
      (''UBSIM_QEMU_UB_HOST_SYNC_INTERVAL_PS'', str_int (host_latency * 1000))]"

definition start_qemu_udma ::
    "launch_world \<Rightarrow> plan \<Rightarrow> sdict \<Rightarrow> string \<Rightarrow> string \<Rightarrow> int \<Rightarrow> nat \<times> (int \<times> int) \<Rightarrow> unit launch" where
  "start_qemu_udma w plan knobs run_root sync host_latency x =
     lbind (llift (qemu_udma_args w plan knobs run_root sync host_latency x))
     (\<lambda>args. spawn w args (path_under (node_dir run_root ''udma-node'' (fst x)) ''udma.pid'')
        (path_under (node_dir run_root ''udma-node'' (fst x)) ''udma.log'') None)"

definition start_qemu_node ::
    "launch_world \<Rightarrow> port_map \<Rightarrow> nat \<Rightarrow> bool \<Rightarrow> bool \<Rightarrow> int \<Rightarrow> sdict \<Rightarrow> string \<Rightarrow> nat \<times> qemu_machine \<Rightarrow> unit launch" where
  "start_qemu_node w ports count timing icount_enabled host_latency knobs run_root x =
     lbind (lwrite (path_under (node_dir run_root ''node'' (fst x)) ''system.terminal'') [])
     (\<lambda>_. lbind (llift (qemu_args w ports count icount_enabled knobs run_root x))
     (\<lambda>args. spawn w args (path_under (node_dir run_root ''node'' (fst x)) ''qemu.pid'')
        (path_under (node_dir run_root ''node'' (fst x)) ''qemu.log'')
        (Some (qemu_env w timing host_latency (fst x)))))"

definition qemu_processes ::
    "launch_world \<Rightarrow> plan \<Rightarrow> port_map \<Rightarrow> qemu_machine list \<Rightarrow> bool \<Rightarrow> bool \<Rightarrow> int \<Rightarrow> int \<Rightarrow> sdict \<Rightarrow> string \<Rightarrow> unit launch" where
  "qemu_processes w plan ports machines timing icount_enabled host_latency link_latency knobs run_root =
     (let count = length (p_node_ids plan); sync = (if timing then ''required'' else ''off'') in
      lbind (lfor (start_qemu_udma w plan knobs run_root sync host_latency) (enumerate 0 (p_node_links plan)))
      (\<lambda>_. lbind (lfor (wait_socket w)
             (concat (map (\<lambda>node. [qemu_socket node ''host.sock'', qemu_socket node ''net.sock'']) [0..<count])))
      (\<lambda>_. lbind (llift (qemu_ns3_args w plan knobs sync link_latency))
      (\<lambda>args. lbind (spawn w args (path_under run_root ''ub-fabric/ns3.pid'')
                 (path_under run_root ''ub-fabric/ns3.log'') None)
      (\<lambda>_. lbind (lfor (start_qemu_node w ports count timing icount_enabled host_latency knobs run_root)
             (enumerate 0 machines))
      (\<lambda>_. lbind (if count > 2
             then spawn w ([lx_python w, path_under (lx_root w) ''tools/ethernet_relay.py''] @
                      map (\<lambda>port. ''tcp:127.0.0.1:'' @ str_int port) (pm_oob ports))
                    (path_under run_root ''oob-switch/relay.pid'') (path_under run_root ''oob-switch/relay.log'') None
             else lret ())
      (\<lambda>_. spawn w [lx_python w, path_under (lx_root w) ''tools/host_memory_guard.py'', ''monitor'',
                ''--run-root'', run_root, ''--nodes'', str_int (int count), ''--pid-name'', ''qemu.pid'',
                ''--stop-script'', path_under (lx_root w) ''scripts/run/stop-qemu-dual.sh'']
              (path_under run_root ''memory-guard.pid'') (path_under run_root ''memory-guard.stderr.log'') None)))))))"

definition qemu_dirs :: "string \<Rightarrow> nat \<Rightarrow> string list" where
  "qemu_dirs run_root count = [path_under run_root ''ub-fabric''] @ map (node_dir run_root ''node'') [0..<count] @
     map (node_dir run_root ''udma-node'') [0..<count] @
     (if count > 2 then [path_under run_root ''oob-switch''] else [])"

definition spec_sync :: "dict \<Rightarrow> json res" where
  "spec_sync spec = rbind (getitem ''execution'' spec) (jget ''sync'')"

definition start_qemu :: "launch_world \<Rightarrow> dict \<Rightarrow> plan \<Rightarrow> string launch" where
  "start_qemu w spec plan =
     (let count = length (p_node_ids plan); run_root = env_path w ''UBSIM_QEMU_DUAL_OUT'' ''run-qemu-dual'' in
      lbind (llift (qemu_ports (lx_env w) (int count)))
      (\<lambda>ports. if lx_any_live w run_root
         then llift (Inl (LaunchError ''QEMU simulation processes are already running''))
         else lbind (llift (qemu_machines plan))
      (\<lambda>machines. lbind (llift (max_of (map qm_memory_mib machines)))
      (\<lambda>memory. lbind (check_memory w ''qemu-start'' count (str_int memory @ ''MiB''))
      (\<lambda>_. lbind (require_files w
             [env_path w ''UBSIM_QEMU'' ''sources/qemu-11.1.1/build/qemu-system-aarch64'',
              env_path w ''UBSIM_QEMU_KERNEL'' ''artifacts/kernel-64k-20261015/Image'',
              env_path w ''UBSIM_INITRD'' ''out/official-udma-64k-20261015.cpio.gz'', qemu_udma w,
              env_path w ''UBSIM_NS3UB_ADAPTER'' (ns3_default w)])
      (\<lambda>_. lbind (clear_owned_run_paths w run_root)
      (\<lambda>_. lbind (lmkdirs (qemu_dirs run_root count))
      (\<lambda>_. lbind (llift (spec_sync spec))
      (\<lambda>raw_sync. let timing = (raw_sync = JStr ''required'');
                      force_icount = env_get (lx_env w) ''UBSIM_QEMU_ICOUNT_WITH_SYNC_OFF'' ''0'' in
         if force_icount \<notin> {''0'', ''1''}
         then llift (Inl (LaunchError ''UBSIM_QEMU_ICOUNT_WITH_SYNC_OFF must be 0 or 1''))
         else let icount_enabled = (timing \<or> force_icount = ''1'') in
           lbind (llift (env_int (lx_env w) ''UBSIM_QEMU_HOST_LATENCY_NS'' ''500''))
      (\<lambda>host_latency. lbind (llift (min_of (map snd (p_node_links plan))))
      (\<lambda>link_latency. let knobs = qemu_knobs (lx_env w) in
         lbind (lwrite (path_under run_root ''run-manifest.txt'')
           (print_manifest (qemu_values w plan ports machines timing icount_enabled host_latency link_latency knobs)))
      (\<lambda>_. lbind (lremove (concat (map (\<lambda>node. map (qemu_socket node) [''host.sock'', ''net.sock'', ''shm''])
             [0..<count])))
      (\<lambda>_. lbind (with_rollback (qemu_processes w plan ports machines timing icount_enabled host_latency
             link_latency knobs run_root))
      (\<lambda>_. lret run_root))))))))))))))"

end
