(* ===== verification/Launcher_Facts.thy ===== *)
theory Launcher_Facts
  imports Launcher
begin

section \<open>Properties of the launcher\<close>

text \<open>
  Which processes a launch leaves behind: exactly the expected ones when it succeeds, and none that
  it can name when it fails, because the rollback terminates every recorded process, last first.
\<close>

named_theorems launch_intro \<open>process accounting of launch computations\<close>

subsection \<open>Process accounting\<close>

text \<open>
  \<open>launches w k m\<close>: the computation starts \<open>k\<close> processes when it returns and at most
  that many when it raises; it appends their numbers, consecutive from the current count, to
  \<^verbatim>\<open>started\<close>, and terminates nothing.  A raising computation leaves at most one process
  unrecorded, and only when its process-id file could not be written.
\<close>

definition accounted ::
    "launch_world \<Rightarrow> nat \<Rightarrow> launch_state \<Rightarrow> 'a res \<times> launch_state \<Rightarrow> bool" where
  "accounted w k s rs \<longleftrightarrow> (\<exists>i \<le> k. ls_terminated (snd rs) = ls_terminated s \<and>
     ls_started (snd rs) = ls_started s @ [length (ls_spawned s)..<length (ls_spawned s) + i] \<and>
     (case fst rs of
        Inr _ \<Rightarrow> i = k \<and> length (ls_spawned (snd rs)) = length (ls_spawned s) + i
      | Inl _ \<Rightarrow> length (ls_spawned (snd rs)) = length (ls_spawned s) + i \<or>
          length (ls_spawned (snd rs)) = Suc (length (ls_spawned s) + i) \<and>
          \<not> lx_pidfile_ok w (length (ls_spawned s) + i)))"

definition launches :: "launch_world \<Rightarrow> nat \<Rightarrow> 'a launch \<Rightarrow> bool" where
  "launches w k m \<longleftrightarrow> (\<forall>s. accounted w k s (m s))"

lemma launches_lret [launch_intro]: "launches w 0 (lret x)"
  by (simp add: launches_def accounted_def lret_def)

lemma launches_llift [launch_intro]: "launches w 0 (llift r)"
  by (simp add: launches_def accounted_def llift_def split: sum.split)

lemma launches_lwrite [launch_intro]: "launches w 0 (lwrite p t)"
  and launches_lremove [launch_intro]: "launches w 0 (lremove ps)"
  and launches_lmkdirs [launch_intro]: "launches w 0 (lmkdirs ps)"
  by (simp_all add: launches_def accounted_def lwrite_def lremove_def lmkdirs_def)

lemma launches_spawn [launch_intro]: "launches w 1 (spawn w command pidfile logfile env)"
  by (auto simp: launches_def accounted_def spawn_def Let_def)

lemma launches_lbind [launch_intro]:
  assumes m: "launches w j m" and f: "\<And>x. launches w k (f x)"
  shows "launches w (j + k) (lbind m f)"
  unfolding launches_def
proof
  fix s
  obtain r s1 where ms: "m s = (r, s1)" by force
  with m have a: "accounted w j s (r, s1)" by (metis launches_def)
  show "accounted w (j + k) s (lbind m f s)"
  proof (cases r)
    case (Inl e)
    with ms a show ?thesis
      by (auto simp: lbind_def accounted_def intro: trans_le_add1)
  next
    case (Inr x)
    with a have len: "length (ls_spawned s1) = length (ls_spawned s) + j"
      and st: "ls_started s1 = ls_started s @ [length (ls_spawned s)..<length (ls_spawned s) + j]"
      and te: "ls_terminated s1 = ls_terminated s"
      by (auto simp: accounted_def)
    obtain r2 s2 where fs: "f x s1 = (r2, s2)" by force
    have lb: "lbind m f s = (r2, s2)" by (simp add: lbind_def ms Inr fs)
    have "accounted w k s1 (r2, s2)" using f by (metis launches_def fs)
    then obtain i where "i \<le> k" and te2: "ls_terminated s2 = ls_terminated s1"
      and st2: "ls_started s2 = ls_started s1 @ [length (ls_spawned s1)..<length (ls_spawned s1) + i]"
      and r2: "case r2 of
        Inr _ \<Rightarrow> i = k \<and> length (ls_spawned s2) = length (ls_spawned s1) + i
      | Inl _ \<Rightarrow> length (ls_spawned s2) = length (ls_spawned s1) + i \<or>
          length (ls_spawned s2) = Suc (length (ls_spawned s1) + i) \<and>
          \<not> lx_pidfile_ok w (length (ls_spawned s1) + i)"
      unfolding accounted_def fst_conv snd_conv by blast
    have "ls_started s2 = ls_started s @ [length (ls_spawned s)..<length (ls_spawned s) + (j + i)]"
      using upt_add_eq_append [of "length (ls_spawned s)" "length (ls_spawned s) + j" i]
      by (simp add: st st2 len add.assoc)
    moreover have "j + i \<le> j + k" using \<open>i \<le> k\<close> by simp
    ultimately show ?thesis
      unfolding lb accounted_def using r2 te te2 len
      by (intro exI [of _ "j + i"]) (cases r2; simp add: add.assoc)
  qed
qed

lemma launches_if [launch_intro]:
  "(b \<Longrightarrow> launches w k m) \<Longrightarrow> (\<not> b \<Longrightarrow> launches w k m') \<Longrightarrow> launches w k (if b then m else m')"
  by simp

lemma launches_raise [launch_intro]: "launches w k (llift (Inl e))"
  by (auto simp: launches_def accounted_def llift_def)

lemma launches_cong: "j = k \<Longrightarrow> launches w j m \<Longrightarrow> launches w k m"
  by simp

text \<open>
  The contract of a step that a launch repeats: a fixed number of processes per element.  The two
  launchers are built from such loops.
\<close>

locale launch_step =
  fixes w :: launch_world and k :: nat and body :: "'x \<Rightarrow> unit launch"
  assumes step: "launches w k (body x)"
begin

lemma loop: "launches w (k * length xs) (lfor body xs)"
proof (induction xs)
  case Nil
  then show ?case by (simp add: launches_lret)
next
  case (Cons x xs)
  then show ?case
    using launches_lbind [OF step [of x] Cons] by simp
qed

end

lemma launches_start_udma: "launches w 1 (start_udma w udma manifest plan checkpoint template run_root sync node)"
  unfolding start_udma_def
  by (rule launches_cong [OF _ launches_lbind [OF launches_llift launches_spawn]]) simp

lemma launches_wait_socket: "launches w 0 (wait_socket w path)"
  unfolding wait_socket_def by (intro launch_intro)

lemma launches_start_gem5_node:
  "launches w 1 (start_gem5_node w manifest checkpoint template run_root sync node)"
proof -
  have "launches w 0 (if template then lwrite p t else lret ())" for p t
    by (intro launch_intro)
  then show ?thesis
    unfolding start_gem5_node_def
    by (rule launches_cong [OF _ launches_lbind [OF launches_llift launches_lbind
          [OF _ launches_lbind [OF launches_llift launches_spawn]]], rotated]) simp
qed

lemma launches_start_qemu_udma: "launches w 1 (start_qemu_udma w plan knobs run_root sync host_latency x)"
  unfolding start_qemu_udma_def
  by (rule launches_cong [OF _ launches_lbind [OF launches_llift launches_spawn]]) simp

lemma launches_start_qemu_node:
  "launches w 1 (start_qemu_node w ports count timing icount host_latency knobs run_root x)"
  unfolding start_qemu_node_def
  by (rule launches_cong [OF _ launches_lbind [OF launches_lwrite launches_lbind [OF launches_llift launches_spawn]]])
    simp

interpretation udma_loop: launch_step w 1 "start_udma w udma manifest plan checkpoint template run_root sync"
  for w udma manifest plan checkpoint template run_root sync
  by unfold_locales (rule launches_start_udma)

interpretation socket_loop: launch_step w 0 "wait_socket w" for w
  by unfold_locales (rule launches_wait_socket)

interpretation gem5_loop: launch_step w 1 "start_gem5_node w manifest checkpoint template run_root sync"
  for w manifest checkpoint template run_root sync
  by unfold_locales (rule launches_start_gem5_node)

interpretation qemu_udma_loop: launch_step w 1 "start_qemu_udma w plan knobs run_root sync host_latency"
  for w plan knobs run_root sync host_latency
  by unfold_locales (rule launches_start_qemu_udma)

interpretation qemu_loop: launch_step w 1 "start_qemu_node w ports count timing icount host_latency knobs run_root"
  for w ports count timing icount host_latency knobs run_root
  by unfold_locales (rule launches_start_qemu_node)

lemma launches_gem5_processes:
  "launches w (2 * length (p_node_ids plan) + 3)
     (gem5_processes w udma ns3 manifest plan checkpoint template run_root sync)"
proof -
  have con: "launches w 0 (if lx_connected w then lret () else llift (Inl e))" for e
    by (intro launch_intro)
  show ?thesis
    unfolding gem5_processes_def Let_def
    by (rule launches_cong [OF _ launches_lbind [OF udma_loop.loop launches_lbind [OF socket_loop.loop
          launches_lbind [OF launches_llift launches_lbind [OF launches_spawn launches_lbind [OF gem5_loop.loop
          launches_lbind [OF launches_spawn launches_lbind [OF con launches_spawn]]]]]]]]) simp
qed

lemma launches_qemu_processes:
  "launches w (length (p_node_links plan) + length machines + (if 2 < length (p_node_ids plan) then 3 else 2))
     (qemu_processes w plan ports machines timing icount host_latency link_latency knobs run_root)"
proof -
  have relay: "launches w (if 2 < length (p_node_ids plan) then 1 else 0)
      (if 2 < length (p_node_ids plan) then spawn w c p l e else lret ())" for c p l e
    by (simp add: launches_spawn [simplified] launches_lret)
  show ?thesis
    unfolding qemu_processes_def Let_def
    by (rule launches_cong [OF _ launches_lbind [OF qemu_udma_loop.loop launches_lbind [OF socket_loop.loop
          launches_lbind [OF launches_llift launches_lbind [OF launches_spawn launches_lbind [OF qemu_loop.loop
          launches_lbind [OF relay launches_spawn]]]]]]]) simp
qed

subsection \<open>Rollback\<close>

text \<open>Steps before the first process: they leave the process lists alone.\<close>

definition clean :: "'a launch \<Rightarrow> bool" where
  "clean m \<longleftrightarrow> (\<forall>s. ls_spawned (snd (m s)) = ls_spawned s \<and> ls_started (snd (m s)) = ls_started s \<and>
     ls_terminated (snd (m s)) = ls_terminated s)"

definition quiescent :: "launch_state \<Rightarrow> bool" where
  "quiescent s \<longleftrightarrow> ls_spawned s = [] \<and> ls_started s = [] \<and> ls_terminated s = []"

definition settled :: "launch_world \<Rightarrow> nat \<Rightarrow> 'a res \<times> launch_state \<Rightarrow> bool" where
  "settled w k rs = (case rs of
       (Inr _, s') \<Rightarrow> ls_terminated s' = [] \<and> ls_started s' = [0..<k] \<and> length (ls_spawned s') = k
     | (Inl _, s') \<Rightarrow> (\<exists>i \<le> k. ls_started s' = [0..<i] \<and> ls_terminated s' = rev [0..<i] \<and>
         (length (ls_spawned s') = i \<or> length (ls_spawned s') = Suc i \<and> \<not> lx_pidfile_ok w i)))"

definition rolled_back :: "launch_world \<Rightarrow> nat \<Rightarrow> 'a launch \<Rightarrow> bool" where
  "rolled_back w k m \<longleftrightarrow> (\<forall>s. quiescent s \<longrightarrow> settled w k (m s))"

lemma rolled_back_raise [launch_intro]: "rolled_back w k (llift (Inl e))"
  by (auto simp: rolled_back_def settled_def quiescent_def llift_def)

lemma rolled_back_if [launch_intro]:
  "(b \<Longrightarrow> rolled_back w k m) \<Longrightarrow> (\<not> b \<Longrightarrow> rolled_back w k m') \<Longrightarrow> rolled_back w k (if b then m else m')"
  by simp

lemma rolled_back_bind [launch_intro]:
  assumes "clean m" and "\<And>x. rolled_back w k (f x)"
  shows "rolled_back w k (lbind m f)"
  unfolding rolled_back_def
proof (intro allI impI)
  fix s assume q: "quiescent s"
  obtain r s1 where ms: "m s = (r, s1)" by force
  with assms(1) q have q1: "quiescent s1"
    by (metis clean_def quiescent_def snd_conv)
  show "settled w k (lbind m f s)"
  proof (cases r)
    case (Inl e)
    with q1 show ?thesis by (auto simp: lbind_def ms settled_def quiescent_def)
  next
    case (Inr x)
    with q1 assms(2) show ?thesis by (simp add: lbind_def ms rolled_back_def)
  qed
qed

lemma rolled_back_llift:
  assumes "\<And>x. r = Inr x \<Longrightarrow> rolled_back w k (f x)"
  shows "rolled_back w k (lbind (llift r) f)"
  using assms by (cases r)
    (auto simp: rolled_back_def lbind_def llift_def settled_def quiescent_def)

lemma rolled_back_rollback [launch_intro]:
  assumes "launches w k m"
  shows "rolled_back w k (lbind (with_rollback m) (\<lambda>_. lret x))"
  unfolding rolled_back_def
proof (intro allI impI)
  fix s assume q: "quiescent s"
  obtain r s1 where ms: "m s = (r, s1)" by force
  with assms have a: "accounted w k s (r, s1)" by (metis launches_def)
  show "settled w k (lbind (with_rollback m) (\<lambda>_. lret x) s)"
    using a q by (cases r)
      (auto simp: lbind_def with_rollback_def ms settled_def accounted_def quiescent_def lret_def)
qed

lemma clean_llift [launch_intro]: "clean (llift r)"
  and clean_lret [launch_intro]: "clean (lret x)"
  and clean_lwrite [launch_intro]: "clean (lwrite p t)"
  and clean_lremove [launch_intro]: "clean (lremove ps)"
  and clean_lmkdirs [launch_intro]: "clean (lmkdirs ps)"
  by (simp_all add: clean_def llift_def lret_def lwrite_def lremove_def lmkdirs_def)

lemma clean_check_memory [launch_intro]: "clean (check_memory w phase n mem)"
  by (simp add: check_memory_def clean_llift clean_lret)

lemma clean_require_files [launch_intro]: "clean (require_files w paths)"
  by (induction paths) (simp_all add: clean_llift clean_lret)

lemma clean_clear_owned_run_paths [launch_intro]: "clean (clear_owned_run_paths w run_root)"
  by (simp add: clear_owned_run_paths_def clean_llift clean_lremove)

lemma rolled_back_start_gem5: "rolled_back w (2 * length (p_node_ids plan) + 3) (start_gem5 w spec plan)"
  unfolding start_gem5_def Let_def by (intro launch_intro launches_gem5_processes)

lemma qemu_machines_length: "qemu_machines plan = Inr ms \<Longrightarrow> length ms = length (p_machines plan)"
  by (auto simp: qemu_machines_def rmap_Inr dest: list_all2_lengthD)

lemma accepted_machine_count:
  assumes "accepted raw p nodes devices switches links machine ns ds"
  shows "length (p_machines p) = length (p_node_ids p)"
  using accepted_machines_ok(1) [OF assms]
    node_rules_Inr(1,2) [OF accepted_rules [OF assms] accepted_facts(1) [OF assms]] by simp

lemma quiescent_init [simp]: "quiescent launch_init"
  by (simp add: quiescent_def launch_init_def)

subsection \<open>Main properties\<close>

text \<open>
  C23.  A gem5 launch that returns has started one UDMA device per node, the fabric, one simulator
  per node, the memory guard and the relay, and terminated nothing.  A launch that raises has
  terminated every process recorded as started, in reverse order of their start; at most one
  process is left running, and only when it was started but its process-id file could not be
  written.
\<close>

theorem start_gem5_rollback:
  "case start_gem5 w spec plan launch_init of
     (Inr _, s) \<Rightarrow> ls_terminated s = [] \<and> length (ls_spawned s) = 2 * length (p_node_ids plan) + 3 \<and>
       ls_started s = [0..<2 * length (p_node_ids plan) + 3]
   | (Inl _, s) \<Rightarrow> ls_started s = [0..<length (ls_started s)] \<and> ls_terminated s = rev (ls_started s) \<and>
       (length (ls_spawned s) = length (ls_started s) \<or>
        length (ls_spawned s) = Suc (length (ls_started s)) \<and> \<not> lx_pidfile_ok w (length (ls_started s)))"
proof -
  have "settled w (2 * length (p_node_ids plan) + 3) (start_gem5 w spec plan launch_init)"
    using rolled_back_start_gem5 by (simp add: rolled_back_def)
  then show ?thesis
    by (cases "start_gem5 w spec plan launch_init"; cases "fst (start_gem5 w spec plan launch_init)")
      (auto simp: settled_def)
qed

text \<open>
  A QEMU launch of a compiled topology that returns has started one UDMA device and one guest
  per node, the fabric, the memory guard and, with more than two nodes, the relay; one that
  raises has rolled back in the same way.
\<close>

theorem start_qemu_rollback:
  assumes "compile_topology raw = Inr plan"
  shows "case start_qemu w spec plan launch_init of
     (Inr _, s) \<Rightarrow> ls_terminated s = [] \<and>
       length (ls_spawned s) = 2 * length (p_node_ids plan) + (if 2 < length (p_node_ids plan) then 3 else 2) \<and>
       ls_started s = [0..<length (ls_spawned s)]
   | (Inl _, s) \<Rightarrow> ls_started s = [0..<length (ls_started s)] \<and> ls_terminated s = rev (ls_started s) \<and>
       (length (ls_spawned s) = length (ls_started s) \<or>
        length (ls_spawned s) = Suc (length (ls_started s)) \<and> \<not> lx_pidfile_ok w (length (ls_started s)))"
proof -
  let ?k = "2 * length (p_node_ids plan) + (if 2 < length (p_node_ids plan) then 3 else 2)"
  from compile_topology_accepted [OF assms] have len: "length (p_node_links plan) = length (p_node_ids plan)"
      "length (p_machines plan) = length (p_node_ids plan)"
    using accepted_links_ok(1) accepted_machine_count by blast+
  have "launches w ?k (qemu_processes w plan ports ms timing icount hl ll knobs run_root)"
    if "qemu_machines plan = Inr ms" for ports ms timing icount hl ll knobs run_root
    by (rule launches_cong [OF _ launches_qemu_processes]) (simp add: qemu_machines_length [OF that] len)
  then have "rolled_back w ?k (start_qemu w spec plan)"
    unfolding start_qemu_def Let_def
    by (intro rolled_back_llift launch_intro) assumption
  then have "settled w ?k (start_qemu w spec plan launch_init)"
    by (simp add: rolled_back_def)
  then show ?thesis
    by (cases "start_qemu w spec plan launch_init"; cases "fst (start_qemu w spec plan launch_init)")
      (auto simp: settled_def)
qed

theorem start_qemu_rollback_witness:
  "\<forall>w spec. case start_qemu w spec qemu_two_heads_plan launch_init of
     (Inr _, s) \<Rightarrow> ls_terminated s = [] \<and> length (ls_spawned s) = 6
   | (Inl _, s) \<Rightarrow> ls_terminated s = rev (ls_started s)"
proof (intro allI)
  fix w spec
  show "case start_qemu w spec qemu_two_heads_plan launch_init of
     (Inr _, s) \<Rightarrow> ls_terminated s = [] \<and> length (ls_spawned s) = 6
   | (Inl _, s) \<Rightarrow> ls_terminated s = rev (ls_started s)"
    using start_qemu_rollback [OF compile_qemu_two_heads, of w spec]
    by (auto simp: qemu_two_heads_plan_def split: prod.splits sum.splits)
qed

end
