(* ===== verification/Launch_Ready.thy ===== *)
theory Launch_Ready
  imports Launcher_Facts
begin

section \<open>A gem5 launch on a ready host returns\<close>

text \<open>
  The launcher reads some hundred keys of the manifest and converts several of them to numbers;
  this theory shows that none of these steps can fail on a resolved manifest, and that a launch
  therefore returns whenever the host cooperates.
\<close>

subsection \<open>The manifest has what the launcher reads\<close>

definition other_keys :: "string list" where
  "other_keys = map snd udma_flags @
     [''auto_o3_lifecycle'', ''fast_boot_noncaching'', ''oob_link_speed'', ''peer_latency_ns'', ''provider'',
      ''ub_port_count'', ''profile'', ''max_read_outstanding'', ''lifecycle_sync'', ''peer_switch_delay'',
      ''peer_link_rate_gbps'', ''sync_quantum_ns'', ''ctp_retransmission'', ''ctp_rto_ps'',
      ''ctp_max_retransmissions'', ''pipe_data'', ''packet_trace'', ''external_udma_poll_interval'',
      ''external_udma_host_latency_ns'', ''memory_size'', ''virtual_time_synchronization'']"

text \<open>The positions of these keys in the profile table, options first.\<close>

definition option_positions :: "nat list" where
  "option_positions =
     [22, 85, 21, 19, 1, 141, 138, 129, 131, 139, 130, 140, 125, 126, 134, 133, 137, 136, 135,
     83, 2, 64, 60, 62, 63, 65, 66, 57, 3, 53, 55, 56, 58, 59, 71, 67, 69, 70, 72, 73, 80, 74,
     78, 79, 81, 82, 37, 38, 6, 5, 8, 9, 7, 96, 95, 98, 99, 97, 17, 75, 93, 43, 42, 45, 44, 49,
     46, 47, 48, 50, 51, 113, 40, 114, 102, 100, 94, 101, 110, 111, 115, 109, 106, 112, 116,
     117, 108, 107, 105, 103, 104]"

definition other_positions :: "nat list" where
  "other_positions =
     [91, 90, 89, 88, 159, 166, 163, 165, 16, 183, 0, 39, 143, 147, 158, 174, 156, 92, 84, 153,
     149, 170, 26, 27, 25, 155, 144, 36, 35, 113, 181]"

lemma option_keys_at: "map gem5_key GEM5_OPTIONS = map ((!) profile_keys) option_positions"
  by code_simp

lemma other_keys_at: "other_keys = map ((!) profile_keys) other_positions"
  by code_simp

lemma positions_valid: "list_all (\<lambda>i. i < length profile_keys) (option_positions @ other_positions)"
  by code_simp

abbreviation launcher_keys :: "string list" where
  "launcher_keys \<equiv> map gem5_key GEM5_OPTIONS @ other_keys"

lemma launcher_keys_plain: "list_all (\<lambda>k. take 4 k \<noteq> ''node'') launcher_keys"
  unfolding option_keys_at by code_simp

lemma launcher_keys_known: "k \<in> set launcher_keys \<Longrightarrow> k \<in> set profile_keys \<and> \<not> is_link_key k"
proof -
  assume k: "k \<in> set launcher_keys"
  then have "take 4 k \<noteq> ''node''"
    using launcher_keys_plain unfolding list_all_iff by (rule bspec [rotated])
  then have "\<not> is_link_key k"
    by (auto dest!: link_key_shape)
  moreover have "k \<in> set profile_keys"
    using k positions_valid unfolding option_keys_at other_keys_at list_all_iff by auto
  ultimately show ?thesis by blast
qed

lemma max_read_numeric:
  "list_all (\<lambda>p. \<not> isl (rbind (getitem ''max_read_outstanding'' (snd p)) py_int)) PROFILE_DEFAULTS"
  by code_simp

subsection \<open>Launches that cannot fail\<close>

named_theorems lok_intro \<open>launch computations that return\<close>

definition lok :: "'a launch \<Rightarrow> bool" where
  "lok m \<longleftrightarrow> (\<forall>s. \<exists>x s'. m s = (Inr x, s'))"

lemma lok_effects [lok_intro]:
  "lok (lret x)" "lok (lwrite p t)" "lok (lremove ps)" "lok (lmkdirs ps)"
  by (simp_all add: lok_def lret_def lwrite_def lremove_def lmkdirs_def)

lemma lok_llift: "r = Inr x \<Longrightarrow> lok (llift r)"
  by (simp add: lok_def llift_def)

lemma lok_lbind [lok_intro]:
  assumes "lok m" and "\<And>x. lok (f x)"
  shows "lok (lbind m f)"
  unfolding lok_def
proof
  fix s
  obtain x s1 where "m s = (Inr x, s1)" using assms(1) unfolding lok_def by blast
  then have "lbind m f s = f x s1" by (simp add: lbind_def)
  then show "\<exists>y s'. lbind m f s = (Inr y, s')"
    using assms(2) [of x] by (simp only: lok_def)
qed

lemma lok_lbind_llift: "r = Inr x \<Longrightarrow> lok (f x) \<Longrightarrow> lok (lbind (llift r) f)"
  by (simp add: lok_def lbind_def llift_def)

lemma lok_lfor: "(\<And>x. x \<in> set xs \<Longrightarrow> lok (body x)) \<Longrightarrow> lok (lfor body xs)"
  by (induction xs) (simp_all add: lok_intro)

lemma lok_rollback [lok_intro]: "lok m \<Longrightarrow> lok (with_rollback m)"
  unfolding lok_def with_rollback_def by (auto split: prod.split sum.split) (metis Inl_Inr_False prod.inject)

lemma lok_spawn:
  "(\<And>n. lx_spawn_ok w n \<and> lx_pidfile_ok w n) \<Longrightarrow> lok (spawn w command pidfile logfile env)"
  by (simp add: lok_def spawn_def Let_def)

lemma lok_require_files: "list_all (lw_is_file (lx_lab w)) paths \<Longrightarrow> lok (require_files w paths)"
  by (induction paths) (simp_all add: lok_effects)

subsection \<open>Arguments of the processes\<close>

text \<open>What the launcher relies on in the manifest it resolved.\<close>

definition manifest_usable :: "sdict \<Rightarrow> bool" where
  "manifest_usable m \<longleftrightarrow> (\<forall>k \<in> set launcher_keys. has_key k m) \<and> has_key ''initrd_path'' m \<and>
     (\<forall>k \<in> {''external_udma_host_latency_ns'', ''sync_quantum_ns'', ''peer_latency_ns'', ''max_read_outstanding''}.
        \<exists>v i. map_of m k = Some v \<and> py_int v = Inr i) \<and>
     (\<exists>d. map_of m ''peer_switch_delay'' = Some (str_int d @ ''ns''))"

lemma usable_key:
  "manifest_usable m \<Longrightarrow> k \<in> set launcher_keys \<Longrightarrow> \<exists>v. getitem k m = Inr v"
  unfolding manifest_usable_def by (elim conjE) (drule (1) bspec, simp add: has_key_map_of)

lemma usable_other: "manifest_usable m \<Longrightarrow> k \<in> set other_keys \<Longrightarrow> \<exists>v. getitem k m = Inr v"
  by (rule usable_key) simp_all

lemma usable_int:
  "manifest_usable m \<Longrightarrow>
     k \<in> {''external_udma_host_latency_ns'', ''sync_quantum_ns'', ''peer_latency_ns'', ''max_read_outstanding''} \<Longrightarrow>
     \<exists>i. manifest_int m k = Inr i"
  unfolding manifest_usable_def manifest_int_def by (elim conjE) (drule (1) bspec, auto)

lemma picoseconds_ns: "picoseconds (str_int d @ ''ns'') = Inr (d * 1000)"
proof -
  have "endswith (str_int d @ ''ns'') ''ns''" by (auto simp: endswith_iff)
  moreover have "\<not> endswith (str_int d @ ''ns'') ''ps''" by (auto simp: endswith_def startswith_def)
  ultimately show ?thesis
    by (simp add: picoseconds_def delay_units_def)
qed

lemma flag_args_total: "manifest_usable m \<Longrightarrow> \<exists>ys. rmap (flag_args m) udma_flags = Inr ys"
proof (rule rmap_returns)
  fix fk assume m: "manifest_usable m" and "fk \<in> set udma_flags"
  then have "snd fk \<in> set other_keys" by (auto simp: other_keys_def)
  from usable_other [OF m this] show "\<exists>y. flag_args m fk = Inr y"
    by (auto simp: flag_args_def)
qed

lemma gem5_options_total: "manifest_usable m \<Longrightarrow> \<exists>ys. rmap (gem5_option m) GEM5_OPTIONS = Inr ys"
proof (rule rmap_returns)
  fix opt assume m: "manifest_usable m" and "opt \<in> set GEM5_OPTIONS"
  then have "gem5_key opt \<in> set launcher_keys" by simp
  from usable_key [OF m this] show "\<exists>y. gem5_option m opt = Inr y"
    by (auto simp: gem5_option_def)
qed

lemma other_keys_all:
  "manifest_usable m \<Longrightarrow> \<exists>v. \<forall>k \<in> set other_keys. getitem k m = Inr (v k)"
  using usable_other by (intro bchoice) blast

lemma udma_args_total:
  assumes m: "manifest_usable m" and node: "node < length (p_node_links plan)"
  shows "\<exists>args. udma_args udma m plan checkpoint template run_root sync node = Inr args"
proof -
  from other_keys_all [OF m] obtain v where v: "\<forall>k \<in> set other_keys. getitem k m = Inr (v k)"
    by blast
  from usable_int [OF m] obtain i1 i2 i3 where
    "manifest_int m ''external_udma_host_latency_ns'' = Inr i1"
    "manifest_int m ''sync_quantum_ns'' = Inr i2" "manifest_int m ''max_read_outstanding'' = Inr i3"
    by (metis insertCI)
  moreover from flag_args_total [OF m] obtain ys where "rmap (flag_args m) udma_flags = Inr ys" by blast
  moreover have "getitem ''ub_port_count'' m = Inr (v ''ub_port_count'')" "getitem ''profile'' m = Inr (v ''profile'')"
    "getitem ''max_read_outstanding'' m = Inr (v ''max_read_outstanding'')"
    "getitem ''lifecycle_sync'' m = Inr (v ''lifecycle_sync'')"
    by (rule bspec [OF v], simp add: other_keys_def)+
  ultimately show ?thesis
    using node by (simp add: udma_args_def link_at_def del: getitem_eq_Inr)
qed

lemma gem5_ns3_args_total:
  assumes m: "manifest_usable m"
  shows "\<exists>args. gem5_ns3_args ns3 m plan sync = Inr args"
proof -
  from other_keys_all [OF m] obtain v where v: "\<forall>k \<in> set other_keys. getitem k m = Inr (v k)"
    by blast
  from usable_int [OF m] obtain i1 i2 where
    "manifest_int m ''peer_latency_ns'' = Inr i1" "manifest_int m ''sync_quantum_ns'' = Inr i2"
    by (metis insertCI)
  moreover obtain d where "getitem ''peer_switch_delay'' m = Inr (str_int d @ ''ns'')"
    using m by (auto simp: manifest_usable_def getitem_def)
  moreover have "getitem ''ub_port_count'' m = Inr (v ''ub_port_count'')"
    "getitem ''peer_link_rate_gbps'' m = Inr (v ''peer_link_rate_gbps'')"
    "getitem ''ctp_retransmission'' m = Inr (v ''ctp_retransmission'')"
    "getitem ''ctp_rto_ps'' m = Inr (v ''ctp_rto_ps'')"
    "getitem ''ctp_max_retransmissions'' m = Inr (v ''ctp_max_retransmissions'')"
    "getitem ''lifecycle_sync'' m = Inr (v ''lifecycle_sync'')"
    by (rule bspec [OF v], simp add: other_keys_def)+
  ultimately show ?thesis
    by (simp add: gem5_ns3_args_def picoseconds_ns del: getitem_eq_Inr)
qed

lemma gem5_env_total:
  assumes m: "manifest_usable m"
  shows "\<exists>env. gem5_env w m sync node = Inr env"
proof -
  from other_keys_all [OF m] obtain v where v: "\<forall>k \<in> set other_keys. getitem k m = Inr (v k)"
    by blast
  have g: "getitem ''pipe_data'' m = Inr (v ''pipe_data'')" "getitem ''packet_trace'' m = Inr (v ''packet_trace'')"
    "getitem ''lifecycle_sync'' m = Inr (v ''lifecycle_sync'')"
    "getitem ''external_udma_poll_interval'' m = Inr (v ''external_udma_poll_interval'')"
    "getitem ''external_udma_host_latency_ns'' m = Inr (v ''external_udma_host_latency_ns'')"
    "getitem ''sync_quantum_ns'' m = Inr (v ''sync_quantum_ns'')"
    by (rule bspec [OF v], simp add: other_keys_def)+
  from usable_int [OF m, of "''external_udma_host_latency_ns''"] obtain i where
    "py_int (v ''external_udma_host_latency_ns'') = Inr i"
    using g(5) by (auto simp: manifest_int_def simp del: getitem_eq_Inr)
  with g show ?thesis
    by (simp add: gem5_env_def del: getitem_eq_Inr)
qed

lemma gem5_command_total:
  assumes m: "manifest_usable m"
    and env: "env_int (lx_env w) ''UBSIM_DUAL_UART0'' ''3460'' = Inr u0"
      "env_int (lx_env w) ''UBSIM_DUAL_UART1'' ''3470'' = Inr u1"
  shows "\<exists>command. gem5_command w m node run_root checkpoint template = Inr command"
proof -
  from other_keys_all [OF m] obtain v where v: "\<forall>k \<in> set other_keys. getitem k m = Inr (v k)"
    by blast
  have "getitem ''auto_o3_lifecycle'' m = Inr (v ''auto_o3_lifecycle'')"
    "getitem ''fast_boot_noncaching'' m = Inr (v ''fast_boot_noncaching'')"
    "getitem ''oob_link_speed'' m = Inr (v ''oob_link_speed'')"
    "getitem ''peer_latency_ns'' m = Inr (v ''peer_latency_ns'')"
    "getitem ''provider'' m = Inr (v ''provider'')"
    by (rule bspec [OF v], simp add: other_keys_def)+
  moreover obtain i where "getitem ''initrd_path'' m = Inr i"
    using m by (auto simp: manifest_usable_def has_key_map_of)
  moreover obtain ys where "rmap (gem5_option m) GEM5_OPTIONS = Inr ys"
    using gem5_options_total [OF m] by blast
  ultimately show ?thesis
    using env by (simp add: gem5_command_def Let_def del: getitem_eq_Inr)
qed

subsection \<open>The resolved manifest is usable\<close>

lemma not_link_keys_launcher:
  "\<not> is_link_key ''initrd_path''" "\<not> is_link_key ''node_count''" "\<not> is_link_key ''peer_switch_delay''"
  "\<not> is_link_key ''max_read_outstanding''"
  by (auto dest!: link_key_shape simp: is_digit_def)

lemma resolved_usable:
  assumes "compile_topology (JObj spec) = Inr p" and "p_simulator p = ''gem5''"
    and "resolve_gem5 root spec p = Inr m"
  shows "manifest_usable (dict_set ''restore_checkpoint'' x m)"
    and "map_of m ''node_count'' = Some (str_int (int (length (p_node_ids p))))"
proof -
  obtain machine profile vals latency pj where
      res: "resolve_gem5 root spec p = Inr (resolved_form root p machine profile vals latency pj)"
    and keys: "map fst vals = profile_keys" and tab: "map_of PROFILE_DEFAULTS profile = Some vals"
    by (rule resolve_accepted [OF assms(1,2)])
  have m: "m = resolved_form root p machine profile vals latency pj"
    using res assms(3) by simp
  obtain lat prof where q: "map_of m ''peer_latency_ns'' = Some (str_int lat)"
      "map_of m ''sync_quantum_ns'' = Some (str_int (if prof = ''modern'' then min 100 lat else lat))"
      "map_of m ''external_udma_host_latency_ns'' = map_of m ''sync_quantum_ns''"
    by (rule resolve_quantum [OF assms])
  have has: "has_key k m" if "k \<in> set launcher_keys" for k
  proof -
    have "has_key k vals"
      using launcher_keys_known [OF that] keys by (metis has_key_def set_map)
    then show ?thesis
      using launcher_keys_known [OF that] unfolding m resolved_form_def
      by (intro finish_manifest_has dict_update_has) blast+
  qed
  have initrd: "has_key ''initrd_path'' m"
    unfolding m resolved_form_def
    by (intro finish_manifest_has dict_update_has dict_update_has_new)
      (simp_all add: not_link_keys_launcher resolved_updates_def)
  have delay: "map_of m ''peer_switch_delay'' = Some (str_int (p_switch_delay_ns p) @ ''ns'')"
    and count: "map_of m ''node_count'' = Some (str_int (int (length (p_node_ids p))))"
    unfolding m resolved_form_def
    by (rule resolved_value; simp add: not_link_keys_launcher resolved_updates_def lifecycle_updates_def)+
  have "map_of m ''max_read_outstanding'' = map_of vals ''max_read_outstanding''"
    unfolding m resolved_form_def
    by (rule resolved_default; simp add: not_link_keys_launcher resolved_updates_def lifecycle_updates_def)
  moreover have "\<not> isl (rbind (getitem ''max_read_outstanding'' vals) py_int)"
    using max_read_numeric map_of_SomeD [OF tab] unfolding list_all_iff by (metis snd_conv)
  then obtain v i where "map_of vals ''max_read_outstanding'' = Some v" "py_int v = Inr i"
    by (cases "rbind (getitem ''max_read_outstanding'' vals) py_int") auto
  ultimately show "manifest_usable (dict_set ''restore_checkpoint'' x m)"
    using has initrd delay q unfolding manifest_usable_def
    by (simp add: has_key_map_of)
  show "map_of m ''node_count'' = Some (str_int (int (length (p_node_ids p))))" by (rule count)
qed

lemma gem5_select_total:
  assumes "map_of m ''node_count'' = Some (str_int n)" and "has_key ''initrd_path'' m"
  shows "\<exists>selected. gem5_select w m plan = Inr selected"
  using assms
  by (auto simp: gem5_select_def getitem_present select_compatible_checkpoint_def dict_get_def Let_def
      split: list.split)

subsection \<open>A launch on a ready host returns\<close>

text \<open>
  A host on which nothing outside the program fails: the artifacts exist, no simulation runs in the
  output directory, the memory check passes, processes start, sockets appear and the fabric
  connects.
\<close>

definition host_ready :: "launch_world \<Rightarrow> string \<Rightarrow> bool" where
  "host_ready w run_root \<longleftrightarrow>
     (\<forall>p. lw_is_file (lx_lab w) p) \<and> \<not> lx_any_live w run_root \<and> run_root \<noteq> ''/'' \<and> run_root \<noteq> ''.'' \<and>
     (\<forall>argv. lx_memory_check w argv = 0) \<and> (\<forall>n. lx_spawn_ok w n \<and> lx_pidfile_ok w n) \<and>
     (\<forall>p. lx_socket w p) \<and> lx_connected w"

lemma host_ready_steps:
  assumes "host_ready w run_root"
  shows "lok (spawn w c p l e)" "lok (wait_socket w path)" "lok (check_memory w phase n mem)"
    "lok (require_files w paths)" "lok (clear_owned_run_paths w run_root)"
    "lok (if lx_connected w then lret () else llift (Inl ex))"
  using assms
  by (simp_all add: host_ready_def lok_spawn wait_socket_def check_memory_def lok_require_files
      clear_owned_run_paths_def lok_effects list_all_iff)

lemma lok_start_udma:
  assumes "host_ready w rr" and "manifest_usable m" and "node < length (p_node_links plan)"
  shows "lok (start_udma w udma m plan checkpoint template run_root sync node)"
proof -
  from udma_args_total [OF assms(2,3)] obtain args where
    "udma_args udma m plan checkpoint template run_root sync node = Inr args" by blast
  then show ?thesis
    unfolding start_udma_def by (rule lok_lbind_llift) (rule host_ready_steps [OF assms(1)])
qed

lemma lok_start_gem5_node:
  assumes "host_ready w rr" and m: "manifest_usable m"
    and env: "env_int (lx_env w) ''UBSIM_DUAL_UART0'' ''3460'' = Inr u0"
      "env_int (lx_env w) ''UBSIM_DUAL_UART1'' ''3470'' = Inr u1"
  shows "lok (start_gem5_node w m checkpoint template run_root sync node)"
proof -
  from gem5_env_total [OF m] obtain e where e: "gem5_env w m sync node = Inr e" by blast
  from gem5_command_total [OF m env] obtain c where
    c: "gem5_command w m node run_root checkpoint template = Inr c" by blast
  show ?thesis
    unfolding start_gem5_node_def
    by (rule lok_lbind_llift [OF e], rule lok_lbind)
      (simp_all add: lok_effects lok_lbind_llift [OF c] host_ready_steps [OF assms(1)])
qed

lemma lok_gem5_processes:
  assumes ready: "host_ready w rr" and m: "manifest_usable m"
    and env: "env_int (lx_env w) ''UBSIM_DUAL_UART0'' ''3460'' = Inr u0"
      "env_int (lx_env w) ''UBSIM_DUAL_UART1'' ''3470'' = Inr u1"
    and len: "length (p_node_links plan) = length (p_node_ids plan)"
  shows "lok (gem5_processes w udma ns3 m plan checkpoint template run_root sync)"
proof -
  from gem5_ns3_args_total [OF m] obtain a where a: "gem5_ns3_args ns3 m plan sync = Inr a" by blast
  show ?thesis
    unfolding gem5_processes_def Let_def
    by (intro lok_lbind lok_lfor lok_llift [OF a] host_ready_steps [OF ready]
        lok_start_udma [OF ready m] lok_start_gem5_node [OF ready m env]) (simp add: len)
qed

definition no_templates :: "launch_world \<Rightarrow> bool" where
  "no_templates w \<longleftrightarrow> list_all (\<lambda>c. case cd_metadata c of
       Some text \<Rightarrow> \<not> contains text ''checkpoint_kind=node-template-v1'' | None \<Rightarrow> True)
     (lw_checkpoints (lx_lab w))"

lemma find_Some_mem: "find P xs = Some x \<Longrightarrow> x \<in> set xs"
  by (auto simp: find_Some_iff)

lemma no_template: "no_templates w \<Longrightarrow> \<not> is_template w selected"
  unfolding no_templates_def is_template_def list_all_iff
  by (auto split: option.splits dest!: find_Some_mem)

lemma lok_start_gem5:
  assumes comp: "compile_topology (JObj spec) = Inr plan" "p_simulator plan = ''gem5''"
    and ready: "host_ready w (env_path w ''UBSIM_DUAL_OUT'' ''run-dual'')" and nt: "no_templates w"
    and env: "env_int (lx_env w) ''UBSIM_DUAL_UART0'' ''3460'' = Inr u0"
      "env_int (lx_env w) ''UBSIM_DUAL_UART1'' ''3470'' = Inr u1"
  shows "lok (start_gem5 w spec plan)"
proof -
  obtain m where m: "resolve_gem5 (lx_root w) spec plan = Inr m"
    by (rule resolve_accepted [OF comp])
  note usable = resolved_usable [OF comp m]
  have initrd: "has_key ''initrd_path'' m"
    using usable(1) by (simp add: manifest_usable_def has_key_map_of)
  from gem5_select_total [OF usable(2) initrd] obtain selected where
    sel: "gem5_select w m plan = Inr selected" by blast
  from compile_topology_accepted [OF comp(1)] have len: "length (p_node_links plan) = length (p_node_ids plan)"
    using accepted_links_ok(1) by blast
  let ?m = "dict_set ''restore_checkpoint'' (case selected of Some (c # cs) \<Rightarrow> c # cs | _ \<Rightarrow> ''none'') m"
  note u = usable(1) [of "case selected of Some (c # cs) \<Rightarrow> c # cs | _ \<Rightarrow> ''none''"]
  obtain mem where mem: "getitem ''memory_size'' ?m = Inr mem"
    using usable_other [OF u, of "''memory_size''"] by (auto simp: other_keys_def simp del: getitem_eq_Inr)
  obtain vts where vts: "getitem ''virtual_time_synchronization'' ?m = Inr vts"
    using usable_other [OF u, of "''virtual_time_synchronization''"]
    by (auto simp: other_keys_def simp del: getitem_eq_Inr)
  have sync: "gem5_sync ?m = Inr (if vts = ''enabled'' then ''required'' else ''off'')"
    using vts by (simp add: gem5_sync_def)
  obtain cmd where cmd: "gem5_command w ?m 0 (env_path w ''UBSIM_DUAL_OUT'' ''run-dual'')
      (checkpoint_path w selected) False = Inr cmd"
    using gem5_command_total [OF u env] by blast
  obtain ini where ini: "getitem ''initrd_path'' ?m = Inr ini"
    using u by (auto simp: manifest_usable_def has_key_map_of)
  have live: "\<not> lx_any_live w (env_path w ''UBSIM_DUAL_OUT'' ''run-dual'')"
    using ready by (simp add: host_ready_def)
  note steps = host_ready_steps [OF ready] lok_effects
  show ?thesis
    unfolding start_gem5_def
    apply (rule lok_lbind_llift [OF m], rule lok_lbind_llift [OF sel])
    apply (simp only: Let_def no_template [OF nt] if_False simp_thms)
    apply (rule lok_lbind_llift [OF refl])
    apply (simp only: live if_False simp_thms)
    apply (rule lok_lbind_llift [OF mem], rule lok_lbind [OF steps(3)])
    apply (rule lok_lbind_llift [OF cmd], rule lok_lbind_llift [OF ini])
    apply (rule lok_lbind [OF steps(4)], rule lok_lbind [OF steps(5)], rule lok_lbind [OF lok_effects(4)])
    apply (rule lok_lbind [OF lok_effects(2)], rule lok_lbind [OF lok_effects(3)])
    apply (rule lok_lbind_llift [OF sync], rule lok_lbind)
     apply (rule lok_rollback, rule lok_gem5_processes [OF ready u env len])
    by (rule lok_effects)
qed

subsection \<open>Main property\<close>

text \<open>
  On a ready host, with readable UART settings and no node-template checkpoint, launching a
  compiled gem5 topology returns: no lookup of the manifest fails, every number in it parses, every
  argument vector can be built, and all processes are started and kept.
\<close>

theorem start_gem5_succeeds:
  assumes "compile_topology (JObj spec) = Inr plan" and "p_simulator plan = ''gem5''"
    and "host_ready w (env_path w ''UBSIM_DUAL_OUT'' ''run-dual'')" and "no_templates w"
    and "env_int (lx_env w) ''UBSIM_DUAL_UART0'' ''3460'' = Inr u0"
    and "env_int (lx_env w) ''UBSIM_DUAL_UART1'' ''3470'' = Inr u1"
  shows "\<exists>out s. start_gem5 w spec plan launch_init = (Inr out, s) \<and> ls_terminated s = [] \<and>
     length (ls_spawned s) = 2 * length (p_node_ids plan) + 3 \<and> ls_started s = [0..<length (ls_spawned s)]"
proof -
  from lok_start_gem5 [OF assms] obtain out s where run: "start_gem5 w spec plan launch_init = (Inr out, s)"
    unfolding lok_def by blast
  have "settled w (2 * length (p_node_ids plan) + 3) (start_gem5 w spec plan launch_init)"
    using rolled_back_start_gem5 by (simp add: rolled_back_def)
  with run show ?thesis
    by (simp add: settled_def)
qed

definition ready_world :: launch_world where
  "ready_world = \<lparr>lx_lab = \<lparr>lw_root = ''/lab'', lw_env = [], lw_is_file = (\<lambda>_. True),
       lw_run = (\<lambda>_ _. \<lparr>pr_code = 0, pr_out = [], pr_err = []\<rparr>), lw_system = ''Linux'', lw_machine = ''aarch64'',
       lw_sha256 = (\<lambda>_. None), lw_checkpoints = []\<rparr>,
     lx_darwin = False, lx_machine = ''aarch64'', lx_python = ''python3'', lx_is_dir = (\<lambda>_. False),
     lx_exists = (\<lambda>_. False), lx_any_live = (\<lambda>_. False), lx_memory_check = (\<lambda>_. 0),
     lx_spawn_ok = (\<lambda>_. True), lx_pidfile_ok = (\<lambda>_. True), lx_socket = (\<lambda>_. True), lx_connected = True\<rparr>"

lemma ready_world_ready: "host_ready ready_world (env_path ready_world ''UBSIM_DUAL_OUT'' ''run-dual'')"
proof -
  have "env_path ready_world ''UBSIM_DUAL_OUT'' ''run-dual'' = ''/lab/run-dual''"
    by code_simp
  then show ?thesis
    by (simp add: host_ready_def ready_world_def)
qed

lemma ready_world_env:
  "env_int (lx_env ready_world) ''UBSIM_DUAL_UART0'' ''3460'' = Inr 3460"
  "env_int (lx_env ready_world) ''UBSIM_DUAL_UART1'' ''3470'' = Inr 3470"
  by code_simp+

theorem start_gem5_succeeds_witness:
  "\<exists>out s. start_gem5 ready_world gem5_spec gem5_two_heads_plan launch_init = (Inr out, s) \<and>
     length (ls_spawned s) = 7"
proof -
  have nt: "no_templates ready_world"
    by (simp add: no_templates_def ready_world_def)
  show ?thesis
    using start_gem5_succeeds [OF compile_gem5_spec gem5_plan_simulator ready_world_ready nt ready_world_env]
    by (auto simp: gem5_two_heads_plan_def)
qed

end
