(* ===== verification/Lab_Main.thy ===== *)
theory Lab_Main
  imports Launch_Ready
begin

section \<open>The command line's main program\<close>

text \<open>
  Model of \<^verbatim>\<open>run\<close> of \<^verbatim>\<open>ubsim_lab/topology.py\<close> and of \<^verbatim>\<open>main\<close> of \<^verbatim>\<open>ubsim_lab/cli.py\<close>.  Reading and
  decoding a topology file is the argument \<open>load\<close>, whether the files of a start can be written to its
  output directory the argument \<open>writable\<close>, the workbench the argument \<open>web\<close>.  Printed texts
  are not modelled.
\<close>

text \<open>What a start leaves in the output directory: its path, \<^verbatim>\<open>topology.json\<close> and \<^verbatim>\<open>topology-plan.json\<close>.\<close>

type_synonym launch_record = "string \<times> dict \<times> plan"

definition topology_start :: "launch_world \<Rightarrow> (string \<Rightarrow> bool) \<Rightarrow> dict \<Rightarrow> plan \<Rightarrow> launch_state \<Rightarrow> (int \<times> launch_record option) res \<times> launch_state" where
  "topology_start w writable raw plan s =
     (case (if p_simulator plan = ''gem5'' then start_gem5 w raw plan s else start_qemu w raw plan s) of
        (Inr output, s') \<Rightarrow> (Inr (if writable output then (0, Some (output, raw, plan)) else (2, None)), s')
      | (Inl e, s') \<Rightarrow> (case e of LaunchError _ \<Rightarrow> Inr (2, None) | _ \<Rightarrow> if is_OSError e \<or> is_ValueError e then Inr (2, None) else Inl e, s'))"

definition topology_run :: "launch_world \<Rightarrow> (string \<Rightarrow> bool) \<Rightarrow> (string \<Rightarrow> json res) \<Rightarrow> string list \<Rightarrow> launch_state \<Rightarrow>
    (int \<times> launch_record option) res \<times> launch_state" where
  "topology_run w writable load args s =
     (if length args \<noteq> 2 \<or> args ! 0 \<notin> set [''validate'', ''plan'', ''start''] then (Inr (2, None), s)
      else case rbind (load (args ! 1)) (\<lambda>raw. rbind (compile_topology raw) (\<lambda>plan. Inr (raw, plan))) of
        Inl e \<Rightarrow> (case e of OSError _ \<Rightarrow> Inr (2, None) | JSONDecodeError _ \<Rightarrow> Inr (2, None) | TopologyError _ \<Rightarrow> Inr (2, None) | _ \<Rightarrow> Inl e, s)
      | Inr (raw, plan) \<Rightarrow>
          if args ! 0 = ''start'' then (case raw of JObj spec \<Rightarrow> topology_start w writable spec plan s | _ \<Rightarrow> (Inl (TypeError ''not an object''), s))
          else (Inr (0, None), s))"

text \<open>The exit code, the child processes and the launched topology of a command.\<close>

type_synonym lab_result = "outcome \<times> launch_record option"

definition from_outcome :: "outcome res \<Rightarrow> launch_state \<Rightarrow> lab_result res \<times> launch_state" where
  "from_outcome r s = (rbind r (\<lambda>x. Inr (x, None)), s)"

definition main_build :: "lab_world \<Rightarrow> string list \<Rightarrow> string \<Rightarrow> outcome res" where
  "main_build w tail runtime =
     (if tail = [] \<or> \<not> has_key (hd tail) BUILD_TARGETS then Inr (2, [])
      else let target_arch = requested_target_arch (tl tail) in
        if (target_arch = Some ''x86_64'' \<or> target_arch = Some ''amd64'') \<and> hd tail \<noteq> ''umdk'' then Inr (2, [])
        else cli_build w (hd tail) (tl tail) runtime)"

definition main_command :: "lab_world \<Rightarrow> string \<Rightarrow> string list \<Rightarrow> string \<Rightarrow> outcome res" where
  "main_command w command tail runtime =
     (if command = ''setup'' then Inr (cli_script w ''scripts/setup-native.sh'' tail runtime)
      else if command = ''attach'' then cli_attach w tail runtime
      else if command = ''attach-qemu'' then Inr (cli_script w ''scripts/run/attach-qemu.sh'' tail ''native'')
      else if command = ''start-ready'' then start_ready w tail runtime
      else if command = ''build'' then main_build w tail runtime
      else case map_of COMMANDS command of
          Some c \<Rightarrow> Inr (cli_script w (lc_script c) tail
            (if command \<in> set [''start-qemu'', ''start-qemu-dual'', ''status-qemu'', ''stop-qemu'', ''qemu-rma-regression''] then ''native'' else runtime))
        | None \<Rightarrow> Inr (2, []))"

definition lab_main :: "launch_world \<Rightarrow> (string \<Rightarrow> bool) \<Rightarrow> (string \<Rightarrow> json res) \<Rightarrow> (string list \<Rightarrow> int res) \<Rightarrow> string list \<Rightarrow> launch_state \<Rightarrow>
    lab_result res \<times> launch_state" where
  "lab_main w writable load web argv s =
     (case split_global_options (lx_env w) argv of
        Inl e \<Rightarrow> (if is_ValueError e then Inr ((2, []), None) else Inl e, s)
      | Inr (runtime, args) \<Rightarrow>
          if args = [] \<or> hd args = ''help'' \<or> hd args = ''-h'' then (Inr ((0, []), None), s)
          else if hd args = ''topology'' then
            (case topology_run w writable load (tl args) s of (r, s') \<Rightarrow> (rbind r (\<lambda>(code, launched). Inr ((code, []), launched)), s'))
          else if hd args = ''ui'' then from_outcome (rbind (web (tl args)) (\<lambda>code. Inr (code, []))) s
          else from_outcome (main_command (lx_lab w) (hd args) (tl args) runtime) s)"



end
