(* ===== verification/Lab_Cli_Facts.thy ===== *)
theory Lab_Cli_Facts
  imports Lab_Cli
begin

section \<open>Properties of the command line\<close>

text \<open>
  The manifest round trip, what checkpoint selection guarantees, and the behaviour of the option
  parser and of \<^verbatim>\<open>attach\<close>.
\<close>

subsection \<open>Manifests\<close>

definition clean_text :: "string \<Rightarrow> bool" where
  "clean_text s \<longleftrightarrow> list_all (\<lambda>c. \<not> is_linebreak c) s"

definition clean_key :: "string \<Rightarrow> bool" where
  "clean_key k \<longleftrightarrow> k \<noteq> [] \<and> clean_text k \<and> CHR ''='' \<notin> set k"

definition clean_manifest :: "sdict \<Rightarrow> bool" where
  "clean_manifest d \<longleftrightarrow> distinct (map fst d) \<and> list_all (\<lambda>(k, v). clean_key k \<and> clean_text v) d"

lemma split_lines_clean:
  "clean_text s \<Longrightarrow> split_lines cur (s @ CHR 0x0A # rest) = (rev cur @ s) # split_lines [] rest"
proof (induction s arbitrary: cur)
  case Nil
  then show ?case by (simp add: is_linebreak_def)
next
  case (Cons c s)
  then have "\<not> is_linebreak c" and "clean_text s"
    by (simp_all add: clean_text_def)
  moreover from this(1) have "c \<noteq> CHR 0x0D"
    by (auto simp: is_linebreak_def)
  ultimately show ?case
    using Cons.IH [of "c # cur"] by simp
qed

lemma splitlines_print_manifest:
  "clean_manifest d \<Longrightarrow> splitlines (print_manifest d) = map (\<lambda>(k, v). k @ ''='' @ v) d"
proof (induction d)
  case Nil
  then show ?case by (simp add: splitlines_def print_manifest_def)
next
  case (Cons p d)
  obtain k v where p: "p = (k, v)" by force
  with Cons.prems have "clean_text (k @ ''='' @ v)" and "clean_manifest d"
    by (auto simp: clean_manifest_def clean_key_def clean_text_def is_linebreak_def)
  then show ?case
    using Cons.IH split_lines_clean [of "k @ ''='' @ v" "[]"]
    by (simp add: p splitlines_def print_manifest_def)
qed

lemma manifest_line_entry:
  "clean_key k \<Longrightarrow> manifest_line (k @ ''='' @ v) d = dict_set k v d"
  by (simp add: manifest_line_def clean_key_def partition_at_append)

lemma fold_manifest_lines:
  "clean_manifest (acc @ d) \<Longrightarrow> fold manifest_line (map (\<lambda>(k, v). k @ ''='' @ v) d) acc = acc @ d"
proof (induction d arbitrary: acc)
  case (Cons p d)
  obtain k v where p: "p = (k, v)" by force
  with Cons.prems have "clean_key k" and "k \<notin> fst ` set acc"
    by (auto simp: clean_manifest_def)
  then have "manifest_line (k @ ''='' @ v) acc = acc @ [(k, v)]"
    using manifest_line_entry dict_set_new by simp
  with Cons.IH [of "acc @ [(k, v)]"] Cons.prems show ?case
    by (simp add: p)
qed simp

lemma parse_print_manifest: "clean_manifest d \<Longrightarrow> parse_manifest (print_manifest d) = d"
  using fold_manifest_lines [of "[]" d]
  by (simp add: parse_manifest_def splitlines_print_manifest)

subsection \<open>Checkpoint selection\<close>

lemma fold_max_in: "fold max xs (x :: 'a :: linorder) \<in> set (x # xs)"
  by (induction xs arbitrary: x) (force simp: max_def)+

lemma fold_max_ge: "y \<in> set (x # xs) \<Longrightarrow> y \<le> fold max xs (x :: 'a :: linorder)"
proof (induction xs arbitrary: x y)
  case (Cons a xs)
  have "y \<le> max a x" if "y \<in> {a, x}" using that by auto
  moreover have "max a x \<le> fold max xs (max a x)" by (rule Cons.IH) simp
  ultimately show ?case using Cons by (auto intro: order_trans)
qed simp

lemma select_Some:
  assumes "select_compatible_checkpoint w desired ip = Inr (Some name)"
  obtains n c where "py_int (dict_get ''node_count'' ''2'' desired) = Inr n"
    and "c \<in> set (lw_checkpoints w)" and "cd_name c = name"
    and "checkpoint_compatible desired n (lw_sha256 w (checkpoint_image w desired ip)) c"
    and "lw_sha256 w (checkpoint_image w desired ip) = None \<longrightarrow> map_of desired ''profile'' \<noteq> Some ''modern''"
    and "\<And>c'. c' \<in> set (lw_checkpoints w) \<Longrightarrow>
        checkpoint_compatible desired n (lw_sha256 w (checkpoint_image w desired ip)) c' \<Longrightarrow>
        checkpoint_stamp c' \<le> checkpoint_stamp c"
proof -
  let ?h = "lw_sha256 w (checkpoint_image w desired ip)"
  from assms obtain n where n: "py_int (dict_get ''node_count'' ''2'' desired) = Inr n"
    by (auto simp: select_compatible_checkpoint_def)
  let ?cs = "map checkpoint_stamp (filter (checkpoint_compatible desired n ?h) (lw_checkpoints w))"
  from assms n have modern: "?h = None \<longrightarrow> map_of desired ''profile'' \<noteq> Some ''modern''"
    by (auto simp: select_compatible_checkpoint_def Let_def)
  with assms n obtain x xs where cs: "?cs = x # xs" and name: "name = snd (fold max xs x)"
    by (auto simp: select_compatible_checkpoint_def Let_def split: list.splits if_splits)
  have "fold max xs x \<in> set ?cs" unfolding cs by (rule fold_max_in)
  then obtain c where c: "c \<in> set (lw_checkpoints w)" "checkpoint_compatible desired n ?h c"
    "fold max xs x = checkpoint_stamp c" by auto
  have "checkpoint_stamp c' \<le> checkpoint_stamp c"
    if "c' \<in> set (lw_checkpoints w)" "checkpoint_compatible desired n ?h c'" for c'
  proof -
    from that have "checkpoint_stamp c' \<in> set ?cs" by simp
    then show ?thesis using fold_max_ge c(3) unfolding cs by metis
  qed
  moreover have "cd_name c = name"
    using c(3) name by (simp add: checkpoint_stamp_def)
  ultimately show ?thesis
    by (intro that [OF n c(1) _ c(2) modern])
qed

lemma select_complete:
  assumes n: "py_int (dict_get ''node_count'' ''2'' desired) = Inr n"
    and c: "c \<in> set (lw_checkpoints w)"
    and comp: "checkpoint_compatible desired n (lw_sha256 w (checkpoint_image w desired ip)) c"
    and image: "map_of desired ''profile'' = Some ''modern'' \<longrightarrow> lw_sha256 w (checkpoint_image w desired ip) \<noteq> None"
  shows "\<exists>name. select_compatible_checkpoint w desired ip = Inr (Some name)"
proof -
  have "filter (checkpoint_compatible desired n (lw_sha256 w (checkpoint_image w desired ip))) (lw_checkpoints w) \<noteq> []"
    using c comp by (auto simp: filter_empty_conv)
  then show ?thesis
    using n image by (auto simp: select_compatible_checkpoint_def Let_def neq_Nil_conv)
qed

lemma compatible_keys:
  assumes "checkpoint_compatible desired n h c" and "map_of desired k = Some v"
    and "k \<notin> set CHECKPOINT_IGNORED_MANIFEST_KEYS"
    and "map_of (checkpoint_metadata c) ''checkpoint_kind'' \<noteq> Some ''node-template-v1''"
  shows "\<not> mismatched desired (parse_manifest (cd_manifest c)) k"
proof -
  have "k \<in> fst ` set desired"
    using assms(2) by (force dest: map_of_SomeD)
  then have "k \<in> set (checkpoint_keys desired False)"
    using assms(3) by (simp add: checkpoint_keys_def)
  with assms(1,4) show ?thesis
    by (auto simp: checkpoint_compatible_def Let_def list_ex_iff split: if_splits)
qed

subsection \<open>Global options\<close>

definition options_result :: "string list \<Rightarrow> (string \<times> string list) res \<Rightarrow> bool" where
  "options_result argv r \<longleftrightarrow> (case r of
     Inr (runtime, args) \<Rightarrow> runtime = ''native'' \<and> (\<exists>pre. argv = pre @ args) \<and>
       (args = [] \<or> \<not> startswith (hd args) ''--'')
   | Inl e \<Rightarrow> e = SystemExit 0 \<or> (\<exists>m. e = ValueError m))"

lemma options_result_Cons: "options_result argv r \<Longrightarrow> options_result (x # argv) r"
  by (auto simp: options_result_def split: sum.splits)

lemma list_all_take_1: "args = [] \<or> P (hd args) \<Longrightarrow> list_all P (take (Suc 0) args)"
  by (cases args) auto

lemma options_result_simps:
  "options_result argv (Inl (SystemExit 0))" "options_result argv (Inl (ValueError m))"
  by (simp_all add: options_result_def)

lemma options_result_runtime:
  "args = [] \<or> \<not> startswith (hd args) ''--'' \<Longrightarrow>
     options_result args (rbind (cli_runtime runtime) (\<lambda>r. Inr (r, args)))"
  by (simp add: options_result_def cli_runtime_def)

lemma global_options_result: "options_result argv (global_options runtime argv)"
proof (induction runtime argv rule: global_options.induct)
  case (2 runtime opt rest)
  then show ?case
    by (cases rest) (simp_all add: options_result_simps options_result_runtime options_result_Cons)
qed (simp add: options_result_runtime)

subsection \<open>Main properties\<close>

text \<open>
  Writing a manifest and parsing it back is the identity, for manifests whose keys are
  distinct, non-empty and free of equals signs and whose keys and values hold no line break.
\<close>

theorem manifest_roundtrip:
  assumes "distinct (map fst d)" and "list_all (\<lambda>(k, v). clean_key k \<and> clean_text v) d"
  shows "parse_manifest (print_manifest d) = d"
  using assms by (intro parse_print_manifest) (simp add: clean_manifest_def)

theorem manifest_roundtrip_witness:
  "parse_manifest (print_manifest [(''node_count'', ''2''), (''extra'', ''a=b'')]) =
     [(''node_count'', ''2''), (''extra'', ''a=b'')]"
  by (rule manifest_roundtrip; code_simp)


text \<open>
  The file system and processes of an installation with one retained coordinated checkpoint,
  whose image digest is recorded.
\<close>

definition sample_manifest :: sdict where
  "sample_manifest = [(''node_count'', ''2''), (''profile'', ''modern''), (''peer_latency_ns'', ''375'')]"

definition sample_checkpoint :: checkpoint_dir where
  "sample_checkpoint = \<lparr>cd_name = ''ready'', cd_manifest = print_manifest sample_manifest,
     cd_metadata = Some (print_manifest [(''initramfs_sha256'', ''abc''), (''created_utc'', ''2026'')]),
     cd_exists = (\<lambda>_. True)\<rparr>"

definition sample_world :: lab_world where
  "sample_world = \<lparr>lw_root = ''/lab'', lw_env = [], lw_is_file = (\<lambda>_. True),
     lw_run = (\<lambda>_ _. \<lparr>pr_code = 0, pr_out = [], pr_err = []\<rparr>),
     lw_system = ''Linux'', lw_machine = ''aarch64'',
     lw_sha256 = (\<lambda>_. Some ''abc''), lw_checkpoints = [sample_checkpoint]\<rparr>"

lemma select_sample: "select_compatible_checkpoint sample_world sample_manifest None = Inr (Some ''ready'')"
  by code_simp


text \<open>
  A coordinated checkpoint is found again: when a retained checkpoint's manifest was written
  from the settings now requested (up to the ignored keys), its metadata records the digest of the
  current image, and its files exist, the selection succeeds.
\<close>

theorem select_checkpoint_complete:
  assumes m: "clean_manifest m" "cd_manifest c = print_manifest m"
    and same: "\<And>k. k \<notin> set CHECKPOINT_IGNORED_MANIFEST_KEYS \<Longrightarrow> map_of desired k = map_of m k"
    and count: "map_of desired ''node_count'' = Some (str_int n)"
    and md: "clean_manifest md" "cd_metadata c = Some (print_manifest md)"
      "map_of md ''checkpoint_kind'' \<noteq> Some ''node-template-v1''"
    and image: "lw_sha256 w (checkpoint_image w desired ip) = Some h" "map_of md ''initramfs_sha256'' = Some h"
    and files: "list_all (cd_exists c) (checkpoint_required False n)"
    and c: "c \<in> set (lw_checkpoints w)"
  shows "\<exists>name. select_compatible_checkpoint w desired ip = Inr (Some name)"
proof -
  have n: "py_int (dict_get ''node_count'' ''2'' desired) = Inr n"
    using count by (simp add: dict_get_def)
  have "\<not> mismatched desired m k" if k: "k \<in> set (checkpoint_keys desired False)" for k
  proof -
    from k have "map_of desired k = map_of m k" "k \<in> fst ` set desired"
      using same by (auto simp: checkpoint_keys_def)
    then obtain v where "map_of desired k = Some v" "map_of m k = Some v"
      by (metis map_of_eq_None_iff not_None_eq)
    then show ?thesis
      by (simp add: mismatched_def manifest_value_def)
  qed
  then have "checkpoint_compatible desired n (lw_sha256 w (checkpoint_image w desired ip)) c"
    using m md image files
    by (simp add: checkpoint_compatible_def checkpoint_metadata_def parse_print_manifest list_ex_iff
        image_mismatch_def Let_def)
  then show ?thesis
    using n c image by (intro select_complete) auto
qed

theorem select_checkpoint_complete_witness:
  "\<exists>name. select_compatible_checkpoint sample_world sample_manifest None = Inr (Some name)"
proof (rule select_checkpoint_complete)
  show "clean_manifest sample_manifest" "clean_manifest [(''initramfs_sha256'', ''abc''), (''created_utc'', ''2026'')]"
    by code_simp+
  show "map_of sample_manifest ''node_count'' = Some (str_int 2)"
    by code_simp
  show "sample_checkpoint \<in> set (lw_checkpoints sample_world)"
    "lw_sha256 sample_world (checkpoint_image sample_world sample_manifest None) = Some ''abc''"
    by (simp_all add: sample_world_def)
  show "list_all (cd_exists sample_checkpoint) (checkpoint_required False 2)"
    by (simp add: sample_checkpoint_def list_all_iff)
qed (simp_all add: sample_checkpoint_def)

text \<open>
  The option parser ends on every argument vector; it yields the native runtime and a suffix
  of the arguments whose head is not an option, or raises \<^verbatim>\<open>ValueError\<close>, which
  \<^verbatim>\<open>main\<close> reports, or \<^verbatim>\<open>SystemExit(0)\<close> for help and version.
\<close>

theorem split_global_options_result:
  "case split_global_options env argv of
     Inr (runtime, args) \<Rightarrow> runtime = ''native'' \<and> (\<exists>pre. argv = pre @ args) \<and>
       list_all (\<lambda>a. \<not> startswith a ''--'') (take 1 args)
   | Inl e \<Rightarrow> e = SystemExit 0 \<or> (\<exists>m. e = ValueError m)"
  unfolding split_global_options_def
  using global_options_result [of argv "env_get env ''UBSIM_EXECUTION_MODE'' ''auto''"]
  by (auto simp: options_result_def list_all_take_1 split: sum.splits)

text \<open>
  \<^verbatim>\<open>attach N\<close> for a node number connects to the UART that the launcher gave that node: the
  port handed to the terminal is \<open>uart0 + N * (uart1 - uart0)\<close>, unless the user fixed one.
\<close>

theorem attach_uart_port:
  assumes "0 \<le> n" and "env_int (lw_env w) ''UBSIM_DUAL_UART0'' ''3460'' = Inr u0"
    and "env_int (lw_env w) ''UBSIM_DUAL_UART1'' ''3470'' = Inr u1" and "u0 < u1"
    and "map_of (lw_env w) ''UBSIM_M5TERM_PORT'' = None"
  shows "\<exists>argv env. cli_attach w [str_int n] ''native'' = Inr (pr_code (lw_run w argv env), [(argv, env)]) \<and>
     map_of env ''UBSIM_M5TERM_PORT'' = Some (str_int (u0 + n * (u1 - u0))) \<and>
     map_of env ''UBSIM_EXECUTION_MODE'' = Some ''native''"
proof -
  have "py_isdigit (str_int n)"
    using assms(1) show_nat_digits [of "nat n"] by (auto simp: py_isdigit_def str_int_def list_all_iff)
  moreover have "\<not> has_key ''UBSIM_M5TERM_PORT'' (lw_env w)"
    using assms(5) by (simp add: has_key_map_of)
  ultimately show ?thesis
    using assms by (simp add: cli_attach_def Let_def)
qed

theorem attach_uart_port_witness:
  "\<exists>argv env. cli_attach sample_world [str_int 3] ''native'' = Inr (0, [(argv, env)]) \<and>
     map_of env ''UBSIM_M5TERM_PORT'' = Some (str_int 3490)"
proof -
  have "env_int (lw_env sample_world) ''UBSIM_DUAL_UART0'' ''3460'' = Inr 3460"
    "env_int (lw_env sample_world) ''UBSIM_DUAL_UART1'' ''3470'' = Inr 3470"
    by code_simp+
  from attach_uart_port [OF _ this, of 3] show ?thesis
    by (auto simp: sample_world_def)
qed

text \<open>
  \<^verbatim>\<open>attach\<close> does not reject every text that is not a number: a superscript two passes its
  \<^verbatim>\<open>isdigit\<close> test, and the conversion then raises a \<^verbatim>\<open>ValueError\<close> that nothing catches.
\<close>

theorem attach_superscript_raises:
  "cli_attach w [[CHR 0xB2]] runtime = Inl (ValueError ''invalid literal for int() with base 10'')"
proof -
  have "py_isdigit [CHR 0xB2]" "py_int [CHR 0xB2] = Inl (ValueError ''invalid literal for int() with base 10'')"
    by code_simp+
  then show ?thesis
    by (simp add: cli_attach_def)
qed

end
