(* ===== verification/Framing.thy ===== *)
theory Framing
  imports Py_Prelude "HOL-Library.Word"
begin

section \<open>Messages framed in a byte stream\<close>

text \<open>
  Bytes are 8-bit words.  Two components read length-prefixed messages from a stream that arrives in
  arbitrary pieces: the browser terminal (WebSocket frames) and the Ethernet relay (frames with a
  four-byte length).  Their common contract is the locale \<open>frame_reader\<close>; a reader that undoes
  an encoder is a \<open>framing\<close>.
\<close>

type_synonym byte = "8 word"

unbundle bit_operations_syntax

subsection \<open>Big-endian integers\<close>

definition be_nat :: "byte list \<Rightarrow> nat" where
  "be_nat bs = foldl (\<lambda>a b. a * 256 + unat b) 0 bs"

fun be_bytes :: "nat \<Rightarrow> nat \<Rightarrow> byte list" where
  "be_bytes 0 n = []"
| "be_bytes (Suc k) n = be_bytes k (n div 256) @ [of_nat n]"

lemma length_be_bytes [simp]: "length (be_bytes k n) = k"
  by (induction k arbitrary: n) simp_all

lemma be_nat_snoc: "be_nat (bs @ [b]) = be_nat bs * 256 + unat b"
  by (simp add: be_nat_def)

lemma be_nat_be_bytes: "be_nat (be_bytes k n) = n mod 256 ^ k"
proof (induction k arbitrary: n)
  case 0
  then show ?case by (simp add: be_nat_def)
next
  case (Suc k)
  have "unat (of_nat n :: byte) = n mod 256"
    by (simp add: unat_of_nat)
  with Suc show ?case
    by (simp add: be_nat_snoc mod_mult2_eq)
qed

lemma be_nat_less: "be_nat bs < 256 ^ length bs"
proof (induction bs rule: rev_induct)
  case (snoc b bs)
  have "unat b < 256" using unsigned_less [of b, where ?'a = nat] by simp
  with snoc show ?case by (simp add: be_nat_snoc)
qed (simp add: be_nat_def)

subsection \<open>Readers\<close>

text \<open>
  \<open>next\<close> looks at a buffer: an error, nothing yet, or a message with the number of bytes it
  takes.  More bytes never change a decision already made.  \<open>parse\<close> is the loop that takes
  messages off the front until there is none.
\<close>

locale frame_reader =
  fixes "next" :: "byte list \<Rightarrow> ('m \<times> nat) option res"
    and parse :: "byte list \<Rightarrow> ('m list \<times> byte list) res"
  assumes consumed: "next buf = Inr (Some (m, n)) \<Longrightarrow> 0 < n \<and> n \<le> length buf"
    and extend_Some: "next buf = Inr (Some (m, n)) \<Longrightarrow> next (buf @ ext) = Inr (Some (m, n))"
    and extend_error: "next buf = Inl e \<Longrightarrow> next (buf @ ext) = Inl e"
    and parse_unfold: "parse buf = (case next buf of
          Inl e \<Rightarrow> Inl e
        | Inr None \<Rightarrow> Inr ([], buf)
        | Inr (Some (m, n)) \<Rightarrow> rbind (parse (drop n buf)) (\<lambda>(ms, rest). Inr (m # ms, rest)))"
begin

lemma drop_shorter: "next buf = Inr (Some (m, n)) \<Longrightarrow> n \<le> length buf \<and> length (drop n buf) < length buf"
  by (drule consumed) (auto intro: diff_less)

text \<open>What is left over holds no complete message.\<close>

lemma parse_rest: "parse buf = Inr (ms, rest) \<Longrightarrow> next rest = Inr None"
proof (induction "length buf" arbitrary: buf ms rule: less_induct)
  case less
  show ?case
  proof (cases "next buf")
    case (Inl e)
    with less.prems show ?thesis by (simp add: parse_unfold [of buf])
  next
    case (Inr r)
    show ?thesis
    proof (cases r)
      case None
      with Inr less.prems show ?thesis by (simp add: parse_unfold [of buf])
    next
      case (Some mn)
      obtain m n where mn: "mn = (m, n)" by force
      with Some Inr have nx: "next buf = Inr (Some (m, n))" by simp
      from drop_shorter [OF nx] have "length (drop n buf) < length buf" by blast
      moreover from less.prems nx obtain ms' where "parse (drop n buf) = Inr (ms', rest)"
        by (auto simp: parse_unfold [of buf])
      ultimately show ?thesis using less.hyps by blast
    qed
  qed
qed

text \<open>
  Chunk boundaries do not matter: parsing what has arrived and later the remainder together with
  the new bytes gives the same messages as parsing everything at once.
\<close>

lemma parse_chunks:
  "parse buf = Inr (ms, rest) \<Longrightarrow>
     parse (buf @ ext) = rbind (parse (rest @ ext)) (\<lambda>(ms', rest'). Inr (ms @ ms', rest'))"
proof (induction "length buf" arbitrary: buf ms rule: less_induct)
  case less
  show ?case
  proof (cases "next buf")
    case (Inl e)
    with less.prems show ?thesis by (simp add: parse_unfold [of buf])
  next
    case (Inr r)
    show ?thesis
    proof (cases r)
      case None
      with Inr less.prems show ?thesis
        by (cases "parse (buf @ ext)") (auto simp: parse_unfold [of buf])
    next
      case (Some mn)
      obtain m n where mn: "mn = (m, n)" by force
      with Some Inr have nx: "next buf = Inr (Some (m, n))" by simp
      from drop_shorter [OF nx] have n: "n \<le> length buf" "length (drop n buf) < length buf" by blast+
      from less.prems nx obtain ms' where ms': "parse (drop n buf) = Inr (ms', rest)" "ms = m # ms'"
        by (auto simp: parse_unfold [of buf])
      have "parse (buf @ ext) = rbind (parse (drop n buf @ ext)) (\<lambda>(ms, rest). Inr (m # ms, rest))"
        using extend_Some [OF nx, of ext] n by (simp add: parse_unfold [of "buf @ ext"])
      also have "parse (drop n buf @ ext) =
          rbind (parse (rest @ ext)) (\<lambda>(ms'', rest'). Inr (ms' @ ms'', rest'))"
        by (rule less.hyps [OF n(2) ms'(1)])
      finally show ?thesis
        using ms'(2) by (cases "parse (rest @ ext)") auto
    qed
  qed
qed

text \<open>An error stays an error.\<close>

lemma parse_error: "parse buf = Inl e \<Longrightarrow> parse (buf @ ext) = Inl e"
proof (induction "length buf" arbitrary: buf rule: less_induct)
  case less
  show ?case
  proof (cases "next buf")
    case (Inl e')
    with less.prems show ?thesis
      by (simp add: parse_unfold [of buf] parse_unfold [of "buf @ ext"] extend_error)
  next
    case (Inr r)
    with less.prems obtain m n where nx: "next buf = Inr (Some (m, n))"
      by (cases r) (auto simp: parse_unfold [of buf])
    from drop_shorter [OF nx] have n: "n \<le> length buf" "length (drop n buf) < length buf" by blast+
    from less.prems nx have "parse (drop n buf) = Inl e"
      by (cases "parse (drop n buf)") (auto simp: parse_unfold [of buf])
    from less.hyps [OF n(2) this] show ?thesis
      using extend_Some [OF nx, of ext] n by (simp add: parse_unfold [of "buf @ ext"])
  qed
qed

end

locale framing = frame_reader +
  fixes encode :: "'c \<Rightarrow> byte list"
    and decoded :: "'c \<Rightarrow> 'm"
    and valid :: "'c \<Rightarrow> bool"
  assumes next_encode: "valid c \<Longrightarrow> next (encode c @ rest) = Inr (Some (decoded c, length (encode c)))"
begin

lemma parse_encoded:
  "list_all valid cs \<Longrightarrow> next rest = Inr None \<Longrightarrow>
     parse (concat (map encode cs) @ rest) = Inr (map decoded cs, rest)"
proof (induction cs)
  case Nil
  then show ?case by (simp add: parse_unfold [of rest])
next
  case (Cons c cs)
  then show ?case
    by (simp add: parse_unfold [of "encode c @ concat (map encode cs) @ rest"] next_encode)
qed

end

end
