(* ===== verification/Ethernet_Relay.thy ===== *)
theory Ethernet_Relay
  imports Framing
begin

section \<open>The learning Ethernet relay\<close>

text \<open>
  Model of \<^verbatim>\<open>tools/ethernet_relay.py\<close>.  One thread per port reads length-prefixed
  frames from its socket, learns the source address in a shared table under a lock, and sends the
  frame to the ports it chose, each send under the lock of its destination.  The threads are the
  transitions of an inductive step relation; everything one thread does while it holds a lock is
  one transition.
\<close>

subsection \<open>Reading one frame\<close>

definition MAX_FRAME :: nat where
  "MAX_FRAME = 65536"

text \<open>
  \<^verbatim>\<open>recv_exact(source, 4)\<close>, the length check, and \<^verbatim>\<open>recv_exact(source, length)\<close> on the
  bytes received so far: nothing while bytes are missing, the frame and the size of the packet,
  or \<^verbatim>\<open>ValueError\<close>.
\<close>

definition relay_next :: "byte list \<Rightarrow> (byte list \<times> nat) option res" where
  "relay_next buf =
     (if length buf < 4 then Inr None
      else let len = be_nat (take 4 buf) in
        if len < 14 \<or> len > MAX_FRAME then Inl (ValueError ''invalid Ethernet frame length'')
        else if length buf < 4 + len then Inr None
        else Inr (Some (take len (drop 4 buf), 4 + len)))"

subsection \<open>Learning and forwarding\<close>

type_synonym mac_table = "byte list \<rightharpoonup> nat"

definition destination_mac :: "byte list \<Rightarrow> byte list" where
  "destination_mac frame = take 6 frame"

definition source_mac :: "byte list \<Rightarrow> byte list" where
  "source_mac frame = take 6 (drop 6 frame)"

definition group_mac :: "byte list \<Rightarrow> bool" where
  "group_mac mac \<longleftrightarrow> mac ! 0 AND 1 \<noteq> 0"

definition learn :: "nat \<Rightarrow> byte list \<Rightarrow> mac_table \<Rightarrow> mac_table" where
  "learn source_index frame table =
     (if \<not> group_mac (source_mac frame) then table(source_mac frame \<mapsto> source_index) else table)"

definition destinations :: "nat \<Rightarrow> nat \<Rightarrow> byte list \<Rightarrow> mac_table \<Rightarrow> nat list" where
  "destinations ports source_index frame table =
     (let destination_index = table (destination_mac frame) in
      if group_mac (destination_mac frame) \<or> destination_index = None
      then filter (\<lambda>index. index \<noteq> source_index) [0..<ports]
      else if destination_index = Some source_index then []
      else [the destination_index])"

subsection \<open>The threads\<close>

datatype port_state = Idle | Reading | Sending "byte list" "nat list" | Ended

record relay =
  rl_ports :: nat
  rl_input :: "nat \<Rightarrow> byte list"
  rl_thread :: "nat \<Rightarrow> port_state"
  rl_table :: mac_table
  rl_output :: "nat \<Rightarrow> byte list list"
  rl_stopped :: bool
  rl_handled :: "(nat \<times> byte list) list"
  rl_sent :: "(nat \<times> byte list \<times> nat) list"

text \<open>
  \<open>rl_input i\<close> is what the peer of port \<open>i\<close> has written and the relay has not read;
  \<open>rl_handled\<close> and \<open>rl_sent\<close> are histories for the statements: the frames taken with their
  port, and the packets sent with source and destination.
\<close>

inductive relay_step :: "relay \<Rightarrow> relay \<Rightarrow> bool" where
  arrive: "i < rl_ports r \<Longrightarrow>
    relay_step r (r\<lparr>rl_input := (rl_input r)(i := rl_input r i @ bytes)\<rparr>)"
| check: "i < rl_ports r \<Longrightarrow> rl_thread r i = Idle \<Longrightarrow> \<not> rl_stopped r \<Longrightarrow>
    relay_step r (r\<lparr>rl_thread := (rl_thread r)(i := Reading)\<rparr>)"
| leave: "i < rl_ports r \<Longrightarrow> rl_thread r i = Idle \<Longrightarrow> rl_stopped r \<Longrightarrow>
    relay_step r (r\<lparr>rl_thread := (rl_thread r)(i := Ended)\<rparr>)"
| receive: "i < rl_ports r \<Longrightarrow> rl_thread r i = Reading \<Longrightarrow>
    relay_next (rl_input r i) = Inr (Some (frame, n)) \<Longrightarrow>
    table = learn i frame (rl_table r) \<Longrightarrow>
    relay_step r (r\<lparr>rl_input := (rl_input r)(i := drop n (rl_input r i)), rl_table := table,
      rl_thread := (rl_thread r)(i := Sending (take n (rl_input r i)) (destinations (rl_ports r) i frame table)),
      rl_handled := rl_handled r @ [(i, frame)]\<rparr>)"
| send: "i < rl_ports r \<Longrightarrow> rl_thread r i = Sending packet (d # ds) \<Longrightarrow>
    relay_step r (r\<lparr>rl_output := (rl_output r)(d := rl_output r d @ [packet]),
      rl_thread := (rl_thread r)(i := Sending packet ds), rl_sent := rl_sent r @ [(i, packet, d)]\<rparr>)"
| sent: "i < rl_ports r \<Longrightarrow> rl_thread r i = Sending packet [] \<Longrightarrow>
    relay_step r (r\<lparr>rl_thread := (rl_thread r)(i := Idle)\<rparr>)"
| bad_frame: "i < rl_ports r \<Longrightarrow> rl_thread r i = Reading \<Longrightarrow> relay_next (rl_input r i) = Inl e \<Longrightarrow>
    relay_step r (r\<lparr>rl_thread := (rl_thread r)(i := Ended), rl_stopped := True\<rparr>)"
| recv_failed: "i < rl_ports r \<Longrightarrow> rl_thread r i = Reading \<Longrightarrow>
    relay_step r (r\<lparr>rl_thread := (rl_thread r)(i := Ended), rl_stopped := True\<rparr>)"
| send_failed: "i < rl_ports r \<Longrightarrow> rl_thread r i = Sending packet ds \<Longrightarrow>
    relay_step r (r\<lparr>rl_thread := (rl_thread r)(i := Ended), rl_stopped := True\<rparr>)"

definition relay_init :: "nat \<Rightarrow> relay" where
  "relay_init ports = \<lparr>rl_ports = ports, rl_input = (\<lambda>_. []), rl_thread = (\<lambda>_. Idle), rl_table = (\<lambda>_. None),
     rl_output = (\<lambda>_. []), rl_stopped = False, rl_handled = [], rl_sent = []\<rparr>"

abbreviation relay_reachable :: "nat \<Rightarrow> relay \<Rightarrow> bool" where
  "relay_reachable ports \<equiv> relay_step\<^sup>*\<^sup>* (relay_init ports)"

inductive_cases relay_stepE: "relay_step r r'"

subsection \<open>Frames on the wire\<close>

text \<open>
  The packet of a frame, the frames a port accepts, and the frames a reader takes off a stream: the
  loop of \<^verbatim>\<open>receive_port\<close> as one port sees it.
\<close>

definition relay_packet :: "byte list \<Rightarrow> byte list" where
  "relay_packet frame = be_bytes 4 (length frame) @ frame"

definition frame_ok :: "byte list \<Rightarrow> bool" where
  "frame_ok frame \<longleftrightarrow> 14 \<le> length frame \<and> length frame \<le> MAX_FRAME"

lemma relay_next_consumed: "relay_next buf = Inr (Some (m, n)) \<Longrightarrow> 0 < n \<and> n \<le> length buf"
  by (auto simp: relay_next_def Let_def split: if_splits)

function relay_parse :: "byte list \<Rightarrow> (byte list list \<times> byte list) res" where
  "relay_parse buf = (case relay_next buf of
       Inl e \<Rightarrow> Inl e
     | Inr None \<Rightarrow> Inr ([], buf)
     | Inr (Some (frame, n)) \<Rightarrow>
         rbind (relay_parse (drop n buf)) (\<lambda>(frames, rest). Inr (frame # frames, rest)))"
  by auto
termination
  by (relation "measure length") (auto dest: relay_next_consumed)

declare relay_parse.simps [simp del]

lemma relay_next_extend:
  "relay_next buf = Inr (Some (m, n)) \<Longrightarrow> relay_next (buf @ ext) = Inr (Some (m, n))"
  "relay_next buf = Inl e \<Longrightarrow> relay_next (buf @ ext) = Inl e"
  by (auto simp: relay_next_def Let_def split: if_splits)

lemma relay_next_packet: "frame_ok f \<Longrightarrow> relay_next (relay_packet f @ rest) = Inr (Some (f, length (relay_packet f)))"
  by (simp add: relay_next_def relay_packet_def frame_ok_def be_nat_be_bytes MAX_FRAME_def)

interpretation rly: framing relay_next relay_parse relay_packet "\<lambda>f. f" frame_ok
proof
  show "relay_parse buf = (case relay_next buf of
          Inl e \<Rightarrow> Inl e
        | Inr None \<Rightarrow> Inr ([], buf)
        | Inr (Some (m, n)) \<Rightarrow> rbind (relay_parse (drop n buf)) (\<lambda>(ms, rest). Inr (m # ms, rest)))" for buf
    by (subst relay_parse.simps) simp
qed (auto intro: relay_next_extend relay_next_packet dest: relay_next_consumed)

lemma be_bytes_be_nat: "length bs = k \<Longrightarrow> be_bytes k (be_nat bs) = bs"
proof (induction k arbitrary: bs)
  case (Suc k)
  then obtain cs b where bs: "bs = cs @ [b]" "length cs = k"
    by (metis length_Suc_conv_rev)
  have "(be_nat cs * 256 + unat b) div 256 = be_nat cs"
    using unsigned_less [of b, where ?'a = nat] by simp
  moreover have "unat (of_nat (be_nat cs * 256 + unat b) :: byte) = unat b"
    unfolding unat_of_nat using unsigned_less [of b, where ?'a = nat] by simp
  then have "(of_nat (be_nat cs * 256 + unat b) :: byte) = b"
    by (rule unsigned_word_eqI)
  ultimately show ?case
    using Suc.IH [OF bs(2)] by (simp add: bs be_nat_snoc)
qed simp

lemma relay_next_frame:
  assumes "relay_next buf = Inr (Some (frame, n))"
  shows "frame_ok frame" and "take n buf = relay_packet frame"
proof -
  from assms have len: "4 \<le> length buf" "14 \<le> be_nat (take 4 buf)" "be_nat (take 4 buf) \<le> MAX_FRAME"
      "4 + be_nat (take 4 buf) \<le> length buf"
    and f: "frame = take (be_nat (take 4 buf)) (drop 4 buf)" "n = 4 + be_nat (take 4 buf)"
    by (auto simp: relay_next_def Let_def split: if_splits)
  then have l: "length frame = be_nat (take 4 buf)" by simp
  with len show "frame_ok frame" by (simp add: frame_ok_def)
  have "be_bytes 4 (length frame) = take 4 buf"
    unfolding l using len(1) by (simp add: be_bytes_be_nat)
  then show "take n buf = relay_packet frame"
    unfolding relay_packet_def by (simp add: f take_add)
qed

subsection \<open>Specification: histories\<close>

text \<open>
  What the relay should know and send, as functions of the frames taken so far in order: an address
  is at the port it was last seen on as a unicast source, and a frame goes to the ports chosen with
  that knowledge, the frame's own source included.
\<close>

definition last_seen :: "(nat \<times> byte list) list \<Rightarrow> byte list \<Rightarrow> nat option" where
  "last_seen hist mac = map_option fst
     (find (\<lambda>(i, f). \<not> group_mac (source_mac f) \<and> source_mac f = mac) (rev hist))"

fun expected :: "nat \<Rightarrow> (nat \<times> byte list) list \<Rightarrow> (nat \<times> byte list) list \<Rightarrow> (nat \<times> byte list \<times> nat) list" where
  "expected ports seen [] = []"
| "expected ports seen ((i, f) # later) =
     map (\<lambda>d. (i, relay_packet f, d)) (destinations ports i f (last_seen (seen @ [(i, f)]))) @
     expected ports (seen @ [(i, f)]) later"

lemma last_seen_snoc: "last_seen (hist @ [(i, f)]) = learn i f (last_seen hist)"
  by (auto simp: last_seen_def learn_def)

lemma expected_snoc:
  "expected ports seen (hist @ [(i, f)]) = expected ports seen hist @
     map (\<lambda>d. (i, relay_packet f, d)) (destinations ports i f (last_seen (seen @ hist @ [(i, f)])))"
  by (induction ports seen hist rule: expected.induct) simp_all

definition from_port :: "nat \<Rightarrow> (nat \<times> byte list \<times> nat) list \<Rightarrow> (nat \<times> byte list \<times> nat) list" where
  "from_port i sent = filter (\<lambda>(s, _, _). s = i) sent"

definition to_port :: "nat \<Rightarrow> (nat \<times> byte list \<times> nat) list \<Rightarrow> (nat \<times> byte list \<times> nat) list" where
  "to_port d sent = filter (\<lambda>(_, _, t). t = d) sent"

fun pending :: "nat \<Rightarrow> port_state \<Rightarrow> (nat \<times> byte list \<times> nat) list" where
  "pending i (Sending packet ds) = map (\<lambda>d. (i, packet, d)) ds"
| "pending i _ = []"

lemma from_port_append [simp]: "from_port i (xs @ ys) = from_port i xs @ from_port i ys"
  by (simp add: from_port_def)

lemma from_port_map [simp]:
  "from_port i (map (\<lambda>d. (j, p, d)) ds) = (if i = j then map (\<lambda>d. (j, p, d)) ds else [])"
  by (induction ds) (auto simp: from_port_def)

lemma from_port_single [simp]: "from_port i [(j, p, d)] = (if i = j then [(j, p, d)] else [])"
  by (simp add: from_port_def)

lemma to_port_append [simp]: "to_port d (xs @ ys) = to_port d xs @ to_port d ys"
  by (simp add: to_port_def)

subsection \<open>Invariants\<close>

text \<open>
  What one port has sent and still owes is what the specification asks for the frames it took; a
  thread that has ended may owe packets for ever.
\<close>

definition port_inv :: "nat \<Rightarrow> (nat \<times> byte list) list \<Rightarrow> (nat \<times> byte list \<times> nat) list \<Rightarrow> nat \<Rightarrow> port_state \<Rightarrow> bool" where
  "port_inv ports handled sent i thread \<longleftrightarrow>
     (\<exists>late. from_port i sent @ late = from_port i (expected ports [] handled) \<and>
        (thread \<noteq> Ended \<longrightarrow> late = pending i thread))"

definition relay_inv :: "relay \<Rightarrow> bool" where
  "relay_inv r \<longleftrightarrow>
     rl_table r = last_seen (rl_handled r) \<and>
     (\<forall>(i, f) \<in> set (rl_handled r). i < rl_ports r \<and> frame_ok f) \<and>
     (\<forall>d. rl_output r d = map (\<lambda>(_, p, _). p) (to_port d (rl_sent r))) \<and>
     (\<forall>i. port_inv (rl_ports r) (rl_handled r) (rl_sent r) i (rl_thread r i))"

lemma port_inv_ended: "port_inv ports handled sent i thread \<Longrightarrow> port_inv ports handled sent i Ended"
  by (auto simp: port_inv_def)

lemma port_inv_quiet:
  "port_inv ports handled sent i thread \<Longrightarrow> thread \<noteq> Ended \<Longrightarrow> pending i thread = [] \<Longrightarrow> pending i thread' = [] \<Longrightarrow>
     port_inv ports handled sent i thread'"
  by (auto simp: port_inv_def)

lemma port_inv_receive:
  assumes "port_inv ports handled sent j thread" and "j = i \<Longrightarrow> thread = Reading"
  shows "port_inv ports (handled @ [(i, f)]) sent j
    (if j = i then Sending (relay_packet f) (destinations ports i f (last_seen (handled @ [(i, f)]))) else thread)"
  using assms by (auto simp: port_inv_def expected_snoc)

lemma port_inv_send:
  assumes "port_inv ports handled sent j thread" and "j = i \<Longrightarrow> thread = Sending packet (d # ds)"
  shows "port_inv ports handled (sent @ [(i, packet, d)]) j (if j = i then Sending packet ds else thread)"
  using assms by (auto simp: port_inv_def)

lemma relay_inv_port: "relay_inv r \<Longrightarrow> port_inv (rl_ports r) (rl_handled r) (rl_sent r) i (rl_thread r i)"
  by (simp add: relay_inv_def)

lemma relay_inv_thread:
  assumes "relay_inv r" and "port_inv (rl_ports r) (rl_handled r) (rl_sent r) i thread"
  shows "relay_inv (r\<lparr>rl_thread := (rl_thread r)(i := thread)\<rparr>)"
    and "relay_inv (r\<lparr>rl_thread := (rl_thread r)(i := thread), rl_stopped := st\<rparr>)"
  using assms by (simp_all add: relay_inv_def)

lemma relay_inv_init: "relay_inv (relay_init ports)"
  by (simp add: relay_inv_def port_inv_def relay_init_def last_seen_def to_port_def from_port_def fun_eq_iff)

lemma relay_inv_receive:
  assumes inv: "relay_inv r" and i: "i < rl_ports r" and thread: "rl_thread r i = Reading"
    and nx: "relay_next (rl_input r i) = Inr (Some (frame, n))"
  shows "relay_inv (r\<lparr>rl_input := inp, rl_table := learn i frame (rl_table r),
      rl_thread := (rl_thread r)(i := Sending (take n (rl_input r i))
        (destinations (rl_ports r) i frame (learn i frame (rl_table r)))),
      rl_handled := rl_handled r @ [(i, frame)]\<rparr>)"
proof -
  note frame = relay_next_frame [OF nx]
  have port: "port_inv (rl_ports r) (rl_handled r @ [(i, frame)]) (rl_sent r) j
      (if j = i then Sending (relay_packet frame) (destinations (rl_ports r) i frame
         (last_seen (rl_handled r @ [(i, frame)]))) else rl_thread r j)" for j
    using relay_inv_port [OF inv] thread by (intro port_inv_receive) auto
  have other: "port_inv (rl_ports r) (rl_handled r @ [(i, frame)]) (rl_sent r) j (rl_thread r j)" if "j \<noteq> i" for j
    using port [of j] that by simp
  show ?thesis
    using inv i frame port [of i] other by (auto simp: relay_inv_def last_seen_snoc)
qed

lemma relay_inv_send:
  assumes inv: "relay_inv r" and thread: "rl_thread r i = Sending packet (d # ds)"
  shows "relay_inv (r\<lparr>rl_output := (rl_output r)(d := rl_output r d @ [packet]),
      rl_thread := (rl_thread r)(i := Sending packet ds), rl_sent := rl_sent r @ [(i, packet, d)]\<rparr>)"
proof -
  have "port_inv (rl_ports r) (rl_handled r) (rl_sent r @ [(i, packet, d)]) j
      (if j = i then Sending packet ds else rl_thread r j)" for j
    using relay_inv_port [OF inv] thread by (intro port_inv_send) auto
  then show ?thesis
    using inv by (simp add: relay_inv_def fun_upd_def to_port_def)
qed

lemma relay_inv_step:
  assumes "relay_step r r'" and inv: "relay_inv r"
  shows "relay_inv r'"
  using assms(1)
proof cases
  case (receive i frame n table)
  then show ?thesis using relay_inv_receive [OF inv] by simp
next
  case (send i packet d ds)
  then show ?thesis using relay_inv_send [OF inv] by simp
next
  case (arrive i bytes)
  then show ?thesis using inv by (simp add: relay_inv_def)
next
  case (check i)
  then show ?thesis
    using port_inv_quiet [OF relay_inv_port [OF inv, of i], of Reading] by (simp add: relay_inv_thread [OF inv])
next
  case (sent i packet)
  then show ?thesis
    using port_inv_quiet [OF relay_inv_port [OF inv, of i], of Idle] by (simp add: relay_inv_thread [OF inv])
qed (simp_all add: relay_inv_thread [OF inv] port_inv_ended [OF relay_inv_port [OF inv]])

lemma relay_ports_step: "relay_step r r' \<Longrightarrow> rl_ports r' = rl_ports r"
  by (auto elim: relay_step.cases)

interpretation relay_states: transition_invariant relay_step "\<lambda>r. relay_inv r \<and> rl_ports r = ports" for ports
  by unfold_locales (auto intro: relay_inv_step dest: relay_ports_step)

lemma relay_reachable_inv: "relay_reachable ports r \<Longrightarrow> relay_inv r \<and> rl_ports r = ports"
  by (erule relay_states.reachable_inv) (use relay_inv_init in \<open>simp add: relay_init_def\<close>)

lemma destinations_range:
  "(\<And>mac p. table mac = Some p \<Longrightarrow> p < ports) \<Longrightarrow> d \<in> set (destinations ports i f table) \<Longrightarrow> d < ports \<and> d \<noteq> i"
  by (auto simp: destinations_def Let_def split: if_splits)

lemma last_seen_range:
  "\<forall>(i, f) \<in> set hist. i < ports \<Longrightarrow> last_seen hist mac = Some p \<Longrightarrow> p < ports"
proof (induction hist rule: rev_induct)
  case (snoc x hist)
  then show ?case
    by (cases x) (auto simp: last_seen_snoc learn_def split: if_splits)
qed (simp add: last_seen_def)

lemma expected_sound:
  "(s, p, d) \<in> set (expected ports seen hist) \<Longrightarrow> \<forall>(i, f) \<in> set (seen @ hist). i < ports \<and> frame_ok f \<Longrightarrow>
     d < ports \<and> d \<noteq> s \<and> (\<exists>f. (s, f) \<in> set hist \<and> p = relay_packet f)"
proof (induction ports seen hist rule: expected.induct)
  case (2 ports seen i f later)
  show ?case
  proof (cases "(s, p, d) \<in> set (expected ports (seen @ [(i, f)]) later)")
    case True
    then show ?thesis using 2 by auto
  next
    case False
    with "2.prems"(1) have d: "d \<in> set (destinations ports i f (last_seen (seen @ [(i, f)])))" "s = i" "p = relay_packet f"
      by auto
    have "\<forall>(i, f) \<in> set (seen @ [(i, f)]). i < ports" using "2.prems"(2) by auto
    from destinations_range [OF last_seen_range [OF this] d(1)] d show ?thesis by auto
  qed
qed simp

lemma to_port_frames:
  "\<forall>(s, p, d) \<in> set sent. \<exists>f. frame_ok f \<and> p = relay_packet f \<Longrightarrow>
     \<exists>fs. list_all frame_ok fs \<and> map (\<lambda>(_, p, _). p) (to_port d sent) = map relay_packet fs"
proof (induction sent)
  case (Cons x sent)
  obtain s p t where x: "x = (s, p, t)" by (cases x)
  from Cons.prems obtain f where f: "frame_ok f" "p = relay_packet f" by (auto simp: x)
  from Cons obtain fs where "list_all frame_ok fs" "map (\<lambda>(_, p, _). p) (to_port d sent) = map relay_packet fs"
    by auto
  with f have "t = d \<Longrightarrow> list_all frame_ok (f # fs) \<and>
      map (\<lambda>(_, p, _). p) (to_port d (x # sent)) = map relay_packet (f # fs)"
    and "t \<noteq> d \<Longrightarrow> map (\<lambda>(_, p, _). p) (to_port d (x # sent)) = map relay_packet fs"
    by (simp_all add: x to_port_def)
  then show ?case using \<open>list_all frame_ok fs\<close> by blast
qed (simp add: to_port_def)

lemma relay_sent_sound:
  assumes "relay_reachable ports r" and "(s, p, d) \<in> set (rl_sent r)"
  shows "d < ports \<and> d \<noteq> s \<and> (\<exists>f. (s, f) \<in> set (rl_handled r) \<and> frame_ok f \<and> p = relay_packet f)"
proof -
  from relay_reachable_inv [OF assms(1)] have inv: "relay_inv r" "rl_ports r = ports" by auto
  from assms(2) have "(s, p, d) \<in> set (from_port s (rl_sent r))" by (simp add: from_port_def)
  with relay_inv_port [OF inv(1), of s] have "(s, p, d) \<in> set (from_port s (expected ports [] (rl_handled r)))"
    unfolding port_inv_def inv(2) by (metis Un_iff set_append)
  then have e: "(s, p, d) \<in> set (expected ports [] (rl_handled r))" by (simp add: from_port_def)
  have "\<forall>(i, f) \<in> set ([] @ rl_handled r). i < ports \<and> frame_ok f" using inv by (simp add: relay_inv_def)
  from expected_sound [OF e this] this show ?thesis by auto
qed

lemma relay_output_frames:
  assumes "relay_reachable ports r"
  obtains fs where "list_all frame_ok fs" "rl_output r d = map relay_packet fs"
proof -
  have "\<forall>(s, p, d) \<in> set (rl_sent r). \<exists>f. frame_ok f \<and> p = relay_packet f"
    using relay_sent_sound [OF assms] by blast
  from to_port_frames [OF this, of d] obtain fs where
    "list_all frame_ok fs" "map (\<lambda>(_, p, _). p) (to_port d (rl_sent r)) = map relay_packet fs" by auto
  with that relay_reachable_inv [OF assms] show thesis by (simp add: relay_inv_def)
qed

subsection \<open>Properties\<close>


text \<open>
  Safety of every reachable state: a packet only ever goes to another existing port, it is the
  unchanged packet of a frame of legal length its source port took, and the packets of concurrent
  senders never interleave inside a port's stream: reading a port's output with the relay's own
  framing returns whole frames with nothing left over.
\<close>

theorem relay_output_wellformed:
  assumes "relay_reachable ports r"
  shows "(\<forall>s p d. (s, p, d) \<in> set (rl_sent r) \<longrightarrow>
      d < ports \<and> d \<noteq> s \<and> (\<exists>f. (s, f) \<in> set (rl_handled r) \<and> frame_ok f \<and> p = relay_packet f)) \<and>
    (\<forall>d. \<exists>fs. list_all frame_ok fs \<and> relay_parse (concat (rl_output r d)) = Inr (fs, []))"
proof (intro conjI allI impI)
  fix d
  obtain fs where fs: "list_all frame_ok fs" "rl_output r d = map relay_packet fs"
    by (rule relay_output_frames [OF assms])
  have "relay_next [] = Inr None" by (simp add: relay_next_def)
  from rly.parse_encoded [OF fs(1) this] fs show
    "\<exists>fs. list_all frame_ok fs \<and> relay_parse (concat (rl_output r d)) = Inr (fs, [])"
    by auto
qed (use relay_sent_sound [OF assms] in blast)+

text \<open>A run: port 1 of three learns an address by a broadcast, port 0 then answers it alone.\<close>

definition demo_broadcast :: "byte list" where
  "demo_broadcast = [255, 255, 255, 255, 255, 255, 2, 0, 0, 0, 0, 1, 8, 6]"

definition demo_answer :: "byte list" where
  "demo_answer = [2, 0, 0, 0, 0, 1, 2, 0, 0, 0, 0, 7, 8, 6]"

fun deliver :: "nat \<Rightarrow> byte list \<Rightarrow> relay \<Rightarrow> relay" where
  "deliver i frame r = (let table = learn i frame (rl_table r); ds = destinations (rl_ports r) i frame table in
     r\<lparr>rl_table := table, rl_handled := rl_handled r @ [(i, frame)],
       rl_output := fold (\<lambda>d out. out(d := out d @ [relay_packet frame])) ds (rl_output r),
       rl_sent := rl_sent r @ map (\<lambda>d. (i, relay_packet frame, d)) ds\<rparr>)"

lemma relay_sends:
  "i < rl_ports r \<Longrightarrow> rl_thread r i = Sending packet ds \<Longrightarrow>
     relay_step\<^sup>*\<^sup>* r (r\<lparr>rl_output := fold (\<lambda>d out. out(d := out d @ [packet])) ds (rl_output r),
       rl_thread := (rl_thread r)(i := Idle), rl_sent := rl_sent r @ map (\<lambda>d. (i, packet, d)) ds\<rparr>)"
proof (induction ds arbitrary: r)
  case Nil
  then show ?case using r_into_rtranclp [of relay_step, OF relay_step.sent [of i r packet]] by (simp add: fun_upd_def)
next
  case (Cons d ds)
  let ?r = "r\<lparr>rl_output := (rl_output r)(d := rl_output r d @ [packet]),
      rl_thread := (rl_thread r)(i := Sending packet ds), rl_sent := rl_sent r @ [(i, packet, d)]\<rparr>"
  have "relay_step r ?r" using Cons.prems by (intro relay_step.send) simp_all
  from converse_rtranclp_into_rtranclp [OF this Cons.IH [of ?r]] Cons.prems show ?case by (simp cong: if_cong)
qed

lemma relay_delivers:
  assumes "frame_ok frame" "i < rl_ports r" "rl_thread r i = Idle" "\<not> rl_stopped r" "rl_input r i = []"
  shows "relay_step\<^sup>*\<^sup>* r (deliver i frame r)"
proof -
  let ?p = "relay_packet frame" and ?table = "learn i frame (rl_table r)"
  let ?r1 = "r\<lparr>rl_input := (rl_input r)(i := ?p)\<rparr>"
  let ?r2 = "?r1\<lparr>rl_thread := (rl_thread r)(i := Reading)\<rparr>"
  let ?r3 = "?r2\<lparr>rl_input := rl_input r, rl_table := ?table,
      rl_thread := (rl_thread r)(i := Sending ?p (destinations (rl_ports r) i frame ?table)),
      rl_handled := rl_handled r @ [(i, frame)]\<rparr>"
  have 1: "relay_step r ?r1" using relay_step.arrive [OF assms(2), of ?p] assms(5) by simp
  have 2: "relay_step ?r1 ?r2" using relay_step.check [of i ?r1] assms by simp
  have "relay_next (rl_input ?r2 i) = Inr (Some (frame, length ?p))"
    using relay_next_packet [OF assms(1), of "[]"] by simp
  from relay_step.receive [OF _ _ this refl] have 3: "relay_step ?r2 ?r3"
    using assms(2,5) by (simp add: fun_upd_idem)
  have 4: "relay_step\<^sup>*\<^sup>* ?r3 (deliver i frame r)"
    using relay_sends [of i ?r3] assms(2,3) by (simp add: Let_def fun_upd_idem)
  from 1 2 3 4 show ?thesis by (meson converse_rtranclp_into_rtranclp)
qed

definition demo_relay :: relay where
  "demo_relay = deliver 0 demo_answer (deliver 1 demo_broadcast (relay_init 3))"

lemma demo_relay_reachable: "relay_reachable 3 demo_relay"
proof -
  have ok: "frame_ok demo_broadcast" "frame_ok demo_answer"
    by (simp_all add: frame_ok_def demo_broadcast_def demo_answer_def MAX_FRAME_def)
  have "relay_step\<^sup>*\<^sup>* (relay_init 3) (deliver 1 demo_broadcast (relay_init 3))"
    using ok by (intro relay_delivers) (simp_all add: relay_init_def)
  also have "relay_step\<^sup>*\<^sup>* (deliver 1 demo_broadcast (relay_init 3)) demo_relay"
    unfolding demo_relay_def using ok by (intro relay_delivers) (simp_all add: relay_init_def Let_def)
  finally show ?thesis .
qed

lemma demo_relay_thread: "rl_thread demo_relay 0 = Idle"
  by (simp add: demo_relay_def relay_init_def Let_def)

lemma demo_relay_handled: "rl_handled demo_relay = [(1, demo_broadcast), (0, demo_answer)]"
  by (simp add: demo_relay_def relay_init_def Let_def)

lemma demo_relay_expected:
  "expected 3 [] [(1, demo_broadcast), (0, demo_answer)] =
     [(1, relay_packet demo_broadcast, 0), (1, relay_packet demo_broadcast, 2), (0, relay_packet demo_answer, 1)]"
  by code_simp


theorem relay_output_wellformed_witness:
  "\<exists>fs. list_all frame_ok fs \<and> relay_parse (concat (rl_output demo_relay 1)) = Inr (fs, [])"
  using relay_output_wellformed [OF demo_relay_reachable] by blast

subsection \<open>Connecting the ports\<close>

text \<open>
  \<^verbatim>\<open>connect\<close> tries again until the deadline.  \<open>attempt ep k\<close> is what the socket calls
  of the \<open>k\<close>-th attempt do and \<open>clock k\<close> what \<^verbatim>\<open>time.monotonic()\<close> returns after it; attempts are
  counted over the whole program.  \<^verbatim>\<open>TimeoutError\<close> is an \<^verbatim>\<open>OSError\<close>.
\<close>

datatype endpoint = Unix_Path string | Tcp_Port string int

definition parse_endpoint :: "string \<Rightarrow> endpoint res" where
  "parse_endpoint ep =
     (if startswith ep ''unix:'' then Inr (Unix_Path (removeprefix ep ''unix:''))
      else if startswith ep ''tcp:'' then
        (let (rport, found, rhost) = partition_at CHR '':'' (rev (removeprefix ep ''tcp:'')) in
         if \<not> found then Inl (ValueError ''not enough values to unpack'')
         else rbind (py_int (rev rport)) (\<lambda>port. Inr (Tcp_Port (rev rhost) port)))
      else Inl (ValueError (''unsupported endpoint '' @ repr_str ep @ ''; use unix:PATH or tcp:HOST:PORT'')))"

partial_function (option) connect ::
  "(endpoint \<Rightarrow> nat \<Rightarrow> unit res) \<Rightarrow> (nat \<Rightarrow> int) \<Rightarrow> string \<Rightarrow> int \<Rightarrow> nat \<Rightarrow> nat res option" where
  "connect attempt clock endpoint deadline k =
     (case rbind (parse_endpoint endpoint) (\<lambda>ep. attempt ep k) of
        Inr _ \<Rightarrow> Some (Inr (Suc k))
      | Inl e \<Rightarrow>
          if \<not> is_OSError e then Some (Inl e)
          else if clock k \<ge> deadline then Some (Inl (OSError (''timed out connecting to '' @ endpoint)))
          else connect attempt clock endpoint deadline (Suc k))"

fun connect_all :: "(endpoint \<Rightarrow> nat \<Rightarrow> unit res) \<Rightarrow> (nat \<Rightarrow> int) \<Rightarrow> string list \<Rightarrow> int \<Rightarrow> nat \<Rightarrow> nat res option" where
  "connect_all attempt clock [] deadline k = Some (Inr k)"
| "connect_all attempt clock (ep # eps) deadline k =
     (case connect attempt clock ep deadline k of
        None \<Rightarrow> None
      | Some (Inl e) \<Rightarrow> Some (Inl e)
      | Some (Inr k') \<Rightarrow> connect_all attempt clock eps deadline k')"

text \<open>
  \<^verbatim>\<open>main\<close> up to the start of the port threads, whose run is \<open>relay_step\<close> from the state returned;
  \<open>now\<close> is the clock at its start.  \<^verbatim>\<open>parser.error\<close> exits with 2.
\<close>

definition relay_main ::
  "(endpoint \<Rightarrow> nat \<Rightarrow> unit res) \<Rightarrow> (nat \<Rightarrow> int) \<Rightarrow> string list \<Rightarrow> int \<Rightarrow> int \<Rightarrow> relay res option" where
  "relay_main attempt clock endpoints now connect_timeout =
     (if length endpoints < 2 then Some (Inl (SystemExit 2))
      else map_option (\<lambda>outcome. rbind outcome (\<lambda>_. Inr (relay_init (length endpoints))))
        (connect_all attempt clock endpoints (now + connect_timeout) 0))"

definition os_failures :: "(endpoint \<Rightarrow> nat \<Rightarrow> unit res) \<Rightarrow> bool" where
  "os_failures attempt \<longleftrightarrow> (\<forall>ep k e. attempt ep k = Inl e \<longrightarrow> is_OSError e)"

definition passes :: "(nat \<Rightarrow> int) \<Rightarrow> int \<Rightarrow> bool" where
  "passes clock deadline \<longleftrightarrow> (\<forall>k. \<exists>stop \<ge> k. deadline \<le> clock stop)"

lemma parse_endpoint_error: "parse_endpoint ep = Inl e \<Longrightarrow> is_ValueError e"
  by (auto simp: parse_endpoint_def py_int_def Let_def rbind_eq_Inl split: if_splits prod.splits option.splits)

lemma connect_returns:
  assumes "os_failures attempt" and "deadline \<le> clock stop" and "k \<le> stop"
  shows "\<exists>r. connect attempt clock ep deadline k = Some r \<and>
    (case r of Inl e \<Rightarrow> is_ValueError e \<or> is_OSError e | Inr k' \<Rightarrow> k < k' \<and> k' \<le> Suc stop)"
  using assms(3)
proof (induction k rule: inc_induct)
  case base
  show ?case
    using assms(1,2) parse_endpoint_error unfolding os_failures_def
    by (subst connect.simps) (auto simp: rbind_eq_Inl split: sum.splits)
next
  case (step k)
  then show ?case
    using assms(1) parse_endpoint_error unfolding os_failures_def
    by (subst connect.simps) (fastforce simp: rbind_eq_Inl split: sum.splits)
qed

lemma connect_all_returns:
  assumes "os_failures attempt" and "passes clock deadline"
  shows "\<exists>r. connect_all attempt clock eps deadline k = Some r \<and>
    (case r of Inl e \<Rightarrow> is_ValueError e \<or> is_OSError e | Inr k' \<Rightarrow> k + length eps \<le> k')"
proof (induction eps arbitrary: k)
  case (Cons ep eps)
  from assms(2) obtain l where "deadline \<le> clock l" "k \<le> l" unfolding passes_def by blast
  from connect_returns [of attempt deadline clock l k, OF assms(1) this, of ep] obtain r where
    r: "connect attempt clock ep deadline k = Some r"
      "case r of Inl e \<Rightarrow> is_ValueError e \<or> is_OSError e | Inr k' \<Rightarrow> k < k' \<and> k' \<le> Suc l" by blast
  show ?case
  proof (cases r)
    case (Inr k')
    with Cons.IH [of k'] r show ?thesis by (auto split: sum.splits)
  qed (use r in simp)
qed simp

text \<open>
  C38. Start-up always ends: when connection attempts fail only with operating-system errors and the
  clock goes on past the deadline, the relay either exits with 2 (fewer than two endpoints), raises
  \<^verbatim>\<open>ValueError\<close> or an operating-system error, or starts with one port for each of at least two
  endpoints; it never retries for ever.
\<close>

theorem relay_main_returns:
  assumes "os_failures attempt"
    and "passes clock (now + connect_timeout)"
  shows "\<exists>r. relay_main attempt clock endpoints now connect_timeout = Some r \<and>
    (case r of Inl e \<Rightarrow> is_ValueError e \<or> is_OSError e \<or> (e = SystemExit 2 \<and> length endpoints < 2)
     | Inr relay \<Rightarrow> relay = relay_init (length endpoints) \<and> 2 \<le> rl_ports relay)"
proof (cases "length endpoints < 2")
  case False
  from connect_all_returns [OF assms, of endpoints 0] obtain r where
    "connect_all attempt clock endpoints (now + connect_timeout) 0 = Some r"
    "case r of Inl e \<Rightarrow> is_ValueError e \<or> is_OSError e | Inr k' \<Rightarrow> 0 + length endpoints \<le> k'" by blast
  with False show ?thesis by (cases r) (auto simp: relay_main_def relay_init_def)
qed (simp add: relay_main_def)

definition demo_attempt :: "endpoint \<Rightarrow> nat \<Rightarrow> unit res" where
  "demo_attempt ep k = (if k < 1 then Inl (OSError ''refused'') else Inr ())"

theorem relay_main_returns_witness:
  "\<exists>r. relay_main demo_attempt int [''unix:/tmp/a'', ''tcp:localhost:3456''] 0 5 = Some r \<and>
    (case r of Inl e \<Rightarrow> is_ValueError e \<or> is_OSError e \<or> (e = SystemExit 2 \<and> length [''unix:/tmp/a'', ''tcp:localhost:3456''] < 2)
     | Inr relay \<Rightarrow> relay = relay_init (length [''unix:/tmp/a'', ''tcp:localhost:3456'']) \<and> 2 \<le> rl_ports relay)"
proof (rule relay_main_returns)
  have "\<exists>stop \<ge> k. 0 + 5 \<le> int stop" for k
    by (rule exI [of _ "k + 5"]) simp
  then show "passes int (0 + 5)" by (simp add: passes_def)
qed (simp add: os_failures_def demo_attempt_def)

end
