(* ===== verification/Memory_Guard.thy ===== *)
theory Memory_Guard
  imports Py_Prelude
begin

section \<open>The host memory guard\<close>

text \<open>
  Model of \<^verbatim>\<open>tools/host_memory_guard.py\<close>: reading the host's memory, the admission check before
  guests are started or checkpointed, and the monitor that stops a run after two low samples in a
  row.  What the operating system answers (the memory report, file status, process ids, signals)
  is an argument.  The text of \<^verbatim>\<open>describe\<close> is not modelled; a line written to the log is an event.
\<close>

subsection \<open>Reading the memory of the host\<close>

definition GIB :: int where
  "GIB = 1024 ^ 3"

text \<open>
  \<^verbatim>\<open>re.search(prefix + "(\\d+)" + suffix, s)\<close> for a suffix that does not start with a digit, and
  the two regular expressions of \<^verbatim>\<open>memory_bytes\<close>.
\<close>

definition match_digits :: "string \<Rightarrow> string \<Rightarrow> string \<Rightarrow> string option" where
  "match_digits pre suf s =
     (if \<not> startswith s pre then None
      else let rest = drop (length pre) s; ds = takeWhile is_digit rest in
        if ds \<noteq> [] \<and> startswith (drop (length ds) rest) suf then Some ds else None)"

fun search_digits :: "string \<Rightarrow> string \<Rightarrow> string \<Rightarrow> string option" where
  "search_digits pre suf [] = match_digits pre suf []"
| "search_digits pre suf (c # s) =
     (case match_digits pre suf (c # s) of Some ds \<Rightarrow> Some ds | None \<Rightarrow> search_digits pre suf s)"

text \<open>
  \<^verbatim>\<open>re.findall(r"^(MemTotal|MemAvailable):\\s+(\\d+) kB$", text, re.MULTILINE)\<close>: a match at the
  start of a line, given as name, digits and the text after it.
\<close>

definition match_meminfo :: "string \<Rightarrow> string \<Rightarrow> (string \<times> string) option" where
  "match_meminfo name s =
     (if \<not> startswith s (name @ '':'') then None
      else let rest = drop (length name + 1) s; spaces = takeWhile is_space rest;
               rest2 = drop (length spaces) rest; ds = takeWhile is_digit rest2;
               rest3 = drop (length ds) rest2 in
        if spaces \<noteq> [] \<and> ds \<noteq> [] \<and> startswith rest3 '' kB'' \<and>
           (drop 3 rest3 = [] \<or> hd (drop 3 rest3) = CHR 0x0A)
        then Some (ds, drop 3 rest3) else None)"

definition match_line :: "string \<Rightarrow> (string \<times> string \<times> string) option" where
  "match_line s = (case match_meminfo ''MemTotal'' s of
       Some (ds, rest) \<Rightarrow> Some (''MemTotal'', ds, rest)
     | None \<Rightarrow> (case match_meminfo ''MemAvailable'' s of
         Some (ds, rest) \<Rightarrow> Some (''MemAvailable'', ds, rest)
       | None \<Rightarrow> None))"

lemma match_meminfo_shorter: "match_meminfo name s = Some (ds, rest) \<Longrightarrow> length rest < length s"
proof -
  assume m: "match_meminfo name s = Some (ds, rest)"
  then have "s \<noteq> []" by (cases s) (auto simp: match_meminfo_def startswith_def)
  with m show ?thesis by (cases s) (auto simp: match_meminfo_def Let_def split: if_splits)
qed

lemma match_line_shorter: "match_line s = Some (name, ds, rest) \<Longrightarrow> length rest < length s"
  by (auto simp: match_line_def split: option.splits dest: match_meminfo_shorter)

function findall_meminfo :: "bool \<Rightarrow> string \<Rightarrow> sdict" where
  "findall_meminfo line_start s =
     (case (if line_start then match_line s else None) of
        Some (name, ds, rest) \<Rightarrow> (name, ds) # findall_meminfo False rest
      | None \<Rightarrow> (case s of [] \<Rightarrow> [] | c # rest \<Rightarrow> findall_meminfo (c = CHR 0x0A) rest))"
  by auto
termination
  by (relation "measure (length \<circ> snd)") (auto dest: match_line_shorter split: if_splits)

declare findall_meminfo.simps [simp del]

record host_report =
  hr_platform :: string
  hr_pressure :: "string res"
  hr_meminfo :: "string res"

definition memory_bytes :: "host_report \<Rightarrow> (int \<times> int) res" where
  "memory_bytes h =
     (if hr_platform h = ''darwin'' then
        rbind (hr_pressure h) (\<lambda>output.
          (case (search_digits ''The system has '' '' '' output,
                 search_digits ''System-wide memory free percentage: '' ''%'' output) of
             (Some total_text, Some free_text) \<Rightarrow>
               rbind (py_int total_text) (\<lambda>total_mem.
               rbind (py_int free_text) (\<lambda>free. Inr (total_mem, total_mem * free div 100)))
           | _ \<Rightarrow> Inl (RuntimeError ''cannot read macOS memory pressure'')))
      else if startswith (hr_platform h) ''linux'' then
        rbind (hr_meminfo h) (\<lambda>text.
          let info = dict_update [] (findall_meminfo True text) in
          if length info \<noteq> 2 then Inl (RuntimeError ''cannot read Linux MemAvailable'')
          else rbind (rbind (getitem ''MemTotal'' info) py_int) (\<lambda>total_mem.
               rbind (rbind (getitem ''MemAvailable'' info) py_int) (\<lambda>available.
               Inr (total_mem * 1024, available * 1024))))
      else Inl (RuntimeError (''unsupported host platform: '' @ hr_platform h)))"

subsection \<open>The admission check\<close>

definition capacity_scale :: "(string \<times> int) list" where
  "capacity_scale = [(''B'', 1), (''kB'', 1000), (''KiB'', 1024), (''MB'', 1000 ^ 2), (''MiB'', 1024 ^ 2),
     (''GB'', 1000 ^ 3), (''GiB'', GIB)]"

definition capacity_bytes :: "string \<Rightarrow> int res" where
  "capacity_bytes s =
     (let ds = takeWhile is_digit s; unit = drop (length ds) s in
      case map_of capacity_scale unit of
        Some scale \<Rightarrow> if ds = [] then Inl (ValueError (''invalid modeled memory size: '' @ s))
          else rbind (py_int ds) (\<lambda>n. Inr (n * scale))
      | None \<Rightarrow> Inl (ValueError (''invalid modeled memory size: '' @ s)))"

definition reserve_bytes :: "int \<Rightarrow> int" where
  "reserve_bytes total_mem = max (2 * GIB) (total_mem div 5)"

datatype guard_phase = Start | Qemu_Start | Checkpoint

definition launch_headroom :: "guard_phase \<Rightarrow> int \<Rightarrow> string \<Rightarrow> int res" where
  "launch_headroom phase nodes mem_size =
     (let headroom = max (2 * GIB) (nodes * 5 * GIB div 4) in
      if phase = Qemu_Start then
        rbind (capacity_bytes mem_size) (\<lambda>capacity. Inr (max headroom (nodes * capacity + GIB)))
      else Inr headroom)"

definition guard_check :: "host_report \<Rightarrow> guard_phase \<Rightarrow> int \<Rightarrow> string \<Rightarrow> int res" where
  "guard_check host phase nodes mem_size =
     rbind (memory_bytes host) (\<lambda>(total_mem, available).
     rbind (launch_headroom phase nodes mem_size) (\<lambda>headroom.
       if available < reserve_bytes total_mem + headroom then Inr 2
       else if phase = Checkpoint \<and> nodes \<ge> 3 then
         rbind (capacity_bytes mem_size) (\<lambda>capacity.
           if nodes * capacity > 4 * total_mem then Inr 2 else Inr 0)
       else Inr 0))"

subsection \<open>The monitor\<close>

text \<open>
  One round of the loop reads a \<open>sample\<close>: the status of the manifest, the process id files, what
  \<^verbatim>\<open>os.kill(pid, 0)\<close> does, the memory report, and what writing the marker file and running the stop
  script do.  A \<^verbatim>\<open>FileNotFoundError\<close> is the \<^verbatim>\<open>OSError\<close> with error number 2.
\<close>

type_synonym file_identity = "int \<times> int \<times> int"

record sample =
  smp_stat :: "file_identity res"
  smp_pid :: "int \<Rightarrow> string res"
  smp_kill :: "int \<Rightarrow> unit res"
  smp_host :: host_report
  smp_marker :: "unit res"
  smp_stop :: "unit res"

fun is_FileNotFound :: "py_exc \<Rightarrow> bool" where
  "is_FileNotFound (OSError m) \<longleftrightarrow> startswith m ''[Errno 2]''"
| "is_FileNotFound _ \<longleftrightarrow> False"

fun guest_alive :: "sample \<Rightarrow> int list \<Rightarrow> bool res" where
  "guest_alive s [] = Inr False"
| "guest_alive s (node # nodes) =
     (case rbind (rbind (smp_pid s node) (\<lambda>text. py_int (strip text))) (smp_kill s) of
        Inr _ \<Rightarrow> Inr True
      | Inl e \<Rightarrow> if is_OSError e \<or> is_ValueError e then guest_alive s nodes else Inl e)"

definition live_guest :: "sample \<Rightarrow> int \<Rightarrow> bool res" where
  "live_guest s nodes = guest_alive s [0..nodes - 1]"

datatype guard_event =
    Sample_Line int int nat
  | Reason_Line int int
  | Marker_Written
  | Stop_Script
  | Failure_Line py_exc

datatype round_end = Return int | Continue nat | Raise py_exc

definition guard_stop :: "sample \<Rightarrow> guard_event list \<times> round_end" where
  "guard_stop s = (case smp_marker s of
       Inl e \<Rightarrow> ([], Raise e)
     | Inr _ \<Rightarrow> (case smp_stop s of
         Inl e \<Rightarrow> ([Marker_Written], Raise e)
       | Inr _ \<Rightarrow> ([Marker_Written, Stop_Script], Return 2)))"

definition guard_round :: "int \<Rightarrow> file_identity \<Rightarrow> nat \<Rightarrow> nat \<Rightarrow> sample \<Rightarrow> guard_event list \<times> round_end" where
  "guard_round nodes identity samples low_count s =
     (case smp_stat s of Inl e \<Rightarrow> ([], Raise e) | Inr stat \<Rightarrow>
      if stat \<noteq> identity then ([], Return 0)
      else case live_guest s nodes of Inl e \<Rightarrow> ([], Raise e) | Inr live \<Rightarrow>
      if \<not> live then ([], Return 0)
      else case memory_bytes (smp_host s) of Inl e \<Rightarrow> ([], Raise e) | Inr (total_mem, available) \<Rightarrow>
        let low = (if available < reserve_bytes total_mem then low_count + 1 else 0);
            line = (if samples mod 15 = 0 \<or> low \<noteq> 0 then [Sample_Line total_mem available low] else []) in
        if low \<ge> 2 then (let (events, outcome) = guard_stop s in
          (line @ [Reason_Line total_mem available] @ events, outcome))
        else (line, Continue low))"

partial_function (option) guard_loop ::
  "int \<Rightarrow> file_identity \<Rightarrow> (nat \<Rightarrow> sample) \<Rightarrow> nat \<Rightarrow> nat \<Rightarrow> guard_event list \<Rightarrow> (int \<times> guard_event list) option" where
  "guard_loop nodes identity feed samples low_count log =
     (let (events, outcome) = guard_round nodes identity samples low_count (feed samples) in
      case outcome of
        Return code \<Rightarrow> Some (code, log @ events)
      | Raise e \<Rightarrow> if is_FileNotFound e then Some (0, log @ events)
          else Some (2, log @ events @ [Failure_Line e])
      | Continue low \<Rightarrow> guard_loop nodes identity feed (Suc samples) low (log @ events))"

definition guard_monitor :: "file_identity res \<Rightarrow> int \<Rightarrow> (nat \<Rightarrow> sample) \<Rightarrow> (int \<times> guard_event list) res option" where
  "guard_monitor initial nodes feed = (case initial of
       Inl e \<Rightarrow> Some (Inl e)
     | Inr identity \<Rightarrow> map_option Inr (guard_loop nodes identity feed 0 0 []))"

text \<open>\<^verbatim>\<open>main\<close> on parsed arguments; exit code 2 for the exceptions it catches.\<close>

datatype guard_action =
    Do_Check host_report guard_phase int string
  | Do_Monitor "file_identity res" int "nat \<Rightarrow> sample"

definition guard_main :: "guard_action \<Rightarrow> int res option" where
  "guard_main action =
     map_option (\<lambda>r. case r of
         Inr code \<Rightarrow> Inr code
       | Inl e \<Rightarrow> if is_OSError e \<or> is_RuntimeError e \<or> is_ValueError e then Inr 2 else Inl e)
       (case action of
          Do_Check host phase nodes mem_size \<Rightarrow> Some (guard_check host phase nodes mem_size)
        | Do_Monitor initial nodes feed \<Rightarrow>
            map_option (\<lambda>r. rbind r (\<lambda>(code, _). Inr code)) (guard_monitor initial nodes feed))"

subsection \<open>Facts about the check\<close>

lemmas py_int_eval = py_int_def parse_int_def parse_nat_def strip_def lstrip_def is_space_def is_digit_def
  digit_val_def Let_def

lemma capacity_scale_pos: "map_of capacity_scale unit = Some scale \<Longrightarrow> 0 < scale"
  by (auto simp: capacity_scale_def GIB_def split: if_splits)

lemma capacity_scale_no_digit: "map_of capacity_scale unit = Some scale \<Longrightarrow> takeWhile is_digit unit = []"
  by (auto simp: capacity_scale_def is_digit_def split: if_splits)

lemma takeWhile_show_nat:
  "takeWhile is_digit unit = [] \<Longrightarrow> takeWhile is_digit (show_nat n @ unit) = show_nat n"
  using show_nat_digits by (simp add: takeWhile_append2)

lemma str_int_nat: "str_int (int n) = show_nat n"
  by (simp add: str_int_def)

text \<open>
  Every size the launchers write, a number and one of the seven units, is read back as the
  number times the unit.
\<close>

lemma capacity_bytes_roundtrip:
  assumes "map_of capacity_scale unit = Some scale"
  shows "capacity_bytes (show_nat n @ unit) = Inr (int n * scale)"
  using assms py_int_str_int [of "int n"]
  by (simp add: capacity_bytes_def takeWhile_show_nat capacity_scale_no_digit str_int_nat del: py_int_str_int)

text \<open>
  What an accepted start means: when the check returns 0 the host has, above its reserve, two
  GiB and one and a quarter GiB for every guest; before QEMU guests are started it has all their
  modelled memory and one GiB more, so that guests touching all their memory leave a sample the
  monitor does not count as low.
\<close>

theorem guard_check_reserves:
  assumes "guard_check host phase nodes mem_size = Inr 0" and "memory_bytes host = Inr (total_mem, available)"
  shows "reserve_bytes total_mem + max (2 * GIB) (nodes * 5 * GIB div 4) \<le> available \<and>
    (phase = Qemu_Start \<longrightarrow> (\<exists>capacity. capacity_bytes mem_size = Inr capacity \<and>
       \<not> available - nodes * capacity < reserve_bytes total_mem + GIB))"
  using assms by (auto simp: guard_check_def launch_headroom_def Let_def split: if_splits)

definition demo_host :: host_report where
  "demo_host = \<lparr>hr_platform = ''linux'', hr_pressure = Inl (OSError ''no such command''),
     hr_meminfo = Inr (''MemTotal:       65536000 kB'' @ [CHR 0x0A] @ ''MemFree: 1 kB'' @ [CHR 0x0A] @
       ''MemAvailable:   50000000 kB'' @ [CHR 0x0A])\<rparr>"

lemma demo_host_memory: "memory_bytes demo_host = Inr (67108864000, 51200000000)"
proof -
  have "findall_meminfo True (''MemTotal:       65536000 kB'' @ [CHR 0x0A] @ ''MemFree: 1 kB'' @ [CHR 0x0A] @
      ''MemAvailable:   50000000 kB'' @ [CHR 0x0A]) = [(''MemTotal'', ''65536000''), (''MemAvailable'', ''50000000'')]"
    by code_simp
  moreover have "py_int ''65536000'' = Inr 65536000" "py_int ''50000000'' = Inr 50000000"
    by (simp_all add: py_int_eval)
  ultimately show ?thesis
    unfolding memory_bytes_def demo_host_def
    by (simp add: dict_update_def startswith_def getitem_def)
qed

theorem guard_check_reserves_witness:
  "reserve_bytes 67108864000 + max (2 * GIB) (4 * 5 * GIB div 4) \<le> 51200000000 \<and>
    (\<exists>capacity. capacity_bytes ''2GiB'' = Inr capacity \<and>
       \<not> 51200000000 - 4 * capacity < reserve_bytes 67108864000 + GIB)"
proof -
  have "capacity_bytes ''2GiB'' = Inr (2 * GIB)"
    by (simp add: capacity_bytes_def capacity_scale_def py_int_eval)
  then have "guard_check demo_host Qemu_Start 4 ''2GiB'' = Inr 0"
    by (simp add: guard_check_def demo_host_memory launch_headroom_def reserve_bytes_def GIB_def)
  from guard_check_reserves [OF this demo_host_memory] show ?thesis
    by blast
qed

subsection \<open>Facts about the monitor\<close>

text \<open>
  A sample of the unchanged run with a live guest and readable memory is steady.
\<close>

definition steady :: "int \<Rightarrow> file_identity \<Rightarrow> sample \<Rightarrow> bool" where
  "steady nodes identity s \<longleftrightarrow> smp_stat s = Inr identity \<and> live_guest s nodes = Inr True \<and>
     \<not> isl (memory_bytes (smp_host s))"

definition low_sample :: "sample \<Rightarrow> bool" where
  "low_sample s \<longleftrightarrow> (case memory_bytes (smp_host s) of
     Inl _ \<Rightarrow> False | Inr (total_mem, available) \<Rightarrow> available < reserve_bytes total_mem)"

definition low_before :: "(nat \<Rightarrow> sample) \<Rightarrow> nat \<Rightarrow> nat" where
  "low_before feed k = (if 0 < k \<and> low_sample (feed (k - 1)) then 1 else 0)"

lemma guard_round_continue:
  "guard_round nodes identity k low s = (events, Continue low') \<Longrightarrow>
     steady nodes identity s \<and> low' = (if low_sample s then low + 1 else 0) \<and> low' < 2 \<and> Stop_Script \<notin> set events"
  by (auto simp: guard_round_def guard_stop_def steady_def low_sample_def Let_def split: sum.splits if_splits prod.splits)

lemma guard_round_stop:
  "guard_round nodes identity k low s = (events, outcome) \<Longrightarrow> Stop_Script \<in> set events \<Longrightarrow>
     steady nodes identity s \<and> low_sample s \<and> 0 < low"
  by (auto simp: guard_round_def guard_stop_def steady_def low_sample_def Let_def split: sum.splits if_splits prod.splits)

lemma guard_round_steady:
  assumes "steady nodes identity s"
  shows "\<not> (0 < low \<and> low_sample s) \<Longrightarrow>
      \<exists>events. guard_round nodes identity k low s = (events, Continue (if low_sample s then 1 else 0))"
    and "0 < low \<Longrightarrow> low_sample s \<Longrightarrow> smp_marker s = Inr () \<Longrightarrow> smp_stop s = Inr () \<Longrightarrow>
      \<exists>events. guard_round nodes identity k low s = (events @ [Marker_Written, Stop_Script], Return 2)"
  using assms
  by (cases "memory_bytes (smp_host s)";
      auto simp: guard_round_def guard_stop_def steady_def low_sample_def Let_def split: prod.splits)+

lemmas guard_loop_induct = guard_loop.raw_induct [rotated, consumes 1]

lemma guard_loop_stop_sound:
  "guard_loop nodes identity feed k low log = Some r \<Longrightarrow> low = low_before feed k \<Longrightarrow>
     Stop_Script \<notin> set log \<Longrightarrow> (\<forall>i < k. steady nodes identity (feed i)) \<Longrightarrow> Stop_Script \<in> set (snd r) \<Longrightarrow>
     \<exists>j. (\<forall>i \<le> Suc j. steady nodes identity (feed i)) \<and> low_sample (feed j) \<and> low_sample (feed (Suc j))"
proof (induction nodes identity feed k low log r rule: guard_loop_induct)
  case (1 loop nodes identity feed k low log r)
  obtain events outcome where rd: "guard_round nodes identity k low (feed k) = (events, outcome)"
    by fastforce
  show ?case
  proof (cases "Stop_Script \<in> set events")
    case True
    from guard_round_stop [OF rd True] 1(3) have "0 < k" "low_sample (feed (k - 1))" "low_sample (feed k)"
      and "steady nodes identity (feed k)"
      by (auto simp: low_before_def split: if_splits)
    with 1(5) show ?thesis by (intro exI [of _ "k - 1"]) (auto simp: le_less)
  next
    case False
    with 1(2,4,6) rd obtain low' where c: "outcome = Continue low'"
      by (cases outcome) (auto split: if_splits)
    note st = guard_round_continue [OF rd [unfolded c]]
    show ?thesis
    proof (rule 1(1))
      show "loop nodes identity feed (Suc k) low' (log @ events) = Some r" using 1(2) rd c by simp
      show "low' = low_before feed (Suc k)" using st by (auto simp: low_before_def split: if_splits)
      show "Stop_Script \<notin> set (log @ events)" using False 1(4) by simp
      show "\<forall>i < Suc k. steady nodes identity (feed i)" using st 1(5) by (auto simp: less_Suc_eq)
      show "Stop_Script \<in> set (snd r)" by (rule 1(6))
    qed
  qed
qed

lemma guard_loop_continue:
  assumes "steady nodes identity (feed k)" and "\<not> (0 < low \<and> low_sample (feed k))"
  shows "\<exists>log'. guard_loop nodes identity feed k low log = guard_loop nodes identity feed (Suc k) (low_before feed (Suc k)) log'"
proof -
  from guard_round_steady(1) [OF assms, of k] obtain events where
    "guard_round nodes identity k low (feed k) = (events, Continue (low_before feed (Suc k)))"
    by (auto simp: low_before_def)
  then show ?thesis by (subst guard_loop.simps) auto
qed

lemma guard_loop_reaches:
  assumes "\<And>i. i < j \<Longrightarrow> steady nodes identity (feed i)"
    and "\<And>i. Suc i < j \<Longrightarrow> \<not> (low_sample (feed i) \<and> low_sample (feed (Suc i)))"
  shows "k \<le> j \<Longrightarrow> \<exists>log. guard_loop nodes identity feed 0 0 [] = guard_loop nodes identity feed k (low_before feed k) log"
proof (induction k)
  case 0
  then show ?case by (auto simp: low_before_def)
next
  case (Suc k)
  have "\<not> (0 < low_before feed k \<and> low_sample (feed k))"
    using assms(2) [of "k - 1"] Suc.prems by (cases k) (auto simp: low_before_def)
  with Suc assms(1) [of k] guard_loop_continue [of nodes identity feed k "low_before feed k"] show ?case
    by (metis Suc_leD Suc_le_lessD)
qed

text \<open>
  C25. The stop script runs only under sustained pressure: if a monitored run was stopped, there were
  two successive samples below the reserve, and up to and including them the manifest was the one
  the monitor started with and some guest was alive.  One low sample never stops a run, nor does
  pressure after the run was replaced or has ended.
\<close>

theorem guard_stops_only_under_pressure:
  assumes "guard_monitor (Inr identity) nodes feed = Some (Inr (code, log))" and "Stop_Script \<in> set log"
  shows "\<exists>j. (\<forall>i \<le> Suc j. steady nodes identity (feed i)) \<and> low_sample (feed j) \<and> low_sample (feed (Suc j))"
  using assms guard_loop_stop_sound [of nodes identity feed 0 0 "[]" "(code, log)"]
  by (auto simp: guard_monitor_def low_before_def)

text \<open>
  C39. Sustained pressure stops the run: at the first two successive low samples of a live,
  unchanged run the monitor ends with code 2, and the last things it did were to write the marker
  file and to run the stop script.
\<close>

theorem guard_stops_under_pressure:
  assumes "\<And>i. i \<le> Suc j \<Longrightarrow> steady nodes identity (feed i)"
    and "\<And>i. i < j \<Longrightarrow> \<not> (low_sample (feed i) \<and> low_sample (feed (Suc i)))"
    and "low_sample (feed j)" and "low_sample (feed (Suc j))"
    and "smp_marker (feed (Suc j)) = Inr ()" and "smp_stop (feed (Suc j)) = Inr ()"
  shows "\<exists>log. guard_monitor (Inr identity) nodes feed = Some (Inr (2, log @ [Marker_Written, Stop_Script]))"
proof -
  obtain log where start: "guard_loop nodes identity feed 0 0 [] = guard_loop nodes identity feed (Suc j) 1 log"
    using guard_loop_reaches [of "Suc j" nodes identity feed "Suc j"] assms(1-3) by (auto simp: low_before_def)
  obtain events where
    "guard_round nodes identity (Suc j) 1 (feed (Suc j)) = (events @ [Marker_Written, Stop_Script], Return 2)"
    using guard_round_steady(2) [of nodes identity "feed (Suc j)" 1 "Suc j"] assms by auto
  then have "guard_loop nodes identity feed (Suc j) 1 log = Some (2, (log @ events) @ [Marker_Written, Stop_Script])"
    by (subst guard_loop.simps) simp
  with start show ?thesis by (auto simp: guard_monitor_def)
qed

text \<open>A run whose third and fourth samples are low.\<close>

definition demo_low_host :: host_report where
  "demo_low_host = \<lparr>hr_platform = ''darwin'',
     hr_pressure = Inr ''The system has 9 pages, System-wide memory free percentage: 8%'', hr_meminfo = Inr []\<rparr>"

definition demo_sample :: "nat \<Rightarrow> sample" where
  "demo_sample k = \<lparr>smp_stat = Inr (1, 2, 3), smp_pid = (\<lambda>_. Inr ''7''), smp_kill = (\<lambda>_. Inr ()),
     smp_host = (if k < 2 then demo_host else demo_low_host), smp_marker = Inr (), smp_stop = Inr ()\<rparr>"

lemma demo_low_host_memory: "memory_bytes demo_low_host = Inr (9, 0)"
  by code_simp

lemma demo_sample_steady: "steady 1 (1, 2, 3) (demo_sample k)"
  by (simp add: steady_def demo_sample_def live_guest_def py_int_eval demo_host_memory demo_low_host_memory)

lemma demo_sample_low: "low_sample (demo_sample k) \<longleftrightarrow> 2 \<le> k"
  by (simp add: low_sample_def demo_sample_def demo_host_memory demo_low_host_memory reserve_bytes_def GIB_def)

theorem guard_stops_under_pressure_witness:
  "\<exists>log. guard_monitor (Inr (1, 2, 3)) 1 demo_sample = Some (Inr (2, log @ [Marker_Written, Stop_Script]))"
  by (rule guard_stops_under_pressure [where j = 2])
    (simp_all add: demo_sample_steady demo_sample_low, simp_all add: demo_sample_def)

lemma demo_guard_run:
  "guard_monitor (Inr (1, 2, 3)) 1 demo_sample = Some (Inr (2, [Sample_Line 67108864000 51200000000 0,
     Sample_Line 9 0 1, Sample_Line 9 0 2, Reason_Line 9 0, Marker_Written, Stop_Script]))"
proof -
  have live: "live_guest (demo_sample k) 1 = Inr True" for k
    by (simp add: live_guest_def demo_sample_def py_int_eval)
  have fields: "smp_stat (demo_sample k) = Inr (1, 2, 3)" "smp_marker (demo_sample k) = Inr ()"
    "smp_stop (demo_sample k) = Inr ()" "smp_host (demo_sample k) = (if k < 2 then demo_host else demo_low_host)" for k
    by (simp_all add: demo_sample_def)
  note round = fields Let_def guard_round_def guard_stop_def live demo_host_memory demo_low_host_memory reserve_bytes_def GIB_def
  have "guard_round 1 (1, 2, 3) 0 0 (demo_sample 0) = ([Sample_Line 67108864000 51200000000 0], Continue 0)"
    "guard_round 1 (1, 2, 3) 1 0 (demo_sample 1) = ([], Continue 0)"
    "guard_round 1 (1, 2, 3) 2 0 (demo_sample 2) = ([Sample_Line 9 0 1], Continue 1)"
    "guard_round 1 (1, 2, 3) 3 1 (demo_sample 3) =
       ([Sample_Line 9 0 2, Reason_Line 9 0, Marker_Written, Stop_Script], Return 2)"
    by (simp_all add: round)
  then show ?thesis
    by (simp add: guard_monitor_def guard_loop.simps numeral_2_eq_2 numeral_3_eq_3)
qed

theorem guard_stops_only_under_pressure_witness:
  "\<exists>j. (\<forall>i \<le> Suc j. steady 1 (1, 2, 3) (demo_sample i)) \<and> low_sample (demo_sample j) \<and> low_sample (demo_sample (Suc j))"
  by (rule guard_stops_only_under_pressure [OF demo_guard_run]) simp

end
