(* ===== verification/Recipe.thy ===== *)
theory Recipe
  imports Config_Facts
begin

section \<open>Experiment recipes\<close>

text \<open>
  Model of \<^verbatim>\<open>validate_recipe\<close> and \<^verbatim>\<open>DEFAULT_RECIPE\<close> of \<^verbatim>\<open>ubsim_lab/experiments.py\<close>.  The validated
  dictionary is the record \<open>recipe\<close>: its keys are exactly the fields, and every value has been
  checked.  Messages written in Chinese in the source are rendered by short English ones.
\<close>

definition OPS :: "string list" where
  "OPS = [''read_bw'', ''write_bw'', ''read_lat'', ''write_lat'']"

record recipe =
  rc_operations :: "string list"
  rc_sizes :: "int list"
  rc_jettys :: "int list"
  rc_total_ops :: int
  rc_warmups :: int
  rc_repeats :: int
  rc_depth :: int
  rc_jfc_depth :: int
  rc_post_list :: int
  rc_timeout_s :: int

definition DEFAULT_RECIPE :: recipe where
  "DEFAULT_RECIPE = \<lparr>rc_operations = [''read_bw''], rc_sizes = [2, 32, 128, 512, 2048, 4096], rc_jettys = [1],
     rc_total_ops = 16384, rc_warmups = 1, rc_repeats = 3, rc_depth = 8192, rc_jfc_depth = 524288,
     rc_post_list = 256, rc_timeout_s = 900\<rparr>"

definition RECIPE_FIELDS :: "string list" where
  "RECIPE_FIELDS = [''operations'', ''sizes'', ''jettys'', ''total_ops'', ''warmups'', ''repeats'', ''depth'',
     ''jfc_depth'', ''post_list'', ''timeout_s'']"

definition recipe_json :: "recipe \<Rightarrow> json" where
  "recipe_json r = JObj [(''operations'', JList (map JStr (rc_operations r))), (''sizes'', JList (map JInt (rc_sizes r))),
     (''jettys'', JList (map JInt (rc_jettys r))), (''total_ops'', JInt (rc_total_ops r)), (''warmups'', JInt (rc_warmups r)),
     (''repeats'', JInt (rc_repeats r)), (''depth'', JInt (rc_depth r)), (''jfc_depth'', JInt (rc_jfc_depth r)),
     (''post_list'', JInt (rc_post_list r)), (''timeout_s'', JInt (rc_timeout_s r))]"

subsection \<open>Validation\<close>

definition check_values :: "dict \<Rightarrow> string \<Rightarrow> nat \<Rightarrow> json list res" where
  "check_values d field maximum = rbind (getitem field d) (\<lambda>v.
     let bad = Inl (ValueError (field @ '' needs 1-'' @ show_nat maximum @ '' distinct values'')) in
     case v of
       JList vs \<Rightarrow> if 1 \<le> length vs \<and> length vs \<le> maximum \<and> distinct (map py_str vs) then Inr vs else bad
     | _ \<Rightarrow> bad)"

fun check_op :: "json \<Rightarrow> string res" where
  "check_op (JStr s) = (if s \<in> set OPS then Inr s else Inl (ValueError ''operations holds an unsupported test''))"
| "check_op _ = Inl (ValueError ''operations holds an unsupported test'')"

definition int_between :: "string \<Rightarrow> int \<Rightarrow> int \<Rightarrow> json \<Rightarrow> int res" where
  "int_between message low high v = (case v of
       JInt i \<Rightarrow> if low \<le> i \<and> i \<le> high then Inr i else Inl (ValueError message)
     | _ \<Rightarrow> Inl (ValueError message))"

definition recipe_integer :: "dict \<Rightarrow> string \<Rightarrow> int \<Rightarrow> int \<Rightarrow> int res" where
  "recipe_integer d name low high = rbind (getitem name d)
     (int_between (name @ '' must lie in '' @ str_int low @ ''-'' @ str_int high) low high)"

text \<open>
  \<^verbatim>\<open>min(device.get("max_jettys", 47) for device in spec["devices"])\<close>.  The callers pass a document
  that compiled, so the devices are objects and the limits integers.
\<close>

definition device_limit :: "json \<Rightarrow> int res" where
  "device_limit device = (case device of
       JObj fs \<Rightarrow> (case dict_get ''max_jettys'' (JInt 47) fs of
           JInt i \<Rightarrow> Inr i | _ \<Rightarrow> Inl (TypeError ''not an integer limit''))
     | _ \<Rightarrow> Inl (AttributeError ''get''))"

definition jetty_limit :: "dict \<Rightarrow> int res" where
  "jetty_limit spec = rbind (getitem ''devices'' spec) (\<lambda>v. case v of
       JList ds \<Rightarrow> rbind (rmap device_limit ds) min_of
     | _ \<Rightarrow> Inl (TypeError ''devices is not a list''))"

definition check_window :: "int \<Rightarrow> int \<Rightarrow> int \<Rightarrow> int \<Rightarrow> int \<Rightarrow> unit \<Rightarrow> unit res" where
  "check_window total_ops depth jfc post j _ =
     (if total_ops mod j \<noteq> 0 \<or> total_ops div j < post
      then Inl (ValueError (''total_ops must be divisible by J='' @ str_int j @ '' with post_list operations per Jetty''))
      else if jfc < j * min depth (total_ops div j)
      then Inl (ValueError (''jfc_depth does not cover the window of J='' @ str_int j))
      else Inr ())"

definition device_single :: "json \<Rightarrow> bool res" where
  "device_single device = (case device of
       JObj fs \<Rightarrow> rbind (getitem ''ports'' fs) (\<lambda>p. Inr (p = JInt 1))
     | _ \<Rightarrow> Inl (TypeError ''device is not an object''))"

definition single_port :: "dict \<Rightarrow> bool res" where
  "single_port spec = rbind (getitem ''devices'' spec) (\<lambda>v. case v of
       JList ds \<Rightarrow> rbind (rmap device_single ds) (\<lambda>bs. Inr (list_all id bs))
     | _ \<Rightarrow> Inl (TypeError ''devices is not a list''))"

definition run_count :: "recipe \<Rightarrow> int" where
  "run_count r = int (length (rc_operations r)) * int (length (rc_sizes r)) * int (length (rc_jettys r)) *
     (rc_warmups r + rc_repeats r)"

definition recipe_values :: "dict \<Rightarrow> dict \<Rightarrow> recipe res" where
  "recipe_values d spec =
     rbind (rbind (check_values d ''operations'' 4) (rmap check_op)) (\<lambda>operations.
     rbind (check_values d ''sizes'' 24) (\<lambda>raw_sizes.
     rbind (check_values d ''jettys'' 12) (\<lambda>raw_jettys.
     rbind (rmap (int_between ''a size must lie in 1B-10MiB'' 1 (10 * 1024 * 1024)) raw_sizes) (\<lambda>sizes.
     rbind (jetty_limit spec) (\<lambda>max_jettys.
     rbind (rmap (int_between (''jettys must lie in 1-'' @ str_int max_jettys) 1 max_jettys) raw_jettys) (\<lambda>jettys.
     if list_ex (\<lambda>op. endswith op ''_lat'') operations \<and> jettys \<noteq> [1]
     then Inl (ValueError ''a latency test supports one Jetty only'')
     else
     rbind (recipe_integer d ''total_ops'' 256 1000000) (\<lambda>total_ops.
     rbind (recipe_integer d ''warmups'' 0 5) (\<lambda>warmups.
     rbind (recipe_integer d ''repeats'' 1 10) (\<lambda>repeats.
     rbind (recipe_integer d ''depth'' 1 8192) (\<lambda>depth.
     rbind (recipe_integer d ''jfc_depth'' 1 2097152) (\<lambda>jfc.
     rbind (recipe_integer d ''post_list'' 1 256) (\<lambda>post.
     rbind (recipe_integer d ''timeout_s'' 10 7200) (\<lambda>timeout.
     if depth < post then Inl (ValueError ''depth is smaller than post_list'')
     else rbind (rfold (check_window total_ops depth jfc post) jettys ()) (\<lambda>_.
     Inr \<lparr>rc_operations = operations, rc_sizes = sizes, rc_jettys = jettys, rc_total_ops = total_ops,
       rc_warmups = warmups, rc_repeats = repeats, rc_depth = depth, rc_jfc_depth = jfc, rc_post_list = post,
       rc_timeout_s = timeout\<rparr>))))))))))))))"

definition validate_recipe :: "json \<Rightarrow> dict \<Rightarrow> recipe res" where
  "validate_recipe raw spec = (case raw of
       JObj d \<Rightarrow>
         if fst ` set d \<noteq> set RECIPE_FIELDS
         then Inl (ValueError ''recipe fields are incomplete or unknown'')
         else rbind (recipe_values d spec) (\<lambda>r.
           if run_count r > 120 then Inl (ValueError ''more than 120 runs'')
           else rbind (compile_topology (JObj spec)) (\<lambda>plan.
           if length (p_node_ids plan) \<noteq> 2 then Inl (ValueError ''two hosts with one port per device are required'')
           else rbind (single_port spec) (\<lambda>single.
           if \<not> single then Inl (ValueError ''two hosts with one port per device are required'')
           else Inr r)))
     | _ \<Rightarrow> Inl (ValueError ''recipe fields are incomplete or unknown''))"

subsection \<open>What an accepted recipe satisfies\<close>

definition window_ok :: "recipe \<Rightarrow> int \<Rightarrow> bool" where
  "window_ok r j \<longleftrightarrow> j dvd rc_total_ops r \<and> rc_post_list r \<le> rc_total_ops r div j \<and>
     j * min (rc_depth r) (rc_total_ops r div j) \<le> rc_jfc_depth r"

definition between :: "int \<Rightarrow> int \<Rightarrow> int \<Rightarrow> bool" where
  "between low high i \<longleftrightarrow> low \<le> i \<and> i \<le> high"

definition recipe_ok :: "int \<Rightarrow> recipe \<Rightarrow> bool" where
  "recipe_ok limit r \<longleftrightarrow>
     (1 \<le> length (rc_operations r) \<and> length (rc_operations r) \<le> 4 \<and> distinct (rc_operations r) \<and>
      set (rc_operations r) \<subseteq> set OPS) \<and>
     (1 \<le> length (rc_sizes r) \<and> length (rc_sizes r) \<le> 24 \<and> distinct (rc_sizes r) \<and>
      list_all (between 1 (10 * 1024 * 1024)) (rc_sizes r)) \<and>
     (1 \<le> length (rc_jettys r) \<and> length (rc_jettys r) \<le> 12 \<and> distinct (rc_jettys r) \<and>
      list_all (between 1 limit) (rc_jettys r)) \<and>
     (list_ex (\<lambda>op. endswith op ''_lat'') (rc_operations r) \<longrightarrow> rc_jettys r = [1]) \<and>
     between 256 1000000 (rc_total_ops r) \<and> between 0 5 (rc_warmups r) \<and> between 1 10 (rc_repeats r) \<and>
     between 1 8192 (rc_depth r) \<and> between 1 2097152 (rc_jfc_depth r) \<and> between 1 256 (rc_post_list r) \<and>
     between 10 7200 (rc_timeout_s r) \<and> rc_post_list r \<le> rc_depth r \<and> list_all (window_ok r) (rc_jettys r)"

text \<open>The dictionary holds the values of the recipe.\<close>

definition holds_recipe :: "dict \<Rightarrow> recipe \<Rightarrow> bool" where
  "holds_recipe d r \<longleftrightarrow>
     map_of d ''operations'' = Some (JList (map JStr (rc_operations r))) \<and>
     map_of d ''sizes'' = Some (JList (map JInt (rc_sizes r))) \<and>
     map_of d ''jettys'' = Some (JList (map JInt (rc_jettys r))) \<and>
     map_of d ''total_ops'' = Some (JInt (rc_total_ops r)) \<and> map_of d ''warmups'' = Some (JInt (rc_warmups r)) \<and>
     map_of d ''repeats'' = Some (JInt (rc_repeats r)) \<and> map_of d ''depth'' = Some (JInt (rc_depth r)) \<and>
     map_of d ''jfc_depth'' = Some (JInt (rc_jfc_depth r)) \<and> map_of d ''post_list'' = Some (JInt (rc_post_list r)) \<and>
     map_of d ''timeout_s'' = Some (JInt (rc_timeout_s r))"

lemma check_values_Inr:
  "check_values d field m = Inr vs \<longleftrightarrow> map_of d field = Some (JList vs) \<and>
     1 \<le> length vs \<and> length vs \<le> m \<and> distinct (map py_str vs)"
proof (cases "map_of d field")
  case (Some v)
  then show ?thesis by (cases v) (auto simp: check_values_def getitem_def Let_def split: if_splits)
qed (simp add: check_values_def getitem_def)

lemma check_op_Inr: "check_op v = Inr s \<longleftrightarrow> v = JStr s \<and> s \<in> set OPS"
  by (cases v) auto

lemma int_between_Inr: "int_between m low high v = Inr i \<longleftrightarrow> v = JInt i \<and> between low high i"
  by (auto simp: int_between_def between_def split: json.splits if_splits)

lemma recipe_integer_Inr:
  "recipe_integer d name low high = Inr i \<longleftrightarrow> map_of d name = Some (JInt i) \<and> between low high i"
  by (auto simp: recipe_integer_def int_between_Inr)

lemma rmap_check_op: "rmap check_op vs = Inr ops \<longleftrightarrow> vs = map JStr ops \<and> set ops \<subseteq> set OPS"
proof (induction vs arbitrary: ops)
  case (Cons v vs)
  then show ?case by (cases ops) (auto simp: check_op_Inr)
qed auto

lemma rmap_int_between:
  "rmap (int_between m low high) vs = Inr ns \<longleftrightarrow> vs = map JInt ns \<and> list_all (between low high) ns"
proof (induction vs arbitrary: ns)
  case (Cons v vs)
  then show ?case by (cases ns) (auto simp: int_between_Inr)
qed auto

lemma distinct_py_str [simp]:
  "distinct (map (py_str \<circ> JInt) ns) \<longleftrightarrow> distinct ns" "distinct (map (py_str \<circ> JStr) ss) \<longleftrightarrow> distinct ss"
  by (simp_all add: distinct_map inj_on_def py_str_def)

lemma check_windows_Inr:
  "rfold (check_window total_ops depth jfc post) js u = Inr v \<longleftrightarrow>
     list_all (\<lambda>j. j dvd total_ops \<and> post \<le> total_ops div j \<and> j * min depth (total_ops div j) \<le> jfc) js"
  by (induction js arbitrary: u) (auto simp: check_window_def not_less dvd_eq_mod_eq_0)

lemmas recipe_iffs = rbind_eq_Inr guard_eq_Inr check_values_Inr rmap_check_op rmap_int_between
  recipe_integer_Inr check_windows_Inr

lemma recipe_values_Inr:
  assumes "jetty_limit spec = Inr limit"
  shows "recipe_values d spec = Inr r \<longleftrightarrow> holds_recipe d r \<and> recipe_ok limit r"
proof
  assume "recipe_values d spec = Inr r"
  then show "holds_recipe d r \<and> recipe_ok limit r"
    unfolding recipe_values_def assms recipe_iffs rbind_simps
    apply (elim exE conjE)
    apply hypsubst
    unfolding holds_recipe_def recipe_ok_def window_ok_def recipe.select_convs sum.inject
    apply hypsubst
    unfolding recipe.select_convs
    apply (intro conjI)
    apply simp_all
    done
next
  assume "holds_recipe d r \<and> recipe_ok limit r"
  then have h: "holds_recipe d r" and ok: "recipe_ok limit r" by simp_all
  note hs = h [unfolded holds_recipe_def]
  have v: "check_values d ''operations'' 4 = Inr (map JStr (rc_operations r))"
    "check_values d ''sizes'' 24 = Inr (map JInt (rc_sizes r))"
    "check_values d ''jettys'' 12 = Inr (map JInt (rc_jettys r))"
    unfolding check_values_Inr using hs ok by (simp_all add: recipe_ok_def)
  have l: "rmap check_op (map JStr (rc_operations r)) = Inr (rc_operations r)"
    "rmap (int_between m1 1 (10 * 1024 * 1024)) (map JInt (rc_sizes r)) = Inr (rc_sizes r)"
    "rmap (int_between m2 1 limit) (map JInt (rc_jettys r)) = Inr (rc_jettys r)" for m1 m2
    unfolding rmap_check_op rmap_int_between using ok by (simp_all add: recipe_ok_def)
  have i: "recipe_integer d ''total_ops'' 256 1000000 = Inr (rc_total_ops r)"
    "recipe_integer d ''warmups'' 0 5 = Inr (rc_warmups r)"
    "recipe_integer d ''repeats'' 1 10 = Inr (rc_repeats r)"
    "recipe_integer d ''depth'' 1 8192 = Inr (rc_depth r)"
    "recipe_integer d ''jfc_depth'' 1 2097152 = Inr (rc_jfc_depth r)"
    "recipe_integer d ''post_list'' 1 256 = Inr (rc_post_list r)"
    "recipe_integer d ''timeout_s'' 10 7200 = Inr (rc_timeout_s r)"
    unfolding recipe_integer_Inr using hs ok by (simp_all add: recipe_ok_def)
  have w: "rfold (check_window (rc_total_ops r) (rc_depth r) (rc_jfc_depth r) (rc_post_list r)) (rc_jettys r) () = Inr ()"
    unfolding check_windows_Inr using ok by (simp add: recipe_ok_def window_ok_def list_all_iff)
  have c: "\<not> (list_ex (\<lambda>op. endswith op ''_lat'') (rc_operations r) \<and> rc_jettys r \<noteq> [1])"
    "\<not> rc_depth r < rc_post_list r"
    using ok by (auto simp: recipe_ok_def)
  show "recipe_values d spec = Inr r"
    unfolding recipe_values_def assms v l i w rbind_simps if_not_P [OF c(1)] if_not_P [OF c(2)] by simp
qed

subsection \<open>Recipes against compiled documents\<close>

definition device_shape :: "json \<Rightarrow> bool" where
  "device_shape v \<longleftrightarrow> (\<exists>d c. v = JObj d \<and> map_of d ''ports'' = Some (JInt c) \<and>
     (\<exists>l. dict_get ''max_jettys'' (JInt 47) d = JInt l \<and> 2 \<le> l))"

lemma check_device_shape:
  assumes "check_device nn sim sw x st = Inr st'"
  shows "device_shape (snd x)"
proof -
  from assms obtain d name c s s' where d: "snd x = JObj d" "map_of d ''ports'' = Some (JInt c)"
    "check_max_jettys d name s = Inr s'"
    by (auto simp: check_device_def Let_def split: if_splits)
  then have "\<exists>l. dict_get ''max_jettys'' (JInt 47) d = JInt l \<and> 2 \<le> l"
    by (auto simp: check_max_jettys_def dict_get_def has_key_map_of split: if_splits)
  with d show ?thesis by (auto simp: device_shape_def)
qed

interpretation dev_shape: checked_loop "check_device nn sim sw" "\<lambda>done _. \<forall>x \<in> set done. device_shape (snd x)" is_TopologyError
  for nn sim sw
  by unfold_locales (auto dest: check_device_shape intro: check_device_raises)

lemma compiled_devices:
  assumes "compile_topology (JObj spec) = Inr plan"
  obtains ds where "map_of spec ''devices'' = Some (JList ds)" "ds \<noteq> []" "\<forall>v \<in> set ds. device_shape v"
proof -
  from compile_topology_accepted [OF assms] obtain nodes devices switches links machine ns st where
    acc: "accepted (JObj spec) plan nodes devices switches links machine ns st" by blast
  then have m: "map_of spec ''devices'' = Some (JList devices)"
    and c: "check_devices (ns_names ns) (p_simulator plan) (p_switch_id plan) devices = Inr st"
    and n: "node_rules ns (length nodes) (p_checkpoint plan) = Inr (p_simulator plan)"
      "device_rules st (length nodes) (length devices) = Inr (p_port_count plan)"
    by (auto simp: accepted_def)
  from c have "\<forall>x \<in> set (enumerate 0 devices). device_shape (snd x)"
    unfolding check_devices_def by (rule dev_shape.loop_inv [rotated]) simp
  then have "\<forall>v \<in> set devices. device_shape v"
    by (metis in_set_conv_nth length_enumerate nth_enumerate_eq snd_conv)
  moreover have "devices \<noteq> []"
    using n node_rules_Inr [OF n(1)] accepted_facts(1) [OF acc] by (auto simp: device_rules_def split: if_splits)
  ultimately show thesis using that m by blast
qed

lemma device_shape_limit: "device_shape v \<Longrightarrow> \<exists>i. device_limit v = Inr i"
  by (auto simp: device_shape_def device_limit_def)

lemma device_shape_ports: "device_shape v \<Longrightarrow> \<exists>b. device_single v = Inr b"
  by (auto simp: device_shape_def device_single_def getitem_def)

lemma compiled_total:
  assumes "compile_topology (JObj spec) = Inr plan"
  obtains limit single where "jetty_limit spec = Inr limit" "single_port spec = Inr single"
proof -
  obtain ds where ds: "map_of spec ''devices'' = Some (JList ds)" "ds \<noteq> []" "\<forall>v \<in> set ds. device_shape v"
    using compiled_devices [OF assms] .
  from rmap_total [of ds device_limit] device_shape_limit ds(3) obtain ys where
    ys: "rmap device_limit ds = Inr ys" "length ys = length ds" by blast
  from rmap_total [of ds device_single] device_shape_ports ds(3) obtain bs where
    bs: "rmap device_single ds = Inr bs" by blast
  obtain limit where "min_of ys = Inr limit"
    using ys(2) ds(2) by (cases ys) (auto simp: min_of_def)
  with ys(1) have "jetty_limit spec = Inr limit"
    unfolding jetty_limit_def getitem_def ds(1) by simp
  moreover from bs have "single_port spec = Inr (list_all id bs)"
    unfolding single_port_def getitem_def ds(1) by simp
  ultimately show thesis by (rule that)
qed

lemma validate_recipe_Inr:
  assumes "compile_topology (JObj spec) = Inr plan" and "jetty_limit spec = Inr limit" and "single_port spec = Inr single"
  shows "validate_recipe raw spec = Inr r \<longleftrightarrow>
    (\<exists>d. raw = JObj d \<and> fst ` set d = set RECIPE_FIELDS \<and> holds_recipe d r) \<and>
    recipe_ok limit r \<and> run_count r \<le> 120 \<and> length (p_node_ids plan) = 2 \<and> single"
proof (cases raw)
  case (JObj d)
  then show ?thesis
    unfolding validate_recipe_def using recipe_values_Inr [OF assms(2), of d r]
    by (auto simp: assms not_less)
qed (simp_all add: validate_recipe_def)

lemma holds_recipe_json: "\<exists>d. recipe_json r = JObj d \<and> fst ` set d = set RECIPE_FIELDS \<and> holds_recipe d r"
  unfolding recipe_json_def holds_recipe_def RECIPE_FIELDS_def by simp

subsection \<open>Which exceptions\<close>

lemma raises_ValueError [raises_intro]: "raises_only is_ValueError (Inl (ValueError m))"
  by (simp add: raises_only_def)

lemma raises_rmap: "(\<And>x. raises_only P (f x)) \<Longrightarrow> raises_only P (rmap f xs)"
  by (induction xs) (auto intro!: raises_intro)

lemma raises_rfold: "(\<And>x s. raises_only P (f x s)) \<Longrightarrow> raises_only P (rfold f xs s)"
  by (induction xs arbitrary: s) (auto intro!: raises_intro)

lemma raises_getitem: "has_key k d \<Longrightarrow> raises_only P (getitem k d)"
  by (simp add: getitem_present raises_only_Inr)

lemma check_values_raises: "has_key f d \<Longrightarrow> raises_only is_ValueError (check_values d f m)"
  unfolding check_values_def Let_def
  by (intro raises_only_rbind raises_getitem) (auto split: json.splits intro!: raises_intro)

lemma check_op_raises: "raises_only is_ValueError (check_op v)"
  by (cases v) (auto intro!: raises_intro)

lemma int_between_raises: "raises_only is_ValueError (int_between m low high v)"
  by (cases v) (auto simp: int_between_def intro!: raises_intro)

lemma recipe_integer_raises: "has_key f d \<Longrightarrow> raises_only is_ValueError (recipe_integer d f low high)"
  unfolding recipe_integer_def by (intro raises_only_rbind raises_getitem int_between_raises)

lemma check_window_raises: "raises_only is_ValueError (check_window a b c e j u)"
  unfolding check_window_def by (intro raises_intro)

lemma recipe_values_raises:
  assumes "fst ` set d = set RECIPE_FIELDS" and "jetty_limit spec = Inr limit"
  shows "raises_only is_ValueError (recipe_values d spec)"
proof -
  have k: "has_key f d" if "f \<in> set RECIPE_FIELDS" for f
    using that assms(1) by (simp add: has_key_def)
  show ?thesis
    unfolding recipe_values_def assms(2)
    by (intro raises_only_rbind raises_only_if raises_ValueError raises_only_Inr check_values_raises raises_rmap check_op_raises
        int_between_raises recipe_integer_raises raises_rfold check_window_raises k) (simp_all add: RECIPE_FIELDS_def)
qed

subsection \<open>Properties\<close>

text \<open>
  C8. Type of an accepted recipe: against a document that compiles, an accepted recipe names one to
  four distinct supported tests, distinct sizes of 1B..10MiB and distinct Jetty counts within the
  smallest device limit, has all numbers in range, one Jetty for latency tests, a total divisible
  by every Jetty count with a full batch each and a completion queue that covers the window, at most
  120 runs, and belongs to two hosts with one port per device.
\<close>

theorem validate_recipe_sound:
  assumes "compile_topology (JObj spec) = Inr plan" and "validate_recipe raw spec = Inr r"
  shows "\<exists>limit. jetty_limit spec = Inr limit \<and> recipe_ok limit r \<and> run_count r \<le> 120 \<and>
    length (p_node_ids plan) = 2 \<and> single_port spec = Inr True"
proof -
  obtain limit single where "jetty_limit spec = Inr limit" "single_port spec = Inr single"
    using compiled_total [OF assms(1)] .
  with validate_recipe_Inr [OF assms(1) this, of raw r] assms(2) show ?thesis by simp
qed

text \<open>
  Every recipe with these properties is accepted, and validation returns exactly the values the
  saved JSON holds.
\<close>

theorem validate_recipe_complete:
  assumes "compile_topology (JObj spec) = Inr plan" and "length (p_node_ids plan) = 2" and "single_port spec = Inr True"
    and "jetty_limit spec = Inr limit" and "recipe_ok limit r" and "run_count r \<le> 120"
  shows "validate_recipe (recipe_json r) spec = Inr r"
  unfolding validate_recipe_Inr [OF assms(1,4,3)] using holds_recipe_json assms by simp

text \<open>
  Against a document that compiles, every JSON value that is not accepted is rejected with a
  \<^verbatim>\<open>ValueError\<close>, which the workbench reports as a bad request; no other exception escapes.
\<close>

theorem validate_recipe_raises:
  assumes "compile_topology (JObj spec) = Inr plan" and "validate_recipe raw spec = Inl e"
  shows "is_ValueError e"
proof -
  obtain limit single where t: "jetty_limit spec = Inr limit" "single_port spec = Inr single"
    using compiled_total [OF assms(1)] .
  have "raises_only is_ValueError (validate_recipe raw spec)"
  proof (cases raw)
    case (JObj d)
    then show ?thesis
      unfolding validate_recipe_def assms(1) t using recipe_values_raises [OF _ t(1), of d]
      by (auto intro!: raises_intro simp: assms(1) t)
  qed (simp_all add: validate_recipe_def raises_ValueError)
  then show ?thesis using assms(2) by (rule raises_onlyD)
qed

text \<open>Witnesses: the default recipe on the two-host gem5 document.\<close>

lemma gem5_spec_facts:
  "jetty_limit gem5_spec = Inr 47" "single_port gem5_spec = Inr True" "length (p_node_ids gem5_two_heads_plan) = 2"
  by code_simp+

lemma default_recipe_ok: "recipe_ok 47 DEFAULT_RECIPE" "run_count DEFAULT_RECIPE \<le> 120"
  by (simp_all add: recipe_ok_def DEFAULT_RECIPE_def OPS_def between_def window_ok_def endswith_def startswith_def run_count_def)

theorem validate_recipe_complete_witness: "validate_recipe (recipe_json DEFAULT_RECIPE) gem5_spec = Inr DEFAULT_RECIPE"
  by (rule validate_recipe_complete [OF compile_gem5_spec gem5_spec_facts(3,2,1) default_recipe_ok])

lemma default_recipe_validates: "validate_recipe (recipe_json DEFAULT_RECIPE) gem5_spec = Inr DEFAULT_RECIPE"
  unfolding validate_recipe_Inr [OF compile_gem5_spec gem5_spec_facts(1,2)]
  using default_recipe_ok gem5_spec_facts(3) holds_recipe_json by simp

theorem validate_recipe_sound_witness:
  "\<exists>limit. jetty_limit gem5_spec = Inr limit \<and> recipe_ok limit DEFAULT_RECIPE \<and> run_count DEFAULT_RECIPE \<le> 120 \<and>
    length (p_node_ids gem5_two_heads_plan) = 2 \<and> single_port gem5_spec = Inr True"
  by (rule validate_recipe_sound [OF compile_gem5_spec default_recipe_validates])

theorem validate_recipe_raises_witness: "is_ValueError (ValueError ''recipe fields are incomplete or unknown'')"
  by (rule validate_recipe_raises [OF compile_gem5_spec, of JNull]) (simp add: validate_recipe_def)

end
