(* ===== verification/Task_Store.thy ===== *)
theory Task_Store
  imports Recipe
begin

section \<open>The task store of the workbench\<close>

text \<open>
  Model of the task functions of \<^verbatim>\<open>ubsim_lab/web.py\<close> (task identifiers and paths, reading, summaries,
  resizing, creating, copying, saving) and of \<^verbatim>\<open>recipe_path\<close> and \<^verbatim>\<open>read_recipe\<close> of
  \<^verbatim>\<open>ubsim_lab/experiments.py\<close>.  A file of the store is the JSON value it decodes to, or \<^const>\<open>None\<close>
  when it does not decode; \<^verbatim>\<open>_atomic_json\<close> replaces it in one step.  Labels and messages written in
  Chinese are rendered in English.
\<close>

type_synonym store = "ppath \<rightharpoonup> json option"
type_synonym 'a store_op = "store \<Rightarrow> 'a res \<times> store"

subsection \<open>Identifiers and paths\<close>

definition slug_char :: "char \<Rightarrow> bool" where
  "slug_char c \<longleftrightarrow> c \<in> set ''abcdefghijklmnopqrstuvwxyz0123456789-''"

definition slug :: "string \<Rightarrow> bool" where
  "slug s \<longleftrightarrow> s \<noteq> [] \<and> list_all slug_char s"

definition TASK_ID :: "string \<Rightarrow> bool" where
  "TASK_ID s \<longleftrightarrow> startswith s ''template-'' \<and> slug (drop 9 s) \<or> startswith s ''task-'' \<and> slug (drop 5 s)"

definition TEMPLATES :: "((string \<times> string) \<times> string) list" where
  "TEMPLATES = [((''gem5'', ''switch''), ''topology-gem5-two-heads.json''),
     ((''qemu'', ''switch''), ''topology-qemu-two-heads.json'')]"

definition TEMPLATE_LABELS :: sdict where
  "TEMPLATE_LABELS = [(''topology-gem5-two-heads.json'', ''gem5 two hosts on a switch chip''),
     (''topology-qemu-two-heads.json'', ''QEMU two hosts on a switch chip'')]"

definition tasks_dir :: "string \<Rightarrow> ppath" where
  "tasks_dir root = path_join (path_join (to_path root) (to_path ''configs'')) (to_path ''ui-tasks'')"

definition configs_dir :: "string \<Rightarrow> ppath" where
  "configs_dir root = path_join (to_path root) (to_path ''configs'')"

definition task_path :: "string \<Rightarrow> string \<Rightarrow> ppath res" where
  "task_path root task_id =
     (if \<not> TASK_ID task_id then Inl (ValueError ''invalid task id'')
      else if startswith task_id ''template-'' then
        (let name = removeprefix task_id ''template-'' @ ''.json'' in
         if name \<notin> snd ` set TEMPLATES then Inl (ValueError ''no such template'')
         else Inr (path_join (configs_dir root) (to_path name)))
      else Inr (path_join (tasks_dir root) (to_path (task_id @ ''.json''))))"

definition metadata_path :: "string \<Rightarrow> string \<Rightarrow> ppath" where
  "metadata_path root task_id = path_join (tasks_dir root) (to_path (task_id @ ''.meta.json''))"

definition recipe_path :: "string \<Rightarrow> string \<Rightarrow> ppath res" where
  "recipe_path root task_id = rbind (task_path root task_id) (\<lambda>_.
     Inr (path_join (tasks_dir root) (to_path (task_id @ ''.recipe.json''))))"

subsection \<open>Reading\<close>

text \<open>A value used as a dictionary; the exception otherwise depends on the use.\<close>

definition as_obj :: "py_exc \<Rightarrow> json \<Rightarrow> dict res" where
  "as_obj e v = (case v of JObj d \<Rightarrow> Inr d | _ \<Rightarrow> Inl e)"

lemma as_obj_Inr [simp]: "as_obj e v = Inr d \<longleftrightarrow> v = JObj d"
  by (cases v) (simp_all add: as_obj_def)

lemma as_obj_JObj [simp]: "as_obj e (JObj d) = Inr d"
  by (simp add: as_obj_def)

definition loads :: "json option \<Rightarrow> json res" where
  "loads file = (case file of Some v \<Rightarrow> Inr v | None \<Rightarrow> Inl (JSONDecodeError ''no JSON''))"

text \<open>\<^verbatim>\<open>_task_metadata\<close>: a missing or unreadable file is the empty dictionary.\<close>

definition task_metadata :: "string \<Rightarrow> store \<Rightarrow> string \<Rightarrow> json" where
  "task_metadata root fs task_id = (case fs (metadata_path root task_id) of
       Some (Some v) \<Rightarrow> v
     | _ \<Rightarrow> JObj [])"

definition read_task :: "string \<Rightarrow> store \<Rightarrow> string \<Rightarrow> json res" where
  "read_task root fs task_id = rbind (task_path root task_id) (\<lambda>path.
     case fs path of None \<Rightarrow> Inl (ValueError ''no such task'') | Some file \<Rightarrow> loads file)"

definition display_name :: "string \<Rightarrow> store \<Rightarrow> string \<Rightarrow> json \<Rightarrow> json res" where
  "display_name root fs task_id spec =
     (if startswith task_id ''template-'' then
        rbind (task_path root task_id) (\<lambda>path. rbind (jget ''name'' spec) (\<lambda>name.
          Inr (case map_of TEMPLATE_LABELS (last (pp_parts path)) of Some label \<Rightarrow> JStr label | None \<Rightarrow> name)))
      else rbind (as_obj (AttributeError ''get'') (task_metadata root fs task_id)) (\<lambda>d.
        rbind (jget ''name'' spec) (\<lambda>name. Inr (dict_get ''display_name'' name d))))"

text \<open>\<^verbatim>\<open>len(value)\<close> and \<^verbatim>\<open>bool(value)\<close> of a decoded value; a float is true unless it prints as zero.\<close>

definition jlen :: "json \<Rightarrow> nat res" where
  "jlen v = (case v of
       JList xs \<Rightarrow> Inr (length xs) | JObj d \<Rightarrow> Inr (length d) | JStr s \<Rightarrow> Inr (length s)
     | _ \<Rightarrow> Inl (TypeError ''object has no len()''))"

definition jtruth :: "json \<Rightarrow> bool" where
  "jtruth v = (case v of
       JNull \<Rightarrow> False | JBool b \<Rightarrow> b | JInt i \<Rightarrow> i \<noteq> 0 | JFloat r \<Rightarrow> r \<notin> {''0.0'', ''-0.0''}
     | JStr s \<Rightarrow> s \<noteq> [] | JList xs \<Rightarrow> xs \<noteq> [] | JObj d \<Rightarrow> d \<noteq> [])"

record task_summary =
  ts_id :: string
  ts_name :: json
  ts_simulator :: json
  ts_layout :: string
  ts_node_count :: nat
  ts_editable :: bool
  ts_topology_name :: json

definition first_simulator :: "json \<Rightarrow> json res" where
  "first_simulator spec = rbind (rbind (rbind (jget ''nodes'' spec) (jindex 0)) (jget ''simulator'')) Inr"

definition summary :: "string \<Rightarrow> store \<Rightarrow> string \<Rightarrow> task_summary res" where
  "summary root fs task_id =
     rbind (read_task root fs task_id) (\<lambda>spec.
     rbind (display_name root fs task_id spec) (\<lambda>name.
     rbind (first_simulator spec) (\<lambda>simulator.
     rbind (jget ''switches'' spec) (\<lambda>switches.
     rbind (rbind (jget ''nodes'' spec) jlen) (\<lambda>count.
     rbind (jget ''name'' spec) (\<lambda>topology_name.
     Inr \<lparr>ts_id = task_id, ts_name = name, ts_simulator = simulator,
       ts_layout = (if jtruth switches then ''switch'' else ''direct''), ts_node_count = count,
       ts_editable = startswith task_id ''task-'', ts_topology_name = topology_name\<rparr>))))))"

text \<open>
  \<^verbatim>\<open>_list_tasks\<close>; \<open>names\<close> are the file names in the directory of saved tasks, newest first.
\<close>

definition is_task_file :: "string \<Rightarrow> bool" where
  "is_task_file name \<longleftrightarrow> startswith name ''task-'' \<and> endswith name ''.json'' \<and> length name \<ge> 10 \<and>
     \<not> endswith name ''.meta.json'' \<and> \<not> endswith name ''.recipe.json''"

definition list_tasks :: "string \<Rightarrow> store \<Rightarrow> string list \<Rightarrow> task_summary list res" where
  "list_tasks root fs names =
     rbind (rmap (\<lambda>name. summary root fs (removesuffix name ''.json'')) (filter is_task_file names)) (\<lambda>saved.
     rbind (rmap (\<lambda>(_, name). summary root fs (''template-'' @ removesuffix name ''.json'')) TEMPLATES) (\<lambda>templates.
     Inr (saved @ templates)))"

definition read_recipe :: "string \<Rightarrow> store \<Rightarrow> string \<Rightarrow> dict \<Rightarrow> recipe res" where
  "read_recipe root fs task_id spec = rbind (recipe_path root task_id) (\<lambda>path.
     rbind (case fs path of Some file \<Rightarrow> loads file | None \<Rightarrow> Inr (recipe_json DEFAULT_RECIPE)) (\<lambda>raw.
     validate_recipe raw spec))"

subsection \<open>Resizing a single-leaf topology\<close>

definition json_dicts :: "json \<Rightarrow> dict list res" where
  "json_dicts v = (case v of
       JList xs \<Rightarrow> rmap (as_obj (TypeError ''not an object'')) xs
     | _ \<Rightarrow> Inl (TypeError ''not a list''))"

text \<open>\<^verbatim>\<open>{key(item): item for item in items}\<close>.\<close>

definition keyed_by :: "(dict \<Rightarrow> 'k res) \<Rightarrow> dict list \<Rightarrow> ('k \<times> dict) list res" where
  "keyed_by key items = rfold (\<lambda>item d. rbind (key item) (\<lambda>k. Inr (dict_set k item d))) items []"

definition link_key :: "dict \<Rightarrow> (json \<times> json) res" where
  "link_key link = rbind (getitem ''device'' link) (\<lambda>device. rbind (getitem ''device_port'' link) (\<lambda>port. Inr (device, port)))"

definition host_suffix :: "nat \<Rightarrow> string" where
  "host_suffix index = [char_of (97 + index)]"

definition head_id :: "nat \<Rightarrow> string" where
  "head_id index = ''head-'' @ host_suffix index"

definition udma_id :: "nat \<Rightarrow> string" where
  "udma_id index = ''udma-'' @ host_suffix index"

record leaf =
  lf_nodes :: "(json \<times> dict) list"
  lf_devices :: "(json \<times> dict) list"
  lf_links :: "((json \<times> json) \<times> dict) list"
  lf_node_seed :: dict
  lf_device_seed :: dict
  lf_link_seed :: dict
  lf_switch :: json

definition resized_node :: "leaf \<Rightarrow> nat \<Rightarrow> dict" where
  "resized_node lf index = dict_set ''id'' (JStr (head_id index))
     (dict_get (JStr (head_id index)) (lf_node_seed lf) (lf_nodes lf))"

definition resized_device :: "leaf \<Rightarrow> nat \<Rightarrow> dict" where
  "resized_device lf index = dict_update (dict_get (JStr (head_id index)) (lf_device_seed lf) (lf_devices lf))
     [(''id'', JStr (udma_id index)), (''node'', JStr (head_id index)), (''eid'', JInt (256 + int index))]"

definition resized_link :: "leaf \<Rightarrow> nat \<Rightarrow> int \<Rightarrow> int \<Rightarrow> dict" where
  "resized_link lf index ports port =
     dict_update (dict_get (JStr (udma_id index), JInt port) (lf_link_seed lf) (lf_links lf))
       [(''device'', JStr (udma_id index)), (''device_port'', JInt port), (''switch'', lf_switch lf),
        (''switch_port'', JInt (int index * ports + port))]"

definition device_ports :: "dict \<Rightarrow> int res" where
  "device_ports device = rbind (getitem ''ports'' device) (\<lambda>v. case v of
     JInt n \<Rightarrow> Inr n | _ \<Rightarrow> Inl (TypeError ''ports is not an integer''))"

definition resized_links :: "leaf \<Rightarrow> nat \<Rightarrow> dict list res" where
  "resized_links lf index = rbind (device_ports (resized_device lf index)) (\<lambda>ports.
     Inr (map (resized_link lf index ports) [0..ports - 1]))"

definition read_leaf :: "dict \<Rightarrow> leaf res" where
  "read_leaf spec =
     rbind (rbind (getitem ''nodes'' spec) json_dicts) (\<lambda>nodes.
     rbind (keyed_by (getitem ''id'') nodes) (\<lambda>current_nodes.
     rbind (rbind (getitem ''devices'' spec) json_dicts) (\<lambda>devices.
     rbind (keyed_by (getitem ''node'') devices) (\<lambda>current_devices.
     rbind (rbind (getitem ''links'' spec) json_dicts) (\<lambda>links.
     rbind (keyed_by link_key links) (\<lambda>current_links.
     rbind (rbind (getitem ''switches'' spec) json_dicts) (\<lambda>switches.
     case (nodes, devices, links, switches) of
       (node # _, device # _, link # _, switch # _) \<Rightarrow>
         rbind (getitem ''id'' switch) (\<lambda>switch_id.
         Inr \<lparr>lf_nodes = current_nodes, lf_devices = current_devices, lf_links = current_links,
           lf_node_seed = node, lf_device_seed = device, lf_link_seed = link, lf_switch = switch_id\<rparr>)
     | _ \<Rightarrow> Inl (IndexError ''list index out of range''))))))))"

definition resized_spec :: "dict \<Rightarrow> leaf \<Rightarrow> nat \<Rightarrow> dict list list \<Rightarrow> dict" where
  "resized_spec spec lf host_count links =
     dict_set ''links'' (JList (map JObj (concat links)))
       (dict_set ''devices'' (JList (map (\<lambda>i. JObj (resized_device lf i)) [0..<host_count]))
       (dict_set ''nodes'' (JList (map (\<lambda>i. JObj (resized_node lf i)) [0..<host_count])) spec))"

definition resize_single_leaf :: "json \<Rightarrow> json \<Rightarrow> dict res" where
  "resize_single_leaf raw host_count =
     rbind (compile_topology raw) (\<lambda>_.
     rbind (as_obj (TypeError ''topology is not an object'') raw) (\<lambda>spec.
     rbind (rbind (getitem ''switches'' spec) jlen) (\<lambda>switches.
     if switches \<noteq> 1 then Inl (ValueError ''only single-leaf switch topologies can be resized'')
     else rbind (int_between ''2-8 hosts are supported'' 2 8 host_count) (\<lambda>n.
       rbind (read_leaf spec) (\<lambda>lf.
       rbind (rmap (resized_links lf) [0..<nat n]) (\<lambda>links.
       let result = resized_spec spec lf (nat n) links in
       rbind (compile_topology (JObj result)) (\<lambda>_. Inr result)))))))"

definition template_spec :: "string \<Rightarrow> store \<Rightarrow> json \<Rightarrow> json \<Rightarrow> dict res" where
  "template_spec root fs simulator host_count =
     (if \<not> hashable simulator then Inl (TypeError ''unhashable type'')
      else case (case simulator of JStr s \<Rightarrow> map_of TEMPLATES (s, ''switch'') | _ \<Rightarrow> None) of
        None \<Rightarrow> Inl (ValueError ''unsupported simulator'')
      | Some name \<Rightarrow>
          rbind (case fs (path_join (configs_dir root) (to_path name)) of
              None \<Rightarrow> Inl (OSError ''[Errno 2] No such file'') | Some file \<Rightarrow> loads file) (\<lambda>raw.
          rbind (if simulator = JStr ''gem5'' then
              rbind (as_obj (AttributeError ''setdefault'') raw) (\<lambda>spec.
              rbind (as_obj (AttributeError ''setdefault'') (dict_get ''machine'' (JObj []) spec)) (\<lambda>machine.
              Inr (JObj (dict_set ''machine'' (JObj (if has_key ''memory_size_gb'' machine then machine
                else dict_set ''memory_size_gb'' (JInt 4) machine)) spec))))
            else Inr raw) (\<lambda>spec.
          resize_single_leaf spec host_count)))"

subsection \<open>Creating, copying and saving\<close>

text \<open>
  \<open>fresh\<close> is the time stamp and random part of a new identifier.  An operation returns its result
  and the store it leaves, also when it raises.
\<close>

definition atomic_json :: "ppath \<Rightarrow> json \<Rightarrow> store \<Rightarrow> store" where
  "atomic_json path v fs = fs(path \<mapsto> Some v)"

definition new_task_id :: "string \<Rightarrow> string" where
  "new_task_id fresh = ''task-'' @ fresh"

definition internal_name :: "string \<Rightarrow> json" where
  "internal_name task_id = JStr (replace_char CHR ''-'' CHR ''_'' task_id)"

definition name_text :: "json \<Rightarrow> string res" where
  "name_text v = (case v of
       JStr s \<Rightarrow> if 1 \<le> length (strip s) \<and> length (strip s) \<le> 80 then Inr s
         else Inl (ValueError ''a task name has 1-80 characters'')
     | _ \<Rightarrow> Inl (ValueError ''a task name has 1-80 characters''))"

definition store_task :: "string \<Rightarrow> string \<Rightarrow> dict \<Rightarrow> string \<Rightarrow> store \<Rightarrow> store res" where
  "store_task root task_id spec label fs = rbind (task_path root task_id) (\<lambda>path.
     Inr (atomic_json (metadata_path root task_id) (JObj [(''display_name'', JStr label)])
       (atomic_json path (JObj spec) fs)))"

text \<open>Run a computation of the new store; when it raises the store is unchanged.\<close>

definition store_then :: "store res \<Rightarrow> (store \<Rightarrow> 'a res \<times> store) \<Rightarrow> 'a store_op" where
  "store_then m f fs = (case m of Inl e \<Rightarrow> (Inl e, fs) | Inr fs' \<Rightarrow> f fs')"

definition created_task :: "string \<Rightarrow> string \<Rightarrow> dict \<Rightarrow> store \<Rightarrow> (dict \<times> string) res" where
  "created_task root task_id body fs =
     rbind (name_text (dict_get ''name'' JNull body)) (\<lambda>display_name.
      if dict_get ''topology_type'' JNull body \<noteq> JStr ''single_leaf''
      then Inl (ValueError ''only single-leaf switch topologies are supported'')
      else rbind (template_spec root fs (dict_get ''simulator'' JNull body) (dict_get ''host_count'' JNull body)) (\<lambda>spec.
      let named = dict_set ''name'' (internal_name task_id) spec in
      rbind (compile_topology (JObj named)) (\<lambda>_. Inr (named, strip display_name))))"

definition create_task :: "string \<Rightarrow> string \<Rightarrow> dict \<Rightarrow> task_summary store_op" where
  "create_task root fresh body fs = store_then
     (rbind (created_task root (new_task_id fresh) body fs) (\<lambda>(spec, label). store_task root (new_task_id fresh) spec label fs))
     (\<lambda>fs'. (summary root fs' (new_task_id fresh), fs')) fs"

definition copy_label :: "json \<Rightarrow> string res" where
  "copy_label v = (case v of JStr s \<Rightarrow> Inr (take 80 (s @ '' copy'')) | _ \<Rightarrow> Inl (TypeError ''not a string''))"

definition copy_recipe :: "string \<Rightarrow> string \<Rightarrow> string \<Rightarrow> dict \<Rightarrow> store \<Rightarrow> store res" where
  "copy_recipe root task_id new_id clone fs =
     rbind (recipe_path root task_id) (\<lambda>path.
     rbind (rbind (getitem ''nodes'' clone) jlen) (\<lambda>count.
     case fs path of
       None \<Rightarrow> Inr fs
     | Some file \<Rightarrow> if count \<noteq> 2 then Inr fs
         else rbind (loads file) (\<lambda>raw. rbind (validate_recipe raw clone) (\<lambda>recipe.
           rbind (recipe_path root new_id) (\<lambda>new_path. Inr (atomic_json new_path (recipe_json recipe) fs))))))"

definition cloned_task :: "string \<Rightarrow> string \<Rightarrow> string \<Rightarrow> store \<Rightarrow> (dict \<times> string) res" where
  "cloned_task root new_id task_id fs =
     rbind (read_task root fs task_id) (\<lambda>source.
     rbind (as_obj (TypeError ''object does not support item assignment'') source) (\<lambda>spec.
     let clone = dict_set ''name'' (internal_name new_id) spec in
     rbind (compile_topology (JObj clone)) (\<lambda>_.
     rbind (rbind (display_name root fs task_id source) copy_label) (\<lambda>label. Inr (clone, label)))))"

definition copy_task :: "string \<Rightarrow> string \<Rightarrow> string \<Rightarrow> task_summary store_op" where
  "copy_task root fresh task_id fs =
     (case cloned_task root (new_task_id fresh) task_id fs of
        Inl e \<Rightarrow> (Inl e, fs)
      | Inr (clone, label) \<Rightarrow> store_then (store_task root (new_task_id fresh) clone label fs)
          (\<lambda>fs'. store_then (copy_recipe root task_id (new_task_id fresh) clone fs')
            (\<lambda>fs''. (summary root fs'' (new_task_id fresh), fs'')) fs') fs)"

definition edited_task :: "string \<Rightarrow> string \<Rightarrow> dict \<Rightarrow> store \<Rightarrow> (dict \<times> string) res" where
  "edited_task root task_id body fs =
     (if \<not> startswith task_id ''task-'' then Inl (ValueError ''templates cannot be changed'')
      else rbind (read_task root fs task_id) (\<lambda>current.
      rbind (as_obj (ValueError ''the topology is missing'') (dict_get ''spec'' JNull body)) (\<lambda>spec.
      rbind (jget ''name'' current) (\<lambda>name.
      if dict_get ''name'' JNull spec \<noteq> name then Inl (ValueError ''the internal name cannot change'')
      else rbind (compile_topology (JObj spec)) (\<lambda>_.
      rbind (display_name root fs task_id current) (\<lambda>old_label.
      rbind (name_text (dict_get ''display_name'' old_label body)) (\<lambda>label. Inr (spec, strip label))))))))"

definition save_task :: "string \<Rightarrow> string \<Rightarrow> dict \<Rightarrow> task_summary store_op" where
  "save_task root task_id body fs = store_then
     (rbind (edited_task root task_id body fs) (\<lambda>(spec, label). store_task root task_id spec label fs))
     (\<lambda>fs'. (summary root fs' task_id, fs')) fs"

text \<open>The recipe branch of \<^verbatim>\<open>do_PUT\<close>.\<close>

definition save_recipe :: "string \<Rightarrow> string \<Rightarrow> json \<Rightarrow> recipe store_op" where
  "save_recipe root task_id body fs =
     (case rbind (rbind (read_task root fs task_id) (as_obj (TypeError ''not an object''))) (\<lambda>d.
         rbind (validate_recipe body d) (\<lambda>recipe. rbind (recipe_path root task_id) (\<lambda>path. Inr (recipe, path)))) of
        Inl e \<Rightarrow> (Inl e, fs)
      | Inr (recipe, path) \<Rightarrow> (Inr recipe, atomic_json path (recipe_json recipe) fs))"

subsection \<open>Which files a task owns\<close>

definition in_tasks :: "string \<Rightarrow> string \<Rightarrow> ppath" where
  "in_tasks root name = (tasks_dir root)\<lparr>pp_parts := pp_parts (tasks_dir root) @ [name]\<rparr>"

definition own_file :: "string \<Rightarrow> string \<Rightarrow> ppath \<Rightarrow> bool" where
  "own_file root task_id p \<longleftrightarrow> (\<exists>suffix \<in> {''.json'', ''.meta.json'', ''.recipe.json''}. p = in_tasks root (task_id @ suffix))"

lemma split_on_none: "c \<notin> set s \<Longrightarrow> split_on c s = [s]"
  by (induction s) auto

lemma to_path_plain:
  "CHR ''/'' \<notin> set s \<Longrightarrow> s \<noteq> [] \<Longrightarrow> s \<noteq> ''.'' \<Longrightarrow> to_path s = \<lparr>pp_root = [], pp_parts = [s]\<rparr>"
  by (cases s) (auto simp: to_path_def split_on_none Let_def)

lemma slug_char_plain: "slug_char c \<Longrightarrow> c \<noteq> CHR ''/'' \<and> c \<noteq> CHR ''.''"
  by (auto simp: slug_char_def)

lemma slug_chars: "slug t \<Longrightarrow> CHR ''/'' \<notin> set t \<and> CHR ''.'' \<notin> set t"
  using slug_char_plain by (auto simp: slug_def list_all_iff)

lemma TASK_ID_iff: "TASK_ID s \<longleftrightarrow> (\<exists>t. slug t \<and> (s = ''template-'' @ t \<or> s = ''task-'' @ t))"
  unfolding TASK_ID_def startswith_iff by (rule iffI; elim disjE conjE exE; simp)

lemma TASK_ID_chars:
  assumes "TASK_ID s"
  shows "CHR ''/'' \<notin> set s \<and> CHR ''.'' \<notin> set s \<and> s \<noteq> []"
proof -
  from assms obtain t where t: "slug t" and "s = ''template-'' @ t \<or> s = ''task-'' @ t"
    unfolding TASK_ID_iff by blast
  from this(2) show ?thesis using slug_chars [OF t] by (elim disjE) simp_all
qed

lemma in_tasks_to_path:
  assumes "TASK_ID task_id" and "CHR ''/'' \<notin> set suffix" and "suffix \<noteq> []"
  shows "path_join (tasks_dir root) (to_path (task_id @ suffix)) = in_tasks root (task_id @ suffix)"
proof -
  have "to_path (task_id @ suffix) = \<lparr>pp_root = [], pp_parts = [task_id @ suffix]\<rparr>"
    using TASK_ID_chars [OF assms(1)] assms(2,3) by (intro to_path_plain) (auto simp: append_eq_Cons_conv)
  then show ?thesis by (simp add: path_join_def in_tasks_def)
qed

lemma TASK_ID_new: "slug fresh \<Longrightarrow> TASK_ID (new_task_id fresh)"
  by (simp add: TASK_ID_def new_task_id_def startswith_def)

lemma task_path_task:
  assumes "TASK_ID task_id" and "startswith task_id ''task-''"
  shows "task_path root task_id = Inr (in_tasks root (task_id @ ''.json''))"
proof -
  have "\<not> startswith task_id ''template-''"
    using assms(2) by (auto simp: startswith_iff)
  then show ?thesis
    using assms in_tasks_to_path [of task_id "''.json''" root] by (simp add: task_path_def)
qed

lemma metadata_path_task: "TASK_ID task_id \<Longrightarrow> metadata_path root task_id = in_tasks root (task_id @ ''.meta.json'')"
  using in_tasks_to_path [of task_id "''.meta.json''" root] by (simp add: metadata_path_def)

lemma recipe_path_task:
  "recipe_path root task_id = Inr p \<Longrightarrow> TASK_ID task_id \<and> p = in_tasks root (task_id @ ''.recipe.json'')"
  using in_tasks_to_path [of task_id "''.recipe.json''" root]
  by (auto simp: recipe_path_def task_path_def split: if_splits)

lemma in_tasks_inj [simp]: "in_tasks root a = in_tasks root b \<longleftrightarrow> a = b"
  by (auto simp: in_tasks_def dest: arg_cong [where f = pp_parts])

lemma own_file_name:
  assumes "TASK_ID a" and "own_file root a p"
  shows "takeWhile (\<lambda>c. c \<noteq> CHR ''.'') (last (pp_parts p)) = a"
proof -
  from assms(2) obtain s where s: "s \<in> {''.json'', ''.meta.json'', ''.recipe.json''}" and p: "p = in_tasks root (a @ s)"
    unfolding own_file_def by (rule bexE)
  from s obtain w where w: "s = CHR ''.'' # w" by (elim insertE emptyE) simp_all
  have "\<forall>c \<in> set a. c \<noteq> CHR ''.''" using TASK_ID_chars [OF assms(1)] by blast
  then show ?thesis by (simp add: p in_tasks_def w takeWhile_append2)
qed

lemma own_file_unique:
  "TASK_ID a \<Longrightarrow> TASK_ID b \<Longrightarrow> own_file root a p \<Longrightarrow> own_file root b p \<Longrightarrow> a = b"
  using own_file_name by metis

lemma store_task_frame:
  assumes "store_task root task_id spec label fs = Inr fs'" and "startswith task_id ''task-''"
  shows "TASK_ID task_id \<and> fs' = fs(in_tasks root (task_id @ ''.json'') \<mapsto> Some (JObj spec),
    in_tasks root (task_id @ ''.meta.json'') \<mapsto> Some (JObj [(''display_name'', JStr label)]))"
proof -
  from assms(1) have id: "TASK_ID task_id" by (auto simp: store_task_def task_path_def split: if_splits)
  with assms show ?thesis
    by (auto simp: store_task_def atomic_json_def task_path_task metadata_path_task)
qed

lemma new_task_starts: "startswith (new_task_id fresh) ''task-''"
  by (simp add: new_task_id_def startswith_def)

text \<open>
  The three ways a document gets into the store, each with the identifier it is stored under.
\<close>

lemma created_task_Inr:
  "created_task root task_id body fs = Inr (spec, label) \<Longrightarrow>
     (\<exists>plan. compile_topology (JObj spec) = Inr plan) \<and> map_of spec ''name'' = Some (internal_name task_id)"
  by (auto simp: created_task_def Let_def split: if_splits)

lemma cloned_task_Inr:
  "cloned_task root new_id task_id fs = Inr (spec, label) \<Longrightarrow>
     (\<exists>plan. compile_topology (JObj spec) = Inr plan) \<and> map_of spec ''name'' = Some (internal_name new_id)"
  by (auto simp: cloned_task_def Let_def)

lemma edited_task_Inr:
  assumes "edited_task root task_id body fs = Inr (spec, label)"
  shows "startswith task_id ''task-'' \<and> (\<exists>plan. compile_topology (JObj spec) = Inr plan) \<and>
    (\<exists>current name. read_task root fs task_id = Inr current \<and> jget ''name'' current = Inr name \<and>
       dict_get ''name'' JNull spec = name)"
  using assms by (auto simp: edited_task_def split: if_splits)

lemma copy_recipe_frame:
  assumes "copy_recipe root task_id new_id clone fs = Inr fs'"
  shows "fs' = fs \<or> (\<exists>v. fs' = fs(in_tasks root (new_id @ ''.recipe.json'') \<mapsto> v))"
  using assms by (auto simp: copy_recipe_def atomic_json_def split: option.splits if_splits dest!: recipe_path_task)

text \<open>What each operation leaves: the old store, or the old store with files of one task replaced.\<close>

definition stores_task :: "string \<Rightarrow> string \<Rightarrow> dict \<Rightarrow> store \<Rightarrow> store \<Rightarrow> bool" where
  "stores_task root task_id spec fs fs' \<longleftrightarrow> TASK_ID task_id \<and>
     fs' (in_tasks root (task_id @ ''.json'')) = Some (Some (JObj spec)) \<and>
     (\<forall>p. fs' p \<noteq> fs p \<longrightarrow> own_file root task_id p)"

lemma store_task_stores:
  assumes "store_task root task_id spec label fs = Inr fs'" and "startswith task_id ''task-''"
  shows "stores_task root task_id spec fs fs'"
  using store_task_frame [OF assms] by (auto simp: stores_task_def own_file_def)

lemma create_task_effect:
  "snd (create_task root fresh body fs) = fs \<or>
   (\<exists>spec label. created_task root (new_task_id fresh) body fs = Inr (spec, label) \<and>
      stores_task root (new_task_id fresh) spec fs (snd (create_task root fresh body fs)))"
  using store_task_stores [OF _ new_task_starts]
  by (auto simp: create_task_def store_then_def split: sum.splits)

lemma save_task_effect:
  "snd (save_task root task_id body fs) = fs \<or>
   (\<exists>spec label. edited_task root task_id body fs = Inr (spec, label) \<and>
      stores_task root task_id spec fs (snd (save_task root task_id body fs)))"
  using store_task_stores edited_task_Inr
  by (fastforce simp: save_task_def store_then_def split: sum.splits)

lemma copy_task_effect:
  "snd (copy_task root fresh task_id fs) = fs \<or>
   (\<exists>spec label. cloned_task root (new_task_id fresh) task_id fs = Inr (spec, label) \<and>
      stores_task root (new_task_id fresh) spec fs (snd (copy_task root fresh task_id fs)))"
proof (cases "cloned_task root (new_task_id fresh) task_id fs")
  case (Inr c)
  obtain spec label where c: "c = (spec, label)" by (cases c)
  show ?thesis
  proof (cases "store_task root (new_task_id fresh) spec label fs")
    case s: (Inr fs')
    have st: "stores_task root (new_task_id fresh) spec fs fs'"
      using s new_task_starts by (rule store_task_stores)
    have "stores_task root (new_task_id fresh) spec fs fs''"
      if "copy_recipe root task_id (new_task_id fresh) spec fs' = Inr fs''" for fs''
      using copy_recipe_frame [OF that] st by (auto simp: stores_task_def own_file_def)
    with st show ?thesis
      by (auto simp: copy_task_def store_then_def Inr c s split: sum.splits)
  qed (simp add: copy_task_def store_then_def Inr c)
qed (simp add: copy_task_def)

lemma save_recipe_effect:
  "snd (save_recipe root task_id body fs) = fs \<or>
   (TASK_ID task_id \<and> (\<exists>v. snd (save_recipe root task_id body fs) = fs(in_tasks root (task_id @ ''.recipe.json'') \<mapsto> v)))"
  by (auto simp: save_recipe_def atomic_json_def split: sum.splits dest!: recipe_path_task)

subsection \<open>The invariant of the store\<close>

definition store_inv :: "string \<Rightarrow> store \<Rightarrow> bool" where
  "store_inv root fs \<longleftrightarrow> (\<forall>task_id. TASK_ID task_id \<and> startswith task_id ''task-'' \<longrightarrow>
     (case fs (in_tasks root (task_id @ ''.json'')) of
        None \<Rightarrow> True
      | Some file \<Rightarrow> \<exists>spec plan. file = Some (JObj spec) \<and> compile_topology (JObj spec) = Inr plan \<and>
          map_of spec ''name'' = Some (internal_name task_id)))"

lemma store_inv_stores:
  assumes "store_inv root fs" and "stores_task root task_id spec fs fs'"
    and "\<exists>plan. compile_topology (JObj spec) = Inr plan" and "map_of spec ''name'' = Some (internal_name task_id)"
  shows "store_inv root fs'"
  unfolding store_inv_def
proof (intro allI impI)
  fix other
  assume o: "TASK_ID other \<and> startswith other ''task-''"
  show "case fs' (in_tasks root (other @ ''.json'')) of None \<Rightarrow> True
      | Some file \<Rightarrow> \<exists>spec plan. file = Some (JObj spec) \<and> compile_topology (JObj spec) = Inr plan \<and>
          map_of spec ''name'' = Some (internal_name other)"
  proof (cases "other = task_id")
    case True
    then show ?thesis using assms by (auto simp: stores_task_def)
  next
    case False
    then have "fs' (in_tasks root (other @ ''.json'')) = fs (in_tasks root (other @ ''.json''))"
      using o assms(2) own_file_unique [of other task_id root "in_tasks root (other @ ''.json'')"]
      by (auto simp: stores_task_def own_file_def)
    with assms(1) o show ?thesis by (auto simp: store_inv_def)
  qed
qed

lemma store_inv_read:
  assumes "store_inv root fs" and "read_task root fs task_id = Inr v" and "startswith task_id ''task-''"
  shows "\<exists>spec plan. v = JObj spec \<and> compile_topology (JObj spec) = Inr plan \<and> map_of spec ''name'' = Some (internal_name task_id)"
proof -
  from assms(2) have id: "TASK_ID task_id" by (auto simp: read_task_def task_path_def split: if_splits)
  with assms show ?thesis
    by (fastforce simp: store_inv_def read_task_def task_path_task loads_def split: option.splits)
qed

lemma internal_name_not_JNull: "internal_name task_id \<noteq> JNull"
  by (simp add: internal_name_def)

lemma create_task_inv: "store_inv root fs \<Longrightarrow> store_inv root (snd (create_task root fresh body fs))"
  using create_task_effect [of root fresh body fs] created_task_Inr store_inv_stores by metis

lemma copy_task_inv: "store_inv root fs \<Longrightarrow> store_inv root (snd (copy_task root fresh task_id fs))"
  using copy_task_effect [of root fresh task_id fs] cloned_task_Inr store_inv_stores by metis

lemma save_task_inv:
  assumes "store_inv root fs"
  shows "store_inv root (snd (save_task root task_id body fs))"
proof (rule disjE [OF save_task_effect [of root task_id body fs]])
  assume "\<exists>spec label. edited_task root task_id body fs = Inr (spec, label) \<and>
    stores_task root task_id spec fs (snd (save_task root task_id body fs))"
  then obtain spec label where e: "edited_task root task_id body fs = Inr (spec, label)"
    and s: "stores_task root task_id spec fs (snd (save_task root task_id body fs))" by blast
  from edited_task_Inr [OF e] obtain current name where c: "startswith task_id ''task-''" "read_task root fs task_id = Inr current"
    "jget ''name'' current = Inr name" "dict_get ''name'' JNull spec = name" "\<exists>plan. compile_topology (JObj spec) = Inr plan" by blast
  from store_inv_read [OF assms c(2,1)] c(3,4) have "map_of spec ''name'' = Some (internal_name task_id)"
    using internal_name_not_JNull by (auto simp: jget_def dict_get_def split: option.splits)
  with store_inv_stores [OF assms s c(5)] show ?thesis by blast
qed (use assms in simp)

lemma save_recipe_inv:
  assumes "store_inv root fs"
  shows "store_inv root (snd (save_recipe root task_id raw fs))"
proof (rule disjE [OF save_recipe_effect [of root task_id raw fs]])
  assume "TASK_ID task_id \<and> (\<exists>v. snd (save_recipe root task_id raw fs) = fs(in_tasks root (task_id @ ''.recipe.json'') \<mapsto> v))"
  then obtain v where t: "TASK_ID task_id" and s: "snd (save_recipe root task_id raw fs) = fs(in_tasks root (task_id @ ''.recipe.json'') \<mapsto> v)"
    by blast
  have "other @ ''.json'' \<noteq> task_id @ ''.recipe.json''" if "TASK_ID other" for other
  proof
    assume eq: "other @ ''.json'' = task_id @ ''.recipe.json''"
    then have "other = task_id"
      using own_file_unique [OF that t, of root "in_tasks root (other @ ''.json'')"] by (auto simp: own_file_def)
    with eq show False by simp
  qed
  with assms show ?thesis by (auto simp: store_inv_def s)
qed (use assms in simp)

text \<open>
  What the workbench relies on when it runs an operation on the store: whatever the outcome, the
  invariant is kept.
\<close>

locale store_operation =
  fixes root :: string and run :: "store \<Rightarrow> 'a res \<times> store"
  assumes keeps: "store_inv root fs \<Longrightarrow> store_inv root (snd (run fs))"

interpretation creating: store_operation root "create_task root fresh body" for root fresh body
  by unfold_locales (rule create_task_inv)

interpretation copying: store_operation root "copy_task root fresh task_id" for root fresh task_id
  by unfold_locales (rule copy_task_inv)

interpretation saving: store_operation root "save_task root task_id body" for root task_id body
  by unfold_locales (rule save_task_inv)

interpretation saving_recipe: store_operation root "save_recipe root task_id raw" for root task_id raw
  by unfold_locales (rule save_recipe_inv)

text \<open>
  C3. The saved tasks stay launchable: in the store every file of a task holds a topology that
  compiles and carries the internal name of its identifier.  Creating, copying and saving a task and
  saving a recipe keep this, whether they return or raise.
\<close>

theorem store_invariant:
  assumes "store_inv root fs"
  shows "store_inv root (snd (create_task root fresh body fs)) \<and>
    store_inv root (snd (copy_task root fresh task_id fs)) \<and>
    store_inv root (snd (save_task root task_id body fs)) \<and>
    store_inv root (snd (save_recipe root task_id raw fs))"
  using assms by (intro conjI creating.keeps copying.keeps saving.keeps saving_recipe.keeps)

text \<open>
  C18. Writes are confined: whatever identifier, body or store they are given, these operations
  change at most the three files \<^verbatim>\<open>ID.json\<close>, \<^verbatim>\<open>ID.meta.json\<close> and \<^verbatim>\<open>ID.recipe.json\<close> of one valid identifier,
  directly in the directory of saved tasks.  Two identifiers never share a file and no template is
  ever written.
\<close>

theorem store_writes_confined:
  "(snd (create_task root fresh body fs) p \<noteq> fs p \<longrightarrow> TASK_ID (new_task_id fresh) \<and> own_file root (new_task_id fresh) p) \<and>
   (snd (copy_task root fresh task_id fs) p \<noteq> fs p \<longrightarrow> TASK_ID (new_task_id fresh) \<and> own_file root (new_task_id fresh) p) \<and>
   (snd (save_task root task_id body fs) p \<noteq> fs p \<longrightarrow> TASK_ID task_id \<and> own_file root task_id p) \<and>
   (snd (save_recipe root task_id raw fs) p \<noteq> fs p \<longrightarrow> TASK_ID task_id \<and> own_file root task_id p) \<and>
   (TASK_ID a \<and> TASK_ID b \<and> own_file root a p \<and> own_file root b p \<longrightarrow> a = b) \<and>
   (own_file root a p \<longrightarrow> p \<notin> (\<lambda>(_, name). path_join (configs_dir root) (to_path name)) ` set TEMPLATES)"
proof (intro conjI impI)
  have t: "pp_parts (path_join (configs_dir root) (to_path (snd x))) = pp_parts (to_path root) @ [''configs'', snd x]"
    if "x \<in> set TEMPLATES" for x
    using that by (auto simp: TEMPLATES_def path_join_def configs_dir_def to_path_plain)
  have o: "length (pp_parts q) = length (pp_parts (to_path root)) + 3" if "own_file root a q" for q
    using that by (auto simp: own_file_def in_tasks_def tasks_dir_def path_join_def to_path_plain)
  assume "own_file root a p"
  with o [of p] show "p \<notin> (\<lambda>(_, name). path_join (configs_dir root) (to_path name)) ` set TEMPLATES"
    using t by fastforce
next
  assume "TASK_ID a \<and> TASK_ID b \<and> own_file root a p \<and> own_file root b p"
  then show "a = b" using own_file_unique by blast
qed (use create_task_effect [of root fresh body fs] copy_task_effect [of root fresh task_id fs] save_task_effect [of root task_id body fs]
      save_recipe_effect [of root task_id raw fs] in \<open>auto simp: stores_task_def own_file_def\<close>)

subsection \<open>What resizing keeps\<close>

lemma keyed_by_map_of:
  "keyed_by key items = Inr d \<Longrightarrow> map_of d k = find (\<lambda>item. key item = Inr k) (rev items)"
proof (induction items arbitrary: d rule: rev_induct)
  case (snoc x items)
  then show ?case by (auto simp: keyed_by_def rfold_append)
qed (simp add: keyed_by_def)

lemma rmap_as_obj: "rmap (as_obj e) xs = Inr ds \<longleftrightarrow> xs = map JObj ds"
proof (induction xs arbitrary: ds)
  case (Cons x xs)
  then show ?case by (cases ds) auto
qed auto

lemma json_dicts_Inr: "json_dicts v = Inr ds \<longleftrightarrow> v = JList (map JObj ds)"
  by (cases v) (auto simp: json_dicts_def rmap_as_obj)

lemma read_leaf_Inr:
  assumes "read_leaf spec = Inr lf"
  obtains nodes where "map_of spec ''nodes'' = Some (JList (map JObj nodes))" "nodes \<noteq> []" "lf_node_seed lf = hd nodes"
    "\<And>k. map_of (lf_nodes lf) k = find (\<lambda>d. getitem ''id'' d = Inr k) (rev nodes)"
proof -
  from assms obtain nodes devices links switches ns ds ls where
    n: "map_of spec ''nodes'' = Some (JList (map JObj nodes))" "keyed_by (getitem ''id'') nodes = Inr ns"
    and lf: "(case (nodes, devices, links, switches) of
       (node # _, device # _, link # _, switch # _) \<Rightarrow>
         rbind (getitem ''id'' switch) (\<lambda>switch_id.
         Inr \<lparr>lf_nodes = ns, lf_devices = ds, lf_links = ls,
           lf_node_seed = node, lf_device_seed = device, lf_link_seed = link, lf_switch = switch_id\<rparr>)
     | _ \<Rightarrow> Inl (IndexError ''list index out of range'')) = Inr lf"
    unfolding read_leaf_def by (auto simp: json_dicts_Inr)
  then have "nodes \<noteq> []" "lf_node_seed lf = hd nodes" "lf_nodes lf = ns"
    by (auto split: list.splits)
  with n keyed_by_map_of [OF n(2)] that show thesis by simp
qed

lemma plan_node_ids:
  assumes "compile_topology (JObj spec) = Inr plan" and "map_of spec ''nodes'' = Some (JList (map JObj nodes))"
  shows "length (p_node_ids plan) = length nodes" and "i < length nodes \<Longrightarrow> map_of (nodes ! i) ''id'' = Some (JStr (p_node_ids plan ! i))"
proof -
  from compile_topology_accepted [OF assms(1)] obtain ns' devices switches links machine ns st where
    acc: "accepted (JObj spec) plan ns' devices switches links machine ns st" by blast
  then have ns': "ns' = map JObj nodes" and ids: "p_node_ids plan = ns_names ns"
    using assms(2) by (auto simp: accepted_def)
  have inv: "list_all2 (\<lambda>x n. node_named (snd x) n) (enumerate 0 ns') (ns_names ns)"
    using accepted_facts(1) [OF acc] by (simp add: node_inv_def)
  from list_all2_lengthD [OF inv] show l: "length (p_node_ids plan) = length nodes" by (simp add: ids ns')
  assume "i < length nodes"
  with list_all2_nthD [OF inv, of i] show "map_of (nodes ! i) ''id'' = Some (JStr (p_node_ids plan ! i))"
    by (simp add: ids ns' nth_enumerate_eq node_named_def)
qed

text \<open>The node of the given document that host \<open>i\<close> of the resized one is made from.\<close>

definition node_origin :: "dict list \<Rightarrow> nat \<Rightarrow> dict" where
  "node_origin nodes i = (case find (\<lambda>d. getitem ''id'' d = Inr (JStr (head_id i))) (rev nodes) of Some d \<Rightarrow> d | None \<Rightarrow> hd nodes)"

text \<open>
  Resizing yields a launchable topology of the requested size and keeps parameters: the result
  compiles, its hosts are \<^verbatim>\<open>head-a\<close>, \<^verbatim>\<open>head-b\<close>, ... in order, as many as requested (2 to 8), each with all
  other fields of the host of the same name or, if there is none, of the first host; everything but
  hosts, devices and links is unchanged.
\<close>

theorem resize_result:
  assumes "resize_single_leaf (JObj spec) (JInt n) = Inr result"
  shows "\<exists>nodes nodes' plan. map_of spec ''nodes'' = Some (JList (map JObj nodes)) \<and>
    map_of result ''nodes'' = Some (JList (map JObj nodes')) \<and> compile_topology (JObj result) = Inr plan \<and>
    2 \<le> n \<and> n \<le> 8 \<and> p_node_ids plan = map head_id [0..<nat n] \<and> length nodes' = nat n \<and>
    (\<forall>i < nat n. \<forall>k. k \<noteq> ''id'' \<longrightarrow> map_of (nodes' ! i) k = map_of (node_origin nodes i) k) \<and>
    (\<forall>k. k \<notin> {''nodes'', ''devices'', ''links''} \<longrightarrow> map_of result k = map_of spec k)"
proof -
  from assms obtain lf links plan where n: "between 2 8 n" and lf: "read_leaf spec = Inr lf"
    and result: "result = resized_spec spec lf (nat n) links" and plan: "compile_topology (JObj result) = Inr plan"
    by (auto simp: resize_single_leaf_def Let_def int_between_Inr split: if_splits)
  obtain nodes where nodes: "map_of spec ''nodes'' = Some (JList (map JObj nodes))" "lf_node_seed lf = hd nodes"
    "\<And>k. map_of (lf_nodes lf) k = find (\<lambda>d. getitem ''id'' d = Inr k) (rev nodes)"
    using read_leaf_Inr [OF lf] by metis
  let ?nodes' = "map (resized_node lf) [0..<nat n]"
  have r: "map_of result ''nodes'' = Some (JList (map JObj ?nodes'))"
    by (simp add: result resized_spec_def comp_def)
  have id: "map_of (?nodes' ! i) ''id'' = Some (JStr (head_id i))" if "i < nat n" for i
    using that by (simp add: resized_node_def)
  have "p_node_ids plan = map head_id [0..<nat n]"
    using plan_node_ids [OF plan r] id by (auto intro!: nth_equalityI)
  moreover have "map_of (?nodes' ! i) k = map_of (node_origin nodes i) k" if "i < nat n" "k \<noteq> ''id''" for i k
    using that by (simp add: resized_node_def node_origin_def dict_get_def nodes)
  moreover have "map_of result k = map_of spec k" if "k \<notin> {''nodes'', ''devices'', ''links''}" for k
    using that by (auto simp: result resized_spec_def)
  ultimately show ?thesis
    using nodes(1) r plan n by (intro exI [of _ nodes] exI [of _ ?nodes'] exI [of _ plan]) (simp add: between_def)
qed

text \<open>
  A copy that fails halfway: when the recipe of the source no longer fits its topology, copying
  raises that error, but the new task has already been stored and stays in the list.
\<close>

theorem copy_task_leaves_task:
  assumes "cloned_task root (new_task_id fresh) task_id fs = Inr (clone, label)"
    and "store_task root (new_task_id fresh) clone label fs = Inr fs'"
    and "copy_recipe root task_id (new_task_id fresh) clone fs' = Inl e"
  shows "fst (copy_task root fresh task_id fs) = Inl e \<and>
    read_task root (snd (copy_task root fresh task_id fs)) (new_task_id fresh) = Inr (JObj clone)"
proof -
  have "stores_task root (new_task_id fresh) clone fs fs'"
    using assms(2) new_task_starts by (rule store_task_stores)
  then have "read_task root fs' (new_task_id fresh) = Inr (JObj clone)"
    by (simp add: read_task_def stores_task_def task_path_task new_task_starts loads_def)
  then show ?thesis by (simp add: copy_task_def store_then_def assms)
qed

subsection \<open>Examples\<close>

definition demo_template :: string where
  "demo_template = ''template-topology-gem5-two-heads''"

definition demo_store :: store where
  "demo_store = (\<lambda>_. None)
     (path_join (configs_dir ''/lab'') (to_path ''topology-gem5-two-heads.json'') \<mapsto> Some gem5_two_heads,
      in_tasks ''/lab'' (demo_template @ ''.recipe.json'') \<mapsto> Some JNull)"

lemma demo_template_path:
  "task_path ''/lab'' demo_template = Inr (path_join (configs_dir ''/lab'') (to_path ''topology-gem5-two-heads.json''))"
  by code_simp

lemma config_not_in_tasks:
  assumes "CHR ''/'' \<notin> set name" "name \<noteq> []" "name \<noteq> ''.''"
  shows "path_join (configs_dir root) (to_path name) \<noteq> in_tasks root x"
proof
  assume "path_join (configs_dir root) (to_path name) = in_tasks root x"
  from arg_cong [OF this, of "\<lambda>p. length (pp_parts p)"] show False
    using to_path_plain [OF assms]
    by (simp add: in_tasks_def tasks_dir_def configs_dir_def path_join_def to_path_plain)
qed

lemma demo_store_inv: "store_inv ''/lab'' demo_store"
proof -
  have "demo_store (in_tasks ''/lab'' (task_id @ ''.json'')) = None" if "TASK_ID task_id" "startswith task_id ''task-''" for task_id
  proof -
    have "path_join (configs_dir ''/lab'') (to_path ''topology-gem5-two-heads.json'') \<noteq> in_tasks ''/lab'' (task_id @ ''.json'')"
      by (rule config_not_in_tasks) simp_all
    moreover have "task_id @ ''.json'' \<noteq> demo_template @ ''.recipe.json''"
      using that(2) unfolding startswith_iff by (elim exE) (simp add: demo_template_def)
    ultimately show ?thesis by (simp add: demo_store_def)
  qed
  then show ?thesis by (simp add: store_inv_def)
qed

theorem store_invariant_witness:
  "store_inv ''/lab'' (snd (create_task ''/lab'' ''20260101-a'' [] demo_store)) \<and>
   store_inv ''/lab'' (snd (copy_task ''/lab'' ''20260101-a'' demo_template demo_store)) \<and>
   store_inv ''/lab'' (snd (save_task ''/lab'' demo_template [] demo_store)) \<and>
   store_inv ''/lab'' (snd (save_recipe ''/lab'' demo_template JNull demo_store))"
  by (rule store_invariant [OF demo_store_inv])

definition demo_clone :: dict where
  "demo_clone = dict_set ''name'' (JStr ''task_20260101_a'') gem5_spec"

lemma demo_clone_compiles: "\<exists>plan. compile_topology (JObj demo_clone) = Inr plan"
proof -
  have "\<not> isl (compile_topology (JObj demo_clone))" by code_simp
  then show ?thesis by (cases "compile_topology (JObj demo_clone)") auto
qed

lemma demo_cloned: "cloned_task ''/lab'' (new_task_id ''20260101-a'') demo_template demo_store =
    Inr (demo_clone, ''gem5 two hosts on a switch chip copy'')"
proof -
  have read: "read_task ''/lab'' demo_store demo_template = Inr (JObj gem5_spec)"
    unfolding read_task_def demo_template_path 
    using config_not_in_tasks [of "''topology-gem5-two-heads.json''" "''/lab''" "demo_template @ ''.recipe.json''"]
    by (simp add: demo_store_def loads_def gem5_spec_def gem5_two_heads_def)
  have name: "rbind (display_name ''/lab'' demo_store demo_template (JObj gem5_spec)) copy_label = Inr ''gem5 two hosts on a switch chip copy''"
    by code_simp
  have "internal_name (new_task_id ''20260101-a'') = JStr ''task_20260101_a''"
    by code_simp
  then show ?thesis
    using demo_clone_compiles
    by (auto simp: cloned_task_def read name demo_clone_def Let_def)
qed

lemma demo_copy_recipe:
  assumes "store_task ''/lab'' (new_task_id ''20260101-a'') demo_clone label demo_store = Inr fs'"
  shows "copy_recipe ''/lab'' demo_template (new_task_id ''20260101-a'') demo_clone fs' =
    Inl (ValueError ''recipe fields are incomplete or unknown'')"
proof -
  have r: "recipe_path ''/lab'' demo_template = Inr (in_tasks ''/lab'' (demo_template @ ''.recipe.json''))"
    by code_simp
  have "fs' (in_tasks ''/lab'' (demo_template @ ''.recipe.json'')) = Some (Some JNull)"
    using store_task_frame [OF assms new_task_starts]
    by (simp add: demo_store_def demo_template_def new_task_id_def)
  moreover have n: "rbind (getitem ''nodes'' demo_clone) jlen = Inr 2" by code_simp
  ultimately show ?thesis unfolding copy_recipe_def r n rbind_simps by (simp add: loads_def validate_recipe_def)
qed

lemma demo_store_task: "\<exists>fs'. store_task ''/lab'' (new_task_id ''20260101-a'') demo_clone label demo_store = Inr fs'"
proof -
  have "slug ''20260101-a''" by code_simp
  from task_path_task [OF TASK_ID_new [OF this] new_task_starts] show ?thesis by (simp add: store_task_def)
qed

theorem copy_task_leaves_task_witness:
  "fst (copy_task ''/lab'' ''20260101-a'' demo_template demo_store) = Inl (ValueError ''recipe fields are incomplete or unknown'') \<and>
   read_task ''/lab'' (snd (copy_task ''/lab'' ''20260101-a'' demo_template demo_store)) (new_task_id ''20260101-a'') = Inr (JObj demo_clone)"
proof -
  obtain fs' where "store_task ''/lab'' (new_task_id ''20260101-a'') demo_clone ''gem5 two hosts on a switch chip copy'' demo_store = Inr fs'"
    using demo_store_task by blast
  from copy_task_leaves_task [OF demo_cloned this demo_copy_recipe [OF this]] show ?thesis .
qed

theorem store_writes_confined_witness:
  "in_tasks ''/lab'' ''task-a.json'' \<notin> (\<lambda>(_, name). path_join (configs_dir ''/lab'') (to_path name)) ` set TEMPLATES"
proof -
  have "own_file ''/lab'' ''task-a'' (in_tasks ''/lab'' ''task-a.json'')" by (simp add: own_file_def)
  with store_writes_confined [of "''/lab''" _ _ _ "in_tasks ''/lab'' ''task-a.json''" _ _ "''task-a''"] show ?thesis by blast
qed

lemma demo_resize_returns: "\<not> isl (resize_single_leaf (JObj gem5_spec) (JInt 3))"
  by code_simp

theorem resize_result_witness:
  "\<exists>result plan. resize_single_leaf (JObj gem5_spec) (JInt 3) = Inr result \<and> compile_topology (JObj result) = Inr plan \<and>
     p_node_ids plan = [''head-a'', ''head-b'', ''head-c'']"
proof -
  from demo_resize_returns obtain result where r: "resize_single_leaf (JObj gem5_spec) (JInt 3) = Inr result"
    by (cases "resize_single_leaf (JObj gem5_spec) (JInt 3)") auto
  have "map head_id [0..<nat 3] = [''head-a'', ''head-b'', ''head-c'']" by code_simp
  with resize_result [OF r] r show ?thesis by auto
qed

end
