(* ===== verification/Preflight.thy ===== *)
theory Preflight
  imports Launcher Qemu_Ports Task_Store
begin

section \<open>Checks before a start or an experiment\<close>

text \<open>
  Model of \<^verbatim>\<open>_ports\<close>, \<^verbatim>\<open>checkpoint_availability\<close> and \<^verbatim>\<open>preflight\<close> of \<^verbatim>\<open>ubsim_lab/experiments.py\<close>.  The
  host (files, free ports, the memory guard's verdict, the topology a running simulation was started
  with) is the record \<open>exp_world\<close>, which extends the launcher's.  Labels are rendered in English; the
  details shown to the user are modelled where they list what is missing.
\<close>

record runtime_state =
  rt_active :: bool
  rt_topology_name :: json
  rt_run_dir :: string

record exp_world =
  xw_launch :: launch_world
  xw_executable :: "string \<Rightarrow> bool"
  xw_port_free :: "int \<Rightarrow> bool"
  xw_guard :: "string list \<Rightarrow> int \<times> string"
  xw_launched :: "string \<Rightarrow> json res"

abbreviation xw_is_file :: "exp_world \<Rightarrow> string \<Rightarrow> bool" where
  "xw_is_file w \<equiv> lw_is_file (lx_lab (xw_launch w))"

abbreviation xw_root :: "exp_world \<Rightarrow> string" where
  "xw_root w \<equiv> lx_root (xw_launch w)"

abbreviation xw_env :: "exp_world \<Rightarrow> sdict" where
  "xw_env w \<equiv> lx_env (xw_launch w)"

record preflight_check =
  pc_label :: string
  pc_ok :: bool
  pc_detail :: string

record verdict =
  vd_ok :: bool
  vd_checks :: "preflight_check list"
  vd_checkpoint :: "string option"
  vd_simulator :: string
  vd_running :: bool

text \<open>
  Python's \<^verbatim>\<open>==\<close> on decoded JSON: the order of an object's keys is irrelevant and the booleans are the
  numbers 0 and 1.  A floating-point number is its literal here and equals only the same literal.
\<close>

fun json_eq :: "json \<Rightarrow> json \<Rightarrow> bool"
  and jsons_eq :: "json list \<Rightarrow> json list \<Rightarrow> bool"
  and dict_within :: "dict \<Rightarrow> dict \<Rightarrow> bool" where
  "json_eq JNull b \<longleftrightarrow> b = JNull"
| "json_eq (JBool x) b \<longleftrightarrow> b = JBool x \<or> b = JInt (if x then 1 else 0)"
| "json_eq (JInt i) b \<longleftrightarrow> b = JInt i \<or> b = JBool (i = 1) \<and> (i = 0 \<or> i = 1)"
| "json_eq (JFloat x) b \<longleftrightarrow> b = JFloat x"
| "json_eq (JStr x) b \<longleftrightarrow> b = JStr x"
| "json_eq (JList xs) b \<longleftrightarrow> (case b of JList ys \<Rightarrow> jsons_eq xs ys | _ \<Rightarrow> False)"
| "json_eq (JObj d) b \<longleftrightarrow> (case b of JObj e \<Rightarrow> length d = length e \<and> dict_within d e | _ \<Rightarrow> False)"
| "jsons_eq [] ys \<longleftrightarrow> ys = []"
| "jsons_eq (x # xs) ys \<longleftrightarrow> (case ys of [] \<Rightarrow> False | y # ys' \<Rightarrow> json_eq x y \<and> jsons_eq xs ys')"
| "dict_within [] e \<longleftrightarrow> True"
| "dict_within (kv # d) e \<longleftrightarrow> (case map_of e (fst kv) of None \<Rightarrow> False | Some v \<Rightarrow> json_eq (snd kv) v) \<and> dict_within d e"

definition pcheck :: "string \<Rightarrow> bool \<Rightarrow> string \<Rightarrow> preflight_check" where
  "pcheck label ok detail = \<lparr>pc_label = label, pc_ok = ok, pc_detail = detail\<rparr>"

definition exp_ports :: "sdict \<Rightarrow> string \<Rightarrow> (int \<times> int) res" where
  "exp_ports env simulator =
     (let (name0, name1, default0, default1) =
        (if simulator = ''gem5'' then (''UBSIM_DUAL_UART0'', ''UBSIM_DUAL_UART1'', ''3460'', ''3470'')
         else (''UBSIM_QEMU_UART0'', ''UBSIM_QEMU_UART1'', ''3560'', ''3570'')) in
      rbind (env_int env name0 default0) (\<lambda>a. rbind (env_int env name1 default1) (\<lambda>b. Inr (a, b))))"

record availability =
  av_checkpoint :: "string option"
  av_launch_mode :: string
  av_resolved :: sdict

definition checkpoint_availability :: "exp_world \<Rightarrow> dict \<Rightarrow> plan \<Rightarrow> availability res" where
  "checkpoint_availability w spec plan =
     (if p_simulator plan \<noteq> ''gem5'' then Inr \<lparr>av_checkpoint = None, av_launch_mode = ''direct'', av_resolved = []\<rparr>
      else rbind (resolve_gem5 (xw_root w) spec plan) (\<lambda>resolved.
        rbind (if p_checkpoint plan = ''auto''
               then rbind (getitem ''initrd_path'' resolved) (\<lambda>image.
                 select_compatible_checkpoint (lx_lab (xw_launch w)) resolved (Some image))
               else Inr None) (\<lambda>checkpoint.
        Inr \<lparr>av_checkpoint = checkpoint,
          av_launch_mode = (case checkpoint of Some (c # cs) \<Rightarrow> ''restore'' | _ \<Rightarrow> ''cold''), av_resolved = resolved\<rparr>)))"

subsection \<open>Start-up artefacts\<close>

definition gem5_artifacts :: "exp_world \<Rightarrow> sdict \<Rightarrow> string list" where
  "gem5_artifacts w resolved =
     (let lw = xw_launch w; host = (if lx_darwin lw then ''macos'' else ''linux'') in
      [env_path lw ''UBSIM_GEM5'' (if lx_darwin lw then ''gem5/build/ARM_MAC/gem5.opt'' else ''gem5/build/ARM/gem5.opt''),
       env_path lw ''UBSIM_KERNEL'' ''artifacts/kernel-64k-20261015/vmlinux'',
       env_path lw ''UBSIM_CONFIG'' ''configs/arm64_fs.py'',
       env_path lw ''UBSIM_UDMA_DEVICE_BINARY'' (udma_default lw),
       env_path lw ''UBSIM_UB_SWITCH_BINARY'' (''sources/ns-3-ub/build-'' @ host @ ''/scratch/ns3.44-ub-net-adapter''),
       path_str (to_path (dict_get ''initrd_path'' (path_under (xw_root w) ''out/official-udma-64k-20261015.cpio.gz'') resolved))])"

definition qemu_artifacts :: "exp_world \<Rightarrow> string list" where
  "qemu_artifacts w =
     (let lw = xw_launch w; host = (if lx_darwin lw then ''macos'' else ''linux'');
          udma = env_path lw ''UBSIM_UDMA_DEVICE_BINARY'' (udma_default lw) in
      [env_path lw ''UBSIM_QEMU'' ''sources/qemu-11.1.1/build/qemu-system-aarch64'',
       env_path lw ''UBSIM_QEMU_KERNEL'' ''artifacts/kernel-64k-20261015/Image'',
       env_path lw ''UBSIM_INITRD'' ''out/official-udma-64k-20261015.cpio.gz'',
       (if xw_is_file w udma then udma else path_under (xw_root w) ''artifacts/udma-device-sim-build/udma-device-sim''),
       env_path lw ''UBSIM_NS3UB_ADAPTER'' (''sources/ns-3-ub/build-'' @ host @ ''/scratch/ns3.44-ub-net-adapter'')])"

definition missing_artifacts :: "exp_world \<Rightarrow> string list \<Rightarrow> string list" where
  "missing_artifacts w paths = map snd (filter (\<lambda>(index, path).
     \<not> xw_is_file w path \<or> (index \<in> {0, 3, 4} \<and> \<not> xw_executable w path)) (enumerate 0 paths))"

definition artifacts_check :: "exp_world \<Rightarrow> string list \<Rightarrow> preflight_check" where
  "artifacts_check w paths = (let missing = missing_artifacts w paths in
     pcheck ''artifacts'' (missing = []) (if missing = [] then ''complete'' else ''missing: '' @ join '', '' missing))"

subsection \<open>The checks\<close>

definition same_task :: "runtime_state \<Rightarrow> json \<Rightarrow> bool" where
  "same_task own name \<longleftrightarrow> rt_active own \<and> rt_topology_name own = name"

definition occupancy_check :: "runtime_state \<Rightarrow> runtime_state \<Rightarrow> bool \<Rightarrow> preflight_check" where
  "occupancy_check own other same = pcheck ''occupancy''
     (\<not> rt_active other \<and> (\<not> rt_active own \<or> same))
     (if same then ''this task is running'' else if \<not> rt_active own \<and> \<not> rt_active other then ''free''
      else ''another topology is running'')"

definition configuration_checks :: "exp_world \<Rightarrow> dict \<Rightarrow> runtime_state \<Rightarrow> bool \<Rightarrow> preflight_check list res" where
  "configuration_checks w spec own wanted =
     (if \<not> wanted then Inr []
      else let report = (\<lambda>ok. Inr [pcheck ''configuration'' ok
            (if ok then ''identical to the saved topology'' else ''differs from the saved topology'')]) in
        case xw_launched w (path_under (rt_run_dir own) ''topology.json'') of
          Inr launched \<Rightarrow> report (json_eq launched (JObj spec))
        | Inl e \<Rightarrow> (case e of OSError _ \<Rightarrow> report False | JSONDecodeError _ \<Rightarrow> report False | _ \<Rightarrow> Inl e))"

definition start_checks :: "exp_world \<Rightarrow> plan \<Rightarrow> availability \<Rightarrow> runtime_state \<Rightarrow> preflight_check list" where
  "start_checks w plan av own =
     (if p_simulator plan = ''gem5''
      then pcheck ''launch mode'' True (av_launch_mode av) #
        (if av_resolved av \<noteq> [] \<and> \<not> rt_active own then [artifacts_check w (gem5_artifacts w (av_resolved av))] else [])
      else [artifacts_check w (qemu_artifacts w)])"

definition machine_memory :: "machine_plan \<Rightarrow> int" where
  "machine_memory m = (case m of QemuMachine q \<Rightarrow> qm_memory_mib q | Gem5Machine _ \<Rightarrow> 0)"

definition modeled_memory :: "plan \<Rightarrow> availability \<Rightarrow> string res" where
  "modeled_memory plan av =
     (if p_simulator plan = ''gem5'' then getitem ''memory_size'' (av_resolved av)
      else rbind (max_of (map machine_memory (p_machines plan))) (\<lambda>m. Inr (str_int m @ ''MiB'')))"

definition guard_argv :: "exp_world \<Rightarrow> plan \<Rightarrow> string \<Rightarrow> string list" where
  "guard_argv w plan memory =
     [lx_python (xw_launch w), path_under (xw_root w) ''tools/host_memory_guard.py'', ''check'', ''--phase'',
      if p_simulator plan = ''gem5'' then ''start'' else ''qemu-start'',
      ''--nodes'', show_nat (length (p_node_ids plan)), ''--mem-size'', memory]"

definition memory_check :: "exp_world \<Rightarrow> plan \<Rightarrow> string \<Rightarrow> preflight_check" where
  "memory_check w plan memory = (case xw_guard w (guard_argv w plan memory) of (code, text) \<Rightarrow>
     let detail = map (\<lambda>c. if c = CHR 0x0A then CHR '';'' else c) (strip text) in pcheck ''host memory'' (code = 0) (if detail = [] then ''unknown'' else detail))"

definition port_checks :: "exp_world \<Rightarrow> int list \<Rightarrow> preflight_check list" where
  "port_checks w ports = (if ports = [] then [] else
     let occupied = filter (\<lambda>p. \<not> xw_port_free w p) ports in
     [pcheck ''ports'' (occupied = []) (if occupied = [] then ''free: '' @ join '', '' (map str_int ports)
        else ''in use: '' @ join '', '' (map str_int occupied))])"

definition local_port_checks :: "exp_world \<Rightarrow> plan \<Rightarrow> preflight_check list res" where
  "local_port_checks w plan =
     (let count = int (length (p_node_ids plan)) in
      rbind (exp_ports (xw_env w) (p_simulator plan)) (\<lambda>(first, second).
      if p_simulator plan = ''qemu'' then
        (case qemu_ports (xw_env w) count of
           Inr pm \<Rightarrow> Inr (port_checks w (flat_ports pm))
         | Inl (ValueError m) \<Rightarrow> Inr [pcheck ''ports'' False m]
         | Inl e \<Rightarrow> Inl e)
      else Inr (port_checks w (port_row first second count))))"

definition node_modern :: "json \<Rightarrow> bool" where
  "node_modern node = (case node of JObj d \<Rightarrow> map_of d ''profile'' = Some (JStr ''modern'') | _ \<Rightarrow> False)"

definition timing_ok :: "dict \<Rightarrow> bool" where
  "timing_ok spec \<longleftrightarrow>
     (case map_of spec ''nodes'' of Some (JList nodes) \<Rightarrow> list_all node_modern nodes | _ \<Rightarrow> False) \<and>
     (case map_of spec ''execution'' of Some (JObj d) \<Rightarrow> map_of d ''sync'' = Some (JStr ''required'') | _ \<Rightarrow> False)"

definition recipe_checks ::
    "exp_world \<Rightarrow> dict \<Rightarrow> plan \<Rightarrow> runtime_state \<Rightarrow> bool \<Rightarrow> recipe \<Rightarrow> bool \<Rightarrow> preflight_check list res" where
  "recipe_checks w spec plan own same recipe terminal_busy =
     rbind (case validate_recipe (recipe_json recipe) spec of
         Inr _ \<Rightarrow> Inr (pcheck ''recipe'' True ''valid'')
       | Inl e \<Rightarrow> if is_ValueError e then Inr (pcheck ''recipe'' False ''invalid'') else Inl e) (\<lambda>first.
     Inr ([first, pcheck ''experiment hosts'' same (if same then ''running'' else ''start this task first'')] @
       (if p_simulator plan = ''gem5''
        then [pcheck ''gem5 timing'' (timing_ok spec) ''modern CPU and required synchronisation''] else []) @
       (if same \<and> p_simulator plan = ''gem5'' then [pcheck ''two-host network'' True
          (if xw_is_file w (path_under (rt_run_dir own) ''sync.ready'') then ''synchronised'' else ''synchronised on demand'')] else []) @
       [pcheck ''serial session'' (\<not> terminal_busy) (if terminal_busy then ''close the terminal first'' else ''available'')]))"

definition preflight :: "exp_world \<Rightarrow> dict \<Rightarrow> (string \<Rightarrow> runtime_state) \<Rightarrow> recipe option \<Rightarrow> bool \<Rightarrow> verdict res" where
  "preflight w spec runtime recipe terminal_busy =
     rbind (compile_topology (JObj spec)) (\<lambda>plan.
     rbind (getitem ''name'' spec) (\<lambda>name.
     let simulator = p_simulator plan; own = runtime simulator;
         other = runtime (if simulator = ''gem5'' then ''qemu'' else ''gem5'');
         same = same_task own name in
     rbind (configuration_checks w spec own (same \<and> recipe \<noteq> None)) (\<lambda>configuration.
     rbind (checkpoint_availability w spec plan) (\<lambda>av.
     rbind (if rt_active own then Inr [] else
       rbind (modeled_memory plan av) (\<lambda>memory.
       rbind (local_port_checks w plan) (\<lambda>ports. Inr (memory_check w plan memory # ports)))) (\<lambda>host.
     rbind (case recipe of None \<Rightarrow> Inr [] | Some r \<Rightarrow> recipe_checks w spec plan own same r terminal_busy) (\<lambda>experiment.
     let checks = [pcheck ''topology'' True (p_fabric_layout plan), occupancy_check own other same] @ configuration @
           start_checks w plan av own @ host @ experiment in
     Inr \<lparr>vd_ok = list_all pc_ok checks, vd_checks = checks,
       vd_checkpoint = (if simulator = ''gem5'' then av_checkpoint av else None),
       vd_simulator = simulator, vd_running = same\<rparr>))))))"

subsection \<open>What a positive verdict means\<close>

definition start_possible :: "exp_world \<Rightarrow> dict \<Rightarrow> plan \<Rightarrow> bool" where
  "start_possible w spec plan \<longleftrightarrow> (\<exists>av memory ports.
     checkpoint_availability w spec plan = Inr av \<and> modeled_memory plan av = Inr memory \<and>
     fst (xw_guard w (guard_argv w plan memory)) = 0 \<and>
     missing_artifacts w (if p_simulator plan = ''gem5'' then gem5_artifacts w (av_resolved av) else qemu_artifacts w) = [] \<and>
     (if p_simulator plan = ''qemu'' then map_option flat_ports (case qemu_ports (xw_env w) (int (length (p_node_ids plan))) of Inr m \<Rightarrow> Some m | _ \<Rightarrow> None)
      else (case exp_ports (xw_env w) (p_simulator plan) of Inr (a, b) \<Rightarrow> Some (port_row a b (int (length (p_node_ids plan)))) | _ \<Rightarrow> None))
       = Some ports \<and>
     list_all (xw_port_free w) ports)"

definition experiment_possible :: "exp_world \<Rightarrow> dict \<Rightarrow> plan \<Rightarrow> runtime_state \<Rightarrow> recipe \<Rightarrow> bool \<Rightarrow> bool" where
  "experiment_possible w spec plan own r terminal_busy \<longleftrightarrow>
     rt_active own \<and> map_of spec ''name'' = Some (rt_topology_name own) \<and>
     (\<exists>launched. xw_launched w (path_under (rt_run_dir own) ''topology.json'') = Inr launched \<and> json_eq launched (JObj spec)) \<and>
     (\<exists>r'. validate_recipe (recipe_json r) spec = Inr r') \<and>
     (p_simulator plan = ''gem5'' \<longrightarrow> timing_ok spec) \<and> \<not> terminal_busy"

lemma pcheck_ok [simp]: "pc_ok (pcheck label ok detail) \<longleftrightarrow> ok"
  by (simp add: pcheck_def)

lemma port_checks_ok: "list_all pc_ok (port_checks w ports) \<longleftrightarrow> list_all (xw_port_free w) ports"
  by (auto simp: port_checks_def Let_def filter_empty_conv list_all_iff)

lemma memory_check_ok: "pc_ok (memory_check w plan m) \<longleftrightarrow> fst (xw_guard w (guard_argv w plan m)) = 0"
  by (simp add: memory_check_def Let_def split: prod.splits)

lemma local_port_checks_ok:
  assumes "local_port_checks w plan = Inr checks" and "list_all pc_ok checks"
  shows "\<exists>ports. (if p_simulator plan = ''qemu'' then map_option flat_ports (case qemu_ports (xw_env w) (int (length (p_node_ids plan))) of Inr m \<Rightarrow> Some m | _ \<Rightarrow> None)
      else (case exp_ports (xw_env w) (p_simulator plan) of Inr (a, b) \<Rightarrow> Some (port_row a b (int (length (p_node_ids plan)))) | _ \<Rightarrow> None))
       = Some ports \<and> list_all (xw_port_free w) ports"
proof (cases "p_simulator plan = ''qemu''")
  case True
  with assms show ?thesis
    by (cases "qemu_ports (xw_env w) (int (length (p_node_ids plan)))")
      (auto simp: local_port_checks_def Let_def port_checks_ok split: py_exc.splits)
next
  case False
  with assms show ?thesis by (auto simp: local_port_checks_def Let_def port_checks_ok)
qed

lemma start_checks_ok:
  assumes "list_all pc_ok (start_checks w plan av own)" and "\<not> rt_active own" and "p_simulator plan = ''gem5'' \<longrightarrow> av_resolved av \<noteq> []"
  shows "missing_artifacts w (if p_simulator plan = ''gem5'' then gem5_artifacts w (av_resolved av) else qemu_artifacts w) = []"
  using assms by (auto simp: start_checks_def artifacts_check_def Let_def split: if_splits)

lemma configuration_checks_ok:
  assumes "configuration_checks w spec own True = Inr checks" and "list_all pc_ok checks"
  shows "\<exists>launched. xw_launched w (path_under (rt_run_dir own) ''topology.json'') = Inr launched \<and> json_eq launched (JObj spec)"
  using assms by (auto simp: configuration_checks_def Let_def split: sum.splits py_exc.splits)

lemma recipe_checks_ok:
  assumes "recipe_checks w spec plan own same r busy = Inr checks" and "list_all pc_ok checks"
  shows "same \<and> (\<exists>r'. validate_recipe (recipe_json r) spec = Inr r') \<and> (p_simulator plan = ''gem5'' \<longrightarrow> timing_ok spec) \<and> \<not> busy"
  using assms by (auto simp: recipe_checks_def split: sum.splits if_splits)


text \<open>A host with everything in place and nothing running.\<close>

definition idle_lab :: lab_world where
  "idle_lab = \<lparr>lw_root = ''/lab'', lw_env = [], lw_is_file = (\<lambda>_. True), lw_run = (\<lambda>_ _. \<lparr>pr_code = 0, pr_out = [], pr_err = []\<rparr>),
     lw_system = ''Linux'', lw_machine = ''x86_64'', lw_sha256 = (\<lambda>_. None), lw_checkpoints = []\<rparr>"

definition idle_host :: exp_world where
  "idle_host = \<lparr>xw_launch = \<lparr>lx_lab = idle_lab, lx_darwin = False, lx_machine = ''x86_64'', lx_python = ''python3'',
       lx_is_dir = (\<lambda>_. True), lx_exists = (\<lambda>_. True), lx_any_live = (\<lambda>_. False), lx_memory_check = (\<lambda>_. 0),
       lx_spawn_ok = (\<lambda>_. True), lx_pidfile_ok = (\<lambda>_. True), lx_socket = (\<lambda>_. True), lx_connected = True\<rparr>,
     xw_executable = (\<lambda>_. True), xw_port_free = (\<lambda>_. True), xw_guard = (\<lambda>_. (0, [])), xw_launched = (\<lambda>_. Inl (OSError []))\<rparr>"

definition idle_runtime :: "string \<Rightarrow> runtime_state" where
  "idle_runtime simulator = \<lparr>rt_active = False, rt_topology_name = JNull, rt_run_dir = ''/run''\<rparr>"

definition qemu_spec :: dict where
  "qemu_spec = (case qemu_two_heads of JObj d \<Rightarrow> d | _ \<Rightarrow> [])"

lemma compile_qemu_spec: "compile_topology (JObj qemu_spec) = Inr qemu_two_heads_plan"
  using compile_qemu_two_heads by (simp add: qemu_spec_def qemu_two_heads_def)

lemma idle_env: "xw_env idle_host = []"
  by (simp add: idle_host_def idle_lab_def)

lemma idle_ports: "\<exists>checks. local_port_checks idle_host qemu_two_heads_plan = Inr checks \<and> list_all pc_ok checks"
proof -
  have n: "int (length (p_node_ids qemu_two_heads_plan)) = 2" "p_simulator qemu_two_heads_plan = ''qemu''"
    by (simp_all add: qemu_two_heads_plan_def)
  have q: "\<not> isl (qemu_ports [] 2)" by code_simp
  have e: "exp_ports [] ''qemu'' = Inr (3560, 3570)" by code_simp
  have free: "xw_port_free idle_host = (\<lambda>_. True)" by (simp add: idle_host_def)
  from q obtain pm where "qemu_ports [] 2 = Inr pm" by (cases "qemu_ports [] 2") auto
  then show ?thesis
    by (simp add: local_port_checks_def n idle_env e port_checks_ok) (simp add: free list_all_iff)
qed

lemma idle_preflight: "\<exists>v. preflight idle_host qemu_spec idle_runtime None False = Inr v \<and> vd_ok v"
proof -
  obtain ports where ports: "local_port_checks idle_host qemu_two_heads_plan = Inr ports" "list_all pc_ok ports"
    using idle_ports by blast
  have plan: "p_simulator qemu_two_heads_plan = ''qemu''" by (simp add: qemu_two_heads_plan_def)
  have rt: "\<not> rt_active (idle_runtime s)" for s by (simp add: idle_runtime_def)
  have name: "\<exists>v. map_of qemu_spec ''name'' = Some v" by (simp add: qemu_spec_def qemu_two_heads_def)
  have av: "checkpoint_availability idle_host qemu_spec qemu_two_heads_plan =
      Inr \<lparr>av_checkpoint = None, av_launch_mode = ''direct'', av_resolved = []\<rparr>"
    by (simp add: checkpoint_availability_def plan)
  have mem: "\<exists>m. modeled_memory qemu_two_heads_plan av = Inr m" for av
    by (simp add: modeled_memory_def qemu_two_heads_plan_def max_of_def numeral_2_eq_2)
  have files: "missing_artifacts idle_host ps = []" for ps
    by (simp add: missing_artifacts_def idle_host_def idle_lab_def)
  have guard: "pc_ok (memory_check idle_host p m)" for p m
    by (simp add: memory_check_ok) (simp add: idle_host_def)
  obtain v where name': "map_of qemu_spec ''name'' = Some v" using name by blast
  obtain m where mem': "modeled_memory qemu_two_heads_plan \<lparr>av_checkpoint = None, av_launch_mode = ''direct'', av_resolved = []\<rparr> = Inr m"
    using mem by blast
  show ?thesis
    by (simp add: preflight_def compile_qemu_spec name' mem' getitem_def Let_def plan av rt ports guard same_task_def
        configuration_checks_def start_checks_def artifacts_check_def files occupancy_check_def)
qed


end
