(* ===== verification/Py_Regex.thy ===== *)
theory Py_Regex
  imports Py_Prelude
begin

section \<open>Regular expressions\<close>

text \<open>
  The part of the module \<^verbatim>\<open>re\<close> that the tools use, with its backtracking semantics: a pattern maps
  a position to the list of positions it can reach, in the order in which the matcher tries them,
  so the first element is the match.  A position is the text before it (reversed), the text after
  it and the groups closed so far.  \<open>Bol\<close> and \<open>Eol\<close> are the anchors under \<^verbatim>\<open>re.M\<close>, \<open>Look\<close> is a
  lookahead, \<open>Wordb\<close> is \<^verbatim>\<open>\\b\<close> and \<open>Lazy\<close> is \<^verbatim>\<open>*?\<close>.
\<close>

datatype rx =
    Cls "char \<Rightarrow> bool"
  | Eps
  | Seq rx rx
  | Alt rx rx
  | Star rx
  | Grp rx
  | Bol
  | Eol
  | Look rx
  | Wordb
  | Lazy rx

text \<open>\<open>is_word\<close> is what \<^verbatim>\<open>\\w\<close> matches among the characters below 256.\<close>

definition is_word :: "char \<Rightarrow> bool" where
  "is_word c \<longleftrightarrow> (let n = (of_char c :: nat) in
     (48 \<le> n \<and> n \<le> 57) \<or> (65 \<le> n \<and> n \<le> 90) \<or> n = 95 \<or> (97 \<le> n \<and> n \<le> 122) \<or>
     n \<in> {170, 178, 179, 181, 185, 186, 188, 189, 190} \<or> (192 \<le> n \<and> n \<noteq> 215 \<and> n \<noteq> 247))"

lemma is_word_code [code]:
  "is_word (Char b0 b1 b2 b3 b4 b5 b6 b7) \<longleftrightarrow>
     (if b7 then (if b6 then \<not> (b4 \<and> \<not> b3 \<and> b2 \<and> b1 \<and> b0)
        else b5 \<and> (if b4 then (\<not> b3 \<and> (if b2 then \<not> b1 \<and> b0 else b1)) \<or> (b3 \<and> (if b2 then \<not> (b1 \<and> b0) else b1 \<noteq> b0))
                   else b3 \<and> \<not> b2 \<and> b1 \<and> \<not> b0))
      else if b6 then (\<not> b5 \<and> b4 \<and> b3 \<and> b2 \<and> b1 \<and> b0) \<or>
        ((b4 \<or> b3 \<or> b2 \<or> b1 \<or> b0) \<and> \<not> (b4 \<and> b3 \<and> (b2 \<or> b1 \<and> b0)))
      else b5 \<and> b4 \<and> (\<not> b3 \<or> \<not> b2 \<and> \<not> b1))"
  by (cases b0; cases b1; cases b2; cases b3; cases b4; cases b5; cases b6; cases b7) (simp_all add: is_word_def)

type_synonym rx_pos = "string \<times> string \<times> string list"

abbreviation rx_rest :: "rx_pos \<Rightarrow> string" where
  "rx_rest p \<equiv> fst (snd p)"

function rx_run :: "rx \<Rightarrow> rx_pos \<Rightarrow> rx_pos list" where
  "rx_run (Cls P) p = (case p of (before, rest, gs) \<Rightarrow>
     (case rest of [] \<Rightarrow> [] | c # cs \<Rightarrow> if P c then [(c # before, cs, gs)] else []))"
| "rx_run Eps p = [p]"
| "rx_run (Seq r s) p = concat (map (rx_run s) (rx_run r p))"
| "rx_run (Alt r s) p = rx_run r p @ rx_run s p"
| "rx_run (Star r) p =
     concat (map (\<lambda>q. if length (rx_rest q) < length (rx_rest p) then rx_run (Star r) q else []) (rx_run r p)) @ [p]"
| "rx_run (Grp r) p = map (\<lambda>(before, rest, gs).
     (before, rest, gs @ [take (length (rx_rest p) - length rest) (rx_rest p)])) (rx_run r p)"
| "rx_run Bol p = (case p of (before, rest, gs) \<Rightarrow>
     if before = [] \<or> hd before = CHR 0x0A then [p] else [])"
| "rx_run Eol p = (case p of (before, rest, gs) \<Rightarrow>
     if rest = [] \<or> hd rest = CHR 0x0A then [p] else [])"
| "rx_run (Look r) p = (if rx_run r p = [] then [] else [p])"
| "rx_run Wordb p = (case p of (before, rest, gs) \<Rightarrow>
     if (before \<noteq> [] \<and> is_word (hd before)) \<noteq> (rest \<noteq> [] \<and> is_word (hd rest)) then [p] else [])"
| "rx_run (Lazy r) p =
     p # concat (map (\<lambda>q. if length (rx_rest q) < length (rx_rest p) then rx_run (Lazy r) q else []) (rx_run r p))"
  by pat_completeness auto
termination
  by (relation "measures [\<lambda>(r, p). size r, \<lambda>(r, p). length (rx_rest p)]") auto

definition rx_start :: "string \<Rightarrow> rx_pos" where
  "rx_start s = ([], s, [])"

text \<open>\<^verbatim>\<open>re.fullmatch\<close>, \<^verbatim>\<open>re.search\<close> and \<^verbatim>\<open>re.findall\<close>, as the groups of the matches.\<close>

definition rx_fullmatch :: "rx \<Rightarrow> string \<Rightarrow> string list option" where
  "rx_fullmatch r s = map_option (snd \<circ> snd) (find (\<lambda>p. rx_rest p = []) (rx_run r (rx_start s)))"

fun rx_search_at :: "rx \<Rightarrow> string \<Rightarrow> string \<Rightarrow> rx_pos option" where
  "rx_search_at r before [] = (case rx_run r (before, [], []) of [] \<Rightarrow> None | p # _ \<Rightarrow> Some p)"
| "rx_search_at r before (c # cs) = (case rx_run r (before, c # cs, []) of
     p # _ \<Rightarrow> Some p | [] \<Rightarrow> rx_search_at r (c # before) cs)"

definition rx_search :: "rx \<Rightarrow> string \<Rightarrow> string list option" where
  "rx_search r s = map_option (snd \<circ> snd) (rx_search_at r [] s)"

fun rx_findall_fuel :: "nat \<Rightarrow> rx \<Rightarrow> string \<Rightarrow> string \<Rightarrow> string list list" where
  "rx_findall_fuel 0 r before rest = []"
| "rx_findall_fuel (Suc n) r before rest = (case rx_run r (before, rest, []) of
     (before', rest', gs) # _ \<Rightarrow>
       if length rest' < length rest then gs # rx_findall_fuel n r before' rest'
       else gs # (case rest of [] \<Rightarrow> [] | c # cs \<Rightarrow> rx_findall_fuel n r (c # before) cs)
   | [] \<Rightarrow> (case rest of [] \<Rightarrow> [] | c # cs \<Rightarrow> rx_findall_fuel n r (c # before) cs))"

definition rx_findall :: "rx \<Rightarrow> string \<Rightarrow> string list list" where
  "rx_findall r s = rx_findall_fuel (Suc (length s)) r [] s"

text \<open>
  \<^verbatim>\<open>re.split\<close> for a pattern without groups that matches no empty text; \<open>piece\<close> is the reversed
  text since the last separator.
\<close>

fun rx_split_fuel :: "nat \<Rightarrow> rx \<Rightarrow> string \<Rightarrow> string \<Rightarrow> string \<Rightarrow> string list" where
  "rx_split_fuel 0 r piece before rest = [rev piece @ rest]"
| "rx_split_fuel (Suc n) r piece before rest = (case rx_run r (before, rest, []) of
     (before', rest', _) # _ \<Rightarrow> rev piece # rx_split_fuel n r [] before' rest'
   | [] \<Rightarrow> (case rest of [] \<Rightarrow> [rev piece] | c # cs \<Rightarrow> rx_split_fuel n r (c # piece) (c # before) cs))"

definition rx_split :: "rx \<Rightarrow> string \<Rightarrow> string list" where
  "rx_split r s = rx_split_fuel (Suc (length s)) r [] [] s"

text \<open>
  \<^verbatim>\<open>re.split\<close> for a pattern with groups: the groups of every separator stand between the pieces.
  \<^verbatim>\<open>re.match\<close> is a match at the start.
\<close>

fun rx_split_groups_fuel :: "nat \<Rightarrow> rx \<Rightarrow> string \<Rightarrow> string \<Rightarrow> string \<Rightarrow> string list" where
  "rx_split_groups_fuel 0 r piece before rest = [rev piece @ rest]"
| "rx_split_groups_fuel (Suc n) r piece before rest = (case rx_run r (before, rest, []) of
     (before', rest', gs) # _ \<Rightarrow> rev piece # gs @ rx_split_groups_fuel n r [] before' rest'
   | [] \<Rightarrow> (case rest of [] \<Rightarrow> [rev piece] | c # cs \<Rightarrow> rx_split_groups_fuel n r (c # piece) (c # before) cs))"

definition rx_split_groups :: "rx \<Rightarrow> string \<Rightarrow> string list" where
  "rx_split_groups r s = rx_split_groups_fuel (Suc (length s)) r [] [] s"

definition rx_match :: "rx \<Rightarrow> string \<Rightarrow> string list option" where
  "rx_match r s = (case rx_run r (rx_start s) of [] \<Rightarrow> None | p # _ \<Rightarrow> Some (snd (snd p)))"

text \<open>
  \<^verbatim>\<open>re.sub\<close> for a pattern that matches no empty text; \<open>template\<close> is the replacement for the groups of a match.
\<close>

fun rx_sub_fuel :: "nat \<Rightarrow> rx \<Rightarrow> (string list \<Rightarrow> string) \<Rightarrow> string \<Rightarrow> string \<Rightarrow> string" where
  "rx_sub_fuel 0 r template before rest = rest"
| "rx_sub_fuel (Suc n) r template before rest = (case rx_run r (before, rest, []) of
     (before', rest', gs) # _ \<Rightarrow> template gs @ rx_sub_fuel n r template before' rest'
   | [] \<Rightarrow> (case rest of [] \<Rightarrow> [] | c # cs \<Rightarrow> c # rx_sub_fuel n r template (c # before) cs))"

definition rx_sub :: "rx \<Rightarrow> (string list \<Rightarrow> string) \<Rightarrow> string \<Rightarrow> string" where
  "rx_sub r template s = rx_sub_fuel (Suc (length s)) r template [] s"

text \<open>Building blocks of patterns.\<close>

fun rx_seq :: "rx list \<Rightarrow> rx" where
  "rx_seq [] = Eps"
| "rx_seq [r] = r"
| "rx_seq (r # rs) = Seq r (rx_seq rs)"

fun rx_alt :: "rx list \<Rightarrow> rx" where
  "rx_alt [] = Cls (\<lambda>_. False)"
| "rx_alt [r] = r"
| "rx_alt (r # rs) = Alt r (rx_alt rs)"

definition rx_lit :: "string \<Rightarrow> rx" where
  "rx_lit s = rx_seq (map (\<lambda>c. Cls (\<lambda>x. x = c)) s)"

definition rx_plus :: "rx \<Rightarrow> rx" where
  "rx_plus r = Seq r (Star r)"

definition rx_opt :: "rx \<Rightarrow> rx" where
  "rx_opt r = Alt r Eps"

definition rx_digits :: rx where
  "rx_digits = rx_plus (Cls is_digit)"

definition rx_spaces :: rx where
  "rx_spaces = Star (Cls is_space)"

definition rx_spaces1 :: rx where
  "rx_spaces1 = rx_plus (Cls is_space)"

subsection \<open>What a match consists of\<close>

text \<open>A match only moves forward: the text passed over and the text left are the text of the start.\<close>

lemma rx_run_forward:
  "(before', rest', gs') \<in> set (rx_run r (before, rest, gs)) \<Longrightarrow>
     \<exists>m. rest = m @ rest' \<and> before' = rev m @ before"
proof (induction r "(before, rest, gs)" arbitrary: before rest gs before' rest' gs' rule: rx_run.induct)
  case (1 P)
  then show ?case by (auto split: list.splits if_splits)
next
  case (3 r s)
  then obtain b1 r1 g1 where p: "(b1, r1, g1) \<in> set (rx_run r (before, rest, gs))"
    "(before', rest', gs') \<in> set (rx_run s (b1, r1, g1))" by auto
  from "3.hyps"(1) [OF p(1)] "3.hyps"(2) [OF p(1) p(2)] show ?case by auto
next
  case (4 r s)
  then show ?case by auto
next
  case (5 r)
  show ?case
  proof (cases "(before', rest', gs') = (before, rest, gs)")
    case False
    with "5.prems" obtain b1 r1 g1 where p: "(b1, r1, g1) \<in> set (rx_run r (before, rest, gs))"
      "length r1 < length rest" "(before', rest', gs') \<in> set (rx_run (Star r) (b1, r1, g1))"
      by (auto simp del: rx_run.simps(5) simp: rx_run.simps(5) [of r "(before, rest, gs)"] split: if_splits)
    from "5.hyps"(1) [OF p(1)] "5.hyps"(2) [OF p(1) _ p(3)] p(2) show ?thesis by auto
  qed simp
next
  case (6 r)
  then show ?case by fastforce
next
  case (11 r)
  show ?case
  proof (cases "(before', rest', gs') = (before, rest, gs)")
    case False
    with "11.prems" obtain b1 r1 g1 where p: "(b1, r1, g1) \<in> set (rx_run r (before, rest, gs))"
      "length r1 < length rest" "(before', rest', gs') \<in> set (rx_run (Lazy r) (b1, r1, g1))"
      by (auto simp del: rx_run.simps(11) simp: rx_run.simps(11) [of r "(before, rest, gs)"] split: if_splits)
    from "11.hyps"(1) [OF p(1)] "11.hyps"(2) [OF p(1) _ p(3)] p(2) show ?thesis by auto
  qed simp
qed (auto split: if_splits)

text \<open>The fuel of \<open>rx_findall\<close> is enough: more fuel finds no more.\<close>

lemma rx_findall_fuel_enough:
  "length rest < n \<Longrightarrow> rx_findall_fuel n r before rest = rx_findall_fuel (Suc (length rest)) r before rest"
proof (induction "length rest" arbitrary: n before rest rule: less_induct)
  case less
  then obtain k where n: "n = Suc k" by (cases n) auto
  have step: "rx_findall_fuel k r b q = rx_findall_fuel (length rest) r b q" if "length q < length rest" for b q
    using less.hyps [OF that, of k] less.hyps [OF that, of "length rest"] less.prems that n by simp
  show ?case
    unfolding n rx_findall_fuel.simps
    by (auto split: list.splits prod.splits simp: step)
qed

end
