(* ===== verification/Rma_Regression.thy ===== *)
theory Rma_Regression
  imports Py_Regex
begin

section \<open>The modular RMA regression\<close>

text \<open>
  Model of \<^verbatim>\<open>tools/run_modular_rma_regression.py\<close>: the case tables, the commands sent to the guests,
  the checks of transcripts and of the synchronisation fences, and the suite loop with its exit
  code.  What the guests print and what the log files hold is an argument.  Wall-clock times, the
  CSV file and the printed progress are not modelled.
\<close>

subsection \<open>Cases\<close>

record rma_case =
  rk_label :: string
  rk_verb :: string
  rk_size :: int
  rk_iterations :: int
  rk_post_list :: int
  rk_cq_mod :: int
  rk_bidirectional :: bool
  rk_all_exponent :: "nat option"

definition kase :: "string \<Rightarrow> string \<Rightarrow> int \<Rightarrow> int \<Rightarrow> int \<Rightarrow> int \<Rightarrow> bool \<Rightarrow> nat option \<Rightarrow> rma_case" where
  "kase label verb bytes iterations post_list cq_mod bidirectional all_exponent =
     \<lparr>rk_label = label, rk_verb = verb, rk_size = bytes, rk_iterations = iterations, rk_post_list = post_list,
      rk_cq_mod = cq_mod, rk_bidirectional = bidirectional, rk_all_exponent = all_exponent\<rparr>"

definition FULL_CASES :: "rma_case list" where
  "FULL_CASES = [
     kase ''send_lat_128'' ''send_lat'' 128 20 1 1 False None,
     kase ''send_bw_128_wrap'' ''send_bw'' 128 128 16 16 False None,
     kase ''send_bw_4096'' ''send_bw'' 4096 32 16 16 False None,
     kase ''write_lat_128'' ''write_lat'' 128 8 1 1 False None,
     kase ''read_lat_128'' ''read_lat'' 128 8 1 1 False None,
     kase ''write_bw_4096_out16'' ''write_bw'' 4096 64 16 16 True None,
     kase ''read_bw_4096_out16'' ''read_bw'' 4096 64 16 16 True None,
     kase ''write_bw_65536_frag'' ''write_bw'' 65536 16 1 1 True None,
     kase ''read_bw_65536_frag'' ''read_bw'' 65536 16 1 1 True None,
     kase ''write_bw_1m_frag'' ''write_bw'' 1048576 5 1 1 True None,
     kase ''read_bw_1m_frag'' ''read_bw'' 1048576 5 1 1 True None,
     kase ''write_bw_all_2_to_1m_inline64'' ''write_bw'' 1048576 64 1 1 True (Some 20)]"

definition SYNC_SMOKE_CASES :: "rma_case list" where
  "SYNC_SMOKE_CASES = [
     kase ''send_lat_128_sync'' ''send_lat'' 128 8 1 1 False None,
     kase ''write_lat_128_sync'' ''write_lat'' 128 8 1 1 False None,
     kase ''read_lat_128_sync'' ''read_lat'' 128 8 1 1 False None,
     kase ''send_bw_128_sync'' ''send_bw'' 128 16 16 16 False None,
     kase ''read_bw_4096_sync'' ''read_bw'' 4096 64 16 16 True None]"

definition TIMING_SEND_CASES :: "rma_case list" where
  "TIMING_SEND_CASES = map (\<lambda>size. kase (''send_bw_'' @ str_int size @ ''_timing'') ''send_bw'' size 1024 64 64 False None)
     [128, 1024, 4096]"

definition BW_VERBS :: "string list" where
  "BW_VERBS = [''send_bw'', ''write_bw'', ''read_bw'']"

definition OUTSTANDING_CASES :: "rma_case list" where
  "OUTSTANDING_CASES = concat (map (\<lambda>verb. map (\<lambda>(mode, batch, moderation).
       kase (verb @ ''_4096_depth512_'' @ mode) verb 4096 2048 batch moderation True None)
     [(''single'', 1, 1), (''batch16'', 16, 16), (''batch512'', 512, 512)]) BW_VERBS)"

definition BOUNDARY_CASES :: "rma_case list" where
  "BOUNDARY_CASES = concat (map (\<lambda>verb. map (\<lambda>size.
       kase (verb @ ''_'' @ str_int size @ ''_boundary'') verb size 64 1 1 True None)
     ([1, 2, 63, 64, 65, 127, 128, 129, 4095, 4096] @ (if verb = ''send_bw'' then [] else [4097, 65535, 65536]))) BW_VERBS)"

definition MULTI_CASES :: "rma_case list" where
  "MULTI_CASES = concat (map (\<lambda>verb. map (\<lambda>size.
       kase (verb @ ''_'' @ str_int size @ ''_multi'') verb size 512 16 16 True None) [128, 4096]) BW_VERBS)"

datatype rma_suite = Full | Sync_Smoke | Timing_Send | Outstanding512 | Boundaries | Multi

fun suite_cases :: "rma_suite \<Rightarrow> rma_case list" where
  "suite_cases Full = FULL_CASES"
| "suite_cases Sync_Smoke = SYNC_SMOKE_CASES"
| "suite_cases Timing_Send = TIMING_SEND_CASES"
| "suite_cases Outstanding512 = OUTSTANDING_CASES"
| "suite_cases Boundaries = BOUNDARY_CASES"
| "suite_cases Multi = MULTI_CASES"

fun suite_depth :: "rma_suite \<Rightarrow> int option" where
  "suite_depth Outstanding512 = Some 512"
| "suite_depth Timing_Send = Some 512"
| "suite_depth Boundaries = Some 64"
| "suite_depth Multi = Some 64"
| "suite_depth _ = None"

definition suite_dist_sync :: "rma_suite \<Rightarrow> bool" where
  "suite_dist_sync suite \<longleftrightarrow> suite = Sync_Smoke \<or> suite = Timing_Send"

definition rma_command :: "rma_case \<Rightarrow> int \<Rightarrow> string option \<Rightarrow> bool \<Rightarrow> int option \<Rightarrow> int \<Rightarrow> string" where
  "rma_command k port server dist_sync queue_depth jettys = join '' ''
     ((if dist_sync then [''UBSIM_DIST_SYNC=1'', ''OPENURMA_DIST_SYNC=1''] else []) @
      [''LD_LIBRARY_PATH=/lib:/usr/lib'', ''urma_perftest'', rk_verb k, ''-d'', ''udma0'', ''--eid_idx'', ''0'', ''--ctp'',
       ''-P'', str_int port, ''-J'', str_int jettys, ''-I'', ''64'', ''-n'', str_int (rk_iterations k),
       ''-l'', str_int (rk_post_list k), ''-Q'', str_int (rk_cq_mod k), ''-p'', ''0''] @
      (case queue_depth of None \<Rightarrow> [] | Some d \<Rightarrow> [''-T'', str_int d, ''-R'', str_int d]) @
      (if jettys > 1 then [''--jettys_pre_jfr'', ''1''] else []) @
      (case rk_all_exponent k of Some e \<Rightarrow> [''-a'' @ show_nat e] | None \<Rightarrow> [''-s'', str_int (rk_size k)]) @
      (if rk_bidirectional k then [''-B''] else []) @
      (case server of Some s \<Rightarrow> [''-S'', s] | None \<Rightarrow> []))"

subsection \<open>Fences\<close>

definition FENCE_NAMES :: "string list" where
  "FENCE_NAMES = [''host0'', ''host1'', ''udma0'', ''udma1'', ''network'']"

definition fence_logs :: "string \<Rightarrow> sdict" where
  "fence_logs root = map (\<lambda>(name, file). (name, path_under root file))
     [(''host0'', ''node0/gem5.log''), (''host1'', ''node1/gem5.log''), (''udma0'', ''udma-node0/udma.log''),
      (''udma1'', ''udma-node1/udma.log''), (''network'', ''ub-switch/gem5.log'')]"

definition fence_tag :: "string \<Rightarrow> string" where
  "fence_tag name = (if startswith name ''host'' then ''UB_HOST_FENCE''
     else if startswith name ''udma'' then ''UDMA_FENCE'' else ''NS3_UB_NET_FENCE'')"

fun str_in :: "string \<Rightarrow> string \<Rightarrow> bool" where
  "str_in p [] \<longleftrightarrow> p = []"
| "str_in p (c # s) \<longleftrightarrow> startswith (c # s) p \<or> str_in p s"

definition rx_fields :: rx where
  "rx_fields = rx_seq [Grp (rx_plus (Cls is_word)), rx_lit ''='', Grp rx_digits]"

definition fence_fields :: "string \<Rightarrow> sdict" where
  "fence_fields line = dict_update [] (map (\<lambda>gs. (gs ! 0, gs ! 1)) (rx_findall rx_fields line))"

text \<open>
  One line of a log: the generation and the active flag, or nothing and the error
  \<^verbatim>\<open>malformed fence\<close>.  The digits of a match are always a number.
\<close>

definition fence_line :: "string \<Rightarrow> string \<Rightarrow> (int \<times> int) option \<times> string list" where
  "fence_line name line = (let fields = fence_fields line in
     case (map_of fields ''generation'', map_of fields ''active'') of
       (Some g, Some a) \<Rightarrow>
         (case (parse_int g, parse_int a) of
            (Some gn, Some an) \<Rightarrow> (Some (gn, an),
              if name = ''network'' \<and> map_of fields ''endpoints'' \<noteq> Some ''2''
              then [''network: fence must include two endpoints''] else [])
          | _ \<Rightarrow> (None, []))
     | _ \<Rightarrow> (None, [name @ '': malformed fence'']))"

definition fence_lines :: "string \<Rightarrow> string \<Rightarrow> string list" where
  "fence_lines name log = filter (str_in (''['' @ fence_tag name @ '']'')) (splitlines log)"

definition fence_sequence :: "string \<Rightarrow> string \<Rightarrow> (int \<times> int) list" where
  "fence_sequence name log = concat (map (\<lambda>l. case fst (fence_line name l) of None \<Rightarrow> [] | Some x \<Rightarrow> [x]) (fence_lines name log))"

definition sequence_errors :: "string \<Rightarrow> (int \<times> int) list \<Rightarrow> string list" where
  "sequence_errors name xs =
     (if xs = [] \<or> length xs mod 2 \<noteq> 0 then [name @ '': missing complete enter/leave fence pair''] else []) @
     (if list_ex (\<lambda>(i, (_, active)). active \<noteq> (if i mod 2 = 0 then 1 else 0)) (enumerate 0 xs)
      then [name @ '': fence active sequence must alternate 1,0''] else []) @
     (if list_ex (\<lambda>(a, b). fst b \<le> fst a) (zip xs (tl xs)) then [name @ '': fence generations must increase''] else [])"

definition fence_step :: "sdict \<Rightarrow> string \<Rightarrow> (int \<times> int) list option \<times> string list \<Rightarrow> (int \<times> int) list option \<times> string list" where
  "fence_step logs name st = (case st of (reference, errors) \<Rightarrow>
     let log = dict_get name [] logs; xs = fence_sequence name log;
         errors1 = errors @ concat (map (\<lambda>l. snd (fence_line name l)) (fence_lines name log)) @ sequence_errors name xs in
     case reference of
       None \<Rightarrow> (Some xs, errors1)
     | Some r \<Rightarrow> (Some r, errors1 @ (if xs \<noteq> r then [name @ '': fence generations/targets differ between participants''] else [])))"

definition validate_fences :: "sdict \<Rightarrow> string list" where
  "validate_fences logs = snd (fold (fence_step logs) FENCE_NAMES (None, []))"

text \<open>
  A log file that can be opened is its current size and what reading on from an offset decodes to.
\<close>

type_synonym log_file = "nat \<times> (nat \<Rightarrow> string)"

definition fence_delta :: "string \<Rightarrow> nat option \<Rightarrow> log_file res \<Rightarrow> string \<times> string list" where
  "fence_delta name start file = (case file of
       Inl e \<Rightarrow> ([], [name @ '': cannot read fence log''])
     | Inr (len, content) \<Rightarrow> (case start of
         None \<Rightarrow> ([], [name @ '': fence log missing at start or truncated''])
       | Some offset \<Rightarrow> if len < offset then ([], [name @ '': fence log missing at start or truncated''])
           else (content offset, [])))"

definition collect_fence_deltas ::
    "sdict \<Rightarrow> (string \<Rightarrow> nat option) \<Rightarrow> (string \<Rightarrow> log_file res) \<Rightarrow> sdict \<times> string list" where
  "collect_fence_deltas paths offsets files =
     (let deltas = map (\<lambda>(name, path). (name, fence_delta name (offsets name) (files path))) paths in
      (map (\<lambda>(name, delta). (name, fst delta)) deltas, concat (map (\<lambda>(_, delta). snd delta) deltas)))"

subsection \<open>Transcripts\<close>

definition rx_uart_header :: rx where
  "rx_uart_header = rx_seq [Bol, rx_lit ''--- UART '', rx_digits, rx_lit '' ---'', rx_spaces, Eol]"

definition rx_number :: rx where
  "rx_number = rx_seq [rx_digits, rx_opt (rx_seq [rx_lit ''.'', rx_digits]),
     rx_opt (rx_seq [Cls (\<lambda>c. c = CHR ''e'' \<or> c = CHR ''E''), rx_opt (Cls (\<lambda>c. c = CHR ''+'' \<or> c = CHR ''-'')), rx_digits])]"

definition rx_result_row :: "rx \<Rightarrow> rx \<Rightarrow> rx" where
  "rx_result_row bytes count = rx_seq [Bol, rx_spaces, bytes, rx_spaces1, count, rx_spaces1, rx_number, rx_spaces1, rx_number,
     rx_spaces1, rx_number, rx_spaces, Eol]"

definition rx_jfs_depth :: rx where
  "rx_jfs_depth = rx_seq [rx_lit ''JFS depth'', rx_spaces, rx_lit '':'', rx_spaces, Grp rx_digits]"

definition rx_jetty_count :: rx where
  "rx_jetty_count = rx_seq [rx_lit ''Number of jettys'', rx_spaces, rx_lit '':'', rx_spaces, Grp rx_digits]"

definition uart_sections :: "string \<Rightarrow> string list" where
  "uart_sections output = tl (rx_split rx_uart_header output)"

definition validate_depth_output :: "string \<Rightarrow> int \<Rightarrow> int \<Rightarrow> int \<Rightarrow> bool \<Rightarrow> string list" where
  "validate_depth_output output depth bytes iterations source_node_only =
     (let sections = uart_sections output in
      (if length sections \<noteq> 2 then [''expected two UART transcripts''] else []) @
      concat (map (\<lambda>(index, section).
        let depths = map hd (rx_findall rx_jfs_depth section);
            expected_depths = (if source_node_only \<and> index = 0 then [] else [str_int depth]) in
        (if depths \<noteq> expected_depths
         then [''node'' @ show_nat index @ '': expected JFS depth '' @ repr_strs expected_depths @ '', got '' @ repr_strs depths]
         else []) @
        (if length (rx_findall (rx_result_row (rx_lit (str_int bytes)) (rx_lit (str_int iterations))) section) \<noteq> 1
         then [''node'' @ show_nat index @ '': missing or duplicate complete bandwidth result''] else []))
        (enumerate 0 sections)))"

definition validate_bw_scan :: "string \<Rightarrow> nat \<Rightarrow> int \<Rightarrow> string list" where
  "validate_bw_scan output exponent iterations =
     (let sections = uart_sections output;
          expected_rows = map (\<lambda>power. [str_int (2 ^ power), str_int iterations]) [1..<exponent + 1] in
      (if length sections = 2 then [] else [''expected two UART transcripts'']) @
      concat (map (\<lambda>(index, section).
        if rx_findall (rx_result_row (Grp rx_digits) (Grp rx_digits)) section \<noteq> expected_rows
        then [''node'' @ show_nat index @ '': incomplete, duplicated or unexpected scan rows''] else [])
        (enumerate 0 sections)))"

text \<open>The last time stamp of a gem5 log; no log, no time stamp.\<close>

definition last_gem5_tick :: "string option \<Rightarrow> int option" where
  "last_gem5_tick log = (case log of
       None \<Rightarrow> None
     | Some text \<Rightarrow> (let matches = map hd (rx_findall (rx_seq [Bol, Grp rx_digits, rx_lit '':'']) text) in
         if matches = [] then None else parse_int (last matches)))"

definition tick_delta :: "int option \<Rightarrow> int option \<Rightarrow> int option" where
  "tick_delta before after = (case (before, after) of
       (Some b, Some a) \<Rightarrow> if a < b then None else Some (a - b)
     | _ \<Rightarrow> None)"

subsection \<open>The suite\<close>

record rma_args =
  ra_lab :: string
  ra_run_root :: string
  ra_output :: string
  ra_uart0 :: int
  ra_uart1 :: int
  ra_timeout :: string
  ra_fail_fast :: bool
  ra_jettys :: int
  ra_gem5 :: bool
  ra_suite :: rma_suite

text \<open>
  \<open>rw_size i path\<close> is the size of a regular file before case \<open>i\<close> starts, \<open>rw_file i path\<close> the file
  after it, \<open>rw_gem5_log i after node\<close> the text of a gem5 log before or after it, and \<open>rw_serial i argv\<close>
  exit code and output of the serial tool.
\<close>

record rma_world =
  rw_mkdir :: "unit res"
  rw_manifest :: "string res"
  rw_size :: "nat \<Rightarrow> string \<Rightarrow> nat option"
  rw_file :: "nat \<Rightarrow> string \<Rightarrow> log_file res"
  rw_gem5_log :: "nat \<Rightarrow> bool \<Rightarrow> nat \<Rightarrow> string option"
  rw_serial :: "nat \<Rightarrow> string list \<Rightarrow> int \<times> string"

record rma_record =
  rr_case :: rma_case
  rr_returncode :: int
  rr_errors :: "string list"
  rr_evidence :: "string list"
  rr_accepted :: bool
  rr_ticks :: "int option list"
  rr_server :: string
  rr_client :: string
  rr_raw :: string

definition pad2 :: "nat \<Rightarrow> string" where
  "pad2 n = (if n < 10 then ''0'' @ show_nat n else show_nat n)"

definition serial_argv :: "rma_args \<Rightarrow> string \<Rightarrow> string \<Rightarrow> string list" where
  "serial_argv args server client =
     [''python3'', path_under (ra_lab args) ''tools/dual_serial_command.py'', ''--ports'', str_int (ra_uart0 args),
      str_int (ra_uart1 args), ''--commands'', server, client, ''--timeout'', ra_timeout args,
      ''--prompt-kick-after'', ''1'', ''--stagger'', ''1'', ''--full-output'']"

definition case_ticks :: "rma_args \<Rightarrow> rma_world \<Rightarrow> nat \<Rightarrow> bool \<Rightarrow> int option list" where
  "case_ticks args w index after =
     (if ra_gem5 args then map (\<lambda>node. last_gem5_tick (rw_gem5_log w index after node)) [0, 1] else [None, None])"

definition transcript_errors :: "rma_args \<Rightarrow> rma_case \<Rightarrow> string \<Rightarrow> string list" where
  "transcript_errors args k output =
     (case suite_depth (ra_suite args) of
        Some d \<Rightarrow> validate_depth_output output d (rk_size k) (rk_iterations k * ra_jettys args) (ra_suite args = Timing_Send)
      | None \<Rightarrow> []) @
     (if ra_jettys args > 1 then
        (let observed = map hd (rx_findall rx_jetty_count output) in
         if observed \<noteq> replicate 2 (str_int (ra_jettys args))
         then [''expected two jetty counts '' @ str_int (ra_jettys args) @ '', got '' @ repr_strs observed] else [])
      else []) @
     (case rk_all_exponent k of
        Some e \<Rightarrow> if endswith (rk_verb k) ''_bw'' then validate_bw_scan output e (rk_iterations k) else []
      | None \<Rightarrow> [])"

definition fence_errors :: "sdict \<Rightarrow> (string \<Rightarrow> nat option) \<Rightarrow> (string \<Rightarrow> log_file res) \<Rightarrow> string list" where
  "fence_errors paths offsets files =
     (if paths = [] then [] else
      let (logs, log_errors) = collect_fence_deltas paths offsets files in log_errors @ validate_fences logs)"

definition run_case :: "rma_args \<Rightarrow> rma_world \<Rightarrow> nat \<Rightarrow> rma_case \<Rightarrow> rma_record" where
  "run_case args w index k =
     (let dist_sync = suite_dist_sync (ra_suite args); queue_depth = suite_depth (ra_suite args);
          port = 21300 + int index;
          server = rma_command k port None dist_sync queue_depth (ra_jettys args);
          client = rma_command k port (Some ''10.0.0.1'') dist_sync queue_depth (ra_jettys args);
          paths = (if dist_sync \<and> ra_gem5 args then fence_logs (ra_run_root args) else []);
          offsets = (\<lambda>name. case map_of paths name of None \<Rightarrow> None | Some path \<Rightarrow> rw_size w index path);
          (returncode, output) = rw_serial w index (serial_argv args server client);
          errors = transcript_errors args k output @ fence_errors paths offsets (rw_file w index) in
      \<lparr>rr_case = k, rr_returncode = returncode, rr_errors = errors,
       rr_evidence = map (\<lambda>(name, _). pad2 index @ ''-'' @ rk_label k @ ''.fences.'' @ name @ ''.log'') paths,
       rr_accepted = (returncode = 0 \<and> errors = []),
       rr_ticks = map2 tick_delta (case_ticks args w index False) (case_ticks args w index True),
       rr_server = server, rr_client = client, rr_raw = pad2 index @ ''-'' @ rk_label k @ ''.uart.txt''\<rparr>)"

fun run_cases :: "rma_args \<Rightarrow> rma_world \<Rightarrow> nat \<Rightarrow> rma_case list \<Rightarrow> rma_record list" where
  "run_cases args w index [] = []"
| "run_cases args w index (k # ks) = (let r = run_case args w index k in
     if ra_fail_fast args \<and> \<not> rr_accepted r then [r] else r # run_cases args w (Suc index) ks)"

definition suite_exit :: "rma_case list \<Rightarrow> rma_record list \<Rightarrow> int" where
  "suite_exit cases records =
     (if length records = length cases \<and> list_all (\<lambda>r. rr_returncode r = 0 \<and> rr_errors r = []) records then 0 else 1)"

definition rma_main :: "rma_args \<Rightarrow> rma_world \<Rightarrow> (int \<times> rma_record list) res" where
  "rma_main args w =
     (if \<not> (1 \<le> ra_jettys args \<and> ra_jettys args \<le> 64) then Inl (SystemExit 2)
      else if ra_suite args = Timing_Send \<and> ra_jettys args \<noteq> 1 then Inl (SystemExit 2)
      else rbind (rw_mkdir w) (\<lambda>_. rbind (rw_manifest w) (\<lambda>_.
        let cases = suite_cases (ra_suite args); records = run_cases args w 0 cases in
        Inr (suite_exit cases records, records))))"

subsection \<open>Specification of the fences\<close>

definition fences_complete :: "(int \<times> int) list \<Rightarrow> bool" where
  "fences_complete xs \<longleftrightarrow> xs \<noteq> [] \<and> even (length xs) \<and>
     (\<forall>i < length xs. snd (xs ! i) = (if even i then 1 else 0)) \<and> sorted_wrt (<) (map fst xs)"

definition fence_line_ok :: "string \<Rightarrow> string \<Rightarrow> bool" where
  "fence_line_ok name line \<longleftrightarrow> has_key ''generation'' (fence_fields line) \<and> has_key ''active'' (fence_fields line) \<and>
     (name = ''network'' \<and> fst (fence_line name line) \<noteq> None \<longrightarrow> map_of (fence_fields line) ''endpoints'' = Some ''2'')"

definition participant_ok :: "sdict \<Rightarrow> (int \<times> int) list \<Rightarrow> string \<Rightarrow> bool" where
  "participant_ok logs xs name \<longleftrightarrow> fence_sequence name (dict_get name [] logs) = xs \<and>
     list_all (fence_line_ok name) (fence_lines name (dict_get name [] logs))"

lemma fence_line_no_errors: "snd (fence_line name line) = [] \<longleftrightarrow> fence_line_ok name line"
  by (auto simp: fence_line_def fence_line_ok_def has_key_map_of Let_def split: option.splits)

lemma sequence_errors_Nil: "sequence_errors name xs = [] \<longleftrightarrow> fences_complete xs"
proof -
  have alt: "list_ex (\<lambda>(i, (_, active)). active \<noteq> (if i mod 2 = 0 then 1 else 0)) (enumerate 0 xs) \<longleftrightarrow>
      \<not> (\<forall>i < length xs. snd (xs ! i) = (if even i then 1 else 0))"
  proof -
    have "(case enumerate 0 xs ! i of (i, (_, active)) \<Rightarrow> active \<noteq> (if i mod 2 = 0 then 1 else 0)) \<longleftrightarrow>
        snd (xs ! i) \<noteq> (if even i then 1 else 0)" if "i < length xs" for i
    proof -
      have e: "enumerate 0 xs ! i = (i, xs ! i)" using that by (simp add: nth_enumerate_eq)
      show ?thesis unfolding e prod.case even_iff_mod_2_eq_zero by (cases "xs ! i") simp
    qed
    then show ?thesis
      unfolding list_ex_length length_enumerate not_all not_imp by (intro ex_cong1 conj_cong refl)
  qed
  have gen: "list_ex (\<lambda>(a, b). fst b \<le> fst a) (zip xs (tl xs)) \<longleftrightarrow> \<not> sorted_wrt (<) (map fst xs)"
  proof -
    have "list_ex (\<lambda>(a, b). fst b \<le> fst a) (zip xs (tl xs)) \<longleftrightarrow> \<not> successively (\<lambda>a b. fst a < fst b) xs"
      by (induction xs rule: induct_list012) auto
    also have "\<dots> \<longleftrightarrow> \<not> sorted_wrt (\<lambda>a b. fst a < fst b) xs"
      by (subst successively_conv_sorted_wrt) (auto intro: transpI)
    finally show ?thesis by (simp add: sorted_wrt_map)
  qed
  show ?thesis
    unfolding sequence_errors_def alt gen fences_complete_def by (auto simp: even_iff_mod_2_eq_zero)
qed

definition own_errors :: "sdict \<Rightarrow> string \<Rightarrow> string list" where
  "own_errors logs name = (let log = dict_get name [] logs in
     concat (map (\<lambda>l. snd (fence_line name l)) (fence_lines name log)) @ sequence_errors name (fence_sequence name log))"

lemma own_errors_Nil:
  "own_errors logs name = [] \<longleftrightarrow> (\<exists>xs. fences_complete xs \<and> participant_ok logs xs name)"
  by (auto simp: own_errors_def Let_def sequence_errors_Nil participant_ok_def list_all_iff fence_line_no_errors)

lemma fold_fence_step:
  "snd (fold (fence_step logs) names (Some r, errors)) = [] \<longleftrightarrow>
     errors = [] \<and> list_all (\<lambda>n. own_errors logs n = [] \<and> fence_sequence n (dict_get n [] logs) = r) names"
proof (induction names arbitrary: errors)
  case (Cons n names)
  have "fence_step logs n (Some r, errors) = (Some r, errors @ own_errors logs n @
      (if fence_sequence n (dict_get n [] logs) \<noteq> r
       then [n @ '': fence generations/targets differ between participants''] else []))"
    by (simp add: fence_step_def own_errors_def Let_def)
  then show ?case by (auto simp: Cons.IH split: if_splits)
qed simp

lemma validate_fences_spec:
  "validate_fences logs = [] \<longleftrightarrow> (\<exists>xs. fences_complete xs \<and> list_all (participant_ok logs xs) FENCE_NAMES)"
proof -
  let ?seq = "\<lambda>n. fence_sequence n (dict_get n [] logs)"
  obtain n names where names: "FENCE_NAMES = n # names" by (simp add: FENCE_NAMES_def)
  have first: "fence_step logs n (None, []) = (Some (?seq n), own_errors logs n)"
    by (simp add: fence_step_def own_errors_def Let_def)
  have "validate_fences logs = [] \<longleftrightarrow>
      own_errors logs n = [] \<and> list_all (\<lambda>m. own_errors logs m = [] \<and> ?seq m = ?seq n) names"
    unfolding validate_fences_def names by (simp add: first fold_fence_step)
  also have "\<dots> \<longleftrightarrow> (\<exists>xs. fences_complete xs \<and> list_all (participant_ok logs xs) (n # names))"
    unfolding own_errors_Nil by (fastforce simp: participant_ok_def list_all_iff)
  finally show ?thesis by (simp add: names)
qed

text \<open>
  C11. The fence check accepts exactly the runs it is meant to: it reports nothing iff all five
  participants recorded one and the same sequence of fences, that sequence is a non-empty series of
  enter/leave pairs with strictly increasing generations, and every fence line is well-formed (the
  network's with two endpoints).
\<close>

theorem validate_fences_exact:
  "validate_fences logs = [] \<longleftrightarrow> (\<exists>xs. fences_complete xs \<and> list_all (participant_ok logs xs) FENCE_NAMES)"
  by (rule validate_fences_spec)

subsection \<open>The suite loop\<close>

lemma run_case_accepted: "rr_accepted (run_case args w i k) \<longleftrightarrow>
    rr_returncode (run_case args w i k) = 0 \<and> rr_errors (run_case args w i k) = []"
  by (simp add: run_case_def Let_def split: prod.splits)

lemma run_cases_prefix:
  "run_cases args w i ks = take (length (run_cases args w i ks)) (map2 (run_case args w) [i..<i + length ks] ks)"
proof (induction ks arbitrary: i)
  case (Cons k ks)
  have "[i..<i + length (k # ks)] = i # [Suc i..<Suc i + length ks]" by (subst upt_conv_Cons) simp_all
  then show ?case using Cons.IH [of "Suc i"] by (simp add: Let_def)
qed simp

lemma run_cases_complete:
  "length (run_cases args w i ks) = length ks \<or>
     (ra_fail_fast args \<and> run_cases args w i ks \<noteq> [] \<and> \<not> rr_accepted (last (run_cases args w i ks)))"
proof (induction ks arbitrary: i)
  case (Cons k ks)
  from Cons.IH [of "Suc i"] show ?case
    by (cases "ra_fail_fast args \<and> \<not> rr_accepted (run_case args w i k)") (auto simp: Let_def)
qed simp

lemma run_cases_at_most: "length (run_cases args w i ks) \<le> length ks"
  by (induction ks arbitrary: i) (auto simp: Let_def)

lemma run_case_fences:
  assumes "rr_accepted (run_case args w i k)" and "suite_dist_sync (ra_suite args)" and "ra_gem5 args"
  shows "\<exists>logs. collect_fence_deltas (fence_logs (ra_run_root args))
      (\<lambda>name. case map_of (fence_logs (ra_run_root args)) name of None \<Rightarrow> None | Some path \<Rightarrow> rw_size w i path)
      (rw_file w i) = (logs, []) \<and> validate_fences logs = []"
  using assms by (auto simp: run_case_def fence_errors_def fence_logs_def Let_def split: prod.splits)

text \<open>
  C27. The exit code is the verdict of the whole suite.  The records are those of the first cases of
  the suite in order; without \<^verbatim>\<open>--fail-fast\<close> every case runs, with it a shorter run ends with a
  rejected case.  The exit code is 0 iff all cases ran and each was accepted, and then, in a
  synchronised gem5 suite, every case left complete identical fences of all five participants in
  readable logs.
\<close>

theorem rma_main_verdict:
  assumes "rma_main args w = Inr (code, records)"
  shows "records = take (length records) (map2 (run_case args w) [0..<length (suite_cases (ra_suite args))] (suite_cases (ra_suite args))) \<and>
    (length records = length (suite_cases (ra_suite args)) \<or>
       (ra_fail_fast args \<and> records \<noteq> [] \<and> \<not> rr_accepted (last records))) \<and>
    (code = 0 \<longleftrightarrow> length records = length (suite_cases (ra_suite args)) \<and> list_all rr_accepted records) \<and>
    (code = 0 \<and> suite_dist_sync (ra_suite args) \<and> ra_gem5 args \<longrightarrow>
       (\<forall>i < length records. \<exists>logs xs. fences_complete xs \<and> list_all (participant_ok logs xs) FENCE_NAMES \<and>
          collect_fence_deltas (fence_logs (ra_run_root args))
            (\<lambda>name. case map_of (fence_logs (ra_run_root args)) name of None \<Rightarrow> None | Some path \<Rightarrow> rw_size w i path)
            (rw_file w i) = (logs, [])))"
proof -
  let ?cases = "suite_cases (ra_suite args)"
  from assms have r: "records = run_cases args w 0 ?cases" and c: "code = suite_exit ?cases records"
    by (auto simp: rma_main_def Let_def split: if_splits)
  have pre: "records = take (length records) (map2 (run_case args w) [0..<length ?cases] ?cases)"
    using run_cases_prefix [of args w 0 ?cases] by (simp add: r)
  have le: "length records \<le> length ?cases" by (simp add: r run_cases_at_most)
  have nth: "records ! i = run_case args w i (?cases ! i)" if "i < length records" for i
    using that le by (subst pre) simp
  have acc: "list_all (\<lambda>r. rr_returncode r = 0 \<and> rr_errors r = []) records \<longleftrightarrow> list_all rr_accepted records"
    using nth run_case_accepted by (simp add: list_all_length)
  have code: "code = 0 \<longleftrightarrow> length records = length ?cases \<and> list_all rr_accepted records"
    by (simp add: c suite_exit_def acc)
  have sync: "\<exists>logs xs. fences_complete xs \<and> list_all (participant_ok logs xs) FENCE_NAMES \<and>
          collect_fence_deltas (fence_logs (ra_run_root args))
            (\<lambda>name. case map_of (fence_logs (ra_run_root args)) name of None \<Rightarrow> None | Some path \<Rightarrow> rw_size w i path)
            (rw_file w i) = (logs, [])"
    if "code = 0" "suite_dist_sync (ra_suite args)" "ra_gem5 args" "i < length records" for i
  proof -
    have "rr_accepted (run_case args w i (?cases ! i))"
      using that(1,4) code nth by (simp add: list_all_length)
    from run_case_fences [OF this that(2,3)] show ?thesis using validate_fences_spec by blast
  qed
  show ?thesis
    using pre run_cases_complete [of args w 0 ?cases] code sync by (auto simp: r)
qed

text \<open>A synchronised run in which every case leaves one enter and one leave fence.\<close>

definition demo_fence_log :: "string \<Rightarrow> string" where
  "demo_fence_log tag = ''['' @ tag @ ''] generation=3 active=1 endpoints=2'' @ [CHR 0x0A] @
     ''['' @ tag @ ''] generation=4 active=0 endpoints=2'' @ [CHR 0x0A]"

definition demo_rma_world :: rma_world where
  "demo_rma_world = \<lparr>rw_mkdir = Inr (), rw_manifest = Inr [], rw_size = (\<lambda>_ _. Some 0),
     rw_file = (\<lambda>_ path. Inr (9, \<lambda>_. demo_fence_log
       (if str_in ''/node'' path then ''UB_HOST_FENCE'' else if str_in ''udma'' path then ''UDMA_FENCE'' else ''NS3_UB_NET_FENCE''))),
     rw_gem5_log = (\<lambda>_ _ _. None), rw_serial = (\<lambda>_ _. (0, []))\<rparr>"

definition demo_rma_args :: rma_args where
  "demo_rma_args = \<lparr>ra_lab = ''/lab'', ra_run_root = ''/run'', ra_output = ''/out'', ra_uart0 = 3460, ra_uart1 = 3470,
     ra_timeout = ''1800'', ra_fail_fast = False, ra_jettys = 1, ra_gem5 = True, ra_suite = Sync_Smoke\<rparr>"

lemma demo_fences:
  "collect_fence_deltas (fence_logs ''/run'')
     (\<lambda>name. case map_of (fence_logs ''/run'') name of None \<Rightarrow> None | Some path \<Rightarrow> Some 0) (rw_file demo_rma_world 0) =
   (map (\<lambda>n. (n, demo_fence_log (fence_tag n))) FENCE_NAMES, [])"
  by code_simp

lemma demo_fence_fields:
  assumes "tag \<in> {''UB_HOST_FENCE'', ''UDMA_FENCE'', ''NS3_UB_NET_FENCE''}"
  shows "fence_fields (''['' @ tag @ ''] generation=3 active=1 endpoints=2'') = [(''generation'', ''3''), (''active'', ''1''), (''endpoints'', ''2'')]"
    and "fence_fields (''['' @ tag @ ''] generation=4 active=0 endpoints=2'') = [(''generation'', ''4''), (''active'', ''0''), (''endpoints'', ''2'')]"
  using assms unfolding insert_iff empty_iff by (elim disjE FalseE; hypsubst; code_simp)+

lemma demo_fence_lines:
  "list_all (\<lambda>n. fence_lines n (demo_fence_log (fence_tag n)) =
     [''['' @ fence_tag n @ ''] generation=3 active=1 endpoints=2'', ''['' @ fence_tag n @ ''] generation=4 active=0 endpoints=2'']) FENCE_NAMES"
  by code_simp

lemma fence_tag_range: "fence_tag n \<in> {''UB_HOST_FENCE'', ''UDMA_FENCE'', ''NS3_UB_NET_FENCE''}"
  by (simp add: fence_tag_def)

lemma demo_participant:
  assumes "n \<in> set FENCE_NAMES"
  shows "participant_ok (map (\<lambda>n. (n, demo_fence_log (fence_tag n))) FENCE_NAMES) [(3, 1), (4, 0)] n"
proof -
  have log: "dict_get n [] (map (\<lambda>n. (n, demo_fence_log (fence_tag n))) FENCE_NAMES) = demo_fence_log (fence_tag n)"
    using assms by (simp add: dict_get_def map_of_map_restrict)
  have nums: "parse_int ''3'' = Some 3" "parse_int ''1'' = Some 1" "parse_int ''4'' = Some 4" "parse_int ''0'' = Some 0"
    by code_simp+
  note fields = demo_fence_fields [OF fence_tag_range]
  have line: "fence_line n (''['' @ fence_tag n @ ''] generation=3 active=1 endpoints=2'') = (Some (3, 1), [])"
    "fence_line n (''['' @ fence_tag n @ ''] generation=4 active=0 endpoints=2'') = (Some (4, 0), [])"
    unfolding fence_line_def fields by (simp_all add: nums)
  have lines: "fence_lines n (demo_fence_log (fence_tag n)) =
     [''['' @ fence_tag n @ ''] generation=3 active=1 endpoints=2'', ''['' @ fence_tag n @ ''] generation=4 active=0 endpoints=2'']"
    using demo_fence_lines assms by (simp add: list_all_iff)
  show ?thesis
    unfolding participant_ok_def log fence_sequence_def lines
    using line by (simp add: fence_line_no_errors [symmetric])
qed

lemma demo_fences_valid: "validate_fences (map (\<lambda>n. (n, demo_fence_log (fence_tag n))) FENCE_NAMES) = []"
proof -
  have "fences_complete [(3, 1), (4, 0)]"
    by (auto simp: fences_complete_def nth_Cons' less_Suc_eq)
  then show ?thesis unfolding validate_fences_spec using demo_participant by (auto simp: list_all_iff)
qed

lemma demo_case_accepted:
  assumes "rk_all_exponent k = None"
  shows "rr_accepted (run_case demo_rma_args demo_rma_world i k)"
proof -
  have files: "rw_file demo_rma_world i = rw_file demo_rma_world 0" "rw_size demo_rma_world i x = Some 0" for x
    by (simp_all add: demo_rma_world_def)
  have errors: "fence_errors (fence_logs ''/run'')
     (\<lambda>name. case map_of (fence_logs ''/run'') name of None \<Rightarrow> None | Some path \<Rightarrow> Some 0) (rw_file demo_rma_world 0) = []"
    unfolding fence_errors_def demo_fences using demo_fences_valid by simp
  have args: "suite_dist_sync (ra_suite demo_rma_args)" "ra_gem5 demo_rma_args" "ra_run_root demo_rma_args = ''/run''"
    "transcript_errors demo_rma_args k [] = []"
    using assms by (simp_all add: demo_rma_args_def suite_dist_sync_def transcript_errors_def)
  have serial: "rw_serial demo_rma_world i argv = (0, [])" for argv
    by (simp add: demo_rma_world_def)
  show ?thesis
    by (simp add: run_case_def Let_def serial args files errors cong: option.case_cong)
qed

lemma demo_rma_main:
  "rma_main demo_rma_args demo_rma_world = Inr (0, run_cases demo_rma_args demo_rma_world 0 SYNC_SMOKE_CASES)"
proof -
  have none: "list_all (\<lambda>k. rk_all_exponent k = None) SYNC_SMOKE_CASES"
    by (simp add: SYNC_SMOKE_CASES_def kase_def)
  have "length (run_cases demo_rma_args demo_rma_world i ks) = length ks \<and>
      list_all (\<lambda>r. rr_returncode r = 0 \<and> rr_errors r = []) (run_cases demo_rma_args demo_rma_world i ks)"
    if "list_all (\<lambda>k. rk_all_exponent k = None) ks" for i ks
    using that by (induction ks arbitrary: i) (auto simp: Let_def demo_case_accepted demo_case_accepted [unfolded run_case_accepted])
  from this [OF none, of 0] show ?thesis
    by (simp add: rma_main_def suite_exit_def) (simp add: demo_rma_args_def demo_rma_world_def)
qed

theorem rma_main_verdict_witness:
  "list_all rr_accepted (run_cases demo_rma_args demo_rma_world 0 SYNC_SMOKE_CASES)"
  using rma_main_verdict [OF demo_rma_main] by blast

end
