(* ===== verification/Experiment_Results.thy ===== *)
theory Experiment_Results
  imports Recipe Rma_Regression
begin

section \<open>Commands and results of an experiment\<close>

text \<open>
  Model of \<^verbatim>\<open>command\<close>, \<^verbatim>\<open>parse_output\<close> and \<^verbatim>\<open>summarize\<close> of \<^verbatim>\<open>ubsim_lab/experiments.py\<close>.  Floating-point
  arithmetic is the argument \<open>float_ops\<close>: reading a decimal, Python's \<^verbatim>\<open>sum\<close>, division by a count and
  the order that \<^verbatim>\<open>min\<close> and \<^verbatim>\<open>max\<close> use.
\<close>

definition exp_command :: "string \<Rightarrow> int \<Rightarrow> int \<Rightarrow> recipe \<Rightarrow> int \<Rightarrow> bool \<Rightarrow> string \<Rightarrow> string" where
  "exp_command op bytes jettys r port client simulator = join '' ''
     ((if simulator = ''gem5'' then [''UBSIM_DIST_SYNC=1'', ''OPENURMA_DIST_SYNC=1''] else []) @
      [''LD_LIBRARY_PATH=/lib:/usr/lib'', ''urma_perftest'', op, ''-d'', ''udma0'', ''--eid_idx'', ''0'', ''--ctp'',
       ''-s'', str_int bytes, ''-P'', str_int port, ''-J'', str_int jettys] @
      (if endswith op ''_bw'' then [''--jettys_pre_jfr'', ''1'', ''-I'', ''0''] else [''-I'', ''128'']) @
      [''-T'', str_int (rc_depth r), ''-R'', str_int (rc_depth r), ''-C'', str_int (rc_jfc_depth r),
       ''-n'', str_int (rc_total_ops r div jettys), ''-Q'', ''1'', ''-p'', ''0''] @
      (if endswith op ''_bw'' then [''-l'', str_int (rc_post_list r)] else []) @
      (if client then [''-S'', ''10.0.0.1''] else []))"

record 'f float_ops =
  fo_read :: "string \<Rightarrow> 'f"
  fo_sum :: "'f list \<Rightarrow> 'f"
  fo_over :: "'f \<Rightarrow> nat \<Rightarrow> 'f"
  fo_less :: "'f \<Rightarrow> 'f \<Rightarrow> bool"

datatype 'f metrics =
    Bandwidth (mt_peak: 'f) (mt_average: 'f) (mt_rate: 'f)
  | Latency (mt_samples: int) (mt_average: 'f) (mt_p99: 'f) (mt_p999: 'f) (mt_p9999: 'f)

subsection \<open>Reading a transcript\<close>

definition rx_exit :: rx where
  "rx_exit = rx_seq [rx_lit ''__UBSIM_RC_'', rx_digits, rx_lit ''_'', rx_digits, rx_lit ''__='', Grp rx_digits]"

definition rx_decimal :: rx where
  "rx_decimal = rx_seq [rx_digits, rx_opt (rx_seq [rx_lit ''.'', rx_digits])]"

definition rx_row :: "rx list \<Rightarrow> rx" where
  "rx_row cells = rx_seq ([Bol, rx_spaces, hd cells] @ concat (map (\<lambda>c. [rx_spaces1, c]) (tl cells)) @ [rx_spaces, Eol])"

definition rx_bandwidth :: "int \<Rightarrow> int \<Rightarrow> rx" where
  "rx_bandwidth bytes total_ops = rx_row ([rx_lit (str_int bytes), rx_lit (str_int total_ops)] @ replicate 3 (Grp rx_decimal))"

definition rx_latency :: "int \<Rightarrow> rx" where
  "rx_latency bytes = rx_row ([rx_lit (str_int bytes), Grp rx_digits] @ replicate 9 (Grp rx_decimal))"

definition parse_output :: "'f float_ops \<Rightarrow> string \<Rightarrow> string \<Rightarrow> int \<Rightarrow> int \<Rightarrow> int \<Rightarrow> 'f metrics res" where
  "parse_output fo output op bytes jettys total_ops =
     (let exits = map hd (rx_findall rx_exit output); counts = map hd (rx_findall rx_jetty_count output) in
      if exits \<noteq> [''0'', ''0''] \<or> counts \<noteq> replicate 2 (str_int jettys)
      then Inl (ValueError (''endpoint state or Jetty count does not match: rc='' @ repr_strs exits @ '', jettys='' @ repr_strs counts))
      else if endswith op ''_bw'' then
        (let rows = rx_findall (rx_bandwidth bytes total_ops) output in
         if length rows \<noteq> 2 \<or> rows ! 0 \<noteq> rows ! 1
         then Inl (ValueError (''both endpoints must report one bandwidth row, got '' @ show_nat (length rows)))
         else let row = rows ! 0 in Inr (Bandwidth (fo_read fo (row ! 0)) (fo_read fo (row ! 1)) (fo_read fo (row ! 2))))
      else
        (let rows = rx_findall (rx_latency bytes) output in
         if length rows \<noteq> 1
         then Inl (ValueError (''expected one latency row, got '' @ show_nat (length rows)))
         else let row = rows ! 0 in rbind (py_int (row ! 0)) (\<lambda>samples.
           Inr (Latency samples (fo_read fo (row ! 4)) (fo_read fo (row ! 6)) (fo_read fo (row ! 7)) (fo_read fo (row ! 8))))))"

subsection \<open>Summaries\<close>

record 'f exp_row =
  xr_sequence :: nat
  xr_phase :: string
  xr_repeat :: int
  xr_operation :: string
  xr_size :: int
  xr_jettys :: int
  xr_total_operations :: int
  xr_metrics :: "'f metrics"
  xr_wall_seconds :: 'f
  xr_transcript :: string

type_synonym exp_key = "string \<times> int \<times> int"

record 'f exp_summary =
  xs_operation :: string
  xs_size :: int
  xs_jettys :: int
  xs_repeats :: nat
  xs_metric :: string
  xs_value :: 'f
  xs_minimum :: 'f
  xs_maximum :: 'f
  xs_rate :: "'f option"

definition row_key :: "'f exp_row \<Rightarrow> exp_key" where
  "row_key row = (xr_operation row, xr_size row, xr_jettys row)"

definition group_row :: "'f exp_row \<Rightarrow> (exp_key \<times> 'f exp_row list) list \<Rightarrow> (exp_key \<times> 'f exp_row list) list" where
  "group_row row grouped = (if xr_phase row = ''measure''
     then dict_set (row_key row) (dict_get (row_key row) [] grouped @ [row]) grouped else grouped)"

definition grouped :: "'f exp_row list \<Rightarrow> (exp_key \<times> 'f exp_row list) list" where
  "grouped rows = fold group_row rows []"

text \<open>\<^verbatim>\<open>row["average_mib_s"]\<close> and \<^verbatim>\<open>row["average_us"]\<close>: each kind of metrics has one of the two.\<close>

definition row_average :: "bool \<Rightarrow> 'f exp_row \<Rightarrow> 'f res" where
  "row_average bw row = (case xr_metrics row of
       Bandwidth _ a _ \<Rightarrow> if bw then Inr a else Inl (KeyError ''average_us'')
     | Latency _ a _ _ _ \<Rightarrow> if bw then Inl (KeyError ''average_mib_s'') else Inr a)"

definition row_rate :: "'f exp_row \<Rightarrow> 'f res" where
  "row_rate row = (case xr_metrics row of Bandwidth _ _ m \<Rightarrow> Inr m | _ \<Rightarrow> Inl (KeyError ''message_rate_mpps''))"

definition fo_mean :: "'f float_ops \<Rightarrow> 'f list \<Rightarrow> 'f" where
  "fo_mean fo xs = fo_over fo (fo_sum fo xs) (length xs)"

definition fo_min :: "'f float_ops \<Rightarrow> 'f list \<Rightarrow> 'f" where
  "fo_min fo xs = foldl (\<lambda>m x. if fo_less fo x m then x else m) (hd xs) (tl xs)"

definition fo_max :: "'f float_ops \<Rightarrow> 'f list \<Rightarrow> 'f" where
  "fo_max fo xs = foldl (\<lambda>m x. if fo_less fo m x then x else m) (hd xs) (tl xs)"

definition summarize_group :: "'f float_ops \<Rightarrow> exp_key \<times> 'f exp_row list \<Rightarrow> 'f exp_summary res" where
  "summarize_group fo entry = (case entry of ((op, bytes, jettys), samples) \<Rightarrow>
     let bw = endswith op ''_bw'' in
     rbind (rmap (row_average bw) samples) (\<lambda>vs.
     rbind (if bw then rbind (rmap row_rate samples) (\<lambda>rates. Inr (Some (fo_mean fo rates))) else Inr None) (\<lambda>rate.
     Inr \<lparr>xs_operation = op, xs_size = bytes, xs_jettys = jettys, xs_repeats = length samples,
       xs_metric = (if bw then ''average_mib_s'' else ''average_us''), xs_value = fo_mean fo vs,
       xs_minimum = fo_min fo vs, xs_maximum = fo_max fo vs, xs_rate = rate\<rparr>)))"

definition summarize :: "'f float_ops \<Rightarrow> 'f exp_row list \<Rightarrow> 'f exp_summary list res" where
  "summarize fo rows = rmap (summarize_group fo) (sort_key fst (grouped rows))"

subsection \<open>Grouping\<close>

definition summary_key :: "'f exp_summary \<Rightarrow> exp_key" where
  "summary_key s = (xs_operation s, xs_size s, xs_jettys s)"

definition measured :: "exp_key \<Rightarrow> 'f exp_row list \<Rightarrow> 'f exp_row list" where
  "measured k rows = filter (\<lambda>row. xr_phase row = ''measure'' \<and> row_key row = k) rows"

definition row_consistent :: "'f exp_row \<Rightarrow> bool" where
  "row_consistent row \<longleftrightarrow> (case xr_metrics row of Bandwidth _ _ _ \<Rightarrow> endswith (xr_operation row) ''_bw''
     | Latency _ _ _ _ _ \<Rightarrow> \<not> endswith (xr_operation row) ''_bw'')"

lemma measured_append: "measured k (xs @ ys) = measured k xs @ measured k ys"
  by (simp add: measured_def)

lemma map_of_group_row:
  "map_of (group_row row g) k =
     (if xr_phase row = ''measure'' \<and> row_key row = k then Some (dict_get k [] g @ [row]) else map_of g k)"
  by (auto simp: group_row_def update_conv)

lemma distinct_group_row: "distinct (map fst g) \<Longrightarrow> distinct (map fst (group_row row g))"
  by (simp add: group_row_def distinct_update)

lemma grouped_map_of: "map_of (grouped rows) k = (if measured k rows = [] then None else Some (measured k rows))"
proof -
  have "map_of (fold group_row rows g) k =
      (if measured k rows = [] then map_of g k else Some (dict_get k [] g @ measured k rows))" for g
  proof (induction rows arbitrary: g)
    case (Cons row rows)
    then show ?case by (simp add: map_of_group_row measured_def dict_get_def)
  qed (simp add: measured_def)
  then show ?thesis by (simp add: grouped_def dict_get_def)
qed

lemma grouped_distinct: "distinct (map fst (grouped rows))"
proof -
  have "distinct (map fst g) \<Longrightarrow> distinct (map fst (fold group_row rows g))" for g
    by (induction rows arbitrary: g) (simp_all add: distinct_group_row)
  then show ?thesis by (simp add: grouped_def)
qed

lemma grouped_mem: "(k, samples) \<in> set (grouped rows) \<longleftrightarrow> samples \<noteq> [] \<and> samples = measured k rows"
  using grouped_map_of [of rows k] map_of_eq_Some_iff [OF grouped_distinct, of rows k samples]
  by (auto split: if_splits)

lemma rmap_Inr_nth: "rmap f xs = Inr ys \<longleftrightarrow> length ys = length xs \<and> (\<forall>i < length xs. f (xs ! i) = Inr (ys ! i))"
proof (induction xs arbitrary: ys)
  case (Cons x xs)
  then show ?case by (cases ys) (auto simp: All_less_Suc2)
qed auto

lemma summarize_group_key: "summarize_group fo (k, samples) = Inr s \<Longrightarrow> summary_key s = k \<and> xs_repeats s = length samples"
  by (cases k) (auto simp: summarize_group_def Let_def summary_key_def split: if_splits)

lemma summarize_group_total:
  assumes "\<And>row. row \<in> set samples \<Longrightarrow> row_consistent row \<and> row_key row = k"
  shows "\<exists>s. summarize_group fo (k, samples) = Inr s"
proof -
  obtain op bytes jettys where k: "k = (op, bytes, jettys)" by (cases k)
  have avg: "\<exists>v. row_average (endswith op ''_bw'') row = Inr v" if "row \<in> set samples" for row
    using assms [OF that] by (cases "xr_metrics row") (auto simp: row_average_def row_consistent_def row_key_def k)
  have rate: "endswith op ''_bw'' \<Longrightarrow> \<exists>v. row_rate row = Inr v" if "row \<in> set samples" for row
    using assms [OF that] by (cases "xr_metrics row") (auto simp: row_rate_def row_consistent_def row_key_def k)
  from rmap_total [of samples "row_average (endswith op ''_bw'')"] avg obtain vs where
    "rmap (row_average (endswith op ''_bw'')) samples = Inr vs" by blast
  moreover from rmap_total [of samples row_rate] rate have "endswith op ''_bw'' \<Longrightarrow> \<exists>rs. rmap row_rate samples = Inr rs"
    by blast
  ultimately show ?thesis by (auto simp: summarize_group_def k Let_def)
qed

lemma sort_key_grouped:
  "sorted_wrt (<) (map fst (sort_key fst (grouped rows)))" "set (sort_key fst (grouped rows)) = set (grouped rows)"
proof -
  have "sorted (map fst (sort_key fst (grouped rows)))" by simp
  moreover have "distinct (map fst (sort_key fst (grouped rows)))"
    using grouped_distinct [of rows] by (simp add: distinct_map)
  ultimately show "sorted_wrt (<) (map fst (sort_key fst (grouped rows)))" by (simp add: strict_sorted_iff)
qed simp

text \<open>
  The summary of rows whose metrics fit their operations: one entry for every measured combination,
  in increasing order, with the number of its measured runs.
\<close>

lemma summarize_spec:
  assumes "\<And>row. row \<in> set rows \<Longrightarrow> row_consistent row"
  shows "\<exists>items. summarize fo rows = Inr items \<and> sorted_wrt (<) (map summary_key items) \<and>
    set (map summary_key items) = {k. measured k rows \<noteq> []} \<and>
    (\<forall>s \<in> set items. xs_repeats s = length (measured (summary_key s) rows))"
proof -
  let ?g = "sort_key fst (grouped rows)"
  have mem: "snd g \<noteq> [] \<and> snd g = measured (fst g) rows" if "g \<in> set ?g" for g
    using that sort_key_grouped(2) grouped_mem [of "fst g" "snd g" rows] by (metis prod.collapse)
  have "\<exists>s. summarize_group fo g = Inr s" if "g \<in> set ?g" for g
  proof -
    from mem [OF that] have "row \<in> set (snd g) \<Longrightarrow> row_consistent row \<and> row_key row = fst g" for row
      using assms by (auto simp: measured_def)
    from summarize_group_total [of "snd g" "fst g" fo] this show ?thesis by simp
  qed
  from rmap_total [of ?g "summarize_group fo"] this obtain items where
    items: "rmap (summarize_group fo) ?g = Inr items" by blast
  then have len: "length items = length ?g"
    and nth: "\<And>i. i < length ?g \<Longrightarrow> summary_key (items ! i) = fst (?g ! i) \<and> xs_repeats (items ! i) = length (snd (?g ! i))"
    using summarize_group_key [of fo "fst (?g ! i)" "snd (?g ! i)" for i] by (auto simp: rmap_Inr_nth)
  have keys: "map summary_key items = map fst ?g"
    using len nth by (auto intro: nth_equalityI)
  have "xs_repeats s = length (measured (summary_key s) rows)" if "s \<in> set items" for s
  proof -
    from that obtain i where i: "i < length ?g" "s = items ! i" using len by (auto simp: in_set_conv_nth)
    from mem [OF nth_mem [OF i(1)]] have "length (snd (?g ! i)) = length (measured (fst (?g ! i)) rows)" by metis
    with nth [OF i(1)] i(2) show ?thesis by simp
  qed
  moreover have "set (map summary_key items) = {k. measured k rows \<noteq> []}"
    unfolding keys set_map sort_key_grouped(2) by (auto simp: Domain_fst [symmetric] Domain_iff grouped_mem)
  moreover have "sorted_wrt (<) (map summary_key items)" unfolding keys by (rule sort_key_grouped)
  ultimately show ?thesis using items unfolding summarize_def by blast
qed

end
