(* ===== verification/Experiment_Run.thy ===== *)
theory Experiment_Run
  imports Preflight Experiment_Results
begin

section \<open>Running an experiment\<close>

text \<open>
  Model of \<^verbatim>\<open>run\<close> and \<^verbatim>\<open>main\<close> of \<^verbatim>\<open>ubsim_lab/experiments.py\<close>.  The output directory is the record
  \<open>out_dir\<close>; every function returns it together with its result, so what a failed run leaves behind
  is part of the model.  The guests, the clock and the log files are the record \<open>run_world\<close>.
\<close>

record provenance =
  pv_task_id :: string
  pv_simulator :: string
  pv_started_at :: string
  pv_run_root :: string
  pv_checkpoint :: "string option"
  pv_image :: string
  pv_image_sha256 :: "string option"

record 'f out_dir =
  od_topology :: "dict option"
  od_recipe :: "recipe option"
  od_files :: sdict
  od_provenance :: "provenance option"
  od_status :: "dict option"
  od_results :: "'f exp_row list"
  od_summary :: "'f exp_summary list"

text \<open>
  \<open>ew_text path\<close> is the text of a regular file, \<open>ew_sync\<close> the outcome of \<^verbatim>\<open>lab sync\<close> and whether the
  ready file exists after it.  \<open>ew_size n path\<close> is the size of a log before run \<open>n\<close>, \<open>ew_file n path\<close>
  the log after it and \<open>ew_serial n argv\<close> the serial tool; a timeout is an exception.
\<close>

record 'f run_world =
  ew_host :: exp_world
  ew_store :: store
  ew_runtime :: "string \<Rightarrow> runtime_state"
  ew_run_dir :: "string \<Rightarrow> string"
  ew_text :: "string \<Rightarrow> string option"
  ew_pid :: int
  ew_started :: string
  ew_ended :: string
  ew_sync :: "(proc \<times> bool) res"
  ew_net_up :: "string list \<Rightarrow> proc res"
  ew_size :: "nat \<Rightarrow> string \<Rightarrow> nat option"
  ew_file :: "nat \<Rightarrow> string \<Rightarrow> log_file res"
  ew_serial :: "nat \<Rightarrow> string list \<Rightarrow> proc res"
  ew_elapsed :: "nat \<Rightarrow> 'f"

abbreviation ew_root :: "'f run_world \<Rightarrow> string" where
  "ew_root w \<equiv> xw_root (ew_host w)"

definition write_file :: "string \<Rightarrow> string \<Rightarrow> 'f out_dir \<Rightarrow> 'f out_dir" where
  "write_file name text od = od\<lparr>od_files := dict_set name text (od_files od)\<rparr>"

subsection \<open>Preparation\<close>

definition prepare :: "'f run_world \<Rightarrow> string \<Rightarrow> (dict \<times> recipe \<times> plan) res" where
  "prepare w task_id =
     rbind (rbind (read_task (ew_root w) (ew_store w) task_id) (as_obj (TypeError ''task is not an object''))) (\<lambda>spec.
     rbind (read_recipe (ew_root w) (ew_store w) task_id spec) (\<lambda>recipe.
     rbind (compile_topology (JObj spec)) (\<lambda>plan.
     rbind (preflight (ew_host w) spec (ew_runtime w) (Some recipe) False) (\<lambda>verdict.
     if \<not> vd_ok verdict
     then Inl (ValueError (join ''; '' (map pc_detail (filter (\<lambda>c. \<not> pc_ok c) (vd_checks verdict)))))
     else Inr (spec, recipe, plan)))))"

definition copy_file :: "'f run_world \<Rightarrow> string \<Rightarrow> string \<Rightarrow> 'f out_dir \<Rightarrow> 'f out_dir" where
  "copy_file w source name od = (case ew_text w source of Some text \<Rightarrow> write_file name text od | None \<Rightarrow> od)"

definition run_manifest :: "'f run_world \<Rightarrow> string \<Rightarrow> sdict" where
  "run_manifest w run_root = (case ew_text w (path_under run_root ''run-manifest.txt'') of
     Some text \<Rightarrow> parse_manifest text | None \<Rightarrow> [])"

definition exp_provenance :: "'f run_world \<Rightarrow> string \<Rightarrow> string \<Rightarrow> provenance" where
  "exp_provenance w task_id simulator =
     (let run_root = ew_run_dir w simulator; manifest = run_manifest w run_root;
          image = path_str (to_path (dict_get (if simulator = ''gem5'' then ''initrd_path'' else ''initrd_image'')
            (env_get (xw_env (ew_host w)) ''UBSIM_INITRD'' (path_under (ew_root w) ''out/official-udma-64k-20261015.cpio.gz'')) manifest)) in
      \<lparr>pv_task_id = task_id, pv_simulator = simulator, pv_started_at = ew_started w, pv_run_root = run_root,
       pv_checkpoint = map_of manifest ''restore_checkpoint'', pv_image = image,
       pv_image_sha256 = lw_sha256 (lx_lab (xw_launch (ew_host w))) image\<rparr>)"

definition copy_checkpoint :: "'f run_world \<Rightarrow> string option \<Rightarrow> 'f out_dir \<Rightarrow> 'f out_dir" where
  "copy_checkpoint w checkpoint od = (case checkpoint of
       Some c \<Rightarrow> if c \<noteq> [] \<and> c \<noteq> ''none''
         then copy_file w (path_under (path_under (path_under (ew_root w) ''checkpoints'') c) ''checkpoint-manifest.txt'')
           ''checkpoint-manifest.txt'' od
         else od
     | None \<Rightarrow> od)"

definition running_status :: "'f run_world \<Rightarrow> string \<Rightarrow> recipe \<Rightarrow> dict" where
  "running_status w task_id recipe = [(''state'', JStr ''running''), (''task_id'', JStr task_id), (''pid'', JInt (ew_pid w)),
     (''completed'', JInt 0), (''total'', JInt (run_count recipe)), (''started_at'', JFloat (ew_started w))]"

definition open_output :: "'f run_world \<Rightarrow> string \<Rightarrow> dict \<Rightarrow> recipe \<Rightarrow> string \<Rightarrow> 'f out_dir \<Rightarrow> 'f out_dir" where
  "open_output w task_id spec recipe simulator od =
     (let run_root = ew_run_dir w simulator; provenance = exp_provenance w task_id simulator;
          od1 = od\<lparr>od_topology := Some spec, od_recipe := Some recipe\<rparr>;
          od2 = fold (\<lambda>name. copy_file w (path_under run_root name) name) [''run-manifest.txt'', ''topology-plan.json''] od1;
          od3 = copy_checkpoint w (pv_checkpoint provenance) od2 in
      od3\<lparr>od_provenance := Some provenance, od_status := Some (running_status w task_id recipe)\<rparr>)"

subsection \<open>Network set-up\<close>

definition serial_tool :: "'f run_world \<Rightarrow> int \<times> int \<Rightarrow> string list \<Rightarrow> string list" where
  "serial_tool w ports options = [lx_python (xw_launch (ew_host w)), path_under (ew_root w) ''tools/dual_serial_command.py'',
     ''--ports'', str_int (fst ports), str_int (snd ports)] @ options"

definition gem5_network :: "'f run_world \<Rightarrow> string \<Rightarrow> 'f out_dir \<Rightarrow> unit res \<times> 'f out_dir" where
  "gem5_network w run_root od =
     (if xw_is_file (ew_host w) (path_under run_root ''sync.ready'') then (Inr (), od)
      else case ew_sync w of
          Inl e \<Rightarrow> (Inl e, od)
        | Inr (p, ready) \<Rightarrow>
            (if pr_code p \<noteq> 0 \<or> \<not> ready then Inl (RuntimeError ''gem5 network set-up failed, see network-setup.log'') else Inr (),
             write_file ''network-setup.log'' (pr_out p @ pr_err p) od))"

definition qemu_network :: "'f run_world \<Rightarrow> int \<times> int \<Rightarrow> 'f out_dir \<Rightarrow> unit res \<times> 'f out_dir" where
  "qemu_network w ports od =
     (case ew_net_up w (serial_tool w ports [''--command'', ''ubsim-net-up'', ''--timeout'', ''120'', ''--prompt-kick-after'', ''1'']) of
        Inl e \<Rightarrow> (Inl e, od)
      | Inr p \<Rightarrow>
          (if pr_code p \<noteq> 0 then Inl (RuntimeError ''QEMU network set-up failed, see network-setup.uart.txt'') else Inr (),
           write_file ''network-setup.uart.txt'' (pr_out p @ pr_err p) od))"

definition network_setup :: "'f run_world \<Rightarrow> string \<Rightarrow> 'f out_dir \<Rightarrow> (int \<times> int) res \<times> 'f out_dir" where
  "network_setup w simulator od =
     (case exp_ports (xw_env (ew_host w)) simulator of
        Inl e \<Rightarrow> (Inl e, od)
      | Inr ports \<Rightarrow>
          (let (r, od') = (if simulator = ''gem5'' then gem5_network w (ew_run_dir w simulator) od
             else if simulator = ''qemu'' then qemu_network w ports od else (Inr (), od)) in
           (rbind r (\<lambda>_. Inr ports), od')))"

subsection \<open>The runs\<close>

type_synonym exp_point = "string \<times> int \<times> int \<times> int"

definition exp_points :: "recipe \<Rightarrow> exp_point list" where
  "exp_points r = [(op, bytes, jettys, index). op \<leftarrow> rc_operations r, bytes \<leftarrow> rc_sizes r, jettys \<leftarrow> rc_jettys r,
     index \<leftarrow> [0..rc_warmups r + rc_repeats r - 1]]"

definition pad3 :: "nat \<Rightarrow> string" where
  "pad3 n = (let s = show_nat n in replicate (3 - length s) CHR ''0'' @ s)"

definition point_phase :: "recipe \<Rightarrow> exp_point \<Rightarrow> string" where
  "point_phase r = (\<lambda>(_, _, _, index). if index < rc_warmups r then ''warmup'' else ''measure'')"

definition transcript_stem :: "recipe \<Rightarrow> nat \<Rightarrow> exp_point \<Rightarrow> string" where
  "transcript_stem r sequence = (\<lambda>(op, bytes, jettys, index). pad3 sequence @ ''-'' @ op @ ''-s'' @ str_int bytes @ ''-j'' @
     str_int jettys @ ''-'' @ point_phase r (op, bytes, jettys, index))"

definition run_argv :: "'f run_world \<Rightarrow> recipe \<Rightarrow> string \<Rightarrow> int \<times> int \<Rightarrow> nat \<Rightarrow> exp_point \<Rightarrow> string list" where
  "run_argv w r simulator ports sequence = (\<lambda>(op, bytes, jettys, index).
     let port = 21600 + (int sequence - 1) mod 1000 in
     serial_tool w ports [''--commands'', exp_command op bytes jettys r port False simulator,
       exp_command op bytes jettys r port True simulator, ''--timeout'', str_int (rc_timeout_s r),
       ''--prompt-kick-after'', ''1'', ''--stagger'', ''1'', ''--full-output''])"

definition run_fences :: "'f run_world \<Rightarrow> string \<Rightarrow> nat \<Rightarrow> sdict \<times> string list" where
  "run_fences w run_root sequence =
     (let paths = fence_logs run_root;
          offsets = (\<lambda>name. case map_of paths name of Some path \<Rightarrow> ew_size w sequence path | None \<Rightarrow> None);
          (logs, errors) = collect_fence_deltas paths offsets (ew_file w sequence) in
      (logs, errors @ validate_fences logs))"

definition make_row :: "'f run_world \<Rightarrow> recipe \<Rightarrow> nat \<Rightarrow> exp_point \<Rightarrow> 'f metrics \<Rightarrow> 'f exp_row" where
  "make_row w r sequence = (\<lambda>(op, bytes, jettys, index) m.
     \<lparr>xr_sequence = sequence, xr_phase = point_phase r (op, bytes, jettys, index), xr_repeat = max 0 (index - rc_warmups r + 1),
      xr_operation = op, xr_size = bytes, xr_jettys = jettys, xr_total_operations = rc_total_ops r, xr_metrics = m,
      xr_wall_seconds = ew_elapsed w sequence,
      xr_transcript = transcript_stem r sequence (op, bytes, jettys, index) @ ''.uart.txt''\<rparr>)"

definition progress_text :: "recipe \<Rightarrow> exp_point \<Rightarrow> string" where
  "progress_text r = (\<lambda>(op, bytes, jettys, index). op @ [CHR '' '', CHR 0xB7, CHR '' ''] @ str_int bytes @ ''B'' @
     [CHR '' '', CHR 0xB7, CHR '' ''] @ ''J='' @ str_int jettys @ [CHR '' '', CHR 0xB7, CHR '' ''] @ point_phase r (op, bytes, jettys, index))"

definition record_row :: "'f float_ops \<Rightarrow> recipe \<Rightarrow> exp_point \<Rightarrow> 'f exp_row list \<Rightarrow> dict \<Rightarrow> 'f out_dir \<Rightarrow> unit res \<times> 'f out_dir" where
  "record_row fo r point rows status od =
     (let od1 = od\<lparr>od_results := rows\<rparr> in
      case summarize fo rows of
        Inl e \<Rightarrow> (Inl e, od1)
      | Inr items \<Rightarrow> (Inr (), od1\<lparr>od_summary := items,
          od_status := Some (dict_set ''current'' (JStr (progress_text r point)) (dict_set ''completed'' (JInt (int (length rows))) status))\<rparr>))"

text \<open>
  One run: the transcript is written whatever the tool returns, the copies of the fence logs before
  they are judged.
\<close>

definition exp_step :: "'f run_world \<Rightarrow> 'f float_ops \<Rightarrow> recipe \<Rightarrow> string \<Rightarrow> int \<times> int \<Rightarrow> exp_point \<Rightarrow>
    'f exp_row list \<Rightarrow> 'f out_dir \<Rightarrow> 'f exp_row list res \<times> 'f out_dir" where
  "exp_step w fo r simulator ports point rows od =
     (let sequence = length rows + 1; stem = transcript_stem r sequence point in
      case ew_serial w sequence (run_argv w r simulator ports sequence point) of
        Inl e \<Rightarrow> (Inl e, od)
      | Inr p \<Rightarrow>
        (let output = pr_out p @ pr_err p; od1 = write_file (stem @ ''.uart.txt'') output od in
         if pr_code p \<noteq> 0 then (Inl (RuntimeError (stem @ ''.uart.txt failed, exit code '' @ str_int (pr_code p))), od1)
         else
           let (logs, errors) = (if simulator = ''gem5'' then run_fences w (ew_run_dir w simulator) sequence else ([], []));
               od2 = fold (\<lambda>(name, text). write_file (stem @ ''.fences.'' @ name @ ''.log'') text) logs od1 in
           if errors \<noteq> [] then (Inl (RuntimeError (''fence check failed: '' @ join ''; '' errors)), od2)
           else
             (case point of (op, bytes, jettys, index) \<Rightarrow>
              case parse_output fo output op bytes jettys (rc_total_ops r) of
                Inl e \<Rightarrow> (Inl e, od2)
              | Inr m \<Rightarrow>
                (let rows' = rows @ [make_row w r sequence point m];
                     (done, od3) = record_row fo r point rows' (the (od_status od2)) od2 in
                 (rbind done (\<lambda>_. Inr rows'), od3)))))"

fun exp_loop :: "'f run_world \<Rightarrow> 'f float_ops \<Rightarrow> recipe \<Rightarrow> string \<Rightarrow> int \<times> int \<Rightarrow> exp_point list \<Rightarrow>
    'f exp_row list \<Rightarrow> 'f out_dir \<Rightarrow> 'f exp_row list res \<times> 'f out_dir" where
  "exp_loop w fo r simulator ports [] rows od = (Inr rows, od)"
| "exp_loop w fo r simulator ports (point # points) rows od =
     (case exp_step w fo r simulator ports point rows od of
        (Inl e, od') \<Rightarrow> (Inl e, od')
      | (Inr rows', od') \<Rightarrow> exp_loop w fo r simulator ports points rows' od')"

definition exp_run :: "'f run_world \<Rightarrow> 'f float_ops \<Rightarrow> string \<Rightarrow> 'f out_dir \<Rightarrow> int res \<times> 'f out_dir" where
  "exp_run w fo task_id od =
     (case prepare w task_id of
        Inl e \<Rightarrow> (Inl e, od)
      | Inr (spec, recipe, plan) \<Rightarrow>
        (let simulator = p_simulator plan in
         case network_setup w simulator (open_output w task_id spec recipe simulator od) of
           (Inl e, od1) \<Rightarrow> (Inl e, od1)
         | (Inr ports, od1) \<Rightarrow>
           (case exp_loop w fo recipe simulator ports (exp_points recipe) [] od1 of
              (Inl e, od2) \<Rightarrow> (Inl e, od2)
            | (Inr rows, od2) \<Rightarrow> (Inr 0, od2\<lparr>od_status := Some (dict_update (the (od_status od2))
                [(''state'', JStr ''finished''), (''ended_at'', JFloat (ew_ended w))])\<rparr>))))"

definition exp_main :: "'f run_world \<Rightarrow> 'f float_ops \<Rightarrow> (py_exc \<Rightarrow> string) \<Rightarrow> string \<Rightarrow> 'f out_dir \<Rightarrow> int \<times> 'f out_dir" where
  "exp_main w fo exc_text task_id od =
     (case exp_run w fo task_id od of
        (Inr code, od') \<Rightarrow> (code, od')
      | (Inl e, od') \<Rightarrow> (1, od'\<lparr>od_status := Some (dict_update (case od_status od' of Some s \<Rightarrow> s | None \<Rightarrow> [])
          [(''state'', JStr ''failed''), (''error'', JStr (exc_text e)), (''ended_at'', JFloat (ew_ended w))])\<rparr>))"

subsection \<open>What a run records\<close>

definition run_accepts :: "'f run_world \<Rightarrow> 'f float_ops \<Rightarrow> recipe \<Rightarrow> string \<Rightarrow> int \<times> int \<Rightarrow> nat \<Rightarrow> exp_point \<Rightarrow> 'f metrics \<Rightarrow> bool" where
  "run_accepts w fo r simulator ports i point m \<longleftrightarrow> (\<exists>p.
     ew_serial w (Suc i) (run_argv w r simulator ports (Suc i) point) = Inr p \<and> pr_code p = 0 \<and>
     (simulator = ''gem5'' \<longrightarrow> snd (run_fences w (ew_run_dir w simulator) (Suc i)) = []) \<and>
     (case point of (op, bytes, jettys, _) \<Rightarrow>
        parse_output fo (pr_out p @ pr_err p) op bytes jettys (rc_total_ops r) = Inr m))"

definition recorded :: "'f run_world \<Rightarrow> 'f float_ops \<Rightarrow> recipe \<Rightarrow> string \<Rightarrow> int \<times> int \<Rightarrow> 'f exp_row list \<Rightarrow> bool" where
  "recorded w fo r simulator ports rows \<longleftrightarrow> length rows \<le> length (exp_points r) \<and>
     (\<forall>i < length rows. \<exists>m. run_accepts w fo r simulator ports i (exp_points r ! i) m \<and>
        rows ! i = make_row w r (Suc i) (exp_points r ! i) m)"

definition progress :: "'f run_world \<Rightarrow> 'f float_ops \<Rightarrow> recipe \<Rightarrow> string \<Rightarrow> int \<times> int \<Rightarrow> 'f exp_row list \<Rightarrow> 'f out_dir \<Rightarrow> bool" where
  "progress w fo r simulator ports rows od \<longleftrightarrow> recorded w fo r simulator ports rows \<and> od_results od = rows \<and>
     summarize fo rows = Inr (od_summary od) \<and>
     (\<exists>status. od_status od = Some status \<and> map_of status ''completed'' = Some (JInt (int (length rows))) \<and>
        map_of status ''total'' = Some (JInt (run_count r)))"

lemma write_file_simps [simp]:
  "od_results (write_file n t od) = od_results od" "od_summary (write_file n t od) = od_summary od"
  "od_status (write_file n t od) = od_status od"
  by (simp_all add: write_file_def)

lemma fold_write_file [simp]:
  "od_results (fold (\<lambda>(name, text). write_file (f name) text) xs od) = od_results od \<and>
   od_summary (fold (\<lambda>(name, text). write_file (f name) text) xs od) = od_summary od \<and>
   od_status (fold (\<lambda>(name, text). write_file (f name) text) xs od) = od_status od"
  by (induction xs arbitrary: od) auto

lemma parse_output_kind:
  assumes "parse_output fo output op bytes jettys total_ops = Inr m"
  shows "row_consistent (make_row w r n (op, bytes, jettys, index) m)"
  using assms by (auto simp: parse_output_def Let_def make_row_def row_consistent_def split: if_splits)

lemma run_accepts_consistent: "run_accepts w fo r simulator ports i point m \<Longrightarrow> row_consistent (make_row w r n point m)"
  by (cases point) (auto simp: run_accepts_def intro: parse_output_kind)

lemma recorded_consistent:
  assumes "recorded w fo r simulator ports rows" and "row \<in> set rows"
  shows "row_consistent row"
proof -
  from assms(2) obtain i where "i < length rows" "row = rows ! i" by (auto simp: in_set_conv_nth)
  with assms(1) show ?thesis unfolding recorded_def using run_accepts_consistent by metis
qed

lemma recorded_snoc:
  assumes "recorded w fo r simulator ports rows" and "length rows < length (exp_points r)"
    and "run_accepts w fo r simulator ports (length rows) (exp_points r ! length rows) m"
  shows "recorded w fo r simulator ports (rows @ [make_row w r (Suc (length rows)) (exp_points r ! length rows) m])"
  using assms unfolding recorded_def by (auto simp: nth_append less_Suc_eq)

text \<open>A run either is accepted and leads to a row more, or leaves results, summary and status alone.\<close>

lemma exp_step_progress:
  assumes inv: "progress w fo r simulator ports rows od" and more: "length rows < length (exp_points r)"
    and step: "exp_step w fo r simulator ports (exp_points r ! length rows) rows od = (res, od')"
  shows "case res of
      Inl e \<Rightarrow> progress w fo r simulator ports rows od' \<and>
        \<not> (\<exists>m. run_accepts w fo r simulator ports (length rows) (exp_points r ! length rows) m)
    | Inr rows' \<Rightarrow> progress w fo r simulator ports rows' od' \<and> length rows' = Suc (length rows)"
proof -
  define point where "point = exp_points r ! length rows"
  obtain op bytes jettys index where pt: "point = (op, bytes, jettys, index)" by (cases point)
  define argv where "argv = run_argv w r simulator ports (Suc (length rows)) point"
  obtain logs errors where fences:
    "(if simulator = ''gem5'' then run_fences w (ew_run_dir w simulator) (Suc (length rows)) else ([], [])) = (logs, errors)"
    by (metis surj_pair)
  have acc: "run_accepts w fo r simulator ports (length rows) point m \<longleftrightarrow> (\<exists>p. ew_serial w (Suc (length rows)) argv = Inr p \<and>
      pr_code p = 0 \<and> errors = [] \<and> parse_output fo (pr_out p @ pr_err p) op bytes jettys (rc_total_ops r) = Inr m)" for m
    using fences by (auto simp: run_accepts_def pt argv_def split: if_splits)
  have stay: "progress w fo r simulator ports rows od''"
    if "od_results od'' = od_results od \<and> od_summary od'' = od_summary od \<and> od_status od'' = od_status od" for od''
    using inv that by (simp add: progress_def)
  note step' = step [folded point_def, unfolded exp_step_def Let_def Suc_eq_plus1 [symmetric],
    folded argv_def, unfolded fences prod.case]
  show ?thesis
  proof (cases "ew_serial w (Suc (length rows)) argv")
    case (Inl e)
    with step' stay acc show ?thesis by (auto simp flip: point_def)
  next
    case (Inr p)
    show ?thesis
    proof (cases "pr_code p = 0 \<and> errors = [] \<and> (\<exists>m. parse_output fo (pr_out p @ pr_err p) op bytes jettys (rc_total_ops r) = Inr m)")
      case False
      with step' Inr have "isl res" "od_results od' = od_results od \<and> od_summary od' = od_summary od \<and> od_status od' = od_status od"
        by (auto simp: pt split: if_splits sum.splits)
      with stay False Inr acc show ?thesis by (cases res) (auto simp flip: point_def)
    next
      case True
      then obtain m where m: "parse_output fo (pr_out p @ pr_err p) op bytes jettys (rc_total_ops r) = Inr m" by blast
      define rows' where "rows' = rows @ [make_row w r (Suc (length rows)) point m]"
      have rec: "recorded w fo r simulator ports rows'"
        unfolding rows'_def point_def using inv more acc m True Inr
        by (intro recorded_snoc) (auto simp: progress_def simp flip: point_def)
      obtain items where items: "summarize fo rows' = Inr items"
        using summarize_spec [of rows' fo] recorded_consistent [OF rec] by blast
      from step' Inr True m items have "res = Inr rows'" and od': "od_results od' = rows'" "od_summary od' = items"
        "od_status od' = Some (dict_set ''current'' (JStr (progress_text r point))
            (dict_set ''completed'' (JInt (int (length rows'))) (the (od_status od))))"
        by (auto simp: pt record_row_def rows'_def)
      with inv rec items show ?thesis by (auto simp: progress_def rows'_def update_conv)
    qed
  qed
qed

lemma exp_loop_progress:
  assumes "progress w fo r simulator ports rows od" and "points = drop (length rows) (exp_points r)"
    and "exp_loop w fo r simulator ports points rows od = (res, od')"
  shows "\<exists>rows'. progress w fo r simulator ports rows' od' \<and> (case res of
      Inl e \<Rightarrow> length rows' < length (exp_points r) \<and>
        \<not> (\<exists>m. run_accepts w fo r simulator ports (length rows') (exp_points r ! length rows') m)
    | Inr rs \<Rightarrow> rs = rows' \<and> length rows' = length (exp_points r))"
  using assms
proof (induction points arbitrary: rows od)
  case Nil
  moreover from Nil(1) have "length rows \<le> length (exp_points r)" by (simp add: progress_def recorded_def)
  ultimately show ?case by auto
next
  case (Cons point points)
  then have more: "length rows < length (exp_points r)" by (metis drop_all list.distinct(1) not_le)
  with Cons.prems(2) have hd: "point = exp_points r ! length rows" and tl: "points = drop (Suc (length rows)) (exp_points r)"
    by (metis Cons_nth_drop_Suc list.inject)+
  obtain res1 od1 where step: "exp_step w fo r simulator ports point rows od = (res1, od1)"
    by (metis surj_pair)
  note inv = exp_step_progress [OF Cons.prems(1) more step [unfolded hd]]
  show ?case
  proof (cases res1)
    case (Inl e)
    with inv step Cons.prems(3) more show ?thesis by (intro exI [of _ rows]) auto
  next
    case (Inr rows1)
    with inv have "progress w fo r simulator ports rows1 od1" "length rows1 = Suc (length rows)" by auto
    with Cons.IH [of rows1 od1] Cons.prems(3) step Inr tl show ?thesis by simp
  qed
qed

lemma open_output_progress:
  assumes "od_results od = []" and "od_summary od = []"
    and "network_setup w simulator (open_output w task_id spec recipe simulator od) = (res, od1)"
  shows "progress w fo recipe simulator ports [] od1"
proof -
  have copy: "od_results (copy_file w a b od) = od_results od \<and> od_summary (copy_file w a b od) = od_summary od" for a b od
    by (simp add: copy_file_def split: option.splits)
  have out: "od_results (open_output w task_id spec recipe simulator od) = []"
    "od_summary (open_output w task_id spec recipe simulator od) = []"
    "od_status (open_output w task_id spec recipe simulator od) = Some (running_status w task_id recipe)"
    using assms(1,2) by (simp_all add: open_output_def Let_def copy copy_checkpoint_def split: option.splits)
  have net: "od_results od1 = od_results od0 \<and> od_summary od1 = od_summary od0 \<and> od_status od1 = od_status od0"
    if "network_setup w simulator od0 = (res, od1)" for od0
    using that by (auto simp: network_setup_def gem5_network_def qemu_network_def Let_def split: sum.splits if_splits prod.splits)
  have "summarize fo [] = Inr []" by (simp add: summarize_def grouped_def)
  with net [OF assms(3)] out show ?thesis by (auto simp: progress_def recorded_def running_status_def)
qed

text \<open>What \<^verbatim>\<open>main\<close> leaves in a new output directory.\<close>

definition run_outcome :: "'f run_world \<Rightarrow> 'f float_ops \<Rightarrow> recipe \<Rightarrow> string \<Rightarrow> int \<Rightarrow> 'f out_dir \<Rightarrow> bool" where
  "run_outcome w fo r simulator code od \<longleftrightarrow> (\<exists>ports.
     progress w fo r simulator ports (od_results od) od \<and>
     map_of (the (od_status od)) ''state'' = Some (JStr (if code = 0 then ''finished'' else ''failed'')) \<and>
     (code = 0 \<longleftrightarrow> length (od_results od) = length (exp_points r)))"

lemma progress_status:
  assumes "progress w fo r simulator ports rows od" and "map_of (rev e) ''completed'' = None" and "map_of (rev e) ''total'' = None"
  shows "progress w fo r simulator ports rows (od\<lparr>od_status := Some (dict_update (the (od_status od)) e)\<rparr>)"
  using assms by (auto simp: progress_def map_of_dict_update)

lemma exp_points_product:
  "exp_points r = List.product (rc_operations r) (List.product (rc_sizes r)
     (List.product (rc_jettys r) [0..rc_warmups r + rc_repeats r - 1]))"
  by (simp add: exp_points_def product_concat_map map_concat comp_def)

lemma prepare_recipe:
  assumes "prepare w task_id = Inr (spec, recipe, plan)"
  obtains limit where "recipe_ok limit recipe"
proof -
  from assms obtain v where plan: "compile_topology (JObj spec) = Inr plan" and v: "read_recipe (ew_root w) (ew_store w) task_id spec = Inr recipe"
    by (auto simp: prepare_def split: if_splits)
  from v obtain raw where raw: "validate_recipe raw spec = Inr recipe" by (auto simp: read_recipe_def)
  obtain limit single where "jetty_limit spec = Inr limit" "single_port spec = Inr single"
    using compiled_total [OF plan] .
  with raw plan have "recipe_ok limit recipe" by (simp add: validate_recipe_Inr)
  then show ?thesis by (rule that)
qed

lemma exp_points_count:
  assumes "recipe_ok limit r"
  shows "int (length (exp_points r)) = run_count r" and "exp_points r \<noteq> []"
proof -
  from assms have nonneg: "0 \<le> rc_warmups r + rc_repeats r" and pos: "1 \<le> rc_warmups r + rc_repeats r"
    and ne: "rc_operations r \<noteq> []" "rc_sizes r \<noteq> []" "rc_jettys r \<noteq> []"
    unfolding recipe_ok_def between_def by auto
  show "int (length (exp_points r)) = run_count r"
    using nonneg by (simp add: exp_points_product run_count_def)
  have "length (exp_points r) \<noteq> 0" using ne pos by (simp add: exp_points_product)
  then show "exp_points r \<noteq> []" by auto
qed

lemma exp_run_cases:
  assumes fresh: "od_results od = []" "od_summary od = []" and prep: "prepare w task_id = Inr (spec, recipe, plan)"
    and run: "exp_run w fo task_id od = (res, od')"
  shows "\<exists>ports. progress w fo recipe (p_simulator plan) ports (od_results od') od' \<and>
    (case res of
       Inr code \<Rightarrow> code = 0 \<and> length (od_results od') = length (exp_points recipe) \<and>
         map_of (the (od_status od')) ''state'' = Some (JStr ''finished'') \<and>
         fst (network_setup w (p_simulator plan) (open_output w task_id spec recipe (p_simulator plan) od)) = Inr ports
     | Inl e \<Rightarrow> length (od_results od') < length (exp_points recipe) \<and>
         (isl (fst (network_setup w (p_simulator plan) (open_output w task_id spec recipe (p_simulator plan) od))) \<or>
          fst (network_setup w (p_simulator plan) (open_output w task_id spec recipe (p_simulator plan) od)) = Inr ports \<and>
          \<not> (\<exists>m. run_accepts w fo recipe (p_simulator plan) ports (length (od_results od')) (exp_points recipe ! length (od_results od')) m)))"
proof -
  obtain limit where ok: "recipe_ok limit recipe" using prepare_recipe [OF prep] .
  obtain net od1 where net: "network_setup w (p_simulator plan) (open_output w task_id spec recipe (p_simulator plan) od) = (net, od1)"
    by (metis surj_pair)
  note start = open_output_progress [OF fresh net]
  show ?thesis
  proof (cases net)
    case (Inl e)
    with run net prep have "res = Inl e" "od' = od1" by (auto simp: exp_run_def Let_def)
    with Inl start [of fo "(0, 0)"] net exp_points_count(2) [OF ok] show ?thesis
      by (intro exI [of _ "(0, 0)"]) (auto simp: progress_def)
  next
    case (Inr ports)
    obtain loop od2 where loop: "exp_loop w fo recipe (p_simulator plan) ports (exp_points recipe) [] od1 = (loop, od2)"
      by (metis surj_pair)
    from exp_loop_progress [OF start [of fo ports] _ loop] obtain rows' where inv: "progress w fo recipe (p_simulator plan) ports rows' od2"
      and res: "case loop of Inl e \<Rightarrow> length rows' < length (exp_points recipe) \<and>
        \<not> (\<exists>m. run_accepts w fo recipe (p_simulator plan) ports (length rows') (exp_points recipe ! length rows') m)
        | Inr rs \<Rightarrow> rs = rows' \<and> length rows' = length (exp_points recipe)" by auto
    from inv have rows': "od_results od2 = rows'" by (simp add: progress_def)
    show ?thesis
    proof (cases loop)
      case Inl
      with run net prep Inr loop res rows' inv show ?thesis by (intro exI [of _ ports]) (auto simp: exp_run_def Let_def)
    next
      case (Inr rs)
      with run net prep \<open>net = Inr ports\<close> loop have "res = Inr 0" "od' = od2\<lparr>od_status := Some (dict_update (the (od_status od2))
                [(''state'', JStr ''finished''), (''ended_at'', JFloat (ew_ended w))])\<rparr>" by (auto simp: exp_run_def Let_def)
      with progress_status [OF inv, of "[(''state'', JStr ''finished''), (''ended_at'', JFloat (ew_ended w))]"] Inr res rows' net \<open>net = Inr ports\<close>
      show ?thesis by (intro exI [of _ ports]) (auto simp: map_of_dict_update)
    qed
  qed
qed

text \<open>
  C20. In a new output directory the experiment records its runs in order and without gaps: the rows
  are exactly the first runs of the recipe's schedule, each accepted (exit codes, fences, parsed
  result), numbered from 1; the summary is that of these rows and the status counts them.  The exit
  code is 0 and the state \<^verbatim>\<open>finished\<close> iff the schedule is complete, else it is 1 and the state \<^verbatim>\<open>failed\<close>.
\<close>

theorem exp_main_outcome:
  assumes "od_results od = []" and "od_summary od = []" and "exp_main w fo exc_text task_id od = (code, od')"
    and "prepare w task_id = Inr (spec, recipe, plan)"
  shows "code \<in> {0, 1} \<and> run_outcome w fo recipe (p_simulator plan) code od' \<and> int (length (exp_points recipe)) = run_count recipe"
proof -
  obtain limit where ok: "recipe_ok limit recipe" using prepare_recipe [OF assms(4)] .
  obtain res od1 where run: "exp_run w fo task_id od = (res, od1)" by (metis surj_pair)
  note cases = exp_run_cases [OF assms(1,2,4) run]
  then obtain ports where inv: "progress w fo recipe (p_simulator plan) ports (od_results od1) od1" by blast
  from cases have out: "res = Inr c \<Longrightarrow> c = 0 \<and> length (od_results od1) = length (exp_points recipe) \<and>
        map_of (the (od_status od1)) ''state'' = Some (JStr ''finished'')"
      "res = Inl e \<Longrightarrow> length (od_results od1) < length (exp_points recipe)" for c e
    by auto
  have "code \<in> {0, 1} \<and> run_outcome w fo recipe (p_simulator plan) code od'"
  proof (cases res)
    case (Inl e)
    from inv obtain status where st: "od_status od1 = Some status" by (auto simp: progress_def)
    define ch where "ch = [(''state'', JStr ''failed''), (''error'', JStr (exc_text e)), (''ended_at'', JFloat (ew_ended w))]"
    have "code = 1" and od': "od' = od1\<lparr>od_status := Some (dict_update (the (od_status od1)) ch)\<rparr>"
      using assms(3) run Inl st by (auto simp: exp_main_def ch_def)
    moreover have "progress w fo recipe (p_simulator plan) ports (od_results od1) od'"
      unfolding od' by (rule progress_status [OF inv]) (simp_all add: ch_def)
    ultimately show ?thesis using out(2) [OF Inl]
      by (auto simp: run_outcome_def map_of_dict_update ch_def simp del: split_paired_Ex)
  next
    case (Inr c)
    with assms(3) run out(1) [OF Inr] inv show ?thesis
      by (auto simp: exp_main_def run_outcome_def simp del: split_paired_Ex)
  qed
  with exp_points_count(1) [OF ok] show ?thesis by simp
qed

text \<open>
  The experiment succeeds exactly when its preparation and the network set-up succeed and every
  run of the schedule is accepted.
\<close>

theorem exp_main_success:
  assumes "od_results od = []" and "od_summary od = []"
  shows "fst (exp_main w fo exc_text task_id od) = 0 \<longleftrightarrow> (\<exists>spec recipe plan ports.
    prepare w task_id = Inr (spec, recipe, plan) \<and>
    fst (network_setup w (p_simulator plan) (open_output w task_id spec recipe (p_simulator plan) od)) = Inr ports \<and>
    (\<forall>i < length (exp_points recipe). \<exists>m. run_accepts w fo recipe (p_simulator plan) ports i (exp_points recipe ! i) m))"
proof (cases "prepare w task_id")
  case (Inl e)
  then show ?thesis by (simp add: exp_main_def exp_run_def)
next
  case (Inr x)
  then obtain spec recipe plan where prep: "prepare w task_id = Inr (spec, recipe, plan)" by (cases x) auto
  obtain res od1 where run: "exp_run w fo task_id od = (res, od1)" by (metis surj_pair)
  note cases = exp_run_cases [OF assms prep run]
  show ?thesis
  proof (cases res)
    case (Inl e)
    let ?net = "fst (network_setup w (p_simulator plan) (open_output w task_id spec recipe (p_simulator plan) od))"
    have "\<not> (\<forall>i < length (exp_points recipe). \<exists>m. run_accepts w fo recipe (p_simulator plan) ports i (exp_points recipe ! i) m)"
      if "?net = Inr ports" for ports
      using cases Inl that by fastforce
    with run prep Inl show ?thesis by (simp add: exp_main_def)
  next
    case (Inr c)
    with cases obtain ports where "c = 0"
      and "fst (network_setup w (p_simulator plan) (open_output w task_id spec recipe (p_simulator plan) od)) = Inr ports"
      and "recorded w fo recipe (p_simulator plan) ports (od_results od1)" "length (od_results od1) = length (exp_points recipe)"
      by (auto simp: progress_def)
    with run Inr prep show ?thesis by (auto simp: exp_main_def recorded_def simp del: split_paired_Ex)
  qed
qed

lemma filter_product:
  assumes "distinct xs"
  shows "filter (\<lambda>p. fst p = a \<and> Q (snd p)) (List.product xs ys) = (if a \<in> set xs then map (Pair a) (filter Q ys) else [])"
  using assms
proof (induction xs)
  case (Cons x xs)
  have "filter (\<lambda>p. fst p = a \<and> Q (snd p)) (map (Pair x) ys) = (if x = a then map (Pair a) (filter Q ys) else [])"
    by (auto simp: filter_map comp_def)
  with Cons show ?case by auto
qed simp

lemma filter_upto: "0 \<le> a \<Longrightarrow> 1 \<le> b \<Longrightarrow> length (filter (\<lambda>i. a \<le> i) [0..a + b - 1]) = nat b"
proof -
  assume ab: "0 \<le> a" "1 \<le> b"
  then have "[0..a + b - 1] = [0..a - 1] @ [a..a + b - 1]" by (rule_tac upto_split1) auto
  moreover have "filter (\<lambda>i. a \<le> i) [0..a - 1] = []" "filter (\<lambda>i. a \<le> i) [a..a + b - 1] = [a..a + b - 1]"
    by (auto simp: filter_empty_conv filter_id_conv)
  ultimately show ?thesis by simp
qed

lemma measured_count:
  assumes "recipe_ok limit r" and rec: "recorded w fo r simulator ports rows" and len: "length rows = length (exp_points r)"
  shows "length (measured (op, bytes, jettys) rows) =
    (if op \<in> set (rc_operations r) \<and> bytes \<in> set (rc_sizes r) \<and> jettys \<in> set (rc_jettys r) then nat (rc_repeats r) else 0)"
proof -
  from assms(1) have d: "distinct (rc_operations r)" "distinct (rc_sizes r)" "distinct (rc_jettys r)"
    "0 \<le> rc_warmups r" "1 \<le> rc_repeats r" unfolding recipe_ok_def between_def by auto
  let ?row = "\<lambda>row. (xr_phase row = ''measure'', row_key row)"
  let ?pt = "\<lambda>(op, bytes, jettys, index). (rc_warmups r \<le> index, (op, bytes, jettys))"
  have "map ?row rows = map ?pt (exp_points r)"
  proof (rule nth_equalityI)
    fix i assume "i < length (map ?row rows)"
    with rec len obtain m where "i < length (exp_points r)" "i < length rows" "rows ! i = make_row w r (Suc i) (exp_points r ! i) m"
      unfolding recorded_def by auto
    then show "map ?row rows ! i = map ?pt (exp_points r) ! i"
      by (cases "exp_points r ! i") (auto simp: make_row_def row_key_def point_phase_def)
  qed (simp add: len)
  then have "length (filter (\<lambda>x. x = (True, (op, bytes, jettys))) (map ?row rows)) =
      length (filter (\<lambda>x. x = (True, (op, bytes, jettys))) (map ?pt (exp_points r)))" by simp
  then have "length (measured (op, bytes, jettys) rows) = length (filter (\<lambda>p. fst p = op \<and> (fst (snd p) = bytes \<and>
      (fst (snd (snd p)) = jettys \<and> rc_warmups r \<le> snd (snd (snd p))))) (exp_points r))"
    by (simp add: measured_def filter_map comp_def case_prod_beta conj_ac)
  also have "\<dots> = (if op \<in> set (rc_operations r) \<and> bytes \<in> set (rc_sizes r) \<and> jettys \<in> set (rc_jettys r) then nat (rc_repeats r) else 0)"
    unfolding exp_points_product
    by (simp add: filter_product [OF d(1), of op "\<lambda>q. fst q = bytes \<and> fst (snd q) = jettys \<and> rc_warmups r \<le> snd (snd q)"]
        filter_product [OF d(2), of bytes "\<lambda>q. fst q = jettys \<and> rc_warmups r \<le> snd q"]
        filter_product [OF d(3), of jettys "\<lambda>i. rc_warmups r \<le> i"] filter_upto [OF d(4,5)])
  finally show ?thesis .
qed

text \<open>
  C22. The summary of a successful experiment has exactly one entry for each combination of
  operation, size and Jetty count of the recipe, in increasing order, and each entry summarises
  exactly the recipe's number of repeats: no warm-up run enters it.
\<close>

theorem exp_summary_complete:
  assumes "od_results od = []" and "od_summary od = []" and "exp_main w fo exc_text task_id od = (0, od')"
  shows "\<exists>spec recipe plan. prepare w task_id = Inr (spec, recipe, plan) \<and>
    sorted_wrt (<) (map summary_key (od_summary od')) \<and>
    set (map summary_key (od_summary od')) = set (rc_operations recipe) \<times> set (rc_sizes recipe) \<times> set (rc_jettys recipe) \<and>
    (\<forall>s \<in> set (od_summary od'). int (xs_repeats s) = rc_repeats recipe)"
proof -
  obtain spec recipe plan where prep: "prepare w task_id = Inr (spec, recipe, plan)"
    using assms(3) by (cases "prepare w task_id") (auto simp: exp_main_def exp_run_def)
  obtain limit where ok: "recipe_ok limit recipe" using prepare_recipe [OF prep] .
  then have rep: "1 \<le> rc_repeats recipe" by (simp add: recipe_ok_def between_def)
  obtain res od1 where run: "exp_run w fo task_id od = (res, od1)" by (metis surj_pair)
  with assms(3) obtain c where "res = Inr c" "od1 = od'" by (cases res) (auto simp: exp_main_def)
  with exp_run_cases [OF assms(1,2) prep run] obtain ports where
    inv: "progress w fo recipe (p_simulator plan) ports (od_results od') od'"
    and len: "length (od_results od') = length (exp_points recipe)" by auto
  then have rec: "recorded w fo recipe (p_simulator plan) ports (od_results od')"
    and sum: "summarize fo (od_results od') = Inr (od_summary od')" by (auto simp: progress_def)
  from summarize_spec [of "od_results od'" fo] recorded_consistent [OF rec] sum have
    sorted: "sorted_wrt (<) (map summary_key (od_summary od'))"
    and keys: "set (map summary_key (od_summary od')) = {k. measured k (od_results od') \<noteq> []}"
    and reps: "\<forall>s \<in> set (od_summary od'). xs_repeats s = length (measured (summary_key s) (od_results od'))" by auto
  have count: "length (measured k (od_results od')) =
      (if k \<in> set (rc_operations recipe) \<times> set (rc_sizes recipe) \<times> set (rc_jettys recipe) then nat (rc_repeats recipe) else 0)" for k
    using measured_count [OF ok rec len] by (cases k) auto
  have keys': "set (map summary_key (od_summary od')) = set (rc_operations recipe) \<times> set (rc_sizes recipe) \<times> set (rc_jettys recipe)"
    unfolding keys length_0_conv [symmetric] count using rep by auto
  have "int (xs_repeats s) = rc_repeats recipe" if s: "s \<in> set (od_summary od')" for s
  proof -
    from s have "summary_key s \<in> set (map summary_key (od_summary od'))" by simp
    with keys' count [of "summary_key s"] reps s rep show ?thesis by simp
  qed
  with prep sorted keys' show ?thesis by blast
qed

subsection \<open>A run on two QEMU hosts\<close>

definition demo_recipe :: recipe where
  "demo_recipe = \<lparr>rc_operations = [''read_bw''], rc_sizes = [64], rc_jettys = [1], rc_total_ops = 256, rc_warmups = 0,
     rc_repeats = 1, rc_depth = 64, rc_jfc_depth = 64, rc_post_list = 16, rc_timeout_s = 60\<rparr>"

definition demo_floats :: "string float_ops" where
  "demo_floats = \<lparr>fo_read = id, fo_sum = concat, fo_over = (\<lambda>x _. x), fo_less = (\<lambda>_ _. False)\<rparr>"

definition demo_endpoint :: string where
  "demo_endpoint = ''Number of jettys : 1'' @ [CHR 0x0A] @ ''64 256 9.5 9.0 0.1'' @ [CHR 0x0A] @ ''__UBSIM_RC_1_2__=0'' @ [CHR 0x0A]"

definition demo_store :: store where
  "demo_store = [in_tasks ''/lab'' ''task-demo.json'' \<mapsto> Some (JObj qemu_spec),
     in_tasks ''/lab'' ''task-demo.recipe.json'' \<mapsto> Some (recipe_json demo_recipe)]"

definition demo_runtime :: "string \<Rightarrow> runtime_state" where
  "demo_runtime simulator = \<lparr>rt_active = (simulator = ''qemu''), rt_topology_name = JStr ''qemu-two-heads-one-400g-switch'', rt_run_dir = ''/run''\<rparr>"

definition demo_world :: "string run_world" where
  "demo_world = \<lparr>ew_host = idle_host\<lparr>xw_launched := (\<lambda>_. Inr (JObj qemu_spec))\<rparr>, ew_store = demo_store, ew_runtime = demo_runtime,
     ew_run_dir = (\<lambda>_. ''/run''), ew_text = (\<lambda>_. None), ew_pid = 7, ew_started = ''1.0'', ew_ended = ''2.0'',
     ew_sync = Inl (OSError []), ew_net_up = (\<lambda>_. Inr \<lparr>pr_code = 0, pr_out = [], pr_err = []\<rparr>),
     ew_size = (\<lambda>_ _. None), ew_file = (\<lambda>_ _. Inl (OSError [])),
     ew_serial = (\<lambda>_ _. Inr \<lparr>pr_code = 0, pr_out = demo_endpoint @ demo_endpoint, pr_err = []\<rparr>), ew_elapsed = (\<lambda>_. ''0.5'')\<rparr>"

definition new_dir :: "'f out_dir" where
  "new_dir = \<lparr>od_topology = None, od_recipe = None, od_files = [], od_provenance = None, od_status = None, od_results = [], od_summary = []\<rparr>"

lemma demo_parse: "parse_output demo_floats (demo_endpoint @ demo_endpoint) ''read_bw'' 64 1 256 = Inr (Bandwidth ''9.5'' ''9.0'' ''0.1'')"
  by code_simp

lemma demo_recipe_valid: "validate_recipe (recipe_json demo_recipe) qemu_spec = Inr demo_recipe"
proof -
  have t: "jetty_limit qemu_spec = Inr 47" "single_port qemu_spec = Inr True" "length (p_node_ids qemu_two_heads_plan) = 2"
    by code_simp+
  have "recipe_ok 47 demo_recipe" "run_count demo_recipe \<le> 120"
    by (simp_all add: recipe_ok_def demo_recipe_def OPS_def between_def window_ok_def endswith_def startswith_def run_count_def)
  with t(3) holds_recipe_json show ?thesis unfolding validate_recipe_Inr [OF compile_qemu_spec t(1,2)] by simp
qed

lemma demo_root: "ew_root demo_world = ''/lab''" "xw_env (ew_host demo_world) = []"
  by (simp_all add: demo_world_def idle_host_def idle_lab_def)

lemma demo_task: "read_task ''/lab'' demo_store ''task-demo'' = Inr (JObj qemu_spec)"
proof -
  have "TASK_ID ''task-demo''" by code_simp
  from task_path_task [OF this, of "''/lab''"] show ?thesis
    by (simp add: read_task_def demo_store_def startswith_def loads_def)
qed

lemma demo_read_recipe: "read_recipe ''/lab'' demo_store ''task-demo'' qemu_spec = Inr demo_recipe"
proof -
  have id: "TASK_ID ''task-demo''" by code_simp
  from task_path_task [OF id, of "''/lab''"] in_tasks_to_path [OF id, of "''.recipe.json''" "''/lab''"] show ?thesis
    by (simp add: read_recipe_def recipe_path_def demo_store_def startswith_def loads_def demo_recipe_valid)
qed

lemma demo_preflight: "\<exists>v. preflight (ew_host demo_world) qemu_spec demo_runtime (Some demo_recipe) False = Inr v \<and> vd_ok v"
proof -
  have plan: "p_simulator qemu_two_heads_plan = ''qemu''" by (simp add: qemu_two_heads_plan_def)
  have name: "map_of qemu_spec ''name'' = Some (JStr ''qemu-two-heads-one-400g-switch'')"
    by (simp add: qemu_spec_def qemu_two_heads_def)
  have eq: "dict_within qemu_spec qemu_spec" by code_simp
  have files: "missing_artifacts (ew_host demo_world) ps = []" for ps
    by (simp add: missing_artifacts_def demo_world_def idle_host_def idle_lab_def)
  have launched: "xw_launched (ew_host demo_world) p = Inr (JObj qemu_spec)" for p
    by (simp add: demo_world_def)
  show ?thesis
    by (simp add: preflight_def compile_qemu_spec name getitem_def Let_def plan checkpoint_availability_def demo_runtime_def same_task_def
        configuration_checks_def launched eq start_checks_def artifacts_check_def files occupancy_check_def recipe_checks_def demo_recipe_valid)
qed

lemma demo_prepare: "prepare demo_world ''task-demo'' = Inr (qemu_spec, demo_recipe, qemu_two_heads_plan)"
proof -
  obtain v where v: "preflight (ew_host demo_world) qemu_spec demo_runtime (Some demo_recipe) False = Inr v" "vd_ok v"
    using demo_preflight by blast
  have "ew_store demo_world = demo_store" "ew_runtime demo_world = demo_runtime" by (simp_all add: demo_world_def)
  with v show ?thesis by (simp add: prepare_def demo_root demo_task demo_read_recipe compile_qemu_spec)
qed

lemma demo_points: "exp_points demo_recipe = [(''read_bw'', 64, 1, 0)]"
  by (simp add: exp_points_def demo_recipe_def upto_rec1)

lemma demo_run_accepts:
  "run_accepts demo_world demo_floats demo_recipe ''qemu'' ports i (''read_bw'', 64, 1, 0) (Bandwidth ''9.5'' ''9.0'' ''0.1'')"
  using demo_parse by (simp add: run_accepts_def demo_world_def demo_recipe_def)

lemma demo_accepts [simp]: "\<exists>m. run_accepts demo_world demo_floats demo_recipe ''qemu'' ports i (''read_bw'', 64, 1, 0) m"
  using demo_run_accepts by blast

lemma demo_network: "\<exists>ports. fst (network_setup demo_world ''qemu'' od) = Inr ports"
proof -
  have "exp_ports [] ''qemu'' = Inr (3560, 3570)" by code_simp
  then show ?thesis unfolding network_setup_def demo_root by (simp add: qemu_network_def demo_world_def)
qed

theorem exp_main_success_witness: "fst (exp_main demo_world demo_floats (\<lambda>_. []) ''task-demo'' new_dir) = 0"
proof -
  have "p_simulator qemu_two_heads_plan = ''qemu''" by (simp add: qemu_two_heads_plan_def)
  moreover obtain ports where "fst (network_setup demo_world ''qemu'' (open_output demo_world ''task-demo'' qemu_spec demo_recipe ''qemu'' new_dir)) = Inr ports"
    using demo_network by blast
  ultimately show ?thesis
    by (subst exp_main_success) (use demo_prepare demo_points in \<open>auto simp: new_dir_def simp del: split_paired_Ex\<close>)
qed

theorem exp_main_outcome_witness:
  "\<exists>code od'. exp_main demo_world demo_floats (\<lambda>_. []) ''task-demo'' new_dir = (code, od') \<and> code \<in> {0, 1} \<and>
    run_outcome demo_world demo_floats demo_recipe (p_simulator qemu_two_heads_plan) code od' \<and>
    int (length (exp_points demo_recipe)) = run_count demo_recipe"
proof -
  obtain code od' where run: "exp_main demo_world demo_floats (\<lambda>_. []) ''task-demo'' new_dir = (code, od')" by (metis surj_pair)
  from exp_main_outcome [OF _ _ run demo_prepare] run show ?thesis by (simp add: new_dir_def)
qed

lemma demo_success: "\<exists>od'. exp_main demo_world demo_floats (\<lambda>_. []) ''task-demo'' new_dir = (0, od')"
proof -
  obtain res od1 where run: "exp_run demo_world demo_floats ''task-demo'' new_dir = (res, od1)" by (metis surj_pair)
  have sim: "p_simulator qemu_two_heads_plan = ''qemu''" by (simp add: qemu_two_heads_plan_def)
  have fresh: "od_results (new_dir :: string out_dir) = []" "od_summary (new_dir :: string out_dir) = []"
    by (simp_all add: new_dir_def)
  note cases = exp_run_cases [OF fresh demo_prepare run, unfolded sim demo_points]
  show ?thesis
  proof (cases res)
    case (Inl e)
    from demo_network obtain ports where
      "fst (network_setup demo_world ''qemu'' (open_output demo_world ''task-demo'' qemu_spec demo_recipe ''qemu'' new_dir)) = Inr ports" by blast
    with cases Inl have False using demo_run_accepts by fastforce
    then show ?thesis ..
  next
    case (Inr c)
    with cases run show ?thesis by (auto simp: exp_main_def)
  qed
qed

theorem exp_summary_complete_witness:
  "\<exists>od' spec recipe plan. exp_main demo_world demo_floats (\<lambda>_. []) ''task-demo'' new_dir = (0, od') \<and>
    prepare demo_world ''task-demo'' = Inr (spec, recipe, plan) \<and>
    sorted_wrt (<) (map summary_key (od_summary od')) \<and>
    set (map summary_key (od_summary od')) = set (rc_operations recipe) \<times> set (rc_sizes recipe) \<times> set (rc_jettys recipe) \<and>
    (\<forall>s \<in> set (od_summary od'). int (xs_repeats s) = rc_repeats recipe)"
proof -
  obtain od' where run: "exp_main demo_world demo_floats (\<lambda>_. []) ''task-demo'' new_dir = (0, od')" using demo_success by blast
  have "od_results (new_dir :: string out_dir) = []" "od_summary (new_dir :: string out_dir) = []"
    by (simp_all add: new_dir_def)
  from exp_summary_complete [OF this run] run show ?thesis by blast
qed

end
