(* ===== verification/Ws_Terminal.thy ===== *)
theory Ws_Terminal
  imports Framing
begin

section \<open>WebSocket frames of the browser terminal\<close>

text \<open>
  Model of \<^verbatim>\<open>_ws_frame\<close> and \<^verbatim>\<open>_ws_parse\<close> of \<^verbatim>\<open>ubsim_lab/web.py\<close>.
  The parser works on a buffer that the caller keeps between reads; it returns the complete frames
  and what is left of the buffer.
\<close>

subsection \<open>The functions\<close>

text \<open>\<^verbatim>\<open>length.to_bytes(2, "big")\<close> raises \<^verbatim>\<open>OverflowError\<close> from 65536 on.\<close>

definition ws_frame :: "byte list \<Rightarrow> byte list res" where
  "ws_frame data =
     (let len = length data in
      if len < 126 then Inr ([0x82, of_nat len] @ data)
      else if len < 65536 then Inr ([0x82, 126] @ be_bytes 2 len @ data)
      else Inl (OverflowError ''int too big to convert''))"

definition unmask :: "byte list \<Rightarrow> byte list \<Rightarrow> byte list" where
  "unmask key bs = map (\<lambda>(i, b). b XOR key ! (i mod 4)) (enumerate 0 bs)"

text \<open>The length field: its value and the offset after it, or nothing when it is incomplete.\<close>

definition ws_length :: "byte list \<Rightarrow> (nat \<times> nat) option" where
  "ws_length buffer =
     (let len = unat (buffer ! 1 AND 0x7F) in
      if len = 126 then (if size buffer < 4 then None else Some (be_nat (take 2 (drop 2 buffer)), 4))
      else if len = 127 then (if size buffer < 10 then None else Some (be_nat (take 8 (drop 2 buffer)), 10))
      else Some (len, 2))"

text \<open>One turn of the loop of \<^verbatim>\<open>_ws_parse\<close>: break, raise, or a frame and its size.\<close>

definition ws_next :: "byte list \<Rightarrow> ((byte \<times> byte list) \<times> nat) option res" where
  "ws_next buffer =
     (if length buffer < 2 then Inr None
      else let masked = (buffer ! 1 AND 0x80 \<noteq> 0) in
        case ws_length buffer of
          None \<Rightarrow> Inr None
        | Some (len, offset) \<Rightarrow>
            if \<not> masked \<or> len > 8192 then Inl (ValueError ''invalid terminal message'')
            else if size buffer < offset + 4 + len then Inr None
            else Inr (Some ((buffer ! 0 AND 0x0F,
                   unmask (take 4 (drop offset buffer)) (take len (drop (offset + 4) buffer))),
                 offset + 4 + len)))"

lemma ws_length_offset: "ws_length buffer = Some (n, offset) \<Longrightarrow> 2 \<le> offset \<and> (2 \<le> length buffer \<longrightarrow> offset \<le> length buffer)"
  by (auto simp: ws_length_def Let_def split: if_splits)

lemma ws_next_consumed:
  "ws_next buffer = Inr (Some (m, n)) \<Longrightarrow> 0 < n \<and> n \<le> length buffer"
  by (auto simp: ws_next_def Let_def split: if_splits option.splits prod.splits)

function ws_parse :: "byte list \<Rightarrow> ((byte \<times> byte list) list \<times> byte list) res" where
  "ws_parse buffer = (case ws_next buffer of
       Inl e \<Rightarrow> Inl e
     | Inr None \<Rightarrow> Inr ([], buffer)
     | Inr (Some (frame, n)) \<Rightarrow>
         rbind (ws_parse (drop n buffer)) (\<lambda>(frames, rest). Inr (frame # frames, rest)))"
  by auto
termination
  by (relation "measure length") (auto dest: ws_next_consumed)

declare ws_parse.simps [simp del]

subsection \<open>What a browser sends\<close>

text \<open>
  A client frame of RFC 6455: final fragment, opcode, masked, with the shortest length field.  This
  is the specification the parser is compared with.
\<close>

record client_frame =
  cf_opcode :: byte
  cf_mask :: "byte list"
  cf_payload :: "byte list"

definition client_frame_ok :: "client_frame \<Rightarrow> bool" where
  "client_frame_ok f \<longleftrightarrow> cf_opcode f AND 0x0F = cf_opcode f \<and> length (cf_mask f) = 4 \<and> length (cf_payload f) \<le> 8192"

definition client_encode :: "client_frame \<Rightarrow> byte list" where
  "client_encode f = (let n = length (cf_payload f) in
     [0x80 OR cf_opcode f] @
     (if n < 126 then [0x80 OR of_nat n] else [0x80 OR 126] @ be_bytes 2 n) @
     cf_mask f @ unmask (cf_mask f) (cf_payload f))"

lemma length_unmask [simp]: "length (unmask key bs) = length bs"
  by (simp add: unmask_def)

lemma nth_unmask: "i < length bs \<Longrightarrow> unmask key bs ! i = bs ! i XOR key ! (i mod 4)"
  by (simp add: unmask_def nth_enumerate_eq)

lemma unmask_unmask [simp]: "unmask key (unmask key bs) = bs"
  by (rule nth_equalityI) (simp_all add: nth_unmask xor.assoc)

lemma ws_length_extend:
  "2 \<le> length buffer \<Longrightarrow> ws_length buffer = Some r \<Longrightarrow> ws_length (buffer @ ext) = Some r"
  by (auto simp: ws_length_def Let_def nth_append split: if_splits)

lemma ws_next_extend:
  "ws_next buffer = Inr (Some (m, n)) \<Longrightarrow> ws_next (buffer @ ext) = Inr (Some (m, n))"
  "ws_next buffer = Inl e \<Longrightarrow> ws_next (buffer @ ext) = Inl e"
  by (auto simp: ws_next_def Let_def nth_append ws_length_extend dest: ws_length_offset
      split: if_splits option.splits prod.splits)

lemma masked_bits:
  fixes x :: byte
  shows "(0x80 OR x) AND 0x80 \<noteq> 0" and "(0x80 OR x) AND 0x0F = x AND 0x0F" and "(0x80 OR x) AND 0x7F = x AND 0x7F"
proof -
  have "bit ((0x80 OR x) AND 0x80) 7"
    by (simp add: bit_and_iff bit_or_iff)
  then show "(0x80 OR x) AND 0x80 \<noteq> 0" by auto
qed (simp_all add: bit.conj_disj_distrib2)

lemma and_7F_of_nat: "n < 128 \<Longrightarrow> (of_nat n :: byte) AND 0x7F = of_nat n"
proof -
  assume n: "n < 128"
  have "(of_nat n :: byte) AND mask 7 = of_nat (take_bit 7 n)"
    by (simp only: take_bit_eq_mask [symmetric] of_nat_take_bit)
  also have "take_bit 7 n = n" using n by (simp add: take_bit_eq_mod)
  finally show ?thesis by (simp add: mask_eq_exp_minus_1)
qed

lemma ws_length_client:
  assumes "length (cf_payload f) \<le> 8192"
  shows "ws_length (client_encode f @ rest) = Some (length (cf_payload f), if length (cf_payload f) < 126 then 2 else 4)"
proof (cases "length (cf_payload f) < 126")
  case True
  then show ?thesis
    by (simp add: ws_length_def client_encode_def Let_def masked_bits and_7F_of_nat unat_of_nat)
next
  case False
  have "be_nat (be_bytes 2 (length (cf_payload f))) = length (cf_payload f)"
    using assms by (simp add: be_nat_be_bytes)
  with False show ?thesis
    by (simp add: ws_length_def client_encode_def Let_def masked_bits)
qed

lemma ws_next_client:
  assumes "client_frame_ok f"
  shows "ws_next (client_encode f @ rest) = Inr (Some ((cf_opcode f, cf_payload f), length (client_encode f)))"
proof -
  let ?n = "length (cf_payload f)" and ?o = "if length (cf_payload f) < 126 then 2 else 4 :: nat"
  let ?b = "client_encode f @ rest"
  from assms have ok: "cf_opcode f AND 0x0F = cf_opcode f" "length (cf_mask f) = 4" "?n \<le> 8192"
    by (simp_all add: client_frame_ok_def)
  have first: "?b ! 0 AND 0x0F = cf_opcode f"
    using ok by (simp add: client_encode_def Let_def masked_bits)
  have second: "?b ! 1 AND 0x80 \<noteq> 0"
    by (simp add: client_encode_def Let_def masked_bits)
  have len: "length (client_encode f) = ?o + 4 + ?n"
    using ok by (simp add: client_encode_def Let_def)
  have key: "take 4 (drop ?o ?b) = cf_mask f"
    and body: "take ?n (drop (?o + 4) ?b) = unmask (cf_mask f) (cf_payload f)"
    using ok by (simp_all add: client_encode_def Let_def)
  show ?thesis
    unfolding ws_next_def Let_def ws_length_client [OF ok(3)] option.case prod.case
    using first second len key body ok(3) by simp
qed

interpretation ws: frame_reader ws_next ws_parse
proof
  show "ws_parse buf = (case ws_next buf of
          Inl e \<Rightarrow> Inl e
        | Inr None \<Rightarrow> Inr ([], buf)
        | Inr (Some (m, n)) \<Rightarrow> rbind (ws_parse (drop n buf)) (\<lambda>(ms, rest). Inr (m # ms, rest)))" for buf
    by (subst ws_parse.simps) simp
qed (auto intro: ws_next_extend dest: ws_next_consumed)

interpretation ws_client: framing ws_next ws_parse client_encode "\<lambda>f. (cf_opcode f, cf_payload f)" client_frame_ok
  by unfold_locales (simp add: ws_next_client)

subsection \<open>Main properties\<close>



text \<open>
  The pieces in which the bytes arrive do not matter: parsing a first piece and then the kept
  remainder together with a second piece gives the same frames and the same remainder as parsing
  both at once, and an error found in the first piece is found again.
\<close>

theorem ws_parse_chunks:
  "ws_parse (a @ b) = (case ws_parse a of
       Inl e \<Rightarrow> Inl e
     | Inr (fs, rest) \<Rightarrow> rbind (ws_parse (rest @ b)) (\<lambda>(fs', rest'). Inr (fs @ fs', rest')))"
  using ws.parse_chunks [of a _ _ b] ws.parse_error [of a _ b]
  by (cases "ws_parse a") auto

text \<open>
  What the server sends is one final binary frame whose length field is the length of the data
  and whose payload is the data, for up to 65535 bytes; longer data raises
  \<^verbatim>\<open>OverflowError\<close>, because the 64-bit length form is missing.  The terminal reads at most
  4096 bytes at a time.
\<close>

definition server_payload :: "byte list \<Rightarrow> byte list option" where
  "server_payload bs =
     (if length bs < 2 \<or> bs ! 0 \<noteq> 0x82 then None
      else if unat (bs ! 1) < 126 \<and> length bs = 2 + unat (bs ! 1) then Some (drop 2 bs)
      else if bs ! 1 = 126 \<and> 4 \<le> length bs \<and> length bs = 4 + be_nat (take 2 (drop 2 bs)) then Some (drop 4 bs)
      else None)"

lemma ws_frame_payload:
  "case ws_frame data of
     Inr bs \<Rightarrow> length data < 65536 \<and> server_payload bs = Some data
   | Inl e \<Rightarrow> 65536 \<le> length data \<and> e = OverflowError ''int too big to convert''"
  by (auto simp: ws_frame_def Let_def server_payload_def unat_of_nat be_nat_be_bytes)

end
