(* ===== verification/Workbench.thy ===== *)
theory Workbench
  imports Preflight Py_Regex Ws_Terminal
begin

section \<open>The workbench server\<close>

text \<open>
  Model of the rest of \<^verbatim>\<open>ubsim_lab/web.py\<close>: process checks, \<^verbatim>\<open>_host_details\<close>, \<^verbatim>\<open>_runtime\<close>, the class
  \<^verbatim>\<open>Workbench\<close> with its job, terminal owners and experiment runs, and the request handlers.  The host at
  the time of a request is the record \<open>web_world\<close>; the server with the files it writes is the record
  \<open>server\<close>.  A job object is an index into the list of all jobs ever made, so the thread that waits for
  a launch updates its own object.  A request carries the path and the query as \<^verbatim>\<open>urlsplit\<close> and
  \<^verbatim>\<open>parse_qs\<close> give them.
\<close>

record web_world =
  ww_exp :: exp_world
  ww_text :: "string \<Rightarrow> string res"
  ww_json :: "string \<Rightarrow> json res"
  ww_bytes :: "string \<Rightarrow> string res"
  ww_decode :: "string \<Rightarrow> string"
  ww_kill :: "int \<Rightarrow> bool"
  ww_trunc :: "string \<Rightarrow> int"
  ww_names :: "string list"
  ww_fresh :: string
  ww_stamp :: string
  ww_run_part :: string
  ww_job_id :: string
  ww_now :: string
  ww_spawn :: "string list \<Rightarrow> unit res"
  ww_stop :: "string list \<Rightarrow> proc option"

abbreviation ww_root :: "web_world \<Rightarrow> string" where
  "ww_root w \<equiv> xw_root (ww_exp w)"

abbreviation ww_env :: "web_world \<Rightarrow> sdict" where
  "ww_env w \<equiv> xw_env (ww_exp w)"

record job =
  jb_id :: string
  jb_task_id :: string
  jb_simulator :: string
  jb_state :: string
  jb_started_at :: string
  jb_log_path :: string
  jb_returncode :: "int option"
  jb_ended_at :: "string option"

type_synonym terminal_key = "json \<times> nat"

record server =
  sv_store :: store
  sv_jobs :: "job list"
  sv_job :: "nat option"
  sv_owners :: "terminal_key set"
  sv_runs :: "(string \<times> json option) list"

subsection \<open>Processes and run directories\<close>

definition web_run_dir :: "web_world \<Rightarrow> string \<Rightarrow> string" where
  "web_run_dir w simulator =
     (let (env_name, path) = (if simulator = ''gem5'' then (''UBSIM_DUAL_OUT'', ''run-dual'') else (''UBSIM_QEMU_DUAL_OUT'', ''run-qemu-dual'')) in
      path_str (to_path (env_get (ww_env w) env_name (path_under (ww_root w) path))))"

definition web_pid_alive :: "web_world \<Rightarrow> string \<Rightarrow> bool" where
  "web_pid_alive w path = (case ww_text w path of
       Inl _ \<Rightarrow> False
     | Inr text \<Rightarrow> (case splitlines text of
         [] \<Rightarrow> False
       | line # _ \<Rightarrow> (case parse_int line of None \<Rightarrow> False | Some pid \<Rightarrow> ww_kill w pid)))"

definition json_int :: "web_world \<Rightarrow> json \<Rightarrow> int option" where
  "json_int w v = (case v of
       JInt i \<Rightarrow> Some i | JBool b \<Rightarrow> Some (if b then 1 else 0) | JFloat r \<Rightarrow> Some (ww_trunc w r) | JStr s \<Rightarrow> parse_int s | _ \<Rightarrow> None)"

definition process_alive :: "web_world \<Rightarrow> json \<Rightarrow> bool" where
  "process_alive w pid = (case json_int w pid of None \<Rightarrow> False | Some i \<Rightarrow> ww_kill w i)"

definition rx_run_id :: rx where
  "rx_run_id = rx_seq ([rx_lit ''run-''] @ replicate 8 (Cls is_digit) @ [rx_lit ''-''] @ replicate 6 (Cls is_digit) @ [rx_lit ''-''] @
     replicate 6 (Cls (\<lambda>c. is_digit c \<or> c \<in> set ''abcdef'')))"

definition output_dir :: "web_world \<Rightarrow> string" where
  "output_dir w = path_under (path_under (ww_root w) ''experiments'') ''ui-workbench''"

definition experiment_dir :: "web_world \<Rightarrow> string \<Rightarrow> string res" where
  "experiment_dir w run_id = (if rx_fullmatch rx_run_id run_id = None then Inl (ValueError ''invalid experiment id'')
     else Inr (path_under (output_dir w) run_id))"

record runtime_info = runtime_state +
  ri_simulator :: string
  ri_stop_reason :: "string option"

definition node_pidfile :: "web_world \<Rightarrow> string \<Rightarrow> nat \<Rightarrow> string" where
  "node_pidfile w simulator index = path_under (path_under (web_run_dir w simulator) (''node'' @ show_nat index))
     (if simulator = ''gem5'' then ''gem5.pid'' else ''qemu.pid'')"

definition topology_name :: "web_world \<Rightarrow> string \<Rightarrow> json res" where
  "topology_name w run_dir = (case ww_json w (path_under run_dir ''topology.json'') of
       Inr v \<Rightarrow> rbind (as_obj (AttributeError ''get'') v) (\<lambda>d. Inr (dict_get ''name'' JNull d))
     | Inl e \<Rightarrow> if is_OSError e \<or> is_ValueError e then Inr JNull else Inl e)"

definition web_runtime :: "web_world \<Rightarrow> string \<Rightarrow> runtime_info res" where
  "web_runtime w simulator =
     (let run_dir = web_run_dir w simulator; stopped = path_under run_dir ''memory-guard.stopped'' in
      rbind (topology_name w run_dir) (\<lambda>name.
      rbind (if xw_is_file (ww_exp w) stopped then rbind (ww_text w stopped) (\<lambda>t. Inr (Some (strip t))) else Inr None) (\<lambda>reason.
      Inr \<lparr>rt_active = web_pid_alive w (node_pidfile w simulator 0), rt_topology_name = name, rt_run_dir = run_dir,
        ri_simulator = simulator, ri_stop_reason = reason\<rparr>)))"

definition web_tail :: "web_world \<Rightarrow> string \<Rightarrow> nat \<Rightarrow> string" where
  "web_tail w path limit = (case ww_bytes w path of Inl _ \<Rightarrow> [] | Inr data \<Rightarrow> ww_decode w (drop (length data - limit) data))"

subsection \<open>Host details\<close>

record host_detail =
  hd_cpu_model :: json
  hd_boot_cpu_model :: "string option"
  hd_cpu_freq :: "string option"
  hd_cpu_count :: json
  hd_l1i :: "string option"
  hd_l1d :: "string option"
  hd_l2 :: "string option"
  hd_l3 :: "string option"
  hd_memory_size :: string
  hd_guest_memory_limit :: "string option"
  hd_memory_type :: "string option"
  hd_memory_channels :: "string option"
  hd_os :: string
  hd_page_size :: "string option"

definition kernel_release :: "web_world \<Rightarrow> bool \<Rightarrow> string res" where
  "kernel_release w custom_kernel =
     (let release_file = path_under (ww_root w) ''artifacts/kernel-64k-20261015/kernelrelease.txt'' in
      if \<not> custom_kernel \<and> xw_is_file (ww_exp w) release_file then rbind (ww_text w release_file) (\<lambda>t. Inr (strip t))
      else Inr ''version unknown'')"

definition os_text :: "string \<Rightarrow> string" where
  "os_text release = ''Linux '' @ release @ [CHR '' '', CHR 0xB7, CHR '' ''] @ ''initramfs''"

definition gem5_host_detail :: "sdict \<Rightarrow> string \<Rightarrow> bool \<Rightarrow> host_detail res" where
  "gem5_host_detail machine release custom_kernel =
     rbind (rmap (\<lambda>k. getitem k machine) [''cpu_roi_model'', ''cpu_boot_model'', ''cpu_freq'', ''cpu_count'', ''l1i_size'', ''l1d_size'',
       ''l2_size'', ''last_cache_level'', ''memory_size'', ''guest_memory_limit'', ''memory_type'', ''memory_channels'']) (\<lambda>v.
     rbind (if v ! 7 = ''3'' then rbind (getitem ''l3_size'' machine) (\<lambda>x. Inr (Some x)) else Inr None) (\<lambda>l3.
     Inr \<lparr>hd_cpu_model = JStr (v ! 0), hd_boot_cpu_model = Some (v ! 1), hd_cpu_freq = Some (v ! 2), hd_cpu_count = JStr (v ! 3),
       hd_l1i = Some (v ! 4), hd_l1d = Some (v ! 5), hd_l2 = Some (v ! 6), hd_l3 = l3, hd_memory_size = v ! 8,
       hd_guest_memory_limit = Some (v ! 9), hd_memory_type = Some (v ! 10), hd_memory_channels = Some (v ! 11),
       hd_os = os_text release, hd_page_size = (if custom_kernel then None else Some ''64 KiB'')\<rparr>))"

definition qemu_host_detail :: "string \<Rightarrow> bool \<Rightarrow> dict \<Rightarrow> host_detail" where
  "qemu_host_detail release custom_kernel node =
     \<lparr>hd_cpu_model = dict_get ''cpu'' (JStr ''cortex-a72'') node, hd_boot_cpu_model = None, hd_cpu_freq = None,
      hd_cpu_count = dict_get ''cores'' (JInt 1) node, hd_l1i = None, hd_l1d = None, hd_l2 = None, hd_l3 = None,
      hd_memory_size = py_str (dict_get ''memory_mib'' (JInt 1024) node) @ '' MiB'', hd_guest_memory_limit = None,
      hd_memory_type = None, hd_memory_channels = None, hd_os = os_text release,
      hd_page_size = (if custom_kernel then None else Some ''64 KiB'')\<rparr>"

definition host_details :: "web_world \<Rightarrow> dict \<Rightarrow> host_detail list res" where
  "host_details w spec =
     rbind (compile_topology (JObj spec)) (\<lambda>plan.
     rbind (rbind (getitem ''nodes'' spec) json_dicts) (\<lambda>nodes.
     if p_simulator plan = ''gem5'' then
       rbind (resolve_gem5 (ww_root w) spec plan) (\<lambda>machine.
       let custom_kernel = (dict_get ''UBSIM_KERNEL'' [] (ww_env w) \<noteq> []) in
       rbind (kernel_release w custom_kernel) (\<lambda>release.
       rbind (gem5_host_detail machine release custom_kernel) (\<lambda>detail. Inr (map (\<lambda>_. detail) nodes))))
     else
       (let custom_kernel = (dict_get ''UBSIM_QEMU_KERNEL'' [] (ww_env w) \<noteq> []) in
        rbind (kernel_release w custom_kernel) (\<lambda>release. Inr (map (qemu_host_detail release custom_kernel) nodes)))))"

subsection \<open>Jobs\<close>

definition current_job :: "server \<Rightarrow> job option" where
  "current_job sv = map_option (\<lambda>i. sv_jobs sv ! i) (sv_job sv)"

definition job_running :: "server \<Rightarrow> bool" where
  "job_running sv \<longleftrightarrow> (case current_job sv of Some j \<Rightarrow> jb_state j = ''running'' | None \<Rightarrow> False)"

definition failed_details :: "verdict \<Rightarrow> string" where
  "failed_details v = join ''; '' (map pc_detail (filter (\<lambda>c. \<not> pc_ok c) (vd_checks v)))"

definition add_failed :: "bool \<Rightarrow> string \<Rightarrow> string \<Rightarrow> verdict \<Rightarrow> verdict" where
  "add_failed b label detail v = (if b then v\<lparr>vd_checks := vd_checks v @ [pcheck label False detail], vd_ok := False\<rparr> else v)"

definition read_spec :: "web_world \<Rightarrow> server \<Rightarrow> string \<Rightarrow> dict res" where
  "read_spec w sv task_id = rbind (read_task (ww_root w) (sv_store sv) task_id) (as_obj (TypeError ''task is not an object''))"

definition web_preflight :: "web_world \<Rightarrow> server \<Rightarrow> string \<Rightarrow> bool \<Rightarrow> verdict res" where
  "web_preflight w sv task_id is_experiment =
     rbind (read_spec w sv task_id) (\<lambda>spec.
     rbind (if is_experiment then rbind (read_recipe (ww_root w) (sv_store sv) task_id spec) (\<lambda>r. Inr (Some r)) else Inr None) (\<lambda>recipe.
     rbind (web_runtime w ''gem5'') (\<lambda>gem5.
     rbind (web_runtime w ''qemu'') (\<lambda>qemu.
     rbind (preflight (ww_exp w) spec (\<lambda>s. runtime_state.truncate (if s = ''gem5'' then gem5 else qemu)) recipe
       (is_experiment \<and> sv_owners sv \<noteq> {})) (\<lambda>v.
     Inr (add_failed (job_running sv) ''start job'' ''another task is still starting''
       (add_failed (\<not> is_experiment \<and> vd_running v) ''start state'' ''this task is already running'' v)))))))"

definition start_argv :: "web_world \<Rightarrow> string \<Rightarrow> string list" where
  "start_argv w path = [lx_python (xw_launch (ww_exp w)), path_under (ww_root w) ''lab'', ''topology'', ''start'', path]"

text \<open>The part of \<^verbatim>\<open>start_task\<close> under the lock: the guards, the launch of \<^verbatim>\<open>lab topology start\<close>, the new job.\<close>

definition start_guarded :: "web_world \<Rightarrow> string \<Rightarrow> unit res" where
  "start_guarded w task_id =
     rbind (web_runtime w ''gem5'') (\<lambda>gem5.
     rbind (if rt_active gem5 then Inr True else rbind (web_runtime w ''qemu'') (\<lambda>qemu. Inr (rt_active qemu))) (\<lambda>active.
     if active then Inl (ValueError ''a simulation is already running'')
     else rbind (task_path (ww_root w) task_id) (\<lambda>path. ww_spawn w (start_argv w (path_str path)))))"

definition new_job :: "web_world \<Rightarrow> string \<Rightarrow> plan \<Rightarrow> job" where
  "new_job w task_id plan = \<lparr>jb_id = ww_job_id w, jb_task_id = task_id, jb_simulator = p_simulator plan,
     jb_state = ''running'', jb_started_at = ww_now w,
     jb_log_path = path_under (path_under (path_under (ww_root w) ''out'') ''ui-runs'') (task_id @ ''-'' @ ww_stamp w @ ''.log''),
     jb_returncode = None, jb_ended_at = None\<rparr>"

definition start_locked :: "web_world \<Rightarrow> server \<Rightarrow> string \<Rightarrow> plan \<Rightarrow> unit res \<times> server" where
  "start_locked w sv task_id plan =
     (if job_running sv then (Inl (ValueError ''a task is already starting''), sv)
      else case start_guarded w task_id of
        Inl e \<Rightarrow> (Inl e, sv)
      | Inr _ \<Rightarrow> (Inr (), sv\<lparr>sv_jobs := sv_jobs sv @ [new_job w task_id plan], sv_job := Some (length (sv_jobs sv))\<rparr>))"

definition job_status :: "web_world \<Rightarrow> server \<Rightarrow> (job \<times> string) option" where
  "job_status w sv = map_option (\<lambda>j. (j, web_tail w (jb_log_path j) (64 * 1024))) (current_job sv)"

definition start_plan :: "web_world \<Rightarrow> server \<Rightarrow> string \<Rightarrow> plan res" where
  "start_plan w sv task_id =
     rbind (read_spec w sv task_id) (\<lambda>spec.
     rbind (compile_topology (JObj spec)) (\<lambda>plan.
     rbind (web_preflight w sv task_id False) (\<lambda>v.
     if \<not> vd_ok v then Inl (ValueError (failed_details v)) else Inr plan)))"

definition start_task :: "web_world \<Rightarrow> server \<Rightarrow> string \<Rightarrow> (job \<times> string) option res \<times> server" where
  "start_task w sv task_id =
     (case start_plan w sv task_id of
        Inl e \<Rightarrow> (Inl e, sv)
      | Inr plan \<Rightarrow> (case start_locked w sv task_id plan of
            (Inl e, sv') \<Rightarrow> (Inl e, sv')
          | (Inr _, sv') \<Rightarrow> (Inr (job_status w sv'), sv')))"

text \<open>The waiting thread of job object \<open>i\<close>.\<close>

definition job_done :: "web_world \<Rightarrow> nat \<Rightarrow> int \<Rightarrow> server \<Rightarrow> server" where
  "job_done w i code sv = sv\<lparr>sv_jobs := (sv_jobs sv)[i := (sv_jobs sv ! i)\<lparr>jb_state := (if code = 0 then ''finished'' else ''failed''),
     jb_returncode := Some code, jb_ended_at := Some (ww_now w)\<rparr>]\<rparr>"

subsection \<open>Experiments\<close>

definition write_status :: "string \<Rightarrow> dict \<Rightarrow> server \<Rightarrow> server" where
  "write_status run_id status sv = sv\<lparr>sv_runs := dict_set run_id (Some (JObj status)) (sv_runs sv)\<rparr>"

definition run_alive :: "web_world \<Rightarrow> dict \<Rightarrow> bool" where
  "run_alive w status \<longleftrightarrow> dict_get ''state'' JNull status = JStr ''running'' \<and> process_alive w (dict_get ''pid'' JNull status)"

definition check_no_run :: "web_world \<Rightarrow> (string \<times> json option) list \<Rightarrow> unit res" where
  "check_no_run w runs = rfold (\<lambda>(_, file) _. case file of
       None \<Rightarrow> Inr ()
     | Some v \<Rightarrow> rbind (as_obj (AttributeError ''get'') v) (\<lambda>status.
         if run_alive w status then Inl (ValueError ''an experiment is already running'') else Inr ())) runs ()"

definition experiment_detail :: "web_world \<Rightarrow> server \<Rightarrow> string \<Rightarrow> dict res \<times> server" where
  "experiment_detail w sv run_id =
     (case rbind (experiment_dir w run_id) (\<lambda>directory. case map_of (sv_runs sv) run_id of
         None \<Rightarrow> Inl (ValueError ''no such experiment'')
       | Some file \<Rightarrow> rbind (rbind (loads file) (as_obj (AttributeError ''get''))) (\<lambda>status. Inr (directory, status))) of
        Inl e \<Rightarrow> (Inl e, sv)
      | Inr (directory, status) \<Rightarrow>
        (let dead = (dict_get ''state'' JNull status = JStr ''running'' \<and> \<not> process_alive w (dict_get ''pid'' JNull status));
             status' = (if dead then dict_update status [(''state'', JStr ''failed''), (''error'', JStr ''process ended without a final state'')] else status);
             sv' = (if dead then write_status run_id status' sv else sv);
             summary_path = path_under directory ''summary.json'' in
         (rbind (if xw_is_file (ww_exp w) summary_path then rbind (ww_json w summary_path) (jget ''rows'') else Inr (JList [])) (\<lambda>rows.
          Inr (dict_update (dict_update [(''id'', JStr run_id)] status')
            [(''summary'', rows), (''log'', JStr (web_tail w (path_under (output_dir w) (run_id @ ''.log'')) 12000)),
             (''directory'', JStr directory)])), sv')))"

definition starting_status :: "web_world \<Rightarrow> string \<Rightarrow> dict" where
  "starting_status w task_id = [(''state'', JStr ''starting''), (''task_id'', JStr task_id), (''completed'', JInt 0),
     (''started_at'', JFloat (ww_now w))]"

definition experiment_argv :: "web_world \<Rightarrow> string \<Rightarrow> string \<Rightarrow> string list" where
  "experiment_argv w task_id run_id = [lx_python (xw_launch (ww_exp w)), ''-m'', ''ubsim_lab.experiments'', task_id,
     path_under (output_dir w) run_id]"

text \<open>The part of \<^verbatim>\<open>start_experiment\<close> under the lock.  The new identifier is \<^verbatim>\<open>run-\<close> and \<open>ww_run_part\<close>.\<close>

definition experiment_locked :: "web_world \<Rightarrow> server \<Rightarrow> string \<Rightarrow> string res \<times> server" where
  "experiment_locked w sv task_id =
     (let run_id = ''run-'' @ ww_run_part w in
      case rbind (check_no_run w (sv_runs sv)) (\<lambda>_. if has_key run_id (sv_runs sv) then Inl (OSError ''file exists'') else Inr ()) of
        Inl e \<Rightarrow> (Inl e, sv)
      | Inr _ \<Rightarrow> (rbind (ww_spawn w (experiment_argv w task_id run_id)) (\<lambda>_. Inr run_id),
          write_status run_id (starting_status w task_id) sv))"

definition start_experiment :: "web_world \<Rightarrow> server \<Rightarrow> string \<Rightarrow> dict res \<times> server" where
  "start_experiment w sv task_id =
     (case web_preflight w sv task_id True of
        Inl e \<Rightarrow> (Inl e, sv)
      | Inr v \<Rightarrow> if \<not> vd_ok v then (Inl (ValueError (failed_details v)), sv)
          else (case experiment_locked w sv task_id of
              (Inl e, sv') \<Rightarrow> (Inl e, sv')
            | (Inr run_id, sv') \<Rightarrow> experiment_detail w sv' run_id))"

end
