(* ===== verification/Web_Requests.thy ===== *)
theory Web_Requests
  imports Workbench
begin

section \<open>Requests to the workbench\<close>

text \<open>
  Model of \<^verbatim>\<open>WorkbenchHandler\<close> of \<^verbatim>\<open>ubsim_lab/web.py\<close>: the checks of origin and body, the routing of
  \<^verbatim>\<open>do_GET\<close>, \<^verbatim>\<open>do_POST\<close> and \<^verbatim>\<open>do_PUT\<close>, and the terminal socket.  A handler returns its response, or the
  exception it does not catch, and the server it leaves.  Response headers are not modelled.
\<close>

record request =
  rq_path :: string
  rq_query :: "(string \<times> string list) list"
  rq_headers :: sdict
  rq_read :: "int \<Rightarrow> json res"

datatype payload =
    Static string
  | Tasks "task_summary list"
  | Task task_summary
  | Task_Detail task_summary dict plan
  | Recipe_Of "recipe option"
  | Verdict verdict
  | Runtime runtime_info runtime_info "(job \<times> string) option"
  | Runs "dict list"
  | Csv string string
  | Run dict
  | Terminal string bool nat json
  | Checkpoint availability "host_detail list"
  | Spec dict
  | Job "(job \<times> string) option"
  | Stopped int string
  | Error string

type_synonym response = "nat \<times> payload"
type_synonym reply = "response res \<times> server"

fun exc_message :: "py_exc \<Rightarrow> string" where
  "exc_message (TopologyError m) = m"
| "exc_message (JSONDecodeError m) = m"
| "exc_message (ValueError m) = m"
| "exc_message (OSError m) = m"
| "exc_message _ = []"

text \<open>
  \<^verbatim>\<open>except (OSError, ValueError, TopologyError, json.JSONDecodeError, ...)\<close>: status 400.  Other exceptions
  end the connection without a response.
\<close>

definition catching :: "reply \<Rightarrow> reply" where
  "catching r = (case r of
       (Inl e, sv) \<Rightarrow> (if is_OSError e \<or> is_ValueError e then Inr (400, Error (exc_message e)) else Inl e, sv)
     | _ \<Rightarrow> r)"

definition reply_of :: "server \<Rightarrow> response res \<Rightarrow> reply" where
  "reply_of sv r = (r, sv)"

definition origin_ok :: "request \<Rightarrow> bool" where
  "origin_ok rq \<longleftrightarrow> (case map_of (rq_headers rq) ''Origin'' of
       None \<Rightarrow> True | Some origin \<Rightarrow> origin = [] \<or> origin = ''http://'' @ dict_get ''Host'' [] (rq_headers rq))"

definition MAX_BODY :: int where
  "MAX_BODY = 256 * 1024"

definition body_of :: "request \<Rightarrow> dict res" where
  "body_of rq =
     (if hd (split_on CHR '';'' (dict_get ''Content-Type'' [] (rq_headers rq))) \<noteq> ''application/json''
      then Inl (ValueError ''application/json is required'')
      else rbind (case parse_int (dict_get ''Content-Length'' ''0'' (rq_headers rq)) of
          None \<Rightarrow> Inl (ValueError ''invalid request length'') | Some n \<Rightarrow> Inr n) (\<lambda>n.
        if \<not> (0 < n \<and> n \<le> MAX_BODY) then Inl (ValueError ''request too large or empty'')
        else rbind (rq_read rq n) (as_obj (ValueError ''request must be a JSON object''))))"

definition slashes :: "string \<Rightarrow> nat" where
  "slashes path = length (filter (\<lambda>c. c = CHR ''/'') path)"

definition segment3 :: "string \<Rightarrow> string" where
  "segment3 path = split_on CHR ''/'' path ! 3"

definition last_segment :: "string \<Rightarrow> string" where
  "last_segment path = last (split_on CHR ''/'' path)"

definition query_value :: "request \<Rightarrow> string \<Rightarrow> string \<Rightarrow> string" where
  "query_value rq k v = hd (dict_get k [v] (rq_query rq))"

subsection \<open>GET\<close>

definition get_static :: "web_world \<Rightarrow> string \<Rightarrow> response res" where
  "get_static w path = rbind (ww_bytes w (path_under (path_under (ww_root w) ''ubsim_lab/web_static'')
     (if path = ''/'' then ''index.html'' else drop 1 path))) (\<lambda>content. Inr (200, Static content))"

definition get_recipe :: "web_world \<Rightarrow> server \<Rightarrow> string \<Rightarrow> response res" where
  "get_recipe w sv task_id = rbind (read_spec w sv task_id) (\<lambda>spec.
     rbind (rbind (getitem ''nodes'' spec) jlen) (\<lambda>n.
     if n \<noteq> 2 then Inr (200, Recipe_Of None)
     else rbind (read_recipe (ww_root w) (sv_store sv) task_id spec) (\<lambda>r. Inr (200, Recipe_Of (Some r)))))"

definition get_task :: "web_world \<Rightarrow> server \<Rightarrow> string \<Rightarrow> response res" where
  "get_task w sv task_id = rbind (read_spec w sv task_id) (\<lambda>spec.
     rbind (summary (ww_root w) (sv_store sv) task_id) (\<lambda>s.
     rbind (compile_topology (JObj spec)) (\<lambda>plan. Inr (200, Task_Detail s spec plan))))"

definition get_runtime :: "web_world \<Rightarrow> server \<Rightarrow> response res" where
  "get_runtime w sv = rbind (web_runtime w ''gem5'') (\<lambda>gem5. rbind (web_runtime w ''qemu'') (\<lambda>qemu.
     Inr (200, Runtime gem5 qemu (job_status w sv))))"

definition run_entry :: "string \<Rightarrow> string \<times> json option \<Rightarrow> dict list \<Rightarrow> dict list res" where
  "run_entry task_id entry runs = (case snd entry of
       None \<Rightarrow> Inr runs
     | Some v \<Rightarrow> rbind (as_obj (AttributeError ''get'') v) (\<lambda>status.
         Inr (if dict_get ''task_id'' JNull status = JStr task_id then runs @ [dict_update [(''id'', JStr (fst entry))] status] else runs)))"

definition get_experiments :: "web_world \<Rightarrow> server \<Rightarrow> string \<Rightarrow> response res" where
  "get_experiments w sv task_id = rbind (read_task (ww_root w) (sv_store sv) task_id) (\<lambda>_.
     rbind (rfold (run_entry task_id) (rev (sort_key fst (filter (\<lambda>e. startswith (fst e) ''run-'') (sv_runs sv)))) []) (\<lambda>runs.
     Inr (200, Runs (take 50 runs))))"

definition get_results :: "web_world \<Rightarrow> string \<Rightarrow> response res" where
  "get_results w run_id = rbind (experiment_dir w run_id) (\<lambda>directory.
     rbind (ww_bytes w (path_under directory ''results.csv'')) (\<lambda>data. Inr (200, Csv (run_id @ ''.csv'') data)))"

fun node_index :: "nat \<Rightarrow> string \<Rightarrow> dict list \<Rightarrow> nat res" where
  "node_index i node_id [] = Inl (ValueError ''no such host'')"
| "node_index i node_id (node # nodes) = rbind (getitem ''id'' node) (\<lambda>v.
     if v = JStr node_id then Inr i else node_index (Suc i) node_id nodes)"

definition terminal_host :: "web_world \<Rightarrow> server \<Rightarrow> request \<Rightarrow> (nat \<times> json \<times> string \<times> runtime_info \<times> json) res" where
  "terminal_host w sv rq =
     rbind (read_spec w sv (query_value rq ''task'' [])) (\<lambda>spec.
     rbind (rbind (getitem ''nodes'' spec) json_dicts) (\<lambda>nodes.
     rbind (node_index 0 (query_value rq ''node'' []) nodes) (\<lambda>index.
     rbind (getitem ''simulator'' (hd nodes)) (\<lambda>simulator.
     let name = py_str simulator in
     rbind (web_runtime w name) (\<lambda>runtime.
     rbind (getitem ''name'' spec) (\<lambda>topology. Inr (index, simulator, name, runtime, topology)))))))"

definition get_terminal :: "web_world \<Rightarrow> server \<Rightarrow> request \<Rightarrow> response res" where
  "get_terminal w sv rq = rbind (terminal_host w sv rq) (\<lambda>(index, simulator, name, runtime, topology).
     let current = (rt_topology_name runtime = topology) in
     Inr (200, Terminal (if current then web_tail w (path_under (path_under (web_run_dir w name) (''node'' @ show_nat index)) ''system.terminal'') (24 * 1024) else [])
       (current \<and> web_pid_alive w (node_pidfile w name index)) index simulator))"

text \<open>\<^verbatim>\<open>do_GET\<close> without the terminal socket, which is below.\<close>

definition do_GET :: "web_world \<Rightarrow> request \<Rightarrow> server \<Rightarrow> reply" where
  "do_GET w rq sv = (let path = rq_path rq; tasks = startswith path ''/api/tasks/''; experiments = startswith path ''/api/experiments/'' in
     catching
      (if path \<in> set [''/'', ''/index.html'', ''/app.css'', ''/app.js''] then reply_of sv (get_static w path)
       else if path = ''/api/tasks'' then reply_of sv (rbind (list_tasks (ww_root w) (sv_store sv) (ww_names w)) (\<lambda>ts. Inr (200, Tasks ts)))
       else if tasks \<and> endswith path ''/recipe'' then reply_of sv (get_recipe w sv (segment3 path))
       else if tasks \<and> endswith path ''/preflight'' then
         reply_of sv (rbind (web_preflight w sv (segment3 path) (query_value rq ''experiment'' ''0'' = ''1'')) (\<lambda>v. Inr (200, Verdict v)))
       else if tasks \<and> slashes path = 3 then reply_of sv (get_task w sv (last_segment path))
       else if path = ''/api/runtime'' then reply_of sv (get_runtime w sv)
       else if path = ''/api/experiments'' then reply_of sv (get_experiments w sv (query_value rq ''task'' []))
       else if experiments \<and> endswith path ''/results.csv'' then reply_of sv (get_results w (segment3 path))
       else if experiments \<and> slashes path = 3 then
         (case experiment_detail w sv (last_segment path) of (r, sv') \<Rightarrow> (rbind r (\<lambda>d. Inr (200, Run d)), sv'))
       else if path = ''/api/terminal'' then reply_of sv (get_terminal w sv rq)
       else reply_of sv (Inr (404, Error ''no such page''))))"

subsection \<open>POST and PUT\<close>

definition on_store :: "nat \<Rightarrow> ('a \<Rightarrow> payload) \<Rightarrow> 'a res \<times> store \<Rightarrow> server \<Rightarrow> reply" where
  "on_store code f r sv = (rbind (fst r) (\<lambda>x. Inr (code, f x)), sv\<lparr>sv_store := snd r\<rparr>)"

definition with_body :: "request \<Rightarrow> server \<Rightarrow> (dict \<Rightarrow> reply) \<Rightarrow> reply" where
  "with_body rq sv f = (case body_of rq of Inl e \<Rightarrow> (Inl e, sv) | Inr body \<Rightarrow> f body)"

definition post_checkpoint :: "web_world \<Rightarrow> server \<Rightarrow> dict \<Rightarrow> response res" where
  "post_checkpoint w sv body =
     (let field = (\<lambda>k. dict_get k JNull body) in
      rbind (if field ''spec'' = JNull
             then template_spec (ww_root w) (sv_store sv) (field ''simulator'') (field ''host_count'')
             else rbind (compile_topology (field ''spec'')) (\<lambda>_. as_obj (TypeError ''topology is not an object'') (field ''spec''))) (\<lambda>spec.
      rbind (compile_topology (JObj spec)) (\<lambda>plan.
      rbind (checkpoint_availability (ww_exp w) spec plan) (\<lambda>av.
      rbind (host_details w spec) (\<lambda>hosts. Inr (200, Checkpoint av hosts))))))"

definition post_stop :: "web_world \<Rightarrow> server \<Rightarrow> dict \<Rightarrow> response res" where
  "post_stop w sv body =
     rbind (case dict_get ''task_id'' (JStr []) body of JStr s \<Rightarrow> Inr s | _ \<Rightarrow> Inl (TypeError ''expected string'')) (\<lambda>task_id.
     rbind (read_spec w sv task_id) (\<lambda>spec.
     rbind (first_simulator (JObj spec)) (\<lambda>simulator.
     rbind (web_runtime w (py_str simulator)) (\<lambda>current.
     rbind (getitem ''name'' spec) (\<lambda>name.
     if \<not> rt_active current \<or> rt_topology_name current \<noteq> name then Inl (ValueError ''this task has no running simulation'')
     else case ww_stop w [lx_python (xw_launch (ww_exp w)), path_under (ww_root w) ''lab'',
         if simulator = JStr ''gem5'' then ''stop'' else ''stop-qemu''] of
         None \<Rightarrow> Inr (400, Error ''timed out'')
       | Some p \<Rightarrow> (let output = pr_out p @ pr_err p in
           Inr (if pr_code p = 0 then 200 else 409, Stopped (pr_code p) (drop (length output - 16000) output))))))))"

definition do_POST :: "web_world \<Rightarrow> request \<Rightarrow> server \<Rightarrow> reply" where
  "do_POST w rq sv =
     (if \<not> origin_ok rq then (Inr (403, Error ''origin does not match''), sv)
      else let path = rq_path rq; tasks = startswith path ''/api/tasks/'' in catching
       (if path = ''/api/tasks'' then
          with_body rq sv (\<lambda>body. on_store 201 Task (create_task (ww_root w) (ww_fresh w) body (sv_store sv)) sv)
        else if path = ''/api/topology/checkpoint'' then with_body rq sv (\<lambda>body. reply_of sv (post_checkpoint w sv body))
        else if path = ''/api/topology/resize'' then with_body rq sv (\<lambda>body. reply_of sv
          (rbind (resize_single_leaf (dict_get ''spec'' JNull body) (dict_get ''host_count'' JNull body)) (\<lambda>spec. Inr (200, Spec spec))))
        else if tasks \<and> endswith path ''/copy'' then
          with_body rq sv (\<lambda>_. on_store 201 Task (copy_task (ww_root w) (ww_fresh w) (segment3 path) (sv_store sv)) sv)
        else if tasks \<and> endswith path ''/start'' then
          with_body rq sv (\<lambda>_. case start_task w sv (segment3 path) of (r, sv') \<Rightarrow> (rbind r (\<lambda>j. Inr (202, Job j)), sv'))
        else if tasks \<and> endswith path ''/experiment'' then
          with_body rq sv (\<lambda>_. case start_experiment w sv (segment3 path) of (r, sv') \<Rightarrow> (rbind r (\<lambda>d. Inr (202, Run d)), sv'))
        else if path = ''/api/stop'' then with_body rq sv (\<lambda>body. reply_of sv (post_stop w sv body))
        else reply_of sv (Inr (404, Error ''no such interface''))))"

definition do_PUT :: "web_world \<Rightarrow> request \<Rightarrow> server \<Rightarrow> reply" where
  "do_PUT w rq sv =
     (if \<not> origin_ok rq then (Inr (403, Error ''origin does not match''), sv)
      else let path = rq_path rq; tasks = startswith path ''/api/tasks/'' in catching
       (if tasks \<and> slashes path = 3 then
          with_body rq sv (\<lambda>body. on_store 200 Task (save_task (ww_root w) (last_segment path) body (sv_store sv)) sv)
        else if tasks \<and> endswith path ''/recipe'' then
          (case read_task (ww_root w) (sv_store sv) (segment3 path) of
             Inl e \<Rightarrow> (Inl e, sv)
           | Inr _ \<Rightarrow> with_body rq sv (\<lambda>body. on_store 200 (\<lambda>r. Recipe_Of (Some r))
               (save_recipe (ww_root w) (segment3 path) (JObj body) (sv_store sv)) sv))
        else reply_of sv (Inr (404, Error ''no such interface''))))"

subsection \<open>The terminal socket\<close>

text \<open>Claiming a terminal: everything up to and including the first critical section.\<close>

definition terminal_claim :: "web_world \<Rightarrow> request \<Rightarrow> server \<Rightarrow> terminal_key res \<times> server" where
  "terminal_claim w rq sv =
     (case rbind (terminal_host w sv rq) (\<lambda>(index, simulator, name, runtime, topology).
         if \<not> rt_active runtime \<or> rt_topology_name runtime \<noteq> topology then Inl (ValueError ''this task has no running terminal'')
         else Inr (simulator, index)) of
        Inl e \<Rightarrow> (Inl e, sv)
      | Inr key \<Rightarrow> if key \<in> sv_owners sv then (Inl (ValueError ''this terminal is open in another window''), sv)
          else (Inr key, sv\<lparr>sv_owners := insert key (sv_owners sv)\<rparr>))"

definition terminal_release :: "terminal_key \<Rightarrow> server \<Rightarrow> server" where
  "terminal_release key sv = sv\<lparr>sv_owners := sv_owners sv - {key}\<rparr>"

definition terminal_port :: "web_world \<Rightarrow> terminal_key \<Rightarrow> int res" where
  "terminal_port w key = rbind (exp_ports (ww_env w) (py_str (fst key))) (\<lambda>(base, second).
     Inr (base + (second - base) * int (snd key)))"

definition lower :: "string \<Rightarrow> string" where
  "lower s = map (\<lambda>c. if CHR ''A'' \<le> c \<and> c \<le> CHR ''Z'' then char_of (of_char c + 32 :: nat) else c) s"

definition handshake :: "request \<Rightarrow> unit res" where
  "handshake rq = (let ws_key = dict_get ''Sec-WebSocket-Key'' [] (rq_headers rq) in
     if lower (dict_get ''Upgrade'' [] (rq_headers rq)) \<noteq> ''websocket'' \<or> ws_key = []
     then Inl (ValueError ''a WebSocket connection is required'')
     else if list_ex (\<lambda>c. 128 \<le> (of_char c :: nat)) ws_key then Inl (ValueError ''ordinal not in range(128)'')
     else Inr ())"

datatype ws_action = To_Client "byte list" | To_Guest "byte list"

fun forward_frames :: "(byte \<times> byte list) list \<Rightarrow> ws_action list \<times> bool" where
  "forward_frames [] = ([], False)"
| "forward_frames ((opcode, payload) # frames) =
     (if opcode = 8 then ([], True)
      else let (actions, closed) = forward_frames frames in
        (if opcode = 1 \<or> opcode = 2 then To_Guest payload # actions else actions, closed))"

text \<open>
  The loop: each round is what \<^verbatim>\<open>select\<close> and \<^verbatim>\<open>recv\<close> deliver from the guest and from the browser; no data
  from a readable socket is its end.  Socket errors during the session are not modelled.
\<close>

fun terminal_loop :: "(byte list option \<times> byte list option) list \<Rightarrow> byte list \<Rightarrow> unit res \<times> ws_action list" where
  "terminal_loop [] pending = (Inr (), [])"
| "terminal_loop ((guest, client) # rounds) pending =
     (case (case guest of None \<Rightarrow> Inr (Some []) | Some data \<Rightarrow> if data = [] then Inr None
           else rbind (ws_frame data) (\<lambda>f. Inr (Some [To_Client f]))) of
        Inl e \<Rightarrow> (Inl e, [])
      | Inr None \<Rightarrow> (Inr (), [])
      | Inr (Some sent) \<Rightarrow> (case client of
            None \<Rightarrow> (let (r, actions) = terminal_loop rounds pending in (r, sent @ actions))
          | Some data \<Rightarrow>
              if data = [] \<or> length (pending @ data) > 16384 then (Inr (), sent)
              else (case ws_parse (pending @ data) of
                  Inl e \<Rightarrow> (Inl e, sent)
                | Inr (frames, rest) \<Rightarrow> (let (forwarded, closed) = forward_frames frames in
                    if closed then (Inr (), sent @ forwarded)
                    else let (r, actions) = terminal_loop rounds rest in (r, sent @ forwarded @ actions)))))"

text \<open>A whole session; \<open>connected\<close> is whether the guest's port accepts the connection.\<close>

definition terminal_socket :: "web_world \<Rightarrow> request \<Rightarrow> bool \<Rightarrow> (byte list option \<times> byte list option) list \<Rightarrow> server \<Rightarrow>
    (response option \<times> ws_action list) res \<times> server" where
  "terminal_socket w rq connected rounds sv =
     (if \<not> origin_ok rq then (Inr (Some (403, Error ''origin does not match''), []), sv)
      else case terminal_claim w rq sv of
        (Inl e, sv1) \<Rightarrow> (if is_OSError e \<or> is_ValueError e then Inr (Some (400, Error (exc_message e)), []) else Inl e, sv1)
      | (Inr key, sv1) \<Rightarrow>
          (case rbind (terminal_port w key) (\<lambda>_. if \<not> connected then Inl (OSError ''connection refused'') else handshake rq) of
             Inl e \<Rightarrow> (if is_OSError e \<or> is_ValueError e then Inr (Some (400, Error (exc_message e)), []) else Inl e, terminal_release key sv1)
           | Inr _ \<Rightarrow> (case terminal_loop rounds [] of
               (Inl e, actions) \<Rightarrow> (if is_OSError e \<or> is_ValueError e then Inr (None, actions) else Inl e, terminal_release key sv1)
             | (Inr _, actions) \<Rightarrow> (Inr (None, actions), terminal_release key sv1))))"

end
