(* ===== verification/Web_Facts.thy ===== *)
theory Web_Facts
  imports Web_Requests
begin

section \<open>The workbench under concurrent requests\<close>

text \<open>
  The server is multi-threaded: requests, the threads that wait for launches, the experiment workers
  and the terminal sessions interleave.  A state is the server together with the open terminal
  sessions.  A request is one step; the starts of a task and of an experiment also occur with their
  checks made at an earlier moment, since those are outside the lock.
\<close>

subsection \<open>Steps\<close>

inductive wb_step :: "string \<Rightarrow> server \<times> terminal_key list \<Rightarrow> server \<times> terminal_key list \<Rightarrow> bool" for root where
  get: "ww_root w = root \<Longrightarrow> wb_step root (sv, ts) (snd (do_GET w rq sv), ts)"
| post: "ww_root w = root \<Longrightarrow> wb_step root (sv, ts) (snd (do_POST w rq sv), ts)"
| put: "ww_root w = root \<Longrightarrow> wb_step root (sv, ts) (snd (do_PUT w rq sv), ts)"
| start_later: "wb_step root (sv, ts) (snd (start_locked w sv task_id plan), ts)"
| experiment_later: "wb_step root (sv, ts) (snd (experiment_locked w sv task_id), ts)"
| launch_ends: "i < length (sv_jobs sv) \<Longrightarrow> jb_state (sv_jobs sv ! i) = ''running'' \<Longrightarrow> wb_step root (sv, ts) (job_done w i code sv, ts)"
| worker_writes: "wb_step root (sv, ts) (write_status run_id status sv, ts)"
| terminal_opens: "terminal_claim w rq sv = (Inr key, sv') \<Longrightarrow> wb_step root (sv, ts) (sv', key # ts)"
| terminal_closes: "key \<in> set ts \<Longrightarrow> wb_step root (sv, ts) (terminal_release key sv, remove1 key ts)"

definition running_jobs :: "server \<Rightarrow> nat set" where
  "running_jobs sv = {i. i < length (sv_jobs sv) \<and> jb_state (sv_jobs sv ! i) = ''running''}"

definition jobs_inv :: "server \<Rightarrow> bool" where
  "jobs_inv sv \<longleftrightarrow> running_jobs sv \<subseteq> set_option (sv_job sv) \<and> set_option (sv_job sv) \<subseteq> {..<length (sv_jobs sv)}"

lemma jobs_inv_cong: "sv_jobs sv' = sv_jobs sv \<Longrightarrow> sv_job sv' = sv_job sv \<Longrightarrow> jobs_inv sv' \<longleftrightarrow> jobs_inv sv"
  by (simp add: jobs_inv_def running_jobs_def)

definition wb_inv :: "string \<Rightarrow> server \<times> terminal_key list \<Rightarrow> bool" where
  "wb_inv root st \<longleftrightarrow> (case st of (sv, ts) \<Rightarrow>
     store_inv root (sv_store sv) \<and> jobs_inv sv \<and> distinct ts \<and> set ts = sv_owners sv)"

text \<open>Frames: which parts of the server an operation leaves alone.\<close>

definition same_core :: "server \<Rightarrow> server \<Rightarrow> bool" where
  "same_core sv sv' \<longleftrightarrow> sv_store sv' = sv_store sv \<and> sv_jobs sv' = sv_jobs sv \<and> sv_job sv' = sv_job sv \<and> sv_owners sv' = sv_owners sv"

lemma same_core_refl [simp]: "same_core sv sv"
  by (simp add: same_core_def)

lemma same_core_inv: "same_core sv sv' \<Longrightarrow> wb_inv root (sv, ts) \<Longrightarrow> wb_inv root (sv', ts)"
  by (simp add: same_core_def wb_inv_def jobs_inv_cong [of sv' sv])

lemma snd_catching [simp]: "snd (catching r) = snd r"
proof (cases r)
  case (Pair a sv)
  then show ?thesis by (cases a) (simp_all add: catching_def)
qed

lemma snd_reply_of [simp]: "snd (reply_of sv r) = sv"
  by (simp add: reply_of_def)

lemma experiment_detail_frame: "same_core sv (snd (experiment_detail w sv run_id))"
  by (auto simp: experiment_detail_def same_core_def write_status_def Let_def split: sum.splits)

lemma do_GET_frame: "same_core sv (snd (do_GET w rq sv))"
  unfolding do_GET_def Let_def snd_catching by (simp add: case_prod_beta experiment_detail_frame)

lemma experiment_locked_frame: "same_core sv (snd (experiment_locked w sv task_id))"
  by (auto simp: experiment_locked_def same_core_def write_status_def Let_def split: sum.splits)

lemma start_experiment_frame: "same_core sv (snd (start_experiment w sv task_id))"
proof -
  obtain r sv' where l: "experiment_locked w sv task_id = (r, sv')" by (metis surj_pair)
  with experiment_locked_frame [of sv w task_id] have "same_core sv sv'" by simp
  moreover have "same_core sv' (snd (experiment_detail w sv' run_id))" for run_id by (rule experiment_detail_frame)
  ultimately show ?thesis
    by (auto simp: start_experiment_def l same_core_def split: sum.splits)
qed

lemma start_locked_inv:
  assumes "wb_inv root (sv, ts)"
  shows "wb_inv root (snd (start_locked w sv task_id plan), ts)"
proof (cases "job_running sv \<or> isl (start_guarded w task_id)")
  case True
  with assms show ?thesis by (cases "start_guarded w task_id") (auto simp: start_locked_def)
next
  case False
  let ?sv = "sv\<lparr>sv_jobs := sv_jobs sv @ [new_job w task_id plan], sv_job := Some (length (sv_jobs sv))\<rparr>"
  from False have eq: "snd (start_locked w sv task_id plan) = ?sv"
    by (cases "start_guarded w task_id") (simp_all add: start_locked_def)
  from assms False have "running_jobs sv = {}"
    by (cases "sv_job sv") (auto simp: wb_inv_def jobs_inv_def job_running_def current_job_def running_jobs_def)
  then have "running_jobs ?sv \<subseteq> {length (sv_jobs sv)}"
    by (auto simp: running_jobs_def nth_append less_Suc_eq split: if_splits)
  then have "jobs_inv ?sv" by (simp add: jobs_inv_def)
  with assms show ?thesis unfolding eq wb_inv_def by simp
qed

lemma start_task_inv:
  assumes "wb_inv root (sv, ts)"
  shows "wb_inv root (snd (start_task w sv task_id), ts)"
proof (cases "start_plan w sv task_id")
  case (Inr plan)
  obtain r sv' where l: "start_locked w sv task_id plan = (r, sv')" by (metis surj_pair)
  then have "snd (start_task w sv task_id) = sv'" by (cases r) (simp_all add: start_task_def Inr)
  with start_locked_inv [OF assms, of w task_id plan] l show ?thesis by simp
qed (use assms in \<open>simp add: start_task_def\<close>)

context store_operation
begin

lemma on_store_inv:
  assumes "wb_inv root (sv, ts)"
  shows "wb_inv root (snd (on_store code f (run (sv_store sv)) sv), ts)"
  using assms keeps [of "sv_store sv"] jobs_inv_cong [of "sv\<lparr>sv_store := snd (run (sv_store sv))\<rparr>" sv]
  by (simp add: on_store_def wb_inv_def)

end

lemmas store_requests_inv = creating.on_store_inv copying.on_store_inv saving.on_store_inv saving_recipe.on_store_inv

lemma with_body_inv:
  "wb_inv root (sv, ts) \<Longrightarrow> (\<And>body. wb_inv root (snd (f body), ts)) \<Longrightarrow> wb_inv root (snd (with_body rq sv f), ts)"
  by (simp add: with_body_def split: sum.splits)

lemma do_POST_inv:
  assumes inv: "wb_inv root (sv, ts)" and root: "ww_root w = root"
  shows "wb_inv root (snd (do_POST w rq sv), ts)"
proof -
  have start: "wb_inv root (snd (case start_task w sv t of (r, sv') \<Rightarrow> (rbind r (\<lambda>j. Inr (202, Job j)), sv')), ts)" for t
    using start_task_inv [OF inv, of w t] by (simp add: case_prod_beta)
  have expt: "wb_inv root (snd (case start_experiment w sv t of (r, sv') \<Rightarrow> (rbind r (\<lambda>d. Inr (202, Run d)), sv')), ts)" for t
    using same_core_inv [OF start_experiment_frame inv, of w t] by (simp add: case_prod_beta)
  show ?thesis
    unfolding do_POST_def Let_def root
    by (simp add: inv with_body_inv [OF inv] store_requests_inv [OF inv] start expt)
qed

lemma do_PUT_inv:
  assumes inv: "wb_inv root (sv, ts)" and root: "ww_root w = root"
  shows "wb_inv root (snd (do_PUT w rq sv), ts)"
  unfolding do_PUT_def Let_def root
  by (simp add: inv with_body_inv [OF inv] store_requests_inv [OF inv] split: sum.splits)

lemma wb_step_inv:
  assumes "wb_step root st st'" and "wb_inv root st"
  shows "wb_inv root st'"
  using assms
proof cases
  case (get w sv ts rq)
  with assms(2) show ?thesis using same_core_inv [OF do_GET_frame] by blast
next
  case (experiment_later sv ts w task_id)
  with assms(2) show ?thesis using same_core_inv [OF experiment_locked_frame] by blast
next
  case (launch_ends i sv ts w code)
  moreover have "running_jobs (job_done w i code sv) \<subseteq> running_jobs sv"
    using launch_ends(3) by (auto simp: running_jobs_def job_done_def nth_list_update split: if_splits)
  ultimately show ?thesis using assms(2) by (auto simp: wb_inv_def jobs_inv_def job_done_def)
next
  case (worker_writes sv ts run_id status)
  then have "same_core sv (write_status run_id status sv)" by (simp add: write_status_def same_core_def)
  with worker_writes assms(2) show ?thesis using same_core_inv by blast
next
  case (terminal_opens w rq sv key sv' ts)
  then have new: "key \<notin> sv_owners sv" and sv': "sv' = sv\<lparr>sv_owners := insert key (sv_owners sv)\<rparr>"
    by (auto simp: terminal_claim_def split: sum.splits if_splits)
  then show ?thesis using terminal_opens assms(2) jobs_inv_cong [of sv' sv] by (simp add: wb_inv_def)
next
  case (terminal_closes key ts sv)
  with assms(2) show ?thesis using jobs_inv_cong [of "terminal_release key sv" sv] by (simp add: terminal_release_def wb_inv_def)
qed (use assms(2) start_locked_inv do_POST_inv do_PUT_inv in blast)+

interpretation wb: transition_invariant "wb_step root" "wb_inv root" for root
  by unfold_locales (rule wb_step_inv)

definition wb_reachable :: "string \<Rightarrow> store \<Rightarrow> server \<times> terminal_key list \<Rightarrow> bool" where
  "wb_reachable root fs st \<longleftrightarrow> (\<exists>runs. (wb_step root)\<^sup>*\<^sup>*
     (\<lparr>sv_store = fs, sv_jobs = [], sv_job = None, sv_owners = {}, sv_runs = runs\<rparr>, []) st)"

text \<open>
  C1. Whatever requests arrive and however they interleave with launches, workers and terminals, the
  workbench keeps its promises: every stored task compiles under its own name, at most one launch is
  in progress and it is the current job, and no host terminal is open in two sessions while exactly
  the hosts with an open session are marked as owned.
\<close>

theorem workbench_invariant:
  assumes "store_inv root fs" and "wb_reachable root fs (sv, ts)"
  shows "store_inv root (sv_store sv) \<and> jobs_inv sv \<and>
    length (filter (\<lambda>j. jb_state j = ''running'') (sv_jobs sv)) \<le> 1 \<and> distinct ts \<and> set ts = sv_owners sv"
proof -
  from assms(2) obtain runs where run:
    "(wb_step root)\<^sup>*\<^sup>* (\<lparr>sv_store = fs, sv_jobs = [], sv_job = None, sv_owners = {}, sv_runs = runs\<rparr>, []) (sv, ts)"
    by (auto simp: wb_reachable_def)
  have "wb_inv root (sv, ts)"
    using run by (rule wb.reachable_inv) (simp add: wb_inv_def jobs_inv_def running_jobs_def assms(1))
  then have inv: "store_inv root (sv_store sv)" "jobs_inv sv" "distinct ts" "set ts = sv_owners sv"
    by (auto simp: wb_inv_def)
  have "card (running_jobs sv) \<le> card (set_option (sv_job sv))"
    using inv(2) by (intro card_mono) (auto simp: jobs_inv_def)
  also have "\<dots> \<le> 1" by (cases "sv_job sv") auto
  finally have "length (filter (\<lambda>j. jb_state j = ''running'') (sv_jobs sv)) \<le> 1"
    by (simp add: length_filter_conv_card running_jobs_def)
  with inv show ?thesis by blast
qed

text \<open>A host on which nothing runs and every program starts.\<close>

definition quiet_world :: web_world where
  "quiet_world = \<lparr>ww_exp = idle_host, ww_text = (\<lambda>_. Inr []), ww_json = (\<lambda>_. Inl (OSError [])), ww_bytes = (\<lambda>_. Inl (OSError [])),
     ww_decode = id, ww_kill = (\<lambda>_. False), ww_trunc = (\<lambda>_. 0), ww_names = [], ww_fresh = ''1'', ww_stamp = ''20260101-000000'',
     ww_run_part = ''20260101-000000-0a0b0c'', ww_job_id = ''j'', ww_now = ''1.0'', ww_spawn = (\<lambda>_. Inr ()), ww_stop = (\<lambda>_. None)\<rparr>"

definition new_server :: "store \<Rightarrow> server" where
  "new_server fs = \<lparr>sv_store = fs, sv_jobs = [], sv_job = None, sv_owners = {}, sv_runs = []\<rparr>"

lemma quiet_start: "start_locked quiet_world (new_server fs) ''task-demo'' qemu_two_heads_plan =
    (Inr (), (new_server fs)\<lparr>sv_jobs := [new_job quiet_world ''task-demo'' qemu_two_heads_plan], sv_job := Some 0\<rparr>)"
proof -
  have files: "xw_is_file (ww_exp quiet_world) p" for p by (simp add: quiet_world_def idle_host_def idle_lab_def)
  have "\<exists>r. web_runtime quiet_world s = Inr r \<and> \<not> rt_active r" for s
    by (simp add: web_runtime_def topology_name_def Let_def files)
      (simp add: quiet_world_def web_pid_alive_def splitlines_def)
  then obtain r1 r2 where "web_runtime quiet_world ''gem5'' = Inr r1" "web_runtime quiet_world ''qemu'' = Inr r2"
    "\<not> rt_active r1" "\<not> rt_active r2" by blast
  moreover have "TASK_ID ''task-demo''" by code_simp
  ultimately have "start_guarded quiet_world ''task-demo'' = Inr ()"
    by (simp add: start_guarded_def task_path_task startswith_def) (simp add: quiet_world_def)
  then show ?thesis by (simp add: start_locked_def job_running_def current_job_def new_server_def)
qed

theorem workbench_invariant_witness:
  "let sv = (new_server Map.empty)\<lparr>sv_jobs := [new_job quiet_world ''task-demo'' qemu_two_heads_plan], sv_job := Some 0\<rparr> in
    store_inv ''/lab'' (sv_store sv) \<and> jobs_inv sv \<and>
    length (filter (\<lambda>j. jb_state j = ''running'') (sv_jobs sv)) \<le> 1 \<and> distinct ([] :: terminal_key list) \<and> set [] = sv_owners sv"
proof -
  let ?sv = "(new_server Map.empty)\<lparr>sv_jobs := [new_job quiet_world ''task-demo'' qemu_two_heads_plan], sv_job := Some 0\<rparr>"
  have inv: "store_inv ''/lab'' Map.empty" by (simp add: store_inv_def)
  have "wb_step ''/lab'' (new_server Map.empty, []) (?sv, [])"
    using wb_step.start_later [of "''/lab''" "new_server Map.empty" "[]" quiet_world "''task-demo''" qemu_two_heads_plan]
    by (simp only: quiet_start snd_conv)
  then have "wb_reachable ''/lab'' Map.empty (?sv, [])"
    unfolding wb_reachable_def new_server_def by blast
  from workbench_invariant [OF inv this] show ?thesis unfolding Let_def .
qed

subsection \<open>What a request may change\<close>

lemma experiment_detail_runs:
  assumes "map_of (sv_runs (snd (experiment_detail w sv run_id))) r \<noteq> map_of (sv_runs sv) r"
  shows "\<exists>status. map_of (sv_runs sv) r = Some (Some (JObj status)) \<and> dict_get ''state'' JNull status = JStr ''running'' \<and>
    \<not> process_alive w (dict_get ''pid'' JNull status)"
  using assms
  by (auto simp: experiment_detail_def write_status_def loads_def Let_def update_conv fun_upd_def split: sum.splits option.splits if_splits)

lemma terminal_socket_frame: "snd (terminal_socket w rq connected rounds sv) = sv"
proof -
  have release: "terminal_release key sv1 = sv" if "terminal_claim w rq sv = (Inr key, sv1)" for key sv1
    using that by (auto simp: terminal_claim_def terminal_release_def split: sum.splits if_splits)
  have failed: "sv1 = sv" if "terminal_claim w rq sv = (Inl e, sv1)" for e sv1
    using that by (auto simp: terminal_claim_def split: sum.splits if_splits)
  show ?thesis
    by (auto simp: terminal_socket_def release failed split: prod.splits sum.splits)
qed

text \<open>
  Reading requests do not write: a GET leaves tasks, jobs and terminals alone and changes the
  recorded state of an experiment only from running to failed, when its process is gone.  A terminal
  session gives its terminal back however it ends, and a request from another origin changes nothing.
\<close>

theorem request_effects:
  "same_core sv (snd (do_GET w rq sv)) \<and>
   (map_of (sv_runs (snd (do_GET w rq sv))) r \<noteq> map_of (sv_runs sv) r \<longrightarrow>
     (\<exists>status. map_of (sv_runs sv) r = Some (Some (JObj status)) \<and> dict_get ''state'' JNull status = JStr ''running'' \<and>
       \<not> process_alive w (dict_get ''pid'' JNull status))) \<and>
   snd (terminal_socket w rq connected rounds sv) = sv \<and>
   (\<not> origin_ok rq \<longrightarrow> snd (do_POST w rq sv) = sv \<and> snd (do_PUT w rq sv) = sv)"
proof (intro conjI impI)
  assume "map_of (sv_runs (snd (do_GET w rq sv))) r \<noteq> map_of (sv_runs sv) r"
  moreover have "snd (do_GET w rq sv) = sv \<or> snd (do_GET w rq sv) = snd (experiment_detail w sv (last_segment (rq_path rq)))"
    unfolding do_GET_def Let_def snd_catching by (simp add: case_prod_beta)
  ultimately show "\<exists>status. map_of (sv_runs sv) r = Some (Some (JObj status)) \<and> dict_get ''state'' JNull status = JStr ''running'' \<and>
       \<not> process_alive w (dict_get ''pid'' JNull status)"
    using experiment_detail_runs by metis
qed (simp_all add: do_GET_frame terminal_socket_frame do_POST_def do_PUT_def)

theorem request_effects_witness:
  "let rq = \<lparr>rq_path = ''/api/tasks'', rq_query = [], rq_headers = [(''Origin'', ''http://evil''), (''Host'', ''127.0.0.1:8765'')], rq_read = (\<lambda>_. Inr JNull)\<rparr>
   in \<not> origin_ok rq \<and> snd (do_POST quiet_world rq (new_server Map.empty)) = new_server Map.empty \<and>
     snd (do_PUT quiet_world rq (new_server Map.empty)) = new_server Map.empty"
  using request_effects [of "new_server Map.empty" quiet_world
      "\<lparr>rq_path = ''/api/tasks'', rq_query = [], rq_headers = [(''Origin'', ''http://evil''), (''Host'', ''127.0.0.1:8765'')], rq_read = (\<lambda>_. Inr JNull)\<rparr>"]
  by (simp add: origin_ok_def dict_get_def)

subsection \<open>Two experiments at once\<close>

lemma set_dict_set: "set (dict_set k v xs) \<subseteq> insert (k, v) (set xs)"
  by (induction xs) auto

lemma check_no_run_Inr:
  "check_no_run w runs = Inr () \<longleftrightarrow>
     (\<forall>(r, file) \<in> set runs. \<forall>v. file = Some v \<longrightarrow> (\<exists>status. v = JObj status \<and> \<not> run_alive w status))"
  unfolding check_no_run_def
  by (induction runs) (auto split: option.splits if_splits)

text \<open>
  C40. The lock does not keep experiments apart: after one start has returned, and before its worker
  has written its first state, nothing in the preflight or in the critical section refuses another
  start.  Both workers then run on the same hosts and ports.
\<close>

theorem start_experiment_race:
  assumes "experiment_locked w1 sv t1 = (Inr run1, sv1)" and "check_no_run w2 (sv_runs sv) = Inr ()"
    and "run2 = ''run-'' @ ww_run_part w2" and "run2 \<noteq> run1" and "\<not> has_key run2 (sv_runs sv)"
    and "ww_spawn w2 (experiment_argv w2 t2 run2) = Inr ()"
  shows "web_preflight w2 sv1 t2 True = web_preflight w2 sv t2 True \<and>
    (\<exists>sv2. experiment_locked w2 sv1 t2 = (Inr run2, sv2) \<and>
      map_of (sv_runs sv2) run1 = Some (Some (JObj (starting_status w1 t1))) \<and>
      map_of (sv_runs sv2) run2 = Some (Some (JObj (starting_status w2 t2))))"
proof -
  from assms(1) have sv1: "sv1 = write_status run1 (starting_status w1 t1) sv"
    by (auto simp: experiment_locked_def Let_def split: sum.splits if_splits)
  have new: "\<not> run_alive w2 (starting_status w1 t1)"
    by (simp add: run_alive_def starting_status_def dict_get_def)
  have runs: "sv_runs sv1 = dict_set run1 (Some (JObj (starting_status w1 t1))) (sv_runs sv)"
    by (simp add: sv1 write_status_def)
  have "check_no_run w2 (sv_runs sv1) = Inr ()"
    unfolding check_no_run_Inr
  proof (clarify)
    fix r v
    assume "(r, Some v) \<in> set (sv_runs sv1)"
    then have "(r, Some v) \<in> set (sv_runs sv) \<or> v = JObj (starting_status w1 t1)"
      using set_dict_set [of run1 _ "sv_runs sv"] unfolding runs by blast
    then show "\<exists>status. v = JObj status \<and> \<not> run_alive w2 status"
      using assms(2) new unfolding check_no_run_Inr by fastforce
  qed
  moreover have "\<not> has_key run2 (sv_runs sv1)" using assms(4,5) by (auto simp: runs has_key_map_of update_conv)
  ultimately have "experiment_locked w2 sv1 t2 = (Inr run2, write_status run2 (starting_status w2 t2) sv1)"
    using assms(3,6) by (simp add: experiment_locked_def Let_def)
  moreover have "web_preflight w2 sv1 t2 True = web_preflight w2 sv t2 True"
    by (simp add: sv1 write_status_def web_preflight_def read_spec_def job_running_def current_job_def)
  ultimately show ?thesis using assms(4) by (auto simp: write_status_def runs update_conv)
qed

definition later_world :: web_world where
  "later_world = quiet_world\<lparr>ww_run_part := ''20260101-000001-0a0b0c''\<rparr>"

lemma quiet_experiment: "\<exists>sv1. experiment_locked quiet_world (new_server fs) ''task-demo'' = (Inr ''run-20260101-000000-0a0b0c'', sv1)"
  by (simp add: experiment_locked_def Let_def check_no_run_def new_server_def quiet_world_def has_key_def)

theorem start_experiment_race_witness:
  "\<exists>sv1 sv2. experiment_locked quiet_world (new_server Map.empty) ''task-demo'' = (Inr ''run-20260101-000000-0a0b0c'', sv1) \<and>
    experiment_locked later_world sv1 ''task-demo'' = (Inr ''run-20260101-000001-0a0b0c'', sv2)"
proof -
  obtain sv1 where first: "experiment_locked quiet_world (new_server Map.empty) ''task-demo'' = (Inr ''run-20260101-000000-0a0b0c'', sv1)"
    using quiet_experiment by blast
  have "check_no_run later_world (sv_runs (new_server Map.empty)) = Inr ()"
    and "''run-20260101-000001-0a0b0c'' = ''run-'' @ ww_run_part later_world" and "''run-20260101-000001-0a0b0c'' \<noteq> ''run-20260101-000000-0a0b0c''"
    and "\<not> has_key ''run-20260101-000001-0a0b0c'' (sv_runs (new_server Map.empty))"
    and "ww_spawn later_world (experiment_argv later_world ''task-demo'' ''run-20260101-000001-0a0b0c'') = Inr ()"
    by (simp_all add: check_no_run_def new_server_def later_world_def quiet_world_def has_key_def)
  from start_experiment_race [OF first this] first show ?thesis by blast
qed

end
