(* ===== verification/Dual_Serial.thy ===== *)
theory Dual_Serial
  imports Rma_Regression
begin

section \<open>Commands on the serial consoles\<close>

text \<open>
  Model of \<^verbatim>\<open>tools/dual_serial_command.py\<close>.  What a console delivers is a list of rounds, each with the
  clock at the loop test and what \<^verbatim>\<open>recv\<close> gives: nothing within its timeout, some bytes, or no bytes at
  the end of the stream.  Bytes are characters below 256; a list that ends stands for a clock past the
  deadline.  Every byte string a worker sends is recorded.
\<close>

definition prompt_start :: "char \<Rightarrow> bool" where
  "prompt_start c \<longleftrightarrow> (CHR ''A'' \<le> c \<and> c \<le> CHR ''Z'') \<or> (CHR ''a'' \<le> c \<and> c \<le> CHR ''z'') \<or> is_digit c"

definition SHELL_PROMPT :: rx where
  "SHELL_PROMPT = rx_seq [rx_lit ''('', Cls prompt_start, Star (Cls (\<lambda>c. prompt_start c \<or> c \<in> set ''_.-'')), rx_lit '')'',
     Star (Cls (\<lambda>c. c \<noteq> CHR 0x0D \<and> c \<noteq> CHR 0x0A)), rx_lit ''# '']"

definition prompt_seen :: "string \<Rightarrow> bool" where
  "prompt_seen text \<longleftrightarrow> rx_search SHELL_PROMPT text \<noteq> None"

text \<open>\<^verbatim>\<open>connect_until_ready\<close>: an attempt is the clock at the loop test and its error, if it fails.\<close>

fun connect_until_ready :: "string \<Rightarrow> int \<Rightarrow> (int \<times> string option) list \<Rightarrow> string option \<Rightarrow> unit res" where
  "connect_until_ready port deadline [] last_error = Inl (OSError (''UART '' @ port @ '' did not start listening before timeout'' @
     (case last_error of Some e \<Rightarrow> '': '' @ e | None \<Rightarrow> [])))"
| "connect_until_ready port deadline ((now, attempt) # attempts) last_error =
     (if now < deadline then (case attempt of None \<Rightarrow> Inr () | Some e \<Rightarrow> connect_until_ready port deadline attempts (Some e))
      else connect_until_ready port deadline [] last_error)"

text \<open>Awaiting the prompt; \<open>later\<close> is the clock after a \<^verbatim>\<open>recv\<close> that timed out.\<close>

fun warm_loop :: "string \<Rightarrow> int \<Rightarrow> int option \<Rightarrow> int \<Rightarrow> (int \<times> int \<times> string option) list \<Rightarrow> string \<Rightarrow> bool \<Rightarrow>
    unit res \<times> string \<times> string list" where
  "warm_loop port deadline kick connected_at [] got kicked = (Inl (OSError ''no shell prompt before command''), got, [])"
| "warm_loop port deadline kick connected_at ((now, later, data) # rounds) got kicked =
     (if \<not> now < deadline then (Inl (OSError ''no shell prompt before command''), got, [])
      else case data of
        None \<Rightarrow>
          (if (case kick of Some k \<Rightarrow> \<not> kicked \<and> k \<le> later - connected_at | None \<Rightarrow> False)
           then (case warm_loop port deadline kick connected_at rounds got True of (r, all_got, sent) \<Rightarrow> (r, all_got, [CHR 0x0D] # sent))
           else warm_loop port deadline kick connected_at rounds got kicked)
      | Some bytes \<Rightarrow>
          if bytes = [] then (Inl (OSError (''UART '' @ port @ '' closed before command (EOF)'')), got, [])
          else if str_in ''terminal already attached'' bytes
            then (Inl (RuntimeError ''terminal already attached; detach it with ~. first''), got @ bytes, [])
          else if prompt_seen (got @ bytes) then (Inr (), got @ bytes, [])
          else warm_loop port deadline kick connected_at rounds (got @ bytes) kicked)"

definition begin_marker :: "string \<Rightarrow> string" where
  "begin_marker nonce = ''__UBSIM_BEGIN_'' @ nonce @ ''__''"

definition status_marker :: "string \<Rightarrow> string" where
  "status_marker nonce = ''__UBSIM_RC_'' @ nonce @ ''__''"

definition wrapped :: "string \<Rightarrow> string \<Rightarrow> string" where
  "wrapped nonce command = ''printf '' @ [CHR 0x27, CHR 0x5C] @ ''n'' @ begin_marker nonce @ [CHR 0x5C] @ ''n'' @ [CHR 0x27] @ ''; '' @ command @
     ''; __ubsim_rc=$?; printf '' @ [CHR 0x27, CHR 0x5C] @ ''n'' @ status_marker nonce @ ''=%d'' @ [CHR 0x5C] @ ''n'' @ [CHR 0x27] @
     '' '' @ [CHR 0x22] @ ''$__ubsim_rc'' @ [CHR 0x22, CHR 0x0A]"

definition rx_newline :: rx where
  "rx_newline = rx_seq [rx_opt (Cls (\<lambda>c. c = CHR 0x0D)), Cls (\<lambda>c. c = CHR 0x0A)]"

definition rx_begin :: "string \<Rightarrow> rx" where
  "rx_begin nonce = rx_seq [rx_newline, rx_lit (begin_marker nonce), rx_newline]"

definition rx_status :: "string \<Rightarrow> rx" where
  "rx_status nonce = rx_seq [rx_newline, rx_lit (status_marker nonce), rx_lit ''='', Grp rx_digits, rx_newline]"

text \<open>
  Whether the bytes received since the command was sent hold its whole output: the transcript after
  the executed \<^verbatim>\<open>BEGIN\<close> line and the digits of the exit status, once a prompt follows.
\<close>

definition command_done :: "string \<Rightarrow> string \<Rightarrow> (string \<times> string) option" where
  "command_done nonce new_text = (case rx_search_at (rx_begin nonce) [] new_text of
       None \<Rightarrow> None
     | Some p \<Rightarrow> (let transcript = rx_rest p in
         case rx_search_at (rx_status nonce) [] transcript of
           None \<Rightarrow> None
         | Some q \<Rightarrow> if prompt_seen (rx_rest q) then Some (transcript, hd (snd (snd q))) else None))"

fun await_loop :: "string \<Rightarrow> string \<Rightarrow> int \<Rightarrow> (int \<times> string option) list \<Rightarrow> string \<Rightarrow> (string \<times> string) res \<times> string" where
  "await_loop port nonce deadline [] got = (Inl (OSError ''no shell prompt after collective command''), got)"
| "await_loop port nonce deadline ((now, data) # rounds) got =
     (if \<not> now < deadline then (Inl (OSError ''no shell prompt after collective command''), got)
      else case data of
        None \<Rightarrow> await_loop port nonce deadline rounds got
      | Some bytes \<Rightarrow>
          if bytes = [] then (Inl (OSError (''UART '' @ port @ '' closed while awaiting command completion (EOF)'')), got)
          else case command_done nonce (got @ bytes) of
              Some done \<Rightarrow> (Inr done, got @ bytes)
            | None \<Rightarrow> await_loop port nonce deadline rounds (got @ bytes))"

record serial_world =
  su_start :: int
  su_attempts :: "(int \<times> string option) list"
  su_connected_at :: int
  su_warm :: "(int \<times> int \<times> string option) list"
  su_gate :: bool
  su_ns :: nat
  su_rounds :: "(int \<times> string option) list"
  su_decode :: "string \<Rightarrow> string"
  su_finished :: bool

definition serial_nonce :: "serial_world \<Rightarrow> int \<Rightarrow> string" where
  "serial_nonce u port = str_int port @ ''_'' @ show_nat (su_ns u)"

fun serial_message :: "py_exc \<Rightarrow> string" where
  "serial_message (OSError m) = m"
| "serial_message (RuntimeError m) = m"
| "serial_message (ValueError m) = m"
| "serial_message _ = []"

definition serial_error :: "serial_world \<Rightarrow> py_exc \<Rightarrow> string \<Rightarrow> string" where
  "serial_error u e got = ''ERROR: '' @ serial_message e @ [CHR 0x0A] @ su_decode u (drop (length got - 1000) got)"

text \<open>A worker: the text it leaves in \<^verbatim>\<open>results\<close> and the byte strings it sent.\<close>

definition run_one :: "serial_world \<Rightarrow> int \<Rightarrow> string \<Rightarrow> int \<Rightarrow> int option \<Rightarrow> string \<times> string list" where
  "run_one u port command timeout kick =
     (let deadline = su_start u + timeout; nonce = serial_nonce u port in
      case connect_until_ready (str_int port) deadline (su_attempts u) None of
        Inl e \<Rightarrow> (serial_error u e [], [])
      | Inr _ \<Rightarrow> (case warm_loop (str_int port) deadline kick (su_connected_at u) (su_warm u) [] False of
          (Inl e, got, sent) \<Rightarrow> (serial_error u e got, sent)
        | (Inr _, got, sent) \<Rightarrow>
            if \<not> su_gate u then (serial_error u (RuntimeError ''peer UART did not reach the command start gate'') got, sent)
            else (case await_loop (str_int port) nonce deadline (su_rounds u) [] of
                (Inl e, new_text) \<Rightarrow> (serial_error u e (got @ new_text), sent @ [CHR 0x15 # wrapped nonce command])
              | (Inr (transcript, digits), new_text) \<Rightarrow>
                  (case py_int digits of
                     Inl e \<Rightarrow> (serial_error u e (got @ new_text), sent @ [CHR 0x15 # wrapped nonce command])
                   | Inr status \<Rightarrow>
                       ((if status \<noteq> 0 then ''ERROR: command exited with status '' @ str_int status @ [CHR 0x0A] else []) @ su_decode u transcript,
                        sent @ [CHR 0x15 # wrapped nonce command])))))"

subsection \<open>The main program\<close>

record serial_args =
  sa_ports :: "int list"
  sa_command :: string
  sa_commands :: "string list option"
  sa_timeout :: int
  sa_kick :: "int option"
  sa_full_output :: bool

definition serial_commands :: "serial_args \<Rightarrow> string list" where
  "serial_commands args = (case sa_commands args of Some cs \<Rightarrow> cs | None \<Rightarrow> replicate (length (sa_ports args)) (sa_command args))"

definition serial_results :: "serial_args \<Rightarrow> (nat \<Rightarrow> serial_world) \<Rightarrow> (int \<times> string) list" where
  "serial_results args us = fold (\<lambda>(index, port) d. if su_finished (us index)
       then dict_set port (fst (run_one (us index) port (serial_commands args ! index) (sa_timeout args) (sa_kick args))) d else d)
     (enumerate 0 (sa_ports args)) []"

definition rstrip :: "string \<Rightarrow> string" where
  "rstrip s = rev (dropWhile is_space (rev s))"

definition last_chars :: "nat \<Rightarrow> string \<Rightarrow> string" where
  "last_chars n s = drop (length s - n) s"

definition serial_report :: "serial_args \<Rightarrow> int \<Rightarrow> string \<Rightarrow> string list" where
  "serial_report args port transcript = (''--- UART '' @ str_int port @ '' ---'') #
     (if startswith transcript ''ERROR:''
      then (case partition_at CHR 0x0A transcript of (headline, _, body) \<Rightarrow> [headline, rstrip (last_chars 1200 body)])
      else [rstrip (if sa_full_output args then transcript else last_chars 1200 transcript)])"

definition serial_main :: "serial_args \<Rightarrow> (nat \<Rightarrow> serial_world) \<Rightarrow> (int \<times> string list) res" where
  "serial_main args us =
     rbind (case sa_commands args of
         Some cs \<Rightarrow> if length cs \<noteq> length (sa_ports args) then Inl (SystemExit 2) else Inr ()
       | None \<Rightarrow> Inr ()) (\<lambda>_.
     let texts = map (\<lambda>port. (port, dict_get port ''ERROR: worker did not finish'' (serial_results args us))) (sa_ports args) in
     Inr (if list_ex (\<lambda>(_, t). startswith t ''ERROR:'') texts then 1 else 0,
          concat (map (\<lambda>(port, t). serial_report args port t) texts)))"

subsection \<open>What exit code 0 means\<close>

lemma warm_loop_sent:
  assumes "warm_loop port deadline kick connected_at rounds got kicked = (r, g, sent)"
  shows "set sent \<subseteq> {[CHR 0x0D]} \<and> length sent \<le> (if kick = None \<or> kicked then 0 else 1) \<and> (r = Inr () \<longrightarrow> prompt_seen g)"
  using assms
proof (induction port deadline kick connected_at rounds got kicked arbitrary: r g sent rule: warm_loop.induct)
  case (2 port deadline kick connected_at now later data rounds got kicked)
  show ?case
  proof (cases "now < deadline")
    case True
    show ?thesis
    proof (cases data)
      case None
      let ?kicks = "case kick of Some k \<Rightarrow> \<not> kicked \<and> k \<le> later - connected_at | None \<Rightarrow> False"
      obtain r' g' sent' where rec: "warm_loop port deadline kick connected_at rounds got True = (r', g', sent')" by (metis prod_cases3)
      show ?thesis
      proof (cases ?kicks)
        case k: True
        with 2(1) [OF _ None k rec] 2(4) rec None True show ?thesis by (auto split: option.splits)
      next
        case False
        with 2(2) [OF _ None False] 2(4) None True show ?thesis by auto
      qed
    next
      case (Some bytes)
      with 2(3) [OF _ Some] 2(4) True show ?thesis by (auto split: if_splits)
    qed
  qed (use 2(4) in auto)
qed auto

lemma await_loop_done:
  "await_loop port nonce deadline rounds got = (Inr d, new_text) \<Longrightarrow> command_done nonce new_text = Some d"
proof (induction port nonce deadline rounds got rule: await_loop.induct)
  case (2 port nonce deadline now data rounds got)
  then show ?case by (auto split: if_splits option.splits)
qed simp

lemma serial_error_starts: "startswith (serial_error u e got) ''ERROR:''"
  by (simp add: serial_error_def startswith_def)

lemma run_one_success:
  assumes "run_one u port command timeout kick = (text, sent)" and "\<not> startswith text ''ERROR:''"
  shows "\<exists>kicks got new_text transcript digits. sent = kicks @ [CHR 0x15 # wrapped (serial_nonce u port) command] \<and>
    set kicks \<subseteq> {[CHR 0x0D]} \<and> length kicks \<le> (if kick = None then 0 else 1) \<and> prompt_seen got \<and> su_gate u \<and>
    command_done (serial_nonce u port) new_text = Some (transcript, digits) \<and> py_int digits = Inr 0 \<and> text = su_decode u transcript"
proof -
  have starts: "startswith (''ERROR: command exited with status '' @ t) ''ERROR:''" for t by (simp add: startswith_def)
  have conn: "connect_until_ready (str_int port) (su_start u + timeout) (su_attempts u) None = Inr ()"
    using assms serial_error_starts by (cases "connect_until_ready (str_int port) (su_start u + timeout) (su_attempts u) None") (auto simp: run_one_def)
  obtain r got kicks where warm: "warm_loop (str_int port) (su_start u + timeout) kick (su_connected_at u) (su_warm u) [] False = (r, got, kicks)"
    by (metis prod_cases3)
  have r: "r = Inr ()"
  proof (cases r)
    case (Inl e)
    with assms serial_error_starts [of u e got] show ?thesis by (simp add: run_one_def Let_def conn warm)
  qed simp
  have ok: "su_gate u"
  proof (rule ccontr)
    assume "\<not> su_gate u"
    with assms serial_error_starts [of u _ got] show False by (auto simp: run_one_def Let_def conn warm r)
  qed
  obtain a new_text where await: "await_loop (str_int port) (serial_nonce u port) (su_start u + timeout) (su_rounds u) [] = (a, new_text)"
    by (metis surj_pair)
  obtain transcript digits where a: "a = Inr (transcript, digits)"
  proof (cases a)
    case (Inl e)
    with assms serial_error_starts [of u e] show ?thesis by (auto simp: run_one_def Let_def conn warm r ok await)
  qed auto
  have status: "py_int digits = Inr 0"
  proof (cases "py_int digits")
    case (Inl e)
    with assms serial_error_starts [of u e] show ?thesis by (auto simp: run_one_def Let_def conn warm r ok await a)
  next
    case (Inr status)
    have "status = 0"
    proof (rule ccontr)
      assume "status \<noteq> 0"
      with assms(1) Inr have "text = ''ERROR: command exited with status '' @ (str_int status @ [CHR 0x0A] @ su_decode u transcript)"
        by (simp add: run_one_def Let_def conn warm r ok await a)
      with starts assms(2) show False by metis
    qed
    with Inr show ?thesis by simp
  qed
  then have "run_one u port command timeout kick = (su_decode u transcript, kicks @ [CHR 0x15 # wrapped (serial_nonce u port) command])"
    by (simp add: run_one_def Let_def conn warm r ok await a)
  then have "text = su_decode u transcript" "sent = kicks @ [CHR 0x15 # wrapped (serial_nonce u port) command]"
    unfolding assms(1) prod.inject by blast+
  moreover note warm_loop_sent [OF warm]
  moreover have "command_done (serial_nonce u port) new_text = Some (transcript, digits)"
    using await unfolding a by (rule await_loop_done)
  ultimately show ?thesis using r ok status
    by (intro exI [of _ kicks] exI [of _ got] exI [of _ new_text] exI [of _ transcript] exI [of _ digits]) simp
qed

lemma serial_results_lookup:
  assumes "distinct (map snd xs)"
  shows "((i, p) \<in> set xs \<longrightarrow> map_of (fold (\<lambda>(i, p) d. if F i then dict_set p (g i p) d else d) xs d) p = (if F i then Some (g i p) else map_of d p)) \<and>
    (p \<notin> snd ` set xs \<longrightarrow> map_of (fold (\<lambda>(i, p) d. if F i then dict_set p (g i p) d else d) xs d) p = map_of d p)"
  using assms
proof (induction xs arbitrary: d)
  case (Cons x xs)
  obtain j q where x: "x = (j, q)" by (cases x)
  from Cons.prems have "q \<notin> snd ` set xs" "distinct (map snd xs)" by (auto simp: x)
  with Cons.IH [of "if F j then dict_set q (g j q) d else d"] show ?case
    by (auto simp: x update_conv image_iff)
qed simp


definition demo_console :: serial_world where
  "demo_console = \<lparr>su_start = 0, su_attempts = [(0, None)], su_connected_at = 0, su_warm = [(0, 0, Some ''(n) # '')], su_gate = True, su_ns = 5,
     su_rounds = [(0, Some ([CHR 0x0A] @ ''__UBSIM_BEGIN_1_5__'' @ [CHR 0x0A] @ ''ok'' @ [CHR 0x0A] @ ''__UBSIM_RC_1_5__=0'' @ [CHR 0x0A] @ ''(n) # ''))],
     su_decode = id, su_finished = True\<rparr>"

definition demo_serial :: serial_args where
  "demo_serial = \<lparr>sa_ports = [1], sa_command = ''id'', sa_commands = None, sa_timeout = 9, sa_kick = None, sa_full_output = True\<rparr>"

lemma demo_serial_main: "map_sum id fst (serial_main demo_serial (\<lambda>_. demo_console)) = Inr 0"
  by code_simp


end
