(* ===== verification/Elf_Image.thy ===== *)
theory Elf_Image
  imports Framing
begin

section \<open>ELF kernels as flat images\<close>

text \<open>
  Model of \<^verbatim>\<open>tools/elf_to_flat_binary.py\<close>: the two fixed-layout headers as
  \<^verbatim>\<open>struct.Struct.unpack_from\<close> reads them, the choice of the loadable sections, and the loop of
  slice assignments that fills the image.  The source file is its bytes; the result is the bytes
  written to the destination.  An image too large for the memory of the host is not modelled.
\<close>

subsection \<open>Little-endian fields\<close>

definition le_nat :: "byte list \<Rightarrow> nat" where
  "le_nat bs = be_nat (rev bs)"

definition le_bytes :: "nat \<Rightarrow> nat \<Rightarrow> byte list" where
  "le_bytes k n = rev (be_bytes k n)"

lemma length_le_bytes [simp]: "length (le_bytes k n) = k"
  by (simp add: le_bytes_def)

lemma le_nat_le_bytes: "le_nat (le_bytes k n) = n mod 256 ^ k"
  by (simp add: le_nat_def le_bytes_def be_nat_be_bytes)

text \<open>\<^verbatim>\<open>data[a:b]\<close> for positions that are not negative.\<close>

definition byte_slice :: "nat \<Rightarrow> nat \<Rightarrow> byte list \<Rightarrow> byte list" where
  "byte_slice a b data = take (b - a) (drop a data)"

text \<open>
  \<^verbatim>\<open>Struct.unpack_from(data, offset)\<close> for a format whose fields have the given widths: the fields as
  byte strings, or \<^verbatim>\<open>struct.error\<close> when the buffer ends before the last field.
\<close>

fun cut_fields :: "nat list \<Rightarrow> byte list \<Rightarrow> byte list list" where
  "cut_fields [] bs = []"
| "cut_fields (w # ws) bs = take w bs # cut_fields ws (drop w bs)"

definition unpack_from :: "nat list \<Rightarrow> byte list \<Rightarrow> nat \<Rightarrow> byte list list res" where
  "unpack_from widths data offset =
     (if length data < offset + sum_list widths
      then Inl (StructError ''unpack_from requires a larger buffer'')
      else Inr (cut_fields widths (drop offset data)))"

definition ELF_HEADER :: "nat list" where
  "ELF_HEADER = [16, 2, 2, 4, 8, 8, 8, 4, 2, 2, 2, 2, 2, 2]"

definition SECTION_HEADER :: "nat list" where
  "SECTION_HEADER = [4, 4, 8, 8, 8, 8, 4, 4, 8, 8]"

definition SHF_ALLOC :: nat where
  "SHF_ALLOC = 2"

definition SHT_NOBITS :: nat where
  "SHT_NOBITS = 8"

definition ELF_MAGIC :: "byte list" where
  "ELF_MAGIC = [0x7F, 0x45, 0x4C, 0x46, 2, 1]"

subsection \<open>Sections\<close>

record elf_section =
  es_type :: nat
  es_flags :: nat
  es_addr :: nat
  es_offset :: nat
  es_size :: nat

definition section_of :: "byte list list \<Rightarrow> elf_section" where
  "section_of fs = \<lparr>es_type = le_nat (fs ! 1), es_flags = le_nat (fs ! 2), es_addr = le_nat (fs ! 3),
     es_offset = le_nat (fs ! 4), es_size = le_nat (fs ! 5)\<rparr>"

definition elf_sections :: "byte list \<Rightarrow> nat \<Rightarrow> nat \<Rightarrow> nat \<Rightarrow> elf_section list res" where
  "elf_sections data section_offset section_size section_count =
     rfold (\<lambda>i acc. rbind (unpack_from SECTION_HEADER data (section_offset + i * section_size))
       (\<lambda>fs. Inr (acc @ [section_of fs]))) [0..<section_count] []"

definition elf_loadable :: "elf_section \<Rightarrow> bool" where
  "elf_loadable s \<longleftrightarrow> es_flags s AND SHF_ALLOC \<noteq> 0 \<and> es_type s \<noteq> SHT_NOBITS \<and> es_size s \<noteq> 0"

definition es_end :: "elf_section \<Rightarrow> nat" where
  "es_end s = es_addr s + es_size s"

text \<open>
  \<^verbatim>\<open>img[a:b] = source\<close> on a \<^verbatim>\<open>bytearray\<close>: positions past the end count as the end, and the
  array grows or shrinks when the source has another length than the slice.
\<close>

definition slice_assign :: "nat \<Rightarrow> nat \<Rightarrow> byte list \<Rightarrow> byte list \<Rightarrow> byte list" where
  "slice_assign a b source img = take a img @ source @ drop (max a b) img"

definition place_section :: "byte list \<Rightarrow> nat \<Rightarrow> elf_section \<Rightarrow> byte list \<Rightarrow> byte list" where
  "place_section data base s img =
     slice_assign (es_addr s - base) (es_addr s - base + es_size s)
       (byte_slice (es_offset s) (es_offset s + es_size s) data) img"

definition image_base :: "elf_section list \<Rightarrow> nat" where
  "image_base ss = Min (set (map es_addr ss))"

definition image_end :: "elf_section list \<Rightarrow> nat" where
  "image_end ss = Max (set (map es_end ss))"

text \<open>The sections that go into the image, and the conversion.\<close>

definition loadable_sections :: "string \<Rightarrow> byte list \<Rightarrow> elf_section list res" where
  "loadable_sections source data =
     rbind (unpack_from ELF_HEADER data 0) (\<lambda>header.
     if take 6 (header ! 0) \<noteq> ELF_MAGIC
     then Inl (ValueError (source @ '' is not a little-endian ELF64 file''))
     else rbind (elf_sections data (le_nat (header ! 6)) (le_nat (header ! 11)) (le_nat (header ! 12))) (\<lambda>sections.
     let loadable = filter elf_loadable sections in
     if loadable = [] then Inl (ValueError (source @ '' has no loadable initialized sections'')) else Inr loadable))"

definition convert :: "string \<Rightarrow> byte list \<Rightarrow> byte list res" where
  "convert source data = rbind (loadable_sections source data) (\<lambda>loadable.
     let base = image_base loadable; stop = image_end loadable in
     Inr (fold (place_section data base) loadable (replicate (stop - base) 0)))"

subsection \<open>What the image holds\<close>

text \<open>A section whose bytes are all in the file; two sections that share no address.\<close>

definition section_in_file :: "byte list \<Rightarrow> elf_section \<Rightarrow> bool" where
  "section_in_file data s \<longleftrightarrow> es_offset s + es_size s \<le> length data"

definition apart :: "elf_section \<Rightarrow> elf_section \<Rightarrow> bool" where
  "apart s t \<longleftrightarrow> es_end s \<le> es_addr t \<or> es_end t \<le> es_addr s"

definition in_image :: "nat \<Rightarrow> nat \<Rightarrow> elf_section \<Rightarrow> bool" where
  "in_image base n s \<longleftrightarrow> base \<le> es_addr s \<and> es_end s \<le> base + n"

lemma image_base_le: "s \<in> set ss \<Longrightarrow> image_base ss \<le> es_addr s"
  by (simp add: image_base_def)

lemma image_end_ge: "s \<in> set ss \<Longrightarrow> es_end s \<le> image_end ss"
  by (simp add: image_end_def)

lemma in_image_all: "s \<in> set ss \<Longrightarrow> in_image (image_base ss) (image_end ss - image_base ss) s"
  using image_base_le [of s ss] image_end_ge [of s ss] by (auto simp: in_image_def)

lemma length_place_section:
  assumes "in_image base (length img) s" "section_in_file data s"
  shows "length (place_section data base s img) = length img"
  using assms
  by (auto simp: place_section_def slice_assign_def byte_slice_def in_image_def section_in_file_def es_end_def)

lemma nth_place_section:
  assumes "in_image base (length img) s" "section_in_file data s" "k < length img"
  shows "place_section data base s img ! k =
    (if es_addr s \<le> base + k \<and> base + k < es_end s then data ! (es_offset s + (base + k - es_addr s)) else img ! k)"
proof -
  let ?a = "es_addr s - base"
  have src: "length (byte_slice (es_offset s) (es_offset s + es_size s) data) = es_size s"
    using assms(2) by (simp add: byte_slice_def section_in_file_def)
  have a: "?a + es_size s \<le> length img" "base \<le> es_addr s"
    using assms(1) by (auto simp: in_image_def es_end_def)
  show ?thesis
  proof (cases "k < ?a")
    case True
    with a show ?thesis by (auto simp: place_section_def slice_assign_def nth_append)
  next
    case outside: False
    show ?thesis
    proof (cases "k < ?a + es_size s")
      case True
      have "place_section data base s img ! k = byte_slice (es_offset s) (es_offset s + es_size s) data ! (k - ?a)"
        using outside True a src by (auto simp: place_section_def slice_assign_def nth_append min_def)
      also have "\<dots> = data ! (es_offset s + (k - ?a))"
        using outside True assms(2) by (auto simp: byte_slice_def section_in_file_def)
      finally show ?thesis
        using outside True a by (auto simp: es_end_def add.commute)
    next
      case False
      have "place_section data base s img ! k = drop (?a + es_size s) img ! (k - ?a - es_size s)"
        using outside False a src assms(3) by (auto simp: place_section_def slice_assign_def nth_append min_def)
      also have "\<dots> = img ! k"
        using outside False assms(3) by simp
      finally show ?thesis
        using outside False a by (auto simp: es_end_def)
    qed
  qed
qed

lemma length_place_all:
  assumes "\<forall>s \<in> set ss. in_image base (length img) s \<and> section_in_file data s"
  shows "length (fold (place_section data base) ss img) = length img"
  using assms
  by (induction ss arbitrary: img) (simp_all add: length_place_section)

text \<open>Bytes a section does not cover stay; bytes of one section are not overwritten by those apart from it.\<close>

lemma nth_place_outside:
  assumes "\<forall>s \<in> set ss. in_image base (length img) s \<and> section_in_file data s" "k < length img"
    "\<forall>s \<in> set ss. \<not> (es_addr s \<le> base + k \<and> base + k < es_end s)"
  shows "fold (place_section data base) ss img ! k = img ! k"
  using assms
proof (induction ss arbitrary: img)
  case (Cons s ss)
  then have s: "in_image base (length img) s" "section_in_file data s" by simp_all
  from Cons.IH [of "place_section data base s img"] Cons.prems s show ?case
    by (simp add: length_place_section nth_place_section)
qed simp

lemma nth_place_inside:
  assumes "\<forall>s \<in> set ss. in_image base (length img) s \<and> section_in_file data s" "pairwise apart (set ss)"
    "s \<in> set ss" "i < es_size s"
  shows "fold (place_section data base) ss img ! (es_addr s - base + i) = data ! (es_offset s + i)"
  using assms
proof (induction ss arbitrary: img)
  case (Cons t ss)
  from Cons.prems have t: "in_image base (length img) t" "section_in_file data t" by simp_all
  have len: "length (place_section data base t img) = length img"
    using t by (rule length_place_section)
  have "in_image base (length img) s" using Cons.prems by auto
  then have k: "es_addr s - base + i < length img" "base + (es_addr s - base + i) = es_addr s + i"
    using Cons.prems(4) by (auto simp: in_image_def es_end_def)
  show ?case
  proof (cases "s \<in> set ss")
    case True
    with Cons.prems have "pairwise apart (set ss)" by (auto simp: pairwise_def)
    with Cons.IH [of "place_section data base t img"] Cons.prems True len show ?thesis by simp
  next
    case False
    then have st: "s = t" using Cons.prems(3) by simp
    have "\<not> (es_addr u \<le> es_addr s + i \<and> es_addr s + i < es_end u)" if "u \<in> set ss" for u
    proof -
      have "apart t u" using Cons.prems(2) that False st by (auto simp: pairwise_def)
      with st Cons.prems(4) show ?thesis by (auto simp: apart_def es_end_def)
    qed
    then have "fold (place_section data base) ss (place_section data base t img) ! (es_addr s - base + i) =
        place_section data base t img ! (es_addr s - base + i)"
      using Cons.prems(1) k len by (intro nth_place_outside) auto
    with st t k Cons.prems(4) show ?thesis
      by (simp add: nth_place_section es_end_def)
  qed
qed simp


text \<open>A two-section file: four bytes at address 8 and two bytes at address 16.\<close>

definition demo_section :: "nat \<Rightarrow> nat \<Rightarrow> nat \<Rightarrow> byte list" where
  "demo_section addr offset bytes = le_bytes 4 0 @ le_bytes 4 1 @ le_bytes 8 2 @ le_bytes 8 addr @ le_bytes 8 offset @
     le_bytes 8 bytes @ replicate 24 0"

definition demo_elf :: "byte list" where
  "demo_elf = ELF_MAGIC @ replicate 34 0 @ le_bytes 8 64 @ replicate 10 0 @ le_bytes 2 64 @ le_bytes 2 2 @ le_bytes 2 0 @
     demo_section 8 192 4 @ demo_section 16 196 2 @ [1, 2, 3, 4, 5, 6]"

definition demo_loadable :: "elf_section list" where
  "demo_loadable = [\<lparr>es_type = 1, es_flags = 2, es_addr = 8, es_offset = 192, es_size = 4\<rparr>,
     \<lparr>es_type = 1, es_flags = 2, es_addr = 16, es_offset = 196, es_size = 2\<rparr>]"

lemma demo_elf_sections: "loadable_sections ''vmlinux'' demo_elf = Inr demo_loadable"
  by code_simp


text \<open>
  A file that ends inside its only loadable section is converted without an error, to an image
  shorter than the section: the slice assignment shrinks the array.
\<close>

lemma elf_truncated_shrinks:
  assumes "loadable_sections source data = Inr [s]" "\<not> section_in_file data s"
  shows "\<exists>img. convert source data = Inr img \<and> length img = length data - es_offset s \<and> length img < es_size s"
proof -
  have "elf_loadable s"
    using assms(1) by (auto simp: loadable_sections_def Let_def split: if_splits dest!: filter_eq_ConsD)
  then have "length data - es_offset s < es_size s"
    using assms(2) by (auto simp: elf_loadable_def section_in_file_def)
  then show ?thesis
    using assms(1)
    by (simp add: convert_def Let_def image_base_def image_end_def place_section_def slice_assign_def byte_slice_def es_end_def)
qed

end
