(* ===== verification/Checkpoint_Text.thy ===== *)
theory Checkpoint_Text
  imports Py_Prelude
begin

section \<open>Normalising a gem5 checkpoint\<close>

text \<open>
  Model of \<^verbatim>\<open>tools/normalize_gem5_checkpoint.py\<close>: the line filter that rewrites the lock vector of the
  second flash device, and the temporary file that replaces the checkpoint.  A file is its decoded
  text and its mode; which of the calls on the file system fail, and with what, is an argument.
\<close>

subsection \<open>Reading lines\<close>

text \<open>
  A file opened in text mode: the line ends \<^verbatim>\<open>\r\n\<close> and \<^verbatim>\<open>\r\<close> are read as \<^verbatim>\<open>\n\<close>, and
  iteration yields the lines with their line end.
\<close>

fun universal_newlines :: "string \<Rightarrow> string" where
  "universal_newlines [] = []"
| "universal_newlines (c # cs) =
     (if c = CHR 0x0D then CHR 0x0A # universal_newlines (if cs \<noteq> [] \<and> hd cs = CHR 0x0A then tl cs else cs)
      else c # universal_newlines cs)"

fun keep_lines :: "string \<Rightarrow> string \<Rightarrow> string list" where
  "keep_lines cur [] = (if cur = [] then [] else [rev cur])"
| "keep_lines cur (c # cs) = (if c = CHR 0x0A then rev (c # cur) # keep_lines [] cs else keep_lines (c # cur) cs)"

definition file_lines :: "string \<Rightarrow> string list" where
  "file_lines content = keep_lines [] (universal_newlines content)"

subsection \<open>The filter\<close>

definition flash_section :: string where
  "flash_section = ''[system.realview.flash1.blocks]''"

definition next_section :: "string \<Rightarrow> string \<Rightarrow> string" where
  "next_section current line = (if startswith line ''['' then strip line else current)"

definition lock_word :: "string \<Rightarrow> string" where
  "lock_word value = (if value = ''1'' then ''true'' else ''false'')"

definition normalize_lock :: "string \<Rightarrow> string \<Rightarrow> (string \<times> bool) res" where
  "normalize_lock path line = (let words = str_words (removeprefix line ''locked='') in
     if words \<noteq> [] \<and> set words \<subseteq> {''0'', ''1''} then Inr (''locked='' @ join '' '' (map lock_word words) @ [CHR 0x0A], True)
     else if words \<noteq> [] \<and> \<not> set words \<subseteq> {''true'', ''false''} then Inl (ValueError (''invalid flash lock vector in '' @ path))
     else Inr (line, False))"

definition normalize_line :: "string \<Rightarrow> string \<Rightarrow> string \<Rightarrow> (string \<times> bool) res" where
  "normalize_line path current line =
     (if current = flash_section \<and> startswith line ''locked='' then normalize_lock path line else Inr (line, False))"

text \<open>The loop over the lines: the current section, whether a line was rewritten, and the lines written.\<close>

fun normalize_lines :: "string \<Rightarrow> string \<Rightarrow> string list \<Rightarrow> (string list \<times> bool) res" where
  "normalize_lines path current [] = Inr ([], False)"
| "normalize_lines path current (line # rest) =
     (let current' = next_section current line in
      rbind (normalize_line path current' line) (\<lambda>(line', changed).
      rbind (normalize_lines path current' rest) (\<lambda>(out, more_changed).
      Inr (line' # out, changed \<or> more_changed))))"

definition normalize_text :: "string \<Rightarrow> string \<Rightarrow> (string \<times> bool) res" where
  "normalize_text path content =
     rbind (normalize_lines path [] (file_lines content)) (\<lambda>(out, changed). Inr (concat out, changed))"

subsection \<open>Replacing the file\<close>

type_synonym ckpt_files = "string \<Rightarrow> (string \<times> nat) option"

datatype ckpt_call = Make_Temporary | Open_Source | Write_Output | Change_Mode | Replace_File

definition failing :: "(ckpt_call \<Rightarrow> py_exc option) \<Rightarrow> ckpt_call \<Rightarrow> unit res" where
  "failing faults call = (case faults call of None \<Rightarrow> Inr () | Some e \<Rightarrow> Inl e)"

text \<open>
  What the \<^verbatim>\<open>try\<close> block does once the temporary file exists: the bytes and the mode the checkpoint
  gets, or nothing when no line was rewritten.  The handler and the last branch both remove the
  temporary file.
\<close>

definition rewrite_checkpoint :: "(ckpt_call \<Rightarrow> py_exc option) \<Rightarrow> string \<Rightarrow> string \<Rightarrow> string option res" where
  "rewrite_checkpoint faults path content =
     rbind (failing faults Open_Source) (\<lambda>_.
     rbind (normalize_text path content) (\<lambda>(out, changed).
     rbind (failing faults Write_Output) (\<lambda>_.
     if changed
     then rbind (failing faults Change_Mode) (\<lambda>_. rbind (failing faults Replace_File) (\<lambda>_. Inr (Some out)))
     else Inr None)))"

definition normalize_cpt :: "(ckpt_call \<Rightarrow> py_exc option) \<Rightarrow> string \<Rightarrow> string \<Rightarrow> ckpt_files \<Rightarrow> bool res \<times> ckpt_files" where
  "normalize_cpt faults temporary path files = (case files path of
       None \<Rightarrow> (Inl (OSError ''No such file or directory''), files)
     | Some (content, source_mode) \<Rightarrow> (case failing faults Make_Temporary of
         Inl e \<Rightarrow> (Inl e, files)
       | Inr _ \<Rightarrow>
         (let files1 = files(temporary \<mapsto> ([], 384)) in
          case rewrite_checkpoint faults path content of
            Inl e \<Rightarrow> (Inl e, files1(temporary := None))
          | Inr None \<Rightarrow> (Inr False, files1(temporary := None))
          | Inr (Some out) \<Rightarrow> (Inr True, (files1(path \<mapsto> (out, source_mode)))(temporary := None)))))"

fun normalize_main :: "(string \<Rightarrow> ckpt_call \<Rightarrow> py_exc option) \<Rightarrow> (string \<Rightarrow> string) \<Rightarrow> string list \<Rightarrow> ckpt_files \<Rightarrow> string list res \<times> ckpt_files" where
  "normalize_main faults temporary [] files = (Inr [], files)"
| "normalize_main faults temporary (path # paths) files = (case normalize_cpt (faults path) (temporary path) path files of
     (Inl e, files1) \<Rightarrow> (Inl e, files1)
   | (Inr changed, files1) \<Rightarrow> (case normalize_main faults temporary paths files1 of
       (result, files2) \<Rightarrow> (rbind result (\<lambda>shown.
          Inr ((path @ '': '' @ (if changed then ''normalized'' else ''already compatible'')) # shown)), files2)))"

subsection \<open>Lines and their concatenation\<close>

text \<open>A line that iteration can yield: it has no line end but, possibly, its last character.\<close>

definition is_line :: "bool \<Rightarrow> string \<Rightarrow> bool" where
  "is_line complete l \<longleftrightarrow> (\<exists>t. CHR 0x0A \<notin> set t \<and> CHR 0x0D \<notin> set t \<and>
     (l = t @ [CHR 0x0A] \<or> (\<not> complete \<and> l = t \<and> t \<noteq> [])))"

fun proper_lines :: "string list \<Rightarrow> bool" where
  "proper_lines [] \<longleftrightarrow> True"
| "proper_lines [l] \<longleftrightarrow> is_line False l"
| "proper_lines (l # ls) \<longleftrightarrow> is_line True l \<and> proper_lines ls"

lemma is_line_weaken: "is_line True l \<Longrightarrow> is_line b l"
  by (auto simp: is_line_def)

lemma universal_newlines_no_CR: "CHR 0x0D \<notin> set (universal_newlines s)"
  by (induction s rule: universal_newlines.induct) auto

lemma universal_newlines_id: "CHR 0x0D \<notin> set s \<Longrightarrow> universal_newlines s = s"
  by (induction s) auto

lemma keep_lines_run: "CHR 0x0A \<notin> set t \<Longrightarrow> keep_lines cur (t @ s) = keep_lines (rev t @ cur) s"
  by (induction t arbitrary: cur) auto

lemma keep_lines_proper:
  "CHR 0x0A \<notin> set cur \<Longrightarrow> CHR 0x0D \<notin> set cur \<Longrightarrow> CHR 0x0D \<notin> set s \<Longrightarrow> proper_lines (keep_lines cur s)"
proof (induction cur s rule: keep_lines.induct)
  case (1 cur)
  then have "cur \<noteq> [] \<Longrightarrow> is_line False (rev cur)" unfolding is_line_def by (intro exI [of _ "rev cur"]) auto
  then show ?case by simp
next
  case (2 cur c cs)
  show ?case
  proof (cases "c = CHR 0x0A")
    case True
    have "is_line True (rev (c # cur))"
      using 2 True unfolding is_line_def by (intro exI [of _ "rev cur"]) auto
    with 2 True show ?thesis
      by (cases "keep_lines [] cs") (auto simp: is_line_weaken)
  next
    case False
    with 2 show ?thesis by auto
  qed
qed

lemma keep_lines_concat: "proper_lines ls \<Longrightarrow> keep_lines [] (concat ls) = ls"
proof (induction ls rule: proper_lines.induct)
  case (2 l)
  then show ?case
    using keep_lines_run [of _ "[]" "[]"] keep_lines_run [of _ "[]" "[CHR 0x0A]"] by (auto simp: is_line_def)
next
  case (3 l l' ls)
  then obtain t where t: "l = t @ [CHR 0x0A]" "CHR 0x0A \<notin> set t" by (auto simp: is_line_def)
  with 3 keep_lines_run [of t "[]" "CHR 0x0A # concat (l' # ls)"] show ?case by simp
qed simp

lemma proper_lines_no_CR: "proper_lines ls \<Longrightarrow> CHR 0x0D \<notin> set (concat ls)"
  by (induction ls rule: proper_lines.induct) (auto simp: is_line_def)

lemma file_lines_proper: "proper_lines (file_lines s)"
  by (simp add: file_lines_def keep_lines_proper universal_newlines_no_CR)

lemma file_lines_concat: "proper_lines ls \<Longrightarrow> file_lines (concat ls) = ls"
  unfolding file_lines_def by (metis universal_newlines_id proper_lines_no_CR keep_lines_concat)

subsection \<open>What the filter changes\<close>

definition lock_rewrite :: "string \<Rightarrow> string \<Rightarrow> bool" where
  "lock_rewrite line line' \<longleftrightarrow> startswith line ''locked='' \<and>
     line' = ''locked='' @ join '' '' (map lock_word (str_words (removeprefix line ''locked=''))) @ [CHR 0x0A]"

lemma split_words_snoc_space: "is_space c \<Longrightarrow> split_words cur (s @ [c]) = split_words cur s"
  by (induction cur s rule: split_words.induct) auto

lemma lock_word_plain: "is_plain_word (lock_word v)"
  by (simp add: lock_word_def is_plain_word_def is_space_def)

lemma lock_words_read: "str_words (join '' '' (map lock_word ws) @ [CHR 0x0A]) = map lock_word ws"
  using str_words_join [of "map lock_word ws"]
  by (simp add: str_words_def split_words_snoc_space is_space_def list_all_iff lock_word_plain)

lemma lock_word_chars: "CHR 0x0A \<notin> set (lock_word v)" "CHR 0x0D \<notin> set (lock_word v)"
  by (simp_all add: lock_word_def)

lemma lock_rewrite_is_line:
  assumes "lock_rewrite line line'"
  shows "is_line b line'"
proof -
  let ?t = "''locked='' @ join '' '' (map lock_word (str_words (removeprefix line ''locked='')))"
  have "CHR 0x0A \<notin> set ?t" "CHR 0x0D \<notin> set ?t"
    using join_chars [of "'' ''" "map lock_word (str_words (removeprefix line ''locked=''))"] lock_word_chars by auto
  moreover have "line' = ?t @ [CHR 0x0A]"
    using assms by (simp add: lock_rewrite_def)
  ultimately show ?thesis unfolding is_line_def by blast
qed

lemma normalize_lock_again:
  assumes "normalize_lock path line = Inr (line', True)"
  shows "normalize_lock path' line' = Inr (line', False)"
proof -
  let ?ws = "str_words (removeprefix line ''locked='')"
  have l: "?ws \<noteq> []" "line' = ''locked='' @ join '' '' (map lock_word ?ws) @ [CHR 0x0A]"
    using assms by (auto simp: normalize_lock_def Let_def split: if_splits)
  have words: "str_words (removeprefix line' ''locked='') = map lock_word ?ws"
    unfolding l(2) removeprefix_append by (rule lock_words_read)
  have "set (map lock_word ?ws) \<subseteq> {''true'', ''false''}"
    by (auto simp: lock_word_def)
  moreover have "\<not> set (map lock_word ?ws) \<subseteq> {''0'', ''1''}"
    using l(1) by (cases ?ws) (auto simp: lock_word_def)
  ultimately show ?thesis
    by (simp only: normalize_lock_def words Let_def if_False simp_thms)
qed

lemma normalize_lock_kept: "normalize_lock path line = Inr (line', False) \<Longrightarrow> line' = line \<and> normalize_lock path' line = Inr (line, False)"
  by (auto simp: normalize_lock_def Let_def split: if_splits)

lemma normalize_lock_rewrite:
  "normalize_lock path line = Inr (line', True) \<Longrightarrow> startswith line ''locked='' \<Longrightarrow> lock_rewrite line line'"
  by (auto simp: normalize_lock_def lock_rewrite_def Let_def split: if_splits)

text \<open>One line: it is kept or it is a rewritten lock vector, which the filter would then keep.\<close>

lemma normalize_line_step:
  assumes "normalize_line path current line = Inr (line', changed)"
  shows "(if changed then lock_rewrite line line' else line' = line)"
    and "normalize_line path' current line' = Inr (line', False)"
    and "next_section c line' = next_section c line"
proof -
  show step: "if changed then lock_rewrite line line' else line' = line"
    using assms normalize_lock_kept [of path line line'] normalize_lock_rewrite [of path line line']
    by (auto simp: normalize_line_def split: if_splits)
  show "next_section c line' = next_section c line"
    using step by (auto simp: next_section_def lock_rewrite_def startswith_iff split: if_splits)
  show "normalize_line path' current line' = Inr (line', False)"
  proof (cases changed)
    case True
    with assms have "normalize_lock path line = Inr (line', True)" "current = flash_section"
      by (auto simp: normalize_line_def split: if_splits)
    with step True show ?thesis by (simp add: normalize_line_def normalize_lock_again)
  next
    case False
    with assms step normalize_lock_kept [of path line line] show ?thesis by (auto simp: normalize_line_def split: if_splits)
  qed
qed

lemma normalize_lines_step:
  assumes "normalize_lines path current ls = Inr (out, changed)"
  shows "list_all2 (\<lambda>l l'. l' = l \<or> lock_rewrite l l') ls out \<and> normalize_lines path' current out = Inr (out, False) \<and>
    (changed \<or> out = ls)"
  using assms
proof (induction ls arbitrary: current out changed)
  case (Cons l ls)
  from Cons.prems obtain l' c out' c' where step: "normalize_line path (next_section current l) l = Inr (l', c)"
    "normalize_lines path (next_section current l) ls = Inr (out', c')" "out = l' # out'" "changed \<longleftrightarrow> c \<or> c'"
    by (auto simp: Let_def)
  from normalize_line_step [OF step(1)] Cons.IH [OF step(2)] step(3,4) show ?case
    by (auto simp: Let_def split: if_splits)
qed simp

lemma proper_lines_rewrite:
  "list_all2 (\<lambda>l l'. l' = l \<or> lock_rewrite l l') ls out \<Longrightarrow> proper_lines ls \<Longrightarrow> proper_lines out"
proof (induction ls out rule: list_all2_induct)
  case (Cons l ls l' out)
  show ?case
  proof (cases ls)
    case Nil
    with Cons show ?thesis by (auto dest: lock_rewrite_is_line)
  next
    case (Cons k ks)
    then obtain k' ks' where out: "out = k' # ks'" using Cons.hyps by (cases out) auto
    from Cons.prems Cons.IH Cons.hyps(1) \<open>ls = k # ks\<close> show ?thesis
      unfolding out by (auto dest: lock_rewrite_is_line)
  qed
qed simp

lemma normalize_text_step:
  assumes "normalize_text path content = Inr (out, changed)"
  shows "list_all2 (\<lambda>l l'. l' = l \<or> lock_rewrite l l') (file_lines content) (file_lines out) \<and>
    normalize_text path' out = Inr (out, False)"
proof -
  obtain ls where ls: "normalize_lines path [] (file_lines content) = Inr (ls, changed)" "out = concat ls"
    using assms by (auto simp: normalize_text_def)
  note step = normalize_lines_step [OF ls(1)]
  have "file_lines out = ls"
    using file_lines_concat [OF proper_lines_rewrite [OF conjunct1 [OF step] file_lines_proper]] ls(2) by simp
  with step ls(2) show ?thesis
    by (simp add: normalize_text_def)
qed


definition demo_checkpoint :: ckpt_files where
  "demo_checkpoint = [''m5.cpt'' \<mapsto> (''[system.realview.flash1.blocks]'' @ [CHR 0x0A] @ ''locked=0 1'' @ [CHR 0x0A], 420)]"

lemma demo_normalized:
  "normalize_text ''m5.cpt'' (''[system.realview.flash1.blocks]'' @ [CHR 0x0A] @ ''locked=0 1'' @ [CHR 0x0A]) =
     Inr (''[system.realview.flash1.blocks]'' @ [CHR 0x0A] @ ''locked=false true'' @ [CHR 0x0A], True)"
  by code_simp


end
