(* ===== verification/Coordinated_Checkpoint.thy ===== *)
theory Coordinated_Checkpoint
  imports Dual_Serial
begin

section \<open>Stopping all guests at one checkpoint\<close>

text \<open>
  Model of \<^verbatim>\<open>tools/coordinated_checkpoint.py\<close>: one thread per console and the
  \<^verbatim>\<open>threading.Barrier\<close> they share, as a step relation in which the threads move in any order.  What
  happens to a thread at a step is an event: its loop test finds the deadline passed, \<^verbatim>\<open>recv\<close>
  times out, \<^verbatim>\<open>recv\<close> delivers bytes (none at the end of the stream), or a socket call raises.
  \<^verbatim>\<open>SHELL_PROMPT_PATTERN\<close> is the pattern of the serial command tool.
\<close>

subsection \<open>A thread\<close>

datatype cp_event = Deadline_Passed | Recv_Timeout | Recv string | Socket_Error string

datatype cp_phase = Connecting | Prompting bool | Gated | Stopping | Stopped | Failed string

record cp_thread =
  ct_port :: int
  ct_phase :: cp_phase
  ct_data :: string
  ct_sent :: "string list"

definition checkpoint_command :: string where
  "checkpoint_command = CHR 0x15 # ''/usr/bin/ubsim-checkpoint'' @ [CHR 0x0A]"

definition cp_fail :: "string \<Rightarrow> cp_thread \<Rightarrow> cp_thread" where
  "cp_fail message t = t\<lparr>ct_phase := Failed (''UART '' @ str_int (ct_port t) @ '': '' @ message)\<rparr>"

text \<open>
  One round of the first loop.  A thread that sees the prompt goes on to the barrier.
\<close>

definition prompt_round :: "cp_event \<Rightarrow> bool \<Rightarrow> cp_thread \<Rightarrow> cp_thread" where
  "prompt_round event kicked t = (case event of
       Deadline_Passed \<Rightarrow> cp_fail ''shell prompt timeout'' t
     | Recv_Timeout \<Rightarrow> if kicked then t else t\<lparr>ct_phase := Prompting True, ct_sent := ct_sent t @ [[CHR 0x0D]]\<rparr>
     | Socket_Error e \<Rightarrow> cp_fail e t
     | Recv chunk \<Rightarrow>
         if chunk = [] then cp_fail ''console closed before shell prompt'' t
         else let t' = t\<lparr>ct_data := ct_data t @ chunk\<rparr> in
           if str_in ''terminal already attached'' (ct_data t') then cp_fail ''terminal already attached; detach with ~. first'' t'
           else if prompt_seen (ct_data t') then t'\<lparr>ct_phase := Gated\<rparr>
           else t')"

text \<open>One round of the second loop: the console closes when gem5 stops.\<close>

definition stop_round :: "cp_event \<Rightarrow> cp_thread \<Rightarrow> cp_thread" where
  "stop_round event t = (case event of
       Deadline_Passed \<Rightarrow> cp_fail ''gem5 did not stop after checkpoint'' t
     | Recv_Timeout \<Rightarrow> t
     | Socket_Error e \<Rightarrow> cp_fail e t
     | Recv chunk \<Rightarrow> if chunk = [] then t\<lparr>ct_phase := Stopped\<rparr> else t)"

subsection \<open>The threads and their barrier\<close>

text \<open>
  The barrier is filling until all its parties wait, then it lets them pass.  A party that gives up
  breaks it, and then \<^verbatim>\<open>wait\<close> raises \<^verbatim>\<open>BrokenBarrierError\<close>, which has no message, in every party
  that waits or comes later.
\<close>

datatype cp_gate = Filling | Passing | Broken

record cp_system =
  cp_threads :: "cp_thread list"
  cp_gate :: cp_gate
  cp_errors :: "string list"

definition put_thread :: "nat \<Rightarrow> cp_thread \<Rightarrow> cp_system \<Rightarrow> cp_system" where
  "put_thread i t s = s\<lparr>cp_threads := (cp_threads s)[i := t],
     cp_errors := cp_errors s @ (case ct_phase t of Failed m \<Rightarrow> [m] | _ \<Rightarrow> [])\<rparr>"

definition all_gated :: "cp_system \<Rightarrow> bool" where
  "all_gated s \<longleftrightarrow> list_all (\<lambda>t. ct_phase t = Gated) (cp_threads s)"

inductive cp_step :: "cp_system \<Rightarrow> cp_system \<Rightarrow> bool" where
  connect: "i < length (cp_threads s) \<Longrightarrow> t = cp_threads s ! i \<Longrightarrow> ct_phase t = Connecting \<Longrightarrow>
     cp_step s (put_thread i (t\<lparr>ct_phase := Prompting False\<rparr>) s)"
| refuse: "i < length (cp_threads s) \<Longrightarrow> t = cp_threads s ! i \<Longrightarrow> ct_phase t = Connecting \<Longrightarrow>
     cp_step s (put_thread i (cp_fail e t) s)"
| prompt: "i < length (cp_threads s) \<Longrightarrow> t = cp_threads s ! i \<Longrightarrow> ct_phase t = Prompting kicked \<Longrightarrow>
     cp_step s (put_thread i (prompt_round event kicked t) s)"
| open_gate: "cp_gate s = Filling \<Longrightarrow> all_gated s \<Longrightarrow> cp_step s (s\<lparr>cp_gate := Passing\<rparr>)"
| give_up: "i < length (cp_threads s) \<Longrightarrow> t = cp_threads s ! i \<Longrightarrow> ct_phase t = Gated \<Longrightarrow> cp_gate s = Filling \<Longrightarrow>
     cp_step s ((put_thread i (cp_fail [] t) s)\<lparr>cp_gate := Broken\<rparr>)"
| broken: "i < length (cp_threads s) \<Longrightarrow> t = cp_threads s ! i \<Longrightarrow> ct_phase t = Gated \<Longrightarrow> cp_gate s = Broken \<Longrightarrow>
     cp_step s (put_thread i (cp_fail [] t) s)"
| pass: "i < length (cp_threads s) \<Longrightarrow> t = cp_threads s ! i \<Longrightarrow> ct_phase t = Gated \<Longrightarrow> cp_gate s = Passing \<Longrightarrow>
     cp_step s (put_thread i (t\<lparr>ct_phase := Stopping, ct_sent := ct_sent t @ [checkpoint_command]\<rparr>) s)"
| pass_fails: "i < length (cp_threads s) \<Longrightarrow> t = cp_threads s ! i \<Longrightarrow> ct_phase t = Gated \<Longrightarrow> cp_gate s = Passing \<Longrightarrow>
     cp_step s (put_thread i (cp_fail e t) s)"
| stop: "i < length (cp_threads s) \<Longrightarrow> t = cp_threads s ! i \<Longrightarrow> ct_phase t = Stopping \<Longrightarrow>
     cp_step s (put_thread i (stop_round event t) s)"

definition cp_start :: "int list \<Rightarrow> cp_system" where
  "cp_start ports = \<lparr>cp_threads = map (\<lambda>p. \<lparr>ct_port = p, ct_phase = Connecting, ct_data = [], ct_sent = []\<rparr>) ports,
     cp_gate = Filling, cp_errors = []\<rparr>"

text \<open>The exit code of the program, once its threads have ended: the errors decide it.\<close>

definition cp_ended :: "cp_thread \<Rightarrow> bool" where
  "cp_ended t \<longleftrightarrow> (case ct_phase t of Stopped \<Rightarrow> True | Failed _ \<Rightarrow> True | _ \<Rightarrow> False)"

definition cp_exit :: "cp_system \<Rightarrow> int" where
  "cp_exit s = (if cp_errors s \<noteq> [] then 1 else 0)"

subsection \<open>The invariant\<close>

definition kicks_only :: "string list \<Rightarrow> bool" where
  "kicks_only sent \<longleftrightarrow> sent = [] \<or> sent = [[CHR 0x0D]]"

definition thread_inv :: "cp_gate \<Rightarrow> string list \<Rightarrow> cp_thread \<Rightarrow> bool" where
  "thread_inv gate errors t \<longleftrightarrow>
     (gate = Passing \<longrightarrow> prompt_seen (ct_data t)) \<and>
     (case ct_phase t of
        Connecting \<Rightarrow> gate \<noteq> Passing \<and> ct_sent t = []
      | Prompting kicked \<Rightarrow> gate \<noteq> Passing \<and> ct_sent t = (if kicked then [[CHR 0x0D]] else [])
      | Gated \<Rightarrow> prompt_seen (ct_data t) \<and> kicks_only (ct_sent t)
      | Failed m \<Rightarrow> m \<in> set errors \<and> (checkpoint_command \<in> set (ct_sent t) \<longrightarrow> gate = Passing)
      | _ \<Rightarrow> gate = Passing \<and> (\<exists>kicks. kicks_only kicks \<and> ct_sent t = kicks @ [checkpoint_command]))"

definition cp_inv :: "cp_system \<Rightarrow> bool" where
  "cp_inv s \<longleftrightarrow> list_all (thread_inv (cp_gate s) (cp_errors s)) (cp_threads s)"

lemma kick_not_command [simp]: "checkpoint_command \<noteq> [CHR 0x0D]" "[CHR 0x0D] \<noteq> checkpoint_command"
  by (simp_all add: checkpoint_command_def)

lemma kicks_only_command: "kicks_only sent \<Longrightarrow> checkpoint_command \<notin> set sent"
  by (auto simp: kicks_only_def)

lemma thread_inv_more_errors: "thread_inv gate errors t \<Longrightarrow> thread_inv gate (errors @ es) t"
  by (auto simp: thread_inv_def split: cp_phase.splits)

lemma cp_inv_put:
  assumes "cp_inv s" "thread_inv (cp_gate s) (cp_errors s @ (case ct_phase t of Failed m \<Rightarrow> [m] | _ \<Rightarrow> [])) t"
  shows "cp_inv (put_thread i t s)"
proof -
  have "list_all (thread_inv (cp_gate s) (cp_errors s @ (case ct_phase t of Failed m \<Rightarrow> [m] | _ \<Rightarrow> []))) (cp_threads s)"
    using assms(1) by (auto simp: cp_inv_def list_all_iff intro: thread_inv_more_errors)
  with assms(2) show ?thesis
    by (auto simp: cp_inv_def put_thread_def list_all_iff dest!: set_update_subset_insert [THEN subsetD])
qed

lemma cp_inv_thread: "cp_inv s \<Longrightarrow> i < length (cp_threads s) \<Longrightarrow> thread_inv (cp_gate s) (cp_errors s) (cp_threads s ! i)"
  by (simp add: cp_inv_def list_all_length)

text \<open>A failing thread keeps what it has sent and received.\<close>

lemma thread_inv_fail:
  "thread_inv gate errors t \<Longrightarrow>
     thread_inv gate (errors @ (case ct_phase (cp_fail e t) of Failed m \<Rightarrow> [m] | _ \<Rightarrow> [])) (cp_fail e t)"
  by (auto simp: thread_inv_def cp_fail_def kicks_only_command split: cp_phase.splits if_splits)

lemma thread_inv_prompt:
  assumes "thread_inv gate errors t" "ct_phase t = Prompting kicked"
  shows "thread_inv gate (errors @ (case ct_phase (prompt_round event kicked t) of Failed m \<Rightarrow> [m] | _ \<Rightarrow> [])) (prompt_round event kicked t)"
  using assms
  by (auto simp: thread_inv_def prompt_round_def cp_fail_def kicks_only_def Let_def split: cp_event.splits if_splits)

lemma thread_inv_stop:
  assumes "thread_inv gate errors t" "ct_phase t = Stopping"
  shows "thread_inv gate (errors @ (case ct_phase (stop_round event t) of Failed m \<Rightarrow> [m] | _ \<Rightarrow> [])) (stop_round event t)"
  using assms
  by (auto simp: thread_inv_def stop_round_def cp_fail_def split: cp_event.splits if_splits)

lemma cp_step_inv: "cp_step s s' \<Longrightarrow> cp_inv s \<Longrightarrow> cp_inv s'"
proof (induction rule: cp_step.induct)
  case (connect i s t)
  then show ?case using cp_inv_thread [of s i] by (intro cp_inv_put) (auto simp: thread_inv_def)
next
  case (refuse i s t e)
  then show ?case using cp_inv_thread [of s i] by (intro cp_inv_put thread_inv_fail) auto
next
  case (prompt i s t kicked event)
  then show ?case using cp_inv_thread [of s i] by (intro cp_inv_put thread_inv_prompt) auto
next
  case (open_gate s)
  then show ?case by (auto simp: cp_inv_def all_gated_def list_all_iff thread_inv_def)
next
  case (give_up i s t)
  then have "cp_inv (put_thread i (cp_fail [] t) s)"
    using cp_inv_thread [of s i] by (intro cp_inv_put thread_inv_fail) auto
  moreover have "cp_gate (put_thread i (cp_fail [] t) s) = Filling" using give_up by (simp add: put_thread_def)
  ultimately show ?case
    by (auto simp: cp_inv_def list_all_iff thread_inv_def split: cp_phase.splits)
next
  case (broken i s t)
  then show ?case using cp_inv_thread [of s i] by (intro cp_inv_put thread_inv_fail) auto
next
  case (pass i s t)
  then show ?case using cp_inv_thread [of s i] by (intro cp_inv_put) (auto simp: thread_inv_def)
next
  case (pass_fails i s t e)
  then show ?case using cp_inv_thread [of s i] by (intro cp_inv_put thread_inv_fail) auto
next
  case (stop i s t event)
  then show ?case using cp_inv_thread [of s i] by (intro cp_inv_put thread_inv_stop) auto
qed

lemma ports_put: "i < length (cp_threads s) \<Longrightarrow> ct_port t = ct_port (cp_threads s ! i) \<Longrightarrow>
    map ct_port (cp_threads (put_thread i t s)) = map ct_port (cp_threads s)"
  by (simp add: put_thread_def map_update) (metis list_update_id nth_map)

lemma ct_port_rounds [simp]:
  "ct_port (cp_fail e t) = ct_port t" "ct_port (prompt_round event kicked t) = ct_port t" "ct_port (stop_round event t) = ct_port t"
  by (auto simp: cp_fail_def prompt_round_def stop_round_def Let_def split: cp_event.splits)

lemma cp_step_ports: "cp_step s s' \<Longrightarrow> map ct_port (cp_threads s') = map ct_port (cp_threads s)"
  by (induction rule: cp_step.induct) (simp_all add: ports_put)

interpretation checkpoint: transition_invariant cp_step "\<lambda>s. cp_inv s \<and> map ct_port (cp_threads s) = ports" for ports
  by unfold_locales (simp add: cp_step_inv cp_step_ports)

lemma cp_inv_start: "cp_inv (cp_start ports)" "map ct_port (cp_threads (cp_start ports)) = ports"
  by (simp_all add: cp_inv_def cp_start_def list_all_iff thread_inv_def comp_def)

text \<open>
  C16. The checkpoint is coordinated, in every interleaving of the threads.  There is one thread per port;
  once any thread has sent the checkpoint command, every console has shown its shell prompt; and
  when all threads have ended and the exit code is 0, every thread has sent the command exactly once,
  after at most one carriage return, and has seen its console close.
\<close>

theorem checkpoint_coordinated:
  assumes "cp_step\<^sup>*\<^sup>* (cp_start ports) s"
  shows "map ct_port (cp_threads s) = ports \<and>
    ((\<exists>t \<in> set (cp_threads s). checkpoint_command \<in> set (ct_sent t)) \<longrightarrow> (\<forall>t \<in> set (cp_threads s). prompt_seen (ct_data t))) \<and>
    (list_all cp_ended (cp_threads s) \<and> cp_exit s = 0 \<longrightarrow>
       (\<forall>t \<in> set (cp_threads s). ct_phase t = Stopped \<and>
          (\<exists>kicks. kicks_only kicks \<and> ct_sent t = kicks @ [checkpoint_command])))"
proof -
  have inv: "cp_inv s" "map ct_port (cp_threads s) = ports"
    using checkpoint.reachable_inv [OF assms] cp_inv_start by simp_all
  have each: "thread_inv (cp_gate s) (cp_errors s) t" if "t \<in> set (cp_threads s)" for t
    using inv(1) that by (simp add: cp_inv_def list_all_iff)
  have gate: "cp_gate s = Passing" if "t \<in> set (cp_threads s)" "checkpoint_command \<in> set (ct_sent t)" for t
    using each [OF that(1)] that(2) by (auto simp: thread_inv_def kicks_only_command split: cp_phase.splits if_splits)
  have "prompt_seen (ct_data u)"
    if "t \<in> set (cp_threads s)" "checkpoint_command \<in> set (ct_sent t)" "u \<in> set (cp_threads s)" for t u
    using each [OF that(3)] gate [OF that(1,2)] by (simp add: thread_inv_def)
  moreover have "ct_phase t = Stopped \<and> (\<exists>kicks. kicks_only kicks \<and> ct_sent t = kicks @ [checkpoint_command])"
    if "list_all cp_ended (cp_threads s)" "cp_exit s = 0" "t \<in> set (cp_threads s)" for t
    using each [OF that(3)] that(1,2,3)
    by (auto simp: thread_inv_def cp_exit_def cp_ended_def list_all_iff split: cp_phase.splits if_splits)
  ultimately show ?thesis using inv(2) by blast
qed

text \<open>A run on two consoles that ends with exit code 0.\<close>

definition demo_prompt :: string where
  "demo_prompt = ''(none)# ''"

definition demo_thread :: "int \<Rightarrow> cp_phase \<Rightarrow> string \<Rightarrow> string list \<Rightarrow> cp_thread" where
  "demo_thread port phase data sent = \<lparr>ct_port = port, ct_phase = phase, ct_data = data, ct_sent = sent\<rparr>"

definition demo_threads :: "cp_thread \<Rightarrow> cp_thread \<Rightarrow> cp_gate \<Rightarrow> cp_system" where
  "demo_threads a b gate = \<lparr>cp_threads = [a, b], cp_gate = gate, cp_errors = []\<rparr>"

lemma demo_prompt_seen: "prompt_seen demo_prompt" "\<not> str_in ''terminal already attached'' demo_prompt"
  by code_simp+

text \<open>What one thread of the run does, with the other standing still.\<close>

lemma demo_step_prompt:
  "cp_step\<^sup>*\<^sup>* (demo_threads (demo_thread p Connecting [] []) b Filling) (demo_threads (demo_thread p Gated demo_prompt []) b Filling)"
  "cp_step\<^sup>*\<^sup>* (demo_threads a (demo_thread q Connecting [] []) Filling) (demo_threads a (demo_thread q Gated demo_prompt []) Filling)"
proof -
  have prompted: "prompt_round (Recv demo_prompt) False (demo_thread r (Prompting False) [] []) = demo_thread r Gated demo_prompt []" for r
    using demo_prompt_seen by (simp add: prompt_round_def demo_thread_def Let_def demo_prompt_def)
  have "cp_step (demo_threads (demo_thread p Connecting [] []) b Filling) (demo_threads (demo_thread p (Prompting False) [] []) b Filling)"
    using cp_step.connect [of 0 "demo_threads (demo_thread p Connecting [] []) b Filling"]
    by (simp add: demo_threads_def demo_thread_def put_thread_def)
  moreover have "cp_step (demo_threads (demo_thread p (Prompting False) [] []) b Filling) (demo_threads (demo_thread p Gated demo_prompt []) b Filling)"
    using cp_step.prompt [of 0 "demo_threads (demo_thread p (Prompting False) [] []) b Filling" _ False "Recv demo_prompt"] prompted [of p]
    by (simp add: demo_threads_def demo_thread_def put_thread_def)
  ultimately show "cp_step\<^sup>*\<^sup>* (demo_threads (demo_thread p Connecting [] []) b Filling) (demo_threads (demo_thread p Gated demo_prompt []) b Filling)"
    by (meson r_into_rtranclp rtranclp_trans)
  have "cp_step (demo_threads a (demo_thread q Connecting [] []) Filling) (demo_threads a (demo_thread q (Prompting False) [] []) Filling)"
    using cp_step.connect [of 1 "demo_threads a (demo_thread q Connecting [] []) Filling"]
    by (simp add: demo_threads_def demo_thread_def put_thread_def)
  moreover have "cp_step (demo_threads a (demo_thread q (Prompting False) [] []) Filling) (demo_threads a (demo_thread q Gated demo_prompt []) Filling)"
    using cp_step.prompt [of 1 "demo_threads a (demo_thread q (Prompting False) [] []) Filling" _ False "Recv demo_prompt"] prompted [of q]
    by (simp add: demo_threads_def demo_thread_def put_thread_def)
  ultimately show "cp_step\<^sup>*\<^sup>* (demo_threads a (demo_thread q Connecting [] []) Filling) (demo_threads a (demo_thread q Gated demo_prompt []) Filling)"
    by (meson r_into_rtranclp rtranclp_trans)
qed

lemma demo_step_stop:
  "cp_step\<^sup>*\<^sup>* (demo_threads (demo_thread p Gated demo_prompt []) b Passing) (demo_threads (demo_thread p Stopped demo_prompt [checkpoint_command]) b Passing)"
  "cp_step\<^sup>*\<^sup>* (demo_threads a (demo_thread q Gated demo_prompt []) Passing) (demo_threads a (demo_thread q Stopped demo_prompt [checkpoint_command]) Passing)"
proof -
  let ?stopping = "\<lambda>r. demo_thread r Stopping demo_prompt [checkpoint_command]"
  have "cp_step (demo_threads (demo_thread p Gated demo_prompt []) b Passing) (demo_threads (?stopping p) b Passing)"
    using cp_step.pass [of 0 "demo_threads (demo_thread p Gated demo_prompt []) b Passing"]
    by (simp add: demo_threads_def demo_thread_def put_thread_def)
  moreover have "cp_step (demo_threads (?stopping p) b Passing) (demo_threads (demo_thread p Stopped demo_prompt [checkpoint_command]) b Passing)"
    using cp_step.stop [of 0 "demo_threads (?stopping p) b Passing" _ "Recv []"]
    by (simp add: demo_threads_def demo_thread_def put_thread_def stop_round_def)
  ultimately show "cp_step\<^sup>*\<^sup>* (demo_threads (demo_thread p Gated demo_prompt []) b Passing) (demo_threads (demo_thread p Stopped demo_prompt [checkpoint_command]) b Passing)"
    by (meson r_into_rtranclp rtranclp_trans)
  have "cp_step (demo_threads a (demo_thread q Gated demo_prompt []) Passing) (demo_threads a (?stopping q) Passing)"
    using cp_step.pass [of 1 "demo_threads a (demo_thread q Gated demo_prompt []) Passing"]
    by (simp add: demo_threads_def demo_thread_def put_thread_def)
  moreover have "cp_step (demo_threads a (?stopping q) Passing) (demo_threads a (demo_thread q Stopped demo_prompt [checkpoint_command]) Passing)"
    using cp_step.stop [of 1 "demo_threads a (?stopping q) Passing" _ "Recv []"]
    by (simp add: demo_threads_def demo_thread_def put_thread_def stop_round_def)
  ultimately show "cp_step\<^sup>*\<^sup>* (demo_threads a (demo_thread q Gated demo_prompt []) Passing) (demo_threads a (demo_thread q Stopped demo_prompt [checkpoint_command]) Passing)"
    by (meson r_into_rtranclp rtranclp_trans)
qed

lemma demo_checkpoint_run:
  "cp_step\<^sup>*\<^sup>* (cp_start [3456, 3466]) (demo_threads (demo_thread 3456 Stopped demo_prompt [checkpoint_command])
     (demo_thread 3466 Stopped demo_prompt [checkpoint_command]) Passing)"
proof -
  have start: "cp_start [3456, 3466] = demo_threads (demo_thread 3456 Connecting [] []) (demo_thread 3466 Connecting [] []) Filling"
    by (simp add: cp_start_def demo_threads_def demo_thread_def)
  have "cp_step (demo_threads (demo_thread 3456 Gated demo_prompt []) (demo_thread 3466 Gated demo_prompt []) Filling)
      (demo_threads (demo_thread 3456 Gated demo_prompt []) (demo_thread 3466 Gated demo_prompt []) Passing)"
    using cp_step.open_gate [of "demo_threads (demo_thread 3456 Gated demo_prompt []) (demo_thread 3466 Gated demo_prompt []) Filling"]
    by (simp add: demo_threads_def demo_thread_def all_gated_def)
  with demo_step_prompt demo_step_stop show ?thesis
    unfolding start by (meson r_into_rtranclp rtranclp_trans)
qed

theorem checkpoint_coordinated_witness:
  "\<exists>s. cp_step\<^sup>*\<^sup>* (cp_start [3456, 3466]) s \<and> map ct_port (cp_threads s) = [3456, 3466] \<and> cp_exit s = 0 \<and>
     list_all (\<lambda>t. prompt_seen (ct_data t) \<and> ct_phase t = Stopped) (cp_threads s)"
proof -
  obtain s where s: "s = demo_threads (demo_thread 3456 Stopped demo_prompt [checkpoint_command])
      (demo_thread 3466 Stopped demo_prompt [checkpoint_command]) Passing" by blast
  have run: "cp_step\<^sup>*\<^sup>* (cp_start [3456, 3466]) s"
    unfolding s by (rule demo_checkpoint_run)
  have "cp_exit s = 0" "list_all cp_ended (cp_threads s)" "\<exists>t \<in> set (cp_threads s). checkpoint_command \<in> set (ct_sent t)"
    by (simp_all add: s cp_exit_def cp_ended_def demo_threads_def demo_thread_def)
  with checkpoint_coordinated [OF run] run show ?thesis
    by (intro exI [of _ s]) (simp add: list_all_iff)
qed

end
