(* ===== verification/Py_Float.thy ===== *)
theory Py_Float
  imports Complex_Main "HOL-Library.Log_Nat" Py_Prelude
begin

section \<open>Floating-point numbers\<close>

text \<open>
  Python's \<^verbatim>\<open>float\<close>: IEEE 754 binary64 with rounding to nearest, ties to even.  A finite number is
  its rational value; the sign of zero is not kept, because no code modelled here tells the two
  zeros apart.  Every operation rounds the exact result.
\<close>

datatype pyfloat = Fin rat | Infinite bool | Not_A_Number

subsection \<open>Rounding\<close>

definition pow2 :: "int \<Rightarrow> rat" where
  "pow2 e = 2 powi e"

definition round_half_even :: "rat \<Rightarrow> int" where
  "round_half_even x = (let f = \<lfloor>x\<rfloor>; d = x - of_int f in
     if d < 1 / 2 \<or> (d = 1 / 2 \<and> even f) then f else f + 1)"

text \<open>The exponent of the leading bit of a positive number, from the lengths of its two parts.\<close>

definition leading_exponent :: "rat \<Rightarrow> int" where
  "leading_exponent x = (case quotient_of x of (p, q) \<Rightarrow>
     let e = bitlen p - bitlen q in if x < pow2 e then e - 1 else e)"

definition fl_exponent :: "rat \<Rightarrow> int" where
  "fl_exponent x = max (- 1074) (leading_exponent \<bar>x\<bar> - 52)"

definition fl_round :: "rat \<Rightarrow> pyfloat" where
  "fl_round x = (if x = 0 then Fin 0 else
     let e = fl_exponent x; y = of_int (round_half_even (x / pow2 e)) * pow2 e in
     if 2 ^ 1024 \<le> \<bar>y\<bar> then Infinite (x < 0) else Fin y)"

subsection \<open>Operations\<close>

definition fl_isfinite :: "pyfloat \<Rightarrow> bool" where
  "fl_isfinite a \<longleftrightarrow> (case a of Fin _ \<Rightarrow> True | _ \<Rightarrow> False)"

definition fl_negative :: "pyfloat \<Rightarrow> bool" where
  "fl_negative a \<longleftrightarrow> (case a of Fin x \<Rightarrow> x < 0 | Infinite n \<Rightarrow> n | Not_A_Number \<Rightarrow> False)"

fun fl_neg :: "pyfloat \<Rightarrow> pyfloat" where
  "fl_neg (Fin x) = Fin (- x)"
| "fl_neg (Infinite n) = Infinite (\<not> n)"
| "fl_neg Not_A_Number = Not_A_Number"

fun fl_abs :: "pyfloat \<Rightarrow> pyfloat" where
  "fl_abs (Fin x) = Fin \<bar>x\<bar>"
| "fl_abs (Infinite n) = Infinite False"
| "fl_abs Not_A_Number = Not_A_Number"

fun fl_add :: "pyfloat \<Rightarrow> pyfloat \<Rightarrow> pyfloat" where
  "fl_add (Fin x) (Fin y) = fl_round (x + y)"
| "fl_add (Infinite n) (Fin y) = Infinite n"
| "fl_add (Fin x) (Infinite n) = Infinite n"
| "fl_add (Infinite n) (Infinite k) = (if n = k then Infinite n else Not_A_Number)"
| "fl_add _ _ = Not_A_Number"

definition fl_sub :: "pyfloat \<Rightarrow> pyfloat \<Rightarrow> pyfloat" where
  "fl_sub a b = fl_add a (fl_neg b)"

fun fl_mul :: "pyfloat \<Rightarrow> pyfloat \<Rightarrow> pyfloat" where
  "fl_mul (Fin x) (Fin y) = fl_round (x * y)"
| "fl_mul (Infinite n) (Fin y) = (if y = 0 then Not_A_Number else Infinite (n \<noteq> (y < 0)))"
| "fl_mul (Fin x) (Infinite n) = (if x = 0 then Not_A_Number else Infinite (n \<noteq> (x < 0)))"
| "fl_mul (Infinite n) (Infinite k) = Infinite (n \<noteq> k)"
| "fl_mul _ _ = Not_A_Number"

text \<open>Division by zero raises, whatever the dividend.\<close>

fun fl_div :: "pyfloat \<Rightarrow> pyfloat \<Rightarrow> pyfloat res" where
  "fl_div a (Fin y) = (if y = 0 then Inl (ZeroDivisionError ''float division by zero'')
     else Inr (case a of Fin x \<Rightarrow> fl_round (x / y) | Infinite n \<Rightarrow> Infinite (n \<noteq> (y < 0)) | Not_A_Number \<Rightarrow> Not_A_Number))"
| "fl_div (Fin x) (Infinite n) = Inr (Fin 0)"
| "fl_div _ _ = Inr Not_A_Number"

fun fl_le :: "pyfloat \<Rightarrow> pyfloat \<Rightarrow> bool" where
  "fl_le (Fin x) (Fin y) \<longleftrightarrow> x \<le> y"
| "fl_le (Fin x) (Infinite n) \<longleftrightarrow> \<not> n"
| "fl_le (Infinite n) (Fin y) \<longleftrightarrow> n"
| "fl_le (Infinite n) (Infinite k) \<longleftrightarrow> n \<or> \<not> k"
| "fl_le _ _ \<longleftrightarrow> False"

definition fl_eq :: "pyfloat \<Rightarrow> pyfloat \<Rightarrow> bool" where
  "fl_eq a b \<longleftrightarrow> fl_le a b \<and> fl_le b a"

definition fl_less :: "pyfloat \<Rightarrow> pyfloat \<Rightarrow> bool" where
  "fl_less a b \<longleftrightarrow> fl_le a b \<and> \<not> fl_le b a"

text \<open>
  An integer in arithmetic with a float is first converted, which raises when it is too large;
  comparisons of a float with an integer and \<^verbatim>\<open>math.floor\<close> are exact.
\<close>

definition fl_of_int :: "int \<Rightarrow> pyfloat res" where
  "fl_of_int i = (case fl_round (of_int i) of
       Fin x \<Rightarrow> Inr (Fin x) | _ \<Rightarrow> Inl (OverflowError ''int too large to convert to float''))"

definition fl_floor :: "pyfloat \<Rightarrow> int res" where
  "fl_floor a = (case a of
       Fin x \<Rightarrow> Inr \<lfloor>x\<rfloor>
     | Infinite _ \<Rightarrow> Inl (OverflowError ''cannot convert float infinity to integer'')
     | Not_A_Number \<Rightarrow> Inl (ValueError ''cannot convert float NaN to integer''))"

definition fl_le_int :: "pyfloat \<Rightarrow> int \<Rightarrow> bool" where
  "fl_le_int a i \<longleftrightarrow> (case a of Fin x \<Rightarrow> x \<le> of_int i | Infinite n \<Rightarrow> n | Not_A_Number \<Rightarrow> False)"

text \<open>\<^verbatim>\<open>math.isclose(a, b, rel_tol=..., abs_tol=...)\<close>.\<close>

definition fl_isclose :: "pyfloat \<Rightarrow> pyfloat \<Rightarrow> pyfloat \<Rightarrow> pyfloat \<Rightarrow> bool" where
  "fl_isclose rel_tol abs_tol a b \<longleftrightarrow>
     (if fl_eq a b then True
      else case (a, b) of
        (Infinite _, _) \<Rightarrow> False
      | (_, Infinite _) \<Rightarrow> False
      | _ \<Rightarrow> (let diff = fl_abs (fl_sub b a) in
          fl_le diff (fl_abs (fl_mul rel_tol b)) \<or> fl_le diff (fl_abs (fl_mul rel_tol a)) \<or> fl_le diff abs_tol))"

subsection \<open>Reading a float\<close>

text \<open>
  \<^verbatim>\<open>float(s)\<close>: white space around, a sign, then \<^verbatim>\<open>inf\<close>, \<^verbatim>\<open>infinity\<close> or \<^verbatim>\<open>nan\<close> in any case, or digits
  with at most one point and an optional exponent; single underscores may stand between digits.
\<close>

fun digit_run :: "nat \<Rightarrow> nat \<Rightarrow> string \<Rightarrow> nat \<times> nat \<times> string" where
  "digit_run v k [] = (v, k, [])"
| "digit_run v k (c # cs) =
     (if is_digit c then digit_run (10 * v + digit_val c) (Suc k) cs
      else if c = CHR ''_'' \<and> 0 < k \<and> cs \<noteq> [] \<and> is_digit (hd cs) then digit_run v k cs
      else (v, k, c # cs))"

definition pow10 :: "int \<Rightarrow> rat" where
  "pow10 e = 10 powi e"

definition parse_exponent :: "string \<Rightarrow> int option" where
  "parse_exponent s = (case s of
       [] \<Rightarrow> Some 0
     | c # cs \<Rightarrow>
         if c \<noteq> CHR ''e'' \<and> c \<noteq> CHR ''E'' then None
         else let (negative, ds) = (case cs of
                  CHR ''-'' # r \<Rightarrow> (True, r) | CHR ''+'' # r \<Rightarrow> (False, r) | _ \<Rightarrow> (False, cs)) in
           case digit_run 0 0 ds of (e, n, rest) \<Rightarrow>
             if n = 0 \<or> rest \<noteq> [] then None else Some (if negative then - int e else int e))"

definition parse_decimal :: "string \<Rightarrow> rat option" where
  "parse_decimal s = (case digit_run 0 0 s of (v, n, rest) \<Rightarrow>
     case (case rest of CHR ''.'' # r \<Rightarrow> digit_run v 0 r | _ \<Rightarrow> (v, 0, rest)) of (m, f, rest') \<Rightarrow>
       if n + f = 0 then None
       else map_option (\<lambda>e. of_nat m * pow10 (e - int f)) (parse_exponent rest'))"

definition ascii_lower :: "string \<Rightarrow> string" where
  "ascii_lower s = map (\<lambda>c. let n = (of_char c :: nat) in if 65 \<le> n \<and> n \<le> 90 then char_of (n + 32) else c) s"

definition parse_unsigned :: "string \<Rightarrow> pyfloat option" where
  "parse_unsigned s = (if ascii_lower s \<in> {''inf'', ''infinity''} then Some (Infinite False)
     else if ascii_lower s = ''nan'' then Some Not_A_Number
     else map_option fl_round (parse_decimal s))"

definition parse_float :: "string \<Rightarrow> pyfloat option" where
  "parse_float s = (case strip s of
       CHR ''-'' # r \<Rightarrow> map_option fl_neg (parse_unsigned r)
     | CHR ''+'' # r \<Rightarrow> parse_unsigned r
     | t \<Rightarrow> parse_unsigned t)"

definition py_float :: "string \<Rightarrow> pyfloat res" where
  "py_float s = (case parse_float s of Some x \<Rightarrow> Inr x | None \<Rightarrow> Inl (ValueError ''could not convert string to float''))"

subsection \<open>Rounding is correct\<close>

lemma pow2_simps: "0 < pow2 e" "pow2 (a + b) = pow2 a * pow2 b" "pow2 0 = 1" "pow2 1 = 2" "pow2 (a - b) = pow2 a / pow2 b"
  by (simp_all add: pow2_def power_int_add power_int_diff)

lemma pow2_mono: "a \<le> b \<Longrightarrow> pow2 a \<le> pow2 b"
  by (simp add: pow2_def power_int_increasing)

lemma pow2_nat: "pow2 (int n) = 2 ^ n"
  by (simp add: pow2_def)

lemma bitlen_pow2:
  assumes "0 < p"
  shows "pow2 (bitlen p - 1) \<le> of_int p" "of_int p < pow2 (bitlen p)"
proof -
  have pos: "0 < bitlen p" using assms floorlog_eq_zero_iff [of 2 "nat p"] by (simp add: bitlen_def)
  have b: "2 ^ nat (bitlen p - 1) \<le> p \<and> p < 2 ^ nat (bitlen p)" by (rule bitlen_bounds [OF assms])
  have "pow2 (bitlen p - 1) = of_int (2 ^ nat (bitlen p - 1))" "pow2 (bitlen p) = of_int (2 ^ nat (bitlen p))"
    using pos pow2_nat [of "nat (bitlen p - 1)"] pow2_nat [of "nat (bitlen p)"] by simp_all
  with b show "pow2 (bitlen p - 1) \<le> of_int p" "of_int p < pow2 (bitlen p)"
    by (simp_all only: of_int_le_iff of_int_less_iff)
qed

lemma leading_exponent_bounds:
  assumes "0 < x"
  shows "pow2 (leading_exponent x) \<le> x \<and> x < pow2 (leading_exponent x + 1)"
proof -
  obtain p q where pq: "quotient_of x = (p, q)" by (metis surj_pair)
  then have q: "0 < q" and x: "x = of_int p / of_int q"
    using quotient_of_denom_pos quotient_of_div by blast+
  with assms have p: "0 < p" by (simp add: zero_less_divide_iff)
  let ?e = "bitlen p - bitlen q"
  have P: "pow2 (bitlen p - 1) \<le> of_int p" "of_int p < pow2 (bitlen p)" by (rule bitlen_pow2 [OF p])+
  have Q: "pow2 (bitlen q - 1) \<le> of_int q" "of_int q < pow2 (bitlen q)" by (rule bitlen_pow2 [OF q])+
  have "x < pow2 (bitlen p) / pow2 (bitlen q - 1)"
    unfolding x using P(2) Q(1) p q pow2_simps(1) by (intro frac_less) simp_all
  then have upper: "x < pow2 (?e + 1)" by (simp add: pow2_simps)
  have "pow2 (bitlen p - 1) / pow2 (bitlen q) < x"
    unfolding x using P(1) Q(2) p q pow2_simps(1) by (intro frac_less2) simp_all
  then have lower: "pow2 (?e - 1) \<le> x" by (simp add: pow2_simps)
  show ?thesis
    using upper lower by (simp add: leading_exponent_def pq Let_def not_less)
qed

lemma round_half_even_error: "\<bar>of_int (round_half_even x) - x\<bar> \<le> 1 / 2"
proof -
  have "of_int \<lfloor>x\<rfloor> \<le> x" "x < of_int \<lfloor>x\<rfloor> + 1" by linarith+
  then show ?thesis
    by (simp add: round_half_even_def Let_def abs_if split: if_splits; linarith)
qed

lemma round_half_even_int [simp]: "round_half_even (of_int i) = i"
  by (simp add: round_half_even_def)

text \<open>
  A finite result is within half a unit in the last place of the exact one, and a number with at
  most 53 significant bits is its own result.
\<close>

lemma fl_round_error:
  assumes "fl_round x = Fin y"
  shows "\<bar>y - x\<bar> \<le> pow2 (fl_exponent x) / 2"
proof (cases "x = 0")
  case True
  with assms show ?thesis using pow2_simps(1) [of "fl_exponent x"] by (simp add: fl_round_def)
next
  case False
  let ?u = "pow2 (fl_exponent x)"
  have y: "y = of_int (round_half_even (x / ?u)) * ?u"
    using assms False by (auto simp: fl_round_def Let_def split: if_splits)
  have pos: "0 < ?u" by (rule pow2_simps(1))
  then have "y - x = (of_int (round_half_even (x / ?u)) - x / ?u) * ?u"
    by (simp add: y left_diff_distrib)
  then have "\<bar>y - x\<bar> = \<bar>of_int (round_half_even (x / ?u)) - x / ?u\<bar> * ?u"
    using pos by (simp add: abs_mult)
  also have "\<dots> \<le> 1 / 2 * ?u"
    using round_half_even_error pow2_simps(1) by (intro mult_right_mono) (auto simp: less_imp_le)
  finally show ?thesis by simp
qed

lemma fl_round_exact:
  assumes "x = of_int m * pow2 e" "\<bar>m\<bar> < 2 ^ 53" "- 1074 \<le> e" "\<bar>x\<bar> < 2 ^ 1024"
  shows "fl_round x = Fin x"
proof (cases "x = 0")
  case True
  then show ?thesis by (simp add: fl_round_def)
next
  case False
  let ?f = "fl_exponent x"
  have "pow2 (leading_exponent \<bar>x\<bar>) \<le> \<bar>x\<bar>"
    using leading_exponent_bounds [of "\<bar>x\<bar>"] False by simp
  also have "\<bar>x\<bar> = of_int \<bar>m\<bar> * pow2 e"
    using pow2_simps(1) [of e] by (simp add: assms(1) abs_mult)
  also have "\<dots> < 2 ^ 53 * pow2 e"
    using assms(2) pow2_simps(1) [of e] by (simp flip: of_int_less_numeral_power_cancel_iff)
  also have "\<dots> = pow2 (53 + e)"
    using pow2_nat [of 53] by (simp add: pow2_simps(2))
  finally have "leading_exponent \<bar>x\<bar> < 53 + e"
    using pow2_mono [of "53 + e" "leading_exponent \<bar>x\<bar>"] by linarith
  then have le: "?f \<le> e" using assms(3) by (simp add: fl_exponent_def)
  have "pow2 e = of_int (2 ^ nat (e - ?f)) * pow2 ?f"
    using le pow2_nat [of "nat (e - ?f)"] pow2_simps(2) [of "e - ?f" ?f] by simp
  then have "x = of_int (m * 2 ^ nat (e - ?f)) * pow2 ?f"
    using assms(1) by (metis mult.assoc of_int_mult)
  then have "x / pow2 ?f = of_int (m * 2 ^ nat (e - ?f))"
    using pow2_simps(1) [of ?f] by (metis nonzero_eq_divide_eq less_numeral_extra(3))
  then have "of_int (round_half_even (x / pow2 ?f)) * pow2 ?f = x"
    using pow2_simps(1) [of ?f] by (metis round_half_even_int nonzero_eq_divide_eq less_numeral_extra(3))
  with False assms(4) show ?thesis
    by (simp add: fl_round_def Let_def)
qed

lemma fl_of_int_exact: "\<bar>i\<bar> < 2 ^ 53 \<Longrightarrow> fl_of_int i = Inr (Fin (of_int i))"
proof -
  assume small: "\<bar>i\<bar> < 2 ^ 53"
  then have "\<bar>of_int i\<bar> < (2 ^ 53 :: rat)" by (simp flip: of_int_abs of_int_less_numeral_power_cancel_iff)
  then have "\<bar>of_int i\<bar> < (2 ^ 1024 :: rat)" by (rule less_le_trans) (rule power_increasing, simp_all)
  then have "fl_round (of_int i) = Fin (of_int i)"
    using small by (intro fl_round_exact [where m = i and e = 0]) (simp_all add: pow2_simps)
  then show ?thesis by (simp add: fl_of_int_def)
qed

end
