(* ===== verification/Py_Shlex.thy ===== *)
theory Py_Shlex
  imports Py_Prelude
begin

section \<open>Splitting a shell command\<close>

text \<open>
  \<^verbatim>\<open>shlex.split\<close> in its POSIX mode, without comments, as the state machine of \<^verbatim>\<open>shlex.read_token\<close>:
  white space between tokens, a plain run of a token, a quoted run, and a character after a
  backslash.  \<open>tok\<close> is the reversed token so far and \<open>quoted\<close> tells whether a quote belongs to
  it, so that \<^verbatim>\<open>''\<close> is a token and nothing is not.
\<close>

datatype sh_state = Sh_Space | Sh_Word | Sh_Quote char | Sh_Escape "char option"

definition sh_white :: "char \<Rightarrow> bool" where
  "sh_white c \<longleftrightarrow> c = CHR 0x20 \<or> c = CHR 0x09 \<or> c = CHR 0x0D \<or> c = CHR 0x0A"

definition sh_quote :: "char \<Rightarrow> bool" where
  "sh_quote c \<longleftrightarrow> c = CHR 0x27 \<or> c = CHR 0x22"

definition sh_finish :: "string \<Rightarrow> bool \<Rightarrow> string list" where
  "sh_finish tok quoted = (if tok = [] \<and> \<not> quoted then [] else [rev tok])"

fun sh_tokens :: "sh_state \<Rightarrow> string \<Rightarrow> bool \<Rightarrow> string \<Rightarrow> string list res" where
  "sh_tokens Sh_Space tok quoted [] = Inr []"
| "sh_tokens Sh_Space tok quoted (c # cs) =
     (if sh_white c then sh_tokens Sh_Space [] False cs
      else if c = CHR 0x5C then sh_tokens (Sh_Escape None) [] False cs
      else if sh_quote c then sh_tokens (Sh_Quote c) [] False cs
      else sh_tokens Sh_Word [c] False cs)"
| "sh_tokens Sh_Word tok quoted [] = Inr (sh_finish tok quoted)"
| "sh_tokens Sh_Word tok quoted (c # cs) =
     (if sh_white c then rbind (sh_tokens Sh_Space [] False cs) (\<lambda>ts. Inr (sh_finish tok quoted @ ts))
      else if sh_quote c then sh_tokens (Sh_Quote c) tok quoted cs
      else if c = CHR 0x5C then sh_tokens (Sh_Escape None) tok quoted cs
      else sh_tokens Sh_Word (c # tok) quoted cs)"
| "sh_tokens (Sh_Quote q) tok quoted [] = Inl (ValueError ''No closing quotation'')"
| "sh_tokens (Sh_Quote q) tok quoted (c # cs) =
     (if c = q then sh_tokens Sh_Word tok True cs
      else if c = CHR 0x5C \<and> q = CHR 0x22 then sh_tokens (Sh_Escape (Some q)) tok True cs
      else sh_tokens (Sh_Quote q) (c # tok) True cs)"
| "sh_tokens (Sh_Escape e) tok quoted [] = Inl (ValueError ''No escaped character'')"
| "sh_tokens (Sh_Escape e) tok quoted (c # cs) = (case e of
       None \<Rightarrow> sh_tokens Sh_Word (c # tok) quoted cs
     | Some q \<Rightarrow> sh_tokens (Sh_Quote q) (c # (if c \<noteq> CHR 0x5C \<and> c \<noteq> q then CHR 0x5C # tok else tok)) quoted cs)"

definition shlex_split :: "string \<Rightarrow> string list res" where
  "shlex_split s = sh_tokens Sh_Space [] False s"

subsection \<open>Plain words\<close>

text \<open>A word without white space, quotes and backslashes; a command made of such words splits into them.\<close>

definition sh_plain_char :: "char \<Rightarrow> bool" where
  "sh_plain_char c \<longleftrightarrow> \<not> sh_white c \<and> \<not> sh_quote c \<and> c \<noteq> CHR 0x5C"

definition sh_plain :: "string \<Rightarrow> bool" where
  "sh_plain w \<longleftrightarrow> w \<noteq> [] \<and> list_all sh_plain_char w"

lemma sh_tokens_run:
  "list_all sh_plain_char w \<Longrightarrow> sh_tokens Sh_Word tok quoted (w @ s) = sh_tokens Sh_Word (rev w @ tok) quoted s"
  by (induction w arbitrary: tok) (auto simp: sh_plain_char_def)

lemma shlex_split_word:
  assumes "sh_plain w"
  shows "shlex_split (w @ s) = sh_tokens Sh_Word (rev w) False s"
proof -
  obtain c cs where "w = c # cs" "sh_plain_char c" "list_all sh_plain_char cs"
    using assms by (cases w) (auto simp: sh_plain_def)
  then show ?thesis
    by (simp add: shlex_split_def sh_tokens_run sh_plain_char_def)
qed

lemma shlex_split_join: "list_all sh_plain ws \<Longrightarrow> shlex_split (join '' '' ws) = Inr ws"
proof (induction "'' ''" ws rule: join.induct)
  case 1
  then show ?case by (simp add: shlex_split_def)
next
  case (2 x)
  then show ?case
    using shlex_split_word [of x "[]"] by (auto simp: sh_finish_def sh_plain_def)
next
  case (3 x y xs)
  then have "sh_tokens Sh_Space [] False (join '' '' (y # xs)) = Inr (y # xs)"
    by (simp add: shlex_split_def)
  with 3 show ?case
    using shlex_split_word [of x "'' '' @ join '' '' (y # xs)"] by (auto simp: sh_finish_def sh_plain_def sh_white_def)
qed

lemma sh_plain_digit: "is_digit c \<Longrightarrow> sh_plain_char c"
  by (auto simp: sh_plain_char_def sh_white_def sh_quote_def is_digit_def)

lemma sh_plain_str_int: "sh_plain (str_int i)"
proof -
  have "list_all sh_plain_char (show_nat n)" for n
    using show_nat_digits [of n] by (auto simp: list_all_iff intro: sh_plain_digit)
  moreover have "sh_plain_char (CHR ''-'')"
    by (simp add: sh_plain_char_def sh_white_def sh_quote_def)
  ultimately show ?thesis
    by (simp add: sh_plain_def str_int_def)
qed

end
