(* ===== verification/Timing_Trial.thy ===== *)
theory Timing_Trial
  imports Rma_Regression Py_Float Py_Shlex
begin

section \<open>The QEMU timing trial\<close>

text \<open>
  Model of \<^verbatim>\<open>tools/run_qemu_timing_trial.py\<close>: the bandwidth commands it gives to the guests, its checks
  of transcripts and of reported capabilities, the observation of drained work, the checks of its
  options, and the main program with its evidence directory.  What the children print, what the files
  of the run hold and what the clock allows are arguments; wall-clock times are not modelled.
\<close>

subsection \<open>Bandwidth commands\<close>

record bw_settings =
  bw_verb :: string
  bw_size :: int
  bw_port :: int
  bw_iterations :: int
  bw_depth :: int
  bw_post_list :: int
  bw_cq_mod :: int
  bw_inline :: int
  bw_diagnostic :: bool
  bw_unidirectional :: bool

definition check_bw :: "bw_settings \<Rightarrow> unit res" where
  "check_bw b =
     (if bw_unidirectional b \<and> (bw_verb b \<noteq> ''read_bw'' \<or> bw_diagnostic b)
      then Inl (ValueError ''single-direction mode supports only READ without report diagnostics'')
      else if bw_verb b \<notin> {''write_bw'', ''read_bw'', ''send_bw''} then Inl (ValueError ''unsupported bandwidth verb'')
      else if Min {bw_size b, bw_port b, bw_iterations b, bw_depth b, bw_post_list b, bw_cq_mod b} \<le> 0
      then Inl (ValueError ''bandwidth settings must be positive'')
      else if bw_depth b > bw_iterations b
      then Inl (ValueError ''depth must not exceed iterations (perftest would silently lower it)'')
      else if bw_verb b = ''send_bw'' \<and> bw_size b > 4096 then Inl (ValueError ''SEND payload must not exceed 4096 bytes'')
      else if bw_post_list b > bw_depth b \<or> bw_cq_mod b > bw_depth b
      then Inl (ValueError ''WRITE post list and CQ moderation must not exceed SQ depth'')
      else if bw_iterations b mod bw_post_list b \<noteq> 0 \<or> bw_iterations b mod bw_cq_mod b \<noteq> 0
      then Inl (ValueError ''WRITE iterations must be divisible by post list and CQ moderation'')
      else if bw_post_list b > 1 \<and> bw_post_list b mod bw_cq_mod b \<noteq> 0
      then Inl (ValueError ''post list must be a multiple of CQ moderation'')
      else if bw_inline b < 0 then Inl (ValueError ''WRITE inline size must not be negative'')
      else Inr ())"

definition effective_inline :: "bw_settings \<Rightarrow> int" where
  "effective_inline b = (if bw_verb b = ''read_bw'' then 0 else bw_inline b)"

definition bw_command :: "bw_settings \<Rightarrow> string res" where
  "bw_command b = rbind (check_bw b) (\<lambda>_.
     let receive_depth = (if bw_verb b \<noteq> ''write_bw'' then '' -R '' @ str_int (bw_depth b) else []);
         diagnostic_env = (if bw_diagnostic b then ''UBSIM_BW_REPORT_DIAGNOSTIC=1 '' else []);
         direction = (if bw_unidirectional b then [] else ''-B '') in
     Inr (diagnostic_env @ ''LD_LIBRARY_PATH=/lib:/usr/lib urma_perftest '' @ bw_verb b @ '' '' @
       ''-d udma0 --eid_idx 0 --ctp '' @ direction @ ''-s '' @ str_int (bw_size b) @ '' -P '' @ str_int (bw_port b) @ '' '' @
       ''-J 1 -I '' @ str_int (effective_inline b) @ '' -T '' @ str_int (bw_depth b) @ receive_depth @ '' -n '' @ str_int (bw_iterations b) @
       '' -l '' @ str_int (bw_post_list b) @ '' -Q '' @ str_int (bw_cq_mod b) @ '' -p 0''))"

definition write_bw_command :: "int \<Rightarrow> int \<Rightarrow> int \<Rightarrow> int \<Rightarrow> int \<Rightarrow> int \<Rightarrow> int \<Rightarrow> string res" where
  "write_bw_command bytes port iterations depth post_list cq_mod inline_size =
     bw_command \<lparr>bw_verb = ''write_bw'', bw_size = bytes, bw_port = port, bw_iterations = iterations, bw_depth = depth,
       bw_post_list = post_list, bw_cq_mod = cq_mod, bw_inline = inline_size, bw_diagnostic = False, bw_unidirectional = False\<rparr>"

subsection \<open>Transcripts and capabilities\<close>

definition validate_unidirectional_read_output :: "string \<Rightarrow> int \<Rightarrow> int \<Rightarrow> int \<Rightarrow> string list" where
  "validate_unidirectional_read_output output depth bytes iterations =
     (let sections = uart_sections output in
      if length sections \<noteq> 2 then [''expected two UART transcripts'']
      else concat (map (\<lambda>(node, section).
        let depths = map hd (rx_findall rx_jfs_depth section) in
        (if depths \<noteq> (if node = 0 then [] else [str_int depth])
         then [''node'' @ show_nat node @ '': unexpected single-direction READ depth header '' @ repr_strs depths] else []) @
        (if length (rx_findall (rx_result_row (rx_lit (str_int bytes)) (rx_lit (str_int iterations))) section) \<noteq> 1
         then [''node'' @ show_nat node @ '': missing or duplicate complete bandwidth result''] else []))
        (enumerate 0 sections)))"

definition rx_capability :: "string \<Rightarrow> rx" where
  "rx_capability field = rx_seq [Bol, rx_lit field, rx_spaces, rx_lit '':'', rx_spaces, Grp rx_digits, rx_spaces, Eol]"

definition requested_limits :: "string \<Rightarrow> int \<Rightarrow> int \<Rightarrow> int option \<Rightarrow> (string \<times> int) list" where
  "requested_limits verb depth inline_size max_size =
     [(''max_jfs_depth'', depth), (''max_jfs_inline_size'', if verb = ''read_bw'' then 0 else inline_size)] @
     (if verb \<noteq> ''write_bw'' then [(''max_jfr_depth'', depth)] else []) @
     (case max_size of None \<Rightarrow> [] | Some bytes \<Rightarrow> [(''max_msg_size'', bytes)])"

definition check_limit :: "nat \<Rightarrow> string \<Rightarrow> string \<times> int \<Rightarrow> (string \<times> int) list \<Rightarrow> (string \<times> int) list res" where
  "check_limit node section request limits = (case request of (field, requested) \<Rightarrow>
     case map hd (rx_findall (rx_capability field) section) of
       [digits] \<Rightarrow> rbind (py_int digits) (\<lambda>value.
         if requested > value
         then Inl (ValueError (''node'' @ show_nat node @ '': requested '' @ str_int requested @ '' exceeds '' @ field @ ''='' @ str_int value))
         else Inr (dict_set field value limits))
     | _ \<Rightarrow> Inl (ValueError (''node'' @ show_nat node @ '': missing unique '' @ field)))"

definition validate_bw_capabilities :: "string \<Rightarrow> string \<Rightarrow> int \<Rightarrow> int \<Rightarrow> int option \<Rightarrow> (string \<times> int) list list res" where
  "validate_bw_capabilities text verb depth inline_size max_size =
     (let sections = uart_sections text in
      if length sections \<noteq> 2 then Inl (ValueError ''need capability responses from both guests'')
      else rfold (\<lambda>(node, section) acc.
          rbind (rfold (check_limit node section) (requested_limits verb depth inline_size max_size) [])
            (\<lambda>limits. Inr (acc @ [limits]))) (enumerate 0 sections) [])"

definition validate_write_capabilities :: "string \<Rightarrow> int \<Rightarrow> int \<Rightarrow> (string \<times> int) list list res" where
  "validate_write_capabilities text depth inline_size = validate_bw_capabilities text ''write_bw'' depth inline_size None"

subsection \<open>Observing drained work\<close>

text \<open>\<^verbatim>\<open>s.splitlines(keepends=True)\<close>, of which the observation keeps the lines that end with a newline.\<close>

fun split_lines_keep :: "string \<Rightarrow> string \<Rightarrow> string list" where
  "split_lines_keep cur [] = (if cur = [] then [] else [rev cur])"
| "split_lines_keep cur (c # cs) =
     (if c = CHR 0x0D \<and> cs \<noteq> [] \<and> hd cs = CHR 0x0A then rev (hd cs # c # cur) # split_lines_keep [] (tl cs)
      else if is_linebreak c then rev (c # cur) # split_lines_keep [] cs
      else split_lines_keep (c # cur) cs)"

definition drain_specs :: "(string \<times> string) list" where
  "drain_specs = [(''udma-node0/udma'', ''UDMA_PROGRESS''), (''udma-node1/udma'', ''UDMA_PROGRESS''),
     (''ub-fabric/ns3'', ''NS3_UB_NET_PROGRESS'')]"

type_synonym counters = "(string \<times> int) list"
type_synonym replies = "(string \<times> counters) list"

definition digits_value :: "string \<Rightarrow> int" where
  "digits_value ds = (case parse_int ds of Some i \<Rightarrow> i | None \<Rightarrow> 0)"

definition line_counters :: "string \<Rightarrow> counters" where
  "line_counters line = dict_update [] (map (\<lambda>gs. (gs ! 0, digits_value (gs ! 1))) (rx_findall rx_fields line))"

definition progress_lines :: "string \<Rightarrow> string \<Rightarrow> string list" where
  "progress_lines marker content = filter (\<lambda>l. endswith l [CHR 0x0A] \<and> startswith l (''['' @ marker @ '']'')) (split_lines_keep [] content)"

text \<open>
  One reading of the three logs from where they were at the signal: the last complete progress line
  of each is its reply.
\<close>

definition poll_logs :: "(string \<Rightarrow> string) \<Rightarrow> replies \<Rightarrow> replies" where
  "poll_logs logs replies = fold (\<lambda>(component, marker) rs.
     fold (\<lambda>line. dict_set component (line_counters line)) (progress_lines marker (logs component)) rs) drain_specs replies"

text \<open>The readings until all three have replied; a list that ends stands for the deadline of the sample.\<close>

fun poll_until :: "(string \<Rightarrow> string) list \<Rightarrow> replies \<Rightarrow> replies" where
  "poll_until [] replies = replies"
| "poll_until (logs # polls) replies = (let rs = poll_logs logs replies in
     if length rs = length drain_specs then rs else poll_until polls rs)"

definition replied :: "replies \<Rightarrow> string \<Rightarrow> string \<Rightarrow> int option" where
  "replied rs component key = map_of (dict_get component [] rs) key"

definition work_drained :: "replies \<Rightarrow> bool" where
  "work_drained rs \<longleftrightarrow>
     list_all (\<lambda>component. replied rs component ''quiescent'' = Some 1) [''udma-node0/udma'', ''udma-node1/udma''] \<and>
     list_all (\<lambda>key. replied rs ''ub-fabric/ns3'' key = Some 0) [''native_tasks'', ''pending_target_dma'', ''scheduled_packets''] \<and>
     replied rs ''ub-fabric/ns3'' ''outputs_empty'' = Some 1"

text \<open>
  A sample: what noting the log sizes and signalling the processes raises, if anything, and the readings.
  The list of samples is as long as the deadline allows.
\<close>

record drain_sample =
  ds_signal :: "unit res"
  ds_polls :: "(string \<Rightarrow> string) list"

fun drain_loop :: "drain_sample list \<Rightarrow> nat \<Rightarrow> ((replies \<times> bool) list \<times> nat) res" where
  "drain_loop [] consecutive = Inr ([], consecutive)"
| "drain_loop (s # ss) consecutive = rbind (ds_signal s) (\<lambda>_.
     let rs = poll_until (ds_polls s) []; drained = work_drained rs; consecutive' = (if drained then consecutive + 1 else 0) in
     if consecutive' \<ge> 2 then Inr ([(rs, drained)], consecutive')
     else rbind (drain_loop ss consecutive') (\<lambda>(samples, n). Inr ((rs, drained) # samples, n)))"

definition observe_drain :: "drain_sample list \<Rightarrow> (bool \<times> (replies \<times> bool) list) res" where
  "observe_drain ss = rbind (drain_loop ss 0) (\<lambda>(samples, consecutive). Inr (2 \<le> consecutive, samples))"

subsection \<open>Options\<close>

record trial_args =
  ta_output :: string
  ta_timeout :: string
  ta_sizes :: "int list"
  ta_drain :: bool
  ta_bw_verb :: string
  ta_unidirectional_read :: bool
  ta_report_diagnostic :: bool
  ta_iterations :: int
  ta_depth :: int
  ta_post_list :: int
  ta_cq_mod :: int
  ta_inline :: int
  ta_user_read_scan :: bool
  ta_read_latency :: bool
  ta_read_size :: "int option"
  ta_read_sizes :: "int list option"

definition trial_settings :: "trial_args \<Rightarrow> int \<Rightarrow> int \<Rightarrow> bool \<Rightarrow> bw_settings" where
  "trial_settings args bytes port diagnostic =
     \<lparr>bw_verb = ta_bw_verb args, bw_size = bytes, bw_port = port, bw_iterations = ta_iterations args, bw_depth = ta_depth args,
      bw_post_list = ta_post_list args, bw_cq_mod = ta_cq_mod args, bw_inline = ta_inline args, bw_diagnostic = diagnostic,
      bw_unidirectional = ta_unidirectional_read args\<rparr>"

text \<open>
  The checks of \<^verbatim>\<open>parse_args\<close> on the parsed options; \<^verbatim>\<open>p.error\<close> ends the program with status 2.
\<close>

definition parse_args :: "trial_args \<Rightarrow> trial_args res" where
  "parse_args args =
     (if ta_unidirectional_read args \<and> (ta_bw_verb args \<noteq> ''read_bw'' \<or> ta_user_read_scan args \<or> ta_report_diagnostic args)
      then Inl (SystemExit 2)
      else if ta_report_diagnostic args \<and> ta_user_read_scan args then Inl (SystemExit 2)
      else if \<not> distinct (ta_sizes args) \<or> \<not> distinct (case ta_read_sizes args of None \<Rightarrow> [] | Some xs \<Rightarrow> xs) then Inl (SystemExit 2)
      else if \<not> ta_user_read_scan args \<and> list_ex (\<lambda>bytes. isl (bw_command (trial_settings args bytes 21410 False))) (ta_sizes args)
      then Inl (SystemExit 2)
      else Inr args)"

subsection \<open>The evidence directory\<close>

text \<open>
  The program's state: the records of the report, the files of the output directory, and the commands
  run.  Every operation passes it on, also when it raises.
\<close>

record trial_state =
  ts_records :: "dict list"
  ts_files :: sdict
  ts_runs :: "string list list"

type_synonym 'a trial = "trial_state \<Rightarrow> 'a res \<times> trial_state"

definition tret :: "'a \<Rightarrow> 'a trial" where
  "tret x s = (Inr x, s)"

definition tlift :: "'a res \<Rightarrow> 'a trial" where
  "tlift m s = (m, s)"

definition tbind :: "'a trial \<Rightarrow> ('a \<Rightarrow> 'b trial) \<Rightarrow> 'b trial" where
  "tbind m f s = (case m s of (Inl e, s1) \<Rightarrow> (Inl e, s1) | (Inr x, s1) \<Rightarrow> f x s1)"

definition add_record :: "dict \<Rightarrow> unit trial" where
  "add_record r s = (Inr (), s\<lparr>ts_records := ts_records s @ [r]\<rparr>)"

text \<open>\<^verbatim>\<open>records[-1][key] = value\<close>; the callers have just appended a record.\<close>

definition set_last :: "string \<Rightarrow> json \<Rightarrow> unit trial" where
  "set_last key value s = (Inr (), s\<lparr>ts_records := butlast (ts_records s) @ [dict_set key value (last (ts_records s))]\<rparr>)"

definition write_output :: "string \<Rightarrow> string \<Rightarrow> unit trial" where
  "write_output name content s = (Inr (), s\<lparr>ts_files := dict_set name content (ts_files s)\<rparr>)"

definition read_output :: "string \<Rightarrow> string trial" where
  "read_output name s = (case map_of (ts_files s) name of
     None \<Rightarrow> (Inl (OSError ''No such file or directory''), s) | Some content \<Rightarrow> (Inr content, s))"

text \<open>
  What a child does: it exits with a status and a combined output, it is killed at its timeout after the
  output so far, or it cannot be started.
\<close>

datatype child_end = Exited int string | Timed_Out string | No_Child py_exc

record trial_world =
  tw_mkdir :: "unit res"
  tw_run :: "nat \<Rightarrow> string list \<Rightarrow> child_end"
  tw_initrd_env :: "string option"
  tw_sha256 :: "string \<Rightarrow> string res"
  tw_manifest :: "string res"
  tw_banners :: "(bool res \<times> bool) list"
  tw_alive :: "string \<Rightarrow> unit res"
  tw_drain :: "drain_sample list"
  tw_logs :: "string \<Rightarrow> string option"

definition trial_run :: "trial_world \<Rightarrow> string \<Rightarrow> string list \<Rightarrow> int trial" where
  "trial_run w label command s = (let s0 = s\<lparr>ts_runs := ts_runs s @ [command]\<rparr>;
       finish = (\<lambda>rc content. (Inr rc, s0\<lparr>ts_files := dict_set (label @ ''.txt'') content (ts_files s0),
         ts_records := ts_records s0 @ [[(''label'', JStr label), (''command'', JList (map JStr command)), (''returncode'', JInt rc)]]\<rparr>)) in
     case tw_run w (length (ts_runs s)) command of
       Exited rc content \<Rightarrow> finish rc content
     | Timed_Out content \<Rightarrow> finish 124 content
     | No_Child e \<Rightarrow> (Inl e, s0))"

subsection \<open>The steps of the program\<close>

definition input_image :: "trial_world \<Rightarrow> trial_args \<Rightarrow> unit trial" where
  "input_image w args = (let initrd = (case tw_initrd_env w of Some p \<Rightarrow> p | None \<Rightarrow> ''out/official-udma.cpio.gz'') in
     if ta_report_diagnostic args \<and> tw_initrd_env w = None
     then tlift (Inl (ValueError ''diagnostics require explicit UBSIM_INITRD; the regular image is not instrumented''))
     else tbind (tlift (tw_sha256 w initrd)) (\<lambda>digest.
       add_record [(''label'', JStr ''input-image''), (''path'', JStr initrd), (''sha256'', JStr digest),
         (''report_diagnostic'', JBool (ta_report_diagnostic args))]))"

definition manifest_dict :: "string \<Rightarrow> sdict" where
  "manifest_dict content = dict_update [] (map (\<lambda>l. case partition_at (CHR ''='') l of (k, _, v) \<Rightarrow> (k, v))
     (filter (\<lambda>l. CHR ''='' \<in> set l) (splitlines content)))"

definition artifact_names :: "string list" where
  "artifact_names = [''qemu_binary'', ''udma_device_binary'', ''ns3_binary'', ''kernel_image'', ''initrd_image'']"

definition input_artifacts :: "trial_world \<Rightarrow> sdict \<Rightarrow> dict res" where
  "input_artifacts w manifest = rfold (\<lambda>name acc.
     rbind (getitem name manifest) (\<lambda>path.
     rbind (tw_sha256 w path) (\<lambda>digest.
     Inr (dict_set name (JObj [(''path'', JStr path), (''sha256'', JStr digest)]) acc)))) artifact_names []"

text \<open>
  Awaiting the banner on both terminals; each round is whether both are there and, if not, whether
  the time is up.
\<close>

fun await_banners :: "(bool res \<times> bool) list \<Rightarrow> unit res" where
  "await_banners [] = Inl (OSError ''shell-ready deadline'')"
| "await_banners ((seen, expired) # rounds) = rbind seen (\<lambda>ready.
     if ready then Inr () else if expired then Inl (OSError ''shell-ready deadline'') else await_banners rounds)"

definition trial_serial :: "trial_args \<Rightarrow> string list" where
  "trial_serial args = [''python3'', ''tools/dual_serial_command.py'', ''--ports'', ''3560'', ''3570'', ''--full-output'',
     ''--timeout'', ta_timeout args, ''--prompt-kick-after'', ''1'']"

definition paired :: "trial_args \<Rightarrow> string \<Rightarrow> string list" where
  "paired args command = trial_serial args @ [''--stagger'', ''1'', ''--commands'', command, command @ '' -S 10.0.0.1'']"

text \<open>\<^verbatim>\<open>if run(...): return 1\<close>: a status other than 0 ends the program.\<close>

definition run_or_1 :: "trial_world \<Rightarrow> string \<Rightarrow> string list \<Rightarrow> int trial \<Rightarrow> int trial" where
  "run_or_1 w label command rest = tbind (trial_run w label command) (\<lambda>rc. if rc \<noteq> 0 then tret 1 else rest)"

definition latency_command :: string where
  "latency_command = ''LD_LIBRARY_PATH=/lib:/usr/lib urma_perftest read_lat '' @
     ''-d udma0 --eid_idx 0 --ctp -s 128 -P 21114 -J 1 '' @ ''-I 0 -n 128 -l 1 -Q 1 -p 0''"

definition rx_dotted :: rx where
  "rx_dotted = rx_plus (Cls (\<lambda>c. is_digit c \<or> c = CHR ''.''))"

definition rx_latency_row :: rx where
  "rx_latency_row = rx_seq [Bol, rx_spaces, rx_lit ''128'', rx_spaces1, rx_digits, rx_spaces1,
     rx_seq [rx_dotted, rx_spaces1], rx_seq [rx_dotted, rx_spaces1], Grp (rx_seq [rx_dotted, rx_spaces1]), Grp rx_dotted, rx_spaces1]"

text \<open>A float stands in the report as its digits.\<close>

definition read_latency :: "trial_world \<Rightarrow> trial_args \<Rightarrow> int trial \<Rightarrow> int trial" where
  "read_latency w args rest = run_or_1 w ''read-latency'' (paired args latency_command)
     (tbind (read_output ''read-latency.txt'') (\<lambda>content.
      case rx_findall rx_latency_row content of
        [gs] \<Rightarrow> tbind (tlift (py_float (gs ! 1))) (\<lambda>_. tbind (set_last ''average_us'' (JFloat (gs ! 1))) (\<lambda>_. rest))
      | _ \<Rightarrow> tbind (set_last ''validation_errors'' (JList [JStr ''missing unique client READ latency row''])) (\<lambda>_.
          tbind (set_last ''returncode'' (JInt 1)) (\<lambda>_. tret 1))))"

definition rx_scan_limit :: "string \<Rightarrow> rx" where
  "rx_scan_limit name = rx_seq [rx_lit name, rx_spaces, rx_lit '':'', rx_spaces, Grp rx_digits]"

definition scan_limit :: "string \<Rightarrow> string \<times> string \<times> int \<Rightarrow> (string \<times> int) list \<Rightarrow> (string \<times> int) list res" where
  "scan_limit caps entry selected = (case entry of (option_name, name, requested) \<Rightarrow>
     let found = map (\<lambda>gs. digits_value (hd gs)) (rx_findall (rx_scan_limit name) caps) in
     if length found \<noteq> 2 \<or> Min (set found) \<le> 0 then Inl (ValueError (''missing both guests'' @ [CHR 0x27] @ '' capability: '' @ name))
     else Inr (dict_set option_name (Min (set (requested # found))) selected))"

definition scan_limits :: "string \<Rightarrow> (string \<times> int) list res" where
  "scan_limits caps = rfold (scan_limit caps) [(''R'', ''max_jfr_depth'', 8192), (''T'', ''max_jfs_depth'', 8192),
     (''C'', ''max_jfc_depth'', 524288)] []"

definition scan_command :: "(string \<times> int) list \<Rightarrow> nat \<Rightarrow> int option \<Rightarrow> string" where
  "scan_command selected index read_size =
     ''LD_LIBRARY_PATH=/lib:/usr/lib urma_perftest read_bw '' @ ''-d udma0 --eid_idx 0 --ctp '' @
     (case read_size of Some n \<Rightarrow> ''-s '' @ str_int n | None \<Rightarrow> ''-a23'') @ '' -P '' @ show_nat (21115 + index) @ '' -J 1 '' @
     ''-R '' @ str_int (dict_get ''R'' 0 selected) @ '' -T '' @ str_int (dict_get ''T'' 0 selected) @ '' -C '' @
     str_int (dict_get ''C'' 0 selected) @ '' '' @ ''-Q 1 -l 256 -n 16384 -p 0''"

text \<open>\<^verbatim>\<open>if read_size\<close>: no size and the size 0 both select the scan.\<close>

definition given_size :: "int option \<Rightarrow> int option" where
  "given_size read_size = (if read_size = Some 0 then None else read_size)"

definition rx_scan_row :: "int \<Rightarrow> rx" where
  "rx_scan_row bytes = rx_seq [Bol, rx_spaces, rx_lit (str_int bytes), rx_spaces1, rx_lit ''16384'', rx_spaces1, Grp rx_dotted, rx_spaces1,
     Grp rx_dotted, rx_spaces1, Grp rx_dotted, rx_spaces, Eol]"

definition scan_rows :: "int \<Rightarrow> string \<Rightarrow> string list list list" where
  "scan_rows bytes transcript = map (rx_findall (rx_scan_row bytes)) (uart_sections transcript)"

definition scan_errors :: "int option \<Rightarrow> string \<Rightarrow> string list" where
  "scan_errors read_size transcript = (case read_size of
       Some bytes \<Rightarrow> if length (scan_rows bytes transcript) = 2 \<and> list_all (\<lambda>r. length r = 1) (scan_rows bytes transcript) then []
         else [''missing single-size READ results'']
     | None \<Rightarrow> validate_bw_scan transcript 23 16384)"

definition rx_guest_status :: rx where
  "rx_guest_status = rx_seq [Bol, rx_lit ''__UBSIM_RC_'', rx_digits, rx_lit ''_'', rx_digits, rx_lit ''__='', rx_digits, rx_spaces, Eol]"

definition scan_components :: "string list" where
  "scan_components = [''node0/qemu'', ''node1/qemu'', ''udma-node0/udma'', ''udma-node1/udma'', ''ub-fabric/ns3'']"

definition scan_averages :: "int \<Rightarrow> string \<Rightarrow> json list res" where
  "scan_averages bytes transcript = rfold (\<lambda>rows acc. rbind (py_float (hd rows ! 1)) (\<lambda>_. Inr (acc @ [JFloat (hd rows ! 1)])))
     (scan_rows bytes transcript) []"

definition size_json :: "int option \<Rightarrow> json" where
  "size_json bytes = (case bytes of Some n \<Rightarrow> JInt n | None \<Rightarrow> JNull)"

fun scan_loop :: "trial_world \<Rightarrow> trial_args \<Rightarrow> (string \<times> int) list \<Rightarrow> (nat \<times> int option) list \<Rightarrow> bool \<Rightarrow> int trial" where
  "scan_loop w args selected [] failed = tret (if failed then 1 else 0)"
| "scan_loop w args selected ((index, read_size) # sizes) failed =
     (let label = (case ta_read_sizes args of
            Some (x # xs) \<Rightarrow> ''read-'' @ (case read_size of Some n \<Rightarrow> str_int n | None \<Rightarrow> ''None'')
          | _ \<Rightarrow> ''requested-read-scan'') in
      tbind (trial_run w label (paired args (scan_command selected index (given_size read_size)))) (\<lambda>rc.
      tbind (read_output (label @ ''.txt'')) (\<lambda>transcript.
      let errors = scan_errors (given_size read_size) transcript in
      tbind (case given_size read_size of
          Some bytes \<Rightarrow> if errors = [] \<and> rc = 0
            then tbind (tlift (scan_averages bytes transcript)) (\<lambda>averages. set_last ''average_mib_s'' (JList averages)) else tret ()
        | None \<Rightarrow> tret ()) (\<lambda>_.
      tbind (set_last ''validation_errors'' (JList (map JStr errors))) (\<lambda>_.
      tbind (set_last ''size_bytes'' (size_json read_size)) (\<lambda>_.
      if rc \<noteq> 0 \<or> errors \<noteq> []
      then if rc = 124 \<or> length (rx_findall rx_guest_status transcript) \<noteq> 2 then tret 1
        else tbind (tlift (rfold (\<lambda>component _. tw_alive w component) scan_components ())) (\<lambda>_.
          scan_loop w args selected sizes True)
      else scan_loop w args selected sizes failed))))))"

definition user_read_scan :: "trial_world \<Rightarrow> trial_args \<Rightarrow> int trial" where
  "user_read_scan w args = run_or_1 w ''capabilities'' (trial_serial args @ [''--command'', ''urma_admin show -d udma0 -w''])
     (tbind (read_output ''capabilities.txt'') (\<lambda>caps.
      tbind (tlift (scan_limits caps)) (\<lambda>selected.
      if dict_get ''T'' 0 selected < 256 then tlift (Inl (ValueError ''reported JFS capacity cannot support requested batch256''))
      else scan_loop w args selected (enumerate 0 (case ta_read_sizes args of
          Some (x # xs) \<Rightarrow> map Some (x # xs) | _ \<Rightarrow> [ta_read_size args])) False)))"

definition counters_json :: "counters list \<Rightarrow> json" where
  "counters_json ls = JList (map (\<lambda>d. JObj (map (\<lambda>(k, v). (k, JInt v)) d)) ls)"

fun exc_text :: "py_exc \<Rightarrow> string" where
  "exc_text (ValueError m) = m"
| "exc_text (OSError m) = m"
| "exc_text _ = []"

definition capability_check :: "trial_world \<Rightarrow> trial_args \<Rightarrow> int trial \<Rightarrow> int trial" where
  "capability_check w args rest = run_or_1 w ''capabilities'' (trial_serial args @ [''--command'', ''urma_admin show -d udma0 -w''])
     (tbind (read_output ''capabilities.txt'') (\<lambda>caps.
      case validate_bw_capabilities caps (ta_bw_verb args) (ta_depth args) (ta_inline args) (Some (Max (set (ta_sizes args)))) of
        Inr limits \<Rightarrow>
          tbind (set_last ''bw_capabilities'' (counters_json limits)) (\<lambda>_.
          tbind (if ta_bw_verb args = ''write_bw'' then set_last ''write_capabilities'' (counters_json limits) else tret ()) (\<lambda>_.
          tbind (set_last ''effective_inline'' (JInt (if ta_bw_verb args = ''read_bw'' then 0 else ta_inline args))) (\<lambda>_. rest)))
      | Inl e \<Rightarrow>
          tbind (set_last ''validation_errors'' (JList [JStr (exc_text e)])) (\<lambda>_.
          tbind (set_last ''returncode'' (JInt 1)) (\<lambda>_. tret 1))))"

definition rx_diagnostic_line :: rx where
  "rx_diagnostic_line = rx_seq [Bol, rx_lit ''[UBSIM_BW_REPORT_DIAGNOSTIC]'', Star (Cls (\<lambda>c. c \<noteq> CHR 0x0A)), Eol]"

definition trial_label :: "trial_args \<Rightarrow> int \<Rightarrow> string" where
  "trial_label args bytes = removesuffix (ta_bw_verb args) ''_bw'' @ ''-'' @ str_int bytes"

definition size_errors :: "trial_args \<Rightarrow> int \<Rightarrow> string \<Rightarrow> string list" where
  "size_errors args bytes content =
     (if ta_unidirectional_read args then validate_unidirectional_read_output content (ta_depth args) bytes (ta_iterations args)
      else validate_depth_output content (ta_depth args) bytes (ta_iterations args) False) @
     (if ta_report_diagnostic args \<and> length (rx_findall rx_diagnostic_line content) \<noteq> 2
      then [''missing unique report diagnostic from both endpoints''] else [])"

fun size_loop :: "trial_world \<Rightarrow> trial_args \<Rightarrow> (nat \<times> int) list \<Rightarrow> int trial" where
  "size_loop w args [] = tret 0"
| "size_loop w args ((index, bytes) # sizes) =
     tbind (tlift (bw_command (trial_settings args bytes (21410 + int index) (ta_report_diagnostic args)))) (\<lambda>command.
     run_or_1 w (trial_label args bytes) (paired args command)
       (tbind (read_output (trial_label args bytes @ ''.txt'')) (\<lambda>content.
        let errors = size_errors args bytes content in
        tbind (set_last ''validation_errors'' (JList (map JStr errors))) (\<lambda>_.
        if errors \<noteq> [] then tbind (set_last ''returncode'' (JInt 1)) (\<lambda>_. tret 1)
        else size_loop w args sizes))))"

text \<open>The \<^verbatim>\<open>try\<close> block after a successful launch, and the whole block; the flag tells whether it was launched.\<close>

definition trial_launched :: "trial_world \<Rightarrow> trial_args \<Rightarrow> int trial" where
  "trial_launched w args =
     tbind (tlift (tw_manifest w)) (\<lambda>content.
     tbind (write_output ''run-manifest.txt'' content) (\<lambda>_.
     tbind (tlift (input_artifacts w (manifest_dict content))) (\<lambda>artifacts.
     tbind (add_record [(''label'', JStr ''input-artifacts''), (''artifacts'', JObj artifacts),
       (''scope'', JStr ''Launch executable/images only; dynamic dependencies not fingerprinted'')]) (\<lambda>_.
     tbind (tlift (await_banners (tw_banners w))) (\<lambda>_.
     tbind (add_record [(''label'', JStr ''shell-ready''), (''returncode'', JInt 0)]) (\<lambda>_.
     run_or_1 w ''network'' (trial_serial args @ [''--command'', ''ubsim-net-up''])
       (let rest = (if ta_user_read_scan args then user_read_scan w args
                    else capability_check w args (size_loop w args (enumerate 0 (ta_sizes args)))) in
        if ta_read_latency args then read_latency w args rest else rest)))))))"

definition trial_body :: "trial_world \<Rightarrow> trial_args \<Rightarrow> trial_state \<Rightarrow> (int res \<times> trial_state) \<times> bool" where
  "trial_body w args s = (case input_image w args s of
       (Inl e, s1) \<Rightarrow> ((Inl e, s1), False)
     | (Inr _, s1) \<Rightarrow> (case trial_run w ''launch'' [''./lab'', ''start-qemu-dual'', ''--timing''] s1 of
         (Inl e, s2) \<Rightarrow> ((Inl e, s2), False)
       | (Inr rc, s2) \<Rightarrow> if rc \<noteq> 0 then ((Inr 1, s2), False) else (trial_launched w args s2, True)))"

subsection \<open>The main program\<close>

definition drain_record :: "drain_sample list \<Rightarrow> dict res" where
  "drain_record samples = (case observe_drain samples of
       Inr (observed, _) \<Rightarrow> Inr [(''label'', JStr ''post-workload-drain''), (''observed_work_drained'', JBool observed),
         (''scope'', JStr ''Live work snapshots, not global event-queue or checkpoint quiescence'')]
     | Inl e \<Rightarrow> if is_OSError e \<or> is_ValueError e
         then Inr [(''label'', JStr ''post-workload-drain''), (''error'', JStr (exc_text e)), (''observed_work_drained'', JBool False)]
         else Inl e)"

definition evidence_logs :: "(string \<times> string) list" where
  "evidence_logs = concat (map (\<lambda>node. [(''node'' @ node @ ''/system.terminal'', ''node'' @ node @ ''-system.terminal''),
     (''node'' @ node @ ''/qemu.log'', ''node'' @ node @ ''-qemu.log''),
     (''udma-node'' @ node @ ''/udma.log'', ''udma-node'' @ node @ ''-udma.log'')]) [''0'', ''1'']) @ [(''ub-fabric/ns3.log'', ''ns3.log'')]"

definition copy_logs :: "trial_world \<Rightarrow> trial_state \<Rightarrow> trial_state" where
  "copy_logs w s = s\<lparr>ts_files := fold (\<lambda>(source, name) d. case tw_logs w source of
     None \<Rightarrow> d | Some content \<Rightarrow> dict_set name content d) evidence_logs (ts_files s)\<rparr>"

text \<open>
  The \<^verbatim>\<open>finally\<close> block: the observation of the drain and the stop, when the laboratory was launched,
  then the copies and the report.  The report is kept as the list of its records.  Making the output
  directory, which fails when it exists, comes before.
\<close>

record trial_end =
  te_result :: "int res"
  te_state :: trial_state
  te_report :: "dict list option"

definition trial_stop :: "trial_world \<Rightarrow> trial_args \<Rightarrow> unit trial" where
  "trial_stop w args =
     tbind (if ta_drain args then tbind (tlift (drain_record (tw_drain w))) add_record else tret ()) (\<lambda>_.
     tbind (trial_run w ''stop'' [''./lab'', ''stop-qemu'']) (\<lambda>_. tret ()))"

definition trial_main :: "trial_world \<Rightarrow> trial_args \<Rightarrow> trial_end" where
  "trial_main w args = (case rbind (parse_args args) (\<lambda>_. tw_mkdir w) of
       Inl e \<Rightarrow> \<lparr>te_result = Inl e, te_state = \<lparr>ts_records = [], ts_files = [], ts_runs = []\<rparr>, te_report = None\<rparr>
     | Inr _ \<Rightarrow> (case trial_body w args \<lparr>ts_records = [], ts_files = [], ts_runs = []\<rparr> of
         ((result, s1), launched) \<Rightarrow>
           (case (if launched then trial_stop w args s1 else (Inr (), s1)) of
              (Inl e, s2) \<Rightarrow> \<lparr>te_result = Inl e, te_state = s2, te_report = None\<rparr>
            | (Inr _, s2) \<Rightarrow> let s3 = copy_logs w s2 in
                \<lparr>te_result = result, te_state = s3, te_report = Some (ts_records s3)\<rparr>)))"

end
