(* ===== verification/Trial_Audit.thy ===== *)
theory Trial_Audit
  imports Task_Store Timing_Trial
begin

section \<open>The audit of a bandwidth trial\<close>

text \<open>
  Model of \<^verbatim>\<open>tools/check_qemu_write_trial.py\<close>, which reads the evidence directory of a timing trial and
  accepts or refuses it: the settings read back from a guest command, the arithmetic of the report
  diagnostics in floating-point numbers, the advertised sizes, the transcripts of every workload, and
  the counters of the fabric and of the two devices.  A file of the directory is its decoded text, the
  report its decoded JSON.  The fixed notes of the printed result are not modelled.
\<close>

subsection \<open>Fields of log lines\<close>

definition require :: "bool \<Rightarrow> string \<Rightarrow> unit res" where
  "require condition message = (if condition then Inr () else Inl (AuditError message))"

definition rx_last_fields :: rx where
  "rx_last_fields = rx_seq [Grp (rx_plus (Cls is_word)), rx_lit ''='', Grp rx_digits, Look (rx_alt [Cls is_space, Eol])]"

definition marked_lines :: "string \<Rightarrow> string \<Rightarrow> string list" where
  "marked_lines content marker = filter (\<lambda>l. startswith l (''['' @ marker @ ''] '')) (splitlines content)"

definition last_fields :: "string \<Rightarrow> string \<Rightarrow> counters res" where
  "last_fields content marker = (let lines = marked_lines content marker in
     rbind (require (lines \<noteq> []) (''missing '' @ marker)) (\<lambda>_.
     Inr (dict_update [] (map (\<lambda>gs. (gs ! 0, digits_value (gs ! 1))) (rx_findall rx_last_fields (last lines))))))"

definition equal_field :: "counters \<Rightarrow> string \<Rightarrow> int \<Rightarrow> unit res" where
  "equal_field fs key expected = require (map_of fs key = Some expected)
     (key @ '': expected '' @ str_int expected @ '', got '' @ (case map_of fs key of Some v \<Rightarrow> str_int v | None \<Rightarrow> ''MISSING''))"

definition equal_fields :: "counters \<Rightarrow> string list \<Rightarrow> int \<Rightarrow> unit res" where
  "equal_fields fs keys expected = rfold (\<lambda>key _. equal_field fs key expected) keys ()"

subsection \<open>Settings of a guest command\<close>

record bw_config =
  cf_verb :: string
  cf_bidirectional :: bool
  cf_flags :: counters

text \<open>\<^verbatim>\<open>args.index(flag)\<close> and the argument after it; the callers know that the flag is there.\<close>

definition arg_index :: "string list \<Rightarrow> string \<Rightarrow> nat" where
  "arg_index args flag = length (takeWhile (\<lambda>a. a \<noteq> flag) args)"

definition arg_after :: "string list \<Rightarrow> string \<Rightarrow> string option" where
  "arg_after args flag = (let i = arg_index args flag + 1 in if i < length args then Some (args ! i) else None)"

definition value_flags :: "string list" where
  "value_flags = [''-s'', ''-n'', ''-T'', ''-J'', ''-l'', ''-Q'', ''-I'', ''-R'', ''-d'', ''--eid_idx'', ''-S'', ''-P'', ''-p'', ''-C'']"

fun check_options :: "string list \<Rightarrow> unit res" where
  "check_options [] = Inr ()"
| "check_options (flag # rest) =
     (if flag \<in> {''-B'', ''--ctp''} then check_options rest
      else case rest of
        [] \<Rightarrow> Inl (AuditError (''unsupported command mode/option: '' @ flag))
      | _ # rest' \<Rightarrow> if flag \<in> set value_flags then check_options rest'
          else Inl (AuditError (''unsupported command mode/option: '' @ flag)))"

definition check_pair :: "string list \<Rightarrow> string \<Rightarrow> string \<Rightarrow> string \<Rightarrow> unit res" where
  "check_pair args flag expected message =
     require (count_list args flag = 1 \<and> arg_after args flag = Some expected) message"

datatype bw_role = Server_Role | Client_Role

definition check_role :: "string list \<Rightarrow> bw_role \<Rightarrow> unit res" where
  "check_role args role = (case role of
       Server_Role \<Rightarrow> require (''-S'' \<notin> set args) ''server must not specify client destination''
     | Client_Role \<Rightarrow> check_pair args ''-S'' ''10.0.0.1'' ''client must connect to 10.0.0.1'')"

definition flag_value :: "string list \<Rightarrow> string \<Rightarrow> counters \<Rightarrow> counters res" where
  "flag_value args flag config =
     rbind (require (count_list args flag = 1) (''missing or duplicate '' @ flag)) (\<lambda>_.
     rbind (case arg_after args flag of
         None \<Rightarrow> Inl (AuditError (''invalid '' @ flag))
       | Some a \<Rightarrow> (case py_int a of Inl _ \<Rightarrow> Inl (AuditError (''invalid '' @ flag)) | Inr v \<Rightarrow> Inr v)) (\<lambda>value.
     rbind (require (if flag = ''-I'' then 0 \<le> value else 0 < value) (''invalid range for '' @ flag)) (\<lambda>_.
     Inr (dict_set flag value config))))"

definition config_flags :: "string \<Rightarrow> string list \<Rightarrow> string list" where
  "config_flags verb args = [''-s'', ''-n'', ''-T'', ''-J'', ''-l'', ''-Q'', ''-I''] @
     (if verb \<in> {''read'', ''send''} \<or> ''-R'' \<in> set args then [''-R''] else [])"

definition cfg_flag :: "bw_config \<Rightarrow> string \<Rightarrow> int" where
  "cfg_flag config name = dict_get name 0 (cf_flags config)"

definition named_verbs :: "string list \<Rightarrow> string list" where
  "named_verbs args = filter (\<lambda>verb. verb @ ''_bw'' \<in> set args) [''write'', ''read'', ''send'']"

definition prefix_ok :: "string \<Rightarrow> bool" where
  "prefix_ok token \<longleftrightarrow> startswith token ''LD_LIBRARY_PATH='' \<or> token = ''UBSIM_BW_REPORT_DIAGNOSTIC=1''"

definition config_of_args :: "string list \<Rightarrow> bw_role \<Rightarrow> bw_config res" where
  "config_of_args args role =
     rbind (require (''urma_perftest'' \<in> set args \<and> length (named_verbs args) = 1) ''only explicit-size write/read/send_bw is supported'') (\<lambda>_.
     rbind (require (count_list args ''-B'' \<le> 1) ''duplicate bidirectional flag'') (\<lambda>_.
     let verb = hd (named_verbs args); bidirectional = (''-B'' \<in> set args); executable = arg_index args ''urma_perftest'' in
     rbind (require (bidirectional \<or> verb = ''read'') ''only READ supports unidirectional auditing'') (\<lambda>_.
     rbind (require (list_all prefix_ok (take executable args)) ''unsupported command prefix'') (\<lambda>_.
     rbind (check_options (drop (executable + 2) args)) (\<lambda>_.
     rbind (require (count_list args ''--ctp'' = 1) ''explicit CTP transport required'') (\<lambda>_.
     rbind (check_pair args ''-d'' ''udma0'' ''expected -d udma0'') (\<lambda>_.
     rbind (check_pair args ''--eid_idx'' ''0'' ''expected --eid_idx 0'') (\<lambda>_.
     rbind (check_role args role) (\<lambda>_.
     rbind (rfold (flag_value args) (config_flags verb args) []) (\<lambda>flags.
     let config = \<lparr>cf_verb = verb, cf_bidirectional = bidirectional, cf_flags = flags\<rparr> in
     rbind (require (cfg_flag config ''-J'' = 1) ''multi-Jetty iteration accounting not supported'') (\<lambda>_.
     rbind (require (verb \<noteq> ''read'' \<or> cfg_flag config ''-I'' = 0) ''READ does not support inline; require explicit -I 0'') (\<lambda>_.
     rbind (require (verb \<noteq> ''send'' \<or> cfg_flag config ''-s'' \<le> 4096) ''SEND sizes above 4096 are outside the supported trial contract'') (\<lambda>_.
     rbind (require (\<not> list_ex (\<lambda>a. startswith a ''-a'') args) ''scan commands not supported'') (\<lambda>_.
     Inr config))))))))))))))"

definition command_config :: "string \<Rightarrow> bw_role \<Rightarrow> bw_config res" where
  "command_config command role = rbind (shlex_split command) (\<lambda>args. config_of_args args role)"

definition peak_policy :: "string \<Rightarrow> int \<Rightarrow> (bool \<times> bool) \<times> string" where
  "peak_policy verb iterations =
     (if iterations > 20000 then ((True, True), ''disabled on both endpoints (iterations > 20000)'')
      else if verb = ''send'' then ((True, False), ''client-only peak; average and message rate combine both directions'')
      else ((False, False), ''sum of both endpoint peaks; average combines both directions''))"

subsection \<open>Report diagnostics\<close>

definition rx_diagnostic_fields :: rx where
  "rx_diagnostic_fields = rx_seq [Grp (rx_plus (Cls is_word)), rx_lit ''='', Grp (rx_plus (Cls (\<lambda>c. \<not> is_space c)))]"

definition diagnostic_fields :: "string \<Rightarrow> sdict" where
  "diagnostic_fields line = dict_update [] (map (\<lambda>gs. (gs ! 0, gs ! 1)) (rx_findall rx_diagnostic_fields line))"

definition diag_number :: "sdict \<Rightarrow> string \<Rightarrow> pyfloat res" where
  "diag_number fs key = (case map_of fs key of
       None \<Rightarrow> Inl (AuditError (''missing report diagnostic '' @ key))
     | Some content \<Rightarrow> rbind (py_float content) (\<lambda>value.
         if fl_isfinite value then Inr value else Inl (AuditError (''nonfinite report diagnostic '' @ key))))"

definition rel_tol :: pyfloat where
  "rel_tol = fl_round (1 / 10 ^ 12)"

definition abs_tol :: pyfloat where
  "abs_tol = fl_round (1 / 10 ^ 9)"

definition diag_matches :: "sdict \<Rightarrow> string \<Rightarrow> pyfloat \<Rightarrow> unit res" where
  "diag_matches fs key expected = rbind (diag_number fs key) (\<lambda>value.
     require (fl_isclose rel_tol abs_tol value expected) (''diagnostic arithmetic mismatch: '' @ key))"

definition diag_matches_int :: "sdict \<Rightarrow> string \<Rightarrow> int \<Rightarrow> unit res" where
  "diag_matches_int fs key expected = rbind (diag_number fs key) (\<lambda>value.
     rbind (fl_of_int expected) (\<lambda>e. require (fl_isclose rel_tol abs_tol value e) (''diagnostic arithmetic mismatch: '' @ key)))"

definition fl_int_mul :: "int \<Rightarrow> pyfloat \<Rightarrow> pyfloat res" where
  "fl_int_mul i a = rbind (fl_of_int i) (\<lambda>x. Inr (fl_mul x a))"

definition verb_code :: "string \<Rightarrow> int" where
  "verb_code verb = (if verb = ''read'' then 0 else if verb = ''write'' then 1 else 2)"

definition diagnostic_integers :: "bw_config \<Rightarrow> bool \<Rightarrow> (string \<times> int) list" where
  "diagnostic_integers config no_peak =
     [(''api_type'', verb_code (cf_verb config)), (''bidirection'', 1), (''no_peak'', if no_peak then 1 else 0), (''jettys'', 1),
      (''size'', cfg_flag config ''-s''), (''iters_sum'', cfg_flag config ''-n''), (''cfg_iters'', cfg_flag config ''-n''), (''post_list'', cfg_flag config ''-l''),
      (''cq_mod'', cfg_flag config ''-Q''), (''completed_index'', if no_peak then 0 else cfg_flag config ''-n'' - 1)]"

definition check_report_diagnostic :: "string \<Rightarrow> bw_config \<Rightarrow> bool \<Rightarrow> (pyfloat \<times> pyfloat \<times> pyfloat) res" where
  "check_report_diagnostic line config no_peak = (let fs = diagnostic_fields line; number = diag_number fs; n = cfg_flag config ''-n''; s = cfg_flag config ''-s'' in
     rbind (require (map_of fs ''observation'' = Some ''existing_samples_only'') ''unknown diagnostic observation scope'') (\<lambda>_.
     rbind (rfold (\<lambda>(key, expected) _. diag_matches_int fs key expected) (diagnostic_integers config no_peak) ()) (\<lambda>_.
     rbind (number ''scale'') (\<lambda>scale.
     rbind (require (fl_less (Fin 0) scale) ''diagnostic scale must be positive'') (\<lambda>_.
     rbind (number ''cpu_mhz'') (\<lambda>mhz.
     rbind (diag_matches fs ''scale'' (fl_mul mhz (Fin 1000000))) (\<lambda>_.
     rbind (number ''tcompleted_last'') (\<lambda>completed.
     rbind (number ''tposted0'') (\<lambda>posted.
     let cycles = fl_sub completed posted in
     rbind (require (fl_less (Fin 0) cycles) ''invalid diagnostic cycle interval'') (\<lambda>_.
     rbind (number ''opt_delta'') (\<lambda>delta.
     rbind (require (fl_less (Fin 0) delta) ''invalid diagnostic cycle interval'') (\<lambda>_.
     rbind (diag_matches fs ''cycles_sum'' cycles) (\<lambda>_.
     rbind (diag_matches fs ''array0'' posted) (\<lambda>_.
     rbind (if no_peak then
         rbind (number ''tcompleted0'') (\<lambda>completed0.
         rbind (diag_matches fs ''tcompleted_last'' completed0) (\<lambda>_.
         rbind (number ''array0'') (\<lambda>array0. diag_matches fs ''opt_delta'' (fl_sub completed0 array0)))) else Inr ()) (\<lambda>_.
     rbind (fl_int_mul ((if no_peak then 0 else 1) * s) scale) (\<lambda>peak_up.
     rbind (diag_matches fs ''peak_up'' peak_up) (\<lambda>_.
     rbind (diag_matches fs ''peak_down'' (fl_mul delta (Fin 1048576))) (\<lambda>_.
     rbind (fl_int_mul (s * n) scale) (\<lambda>avg_up.
     rbind (diag_matches fs ''avg_up'' avg_up) (\<lambda>_.
     rbind (diag_matches fs ''avg_down'' (fl_mul cycles (Fin 1048576))) (\<lambda>_.
     rbind (number ''peak_up'') (\<lambda>up. rbind (number ''peak_down'') (\<lambda>down. rbind (fl_div up down) (\<lambda>peak.
     rbind (diag_matches fs ''peak'' peak) (\<lambda>_.
     rbind (number ''avg_up'') (\<lambda>aup. rbind (number ''avg_down'') (\<lambda>adown. rbind (fl_div aup adown) (\<lambda>avg.
     rbind (diag_matches fs ''avg'' avg) (\<lambda>_.
     rbind (if no_peak then Inr () else
         rbind (fl_of_int n) (\<lambda>fn. rbind (fl_div cycles fn) (\<lambda>q. rbind (fl_floor q) (\<lambda>limit.
         require (fl_le_int delta limit) ''enabled peak minimum excludes the full interval candidate'')))) (\<lambda>_.
     rbind (number ''peak'') (\<lambda>p. rbind (number ''avg'') (\<lambda>a.
     rbind (fl_int_mul n scale) (\<lambda>work. rbind (fl_div work cycles) (\<lambda>per_cycle. rbind (fl_div per_cycle (Fin 1000000)) (\<lambda>rate.
     Inr (p, a, rate))))))))))))))))))))))))))))))))))))"

subsection \<open>Advertised sizes\<close>

definition rx_uart_block :: rx where
  "rx_uart_block = rx_seq [Bol, rx_lit ''--- UART '', Grp rx_digits, rx_lit '' ---'', rx_spaces, Eol]"

definition rx_port_status :: "string \<Rightarrow> rx" where
  "rx_port_status port = rx_seq [Bol, rx_lit ''__UBSIM_RC_'', rx_lit port, rx_lit ''_'', rx_digits, rx_lit ''__='',
     Grp (rx_seq [rx_opt (rx_lit ''-''), rx_digits]), rx_spaces, Eol]"

definition rx_max_msg_size :: rx where
  "rx_max_msg_size = rx_seq [Bol, rx_spaces, rx_lit ''max_msg_size'', rx_spaces, rx_lit '':'', rx_spaces, Grp rx_digits, rx_spaces, Eol]"

record size_verdict =
  sv_compliance :: "bool option"
  sv_limits :: "int list option"
  sv_warnings :: "string list"

definition advertised_limit :: "sdict \<Rightarrow> string list \<Rightarrow> nat \<Rightarrow> int res" where
  "advertised_limit manifest blocks node = (let port = blocks ! (2 * node + 1); body = blocks ! (2 * node + 2) in
     rbind (require (map_of manifest (''uart'' @ show_nat node) = Some port) ''capability UART mismatch'') (\<lambda>_.
     rbind (require (map hd (rx_findall (rx_port_status port) body) = [''0'']) ''capability command missing successful return code'') (\<lambda>_.
     let sizes = map hd (rx_findall rx_max_msg_size body) in
     rbind (require (length sizes = 1 \<and> digits_value (hd sizes) > 0) ''missing/invalid max_msg_size'') (\<lambda>_.
     Inr (digits_value (hd sizes))))))"

definition advertised_limits :: "sdict \<Rightarrow> string \<Rightarrow> int list res" where
  "advertised_limits manifest content = (let blocks = rx_split_groups rx_uart_block content in
     rbind (require (length blocks = 5) ''expected two capability UART blocks'') (\<lambda>_.
     rbind (advertised_limit manifest blocks 0) (\<lambda>a. rbind (advertised_limit manifest blocks 1) (\<lambda>b. Inr [a, b]))))"

fun audit_text :: "py_exc \<Rightarrow> string" where
  "audit_text (AuditError m) = m"
| "audit_text (ValueError m) = m"
| "audit_text (OSError m) = m"
| "audit_text _ = []"

definition size_compliance :: "string option \<Rightarrow> sdict \<Rightarrow> int list \<Rightarrow> size_verdict" where
  "size_compliance capabilities manifest sizes = (case capabilities of
       None \<Rightarrow> \<lparr>sv_compliance = None, sv_limits = None,
         sv_warnings = [''Advertised size compliance unknown: capabilities.txt absent'']\<rparr>
     | Some content \<Rightarrow> (case advertised_limits manifest content of
         Inl e \<Rightarrow> \<lparr>sv_compliance = None, sv_limits = None, sv_warnings = [''Advertised size compliance unknown: '' @ audit_text e]\<rparr>
       | Inr limits \<Rightarrow> let excessive = filter (\<lambda>n. n > Min (set limits)) sizes in
           \<lparr>sv_compliance = Some (excessive = []), sv_limits = Some limits,
            sv_warnings = (if excessive = [] then [] else [''Sizes '' @ ''['' @ join '', '' (map str_int excessive) @ '']'' @
              '' exceed at least one advertised max_msg_size; '' @ ''counter success is NOT advertised hardware support''])\<rparr>))"

subsection \<open>The evidence and its manifest\<close>

text \<open>A missing report is \<open>None\<close> and one that is not JSON is \<open>Some None\<close>.\<close>

record evidence =
  ev_report :: "json option option"
  ev_text :: "string \<Rightarrow> string option"

definition ev_read :: "evidence \<Rightarrow> string \<Rightarrow> string res" where
  "ev_read ev name = (case ev_text ev name of Some content \<Rightarrow> Inr content
     | None \<Rightarrow> Inl (AuditError (''missing/unreadable evidence: '' @ name)))"

definition retry_profile :: "string \<Rightarrow> string option" where
  "retry_profile mode = (if mode = ''on'' then Some ''experimental-ta-timeout-replay''
     else if mode = ''off'' then Some ''ctp-lossless-lower-layer-assumed'' else None)"

definition rx_reliability_profile :: rx where
  "rx_reliability_profile = rx_seq [Wordb, rx_lit ''reliability_profile='', Grp (rx_plus (Cls (\<lambda>c. \<not> is_space c)))]"

definition check_retry_mode :: "sdict \<Rightarrow> unit res" where
  "check_retry_mode manifest = require (case map_of manifest ''ctp_retransmission'' of None \<Rightarrow> True | Some mode \<Rightarrow> retry_profile mode \<noteq> None)
     ''invalid effective CTP retry mode''"

definition check_profile :: "sdict \<Rightarrow> string \<Rightarrow> bool res" where
  "check_profile manifest ns3 = (let observed = map hd (rx_findall rx_reliability_profile ns3) in
     if observed = [] then Inr False
     else rbind (require (case Option.bind (map_of manifest ''ctp_retransmission'') retry_profile of None \<Rightarrow> False | Some p \<Rightarrow> observed = [p])
       ''runtime CTP profile disagrees with manifest'') (\<lambda>_. Inr True))"

definition manifest_values :: sdict where
  "manifest_values = [(''runtime'', ''qemu-tcg-timing''), (''node_count'', ''2''), (''network_backend'', ''modular-ns3ub''),
     (''synchronization'', ''required'')]"

definition check_manifest :: "sdict \<Rightarrow> pyfloat res" where
  "check_manifest manifest =
     rbind (rfold (\<lambda>(key, expected) _. require (map_of manifest key = Some expected) (''manifest '' @ key @ '' must be '' @ expected))
       manifest_values ()) (\<lambda>_.
     rbind (case map_of manifest ''peer_link_rate_gbps'' of
         None \<Rightarrow> Inl (AuditError ''missing/invalid configured link rate'')
       | Some content \<Rightarrow> (case py_float content of
           Inl _ \<Rightarrow> Inl (AuditError ''missing/invalid configured link rate'') | Inr rate \<Rightarrow> Inr rate)) (\<lambda>rate.
     rbind (require (fl_isfinite rate \<and> fl_less (Fin 0) rate) ''invalid configured link rate'') (\<lambda>_.
     Inr rate)))"

text \<open>\<^verbatim>\<open>value == 0\<close> for a decoded value, which also holds for \<^verbatim>\<open>False\<close> and \<^verbatim>\<open>0.0\<close>.\<close>

definition is_zero :: "json option \<Rightarrow> bool" where
  "is_zero v \<longleftrightarrow> (case v of
       Some (JInt i) \<Rightarrow> i = 0 | Some (JBool b) \<Rightarrow> \<not> b
     | Some (JFloat content) \<Rightarrow> (case py_float content of Inr x \<Rightarrow> fl_eq x (Fin 0) | Inl _ \<Rightarrow> False)
     | _ \<Rightarrow> False)"

definition report_records :: "dict \<Rightarrow> dict list res" where
  "report_records report = (case map_of report ''records'' of
       None \<Rightarrow> Inr []
     | Some (JList rs) \<Rightarrow> rfold (\<lambda>r acc. case r of JObj d \<Rightarrow> Inr (acc @ [d]) | _ \<Rightarrow> Inl (AuditError ''invalid report records'')) rs []
     | Some _ \<Rightarrow> Inl (AuditError ''invalid report records''))"

definition check_step :: "dict list \<Rightarrow> string \<Rightarrow> unit res" where
  "check_step records label = (let found = filter (\<lambda>r. map_of r ''label'' = Some (JStr label)) records in
     require (length found = 1 \<and> is_zero (map_of (hd found) ''returncode'')) (''missing/failed '' @ label))"

subsection \<open>One endpoint of a workload\<close>

definition rx_header :: "string \<Rightarrow> rx" where
  "rx_header name = rx_seq [rx_lit name, rx_spaces, rx_lit '':'', rx_spaces, Grp rx_digits]"

definition header_values :: "string \<Rightarrow> string \<Rightarrow> string list" where
  "header_values name body = map hd (rx_findall (rx_header name) body)"

definition rx_inline_header :: rx where
  "rx_inline_header = rx_seq [rx_lit ''Max inline size'', rx_spaces, rx_lit '':'', rx_spaces, Grp rx_digits, rx_spaces, rx_lit ''[B]'']"

definition rx_bandwidth_row :: rx where
  "rx_bandwidth_row = rx_seq [Bol, rx_spaces, Grp rx_digits, rx_spaces1, Grp rx_digits, rx_spaces1, Grp rx_dotted, rx_spaces1,
     Grp rx_dotted, rx_spaces1, Grp rx_dotted, rx_spaces, Eol]"

definition upper_verb :: "string \<Rightarrow> string" where
  "upper_verb verb = (if verb = ''write'' then ''WRITE'' else if verb = ''read'' then ''READ'' else ''SEND'')"

type_synonym bw_row = "pyfloat \<times> pyfloat \<times> pyfloat"

definition check_headers :: "bw_config \<Rightarrow> nat \<Rightarrow> string \<Rightarrow> unit res" where
  "check_headers config node body = (let verb = cf_verb config; bidirectional = cf_bidirectional config in
     rbind (require (str_in (''URMA_'' @ upper_verb verb) body \<and> str_in ''Bidirectional'' body = bidirectional)
       ''wrong verb or direction result'') (\<lambda>_.
     rbind (require (str_in ''BW peak[MB/sec]'' body \<and> str_in ''BW average[MB/sec]'' body)
       ''unexpected perftest unit header; refusing unit inference'') (\<lambda>_.
     rbind (require (header_values ''JFS depth'' body = (if \<not> bidirectional \<and> node = 0 then [] else [str_int (cfg_flag config ''-T'')]))
       ''SQ depth mismatch'') (\<lambda>_.
     rbind (require (header_values ''CQ Moderation'' body = [str_int (cfg_flag config ''-Q'')]) ''CQ moderation mismatch'') (\<lambda>_.
     rbind (require (header_values ''Number of jettys'' body = [str_int (cfg_flag config ''-J'')]) ''Jetty count mismatch'') (\<lambda>_.
     rbind (require (header_values ''JFS post list'' body \<in> {[], [str_int (cfg_flag config ''-l'')]}) ''post list mismatch'') (\<lambda>_.
     let inline_headers = map hd (rx_findall rx_inline_header body) in
     if verb = ''read'' then require (inline_headers \<in> {[], [''0'']}) ''unexpected READ inline header''
     else require (inline_headers = [str_int (cfg_flag config ''-I'')]) ''inline size mismatch or missing header''))))))) "

definition read_row :: "bw_config \<Rightarrow> bool \<times> bool \<Rightarrow> string \<Rightarrow> bw_row res" where
  "read_row config no_peak body = (let rows = rx_findall rx_bandwidth_row body in
     rbind (require (length rows = 1) ''missing/ambiguous bandwidth row'') (\<lambda>_.
     let row = hd rows in
     rbind (require (digits_value (row ! 0) = cfg_flag config ''-s'' \<and> digits_value (row ! 1) = cfg_flag config ''-n'') ''size/iterations mismatch'') (\<lambda>_.
     rbind (py_float (row ! 2)) (\<lambda>peak. rbind (py_float (row ! 3)) (\<lambda>average. rbind (py_float (row ! 4)) (\<lambda>rate.
     rbind (require (fl_isfinite peak \<and> fl_isfinite average \<and> fl_less (Fin 0) average \<and> fl_le (Fin 0) peak \<and>
       fl_isfinite rate \<and> fl_le (Fin 0) rate) ''invalid bandwidth values'') (\<lambda>_.
     rbind (if no_peak = (False, False) then require (fl_le average peak) ''peak-enabled aggregate average exceeds peak''
       else if no_peak = (True, True) then require (fl_eq peak (Fin 0)) ''peak must be zero when both endpoints disable peak''
       else require (fl_less (Fin 0) peak) ''client-only enabled SEND peak must be positive'') (\<lambda>_.
     Inr (peak, average, rate)))))))))"

definition check_endpoint :: "sdict \<Rightarrow> bw_config \<Rightarrow> bool \<times> bool \<Rightarrow> string list \<Rightarrow> nat \<Rightarrow> (bw_row \<times> bw_row option) res" where
  "check_endpoint manifest config no_peak blocks node = (let port = blocks ! (2 * node + 1); body = blocks ! (2 * node + 2) in
     rbind (require (map_of manifest (''uart'' @ show_nat node) = Some port) ''UART/manifest mismatch'') (\<lambda>_.
     rbind (require (map hd (rx_findall (rx_port_status port) body) = [''0'']) ''missing/failed/duplicate guest return code'') (\<lambda>_.
     rbind (check_headers config node body) (\<lambda>_.
     rbind (read_row config no_peak body) (\<lambda>row.
     let lines = filter (\<lambda>l. startswith l ''[UBSIM_BW_REPORT_DIAGNOSTIC]'') (splitlines body) in
     rbind (require (cf_bidirectional config \<or> lines = []) ''unidirectional report diagnostics not supported'') (\<lambda>_.
     rbind (require (length lines \<le> 1) ''duplicate report diagnostics'') (\<lambda>_.
     if lines = [] then Inr (row, None)
     else rbind (check_report_diagnostic (hd lines) config (if node = 0 then fst no_peak else snd no_peak)) (\<lambda>d.
       Inr (row, Some d)))))))))"

definition row_eq :: "bw_row \<Rightarrow> bw_row \<Rightarrow> bool" where
  "row_eq a b \<longleftrightarrow> fl_eq (fst a) (fst b) \<and> fl_eq (fst (snd a)) (fst (snd b)) \<and> fl_eq (snd (snd a)) (snd (snd b))"

text \<open>A printed value is the sum of the two local ones up to the rounding of its decimals.\<close>

definition close_sum :: "rat \<Rightarrow> pyfloat \<Rightarrow> pyfloat \<Rightarrow> pyfloat \<Rightarrow> bool" where
  "close_sum precision value a b = fl_le (fl_abs (fl_sub value (fl_add (fl_add (Fin 0) a) b))) (fl_round precision)"

definition check_sums :: "bw_row \<Rightarrow> bw_row option \<Rightarrow> bw_row option \<Rightarrow> unit res" where
  "check_sums row d0 d1 = (case (d0, d1) of
       (None, None) \<Rightarrow> Inr ()
     | (Some a, Some b) \<Rightarrow> require (close_sum (5001 / 1000000) (fst row) (fst a) (fst b) \<and>
         close_sum (5001 / 1000000) (fst (snd row)) (fst (snd a)) (fst (snd b)) \<and>
         close_sum (501 / 1000000000) (snd (snd row)) (snd (snd a)) (snd (snd b)))
         ''summed local diagnostics disagree with printed aggregate rounding''
     | _ \<Rightarrow> Inl (AuditError ''diagnostics missing on one endpoint''))"

subsection \<open>Workloads\<close>

record trial_case =
  tc_verb :: string
  tc_bidirectional :: bool
  tc_size :: int
  tc_count :: int
  tc_depth :: int
  tc_receive_depth :: "int option"
  tc_inline :: int
  tc_row :: bw_row
  tc_peak_scope :: string
  tc_no_peak :: "bool option list"
  tc_diagnostics :: bool
  tc_average_GB_s :: pyfloat

text \<open>\<^verbatim>\<open>iterations_per_endpoint\<close> and \<^verbatim>\<open>iterations_by_node\<close> of a case.\<close>

definition iterations_by_node :: "trial_case \<Rightarrow> int list" where
  "iterations_by_node c = [if tc_bidirectional c then tc_count c else 0, tc_count c]"

record audit_loop =
  al_cases :: "trial_case list"
  al_seen :: "string list"
  al_verb :: "string option"
  al_bidirectional :: "bool option"
  al_wqes :: int
  al_payload :: int
  al_segments :: int

definition rx_verb :: rx where
  "rx_verb = rx_alt [rx_lit ''write'', rx_lit ''read'', rx_lit ''send'']"

definition rx_workload :: rx where
  "rx_workload = rx_seq [rx_verb, rx_lit ''-'']"

definition rx_workload_label :: rx where
  "rx_workload_label = rx_seq [rx_verb, rx_lit ''-'', rx_digits]"

text \<open>The guest command of a pair; only a string can be split.\<close>

definition item_config :: "json \<Rightarrow> bw_role \<Rightarrow> bw_config res" where
  "item_config item role = (case item of
       JStr command \<Rightarrow> command_config command role
     | JNull \<Rightarrow> Inl (ValueError ''s argument must not be None'')
     | _ \<Rightarrow> Inl (AttributeError ''object has no attribute read''))"

text \<open>\<^verbatim>\<open>command[command.index("--commands") + 1:]\<close>.\<close>

definition guest_pair :: "json list \<Rightarrow> json list" where
  "guest_pair command = drop (length (takeWhile (\<lambda>x. x \<noteq> JStr ''--commands'') command) + 1) command"

definition measured_case :: "sdict \<Rightarrow> bw_config \<Rightarrow> string \<Rightarrow> trial_case res" where
  "measured_case manifest config raw =
     (let blocks = rx_split_groups rx_uart_block raw; verb = cf_verb config; bidirectional = cf_bidirectional config;
          (no_peak, scope) = peak_policy verb (cfg_flag config ''-n'') in
      rbind (require (length blocks = 5) ''expected exactly two UART blocks'') (\<lambda>_.
      rbind (check_endpoint manifest config no_peak blocks 0) (\<lambda>(row0, d0).
      rbind (check_endpoint manifest config no_peak blocks 1) (\<lambda>(row1, d1).
      rbind (require (row_eq row0 row1) ''exchanged endpoint bandwidth rows differ'') (\<lambda>_.
      rbind (check_sums row0 d0 d1) (\<lambda>_.
      rbind (fl_div (fl_mul (fst (snd row0)) (Fin 1048576)) (Fin 1000000000)) (\<lambda>gb.
      Inr \<lparr>tc_verb = verb, tc_bidirectional = bidirectional, tc_size = cfg_flag config ''-s'', tc_count = cfg_flag config ''-n'',
        tc_depth = cfg_flag config ''-T'', tc_receive_depth = map_of (cf_flags config) ''-R'', tc_inline = cfg_flag config ''-I'',
        tc_row = row0, tc_peak_scope = (if bidirectional then scope
          else ''client-only measurement, server displays exchanged client result''),
        tc_no_peak = [if bidirectional then Some (fst no_peak) else None, Some (snd no_peak)],
        tc_diagnostics = (d0 \<noteq> None), tc_average_GB_s = gb\<rparr>)))))))"

definition audit_workload :: "evidence \<Rightarrow> sdict \<Rightarrow> dict \<Rightarrow> string \<Rightarrow> json list \<Rightarrow> audit_loop \<Rightarrow> audit_loop res" where
  "audit_workload ev manifest record label command al =
     rbind (require (rx_fullmatch rx_workload_label label \<noteq> None \<and> label \<notin> set (al_seen al)) ''invalid/duplicate workload label'') (\<lambda>_.
     rbind (require (is_zero (map_of record ''returncode'') \<and> map_of record ''validation_errors'' = Some (JList []))
       (label @ '': missing/failed runner validation'')) (\<lambda>_.
     rbind (require (count_list command (JStr ''--commands'') = 1) (label @ '': missing paired commands'')) (\<lambda>_.
     let pair = guest_pair command in
     rbind (require (length pair = 2) ''expected exactly two guest commands'') (\<lambda>_.
     rbind (item_config (pair ! 0) Server_Role) (\<lambda>config.
     rbind (item_config (pair ! 1) Client_Role) (\<lambda>client.
     rbind (require (client = config) ''endpoint commands differ'') (\<lambda>_.
     let trial_verb = (case al_verb al of None \<Rightarrow> cf_verb config | Some v \<Rightarrow> v);
         trial_bidirectional = (case al_bidirectional al of None \<Rightarrow> cf_bidirectional config | Some b \<Rightarrow> b) in
     rbind (require (cf_verb config = trial_verb) ''mixed verbs or requested verb mismatch'') (\<lambda>_.
     rbind (require (cf_bidirectional config = trial_bidirectional) ''mixed traffic directions'') (\<lambda>_.
     let directions = (if trial_bidirectional then 2 else 1); bytes = cfg_flag config ''-s''; count = cfg_flag config ''-n'' in
     rbind (require (label = trial_verb @ ''-'' @ str_int bytes) ''label/command verb or size mismatch'') (\<lambda>_.
     rbind (ev_read ev (label @ ''.txt'')) (\<lambda>raw.
     rbind (measured_case manifest config raw) (\<lambda>measured.
     Inr (al\<lparr>al_cases := al_cases al @ [measured], al_seen := label # al_seen al, al_verb := Some trial_verb,
       al_bidirectional := Some trial_bidirectional, al_wqes := al_wqes al + count,
       al_payload := al_payload al + directions * count * bytes,
       al_segments := al_segments al + directions * count * ((bytes + 4095) div 4096)\<rparr>)))))))))))))"

definition audit_record :: "evidence \<Rightarrow> sdict \<Rightarrow> dict \<Rightarrow> audit_loop \<Rightarrow> audit_loop res" where
  "audit_record ev manifest record al =
     rbind (case map_of record ''command'' of None \<Rightarrow> Inr [] | Some (JList xs) \<Rightarrow> Inr xs
       | Some _ \<Rightarrow> Inl (AuditError ''invalid command record'')) (\<lambda>command.
     let is_perf = list_ex (\<lambda>item. str_in ''urma_perftest'' (py_str item)) command in
     rbind (case map_of record ''label'' of None \<Rightarrow> Inr [] | Some (JStr label) \<Rightarrow> Inr label
       | Some _ \<Rightarrow> Inl (TypeError ''expected string or bytes-like object'')) (\<lambda>label.
     if rx_match rx_workload label = None
     then rbind (require (\<not> is_perf) ''unsupported performance workload'') (\<lambda>_. Inr al)
     else audit_workload ev manifest record label command al))"

subsection \<open>Counters\<close>

definition zero_progress :: "string list" where
  "zero_progress = [''native_tasks'', ''pending_target_dma'', ''scheduled_packets'', ''native_wqes_failed'']"

definition zero_fabric :: "string list" where
  "zero_fabric = [''native_wqes_failed'', ''target_dma_errors'', ''pending_target_dma'', ''ns3_runtime_drops'',
     ''native_trace_size_mismatches'', ''ctp_retransmission_exhausted'', ''async_timestamp_jumps'']"

definition wqe_counters :: "string list" where
  "wqe_counters = [''native_wqes_submitted'', ''native_wqes_completed'']"

definition check_fabric :: "string \<Rightarrow> string \<Rightarrow> int \<Rightarrow> int \<Rightarrow> int \<Rightarrow> counters res" where
  "check_fabric ns3 verb fabric_wqes payload segments =
     rbind (last_fields ns3 ''NS3_UB_NET_STATS'') (\<lambda>fabric.
     rbind (last_fields ns3 ''NS3_UB_NET_PROGRESS'') (\<lambda>progress.
     rbind (equal_fields progress zero_progress 0) (\<lambda>_.
     rbind (equal_field progress ''outputs_empty'' 1) (\<lambda>_.
     rbind (equal_fields progress wqe_counters fabric_wqes) (\<lambda>_.
     rbind (equal_fields fabric wqe_counters fabric_wqes) (\<lambda>_.
     rbind (equal_field fabric ''payload_bytes'' (payload * (if verb = ''read'' then 2 else 1))) (\<lambda>_.
     rbind (equal_fields fabric [''ctp_request_segments'', ''ctp_native_completions''] segments) (\<lambda>_.
     rbind (equal_field fabric ''ctp_taacks'' (if verb = ''write'' then segments else 0)) (\<lambda>_.
     rbind (equal_field fabric ''ctp_read_responses'' (if verb = ''read'' then segments else 0)) (\<lambda>_.
     rbind (if verb = ''send'' then equal_field fabric ''ctp_native_send_delivery_completions'' segments
       else if verb = ''read'' \<or> has_key ''ctp_native_send_delivery_completions'' fabric
       then equal_field fabric ''ctp_native_send_delivery_completions'' 0 else Inr ()) (\<lambda>_.
     rbind (equal_fields fabric zero_fabric 0) (\<lambda>_.
     Inr fabric))))))))))))"

record node_result =
  nr_wqes :: int
  nr_wraps :: int
  nr_notifications :: "counters option"
  nr_rma_peak :: "int option"

definition need_key :: "counters \<Rightarrow> string \<Rightarrow> int res" where
  "need_key fs key = (case map_of fs key of Some v \<Rightarrow> Inr v | None \<Rightarrow> Inl (AuditError (''missing '' @ key)))"

definition event_slots :: "sdict \<Rightarrow> int res" where
  "event_slots manifest = (case map_of manifest ''completion_event_slots'' of
       None \<Rightarrow> Inl (AuditError ''missing/invalid completion event slot budget'')
     | Some content \<Rightarrow> (case py_int content of
         Inl _ \<Rightarrow> Inl (AuditError ''missing/invalid completion event slot budget'') | Inr slots \<Rightarrow> Inr slots))"

definition notification_keys :: "string list" where
  "notification_keys = [''ceq_consumer_updates'', ''ceq_full_waits'', ''events_published'']"

definition check_notifications :: "sdict \<Rightarrow> counters \<Rightarrow> counters \<Rightarrow> counters res" where
  "check_notifications manifest profile progress =
     rbind (event_slots manifest) (\<lambda>slots.
     rbind (require (1 \<le> slots \<and> slots \<le> 4096) ''invalid completion event slot budget'') (\<lambda>_.
     rbind (equal_fields profile [''ceq_consumer_rejects'', ''notification_failures''] 0) (\<lambda>_.
     rbind (equal_field progress ''event_slots_in_use'' 0) (\<lambda>_.
     rbind (require (case map_of profile ''event_queue_peak'' of None \<Rightarrow> False | Some p \<Rightarrow> 0 \<le> p \<and> p \<le> slots)
       ''notification event queue exceeds configured bound'') (\<lambda>_.
     rfold (\<lambda>key acc. rbind (need_key profile key) (\<lambda>v. Inr (dict_set key v acc))) (notification_keys @ [''event_queue_peak'']) [])))))"

definition idle_keys :: "string list" where
  "idle_keys = [''pending_rma'', ''read_dma_queues'', ''remote_services'', ''completion_events'', ''event_busy'', ''receive_busy'', ''destroy_pending'']"

definition audit_node :: "evidence \<Rightarrow> sdict \<Rightarrow> string \<Rightarrow> nat \<Rightarrow> int \<Rightarrow> node_result res" where
  "audit_node ev manifest verb node node_wqes =
     rbind (ev_read ev (''udma-node'' @ show_nat node @ ''-udma.log'')) (\<lambda>content.
     rbind (last_fields content ''UDMA_PROFILE'') (\<lambda>profile.
     rbind (last_fields content ''UDMA_PROGRESS'') (\<lambda>progress.
     rbind (equal_fields profile [''sq_wqes'', ''sq_completions''] node_wqes) (\<lambda>_.
     rbind (equal_fields progress [''sq_wqes'', ''sq_completions''] node_wqes) (\<lambda>_.
     rbind (equal_fields profile [''sq_depth_rejects'', ''sq_decode_rejects'', ''ubase_errors'', ''async_timestamp_jumps''] 0) (\<lambda>_.
     rbind (equal_field progress ''quiescent'' 1) (\<lambda>_.
     rbind (equal_fields progress idle_keys 0) (\<lambda>_.
     rbind (last_fields content ''UB_HOST_PENDING'') (\<lambda>host.
     rbind (equal_fields host [''reads'', ''writes''] 0) (\<lambda>_.
     rbind (if verb \<noteq> ''send'' then rbind (need_key profile ''rma_pending_peak'') (\<lambda>p. Inr (Some p)) else Inr None) (\<lambda>rma_peak.
     rbind (need_key profile ''sq_consumer_wraps'') (\<lambda>wraps.
     rbind (if map_of manifest ''udma_state_format'' = Some ''3''
       then rbind (check_notifications manifest profile progress) (\<lambda>n. Inr (Some n)) else Inr None) (\<lambda>notifications.
     Inr \<lparr>nr_wqes = node_wqes, nr_wraps = wraps, nr_notifications = notifications, nr_rma_peak = rma_peak\<rparr>)))))))))))))"

subsection \<open>The audit\<close>

record audit_result =
  ar_verb :: string
  ar_bidirectional :: bool
  ar_cases :: "trial_case list"
  ar_nodes :: "node_result list"
  ar_fabric_wqes :: int
  ar_expected_sizes :: "int list option"
  ar_sizes :: size_verdict
  ar_application_bytes :: int
  ar_native_payload :: int
  ar_retries :: "(string \<times> int option) list"
  ar_link_rate :: pyfloat
  ar_retry_mode :: "string option"
  ar_profile_checked :: bool
  ar_wall_seconds :: json

definition retry_keys :: "string list" where
  "retry_keys = [''ctp_retransmissions'', ''duplicate_write_suppressed'', ''duplicate_taack_replays'',
     ''duplicate_read_suppressed'', ''duplicate_read_response_replays'', ''ctp_retries_active_sent'',
     ''native_late_response_received'', ''ctp_retries_queued'', ''ctp_retries_cancelled'', ''ctp_retries_stale_sent'']"

definition check_expected_sizes :: "int list option \<Rightarrow> unit res" where
  "check_expected_sizes expected = (case expected of
       None \<Rightarrow> Inr ()
     | Some sizes \<Rightarrow>
         rbind (require (sizes \<noteq> []) ''expected sizes must be a nonempty sequence'') (\<lambda>_.
         rbind (require (list_all (\<lambda>n. 0 < n \<and> n \<le> 0xffffffff) sizes) ''expected sizes must be positive uint32 integers'') (\<lambda>_.
         require (distinct sizes) ''duplicate expected sizes'')))"

definition audit :: "evidence \<Rightarrow> string option \<Rightarrow> int list option \<Rightarrow> audit_result res" where
  "audit ev verb expected_sizes =
     rbind (check_expected_sizes expected_sizes) (\<lambda>_.
     rbind (require (verb \<in> {None, Some ''write'', Some ''read'', Some ''send''}) ''unsupported requested verb'') (\<lambda>_.
     rbind (case ev_report ev of None \<Rightarrow> Inl (AuditError ''missing/unreadable evidence: report.json'') | Some file \<Rightarrow> loads file) (\<lambda>raw_report.
     rbind (ev_read ev ''run-manifest.txt'') (\<lambda>manifest_text.
     let manifest = manifest_dict manifest_text in
     rbind (check_retry_mode manifest) (\<lambda>_.
     rbind (ev_read ev ''ns3.log'') (\<lambda>ns3.
     rbind (check_profile manifest ns3) (\<lambda>profile_checked.
     rbind (check_manifest manifest) (\<lambda>link_rate.
     rbind (as_obj (AttributeError ''get'') raw_report) (\<lambda>report.
     rbind (report_records report) (\<lambda>records.
     rbind (rfold (\<lambda>label _. check_step records label) [''launch'', ''shell-ready'', ''network'', ''stop''] ()) (\<lambda>_.
     rbind (rfold (audit_record ev manifest) records
       \<lparr>al_cases = [], al_seen = [], al_verb = verb, al_bidirectional = None, al_wqes = 0, al_payload = 0, al_segments = 0\<rparr>) (\<lambda>al.
     rbind (require (al_cases al \<noteq> []) ''no supported bandwidth cases'') (\<lambda>_.
     rbind (require (case expected_sizes of None \<Rightarrow> True | Some sizes \<Rightarrow> map tc_size (al_cases al) = sizes)
       ''completed size sequence does not match expected sizes'') (\<lambda>_.
     let trial_verb = the (al_verb al); bidirectional = the (al_bidirectional al); directions = (if bidirectional then 2 else 1) in
     rbind (check_fabric ns3 trial_verb (directions * al_wqes al) (al_payload al) (al_segments al)) (\<lambda>fabric.
     rbind (audit_node ev manifest trial_verb 0 (if bidirectional then al_wqes al else 0)) (\<lambda>node0.
     rbind (audit_node ev manifest trial_verb 1 (al_wqes al)) (\<lambda>node1.
     Inr \<lparr>ar_verb = trial_verb, ar_bidirectional = bidirectional, ar_cases = al_cases al, ar_nodes = [node0, node1],
       ar_fabric_wqes = directions * al_wqes al, ar_expected_sizes = expected_sizes,
       ar_sizes = size_compliance (ev_text ev ''capabilities.txt'') manifest (map tc_size (al_cases al)),
       ar_application_bytes = al_payload al, ar_native_payload = dict_get ''payload_bytes'' 0 fabric,
       ar_retries = map (\<lambda>key. (key, map_of fabric key)) retry_keys, ar_link_rate = link_rate,
       ar_retry_mode = map_of manifest ''ctp_retransmission'', ar_profile_checked = profile_checked,
       ar_wall_seconds = dict_get ''wall_seconds'' JNull report\<rparr>)))))))))))))))))"

text \<open>The exit code, and the exceptions that \<^verbatim>\<open>main\<close> does not catch.\<close>

definition audit_caught :: "py_exc \<Rightarrow> bool" where
  "audit_caught e \<longleftrightarrow> is_ValueError e \<or> (case e of TypeError _ \<Rightarrow> True | KeyError _ \<Rightarrow> True | _ \<Rightarrow> False)"

definition audit_main :: "evidence \<Rightarrow> string option \<Rightarrow> int list option \<Rightarrow> int res" where
  "audit_main ev verb expected_sizes = (case audit ev verb expected_sizes of
       Inr _ \<Rightarrow> Inr 0
     | Inl e \<Rightarrow> if audit_caught e then Inr 1 else Inl e)"

end
