(* ===== verification/Regex_Runs.thy ===== *)
theory Regex_Runs
  imports Py_Regex
begin

section \<open>Facts about matches\<close>

text \<open>
  What the first match of common patterns is: runs of a class of characters, sequences, groups and
  literals; and \<^verbatim>\<open>re.findall\<close> position by position.
\<close>

subsection \<open>Runs of a class of characters\<close>

declare rx_run.simps(5) [simp del]

lemma star_cls [simp]:
  "rx_run (Star (Cls P)) (before, [], gs) = [(before, [], gs)]"
  "rx_run (Star (Cls P)) (before, c # cs, gs) =
     (if P c then rx_run (Star (Cls P)) (c # before, cs, gs) else []) @ [(before, c # cs, gs)]"
  by (simp_all add: rx_run.simps(5) [of _ "(before, _, gs)"])

lemma star_cls_hd:
  assumes "list_all P u" "t = [] \<or> \<not> P (hd t)"
  shows "\<exists>qs. rx_run (Star (Cls P)) (before, u @ t, gs) = (rev u @ before, t, gs) # qs"
  using assms
proof (induction u arbitrary: before)
  case Nil
  then show ?case by (cases t) auto
next
  case (Cons c u)
  then have "\<exists>qs. rx_run (Star (Cls P)) (c # before, u @ t, gs) = (rev u @ c # before, t, gs) # qs" by simp
  with Cons.prems show ?case by auto
qed

lemma star_cls_set:
  "q \<in> set (rx_run (Star (Cls P)) (before, s, gs)) \<Longrightarrow> \<exists>u t. s = u @ t \<and> list_all P u \<and> q = (rev u @ before, t, gs)"
proof (induction s arbitrary: before)
  case (Cons c s)
  from Cons.prems have "q = (before, c # s, gs) \<or> (P c \<and> q \<in> set (rx_run (Star (Cls P)) (c # before, s, gs)))"
    by (auto split: if_splits)
  then show ?case
  proof
    assume "P c \<and> q \<in> set (rx_run (Star (Cls P)) (c # before, s, gs))"
    with Cons.IH [of "c # before"] obtain u t where "s = u @ t" "list_all P u" "q = (rev u @ c # before, t, gs)" "P c" by blast
    then show ?thesis by (intro exI [of _ "c # u"] exI [of _ t]) simp
  qed (rule exI [of _ "[]"], simp)
qed simp

lemma plus_cls_hd:
  assumes "list_all P u" "u \<noteq> []" "t = [] \<or> \<not> P (hd t)"
  shows "\<exists>qs. rx_run (rx_plus (Cls P)) (before, u @ t, gs) = (rev u @ before, t, gs) # qs"
proof -
  obtain c v where u: "u = c # v" using assms(2) by (cases u) auto
  with star_cls_hd [of P v t "c # before" gs] assms show ?thesis
    by (auto simp: rx_plus_def)
qed

lemma plus_cls_set:
  "q \<in> set (rx_run (rx_plus (Cls P)) (before, s, gs)) \<Longrightarrow> \<exists>u t. s = u @ t \<and> u \<noteq> [] \<and> list_all P u \<and> q = (rev u @ before, t, gs)"
proof -
  assume "q \<in> set (rx_run (rx_plus (Cls P)) (before, s, gs))"
  then obtain c cs where s: "s = c # cs" "P c" "q \<in> set (rx_run (Star (Cls P)) (c # before, cs, gs))"
    by (auto simp: rx_plus_def split: list.splits if_splits)
  from star_cls_set [OF s(3)] obtain u t where "cs = u @ t" "list_all P u" "q = (rev u @ c # before, t, gs)" by blast
  with s show ?thesis by (intro exI [of _ "c # u"] exI [of _ t]) simp
qed

lemma rx_seq_hd:
  "rx_run r p = q # qs \<Longrightarrow> rx_run s q = q' # qs' \<Longrightarrow> \<exists>rest. rx_run (Seq r s) p = q' # rest"
  by simp

lemma rx_grp_hd:
  "rx_run r (before, u @ t, gs) = (before', t, gs') # qs \<Longrightarrow> \<exists>rest. rx_run (Grp r) (before, u @ t, gs) = (before', t, gs' @ [u]) # rest"
  by simp

lemma word_facts: "\<not> is_word (CHR ''='')" "is_digit c \<Longrightarrow> is_word c" "is_space c \<Longrightarrow> \<not> is_word c" "is_space c \<Longrightarrow> \<not> is_digit c"
  by (auto simp: is_word_def is_digit_def is_space_def Let_def)

text \<open>\<^verbatim>\<open>re.findall\<close> from a position on, without the fuel.\<close>

definition rx_findall_at :: "rx \<Rightarrow> string \<Rightarrow> string \<Rightarrow> string list list" where
  "rx_findall_at r before s = rx_findall_fuel (Suc (length s)) r before s"

lemma rx_findall_at_skip: "rx_run r (before, c # s, []) = [] \<Longrightarrow> rx_findall_at r before (c # s) = rx_findall_at r (c # before) s"
  by (simp add: rx_findall_at_def)

lemma rx_findall_at_end: "rx_run r (before, [], []) = [] \<Longrightarrow> rx_findall_at r before [] = []"
  by (simp add: rx_findall_at_def)

lemma rx_findall_at_match:
  "rx_run r (before, s, []) = (before', t, gs) # qs \<Longrightarrow> length t < length s \<Longrightarrow> rx_findall_at r before s = gs # rx_findall_at r before' t"
  using rx_findall_fuel_enough [of t "length s" r before'] by (simp add: rx_findall_at_def)

lemma rx_lit_run: "rx_run (rx_lit p) (before, s, gs) = [] \<or> startswith s p"
proof (induction p arbitrary: before s)
  case (Cons c p)
  show ?case
  proof (cases s)
    case Nil
    then show ?thesis by (cases p) (simp_all add: rx_lit_def)
  next
    case s: (Cons x xs)
    show ?thesis
      using Cons.IH [of "x # before" xs] by (cases p) (auto simp: s rx_lit_def startswith_def)
  qed
qed (simp add: startswith_def)

end
