(* ===== verification/Counter_Lines.thy ===== *)
theory Counter_Lines
  imports Trial_Audit Regex_Runs
begin

section \<open>Reading a line of counters\<close>

text \<open>
  The devices and the fabric print their counters as \<^verbatim>\<open>[MARKER] key=value key=value ...\<close>.  The pattern of
  the audit finds exactly the printed pairs, in their order.
\<close>

declare rx_run.simps(5) [simp del]

subsection \<open>One pair\<close>

definition counter_ok :: "string \<times> string \<Rightarrow> bool" where
  "counter_ok kv \<longleftrightarrow> fst kv \<noteq> [] \<and> list_all is_word (fst kv) \<and> snd kv \<noteq> [] \<and> list_all is_digit (snd kv)"

lemma last_fields_match:
  assumes "counter_ok (k, v)" "t = [] \<or> is_space (hd t)"
  shows "\<exists>rest. rx_run rx_last_fields (before, k @ CHR ''='' # v @ t, []) = (rev (k @ CHR ''='' # v) @ before, t, [k, v]) # rest"
proof -
  have kv: "list_all is_word k" "k \<noteq> []" "list_all is_digit v" "v \<noteq> []" using assms(1) by (simp_all add: counter_ok_def)
  obtain a where "rx_run (rx_plus (Cls is_word)) (before, k @ CHR ''='' # v @ t, []) = (rev k @ before, CHR ''='' # v @ t, []) # a"
    using plus_cls_hd [OF kv(1,2), of "CHR ''='' # v @ t" before "[]"] word_facts(1) by auto
  from rx_grp_hd [OF this] obtain b where
    key: "rx_run (Grp (rx_plus (Cls is_word))) (before, k @ CHR ''='' # v @ t, []) = (rev k @ before, CHR ''='' # v @ t, [k]) # b" by auto
  obtain c where "rx_run rx_digits (CHR ''='' # rev k @ before, v @ t, [k]) = (rev v @ CHR ''='' # rev k @ before, t, [k]) # c"
    using plus_cls_hd [OF kv(3,4), of t "CHR ''='' # rev k @ before" "[k]"] assms(2) word_facts(4) unfolding rx_digits_def by auto
  from rx_grp_hd [OF this] obtain d where
    val: "rx_run (Grp rx_digits) (CHR ''='' # rev k @ before, v @ t, [k]) = (rev v @ CHR ''='' # rev k @ before, t, [k, v]) # d" by auto
  have look: "rx_run (Look (rx_alt [Cls is_space, Eol])) (rev v @ CHR ''='' # rev k @ before, t, [k, v]) =
      [(rev v @ CHR ''='' # rev k @ before, t, [k, v])]"
    using assms(2) by (cases t) auto
  have eq: "rx_run (rx_lit ''='') (rev k @ before, CHR ''='' # v @ t, [k]) = [(CHR ''='' # rev k @ before, v @ t, [k])]"
    by (simp add: rx_lit_def)
  obtain e where "rx_run (Seq (Grp rx_digits) (Look (rx_alt [Cls is_space, Eol]))) (CHR ''='' # rev k @ before, v @ t, [k]) =
      (rev v @ CHR ''='' # rev k @ before, t, [k, v]) # e"
    using rx_seq_hd [OF val look] by blast
  from rx_seq_hd [OF eq this] obtain f where "rx_run (Seq (rx_lit ''='') (Seq (Grp rx_digits) (Look (rx_alt [Cls is_space, Eol]))))
      (rev k @ before, CHR ''='' # v @ t, [k]) = (rev v @ CHR ''='' # rev k @ before, t, [k, v]) # f" by blast
  from rx_seq_hd [OF key this] show ?thesis
    by (simp add: rx_last_fields_def del: rx_run.simps)
qed

text \<open>No pair starts at a character that no key has, nor in a word that no equals sign follows.\<close>

lemma last_fields_no_match:
  assumes "s = u @ t" "list_all is_word u" "t = [] \<or> \<not> is_word (hd t) \<and> hd t \<noteq> CHR ''=''"
  shows "rx_run rx_last_fields (before, s, []) = []"
proof -
  have "rx_run (rx_lit ''='') q = []" if "q \<in> set (rx_run (Grp (rx_plus (Cls is_word))) (before, s, []))" for q
  proof -
    from that obtain p where p: "p \<in> set (rx_run (rx_plus (Cls is_word)) (before, s, []))" "rx_rest q = rx_rest p" by auto
    from plus_cls_set [OF p(1)] obtain u' t' where "s = u' @ t'" "list_all is_word u'" "p = (rev u' @ before, t', [])" by blast
    with p(2) have "s = u' @ t'" "list_all is_word u'" "rx_rest q = t'" by simp_all
    have "t' = [] \<or> hd t' \<noteq> CHR ''=''"
    proof -
      from assms(1) \<open>s = u' @ t'\<close> obtain w where "(u = u' @ w \<and> t' = w @ t) \<or> (u' = u @ w \<and> t = w @ t')"
        by (auto simp: append_eq_append_conv2)
      with assms(2,3) \<open>list_all is_word u'\<close> word_facts(1) show ?thesis
        by (cases w) (auto simp: list_all_iff)
    qed
    with \<open>rx_rest q = t'\<close> show ?thesis by (cases q) (auto simp: rx_lit_def split: list.splits)
  qed
  then show ?thesis by (simp add: rx_last_fields_def del: rx_run.simps(6))
qed

subsection \<open>A line\<close>

text \<open>A word that no equals sign follows is passed over.\<close>

lemma findall_word:
  "list_all is_word u \<Longrightarrow> t = [] \<or> \<not> is_word (hd t) \<and> hd t \<noteq> CHR ''='' \<Longrightarrow>
     rx_findall_at rx_last_fields before (u @ t) = rx_findall_at rx_last_fields (rev u @ before) t"
proof (induction u arbitrary: before)
  case (Cons c u)
  have "rx_run rx_last_fields (before, c # u @ t, []) = []"
    using Cons.prems by (intro last_fields_no_match [of _ "c # u" t]) auto
  from rx_findall_at_skip [OF this] Cons show ?case by simp
qed simp

lemma findall_other:
  "\<not> is_word c \<Longrightarrow> c \<noteq> CHR ''='' \<Longrightarrow> rx_findall_at rx_last_fields before (c # s) = rx_findall_at rx_last_fields (c # before) s"
  by (intro rx_findall_at_skip last_fields_no_match [of _ "[]" "c # s"]) simp_all

definition counters_text :: "sdict \<Rightarrow> string" where
  "counters_text kvs = concat (map (\<lambda>(k, v). CHR 0x20 # k @ CHR ''='' # v) kvs)"

lemma findall_counters:
  "list_all counter_ok kvs \<Longrightarrow> rx_findall_at rx_last_fields before (counters_text kvs) = map (\<lambda>(k, v). [k, v]) kvs"
proof (induction kvs arbitrary: before)
  case Nil
  then show ?case
    using last_fields_no_match [of "[]" "[]" "[]" before] by (simp add: counters_text_def rx_findall_at_end)
next
  case (Cons kv kvs)
  obtain k v where kv: "kv = (k, v)" by (metis surj_pair)
  let ?t = "counters_text kvs"
  have t: "?t = [] \<or> is_space (hd ?t)" by (cases kvs) (auto simp: counters_text_def is_space_def)
  obtain qs where m: "rx_run rx_last_fields (CHR 0x20 # before, k @ CHR ''='' # v @ ?t, []) =
      (rev (k @ CHR ''='' # v) @ CHR 0x20 # before, ?t, [k, v]) # qs"
    using last_fields_match [OF _ t, of k v] Cons.prems kv by auto
  have "counters_text (kv # kvs) = CHR 0x20 # k @ CHR ''='' # v @ ?t"
    by (simp add: counters_text_def kv)
  moreover have "rx_findall_at rx_last_fields before (CHR 0x20 # k @ CHR ''='' # v @ ?t) =
      rx_findall_at rx_last_fields (CHR 0x20 # before) (k @ CHR ''='' # v @ ?t)"
    by (rule findall_other) (simp_all add: is_word_def)
  ultimately show ?case
    using rx_findall_at_match [OF m] Cons kv by simp
qed

text \<open>A whole line, and the last of the lines with a marker.\<close>

definition counter_line :: "string \<Rightarrow> sdict \<Rightarrow> string" where
  "counter_line marker kvs = ''['' @ marker @ '']'' @ counters_text kvs"

lemma findall_counter_line:
  assumes "list_all is_word marker" "list_all counter_ok kvs"
  shows "rx_findall rx_last_fields (counter_line marker kvs) = map (\<lambda>(k, v). [k, v]) kvs"
proof -
  have "rx_findall rx_last_fields (counter_line marker kvs) = rx_findall_at rx_last_fields [] (CHR ''['' # marker @ CHR '']'' # counters_text kvs)"
    by (simp add: rx_findall_def rx_findall_at_def counter_line_def)
  also have "\<dots> = rx_findall_at rx_last_fields [CHR ''[''] (marker @ CHR '']'' # counters_text kvs)"
    by (rule findall_other) (simp_all add: is_word_def)
  also have "\<dots> = rx_findall_at rx_last_fields (rev marker @ [CHR ''['']) (CHR '']'' # counters_text kvs)"
    using assms(1) by (intro findall_word) (simp_all add: is_word_def)
  also have "\<dots> = rx_findall_at rx_last_fields (CHR '']'' # rev marker @ [CHR ''['']) (counters_text kvs)"
    by (rule findall_other) (simp_all add: is_word_def)
  finally show ?thesis
    using findall_counters [OF assms(2)] by simp
qed

definition counter_values :: "sdict \<Rightarrow> counters" where
  "counter_values kvs = map (\<lambda>(k, v). (k, digits_value v)) kvs"

lemma last_fields_line:
  assumes "marked_lines content marker = earlier @ [counter_line marker kvs]" "list_all is_word marker" "list_all counter_ok kvs"
  shows "last_fields content marker = Inr (dict_update [] (counter_values kvs))"
  using assms by (simp add: last_fields_def require_def Let_def findall_counter_line counter_values_def comp_def split_def)

subsection \<open>A text without a literal\<close>

lemma str_in_iff: "str_in p s \<longleftrightarrow> (\<exists>a b. s = a @ p @ b)"
proof (induction s)
  case (Cons c s)
  show ?case
  proof
    assume "str_in p (c # s)"
    then show "\<exists>a b. c # s = a @ p @ b"
      using Cons.IH by (metis append_Cons append_Nil startswith_iff str_in.simps(2))
  next
    assume "\<exists>a b. c # s = a @ p @ b"
    then obtain a b where ab: "c # s = a @ p @ b" by blast
    show "str_in p (c # s)"
    proof (cases a)
      case Nil
      with ab have "startswith (c # s) p" unfolding startswith_iff by auto
      then show ?thesis by simp
    next
      case (Cons x xs)
      with ab \<open>str_in p s \<longleftrightarrow> _\<close> show ?thesis by auto
    qed
  qed
qed auto

lemma str_in_separated:
  assumes "c \<notin> set p" "p \<noteq> []"
  shows "str_in p (a @ c # b) \<longleftrightarrow> str_in p a \<or> str_in p b"
proof
  assume "str_in p (a @ c # b)"
  then obtain u v where "a @ c # b = u @ p @ v" by (auto simp: str_in_iff)
  then consider w where "a = u @ w" "w @ c # b = p @ v" | w where "u = a @ w" "c # b = w @ p @ v"
    by (auto simp: append_eq_append_conv2)
  then show "str_in p a \<or> str_in p b"
  proof cases
    case 1
    from 1(2) consider x where "w = p @ x" | x where "p = w @ x" "c # b = x @ v"
      by (auto simp: append_eq_append_conv2)
    then show ?thesis
    proof cases
      case 1
      with \<open>a = u @ w\<close> show ?thesis by (auto simp: str_in_iff)
    next
      case 2
      with assms(1) have "x = []" by (cases x) auto
      with 2 \<open>a = u @ w\<close> show ?thesis unfolding str_in_iff by (metis append_Nil2)
    qed
  next
    case 2
    with assms obtain y where "w = c # y" by (cases w; cases p) auto
    with 2 show ?thesis by (auto simp: str_in_iff)
  qed
next
  assume "str_in p a \<or> str_in p b"
  then show "str_in p (a @ c # b)"
    unfolding str_in_iff by (metis append.assoc append_Cons)
qed

lemma str_in_counters:
  assumes "CHR 0x20 \<notin> set p" "p \<noteq> []"
  shows "str_in p (a @ counters_text kvs) \<longleftrightarrow> str_in p a \<or> list_ex (\<lambda>(k, v). str_in p (k @ CHR ''='' # v)) kvs"
proof (induction kvs arbitrary: a)
  case (Cons kv kvs)
  obtain k v where kv: "kv = (k, v)" by (metis surj_pair)
  show ?case
    using str_in_separated [OF assms, of a "k @ CHR ''='' # v @ counters_text kvs"] Cons.IH [of "k @ CHR ''='' # v"]
    by (auto simp: kv counters_text_def)
qed (simp add: counters_text_def)

lemma str_in_counter_line:
  assumes "CHR 0x20 \<notin> set p" "p \<noteq> []"
  shows "str_in p (counter_line marker kvs) \<longleftrightarrow>
    str_in p (''['' @ marker @ '']'') \<or> list_ex (\<lambda>(k, v). str_in p (k @ CHR ''='' # v)) kvs"
  using str_in_counters [OF assms, of "''['' @ marker @ '']''" kvs] by (simp only: counter_line_def append.assoc)

text \<open>A pattern finds nothing in a text that lacks a literal it needs.\<close>

lemma rx_findall_none:
  assumes "\<And>before t. \<not> str_in p t \<Longrightarrow> rx_run r (before, t, []) = []" "\<not> str_in p s"
  shows "rx_findall r s = []"
proof -
  have "rx_findall_fuel n r before t = []" if "\<not> str_in p t" for n before t
    using that
  proof (induction n arbitrary: before t)
    case (Suc n)
    then show ?case using assms(1) [OF Suc.prems] by (auto split: list.split)
  qed simp
  with assms(2) show ?thesis unfolding rx_findall_def by blast
qed

lemma no_reliability_profile:
  assumes "\<not> str_in ''reliability_profile='' s"
  shows "rx_findall rx_reliability_profile s = []"
proof (rule rx_findall_none [OF _ assms])
  fix before t
  assume none: "\<not> str_in ''reliability_profile='' t"
  then have "\<not> startswith t ''reliability_profile=''" by (cases t) (auto simp: startswith_def)
  then have "rx_run (rx_lit ''reliability_profile='') (before, t, []) = []"
    using rx_lit_run [of "''reliability_profile=''" before t "[]"] by simp
  then show "rx_run rx_reliability_profile (before, t, []) = []"
    unfolding rx_reliability_profile_def rx_seq.simps rx_run.simps by simp
qed

end
