(* ===== verification/Timing_Trial_Facts.thy ===== *)
theory Timing_Trial_Facts
  imports Timing_Trial
begin

section \<open>Facts about the timing trial\<close>

text \<open>
  The words of a bandwidth command, what an observed drain means, that a launched laboratory is
  always stopped, and what the report of a successful trial holds.
\<close>

subsection \<open>Commands\<close>

definition bw_words :: "bw_settings \<Rightarrow> string list" where
  "bw_words b =
     (if bw_diagnostic b then [''UBSIM_BW_REPORT_DIAGNOSTIC=1''] else []) @
     [''LD_LIBRARY_PATH=/lib:/usr/lib'', ''urma_perftest'', bw_verb b, ''-d'', ''udma0'', ''--eid_idx'', ''0'', ''--ctp''] @
     (if bw_unidirectional b then [] else [''-B'']) @
     [''-s'', str_int (bw_size b), ''-P'', str_int (bw_port b), ''-J'', ''1'', ''-I'', str_int (effective_inline b), ''-T'', str_int (bw_depth b)] @
     (if bw_verb b \<noteq> ''write_bw'' then [''-R'', str_int (bw_depth b)] else []) @
     [''-n'', str_int (bw_iterations b), ''-l'', str_int (bw_post_list b), ''-Q'', str_int (bw_cq_mod b), ''-p'', ''0'']"

lemma bw_command_words:
  assumes "bw_command b = Inr command"
  shows "command = join '' '' (bw_words b)"
  using assms
  by (cases "bw_diagnostic b"; cases "bw_unidirectional b"; cases "bw_verb b = ''write_bw''") (simp_all add: bw_command_def bw_words_def Let_def)

lemma check_bw_Inr:
  "check_bw b = Inr () \<longleftrightarrow>
     (bw_unidirectional b \<longrightarrow> bw_verb b = ''read_bw'' \<and> \<not> bw_diagnostic b) \<and>
     bw_verb b \<in> {''write_bw'', ''read_bw'', ''send_bw''} \<and>
     0 < bw_size b \<and> 0 < bw_port b \<and> 0 < bw_iterations b \<and> 0 < bw_depth b \<and> 0 < bw_post_list b \<and> 0 < bw_cq_mod b \<and>
     bw_depth b \<le> bw_iterations b \<and> (bw_verb b = ''send_bw'' \<longrightarrow> bw_size b \<le> 4096) \<and>
     bw_post_list b \<le> bw_depth b \<and> bw_cq_mod b \<le> bw_depth b \<and>
     bw_iterations b mod bw_post_list b = 0 \<and> bw_iterations b mod bw_cq_mod b = 0 \<and>
     (1 < bw_post_list b \<longrightarrow> bw_post_list b mod bw_cq_mod b = 0) \<and> 0 \<le> bw_inline b"
  unfolding check_bw_def by (simp add: not_le not_less, safe?) auto

lemma bw_command_checked: "bw_command b = Inr command \<Longrightarrow> check_bw b = Inr ()"
  by (cases "check_bw b") (auto simp: bw_command_def)

definition bw_literals :: "string list" where
  "bw_literals = [''UBSIM_BW_REPORT_DIAGNOSTIC=1'', ''LD_LIBRARY_PATH=/lib:/usr/lib'', ''urma_perftest'', ''write_bw'', ''read_bw'', ''send_bw'',
     ''-d'', ''udma0'', ''--eid_idx'', ''0'', ''--ctp'', ''-B'', ''-s'', ''-P'', ''-J'', ''1'', ''-I'', ''-T'', ''-R'', ''-n'', ''-l'', ''-Q'', ''-p'',
     ''-S'', ''10.0.0.1'']"

lemma bw_literals_plain: "list_all sh_plain bw_literals"
  by code_simp

lemma bw_words_literals:
  assumes "check_bw b = Inr ()"
  shows "set (bw_words b) \<subseteq> set bw_literals \<union> range str_int"
proof -
  have "bw_verb b = ''write_bw'' \<or> bw_verb b = ''read_bw'' \<or> bw_verb b = ''send_bw''"
    using assms unfolding check_bw_Inr by blast
  then show ?thesis
    unfolding bw_words_def bw_literals_def
    by (elim disjE; cases "bw_diagnostic b"; cases "bw_unidirectional b"; simp)
qed

lemma bw_words_plain: "check_bw b = Inr () \<Longrightarrow> list_all sh_plain (bw_words b)"
  using bw_words_literals [of b] bw_literals_plain sh_plain_str_int unfolding list_all_iff by blast

lemma bw_command_split: "bw_command b = Inr command \<Longrightarrow> shlex_split command = Inr (bw_words b)"
  using bw_command_words bw_command_checked bw_words_plain shlex_split_join by metis

lemma join_append: "xs \<noteq> [] \<Longrightarrow> ys \<noteq> [] \<Longrightarrow> join sep (xs @ ys) = join sep xs @ sep @ join sep ys"
proof (induction sep xs rule: join.induct)
  case (2 sep x)
  then show ?case by (cases ys) auto
qed simp_all

lemma bw_client_split:
  assumes "bw_command b = Inr command"
  shows "shlex_split (command @ '' -S 10.0.0.1'') = Inr (bw_words b @ [''-S'', ''10.0.0.1''])"
proof -
  have "command @ '' -S 10.0.0.1'' = join '' '' (bw_words b @ [''-S'', ''10.0.0.1''])"
    using bw_command_words [OF assms] join_append [of "bw_words b" "[''-S'', ''10.0.0.1'']" "'' ''"] by (simp add: bw_words_def)
  moreover have "list_all sh_plain (bw_words b @ [''-S'', ''10.0.0.1''])"
    using bw_words_plain [OF bw_command_checked [OF assms]] bw_literals_plain by (simp add: bw_literals_def)
  ultimately show ?thesis by (simp only: shlex_split_join)
qed

subsection \<open>Drained work\<close>

text \<open>The counter of the loop is the length of the run of drained samples at the end.\<close>

lemma drain_loop_run:
  assumes "drain_loop ss c = Inr (samples, n)" "c < 2"
  shows "n = length (takeWhile snd (rev samples)) + (if list_all snd samples then c else 0) \<and>
    list_all (\<lambda>(rs, drained). drained = work_drained rs) samples"
  using assms
proof (induction ss c arbitrary: samples n rule: drain_loop.induct)
  case (2 s ss c)
  let ?rs = "poll_until (ds_polls s) []"
  show ?case
  proof (cases "2 \<le> (if work_drained ?rs then c + 1 else 0)")
    case True
    with 2 show ?thesis by (auto simp: Let_def split: if_splits)
  next
    case False
    with 2 obtain rest where rest: "drain_loop ss (if work_drained ?rs then c + 1 else 0) = Inr (rest, n)"
      "samples = (?rs, work_drained ?rs) # rest" by (auto simp: Let_def split: if_splits)
    have "takeWhile snd (rev samples) = (if list_all snd rest then rev rest @ (if work_drained ?rs then [(?rs, True)] else [])
        else takeWhile snd (rev rest))"
      using rest(2) by (auto simp: takeWhile_append list_all_iff)
    moreover have "length (takeWhile snd (rev rest)) = length rest" if "list_all snd rest"
      using that by (metis length_rev list_all_iff set_rev takeWhile_eq_all_conv)
    ultimately show ?thesis
      using 2(1) [of "()" ?rs "work_drained ?rs" _ rest n] 2(2) False rest by (auto simp: Let_def split: if_splits)
  qed
qed simp

text \<open>
  An observed drain is two samples in a row: the last two samples of the observation both found the
  two UDMA processes quiescent and the fabric without tasks, pending DMA, scheduled packets
  and outputs.
\<close>

theorem observe_drain_sound:
  assumes "observe_drain ss = Inr (True, samples)"
  shows "\<exists>earlier a b. samples = earlier @ [a, b] \<and> work_drained (fst a) \<and> work_drained (fst b)"
proof -
  obtain n where run: "drain_loop ss 0 = Inr (samples, n)" "2 \<le> n"
    using assms by (auto simp: observe_drain_def)
  from drain_loop_run [OF run(1)] have n: "2 \<le> length (takeWhile snd (rev samples))"
    and each: "list_all (\<lambda>(rs, drained). drained = work_drained rs) samples"
    using run(2) by (auto split: if_splits)
  then obtain b a rest where tw: "takeWhile snd (rev samples) = b # a # rest"
    by (metis One_nat_def Suc_1 Suc_le_length_iff)
  then have "snd b" "snd a" by (metis list.set_intros set_takeWhileD)+
  moreover obtain tl' where "rev samples = b # a # tl'"
    using tw by (metis append_Cons takeWhile_dropWhile_id)
  then have "samples = rev tl' @ [a, b]" by (metis append.assoc append_Cons append_Nil rev.simps(2) rev_rev_ident)
  ultimately show ?thesis
    using each by (intro exI [of _ "rev tl'"] exI [of _ a] exI [of _ b]) (auto simp: split_beta)
qed

subsection \<open>The steps of the program\<close>

lemma tbind_Inr: "tbind m f s = (Inr y, s') \<longleftrightarrow> (\<exists>x s1. m s = (Inr x, s1) \<and> f x s1 = (Inr y, s'))"
  by (auto simp: tbind_def split: prod.splits sum.splits)

lemma tlift_Inr [simp]: "tlift m s = (Inr x, s') \<longleftrightarrow> m = Inr x \<and> s' = s"
  by (auto simp: tlift_def)

lemma tret_Inr [simp]: "tret y s = (Inr x, s') \<longleftrightarrow> x = y \<and> s' = s"
  by (auto simp: tret_def)

definition run_record :: "string \<Rightarrow> string list \<Rightarrow> int \<Rightarrow> dict" where
  "run_record label command rc = [(''label'', JStr label), (''command'', JList (map JStr command)), (''returncode'', JInt rc)]"

text \<open>A child that ran: one more command, its transcript and its record.\<close>

lemma trial_run_Inr:
  assumes "trial_run w label command s = (Inr rc, s')"
  shows "ts_records s' = ts_records s @ [run_record label command rc] \<and> ts_runs s' = ts_runs s @ [command] \<and>
    (\<exists>content. ts_files s' = dict_set (label @ ''.txt'') content (ts_files s) \<and>
       (tw_run w (length (ts_runs s)) command = Exited rc content \<or> rc = 124))"
  using assms by (auto simp: trial_run_def run_record_def Let_def split: child_end.splits)

lemma trial_run_runs: "ts_runs (snd (trial_run w label command s)) = ts_runs s @ [command]"
  by (auto simp: trial_run_def Let_def split: child_end.splits)

lemma run_or_1_zero:
  assumes "run_or_1 w label command rest s = (Inr 0, s')"
  obtains s1 content where "rest s1 = (Inr 0, s')" "ts_records s1 = ts_records s @ [run_record label command 0]"
    "ts_files s1 = dict_set (label @ ''.txt'') content (ts_files s)" "tw_run w (length (ts_runs s)) command = Exited 0 content"
proof -
  obtain rc s1 where run: "trial_run w label command s = (Inr rc, s1)" "(if rc \<noteq> 0 then tret 1 else rest) s1 = (Inr 0, s')"
    using assms by (auto simp: run_or_1_def tbind_Inr)
  then have "rc = 0" "rest s1 = (Inr 0, s')" by (auto split: if_splits)
  with trial_run_Inr [OF run(1)] that show thesis by auto
qed

lemma set_last_snoc:
  "set_last k v s = (Inr (), s\<lparr>ts_records := butlast (ts_records s) @ [dict_set k v (last (ts_records s))]\<rparr>)"
  by (simp add: set_last_def)

lemma read_output_Inr: "read_output name s = (Inr content, s') \<longleftrightarrow> map_of (ts_files s) name = Some content \<and> s' = s"
  by (auto simp: read_output_def split: option.splits)

text \<open>What the loop over the sizes leaves of a size it passed.\<close>

definition size_record :: "trial_args \<Rightarrow> int \<Rightarrow> string \<Rightarrow> dict" where
  "size_record args bytes command = run_record (trial_label args bytes) (paired args command) 0 @ [(''validation_errors'', JList [])]"

definition size_passed :: "trial_world \<Rightarrow> trial_args \<Rightarrow> nat \<times> int \<Rightarrow> dict \<Rightarrow> bool" where
  "size_passed w args entry r \<longleftrightarrow> (\<exists>command n content.
     bw_command (trial_settings args (snd entry) (21410 + int (fst entry)) (ta_report_diagnostic args)) = Inr command \<and>
     tw_run w n (paired args command) = Exited 0 content \<and> size_errors args (snd entry) content = [] \<and>
     r = size_record args (snd entry) command)"

lemma size_loop_zero:
  assumes "size_loop w args sizes s = (Inr 0, s')"
  shows "\<exists>rs. ts_records s' = ts_records s @ rs \<and> list_all2 (size_passed w args) sizes rs"
  using assms
proof (induction sizes arbitrary: s)
  case (Cons entry sizes)
  obtain index bytes where entry: "entry = (index, bytes)" by (metis surj_pair)
  let ?label = "trial_label args bytes"
  obtain command where command: "bw_command (trial_settings args bytes (21410 + int index) (ta_report_diagnostic args)) = Inr command"
    and run: "run_or_1 w ?label (paired args command) (tbind (read_output (?label @ ''.txt'')) (\<lambda>content.
        let errors = size_errors args bytes content in
        tbind (set_last ''validation_errors'' (JList (map JStr errors))) (\<lambda>_.
        if errors \<noteq> [] then tbind (set_last ''returncode'' (JInt 1)) (\<lambda>_. tret 1) else size_loop w args sizes))) s = (Inr 0, s')"
    using Cons.prems by (auto simp: entry tbind_Inr)
  obtain s1 content where s1: "tbind (read_output (?label @ ''.txt'')) (\<lambda>content.
        let errors = size_errors args bytes content in
        tbind (set_last ''validation_errors'' (JList (map JStr errors))) (\<lambda>_.
        if errors \<noteq> [] then tbind (set_last ''returncode'' (JInt 1)) (\<lambda>_. tret 1) else size_loop w args sizes)) s1 = (Inr 0, s')"
    "ts_records s1 = ts_records s @ [run_record ?label (paired args command) 0]"
    "ts_files s1 = dict_set (?label @ ''.txt'') content (ts_files s)" "tw_run w (length (ts_runs s)) (paired args command) = Exited 0 content"
    by (rule run_or_1_zero [OF run])
  have "map_of (ts_files s1) (?label @ ''.txt'') = Some content" using s1(3) by simp
  with s1(1) have ok: "size_errors args bytes content = []"
    and rest: "size_loop w args sizes (s1\<lparr>ts_records := butlast (ts_records s1) @ [dict_set ''validation_errors'' (JList []) (last (ts_records s1))]\<rparr>) = (Inr 0, s')"
    by (auto simp: tbind_Inr read_output_Inr set_last_snoc Let_def split: if_splits)
  have r: "butlast (ts_records s1) @ [dict_set ''validation_errors'' (JList []) (last (ts_records s1))] =
      ts_records s @ [size_record args bytes command]"
    using s1(2) by (simp add: size_record_def run_record_def)
  have "size_passed w args (index, bytes) (size_record args bytes command)"
    using command s1(4) ok by (auto simp: size_passed_def)
  moreover obtain rs where "ts_records s' = (ts_records s @ [size_record args bytes command]) @ rs" "list_all2 (size_passed w args) sizes rs"
    using Cons.IH [OF rest] by (auto simp: r)
  ultimately show ?case
    by (intro exI [of _ "size_record args bytes command # rs"]) (simp add: entry)
qed simp

text \<open>A step that, on the way to success, adds one record with the given label.\<close>

definition labelled :: "string \<Rightarrow> dict \<Rightarrow> bool" where
  "labelled label r \<longleftrightarrow> map_of r ''label'' = Some (JStr label)"

lemma labelled_run: "labelled label (run_record label command rc)"
  by (simp add: labelled_def run_record_def)

lemma labelled_set: "labelled label r \<Longrightarrow> k \<noteq> ''label'' \<Longrightarrow> labelled label (dict_set k v r)"
  by (simp add: labelled_def)

lemma capability_check_zero:
  assumes "capability_check w args rest s = (Inr 0, s')"
  shows "\<exists>s1 r. rest s1 = (Inr 0, s') \<and> ts_records s1 = ts_records s @ [r] \<and> labelled ''capabilities'' r"
proof -
  let ?argv = "trial_serial args @ [''--command'', ''urma_admin show -d udma0 -w'']"
  obtain s1 content where s1: "ts_records s1 = ts_records s @ [run_record ''capabilities'' ?argv 0]"
    "map_of (ts_files s1) ''capabilities.txt'' = Some content"
    and rest: "tbind (read_output ''capabilities.txt'') (\<lambda>caps.
      case validate_bw_capabilities caps (ta_bw_verb args) (ta_depth args) (ta_inline args) (Some (Max (set (ta_sizes args)))) of
        Inr limits \<Rightarrow>
          tbind (set_last ''bw_capabilities'' (counters_json limits)) (\<lambda>_.
          tbind (if ta_bw_verb args = ''write_bw'' then set_last ''write_capabilities'' (counters_json limits) else tret ()) (\<lambda>_.
          tbind (set_last ''effective_inline'' (JInt (if ta_bw_verb args = ''read_bw'' then 0 else ta_inline args))) (\<lambda>_. rest)))
      | Inl e \<Rightarrow>
          tbind (set_last ''validation_errors'' (JList [JStr (exc_text e)])) (\<lambda>_.
          tbind (set_last ''returncode'' (JInt 1)) (\<lambda>_. tret 1))) s1 = (Inr 0, s')"
    using assms unfolding capability_check_def by (elim run_or_1_zero) auto
  then obtain limits where "validate_bw_capabilities content (ta_bw_verb args) (ta_depth args) (ta_inline args) (Some (Max (set (ta_sizes args)))) = Inr limits"
    by (auto simp: tbind_Inr read_output_Inr set_last_snoc split: sum.splits)
  with rest s1 show ?thesis
    by (auto simp: tbind_Inr read_output_Inr set_last_snoc labelled_def run_record_def split: if_splits)
qed

lemma read_latency_zero:
  assumes "read_latency w args rest s = (Inr 0, s')"
  shows "\<exists>s1 r. rest s1 = (Inr 0, s') \<and> ts_records s1 = ts_records s @ [r] \<and> labelled ''read-latency'' r"
  using assms unfolding read_latency_def
proof (elim run_or_1_zero, goal_cases)
  case (1 s1 content)
  then have stored: "map_of (ts_files s1) ''read-latency.txt'' = Some content" by simp
  with 1(1) obtain gs where gs: "rx_findall rx_latency_row content = [gs]"
    by (auto simp: tbind_Inr read_output_Inr set_last_snoc split: list.splits)
  with 1 stored show ?case
    by (auto simp: tbind_Inr read_output_Inr set_last_snoc labelled_def run_record_def)
qed

text \<open>The records a launched trial that succeeds adds before its sizes.\<close>

definition prep_labels :: "trial_args \<Rightarrow> string list" where
  "prep_labels args = [''input-artifacts'', ''shell-ready'', ''network''] @ (if ta_read_latency args then [''read-latency''] else []) @ [''capabilities'']"

lemma trial_launched_zero:
  assumes "trial_launched w args s = (Inr 0, s')" "\<not> ta_user_read_scan args"
  shows "\<exists>prep rs. ts_records s' = ts_records s @ prep @ rs \<and> list_all2 labelled (prep_labels args) prep \<and>
    list_all2 (size_passed w args) (enumerate 0 (ta_sizes args)) rs"
proof -
  let ?rest = "capability_check w args (size_loop w args (enumerate 0 (ta_sizes args)))"
  obtain s1 a b where run: "run_or_1 w ''network'' (trial_serial args @ [''--command'', ''ubsim-net-up''])
        (if ta_read_latency args then read_latency w args ?rest else ?rest) s1 = (Inr 0, s')"
    and s1: "ts_records s1 = ts_records s @ [a, b]" "labelled ''input-artifacts'' a" "labelled ''shell-ready'' b"
    using assms by (auto simp: trial_launched_def tbind_Inr add_record_def write_output_def labelled_def Let_def)
  obtain s2 where s2: "(if ta_read_latency args then read_latency w args ?rest else ?rest) s2 = (Inr 0, s')"
    "ts_records s2 = ts_records s1 @ [run_record ''network'' (trial_serial args @ [''--command'', ''ubsim-net-up'']) 0]"
    by (rule run_or_1_zero [OF run])
  obtain s3 ls where s3: "?rest s3 = (Inr 0, s')" "ts_records s3 = ts_records s2 @ ls"
    "list_all2 labelled (if ta_read_latency args then [''read-latency''] else []) ls"
  proof (cases "ta_read_latency args")
    case True
    with s2(1) read_latency_zero [of w args ?rest s2 s'] obtain s3 r where
      "?rest s3 = (Inr 0, s')" "ts_records s3 = ts_records s2 @ [r]" "labelled ''read-latency'' r" by auto
    with True that [of s3 "[r]"] show thesis by simp
  next
    case False
    with s2(1) that [of s2 "[]"] show thesis by simp
  qed
  obtain s4 r where s4: "size_loop w args (enumerate 0 (ta_sizes args)) s4 = (Inr 0, s')" "ts_records s4 = ts_records s3 @ [r]"
    "labelled ''capabilities'' r"
    using capability_check_zero [OF s3(1)] by blast
  obtain rs where rs: "ts_records s' = ts_records s4 @ rs" "list_all2 (size_passed w args) (enumerate 0 (ta_sizes args)) rs"
    using size_loop_zero [OF s4(1)] by blast
  let ?prep = "[a, b, run_record ''network'' (trial_serial args @ [''--command'', ''ubsim-net-up'']) 0] @ ls @ [r]"
  have "list_all2 labelled (prep_labels args) ?prep"
    unfolding prep_labels_def using s1(2,3) s3(3) s4(3) labelled_run by (intro list_all2_appendI) (simp_all add: labelled_run)
  then show ?thesis
    using s1(1) s2(2) s3(2) s4(2) rs by (intro exI [of _ ?prep] exI [of _ rs]) simp
qed

subsection \<open>Commands already run\<close>

text \<open>No operation forgets a command that was run.\<close>

named_theorems runs_intro \<open>the list of commands only grows\<close>

definition keeps_runs :: "'a trial \<Rightarrow> bool" where
  "keeps_runs m \<longleftrightarrow> (\<forall>s. \<exists>new. ts_runs (snd (m s)) = ts_runs s @ new)"

lemma keeps_runs_pure [runs_intro]: "keeps_runs (tret x)" "keeps_runs (tlift m)" "keeps_runs (add_record r)"
    "keeps_runs (set_last k v)" "keeps_runs (write_output name content)" "keeps_runs (read_output name)"
  by (auto simp: keeps_runs_def tret_def tlift_def add_record_def set_last_def write_output_def read_output_def split: option.splits)

lemma keeps_runs_run [runs_intro]: "keeps_runs (trial_run w label command)"
  by (simp add: keeps_runs_def trial_run_runs)

lemma keeps_runs_bind [runs_intro]:
  assumes "keeps_runs m" "\<And>x. keeps_runs (f x)"
  shows "keeps_runs (tbind m f)"
  unfolding keeps_runs_def
proof
  fix s
  obtain r s1 where m: "m s = (r, s1)" by (metis surj_pair)
  then obtain new1 where "ts_runs s1 = ts_runs s @ new1"
    using assms(1) unfolding keeps_runs_def by (metis snd_conv)
  moreover have "\<exists>new2. ts_runs (snd (f x s1)) = ts_runs s1 @ new2" for x
    using assms(2) unfolding keeps_runs_def by blast
  ultimately show "\<exists>new. ts_runs (snd (tbind m f s)) = ts_runs s @ new"
    using m by (cases r) (auto simp: tbind_def)
qed

lemma keeps_runs_if [runs_intro]: "keeps_runs m \<Longrightarrow> keeps_runs n \<Longrightarrow> keeps_runs (if b then m else n)"
  by simp

lemma keeps_runs_run_or_1 [runs_intro]: "keeps_runs rest \<Longrightarrow> keeps_runs (run_or_1 w label command rest)"
  unfolding run_or_1_def by (intro runs_intro) simp_all

lemma keeps_runs_read_latency [runs_intro]: "keeps_runs rest \<Longrightarrow> keeps_runs (read_latency w args rest)"
  unfolding read_latency_def by (auto intro!: runs_intro split: list.split)

lemma keeps_runs_capability_check [runs_intro]: "keeps_runs rest \<Longrightarrow> keeps_runs (capability_check w args rest)"
  unfolding capability_check_def by (auto intro!: runs_intro split: sum.split)

lemma keeps_runs_size_loop [runs_intro]: "keeps_runs (size_loop w args sizes)"
proof (induction sizes)
  case (Cons entry sizes)
  then show ?case by (cases entry) (auto simp: Let_def intro!: runs_intro)
qed (simp add: runs_intro)

lemma keeps_runs_scan_loop [runs_intro]: "keeps_runs (scan_loop w args selected sizes failed)"
proof (induction sizes arbitrary: failed)
  case (Cons entry sizes)
  then show ?case by (cases entry) (auto simp: Let_def intro!: runs_intro split: option.split)
qed (simp add: runs_intro)

lemma keeps_runs_trial_launched [runs_intro]: "keeps_runs (trial_launched w args)"
  unfolding trial_launched_def user_read_scan_def by (auto simp: Let_def intro!: runs_intro)

lemma trial_launched_runs: "set (ts_runs s) \<subseteq> set (ts_runs (snd (trial_launched w args s)))"
  using keeps_runs_trial_launched [of w args] unfolding keeps_runs_def by (metis Un_upper1 set_append)

subsection \<open>The main program\<close>

definition launch_argv :: "string list" where
  "launch_argv = [''./lab'', ''start-qemu-dual'', ''--timing'']"

definition stop_argv :: "string list" where
  "stop_argv = [''./lab'', ''stop-qemu'']"

abbreviation new_trial :: trial_state where
  "new_trial \<equiv> \<lparr>ts_records = [], ts_files = [], ts_runs = []\<rparr>"

lemma input_image_state:
  "ts_runs (snd (input_image w args s)) = ts_runs s \<and> (fst (input_image w args s) = Inr () \<longrightarrow>
     (\<exists>r. ts_records (snd (input_image w args s)) = ts_records s @ [r] \<and> labelled ''input-image'' r))"
  by (auto simp: input_image_def tbind_def tlift_def add_record_def labelled_def Let_def split: sum.splits)

text \<open>The laboratory is launched exactly when the launch command was run and exited with status 0.\<close>

lemma trial_body_launched:
  assumes "trial_body w args new_trial = ((result, s), launched)"
  shows "launched \<longleftrightarrow> launch_argv \<in> set (ts_runs s) \<and> (\<exists>out. tw_run w 0 launch_argv = Exited 0 out)"
proof -
  obtain r1 s1 where image: "input_image w args new_trial = (r1, s1)" by (metis surj_pair)
  then have runs1: "ts_runs s1 = []" using input_image_state [of w args new_trial] by simp
  show ?thesis
  proof (cases r1)
    case (Inl e)
    with assms image runs1 show ?thesis by (auto simp: trial_body_def)
  next
    case (Inr u)
    obtain r2 s2 where run: "trial_run w ''launch'' launch_argv s1 = (r2, s2)" by (metis surj_pair)
    have runs2: "ts_runs s2 = [launch_argv]" using trial_run_runs [of w "''launch''" launch_argv s1] run runs1 by simp
    show ?thesis
    proof (cases "r2 = Inr 0")
      case True
      have "\<exists>out. tw_run w 0 launch_argv = Exited 0 out"
        using trial_run_Inr [of w "''launch''" launch_argv s1 0 s2] run True runs1 by auto
      moreover have "launch_argv \<in> set (ts_runs (snd (trial_launched w args s2)))"
        using trial_launched_runs [of s2 w args] runs2 by auto
      ultimately show ?thesis
        using assms image Inr run True by (auto simp: trial_body_def launch_argv_def)
    next
      case False
      then have "\<not> (\<exists>out. tw_run w 0 launch_argv = Exited 0 out)"
        using run runs1 by (auto simp: trial_run_def Let_def)
      with False show ?thesis
        using assms image Inr run by (auto simp: trial_body_def launch_argv_def split: sum.splits if_splits)
    qed
  qed
qed

lemma drain_loop_raises:
  assumes "list_all (\<lambda>d. raises_only P (ds_signal d)) ss"
  shows "raises_only P (drain_loop ss c)"
  using assms
  by (induction ss c rule: drain_loop.induct) (auto simp: Let_def intro!: raises_intro split: prod.split)

lemma drain_record_total:
  assumes "list_all (\<lambda>d. raises_only (\<lambda>e. is_OSError e \<or> is_ValueError e) (ds_signal d)) samples"
  shows "\<exists>r. drain_record samples = Inr r \<and> labelled ''post-workload-drain'' r"
proof (cases "observe_drain samples")
  case (Inl e)
  have "raises_only (\<lambda>e. is_OSError e \<or> is_ValueError e) (observe_drain samples)"
    unfolding observe_drain_def by (auto intro!: raises_intro drain_loop_raises assms split: prod.split)
  with Inl show ?thesis by (auto simp: drain_record_def raises_only_def labelled_def)
next
  case (Inr x)
  then show ?thesis by (cases x) (auto simp: drain_record_def labelled_def)
qed

text \<open>The stop is run, after the record of the drain when one was asked for.\<close>

lemma trial_stop_state:
  assumes "list_all (\<lambda>d. raises_only (\<lambda>e. is_OSError e \<or> is_ValueError e) (ds_signal d)) (tw_drain w)"
    and "trial_stop w args s = (result, s')"
  shows "last (ts_runs s') = stop_argv \<and> (\<forall>e. result = Inl e \<longrightarrow> (\<exists>n. tw_run w n stop_argv = No_Child e))"
proof -
  obtain r where r: "drain_record (tw_drain w) = Inr r" using drain_record_total [OF assms(1)] by blast
  have "\<exists>s1. (if ta_drain args then tbind (tlift (drain_record (tw_drain w))) add_record else tret ()) s = (Inr (), s1)"
    by (cases "ta_drain args") (simp_all add: r tbind_def tlift_def add_record_def tret_def)
  then obtain s1 where s1: "(if ta_drain args then tbind (tlift (drain_record (tw_drain w))) add_record else tret ()) s = (Inr (), s1)" ..
  obtain x s2 where run: "trial_run w ''stop'' stop_argv s1 = (x, s2)" by (metis surj_pair)
  have eq: "trial_stop w args s = (case x of Inl e \<Rightarrow> (Inl e, s2) | Inr _ \<Rightarrow> (Inr (), s2))"
    using s1 run by (auto simp: trial_stop_def stop_argv_def tbind_def tret_def split: sum.splits)
  have "last (ts_runs s2) = stop_argv"
    using trial_run_runs [of w "''stop''" stop_argv s1] run by simp
  moreover have "x = Inl e \<Longrightarrow> tw_run w (length (ts_runs s1)) stop_argv = No_Child e" for e
    using run by (auto simp: trial_run_def Let_def split: child_end.splits)
  ultimately show ?thesis
    using assms(2) eq by (cases x) auto
qed

lemma drain_record_labelled: "drain_record samples = Inr r \<Longrightarrow> labelled ''post-workload-drain'' r"
  by (auto simp: drain_record_def labelled_def split: sum.splits if_splits)

lemma trial_stop_records:
  assumes "trial_stop w args s = (Inr (), s')"
  obtains tail where "ts_records s' = ts_records s @ tail"
    "list_all2 labelled ((if ta_drain args then [''post-workload-drain''] else []) @ [''stop'']) tail"
proof -
  obtain s1 rc where s1: "(if ta_drain args then tbind (tlift (drain_record (tw_drain w))) add_record else tret ()) s = (Inr (), s1)"
    and run: "trial_run w ''stop'' [''./lab'', ''stop-qemu''] s1 = (Inr rc, s')"
    using assms by (auto simp: trial_stop_def tbind_Inr)
  obtain ds where ds: "ts_records s1 = ts_records s @ ds" "list_all2 labelled (if ta_drain args then [''post-workload-drain''] else []) ds"
    using s1 that by (cases "ta_drain args") (auto simp: tbind_Inr add_record_def dest: drain_record_labelled)
  show thesis
  proof (rule that)
    show "ts_records s' = ts_records s @ ds @ [run_record ''stop'' [''./lab'', ''stop-qemu''] rc]"
      using trial_run_Inr [OF run] ds(1) by simp
    show "list_all2 labelled ((if ta_drain args then [''post-workload-drain''] else []) @ [''stop''])
        (ds @ [run_record ''stop'' [''./lab'', ''stop-qemu''] rc])"
      using ds(2) by (intro list_all2_appendI) (simp_all add: labelled_run)
  qed
qed

text \<open>
  C12. A launched laboratory is stopped.  Whatever the trial meets afterwards (a failing guest command, a
  timeout, missing or malformed files, an exception), if the launch command exited with status 0, the last
  command the program runs is the stop command; and unless that command cannot be started at all,
  the report with the records so far is written.  Signalling the processes of the drain is assumed
  to raise no more than \<^verbatim>\<open>OSError\<close> and \<^verbatim>\<open>ValueError\<close>.
\<close>

theorem trial_always_stopped:
  assumes "list_all (\<lambda>d. raises_only (\<lambda>e. is_OSError e \<or> is_ValueError e) (ds_signal d)) (tw_drain w)"
    and "launch_argv \<in> set (ts_runs (te_state (trial_main w args)))" and "tw_run w 0 launch_argv = Exited 0 out"
  shows "last (ts_runs (te_state (trial_main w args))) = stop_argv \<and>
    (te_report (trial_main w args) = Some (ts_records (te_state (trial_main w args))) \<or>
     (\<exists>n e. tw_run w n stop_argv = No_Child e))"
proof -
  have start: "rbind (parse_args args) (\<lambda>_. tw_mkdir w) = Inr ()"
    using assms(2) by (cases "rbind (parse_args args) (\<lambda>_. tw_mkdir w)") (auto simp: trial_main_def)
  obtain result s1 launched where body: "trial_body w args new_trial = ((result, s1), launched)" by (metis surj_pair)
  note launched = trial_body_launched [OF body]
  have "launched"
  proof (rule ccontr)
    assume "\<not> launched"
    then have "ts_runs (te_state (trial_main w args)) = ts_runs s1"
      using body unfolding trial_main_def start by (simp add: Let_def copy_logs_def)
    with launched assms(2,3) \<open>\<not> launched\<close> show False by auto
  qed
  obtain y s2 where stop: "trial_stop w args s1 = (y, s2)" by (metis surj_pair)
  note stopped = trial_stop_state [OF assms(1) stop]
  show ?thesis
  proof (cases y)
    case (Inl e)
    with body \<open>launched\<close> stop have "te_state (trial_main w args) = s2" unfolding trial_main_def start by simp
    with stopped Inl show ?thesis by auto
  next
    case (Inr u)
    with body \<open>launched\<close> stop have "te_state (trial_main w args) = copy_logs w s2"
      "te_report (trial_main w args) = Some (ts_records (copy_logs w s2))"
      unfolding trial_main_def start by (simp_all add: Let_def)
    with stopped show ?thesis by (simp add: copy_logs_def)
  qed
qed

text \<open>
  What a successful trial with given sizes leaves.  When the program returns 0, the report is the records
  of the image, the launch, the artifacts, the ready shells, the network, possibly the latency,
  the capabilities, one record per size in the order of the sizes, possibly the drain, and the stop; and
  the record of a size names a command \<^verbatim>\<open>bw_command\<close> built for that size, which both guests ran with status
  0 and whose transcript passed every check.
\<close>

theorem trial_report_complete:
  assumes "te_result (trial_main w args) = Inr 0" and "\<not> ta_user_read_scan args"
  shows "\<exists>head prep rs tail. te_report (trial_main w args) = Some (head @ prep @ rs @ tail) \<and>
    list_all2 labelled [''input-image'', ''launch''] head \<and> list_all2 labelled (prep_labels args) prep \<and>
    list_all2 (size_passed w args) (enumerate 0 (ta_sizes args)) rs \<and>
    list_all2 labelled ((if ta_drain args then [''post-workload-drain''] else []) @ [''stop'']) tail"
proof -
  have start: "rbind (parse_args args) (\<lambda>_. tw_mkdir w) = Inr ()"
    using assms(1) by (cases "rbind (parse_args args) (\<lambda>_. tw_mkdir w)") (auto simp: trial_main_def)
  obtain result s3 launched where body: "trial_body w args new_trial = ((result, s3), launched)" by (metis surj_pair)
  have zero: "result = Inr 0"
    using assms(1) body unfolding trial_main_def start by (auto simp: Let_def split: if_splits prod.splits sum.splits)
  obtain s1 s2 where s1: "input_image w args new_trial = (Inr (), s1)"
    and s2: "trial_run w ''launch'' launch_argv s1 = (Inr 0, s2)" and s3: "trial_launched w args s2 = (Inr 0, s3)" and "launched"
    using body zero by (auto simp: trial_body_def launch_argv_def split: prod.splits sum.splits if_splits)
  obtain a where a: "ts_records s1 = [a]" "labelled ''input-image'' a"
    using input_image_state [of w args new_trial] s1 by auto
  have b: "ts_records s2 = [a, run_record ''launch'' launch_argv 0]"
    using trial_run_Inr [OF s2] a(1) by simp
  obtain prep rs where sizes: "ts_records s3 = ts_records s2 @ prep @ rs" "list_all2 labelled (prep_labels args) prep"
    "list_all2 (size_passed w args) (enumerate 0 (ta_sizes args)) rs"
    using trial_launched_zero [OF s3 assms(2)] by blast
  obtain s4 where stop: "trial_stop w args s3 = (Inr (), s4)"
    using assms(1) body \<open>launched\<close> unfolding trial_main_def start by (auto simp: Let_def split: prod.splits sum.splits)
  then obtain tail where tail: "ts_records s4 = ts_records s3 @ tail"
    "list_all2 labelled ((if ta_drain args then [''post-workload-drain''] else []) @ [''stop'']) tail"
    by (rule trial_stop_records)
  have "te_report (trial_main w args) = Some (ts_records s4)"
    using body \<open>launched\<close> stop unfolding trial_main_def start by (simp add: Let_def copy_logs_def)
  with b sizes tail a(2) show ?thesis
    by (intro exI [of _ "[a, run_record ''launch'' launch_argv 0]"] exI [of _ prep] exI [of _ rs] exI [of _ tail])
      (simp add: labelled_run)
qed

subsection \<open>A trial of one size\<close>

definition demo_lines :: "string list \<Rightarrow> string" where
  "demo_lines ls = concat (map (\<lambda>l. l @ [CHR 0x0A]) ls)"

definition demo_trial :: trial_args where
  "demo_trial = \<lparr>ta_output = ''out'', ta_timeout = ''180.0'', ta_sizes = [64], ta_drain = False, ta_bw_verb = ''write_bw'',
     ta_unidirectional_read = False, ta_report_diagnostic = False, ta_iterations = 1, ta_depth = 1, ta_post_list = 1, ta_cq_mod = 1,
     ta_inline = 0, ta_user_read_scan = False, ta_read_latency = False, ta_read_size = None, ta_read_sizes = None\<rparr>"

definition demo_capabilities :: string where
  "demo_capabilities = concat (replicate 2 (demo_lines [''--- UART 1 ---'', ''max_jfs_depth:1'', ''max_jfs_inline_size:0'', ''max_msg_size:64'']))"

definition demo_transcript :: string where
  "demo_transcript = concat (replicate 2 (demo_lines [''--- UART 1 ---'', ''JFS depth:1'', ''64 1 9 8 1'']))"

definition demo_manifest :: string where
  "demo_manifest = demo_lines (map (\<lambda>n. n @ ''=bin'') artifact_names)"

definition demo_trial_world :: trial_world where
  "demo_trial_world = \<lparr>tw_mkdir = Inr (),
     tw_run = (\<lambda>n command. Exited 0 (if n = 2 then demo_capabilities else if n = 3 then demo_transcript else [])),
     tw_initrd_env = None, tw_sha256 = (\<lambda>_. Inr ''00''), tw_manifest = Inr demo_manifest, tw_banners = [(Inr True, False)],
     tw_alive = (\<lambda>_. Inr ()), tw_drain = [], tw_logs = (\<lambda>_. None)\<rparr>"

lemma demo_transcript_ok: "size_errors demo_trial 64 demo_transcript = []"
  by code_simp

lemma demo_trial_args [simp]:
  "ta_sizes demo_trial = [64]" "ta_drain demo_trial = False" "ta_bw_verb demo_trial = ''write_bw''"
  "ta_unidirectional_read demo_trial = False" "ta_report_diagnostic demo_trial = False" "ta_user_read_scan demo_trial = False"
  "ta_read_latency demo_trial = False" "ta_read_sizes demo_trial = None" "ta_depth demo_trial = 1" "ta_inline demo_trial = 0"
  by (simp_all add: demo_trial_def)

lemma demo_trial_files [simp]:
  "tw_mkdir demo_trial_world = Inr ()" "tw_initrd_env demo_trial_world = None" "tw_sha256 demo_trial_world = (\<lambda>_. Inr ''00'')"
  "tw_run demo_trial_world n command = Exited 0 (if n = 2 then demo_capabilities else if n = 3 then demo_transcript else [])"
  "tw_manifest demo_trial_world = Inr demo_manifest" "tw_banners demo_trial_world = [(Inr True, False)]" "tw_drain demo_trial_world = []"
  by (simp_all add: demo_trial_world_def)

lemma demo_trial_checks:
  "\<not> isl (validate_bw_capabilities demo_capabilities ''write_bw'' 1 0 (Some 64))"
  "\<not> isl (input_artifacts demo_trial_world (manifest_dict demo_manifest))"
  by code_simp+

lemma demo_trial_command: "\<exists>command. bw_command (trial_settings demo_trial 64 21410 False) = Inr command"
proof -
  have "check_bw (trial_settings demo_trial 64 21410 False) = Inr ()"
    by (simp add: check_bw_Inr trial_settings_def demo_trial_def)
  then show ?thesis by (simp add: bw_command_def Let_def)
qed

lemma demo_trial_run:
  "te_result (trial_main demo_trial_world demo_trial) = Inr 0 \<and>
     launch_argv \<in> set (ts_runs (te_state (trial_main demo_trial_world demo_trial)))"
proof -
  obtain limits artifacts command where checks:
    "validate_bw_capabilities demo_capabilities ''write_bw'' 1 0 (Some 64) = Inr limits"
    "input_artifacts demo_trial_world (manifest_dict demo_manifest) = Inr artifacts"
    "bw_command (trial_settings demo_trial 64 21410 False) = Inr command"
    using demo_trial_checks demo_trial_command unfolding isl_def by (metis sum.exhaust)
  show ?thesis
    by (simp add: trial_main_def parse_args_def trial_body_def input_image_def trial_launched_def capability_check_def run_or_1_def
        trial_run_def tbind_def tret_def tlift_def add_record_def write_output_def read_output_def set_last_def checks demo_transcript_ok
        trial_stop_def copy_logs_def Let_def launch_argv_def)
qed

theorem trial_always_stopped_witness:
  "last (ts_runs (te_state (trial_main demo_trial_world demo_trial))) = stop_argv"
  using trial_always_stopped [of demo_trial_world demo_trial "[]"] demo_trial_run by simp

theorem trial_report_complete_witness:
  "\<exists>head prep r tail. te_report (trial_main demo_trial_world demo_trial) = Some (head @ prep @ [r] @ tail) \<and>
     size_passed demo_trial_world demo_trial (0, 64) r \<and> list_all2 labelled [''stop''] tail"
proof -
  obtain head prep rs tail where report: "te_report (trial_main demo_trial_world demo_trial) = Some (head @ prep @ rs @ tail)"
    "list_all2 (size_passed demo_trial_world demo_trial) (enumerate 0 [64]) rs" "list_all2 labelled [''stop''] tail"
    using trial_report_complete [of demo_trial_world demo_trial] demo_trial_run by auto
  from report(2) obtain r where "rs = [r]" "size_passed demo_trial_world demo_trial (0, 64) r"
    by (auto simp: list_all2_Cons1)
  with report(1,3) show ?thesis by blast
qed

text \<open>Two samples, in both of which the three processes report that they are idle.\<close>

definition demo_progress :: "string \<Rightarrow> string" where
  "demo_progress component = (if component = ''ub-fabric/ns3''
     then demo_lines [''[NS3_UB_NET_PROGRESS] native_tasks=0 pending_target_dma=0 scheduled_packets=0 outputs_empty=1'']
     else demo_lines [''[UDMA_PROGRESS] quiescent=1''])"

theorem observe_drain_sound_witness:
  "\<exists>earlier a b. snd (projr (observe_drain (replicate 2 \<lparr>ds_signal = Inr (), ds_polls = [demo_progress]\<rparr>))) = earlier @ [a, b] \<and>
     work_drained (fst a) \<and> work_drained (fst b)"
proof (rule observe_drain_sound)
  have "work_drained (poll_until [demo_progress] [])" by code_simp
  then show "observe_drain (replicate 2 \<lparr>ds_signal = Inr (), ds_polls = [demo_progress]\<rparr>) =
      Inr (True, snd (projr (observe_drain (replicate 2 \<lparr>ds_signal = Inr (), ds_polls = [demo_progress]\<rparr>))))"
    by (simp add: observe_drain_def numeral_2_eq_2 Let_def)
qed

end
