(* ===== verification/Trial_Audit_Facts.thy ===== *)
theory Trial_Audit_Facts
  imports Trial_Audit Timing_Trial_Facts
begin

section \<open>Facts about the audit\<close>

text \<open>
  The audit reads back the settings of every command the timing trial builds, and what it accepts:
  the counters of an accepted trial are the work its commands ask for.
\<close>

subsection \<open>The commands of the trial\<close>

lemma str_int_chars: "c \<in> set (str_int i) \<Longrightarrow> is_digit c \<or> c = CHR ''-''"
  using show_nat_digits by (auto simp: str_int_def split: if_splits)

lemma str_int_neq:
  assumes "\<not> list_all (\<lambda>c. is_digit c \<or> c = CHR ''-'') l"
  shows "str_int i \<noteq> l" "l \<noteq> str_int i"
  using assms str_int_chars by (auto simp: list_all_iff)

lemma str_int_no_option: "\<not> startswith (str_int i) ''-a''"
proof
  assume "startswith (str_int i) ''-a''"
  then have "CHR ''a'' \<in> set (str_int i)" by (auto simp: startswith_iff)
  from str_int_chars [OF this] show False by (simp add: is_digit_def)
qed

text \<open>The words that are not numbers.\<close>

definition word_list :: "string list" where
  "word_list = [''UBSIM_BW_REPORT_DIAGNOSTIC=1'', ''LD_LIBRARY_PATH=/lib:/usr/lib'', ''urma_perftest'', ''write_bw'', ''read_bw'', ''send_bw'',
     ''-d'', ''udma0'', ''--eid_idx'', ''--ctp'', ''-B'', ''-s'', ''-P'', ''-J'', ''-I'', ''-T'', ''-R'', ''-n'', ''-l'', ''-Q'', ''-p'', ''-S'', ''10.0.0.1'']"

lemma word_list_words: "list_all (\<lambda>l. \<not> list_all (\<lambda>c. is_digit c \<or> c = CHR ''-'') l) word_list"
  by code_simp

lemma str_int_neq_words: "list_all (\<lambda>l. str_int i \<noteq> l \<and> l \<noteq> str_int i) word_list"
  using word_list_words str_int_neq unfolding list_all_iff by blast

lemmas str_int_words = str_int_neq_words [unfolded word_list_def list.pred_inject]

text \<open>What the audit reads from the words of a command.\<close>

definition expected_flags :: "bw_settings \<Rightarrow> counters" where
  "expected_flags b = [(''-s'', bw_size b), (''-n'', bw_iterations b), (''-T'', bw_depth b), (''-J'', 1), (''-l'', bw_post_list b),
     (''-Q'', bw_cq_mod b), (''-I'', effective_inline b)] @ (if bw_verb b = ''write_bw'' then [] else [(''-R'', bw_depth b)])"

definition expected_config :: "bw_settings \<Rightarrow> bw_config" where
  "expected_config b = \<lparr>cf_verb = removesuffix (bw_verb b) ''_bw'', cf_bidirectional = (\<not> bw_unidirectional b), cf_flags = expected_flags b\<rparr>"

lemma verb_suffix: "removesuffix ''write_bw'' ''_bw'' = ''write''" "removesuffix ''read_bw'' ''_bw'' = ''read''"
    "removesuffix ''send_bw'' ''_bw'' = ''send''"
  by (simp_all add: removesuffix_def endswith_def startswith_def)

lemma py_int_one: "py_int ''1'' = Inr 1"
  by code_simp

lemmas config_simps = bw_words_def config_of_args_def expected_config_def expected_flags_def named_verbs_def require_def prefix_ok_def
  arg_index_def arg_after_def check_pair_def check_role_def flag_value_def config_flags_def cfg_flag_def dict_get_def value_flags_def
  effective_inline_def verb_suffix startswith_def str_int_words str_int_no_option [unfolded startswith_def, simplified] py_int_one Let_def

lemma config_write:
  assumes "bw_verb b = ''write_bw''" "\<not> bw_unidirectional b"
     "0 < bw_size b" "0 < bw_iterations b" "0 < bw_depth b" "0 < bw_post_list b" "0 < bw_cq_mod b" "0 \<le> bw_inline b"
  shows "config_of_args (bw_words b) Server_Role = Inr (expected_config b)"
    "config_of_args (bw_words b @ [''-S'', ''10.0.0.1'']) Client_Role = Inr (expected_config b)"
  using assms by (cases "bw_diagnostic b"; simp add: config_simps)+

lemma config_send:
  assumes "bw_verb b = ''send_bw''" "\<not> bw_unidirectional b"
     "0 < bw_size b" "0 < bw_iterations b" "0 < bw_depth b" "0 < bw_post_list b" "0 < bw_cq_mod b" "0 \<le> bw_inline b" "bw_size b \<le> 4096"
  shows "config_of_args (bw_words b) Server_Role = Inr (expected_config b)"
    "config_of_args (bw_words b @ [''-S'', ''10.0.0.1'']) Client_Role = Inr (expected_config b)"
  using assms by (cases "bw_diagnostic b"; simp add: config_simps)+

lemma config_read:
  assumes "bw_verb b = ''read_bw''" "\<not> bw_unidirectional b \<or> \<not> bw_diagnostic b"
     "0 < bw_size b" "0 < bw_iterations b" "0 < bw_depth b" "0 < bw_post_list b" "0 < bw_cq_mod b"
  shows "config_of_args (bw_words b) Server_Role = Inr (expected_config b)"
    "config_of_args (bw_words b @ [''-S'', ''10.0.0.1'']) Client_Role = Inr (expected_config b)"
  using assms str_int_words [of 0] by (cases "bw_diagnostic b"; cases "bw_unidirectional b"; simp add: config_simps)+

lemma config_of_bw_words:
  assumes "check_bw b = Inr ()"
  shows "config_of_args (bw_words b) Server_Role = Inr (expected_config b) \<and>
    config_of_args (bw_words b @ [''-S'', ''10.0.0.1'']) Client_Role = Inr (expected_config b)"
proof -
  have b: "bw_unidirectional b \<Longrightarrow> bw_verb b = ''read_bw'' \<and> \<not> bw_diagnostic b"
     "0 < bw_size b" "0 < bw_iterations b" "0 < bw_depth b" "0 < bw_post_list b" "0 < bw_cq_mod b"
     "bw_verb b = ''send_bw'' \<Longrightarrow> bw_size b \<le> 4096" "0 \<le> bw_inline b"
    using assms unfolding check_bw_Inr by simp_all
  have "bw_verb b = ''write_bw'' \<or> bw_verb b = ''read_bw'' \<or> bw_verb b = ''send_bw''"
    using assms unfolding check_bw_Inr by blast
  then show ?thesis
  proof (elim disjE)
    assume v: "bw_verb b = ''write_bw''"
    with b(1) have u: "\<not> bw_unidirectional b" by auto
    show ?thesis using config_write [OF v u b(2-6,8)] ..
  next
    assume v: "bw_verb b = ''read_bw''"
    from b(1) have u: "\<not> bw_unidirectional b \<or> \<not> bw_diagnostic b" by blast
    show ?thesis using config_read [OF v u b(2-6)] ..
  next
    assume v: "bw_verb b = ''send_bw''"
    with b(1) have u: "\<not> bw_unidirectional b" by auto
    show ?thesis using config_send [OF v u b(2-6,8) b(7) [OF v]] ..
  qed
qed

text \<open>
  C9. The audit understands the trial: for all settings that \<^verbatim>\<open>bw_command\<close> accepts, the audit splits the server's
  and the client's command and reads from both the same verb, direction, size, iterations, queue depths, post list,
  moderation and inline size as were asked for, READ's inline size being 0.
\<close>

theorem trial_command_audited:
  assumes "bw_command b = Inr command"
  shows "command_config command Server_Role = Inr (expected_config b) \<and>
    command_config (command @ '' -S 10.0.0.1'') Client_Role = Inr (expected_config b)"
  using config_of_bw_words [OF bw_command_checked [OF assms]]
  by (simp add: command_config_def bw_command_split [OF assms] bw_client_split [OF assms])

theorem trial_command_audited_witness:
  "\<exists>command. bw_command (trial_settings demo_trial 64 21410 False) = Inr command \<and>
     command_config command Server_Role = Inr (expected_config (trial_settings demo_trial 64 21410 False))"
  using demo_trial_command trial_command_audited [of "trial_settings demo_trial 64 21410 False"] by blast

end
