(* ===== verification/Audit_Sound.thy ===== *)
theory Audit_Sound
  imports Counter_Lines Trial_Audit_Facts
begin

section \<open>What an accepted trial has done\<close>

text \<open>
  The loop over the records keeps the totals of its cases; from that and the checks that follow it:
  the counters of an accepted trial are the work of its cases, and its cases are consistent.
\<close>

lemma require_Inr [simp]: "require c m = Inr u \<longleftrightarrow> c"
  by (simp add: require_def)

lemma equal_field_Inr [simp]: "equal_field fs key v = Inr u \<longleftrightarrow> map_of fs key = Some v"
  by (simp add: equal_field_def)

lemma equal_fields_Inr [simp]: "equal_fields fs keys v = Inr u \<longleftrightarrow> (\<forall>key \<in> set keys. map_of fs key = Some v)"
  unfolding equal_fields_def by (induction keys) (auto simp: unit_eq)

lemma ev_read_Inr [simp]: "ev_read ev name = Inr content \<longleftrightarrow> ev_text ev name = Some content"
  by (auto simp: ev_read_def split: option.splits)

subsection \<open>Settings\<close>

lemma flag_value_Inr:
  "flag_value args name before = Inr flags \<Longrightarrow> \<exists>v. flags = dict_set name v before \<and> (if name = ''-I'' then 0 \<le> v else 0 < v)"
  by (auto simp: flag_value_def)

lemma flag_values_positive:
  assumes "rfold (flag_value args) names [] = Inr flags"
  shows "\<forall>name \<in> set names. \<exists>v. map_of flags name = Some v \<and> (name \<noteq> ''-I'' \<longrightarrow> 0 < v)"
  using assms
proof (induction names arbitrary: flags rule: rev_induct)
  case (snoc name names)
  then obtain before where before: "rfold (flag_value args) names [] = Inr before" "flag_value args name before = Inr flags"
    by (auto simp: rfold_append)
  from flag_value_Inr [OF before(2)] obtain v where flags: "flags = dict_set name v before" and v: "if name = ''-I'' then 0 \<le> v else 0 < v"
    by blast
  show ?case unfolding flags using snoc.IH [OF before(1)] v by auto
qed simp

lemma config_of_args_Inr:
  assumes "config_of_args args role = Inr config"
  shows "cf_verb config \<in> {''write'', ''read'', ''send''} \<and> 0 < cfg_flag config ''-s'' \<and> 0 < cfg_flag config ''-n''"
proof -
  obtain flags where config: "config = \<lparr>cf_verb = hd (named_verbs args), cf_bidirectional = (''-B'' \<in> set args), cf_flags = flags\<rparr>"
    and flags: "rfold (flag_value args) (config_flags (hd (named_verbs args)) args) [] = Inr flags"
    and one: "length (named_verbs args) = 1"
    using assms by (auto simp: config_of_args_def Let_def)
  have "hd (named_verbs args) \<in> set (named_verbs args)"
    using one by (cases "named_verbs args") auto
  then have "hd (named_verbs args) \<in> {''write'', ''read'', ''send''}"
    by (auto simp: named_verbs_def)
  moreover have "0 < cfg_flag config name" if "name \<in> {''-s'', ''-n''}" for name
    using flag_values_positive [OF flags] that by (auto simp: config cfg_flag_def config_flags_def dict_get_def)
  ultimately show ?thesis by (simp add: config)
qed

lemma item_config_Inr: "item_config item role = Inr config \<Longrightarrow> \<exists>args. config_of_args args role = Inr config"
  by (auto simp: item_config_def command_config_def split: json.splits)

subsection \<open>Cases\<close>

text \<open>
  What holds of the printed row of a case: a positive average that is at most the peak when both
  endpoints measured one, and no peak when neither did.
\<close>

definition row_ok :: "string \<Rightarrow> int \<Rightarrow> bw_row \<Rightarrow> bool" where
  "row_ok verb count row \<longleftrightarrow> (case row of (peak, average, rate) \<Rightarrow>
     fl_isfinite peak \<and> fl_isfinite average \<and> fl_isfinite rate \<and> fl_less (Fin 0) average \<and> fl_le (Fin 0) peak \<and> fl_le (Fin 0) rate \<and>
     (if 20000 < count then fl_eq peak (Fin 0) else if verb = ''send'' then fl_less (Fin 0) peak else fl_le average peak))"

lemma read_row_ok:
  "read_row config (fst (peak_policy (cf_verb config) (cfg_flag config ''-n''))) body = Inr row \<Longrightarrow>
     row_ok (cf_verb config) (cfg_flag config ''-n'') row"
  by (auto simp: read_row_def row_ok_def peak_policy_def Let_def split: if_splits)

lemma check_endpoint_row: "check_endpoint manifest config no_peak blocks node = Inr (row, d) \<Longrightarrow> \<exists>body. read_row config no_peak body = Inr row"
  by (auto simp: check_endpoint_def Let_def split: if_splits)

definition case_ok :: "trial_case \<Rightarrow> bool" where
  "case_ok c \<longleftrightarrow> tc_verb c \<in> {''write'', ''read'', ''send''} \<and> 0 < tc_size c \<and> 0 < tc_count c \<and> row_ok (tc_verb c) (tc_count c) (tc_row c)"

lemma measured_case_Inr:
  assumes "measured_case manifest config raw = Inr c"
  shows "tc_verb c = cf_verb config \<and> tc_bidirectional c = cf_bidirectional config \<and> tc_size c = cfg_flag config ''-s'' \<and>
    tc_count c = cfg_flag config ''-n'' \<and> row_ok (cf_verb config) (cfg_flag config ''-n'') (tc_row c)"
proof -
  obtain no_peak scope where policy: "peak_policy (cf_verb config) (cfg_flag config ''-n'') = (no_peak, scope)" by (metis surj_pair)
  obtain blocks row d where endpoint: "check_endpoint manifest config no_peak blocks 0 = Inr (row, d)" and row: "tc_row c = row"
    using assms by (auto simp: measured_case_def policy Let_def)
  have "row_ok (cf_verb config) (cfg_flag config ''-n'') row"
    using check_endpoint_row [OF endpoint] read_row_ok [of config _ row] policy by (metis fst_conv)
  with assms row show ?thesis
    by (auto simp: measured_case_def policy Let_def)
qed

subsection \<open>The loop\<close>

definition case_work :: "trial_case \<Rightarrow> int" where
  "case_work c = sum_list (iterations_by_node c)"

definition case_segments :: "trial_case \<Rightarrow> int" where
  "case_segments c = case_work c * ((tc_size c + 4095) div 4096)"

text \<open>The label of a case; the loop remembers the labels it has seen.\<close>

definition case_label :: "trial_case \<Rightarrow> string" where
  "case_label c = tc_verb c @ ''-'' @ str_int (tc_size c)"

definition totals_inv :: "dict list \<Rightarrow> audit_loop \<Rightarrow> bool" where
  "totals_inv done al \<longleftrightarrow>
     al_wqes al = sum_list (map tc_count (al_cases al)) \<and>
     al_payload al = sum_list (map (\<lambda>c. case_work c * tc_size c) (al_cases al)) \<and>
     al_segments al = sum_list (map case_segments (al_cases al)) \<and>
     al_seen al = rev (map case_label (al_cases al)) \<and> distinct (map case_label (al_cases al)) \<and>
     list_all (\<lambda>c. case_ok c \<and> al_verb al = Some (tc_verb c) \<and> al_bidirectional al = Some (tc_bidirectional c)) (al_cases al)"

lemma audit_workload_inv:
  assumes "totals_inv done al" "audit_workload ev manifest record label command al = Inr al'"
  shows "totals_inv (done @ [record]) al'"
proof -
  obtain config client raw c where
    config: "item_config (guest_pair command ! 0) Server_Role = Inr config"
    and verb: "cf_verb config = (case al_verb al of None \<Rightarrow> cf_verb config | Some v \<Rightarrow> v)"
    and direction: "cf_bidirectional config = (case al_bidirectional al of None \<Rightarrow> cf_bidirectional config | Some d \<Rightarrow> d)"
    and label: "label = cf_verb config @ ''-'' @ str_int (cfg_flag config ''-s'')" "label \<notin> set (al_seen al)"
    and measured: "measured_case manifest config raw = Inr c"
    and al': "al' = al\<lparr>al_cases := al_cases al @ [c], al_seen := label # al_seen al, al_verb := Some (cf_verb config),
       al_bidirectional := Some (cf_bidirectional config), al_wqes := al_wqes al + cfg_flag config ''-n'',
       al_payload := al_payload al + (if cf_bidirectional config then 2 else 1) * cfg_flag config ''-n'' * cfg_flag config ''-s'',
       al_segments := al_segments al + (if cf_bidirectional config then 2 else 1) * cfg_flag config ''-n'' * ((cfg_flag config ''-s'' + 4095) div 4096)\<rparr>"
    using assms(2) by (auto simp: audit_workload_def Let_def)
  note c = measured_case_Inr [OF measured]
  have ok: "case_ok c"
    using c item_config_Inr [OF config] config_of_args_Inr by (auto simp: case_ok_def)
  have work: "case_work c = (if cf_bidirectional config then 2 else 1) * cfg_flag config ''-n''"
    using c by (simp add: case_work_def iterations_by_node_def)
  have same: "list_all (\<lambda>d. case_ok d \<and> tc_verb d = cf_verb config \<and> tc_bidirectional d = cf_bidirectional config) (al_cases al)"
    using assms(1) verb direction unfolding totals_inv_def list_all_iff by auto
  show ?thesis
    using assms(1) c ok work label same unfolding totals_inv_def al'
    by (auto simp: case_segments_def case_label_def list_all_iff)
qed

lemma audit_record_inv:
  assumes "totals_inv done al" "audit_record ev manifest record al = Inr al'"
  shows "totals_inv (done @ [record]) al'"
proof -
  obtain label command where "audit_workload ev manifest record label command al = Inr al' \<or> al' = al"
    using assms(2) by (auto simp: audit_record_def Let_def split: if_splits)
  with assms(1) audit_workload_inv [OF assms(1)] show ?thesis
    by (auto simp: totals_inv_def)
qed

interpretation records: checked_loop "audit_record ev manifest" totals_inv "\<lambda>_. True" for ev manifest
  by unfold_locales (auto intro: audit_record_inv simp: raises_only_def split: sum.splits)

lemma totals_inv_start:
  "totals_inv [] \<lparr>al_cases = [], al_seen = [], al_verb = verb, al_bidirectional = None, al_wqes = 0, al_payload = 0, al_segments = 0\<rparr>"
  by (simp add: totals_inv_def)

subsection \<open>The accepted result\<close>

text \<open>What an accepted audit has gone through after its loop.\<close>

lemma audit_Inr:
  assumes "audit ev verb expected = Inr r"
  obtains records al ns3 manifest fabric node0 node1 where
    "totals_inv records al" "al_cases al \<noteq> []" "ar_cases r = al_cases al" "ar_verb r = the (al_verb al)"
    "ar_bidirectional r = the (al_bidirectional al)" "case expected of None \<Rightarrow> True | Some sizes \<Rightarrow> map tc_size (al_cases al) = sizes"
    "ev_text ev ''ns3.log'' = Some ns3"
    "check_fabric ns3 (ar_verb r) ((if ar_bidirectional r then 2 else 1) * al_wqes al) (al_payload al) (al_segments al) = Inr fabric"
    "audit_node ev manifest (ar_verb r) 0 (if ar_bidirectional r then al_wqes al else 0) = Inr node0"
    "audit_node ev manifest (ar_verb r) 1 (al_wqes al) = Inr node1"
    "ar_application_bytes r = al_payload al"
proof -
  obtain records manifest al where loop: "rfold (audit_record ev manifest) records
       \<lparr>al_cases = [], al_seen = [], al_verb = verb, al_bidirectional = None, al_wqes = 0, al_payload = 0, al_segments = 0\<rparr> = Inr al"
    and rest: "al_cases al \<noteq> []" "ar_cases r = al_cases al" "ar_verb r = the (al_verb al)"
    "ar_bidirectional r = the (al_bidirectional al)" "case expected of None \<Rightarrow> True | Some sizes \<Rightarrow> map tc_size (al_cases al) = sizes"
    "\<exists>ns3 fabric. ev_text ev ''ns3.log'' = Some ns3 \<and>
       check_fabric ns3 (ar_verb r) ((if ar_bidirectional r then 2 else 1) * al_wqes al) (al_payload al) (al_segments al) = Inr fabric"
    "\<exists>node0 node1. audit_node ev manifest (ar_verb r) 0 (if ar_bidirectional r then al_wqes al else 0) = Inr node0 \<and>
       audit_node ev manifest (ar_verb r) 1 (al_wqes al) = Inr node1"
    "ar_application_bytes r = al_payload al"
    using assms by (auto simp: audit_def Let_def)
  from records.loop_inv [OF totals_inv_start loop] rest that show thesis by blast
qed

lemma sum_case_work:
  "list_all (\<lambda>c. tc_bidirectional c = d) cs \<Longrightarrow>
     sum_list (map case_work cs) = (if d then 2 else 1) * sum_list (map tc_count cs) \<and>
     sum_list (map (\<lambda>c. iterations_by_node c ! 0) cs) = (if d then sum_list (map tc_count cs) else 0)"
  by (induction cs) (auto simp: case_work_def iterations_by_node_def)

lemma sum_second_node: "sum_list (map (\<lambda>c. iterations_by_node c ! 1) cs) = sum_list (map tc_count cs)"
  by (simp add: iterations_by_node_def)

text \<open>The counters of the fabric and of a device after the given work.\<close>

definition fabric_counts :: "evidence \<Rightarrow> string \<Rightarrow> trial_case list \<Rightarrow> bool" where
  "fabric_counts ev verb cs \<longleftrightarrow> (\<exists>ns3 fabric progress. ev_text ev ''ns3.log'' = Some ns3 \<and>
     last_fields ns3 ''NS3_UB_NET_STATS'' = Inr fabric \<and> last_fields ns3 ''NS3_UB_NET_PROGRESS'' = Inr progress \<and>
     (\<forall>key \<in> set wqe_counters. map_of fabric key = Some (sum_list (map case_work cs)) \<and> map_of progress key = Some (sum_list (map case_work cs))) \<and>
     map_of fabric ''payload_bytes'' = Some ((if verb = ''read'' then 2 else 1) * sum_list (map (\<lambda>c. case_work c * tc_size c) cs)) \<and>
     map_of fabric ''ctp_native_completions'' = Some (sum_list (map case_segments cs)) \<and>
     (\<forall>key \<in> set zero_fabric. map_of fabric key = Some 0) \<and> (\<forall>key \<in> set zero_progress. map_of progress key = Some 0))"

definition device_counts :: "evidence \<Rightarrow> nat \<Rightarrow> trial_case list \<Rightarrow> bool" where
  "device_counts ev node cs \<longleftrightarrow> (\<exists>content profile progress.
     ev_text ev (''udma-node'' @ show_nat node @ ''-udma.log'') = Some content \<and>
     last_fields content ''UDMA_PROFILE'' = Inr profile \<and> last_fields content ''UDMA_PROGRESS'' = Inr progress \<and>
     (\<forall>key \<in> {''sq_wqes'', ''sq_completions''}. map_of profile key = Some (sum_list (map (\<lambda>c. iterations_by_node c ! node) cs)) \<and>
       map_of progress key = Some (sum_list (map (\<lambda>c. iterations_by_node c ! node) cs))) \<and>
     map_of progress ''quiescent'' = Some 1 \<and> (\<forall>key \<in> set idle_keys. map_of progress key = Some 0))"

lemma check_fabric_counts:
  assumes "ev_text ev ''ns3.log'' = Some ns3"
    and "check_fabric ns3 verb (sum_list (map case_work cs)) (sum_list (map (\<lambda>c. case_work c * tc_size c) cs)) (sum_list (map case_segments cs)) = Inr fabric"
  shows "fabric_counts ev verb cs"
  using assms unfolding fabric_counts_def check_fabric_def by (auto simp: mult.commute)

lemma audit_node_counts:
  assumes "audit_node ev manifest verb node (sum_list (map (\<lambda>c. iterations_by_node c ! node) cs)) = Inr result"
  shows "device_counts ev node cs"
  using assms unfolding device_counts_def audit_node_def by (auto simp: mult.commute)

text \<open>
  C6. An accepted trial did exactly the work of its cases.  When the audit passes, the last statistics of the
  fabric count as many submitted and completed work requests as the cases ask of both nodes together, the payload is the
  bytes of the cases (twice for READ, which counts requests and responses), the completed segments are
  the sizes in units of 4096 bytes rounded up, nothing failed, was dropped or is pending; and
  each device completed the iterations of its own node and is quiescent.
\<close>

theorem audit_counts_work:
  assumes "audit ev verb expected = Inr r"
  shows "fabric_counts ev (ar_verb r) (ar_cases r) \<and> device_counts ev 0 (ar_cases r) \<and> device_counts ev 1 (ar_cases r)"
proof -
  obtain records al ns3 manifest fabric node0 node1 where run:
    "totals_inv records al" "al_cases al \<noteq> []" "ar_cases r = al_cases al" "ar_verb r = the (al_verb al)"
    "ar_bidirectional r = the (al_bidirectional al)" "case expected of None \<Rightarrow> True | Some sizes \<Rightarrow> map tc_size (al_cases al) = sizes"
    "ev_text ev ''ns3.log'' = Some ns3"
    "check_fabric ns3 (ar_verb r) ((if ar_bidirectional r then 2 else 1) * al_wqes al) (al_payload al) (al_segments al) = Inr fabric"
    "audit_node ev manifest (ar_verb r) 0 (if ar_bidirectional r then al_wqes al else 0) = Inr node0"
    "audit_node ev manifest (ar_verb r) 1 (al_wqes al) = Inr node1"
    by (rule audit_Inr [OF assms])
  have "list_all (\<lambda>c. tc_bidirectional c = ar_bidirectional r) (ar_cases r)"
    using run(1,3,5) by (auto simp: totals_inv_def list_all_iff)
  note sums = sum_case_work [OF this]
  have totals: "al_wqes al = sum_list (map tc_count (ar_cases r))" "al_payload al = sum_list (map (\<lambda>c. case_work c * tc_size c) (ar_cases r))"
    "al_segments al = sum_list (map case_segments (ar_cases r))"
    using run(1,3) by (simp_all add: totals_inv_def)
  show ?thesis
    using check_fabric_counts [OF run(7), of "ar_verb r" "ar_cases r" fabric] run(8)
      audit_node_counts [of ev manifest "ar_verb r" 0 "ar_cases r" node0] run(9)
      audit_node_counts [of ev manifest "ar_verb r" 1 "ar_cases r" node1] run(10) sums sum_second_node [of "ar_cases r"] totals
    by (cases "ar_bidirectional r") simp_all
qed

text \<open>
  The cases of an accepted trial are consistent: there is at least one, all have the verb and the direction of the
  result and different sizes, the sizes are the expected ones in their order when the caller gives
  them, and every case has a positive size and count and a printed row whose average is positive and, when both endpoints
  measure a peak, at most the peak.
\<close>

theorem audit_cases_consistent:
  assumes "audit ev verb expected = Inr r"
  shows "ar_cases r \<noteq> [] \<and> distinct (map tc_size (ar_cases r)) \<and> (\<forall>sizes. expected = Some sizes \<longrightarrow> map tc_size (ar_cases r) = sizes) \<and>
    list_all (\<lambda>c. case_ok c \<and> tc_verb c = ar_verb r \<and> tc_bidirectional c = ar_bidirectional r) (ar_cases r)"
proof (rule audit_Inr [OF assms])
  fix records al
  assume run: "totals_inv records al" "al_cases al \<noteq> []" "ar_cases r = al_cases al" "ar_verb r = the (al_verb al)"
    "ar_bidirectional r = the (al_bidirectional al)" "case expected of None \<Rightarrow> True | Some sizes \<Rightarrow> map tc_size (al_cases al) = sizes"
  have each: "list_all (\<lambda>c. case_ok c \<and> tc_verb c = ar_verb r \<and> tc_bidirectional c = ar_bidirectional r) (ar_cases r)"
    using run(1,3,4,5) by (auto simp: totals_inv_def list_all_iff)
  have "map case_label (ar_cases r) = map (\<lambda>n. ar_verb r @ ''-'' @ str_int n) (map tc_size (ar_cases r))"
    using each by (simp add: list_all_iff case_label_def)
  moreover have "distinct (map case_label (ar_cases r))"
    using run(1,3) by (simp add: totals_inv_def)
  ultimately have "distinct (map tc_size (ar_cases r))"
    by (metis distinct_map)
  with run each show ?thesis by auto
qed

subsection \<open>An accepted trial\<close>

text \<open>One bidirectional READ of 64 bytes; its commands are those of the timing trial.\<close>

definition demo_read :: bw_settings where
  "demo_read = \<lparr>bw_verb = ''read_bw'', bw_size = 64, bw_port = 21410, bw_iterations = 1, bw_depth = 1, bw_post_list = 1, bw_cq_mod = 1,
     bw_inline = 0, bw_diagnostic = False, bw_unidirectional = False\<rparr>"

definition demo_read_command :: string where
  "demo_read_command = projr (bw_command demo_read)"

definition demo_body :: string where
  "demo_body = CHR 0x0A # demo_lines [''URMA_READ Bidirectional BW peak[MB/sec] BW average[MB/sec]'', ''JFS depth:1'',
     ''CQ Moderation:1'', ''Number of jettys:1'', ''64 1 9 8 1'', ''__UBSIM_RC_1_1__=0'']"

definition demo_raw :: string where
  "demo_raw = concat (replicate 2 (''--- UART 1 ---'' @ demo_body))"

definition demo_run_manifest :: string where
  "demo_run_manifest = demo_lines [''runtime=qemu-tcg-timing'', ''node_count=2'', ''network_backend=modular-ns3ub'', ''synchronization=required'',
     ''uart0=1'', ''uart1=1'', ''peer_link_rate_gbps=4'']"

definition demo_progress_counters :: sdict where
  "demo_progress_counters = map (\<lambda>k. (k, ''0'')) zero_progress @ [(''outputs_empty'', ''1'')] @ map (\<lambda>k. (k, ''2'')) wqe_counters"

definition demo_stats_counters :: sdict where
  "demo_stats_counters = map (\<lambda>k. (k, ''2'')) wqe_counters @ [(''payload_bytes'', ''256''), (''ctp_request_segments'', ''2''),
     (''ctp_native_completions'', ''2''), (''ctp_taacks'', ''0''), (''ctp_read_responses'', ''2''), (''ctp_native_send_delivery_completions'', ''0'')] @
     map (\<lambda>k. (k, ''0'')) zero_fabric"

definition demo_ns3 :: string where
  "demo_ns3 = demo_lines [counter_line ''NS3_UB_NET_PROGRESS'' demo_progress_counters, counter_line ''NS3_UB_NET_STATS'' demo_stats_counters]"

definition demo_profile_counters :: sdict where
  "demo_profile_counters = map (\<lambda>k. (k, ''1'')) [''sq_wqes'', ''sq_completions'', ''rma_pending_peak''] @
     map (\<lambda>k. (k, ''0'')) [''sq_depth_rejects'', ''sq_decode_rejects'', ''ubase_errors'', ''async_timestamp_jumps'', ''sq_consumer_wraps'']"

definition demo_idle_counters :: sdict where
  "demo_idle_counters = map (\<lambda>k. (k, ''1'')) [''sq_wqes'', ''sq_completions'', ''quiescent''] @ map (\<lambda>k. (k, ''0'')) idle_keys"

definition demo_host_counters :: sdict where
  "demo_host_counters = [(''reads'', ''0''), (''writes'', ''0'')]"

definition demo_udma :: string where
  "demo_udma = demo_lines [counter_line ''UDMA_PROFILE'' demo_profile_counters, counter_line ''UB_HOST_PENDING'' demo_host_counters,
     counter_line ''UDMA_PROGRESS'' demo_idle_counters]"

definition demo_records :: "dict list" where
  "demo_records = map (\<lambda>label. [(''label'', JStr label), (''returncode'', JInt 0)]) [''launch'', ''shell-ready'', ''network'', ''stop''] @
     [[(''label'', JStr ''read-64''), (''returncode'', JInt 0), (''validation_errors'', JList []),
       (''command'', JList [JStr ''--commands'', JStr demo_read_command, JStr (demo_read_command @ '' -S 10.0.0.1'')])]]"

definition demo_evidence :: evidence where
  "demo_evidence = \<lparr>ev_report = Some (Some (JObj [(''records'', JList (map JObj demo_records))])),
     ev_text = map_of [(''run-manifest.txt'', demo_run_manifest), (''ns3.log'', demo_ns3), (''read-64.txt'', demo_raw),
       (''udma-node0-udma.log'', demo_udma), (''udma-node1-udma.log'', demo_udma)]\<rparr>"

text \<open>The transcript.\<close>

lemma demo_blocks: "rx_split_groups rx_uart_block demo_raw = [[], ''1'', demo_body, ''1'', demo_body]"
  by code_simp

lemma demo_headers:
  "header_values ''JFS depth'' demo_body = [''1'']" "header_values ''CQ Moderation'' demo_body = [''1'']"
  "header_values ''Number of jettys'' demo_body = [''1'']" "header_values ''JFS post list'' demo_body = []"
  "map hd (rx_findall rx_inline_header demo_body) = []"
  by code_simp+

lemma demo_words:
  "str_in ''URMA_READ'' demo_body" "str_in ''Bidirectional'' demo_body" "str_in ''BW peak[MB/sec]'' demo_body"
  "str_in ''BW average[MB/sec]'' demo_body" "filter (\<lambda>l. startswith l ''[UBSIM_BW_REPORT_DIAGNOSTIC]'') (splitlines demo_body) = []"
  by code_simp+

lemma demo_status: "map hd (rx_findall (rx_port_status ''1'') demo_body) = [''0'']"
  by code_simp

lemma demo_rows: "rx_findall rx_bandwidth_row demo_body = [[''64'', ''1'', ''9'', ''8'', ''1'']]"
  by code_simp

lemmas number_eval = digits_value_def parse_int_def parse_nat_def strip_def lstrip_def is_space_def is_digit_def digit_val_def
  py_float_def parse_float_def parse_unsigned_def parse_decimal_def parse_exponent_def pow10_def ascii_lower_def Let_def

lemma fl_round_small: "numeral k < (2 ^ 53 :: int) \<Longrightarrow> fl_round (numeral k) = Fin (numeral k)"
  using fl_of_int_exact [of "numeral k"] by (simp add: fl_of_int_def split: pyfloat.splits)

lemma fl_round_one: "fl_round 1 = Fin 1"
  using fl_of_int_exact [of 1] by (simp add: fl_of_int_def split: pyfloat.splits)

lemma demo_floats: "py_float ''9'' = Inr (Fin 9)" "py_float ''8'' = Inr (Fin 8)" "py_float ''1'' = Inr (Fin 1)" "py_float ''4'' = Inr (Fin 4)"
  by (simp_all add: number_eval fl_round_small fl_round_one)

lemma demo_digits: "digits_value ''64'' = 64" "digits_value ''1'' = 1" "digits_value ''0'' = 0" "digits_value ''2'' = 2" "digits_value ''256'' = 256"
  by (simp_all add: number_eval)

lemma demo_texts: "str_int 1 = ''1''" "str_int 64 = ''64''" "show_nat 0 = ''0''" "show_nat 1 = ''1''"
  by code_simp+

lemma demo_manifest_dict:
  "manifest_dict demo_run_manifest = [(''runtime'', ''qemu-tcg-timing''), (''node_count'', ''2''), (''network_backend'', ''modular-ns3ub''),
     (''synchronization'', ''required''), (''uart0'', ''1''), (''uart1'', ''1''), (''peer_link_rate_gbps'', ''4'')]"
  by code_simp

definition demo_config :: bw_config where
  "demo_config = \<lparr>cf_verb = ''read'', cf_bidirectional = True, cf_flags = [(''-s'', 64), (''-n'', 1), (''-T'', 1), (''-J'', 1), (''-l'', 1),
     (''-Q'', 1), (''-I'', 0), (''-R'', 1)]\<rparr>"

lemma demo_flags:
  "cfg_flag demo_config ''-s'' = 64" "cfg_flag demo_config ''-n'' = 1" "cfg_flag demo_config ''-T'' = 1" "cfg_flag demo_config ''-J'' = 1"
  "cfg_flag demo_config ''-l'' = 1" "cfg_flag demo_config ''-Q'' = 1" "cfg_flag demo_config ''-I'' = 0" "cf_verb demo_config = ''read''"
  "cf_bidirectional demo_config = True"
  by (simp_all add: demo_config_def cfg_flag_def dict_get_def)

lemma demo_commands:
  "item_config (JStr demo_read_command) Server_Role = Inr demo_config"
  "item_config (JStr (demo_read_command @ '' -S 10.0.0.1'')) Client_Role = Inr demo_config"
proof -
  have ok: "check_bw demo_read = Inr ()"
    by (simp add: check_bw_Inr demo_read_def)
  then obtain command where "bw_command demo_read = Inr command" by (simp add: bw_command_def Let_def)
  then have command: "bw_command demo_read = Inr demo_read_command" by (simp add: demo_read_command_def)
  have "expected_config demo_read = demo_config"
    by (simp add: expected_config_def expected_flags_def demo_config_def demo_read_def effective_inline_def verb_suffix)
  with config_of_bw_words [OF ok] show "item_config (JStr demo_read_command) Server_Role = Inr demo_config"
    "item_config (JStr (demo_read_command @ '' -S 10.0.0.1'')) Client_Role = Inr demo_config"
    by (simp_all add: item_config_def command_config_def bw_command_split [OF command] bw_client_split [OF command])
qed

lemma demo_read_row: "read_row demo_config (False, False) demo_body = Inr (Fin 9, Fin 8, Fin 1)"
  by (simp add: read_row_def demo_rows require_def demo_digits demo_flags demo_floats fl_isfinite_def fl_less_def)

lemma demo_check_endpoint:
  assumes "node \<in> {0, 1}"
  shows "check_endpoint (manifest_dict demo_run_manifest) demo_config (False, False) [[], ''1'', demo_body, ''1'', demo_body] node =
    Inr ((Fin 9, Fin 8, Fin 1), None)"
proof -
  have "check_headers demo_config node demo_body = Inr ()"
    by (simp add: check_headers_def demo_words demo_headers demo_flags upper_verb_def require_def demo_texts Let_def)
  moreover have "map_of (manifest_dict demo_run_manifest) (''uart'' @ show_nat node) = Some ''1''"
    using assms demo_texts(4) by (auto simp: demo_manifest_dict demo_texts(3))
  ultimately show ?thesis
    using assms by (auto simp: check_endpoint_def demo_read_row demo_status demo_words require_def Let_def)
qed

lemma demo_measured: "\<exists>c. measured_case (manifest_dict demo_run_manifest) demo_config demo_raw = Inr c"
  by (simp add: measured_case_def demo_blocks demo_check_endpoint peak_policy_def demo_flags require_def row_eq_def fl_eq_def check_sums_def)

text \<open>The logs.\<close>

lemma splitlines_demo: "list_all (\<lambda>l. list_all (\<lambda>c. \<not> is_linebreak c) l) ls \<Longrightarrow> splitlines (demo_lines ls) = ls"
proof (induction ls)
  case Nil
  then show ?case by (simp add: splitlines_def demo_lines_def)
next
  case (Cons l ls)
  have "split_lines cur (l @ CHR 0x0A # rest) = (rev cur @ l) # split_lines [] rest" for cur rest
    using Cons.prems
  proof (induction l arbitrary: cur)
    case Nil
    then show ?case by (simp add: is_linebreak_def)
  next
    case (Cons c l)
    then have "c \<noteq> CHR 0x0D" by (auto simp: is_linebreak_def)
    with Cons show ?case by simp
  qed
  with Cons show ?case by (simp add: splitlines_def demo_lines_def)
qed

lemma demo_log_lines:
  "splitlines demo_ns3 = [counter_line ''NS3_UB_NET_PROGRESS'' demo_progress_counters, counter_line ''NS3_UB_NET_STATS'' demo_stats_counters]"
  "splitlines demo_udma = [counter_line ''UDMA_PROFILE'' demo_profile_counters, counter_line ''UB_HOST_PENDING'' demo_host_counters,
     counter_line ''UDMA_PROGRESS'' demo_idle_counters]"
  unfolding demo_ns3_def demo_udma_def by (rule splitlines_demo, code_simp)+

lemma demo_counters_ok:
  "list_all counter_ok demo_progress_counters" "list_all counter_ok demo_stats_counters" "list_all counter_ok demo_profile_counters"
  "list_all counter_ok demo_host_counters" "list_all counter_ok demo_idle_counters"
  by code_simp+

lemma demo_marked:
  "marked_lines demo_ns3 ''NS3_UB_NET_STATS'' = [] @ [counter_line ''NS3_UB_NET_STATS'' demo_stats_counters]"
  "marked_lines demo_ns3 ''NS3_UB_NET_PROGRESS'' = [] @ [counter_line ''NS3_UB_NET_PROGRESS'' demo_progress_counters]"
  "marked_lines demo_udma ''UDMA_PROFILE'' = [] @ [counter_line ''UDMA_PROFILE'' demo_profile_counters]"
  "marked_lines demo_udma ''UDMA_PROGRESS'' = [] @ [counter_line ''UDMA_PROGRESS'' demo_idle_counters]"
  "marked_lines demo_udma ''UB_HOST_PENDING'' = [] @ [counter_line ''UB_HOST_PENDING'' demo_host_counters]"
  unfolding marked_lines_def demo_log_lines by code_simp+

lemma demo_markers:
  "list_all is_word ''NS3_UB_NET_STATS''" "list_all is_word ''NS3_UB_NET_PROGRESS''" "list_all is_word ''UDMA_PROFILE''"
  "list_all is_word ''UDMA_PROGRESS''" "list_all is_word ''UB_HOST_PENDING''"
  by code_simp+

lemmas demo_last_fields =
  last_fields_line [OF demo_marked(1) demo_markers(1) demo_counters_ok(2)]
  last_fields_line [OF demo_marked(2) demo_markers(2) demo_counters_ok(1)]
  last_fields_line [OF demo_marked(3) demo_markers(3) demo_counters_ok(3)]
  last_fields_line [OF demo_marked(4) demo_markers(4) demo_counters_ok(5)]
  last_fields_line [OF demo_marked(5) demo_markers(5) demo_counters_ok(4)]

lemma demo_fabric: "check_fabric demo_ns3 ''read'' 2 128 2 = Inr (dict_update [] (counter_values demo_stats_counters))"
  unfolding check_fabric_def demo_last_fields by code_simp

lemma demo_files:
  "ev_text demo_evidence ''run-manifest.txt'' = Some demo_run_manifest" "ev_text demo_evidence ''ns3.log'' = Some demo_ns3"
  "ev_text demo_evidence ''read-64.txt'' = Some demo_raw" "ev_text demo_evidence (''udma-node'' @ ''0'' @ ''-udma.log'') = Some demo_udma"
  "ev_text demo_evidence (''udma-node'' @ ''1'' @ ''-udma.log'') = Some demo_udma"
  by (simp_all add: demo_evidence_def)

lemma demo_counts:
  "equal_fields (dict_update [] (counter_values demo_profile_counters)) [''sq_wqes'', ''sq_completions''] 1 = Inr ()"
  "equal_fields (dict_update [] (counter_values demo_idle_counters)) [''sq_wqes'', ''sq_completions''] 1 = Inr ()"
  "equal_fields (dict_update [] (counter_values demo_profile_counters))
     [''sq_depth_rejects'', ''sq_decode_rejects'', ''ubase_errors'', ''async_timestamp_jumps''] 0 = Inr ()"
  "equal_field (dict_update [] (counter_values demo_idle_counters)) ''quiescent'' 1 = Inr ()"
  "equal_fields (dict_update [] (counter_values demo_idle_counters)) idle_keys 0 = Inr ()"
  "equal_fields (dict_update [] (counter_values demo_host_counters)) [''reads'', ''writes''] 0 = Inr ()"
  "need_key (dict_update [] (counter_values demo_profile_counters)) ''rma_pending_peak'' = Inr 1"
  "need_key (dict_update [] (counter_values demo_profile_counters)) ''sq_consumer_wraps'' = Inr 0"
  by code_simp+

lemma demo_node:
  assumes "ev_text ev (''udma-node'' @ show_nat node @ ''-udma.log'') = Some demo_udma"
  shows "audit_node ev (manifest_dict demo_run_manifest) ''read'' node 1 =
    Inr \<lparr>nr_wqes = 1, nr_wraps = 0, nr_notifications = None, nr_rma_peak = Some 1\<rparr>"
proof -
  have content: "ev_read ev (''udma-node'' @ show_nat node @ ''-udma.log'') = Inr demo_udma"
    using assms by (simp add: ev_read_def)
  have notify: "map_of (manifest_dict demo_run_manifest) ''udma_state_format'' = None"
    by (simp add: demo_manifest_dict)
  show ?thesis
    unfolding audit_node_def content demo_last_fields rbind_simps demo_counts notify by simp
qed

lemma demo_no_profile: "\<not> str_in ''reliability_profile='' demo_ns3"
proof -
  let ?p = "''reliability_profile=''"
  have p: "?p \<noteq> []" "CHR 0x20 \<notin> set ?p" "CHR 0x0A \<notin> set ?p" by simp_all
  have ns3: "demo_ns3 = counter_line ''NS3_UB_NET_PROGRESS'' demo_progress_counters @ CHR 0x0A #
      counter_line ''NS3_UB_NET_STATS'' demo_stats_counters @ CHR 0x0A # []"
    by (simp add: demo_ns3_def demo_lines_def)
  have none: "\<not> str_in ?p (''['' @ ''NS3_UB_NET_PROGRESS'' @ '']'')" "\<not> str_in ?p (''['' @ ''NS3_UB_NET_STATS'' @ '']'')"
    "\<not> list_ex (\<lambda>(k, v). str_in ?p (k @ CHR ''='' # v)) demo_progress_counters"
    "\<not> list_ex (\<lambda>(k, v). str_in ?p (k @ CHR ''='' # v)) demo_stats_counters" "\<not> str_in ?p []"
    by code_simp+
  show ?thesis
    unfolding ns3 str_in_separated [OF p(3,1)] str_in_counter_line [OF p(2,1)] using none by blast
qed

lemma demo_profile: "check_profile (manifest_dict demo_run_manifest) demo_ns3 = Inr False"
  by (simp add: check_profile_def no_reliability_profile [OF demo_no_profile])

lemma demo_check_manifest:
  "check_retry_mode (manifest_dict demo_run_manifest) = Inr ()" "check_manifest (manifest_dict demo_run_manifest) = Inr (Fin 4)"
  by (simp_all add: check_retry_mode_def check_manifest_def manifest_values_def demo_manifest_dict require_def demo_floats fl_isfinite_def fl_less_def)

lemma demo_labels:
  "rx_match rx_workload ''launch'' = None" "rx_match rx_workload ''shell-ready'' = None" "rx_match rx_workload ''network'' = None"
  "rx_match rx_workload ''stop'' = None" "rx_match rx_workload ''read-64'' \<noteq> None" "rx_fullmatch rx_workload_label ''read-64'' \<noteq> None"
  by code_simp+

lemma demo_command_text: "\<exists>more. demo_read_command = ''LD_LIBRARY_PATH=/lib:/usr/lib urma_perftest '' @ more"
proof -
  have "check_bw demo_read = Inr ()"
    by (simp add: check_bw_Inr demo_read_def)
  then show ?thesis
    by (simp add: demo_read_command_def bw_command_def Let_def demo_read_def)
qed

definition demo_start :: audit_loop where
  "demo_start = \<lparr>al_cases = [], al_seen = [], al_verb = None, al_bidirectional = None, al_wqes = 0, al_payload = 0, al_segments = 0\<rparr>"

lemma demo_steps: "rfold (\<lambda>label _. check_step demo_records label) [''launch'', ''shell-ready'', ''network'', ''stop''] () = Inr ()"
  by (simp add: check_step_def demo_records_def require_def is_zero_def Let_def)

lemma demo_loop:
  "\<exists>c. tc_size c = 64 \<and> rfold (audit_record demo_evidence (manifest_dict demo_run_manifest)) demo_records demo_start =
     Inr (demo_start\<lparr>al_cases := [c], al_seen := [''read-64''], al_verb := Some ''read'', al_bidirectional := Some True, al_wqes := 1,
       al_payload := 128, al_segments := 2\<rparr>)"
proof -
  obtain c where c: "measured_case (manifest_dict demo_run_manifest) demo_config demo_raw = Inr c"
    using demo_measured by blast
  have read: "ev_read demo_evidence (''read-64'' @ ''.txt'') = Inr demo_raw"
    using demo_files(3) by simp
  obtain other where command: "demo_read_command = ''LD_LIBRARY_PATH=/lib:/usr/lib urma_perftest '' @ other"
    using demo_command_text by blast
  have words: "JStr demo_read_command \<noteq> JStr ''--commands''" "JStr (demo_read_command @ '' -S 10.0.0.1'') \<noteq> JStr ''--commands''"
    by (simp_all add: command)
  have steps: "rfold (audit_record demo_evidence (manifest_dict demo_run_manifest)) (take 4 demo_records) demo_start = Inr demo_start"
    by (simp add: demo_records_def audit_record_def demo_labels require_def)
  have "audit_record demo_evidence (manifest_dict demo_run_manifest) (demo_records ! 4) demo_start = Inr (demo_start\<lparr>al_cases := [c],
      al_seen := [''read-64''], al_verb := Some ''read'', al_bidirectional := Some True, al_wqes := 1, al_payload := 128, al_segments := 2\<rparr>)"
    using read words
    by (simp add: demo_records_def audit_record_def demo_labels audit_workload_def guest_pair_def require_def
      is_zero_def demo_commands demo_flags demo_texts c demo_start_def Let_def)
  moreover have "demo_records = take 4 demo_records @ [demo_records ! 4]"
    by (simp add: demo_records_def)
  ultimately have "rfold (audit_record demo_evidence (manifest_dict demo_run_manifest)) demo_records demo_start = Inr (demo_start\<lparr>al_cases := [c],
      al_seen := [''read-64''], al_verb := Some ''read'', al_bidirectional := Some True, al_wqes := 1, al_payload := 128, al_segments := 2\<rparr>)"
    using steps rfold_append [of "audit_record demo_evidence (manifest_dict demo_run_manifest)" "take 4 demo_records" "[demo_records ! 4]" demo_start]
    by simp
  moreover have "tc_size c = 64"
    using measured_case_Inr [OF c] demo_flags(1) by simp
  ultimately show ?thesis by blast
qed

lemma demo_audit: "\<exists>r. audit demo_evidence None (Some [64]) = Inr r"
proof -
  obtain c where size: "tc_size c = 64" and loop: "rfold (audit_record demo_evidence (manifest_dict demo_run_manifest)) demo_records demo_start =
      Inr (demo_start\<lparr>al_cases := [c], al_seen := [''read-64''], al_verb := Some ''read'', al_bidirectional := Some True, al_wqes := 1,
        al_payload := 128, al_segments := 2\<rparr>)"
    using demo_loop by blast
  have records: "report_records [(''records'', JList (map JObj demo_records))] = Inr demo_records"
    by (simp add: report_records_def demo_records_def)
  have nodes: "audit_node demo_evidence (manifest_dict demo_run_manifest) ''read'' 0 1 =
      Inr \<lparr>nr_wqes = 1, nr_wraps = 0, nr_notifications = None, nr_rma_peak = Some 1\<rparr>"
    "audit_node demo_evidence (manifest_dict demo_run_manifest) ''read'' 1 1 =
      Inr \<lparr>nr_wqes = 1, nr_wraps = 0, nr_notifications = None, nr_rma_peak = Some 1\<rparr>"
    using demo_files(4,5) demo_texts(3,4) by (simp_all only: demo_node)
  have report: "ev_report demo_evidence = Some (Some (JObj [(''records'', JList (map JObj demo_records))]))"
    by (simp add: demo_evidence_def)
  show ?thesis
    unfolding audit_def report option.simps ev_read_def demo_files demo_check_manifest demo_profile rbind_simps Let_def as_obj_def loads_def json.simps
      records demo_steps loop [unfolded demo_start_def]
    using size by (simp add: check_expected_sizes_def require_def demo_fabric nodes nodes(2) [unfolded One_nat_def])
qed

theorem audit_counts_work_witness:
  "\<exists>r. audit demo_evidence None (Some [64]) = Inr r \<and>
     fabric_counts demo_evidence (ar_verb r) (ar_cases r) \<and> device_counts demo_evidence 0 (ar_cases r) \<and> device_counts demo_evidence 1 (ar_cases r)"
  using demo_audit audit_counts_work [of demo_evidence None "Some [64]"] by blast

theorem audit_cases_consistent_witness:
  "\<exists>r. audit demo_evidence None (Some [64]) = Inr r \<and> ar_cases r \<noteq> [] \<and> map tc_size (ar_cases r) = [64] \<and>
     list_all (\<lambda>c. case_ok c \<and> tc_verb c = ar_verb r \<and> tc_bidirectional c = ar_bidirectional r) (ar_cases r)"
  using demo_audit audit_cases_consistent [of demo_evidence None "Some [64]"] by blast

end
