(* ===== verification/Py_Expr.thy ===== *)
theory Py_Expr
  imports Py_Prelude
begin

section \<open>Integer expressions of Python\<close>

text \<open>
  \<^verbatim>\<open>ast.parse(s, mode="eval")\<close> as far as its trees consist of integer constants, names, unary plus and minus,
  and the binary operators \<^verbatim>\<open>+\<close>, \<^verbatim>\<open>-\<close>, \<^verbatim>\<open>|\<close> and \<^verbatim>\<open><<\<close>.  Every other text gives \<open>None\<close>: the callers treat a syntax
  error and a tree with another node alike.  Limits of the interpreter on the depth of a tree and the
  length of a literal are not modelled.
\<close>

subsection \<open>Literals and names\<close>

definition is_hex :: "char \<Rightarrow> bool" where
  "is_hex c \<longleftrightarrow> is_digit c \<or> c \<in> set ''abcdefABCDEF''"

definition hex_val :: "char \<Rightarrow> nat" where
  "hex_val c = (if is_digit c then digit_val c else if c \<in> set ''abcdef'' then of_char c - 87 else of_char c - 55)"

text \<open>Digits of a base, with single underscores before them.\<close>

fun base_digits :: "nat \<Rightarrow> nat \<Rightarrow> string \<Rightarrow> nat option" where
  "base_digits b acc [] = Some acc"
| "base_digits b acc (c # cs) =
     (if c = CHR ''_'' then (if cs = [] \<or> hd cs = CHR ''_'' then None else base_digits b acc cs)
      else if is_hex c \<and> hex_val c < b then base_digits b (acc * b + hex_val c) cs
      else None)"

definition py_literal :: "string \<Rightarrow> int option" where
  "py_literal w = map_option int (
     if length w \<ge> 2 \<and> hd w = CHR ''0'' \<and> w ! 1 \<in> set ''xXoObB''
     then if length w = 2 then None
       else base_digits (if w ! 1 \<in> set ''xX'' then 16 else if w ! 1 \<in> set ''oO'' then 8 else 2) 0 (drop 2 w)
     else if hd w = CHR ''0'' \<and> \<not> list_all (\<lambda>c. c \<in> set ''0_'') w then None
     else base_digits 10 0 w)"

text \<open>The class \<^verbatim>\<open>[A-Za-z_]\<close>.\<close>

definition is_letter :: "char \<Rightarrow> bool" where
  "is_letter c \<longleftrightarrow> (let n = (of_char c :: nat) in (65 \<le> n \<and> n \<le> 90) \<or> n = 95 \<or> (97 \<le> n \<and> n \<le> 122))"

text \<open>
  Names: the letters below 256, of which three change under the normalisation NFKC; the micro sign
  becomes a letter beyond.
\<close>

definition name_start :: "char \<Rightarrow> bool" where
  "name_start c \<longleftrightarrow> (let n = (of_char c :: nat) in
     (65 \<le> n \<and> n \<le> 90) \<or> n = 95 \<or> (97 \<le> n \<and> n \<le> 122) \<or> n \<in> {170, 181, 186} \<or> (192 \<le> n \<and> n \<noteq> 215 \<and> n \<noteq> 247))"

definition name_char :: "char \<Rightarrow> bool" where
  "name_char c \<longleftrightarrow> name_start c \<or> is_digit c \<or> c = CHR 0xB7"

definition name_nfkc :: "string \<Rightarrow> string option" where
  "name_nfkc w = (if CHR 0xB5 \<in> set w then None
     else Some (map (\<lambda>c. if c = CHR 0xAA then CHR ''a'' else if c = CHR 0xBA then CHR ''o'' else c) w))"

definition py_keywords :: "string list" where
  "py_keywords = [''False'', ''None'', ''True'', ''and'', ''as'', ''assert'', ''async'', ''await'', ''break'', ''class'', ''continue'',
     ''def'', ''del'', ''elif'', ''else'', ''except'', ''finally'', ''for'', ''from'', ''global'', ''if'', ''import'', ''in'', ''is'', ''lambda'',
     ''nonlocal'', ''not'', ''or'', ''pass'', ''raise'', ''return'', ''try'', ''while'', ''with'', ''yield'']"

subsection \<open>Tokens\<close>

datatype py_tok = TInt int | TName string | TPlus | TMinus | TBar | TShift | TOpen | TClose

text \<open>After a line end outside parentheses only comments and white space may follow.\<close>

fun blank_tail :: "bool \<Rightarrow> string \<Rightarrow> bool" where
  "blank_tail comment [] \<longleftrightarrow> True"
| "blank_tail comment (c # cs) \<longleftrightarrow>
     (if c = CHR 0x0A then blank_tail False cs
      else if comment then blank_tail True cs
      else if c = CHR ''#'' then blank_tail True cs
      else if c \<in> {CHR 0x20, CHR 0x09, CHR 0x0C} then blank_tail False cs
      else c = CHR 0x5C \<and> cs \<noteq> [] \<and> hd cs = CHR 0x0A \<and> tl cs \<noteq> [] \<and> blank_tail False (tl cs))"

definition one_token :: "char \<Rightarrow> py_tok option" where
  "one_token c = (if c = CHR ''+'' then Some TPlus else if c = CHR ''-'' then Some TMinus else if c = CHR ''|'' then Some TBar else None)"

definition word_token :: "string \<Rightarrow> py_tok option" where
  "word_token w = (if w \<in> set py_keywords then None else map_option TName (name_nfkc w))"

definition number_char :: "char \<Rightarrow> bool" where
  "number_char c \<longleftrightarrow> name_char c \<or> c = CHR ''.''"

abbreviation push_token :: "py_tok option \<Rightarrow> py_tok list option \<Rightarrow> py_tok list option" where
  "push_token t ts \<equiv> Option.bind t (\<lambda>x. map_option (Cons x) ts)"

function py_tokens :: "nat \<Rightarrow> string \<Rightarrow> py_tok list option" where
  "py_tokens d [] = Some []"
| "py_tokens d (c # cs) =
     (if c \<in> {CHR 0x20, CHR 0x09, CHR 0x0C} then py_tokens d cs
      else if c = CHR ''#'' then py_tokens d (dropWhile (\<lambda>x. x \<noteq> CHR 0x0A) cs)
      else if c = CHR 0x5C then (if cs \<noteq> [] \<and> hd cs = CHR 0x0A \<and> tl cs \<noteq> [] then py_tokens d (tl cs) else None)
      else if c = CHR 0x0A then (if d = 0 then (if blank_tail False cs then Some [] else None) else py_tokens d cs)
      else if c = CHR ''('' then push_token (Some TOpen) (py_tokens (d + 1) cs)
      else if c = CHR '')'' then (if d = 0 then None else push_token (Some TClose) (py_tokens (d - 1) cs))
      else if c = CHR ''<'' then (if cs \<noteq> [] \<and> hd cs = CHR ''<'' then push_token (Some TShift) (py_tokens d (tl cs)) else None)
      else if one_token c \<noteq> None then push_token (one_token c) (py_tokens d cs)
      else if is_digit c then push_token (map_option TInt (py_literal (c # takeWhile number_char cs))) (py_tokens d (dropWhile number_char cs))
      else if name_start c then push_token (word_token (c # takeWhile name_char cs)) (py_tokens d (dropWhile name_char cs))
      else None)"
  by pat_completeness auto
termination
proof (relation "measure (\<lambda>(d, s). length s)")
  have "length (dropWhile P cs) < Suc (length cs)" for P and cs :: string
    using length_dropWhile_le [of P cs] by simp
  then show "((d, dropWhile (\<lambda>x. x \<noteq> CHR 0x0A) cs), (d, c # cs)) \<in> measure (\<lambda>(d, s). length s)"
    "((d, dropWhile number_char cs), (d, c # cs)) \<in> measure (\<lambda>(d, s). length s)"
    "((d, dropWhile name_char cs), (d, c # cs)) \<in> measure (\<lambda>(d, s). length s)" for d :: nat and c cs
    by simp_all
qed auto

subsection \<open>Trees\<close>

datatype py_op = Op_Add | Op_Sub | Op_BitOr | Op_LShift

datatype py_expr = EConst int | EName string | EUAdd py_expr | EUSub py_expr | EBinOp py_expr py_op py_expr

fun op_level :: "py_op \<Rightarrow> nat" where
  "op_level Op_BitOr = 0"
| "op_level Op_LShift = 1"
| "op_level Op_Add = 2"
| "op_level Op_Sub = 2"

fun tok_op :: "py_tok \<Rightarrow> py_op option" where
  "tok_op TBar = Some Op_BitOr"
| "tok_op TShift = Some Op_LShift"
| "tok_op TPlus = Some Op_Add"
| "tok_op TMinus = Some Op_Sub"
| "tok_op _ = None"

definition op_at :: "nat \<Rightarrow> py_tok \<Rightarrow> py_op option" where
  "op_at k t = (case tok_op t of Some op \<Rightarrow> if op_level op = k then Some op else None | None \<Rightarrow> None)"

text \<open>
  Operators of one level associate to the left; a higher level binds tighter; 3 is the level of unary
  operators and atoms.  The first argument is fuel.
\<close>

fun p_expr :: "nat \<Rightarrow> nat \<Rightarrow> py_tok list \<Rightarrow> (py_expr \<times> py_tok list) option"
  and p_more :: "nat \<Rightarrow> nat \<Rightarrow> py_expr \<Rightarrow> py_tok list \<Rightarrow> (py_expr \<times> py_tok list) option" where
  "p_expr 0 k ts = None"
| "p_expr (Suc n) k ts =
     (if k < 3 then Option.bind (p_expr n (Suc k) ts) (\<lambda>(l, ts'). p_more n k l ts')
      else case ts of
        TInt i # r \<Rightarrow> Some (EConst i, r)
      | TName x # r \<Rightarrow> Some (EName x, r)
      | TPlus # r \<Rightarrow> map_option (apfst EUAdd) (p_expr n 3 r)
      | TMinus # r \<Rightarrow> map_option (apfst EUSub) (p_expr n 3 r)
      | TOpen # r \<Rightarrow> (case p_expr n 0 r of Some (e, TClose # r') \<Rightarrow> Some (e, r') | _ \<Rightarrow> None)
      | _ \<Rightarrow> None)"
| "p_more 0 k l ts = None"
| "p_more (Suc n) k l ts = (case ts of
       [] \<Rightarrow> Some (l, [])
     | t # r \<Rightarrow> (case op_at k t of
         None \<Rightarrow> Some (l, t # r)
       | Some op \<Rightarrow> Option.bind (p_expr n (Suc k) r) (\<lambda>(e, r'). p_more n k (EBinOp l op e) r')))"

definition py_parse :: "string \<Rightarrow> py_expr option" where
  "py_parse s = Option.bind (py_tokens 0 s) (\<lambda>ts.
     case p_expr (5 * length ts + 5) 0 ts of Some (e, []) \<Rightarrow> Some e | _ \<Rightarrow> None)"

end
