(* ===== verification/Command_Coverage.thy ===== *)
theory Command_Coverage
  imports Py_Regex Py_Expr
begin

unbundle bit_operations_syntax

section \<open>The inventory of driver commands\<close>

text \<open>
  Model of \<^verbatim>\<open>tools/audit_command_coverage.py\<close>: the parser of C enumerations, the inventory of opcodes with
  the declarations that name them, the fingerprints of reviewed declarations, and the exit code.  The
  digest \<^verbatim>\<open>hashlib.sha256\<close> and the header files are arguments; the printed inventory is not modelled
  beyond its counts.
\<close>

subsection \<open>Enumerations\<close>

definition rx_comment :: rx where
  "rx_comment = Alt (rx_seq [rx_lit ''/*'', Lazy (Cls (\<lambda>_. True)), rx_lit ''*/''])
     (Seq (rx_lit ''//'') (Star (Cls (\<lambda>c. c \<noteq> CHR 0x0A))))"

definition rx_enum_body :: rx where
  "rx_enum_body = rx_seq [rx_lit ''{'', Grp (rx_plus (Cls (\<lambda>c. c \<noteq> CHR ''}''))), rx_lit ''}'']"

definition rx_enum :: "string \<Rightarrow> rx" where
  "rx_enum enum_name = (if enum_name \<noteq> []
     then rx_seq [Wordb, rx_lit ''enum'', rx_spaces1, rx_lit enum_name, rx_spaces, rx_enum_body]
     else rx_seq [Wordb, rx_lit ''enum'', rx_spaces, rx_enum_body])"

definition rx_suffixed :: rx where
  "rx_suffixed = rx_seq [Wordb,
     Grp (Alt (rx_seq [rx_lit ''0'', Cls (\<lambda>c. c \<in> set ''xX''), rx_plus (Cls is_hex)]) rx_digits),
     rx_plus (Cls (\<lambda>c. c \<in> set ''uUlL'')), Wordb]"

definition rx_symbol :: rx where
  "rx_symbol = Seq (Cls is_letter) (Star (Cls is_word))"

type_synonym opcodes = "(string \<times> int) list"

fun visit :: "opcodes \<Rightarrow> py_expr \<Rightarrow> int option" where
  "visit known (EConst i) = Some i"
| "visit known (EName x) = map_of known x"
| "visit known (EUAdd e) = visit known e"
| "visit known (EUSub e) = map_option (\<lambda>v. - v) (visit known e)"
| "visit known (EBinOp l op r) = Option.bind (visit known l) (\<lambda>left. Option.bind (visit known r) (\<lambda>right.
     case op of
       Op_Add \<Rightarrow> Some (left + right)
     | Op_Sub \<Rightarrow> Some (left - right)
     | Op_BitOr \<Rightarrow> Some (left OR right)
     | Op_LShift \<Rightarrow> if 0 \<le> right \<and> right \<le> 63 then Some (push_bit (nat right) left) else None))"

definition evaluate :: "opcodes \<Rightarrow> string \<Rightarrow> int option" where
  "evaluate known expression = Option.bind (py_parse (rx_sub rx_suffixed hd expression)) (visit known)"

text \<open>One item of the body; the state is the symbols so far and the last value.\<close>

definition enum_item :: "string \<Rightarrow> string \<Rightarrow> opcodes \<times> int \<Rightarrow> (opcodes \<times> int) res" where
  "enum_item source raw state = (case state of (known, value) \<Rightarrow>
     let item = strip raw; symbol = strip (takeWhile (\<lambda>c. c \<noteq> CHR ''='') item) in
     if rx_fullmatch rx_symbol symbol = None \<or> has_key symbol known
     then Inl (ValueError (source @ '': invalid/duplicate enum symbol '' @ symbol))
     else case (if CHR ''='' \<in> set item then evaluate known (strip (drop 1 (dropWhile (\<lambda>c. c \<noteq> CHR ''='') item))) else Some (value + 1)) of
       None \<Rightarrow> Inl (ValueError (source @ '': '' @ symbol @ '': unsupported enum expression''))
     | Some value' \<Rightarrow> if 0 \<le> value' \<and> value' \<le> 0xffff then Inr (known @ [(symbol, value')], value')
         else Inl (ValueError (source @ '': opcode out of range: '' @ symbol @ ''='' @ str_int value')))"

text \<open>\<^verbatim>\<open>matches[0].split(",")\<close>; an empty last item is passed over.\<close>

definition enum_items :: "string \<Rightarrow> string list" where
  "enum_items body = (let items = split_on (CHR '','') body in if strip (last items) = [] then butlast items else items)"

definition enum_entries :: "string \<Rightarrow> string \<Rightarrow> string \<Rightarrow> opcodes res" where
  "enum_entries text enum_name source =
     (case rx_findall (rx_enum enum_name) (rx_sub rx_comment (\<lambda>_. []) text) of
        [gs] \<Rightarrow> rbind (rfold (enum_item source) (enum_items (hd gs)) ([], -1)) (\<lambda>state. Inr (fst state))
      | _ \<Rightarrow> Inl (ValueError (source @ '': expected exactly one enum '' @ enum_name)))"

subsection \<open>The inventory\<close>

record cov_alias =
  ca_symbol :: string
  ca_source :: string
  ca_enum :: string

record cov_row =
  cr_namespace :: string
  cr_opcode :: int
  cr_service_id :: "int option"
  cr_classification :: string
  cr_basis :: string
  cr_aliases :: "cov_alias list"

definition UDMA :: string where
  "UDMA = ''oe66/drivers/ub/urma/hw/udma/udma_cmd.h''"

definition CTRLQ :: string where
  "CTRLQ = ''oe66/include/ub/ubase/ubase_comm_ctrlq.h''"

type_synonym cov_group = "string \<times> string \<times> string"

definition GROUPS :: "cov_group list" where
  "GROUPS = [
     (''ubase'', ''oe66/include/ub/ubase/ubase_comm_cmd.h'', ''ubase_opcode_type''),
     (''ubase'', UDMA, ''udma_cmd_opcode_type''),
     (''mailbox'', UDMA, []),
     (''mailbox'', ''oe66/include/ub/ubase/ubase_comm_mbx.h'', ''ubase_mbox_opcode''),
     (''ctrlq-tp'', ''oe66/drivers/ub/urma/hw/udma/udma_ctrlq_tp.h'', ''udma_ctrlq_cmd_code_type''),
     (''ctrlq-device'', UDMA, ''udma_ctrlq_dev_mgmt_opcode''),
     (''ctrlq-tp'', CTRLQ, ''ubase_ctrlq_opc_type_tp''),
     (''ctrlq-device'', CTRLQ, ''ubase_ctrlq_opc_type_dev_register''),
     (''ctrlq-qos'', CTRLQ, ''ubase_ctrlq_opc_type_qos''),
     (''ctrlq-ip'', CTRLQ, ''ubase_ctrlq_opc_type_ip''),
     (''ctrlq-ubmem'', ''oe66/drivers/ub/urma/hw/udma/udma_ctrlq_tp.h'', ''udma_ctrlq_ubmem_opcode'')]"

definition SERVICE_IDS :: opcodes where
  "SERVICE_IDS = [(''ctrlq-tp'', 1), (''ctrlq-device'', 2), (''ctrlq-ip'', 3), (''ctrlq-qos'', 4), (''ctrlq-ubmem'', 5)]"

definition REVIEWED_DECLARATIONS :: sdict where
  "REVIEWED_DECLARATIONS = [
     (''ctrlq-device'', ''5766d71c1446300e07437b05816b129bdd7cba46985c772a76e06645ac842e0a''),
     (''ctrlq-ip'', ''5ac517ef2390465763a6a0b903376da30e94f33f89d2647c5a0626e6cb4b5868''),
     (''ctrlq-qos'', ''fdc6e6af9518ef61ae9c7fff029b635c2b08792058830bbab66d0439cf1e43ce''),
     (''ctrlq-tp'', ''717cc73a731db23832e071bff960cc26d35e623534fa5fdef80b07d0b2dac0cf''),
     (''ctrlq-ubmem'', ''f249ccd1be89d699701f7ad7fb4deed1dce26fccc2418955abe03cf4e91629a1''),
     (''mailbox'', ''9fcb8182b8a0a3a28b30ce294e2342d7b56bc2d351b3e4e55827ac25a0c26841''),
     (''ubase'', ''3bd32e5a954a156791c1a1198b54ff7057ea6113c60707fc413cb3f2fbec5c8e'')]"

definition MODELED :: "(string \<times> int list) list" where
  "MODELED = [
     (''ubase'', [0x1, 0x2, 0x30, 0x6200, 0x7001]),
     (''mailbox'', [0x4, 0x6, 0x7, 0x24, 0x25, 0x26, 0x27, 0x34, 0x37, 0x44, 0x47, 0x54, 0x57]),
     (''ctrlq-tp'', [0x13, 0x21, 0x22, 0x23]),
     (''ctrlq-device'', [0x1, 0x15]),
     (''ctrlq-qos'', [0x1, 0x2]),
     (''ctrlq-ip'', []),
     (''ctrlq-ubmem'', [])]"

definition classify :: "string \<Rightarrow> int \<Rightarrow> string" where
  "classify namespace value =
     (if namespace = ''ubase'' \<and> value \<in> {0x7000, 0xf00e} then ''dispatch-only''
      else if namespace = ''ubase'' \<and> value \<in> {0x4213, 0x4214} then ''rejected''
      else if value \<in> set (dict_get namespace [] MODELED) then ''modeled-partial''
      else if startswith namespace ''ctrlq'' then ''rejected''
      else ''completion-only'')"

type_synonym cov_rows = "((string \<times> int) \<times> cov_row) list"

definition new_row :: "string \<Rightarrow> int \<Rightarrow> cov_row" where
  "new_row namespace value = \<lparr>cr_namespace = namespace, cr_opcode = value, cr_service_id = map_of SERVICE_IDS namespace,
     cr_classification = classify namespace value, cr_basis = ''manual-source-review'', cr_aliases = []\<rparr>"

definition add_alias :: "cov_alias \<Rightarrow> cov_row \<Rightarrow> cov_row" where
  "add_alias alias row = (if alias \<in> set (cr_aliases row) then row else row\<lparr>cr_aliases := cr_aliases row @ [alias]\<rparr>)"

definition add_entry :: "cov_group \<Rightarrow> string \<times> int \<Rightarrow> cov_rows \<Rightarrow> cov_rows" where
  "add_entry grp entry rows = (case (grp, entry) of ((namespace, path, enum_name), (symbol, value)) \<Rightarrow>
     if endswith symbol ''_MAX'' then rows
     else let row = dict_get (namespace, value) (new_row namespace value) rows in
       dict_set (namespace, value) (add_alias \<lparr>ca_symbol = symbol, ca_source = path, ca_enum = enum_name\<rparr> row) rows)"

definition add_group :: "(string \<Rightarrow> string res) \<Rightarrow> cov_group \<Rightarrow> cov_rows \<Rightarrow> cov_rows res" where
  "add_group read_text grp rows = (case grp of (namespace, path, enum_name) \<Rightarrow>
     rbind (read_text path) (\<lambda>text. rbind (enum_entries text enum_name path) (\<lambda>entries. Inr (fold (add_entry grp) entries rows))))"

definition sort_aliases :: "cov_row \<Rightarrow> cov_row" where
  "sort_aliases row = row\<lparr>cr_aliases := sort_key (\<lambda>a. (ca_symbol a, ca_source a)) (cr_aliases row)\<rparr>"

subsection \<open>Fingerprints\<close>

text \<open>\<^verbatim>\<open>json.dumps\<close> of a string, and \<^verbatim>\<open>hex\<close>.\<close>

definition py_hex :: "int \<Rightarrow> string" where
  "py_hex i = (if i < 0 then ''-0x'' @ show_hex (nat (- i)) else ''0x'' @ show_hex (nat i))"

definition json_char :: "char \<Rightarrow> string" where
  "json_char c = (let n = (of_char c :: nat) in
     if c = CHR 0x22 \<or> c = CHR 0x5C then [CHR 0x5C, c]
     else if 32 \<le> n \<and> n \<le> 126 then [c]
     else if n = 10 then [CHR 0x5C, CHR ''n''] else if n = 13 then [CHR 0x5C, CHR ''r''] else if n = 9 then [CHR 0x5C, CHR ''t'']
     else if n = 12 then [CHR 0x5C, CHR ''f''] else if n = 8 then [CHR 0x5C, CHR ''b'']
     else [CHR 0x5C] @ ''u00'' @ [hex_digit (n div 16), hex_digit (n mod 16)])"

definition json_string :: "string \<Rightarrow> string" where
  "json_string s = [CHR 0x22] @ concat (map json_char s) @ [CHR 0x22]"

text \<open>The declarations of a namespace as compact JSON with sorted keys.\<close>

definition alias_json :: "cov_alias \<Rightarrow> string" where
  "alias_json a = ''{'' @ json_string ''enum'' @ '':'' @ json_string (ca_enum a) @ '','' @ json_string ''source'' @ '':'' @ json_string (ca_source a) @
     '','' @ json_string ''symbol'' @ '':'' @ json_string (ca_symbol a) @ ''}''"

definition row_json :: "cov_row \<Rightarrow> string" where
  "row_json row = ''['' @ json_string (py_hex (cr_opcode row)) @ '',['' @ join '','' (map alias_json (cr_aliases row)) @ '']]''"

definition declarations_json :: "string \<Rightarrow> cov_row list \<Rightarrow> string" where
  "declarations_json namespace rows = ''['' @ join '','' (map row_json (filter (\<lambda>r. cr_namespace r = namespace)
     (sort_key (\<lambda>r. (cr_namespace r, cr_opcode r)) rows))) @ '']''"

definition declaration_fingerprints :: "(string \<Rightarrow> string) \<Rightarrow> cov_row list \<Rightarrow> sdict" where
  "declaration_fingerprints sha256 rows = map (\<lambda>namespace. (namespace, sha256 (declarations_json namespace rows)))
     (sorted_list_of_set (set (map cr_namespace rows)))"

subsection \<open>Entries and the exit code\<close>

definition review :: "sdict \<Rightarrow> cov_row \<Rightarrow> cov_row" where
  "review fingerprints row = (if map_of fingerprints (cr_namespace row) \<noteq> map_of REVIEWED_DECLARATIONS (cr_namespace row)
     then row\<lparr>cr_classification := ''unreviewed'', cr_basis := ''source-inventory-drift''\<rparr> else row)"

definition cov_entries :: "(string \<Rightarrow> string) \<Rightarrow> (string \<Rightarrow> string res) \<Rightarrow> cov_group list \<Rightarrow> cov_row list res" where
  "cov_entries sha256 read_text groups =
     rbind (rfold (add_group read_text) groups []) (\<lambda>rows.
     let sorted_rows = map (\<lambda>(key, row). (key, sort_aliases row)) rows;
         fingerprints = declaration_fingerprints sha256 (map snd sorted_rows) in
     Inr (map (\<lambda>key. review fingerprints (the (map_of sorted_rows key))) (sort (map fst sorted_rows))))"

text \<open>One line of the summary: the namespace, its opcodes, its declarations and the counted classifications.\<close>

definition count_class :: "string \<Rightarrow> opcodes \<Rightarrow> opcodes" where
  "count_class c counts = dict_set c (dict_get c 0 counts + 1) counts"

definition cov_summary :: "cov_row list \<Rightarrow> (string \<times> nat \<times> nat \<times> opcodes) list" where
  "cov_summary rows = map (\<lambda>namespace. let subset = filter (\<lambda>r. cr_namespace r = namespace) rows in
       (namespace, length subset, sum_list (map (\<lambda>r. length (cr_aliases r)) subset),
        sort_key fst (fold (\<lambda>r. count_class (cr_classification r)) subset [])))
     (sorted_list_of_set (set (map cr_namespace rows)))"

text \<open>Equality of dictionaries, whatever their order.\<close>

definition dict_eq :: "sdict \<Rightarrow> sdict \<Rightarrow> bool" where
  "dict_eq a b \<longleftrightarrow> list_all (\<lambda>k. map_of a k = map_of b k) (map fst a @ map fst b)"

definition cov_main :: "(string \<Rightarrow> string) \<Rightarrow> (string \<Rightarrow> string res) \<Rightarrow> bool \<Rightarrow> int res" where
  "cov_main sha256 read_text check =
     rbind (cov_entries sha256 read_text GROUPS) (\<lambda>rows.
     Inr (if check \<and> \<not> dict_eq (declaration_fingerprints sha256 rows) REVIEWED_DECLARATIONS then 1 else 0))"

end
