(* ===== verification/Py_Expr_Facts.thy ===== *)
theory Py_Expr_Facts
  imports Py_Expr
begin

section \<open>Printed expressions are read back\<close>

text \<open>
  The parser of integer expressions inverts the printer that sets parentheses only where they are needed,
  and its fuel is enough for every text.
\<close>

subsection \<open>The fuel of the parser is enough\<close>

text \<open>
  A result of the parser does not depend on the fuel: five units for every token that is consumed are
  enough, and an expression consumes at least one token.
\<close>

lemma p_expr_fuel:
  "p_expr n k ts = Some (e, r) \<Longrightarrow> k \<le> 3 \<Longrightarrow>
     length r < length ts \<and> (\<forall>m \<ge> 5 * (length ts - length r) - k. p_expr m k ts = Some (e, r))"
  "p_more n k l ts = Some (e, r) \<Longrightarrow> k < 3 \<Longrightarrow>
     length r \<le> length ts \<and> (\<forall>m \<ge> 5 * (length ts - length r) + 1. p_more m k l ts = Some (e, r))"
proof (induction n k ts and n k l ts arbitrary: e r and e r rule: p_expr_p_more.induct)
  case (2 n k ts)
  show ?case
  proof (cases "k < 3")
    case True
    with "2.prems" obtain l ts' where l: "p_expr n (Suc k) ts = Some (l, ts')" "p_more n k l ts' = Some (e, r)"
      by (auto simp: bind_eq_Some_conv)
    note a = "2.IH"(1) [OF True l(1)] and b = "2.IH"(2) [OF True l(1) refl l(2) True]
    show ?thesis
    proof (intro conjI allI impI)
      show "length r < length ts" using a b True by simp
      fix m
      assume m: "5 * (length ts - length r) - k \<le> m"
      then obtain m' where m': "m = Suc m'" using a b True by (cases m) auto
      have "p_expr m' (Suc k) ts = Some (l, ts')" "p_more m' k l ts' = Some (e, r)"
        using a b True m m' by auto
      with True show "p_expr m k ts = Some (e, r)" by (simp add: m')
    qed
  next
    case False
    with "2.prems"(2) have k: "k = 3" by simp
    have unary: "length r < length (t # u) \<and> (\<forall>m \<ge> 5 * (length (t # u) - length r) - 3. p_expr m 3 (t # u) = Some (e, r))"
      if "t = TPlus \<and> f = EUAdd \<or> t = TMinus \<and> f = EUSub" "e = f e'"
        "length r < length u \<and> (\<forall>m \<ge> 5 * (length u - length r) - 3. p_expr m 3 u = Some (e', r))" for t u f e'
    proof (intro conjI allI impI)
      fix m
      assume "5 * (length (t # u) - length r) - 3 \<le> m"
      with that(3) obtain m' where "m = Suc m'" "5 * (length u - length r) - 3 \<le> m'" by (cases m) auto
      with that show "p_expr m 3 (t # u) = Some (e, r)" by auto
    qed (use that(3) in auto)
    have atom: "\<forall>m \<ge> 5 * (length (t # r) - length r) - 3. p_expr m 3 (t # r) = Some (e, r)"
      if "t = TInt i \<and> e = EConst i \<or> t = TName x \<and> e = EName x" for t i x
    proof (intro allI impI)
      fix m
      assume "5 * (length (t # r) - length r) - 3 \<le> m"
      then obtain m' where "m = Suc m'" by (cases m) auto
      with that show "p_expr m 3 (t # r) = Some (e, r)" by auto
    qed
    from "2.prems"(1) k consider
      i where "ts = TInt i # r" "e = EConst i" | x where "ts = TName x # r" "e = EName x"
    | u e' where "ts = TPlus # u" "p_expr n 3 u = Some (e', r)" "e = EUAdd e'"
    | u e' where "ts = TMinus # u" "p_expr n 3 u = Some (e', r)" "e = EUSub e'"
    | u where "ts = TOpen # u" "p_expr n 0 u = Some (e, TClose # r)"
      by (auto split: list.splits py_tok.splits option.splits)
    then show ?thesis
    proof cases
      case (1 i)
      with atom [of "TInt i" i] k show ?thesis by simp
    next
      case (2 x)
      with atom [of "TName x" _ x] k show ?thesis by simp
    next
      case (3 u e')
      with unary [of TPlus EUAdd e' u] "2.IH"(3) [OF False 3(1) refl 3(2)] k show ?thesis by simp
    next
      case (4 u e')
      with unary [of TMinus EUSub e' u] "2.IH"(4) [OF False 4(1) refl 4(2)] k show ?thesis by simp
    next
      case (5 u)
      note a = "2.IH"(5) [OF False 5(1) refl 5(2)]
      show ?thesis unfolding 5(1) k
      proof (intro conjI allI impI)
        fix m
        assume "5 * (length (TOpen # u) - length r) - 3 \<le> m"
        with a obtain m' where "m = Suc m'" "5 * (length u - length (TClose # r)) \<le> m'" by (cases m) auto
        with a show "p_expr m 3 (TOpen # u) = Some (e, r)" by simp
      qed (use a in simp)
    qed
  qed
next
  case (4 n k l ts)
  show ?case
  proof (cases "\<exists>t u op. ts = t # u \<and> op_at k t = Some op")
    case True
    then obtain t u op where ts: "ts = t # u" "op_at k t = Some op" by blast
    with "4.prems" obtain x u' where x: "p_expr n (Suc k) u = Some (x, u')" "p_more n k (EBinOp l op x) u' = Some (e, r)"
      by (auto simp: bind_eq_Some_conv)
    note a = "4.IH"(1) [OF ts x(1)] and b = "4.IH"(2) [OF ts x(1) refl x(2) "4.prems"(2)]
    show ?thesis unfolding ts(1)
    proof (intro conjI allI impI)
      show "length r \<le> length (t # u)" using a b "4.prems"(2) by simp
      fix m
      assume m: "5 * (length (t # u) - length r) + 1 \<le> m"
      then obtain m' where m': "m = Suc m'" by (cases m) auto
      have "p_expr m' (Suc k) u = Some (x, u')" "p_more m' k (EBinOp l op x) u' = Some (e, r)"
        using a b "4.prems"(2) m m' by auto
      with ts show "p_more m k l (t # u) = Some (e, r)" by (simp add: m')
    qed
  next
    case False
    with "4.prems"(1) have "e = l" "r = ts" by (auto split: list.splits option.splits)
    moreover have "p_more m k l ts = Some (l, ts)" if "1 \<le> m" for m
      using that False by (cases m) (auto split: list.splits option.splits)
    ultimately show ?thesis by simp
  qed
qed simp_all

subsection \<open>Trees as tokens\<close>

fun op_tok :: "py_op \<Rightarrow> py_tok" where
  "op_tok Op_BitOr = TBar"
| "op_tok Op_LShift = TShift"
| "op_tok Op_Add = TPlus"
| "op_tok Op_Sub = TMinus"

text \<open>The tokens of a tree at a level, with parentheses only where they are needed.\<close>

fun expr_toks :: "nat \<Rightarrow> py_expr \<Rightarrow> py_tok list" where
  "expr_toks k (EConst i) = [TInt i]"
| "expr_toks k (EName x) = [TName x]"
| "expr_toks k (EUAdd e) = TPlus # expr_toks 3 e"
| "expr_toks k (EUSub e) = TMinus # expr_toks 3 e"
| "expr_toks k (EBinOp l op r) =
     (let body = expr_toks (op_level op) l @ op_tok op # expr_toks (Suc (op_level op)) r in
      if op_level op < k then TOpen # body @ [TClose] else body)"

lemma op_level_less: "op_level op < 3"
  by (cases op) simp_all

lemma tok_op_op_tok [simp]: "tok_op (op_tok op) = Some op"
  by (cases op) simp_all

definition parses :: "nat \<Rightarrow> py_tok list \<Rightarrow> py_expr \<Rightarrow> py_tok list \<Rightarrow> bool" where
  "parses k ts e r \<longleftrightarrow> (\<exists>n. p_expr n k ts = Some (e, r))"

definition continues :: "nat \<Rightarrow> py_expr \<Rightarrow> py_tok list \<Rightarrow> py_expr \<Rightarrow> py_tok list \<Rightarrow> bool" where
  "continues k l ts e r \<longleftrightarrow> (\<exists>n. p_more n k l ts = Some (e, r))"

text \<open>No operator of the level or a higher one follows.\<close>

definition stops :: "nat \<Rightarrow> py_tok list \<Rightarrow> bool" where
  "stops k ts \<longleftrightarrow> ts = [] \<or> (\<forall>op. tok_op (hd ts) = Some op \<longrightarrow> op_level op < k)"

lemma stops_mono: "stops k ts \<Longrightarrow> k \<le> j \<Longrightarrow> stops j ts"
  by (auto simp: stops_def)

lemma parses_up:
  assumes "k < 3" "parses (Suc k) ts l ts'" "continues k l ts' e r"
  shows "parses k ts e r"
proof -
  obtain n m where "p_expr n (Suc k) ts = Some (l, ts')" "p_more m k l ts' = Some (e, r)"
    using assms(2,3) by (auto simp: parses_def continues_def)
  with p_expr_fuel(1) [of n "Suc k" ts l ts'] p_expr_fuel(2) [of m k l ts' e r] assms(1)
  have "p_expr N (Suc k) ts = Some (l, ts') \<and> p_more N k l ts' = Some (e, r)" if "5 * length ts + 5 * length ts' + 1 \<le> N" for N
    using that by auto
  then obtain N where "p_expr N (Suc k) ts = Some (l, ts')" "p_more N k l ts' = Some (e, r)" by blast
  then have "p_expr (Suc N) k ts = Some (e, r)" using assms(1) by simp
  then show ?thesis unfolding parses_def by blast
qed

lemma continues_stop: "stops k ts \<Longrightarrow> continues k l ts l ts"
  unfolding continues_def by (rule exI [of _ 1]) (auto simp: stops_def op_at_def split: list.splits option.splits)

lemma continues_step:
  assumes "k < 3" "tok_op t = Some op" "op_level op = k" "parses (Suc k) u x u'" "continues k (EBinOp l op x) u' e r"
  shows "continues k l (t # u) e r"
proof -
  obtain n m where "p_expr n (Suc k) u = Some (x, u')" "p_more m k (EBinOp l op x) u' = Some (e, r)"
    using assms(4,5) by (auto simp: parses_def continues_def)
  with p_expr_fuel(1) [of n "Suc k" u x u'] p_expr_fuel(2) [of m k "EBinOp l op x" u' e r] assms(1)
  have "p_expr N (Suc k) u = Some (x, u') \<and> p_more N k (EBinOp l op x) u' = Some (e, r)" if "5 * length u + 5 * length u' + 1 \<le> N" for N
    using that by auto
  then obtain N where "p_expr N (Suc k) u = Some (x, u')" "p_more N k (EBinOp l op x) u' = Some (e, r)" by blast
  then have "p_more (Suc N) k l (t # u) = Some (e, r)" using assms(2,3) by (simp add: op_at_def)
  then show ?thesis unfolding continues_def by blast
qed

lemma parses_lower: "k \<le> j \<Longrightarrow> parses j ts e r \<Longrightarrow> j \<le> 3 \<Longrightarrow> stops k r \<Longrightarrow> parses k ts e r"
proof (induction rule: inc_induct)
  case (step n)
  then have "parses (Suc n) ts e r" using stops_mono [of n r "Suc n"] by simp
  with step show ?case by (intro parses_up [of n ts e r]) (auto intro: continues_stop)
qed

lemma parses_atom: "parses 3 (TInt i # r) (EConst i) r" "parses 3 (TName x # r) (EName x) r"
  unfolding parses_def by (rule exI [of _ 1], simp)+

lemma parses_unary:
  "parses 3 ts e r \<Longrightarrow> parses 3 (TPlus # ts) (EUAdd e) r" "parses 3 ts e r \<Longrightarrow> parses 3 (TMinus # ts) (EUSub e) r"
  "parses 0 ts e (TClose # r) \<Longrightarrow> parses 3 (TOpen # ts) e r"
  unfolding parses_def by (elim exE, rule_tac x = "Suc n" in exI, simp)+

lemma parses_tight:
  "parses 3 ts e r \<Longrightarrow> k < 3 \<Longrightarrow> stops (Suc k) r \<Longrightarrow> continues k e r x z \<Longrightarrow> parses k ts x z"
  using parses_up [of k ts e r x z] parses_lower [of "Suc k" 3 ts e r] by simp

text \<open>
  What follows a printed tree continues it: the parser of a level reads the tree and goes on with the
  operators of that level.
\<close>

lemma parses_printed:
  "parses 3 (expr_toks 3 e @ r) e r \<and>
   (\<forall>k < 3. \<forall>x z. stops (Suc k) r \<longrightarrow> continues k e r x z \<longrightarrow> parses k (expr_toks k e @ r) x z)"
proof (induction e arbitrary: r)
  case (EBinOp l op b)
  let ?e = "EBinOp l op b" and ?v = "op_level op"
  let ?body = "expr_toks ?v l @ op_tok op # expr_toks (Suc ?v) b"
  have v: "?v < 3" by (rule op_level_less)
  have right: "parses (Suc ?v) (expr_toks (Suc ?v) b @ s) b s" if "stops (Suc ?v) s" for s
  proof (cases "Suc ?v = 3")
    case True
    then show ?thesis using EBinOp.IH(2) by simp
  next
    case False
    with v that EBinOp.IH(2) [of s] continues_stop [of "Suc ?v" s b] stops_mono [of "Suc ?v" s "Suc (Suc ?v)"] show ?thesis by simp
  qed
  have own: "parses ?v (?body @ s) x z" if "stops (Suc ?v) s" "continues ?v ?e s x z" for s x z
  proof -
    have "continues ?v l (op_tok op # expr_toks (Suc ?v) b @ s) x z"
      using continues_step [OF v tok_op_op_tok refl right [OF that(1)] that(2)] .
    moreover have "stops (Suc ?v) (op_tok op # expr_toks (Suc ?v) b @ s)" by (simp add: stops_def)
    ultimately show ?thesis using EBinOp.IH(1) v by simp
  qed
  have alone: "parses ?v (?body @ s) ?e s" if "stops ?v s" for s
    using own [of s ?e s] continues_stop [OF that] stops_mono [OF that, of "Suc ?v"] by simp
  have "parses 0 (?body @ TClose # r) ?e (TClose # r)"
    using parses_lower [of 0 ?v] alone [of "TClose # r"] v by (simp add: stops_def)
  then have paren: "parses 3 (TOpen # ?body @ TClose # r) ?e r" by (rule parses_unary(3))
  have "parses k (expr_toks k ?e @ r) x z" if k: "k < 3" "stops (Suc k) r" "continues k ?e r x z" for k x z
  proof (cases k ?v rule: linorder_cases)
    case less
    then have "parses (Suc k) (?body @ r) ?e r"
      using parses_lower [of "Suc k" ?v "?body @ r" ?e r] alone [of r] stops_mono [OF k(2), of ?v] v k(2) by simp
    with parses_up [OF k(1) _ k(3)] less show ?thesis by (simp add: Let_def)
  next
    case equal
    with own [of r x z] k show ?thesis by (simp add: Let_def)
  next
    case greater
    with parses_tight [OF paren k] show ?thesis by (simp add: Let_def)
  qed
  with paren v show ?case by (simp add: Let_def)
next
  case (EUAdd e)
  then have "parses 3 (TPlus # expr_toks 3 e @ r) (EUAdd e) r" by (blast intro: parses_unary(1))
  with parses_tight [OF this] show ?case by simp
next
  case (EUSub e)
  then have "parses 3 (TMinus # expr_toks 3 e @ r) (EUSub e) r" by (blast intro: parses_unary(2))
  with parses_tight [OF this] show ?case by simp
next
  case (EConst i)
  with parses_tight [OF parses_atom(1) [of i r]] show ?case by (simp add: parses_atom)
next
  case (EName x)
  with parses_tight [OF parses_atom(2) [of x r]] show ?case by (simp add: parses_atom)
qed

lemma p_expr_printed: "p_expr (5 * length (expr_toks 0 e) + 5) 0 (expr_toks 0 e) = Some (e, [])"
proof -
  have "parses 0 (expr_toks 0 e @ []) e []"
    using parses_printed [of e "[]"] continues_stop [of 0 "[]" e] by (simp add: stops_def)
  then obtain n where "p_expr n 0 (expr_toks 0 e) = Some (e, [])" by (auto simp: parses_def)
  from p_expr_fuel(1) [OF this] show ?thesis by simp
qed

subsection \<open>Tokens as text\<close>

fun tok_text :: "py_tok \<Rightarrow> string" where
  "tok_text (TInt i) = str_int i"
| "tok_text (TName x) = x"
| "tok_text TPlus = ''+''"
| "tok_text TMinus = ''-''"
| "tok_text TBar = ''|''"
| "tok_text TShift = ''<<''"
| "tok_text TOpen = ''(''"
| "tok_text TClose = '')''"

definition toks_text :: "py_tok list \<Rightarrow> string" where
  "toks_text ts = concat (map (\<lambda>t. CHR 0x20 # tok_text t) ts)"

text \<open>C identifiers.\<close>

definition c_ident :: "string \<Rightarrow> bool" where
  "c_ident x \<longleftrightarrow> x \<noteq> [] \<and> is_letter (hd x) \<and> list_all (\<lambda>c. is_letter c \<or> is_digit c) x"

fun tok_ok :: "py_tok \<Rightarrow> bool" where
  "tok_ok (TInt i) \<longleftrightarrow> 0 \<le> i"
| "tok_ok (TName x) \<longleftrightarrow> c_ident x \<and> x \<notin> set py_keywords"
| "tok_ok _ \<longleftrightarrow> True"

fun close_depth :: "nat \<Rightarrow> py_tok list \<Rightarrow> bool" where
  "close_depth d [] \<longleftrightarrow> True"
| "close_depth d (t # ts) \<longleftrightarrow>
     (if t = TOpen then close_depth (Suc d) ts else if t = TClose then d > 0 \<and> close_depth (d - 1) ts else close_depth d ts)"

lemma base_digits_decimal: "\<forall>c \<in> set s. is_digit c \<Longrightarrow> base_digits 10 a s = int_digits a s"
proof (induction s arbitrary: a)
  case (Cons c s)
  then have "is_digit c" "hex_val c < 10" "c \<noteq> CHR ''_''"
    by (auto simp: hex_val_def is_digit_def digit_val_def)
  with Cons show ?case by (simp add: is_hex_def hex_val_def mult.commute)
qed simp

lemma show_nat_hd_zero: "hd (show_nat n) = CHR ''0'' \<Longrightarrow> n = 0"
proof (induction n rule: show_nat.induct)
  case (1 n)
  have "digit_char d = CHR ''0'' \<Longrightarrow> d < 10 \<Longrightarrow> d = 0" for d
    using digit_val_digit_char [of d] by (simp add: digit_val_def)
  with 1 show ?case by (cases "n < 10") (auto simp: show_nat.simps [of n])
qed

lemma py_literal_show_nat: "py_literal (show_nat n) = Some (int n)"
proof (cases "n = 0")
  case True
  have "show_nat 0 = ''0''" by code_simp
  with True have "show_nat n = ''0''" by simp
  then show ?thesis by (simp add: py_literal_def is_hex_def is_digit_def hex_val_def digit_val_def True)
next
  case False
  then have "hd (show_nat n) \<noteq> CHR ''0''" using show_nat_hd_zero by blast
  then show ?thesis
    using base_digits_decimal [OF show_nat_digits] int_digits_show_nat [of n] by (simp add: py_literal_def)
qed

lemma digit_facts:
  assumes "is_digit c"
  shows "name_char c" "number_char c" "c \<notin> {CHR 0x20, CHR 0x09, CHR 0x0C}" "c \<noteq> CHR ''#''" "c \<noteq> CHR 0x5C" "c \<noteq> CHR 0x0A"
    "c \<noteq> CHR ''(''" "c \<noteq> CHR '')''" "c \<noteq> CHR ''<''" "one_token c = None"
  using assms by (auto simp: name_char_def number_char_def is_digit_def one_token_def)

lemma letter_facts:
  assumes "is_letter c"
  shows "name_start c" "name_char c" "\<not> is_digit c" "c \<notin> {CHR 0x20, CHR 0x09, CHR 0x0C}" "c \<noteq> CHR ''#''" "c \<noteq> CHR 0x5C" "c \<noteq> CHR 0x0A"
    "c \<noteq> CHR ''(''" "c \<noteq> CHR '')''" "c \<noteq> CHR ''<''" "one_token c = None" "c \<noteq> CHR 0xB5" "c \<noteq> CHR 0xAA" "c \<noteq> CHR 0xBA"
  using assms by (auto simp: name_start_def name_char_def is_letter_def is_digit_def one_token_def Let_def)

lemma takeWhile_run: "list_all P u \<Longrightarrow> s = [] \<or> \<not> P (hd s) \<Longrightarrow> takeWhile P (u @ s) = u \<and> dropWhile P (u @ s) = s"
  by (induction u) (auto simp: takeWhile_eq_Nil_iff dropWhile_hd_id)

lemma name_nfkc_ident: "c_ident x \<Longrightarrow> name_nfkc x = Some x"
proof -
  assume "c_ident x"
  then have "c \<noteq> CHR 0xB5 \<and> c \<noteq> CHR 0xAA \<and> c \<noteq> CHR 0xBA" if "c \<in> set x" for c
    using that letter_facts(12-14) [of c] by (auto simp: c_ident_def list_all_iff is_digit_def)
  then show ?thesis by (auto simp: name_nfkc_def intro: map_idI)
qed

lemma space_not_name: "\<not> name_char (CHR 0x20)" "\<not> number_char (CHR 0x20)"
  by (simp_all add: name_char_def number_char_def name_start_def is_digit_def)

lemma py_tokens_int:
  assumes "0 \<le> i" "s = [] \<or> hd s = CHR 0x20"
  shows "py_tokens d (str_int i @ s) = map_option (Cons (TInt i)) (py_tokens d s)"
proof -
  obtain c u where cu: "show_nat (nat i) = c # u" by (cases "show_nat (nat i)") auto
  have digits: "is_digit c" "list_all number_char u"
    using show_nat_digits [of "nat i"] digit_facts(2) by (auto simp: cu list_all_iff)
  have run: "takeWhile number_char (u @ s) = u" "dropWhile number_char (u @ s) = s"
    using takeWhile_run [OF digits(2), of s] assms(2) space_not_name by auto
  have "py_literal (c # u) = Some i" using py_literal_show_nat [of "nat i"] assms(1) by (simp add: cu)
  then show ?thesis
    using assms(1) digit_facts [OF digits(1)] digits(1) by (simp add: str_int_def cu run)
qed

lemma py_tokens_name:
  assumes "c_ident x" "x \<notin> set py_keywords" "s = [] \<or> hd s = CHR 0x20"
  shows "py_tokens d (x @ s) = map_option (Cons (TName x)) (py_tokens d s)"
proof -
  obtain c u where x: "x = c # u" using assms(1) by (cases x) (auto simp: c_ident_def)
  have letters: "is_letter c" "list_all name_char u"
    using assms(1) letter_facts(2) digit_facts(1) by (auto simp: x c_ident_def list_all_iff)
  have run: "takeWhile name_char (u @ s) = u" "dropWhile name_char (u @ s) = s"
    using takeWhile_run [OF letters(2), of s] assms(3) space_not_name by auto
  have "word_token (c # u) = Some (TName x)"
    using assms(2) name_nfkc_ident [OF assms(1)] by (simp add: word_token_def x)
  then show ?thesis
    using letter_facts [OF letters(1)] by (simp add: x run)
qed

lemma py_tokens_text: "list_all tok_ok ts \<Longrightarrow> close_depth d ts \<Longrightarrow> py_tokens d (toks_text ts) = Some ts"
proof (induction ts arbitrary: d)
  case (Cons t ts)
  have s: "toks_text ts = [] \<or> hd (toks_text ts) = CHR 0x20" by (cases ts) (auto simp: toks_text_def)
  have "py_tokens d (toks_text (t # ts)) = py_tokens d (tok_text t @ toks_text ts)"
    by (simp add: toks_text_def)
  also have "\<dots> = Some (t # ts)"
    using Cons by (cases t) (auto simp: py_tokens_int [OF _ s] py_tokens_name [OF _ _ s] one_token_def)
  finally show ?case .
qed (simp add: toks_text_def)

subsection \<open>Round trip\<close>

fun expr_ok :: "py_expr \<Rightarrow> bool" where
  "expr_ok (EConst i) \<longleftrightarrow> 0 \<le> i"
| "expr_ok (EName x) \<longleftrightarrow> c_ident x \<and> x \<notin> set py_keywords"
| "expr_ok (EUAdd e) \<longleftrightarrow> expr_ok e"
| "expr_ok (EUSub e) \<longleftrightarrow> expr_ok e"
| "expr_ok (EBinOp l op r) \<longleftrightarrow> expr_ok l \<and> expr_ok r"

definition expr_text :: "py_expr \<Rightarrow> string" where
  "expr_text e = tl (toks_text (expr_toks 0 e))"

lemma tok_ok_op [simp]: "tok_ok (op_tok op)"
  by (cases op) simp_all

lemma op_tok_plain [simp]: "op_tok op \<noteq> TOpen" "op_tok op \<noteq> TClose"
  by (cases op; simp)+

lemma expr_toks_ok: "expr_ok e \<Longrightarrow> list_all tok_ok (expr_toks k e)"
  by (induction e arbitrary: k) (auto simp: Let_def)

lemma expr_toks_depth: "close_depth d (expr_toks k e @ ts) = close_depth d ts"
  by (induction e arbitrary: d k ts) (simp_all add: Let_def)

lemma expr_toks_not_Nil [simp]: "expr_toks k e \<noteq> []"
  by (cases e) (simp_all add: Let_def)

lemma py_parse_expr_text: "expr_ok e \<Longrightarrow> py_parse (expr_text e) = Some e"
proof -
  assume ok: "expr_ok e"
  have "py_tokens 0 (expr_text e) = py_tokens 0 (toks_text (expr_toks 0 e))"
    by (cases "expr_toks 0 e") (simp_all add: expr_text_def toks_text_def)
  also have "\<dots> = Some (expr_toks 0 e)"
    using py_tokens_text [OF expr_toks_ok [OF ok], of 0 0] expr_toks_depth [of 0 0 e "[]"] by simp
  finally show ?thesis by (simp add: py_parse_def p_expr_printed)
qed

end
