(* ===== verification/Enum_Facts.thy ===== *)
theory Enum_Facts
  imports Command_Coverage Py_Expr_Facts Regex_Runs
begin

section \<open>Printed enumerations are read back\<close>

text \<open>
  The text of a list of declarations, and what \<^verbatim>\<open>enum_entries\<close> gives on it: the comment pattern and the
  pattern for literal suffixes change nothing, the enumeration is found once, and every item is read as its
  declaration.
\<close>

declare rx_run.simps(5) [simp del] rx_run.simps(11) [simp del]

subsection \<open>Declarations and their text\<close>

type_synonym enum_decl = "string \<times> py_expr option"

text \<open>The values C gives to the enumerators, as far as they are opcodes.\<close>

fun enum_values :: "opcodes \<Rightarrow> int \<Rightarrow> enum_decl list \<Rightarrow> opcodes option" where
  "enum_values known value [] = Some known"
| "enum_values known value ((x, e) # ds) = (if has_key x known then None
     else Option.bind (case e of None \<Rightarrow> Some (value + 1) | Some e' \<Rightarrow> visit known e') (\<lambda>v.
       if 0 \<le> v \<and> v \<le> 0xffff then enum_values (known @ [(x, v)]) v ds else None))"

definition decl_ok :: "enum_decl \<Rightarrow> bool" where
  "decl_ok d \<longleftrightarrow> c_ident (fst d) \<and> (case snd d of None \<Rightarrow> True | Some e \<Rightarrow> expr_ok e)"

definition decl_text :: "enum_decl \<Rightarrow> string" where
  "decl_text d = CHR 0x20 # fst d @ (case snd d of None \<Rightarrow> [] | Some e \<Rightarrow> '' = '' @ expr_text e)"

definition enum_text :: "string \<Rightarrow> enum_decl list \<Rightarrow> string" where
  "enum_text name ds = ''enum '' @ name @ '' {'' @ join '','' (map decl_text ds) @ ''};''"

text \<open>The characters of printed expressions.\<close>

definition expr_char :: "char \<Rightarrow> bool" where
  "expr_char c \<longleftrightarrow> is_letter c \<or> is_digit c \<or> c \<in> set '' +-|<()''"

lemma str_int_digits: "0 \<le> i \<Longrightarrow> list_all is_digit (str_int i)"
  using show_nat_digits by (simp add: str_int_def list_all_iff)

lemma toks_text_chars: "list_all tok_ok ts \<Longrightarrow> list_all expr_char (toks_text ts)"
proof (induction ts)
  case (Cons t ts)
  have "list_all expr_char (tok_text t)"
    using Cons.prems str_int_digits by (cases t) (auto simp: expr_char_def c_ident_def list_all_iff)
  moreover have "expr_char (CHR 0x20)" by (simp add: expr_char_def)
  ultimately show ?case using Cons by (simp add: toks_text_def)
qed (simp add: toks_text_def)

lemma expr_text_chars: "expr_ok e \<Longrightarrow> list_all expr_char (expr_text e)"
  using toks_text_chars [OF expr_toks_ok, of e 0] by (cases "toks_text (expr_toks 0 e)") (simp_all add: expr_text_def)

lemma tok_text_ends:
  assumes "tok_ok t"
  shows "tok_text t \<noteq> [] \<and> \<not> is_space (hd (tok_text t)) \<and> \<not> is_space (last (tok_text t))"
proof -
  have plain: "\<not> is_space c" if "is_letter c \<or> is_digit c" for c
    using that by (auto simp: is_letter_def is_digit_def is_space_def Let_def)
  show ?thesis
  proof (cases t)
    case (TInt i)
    with assms show ?thesis using show_nat_hd_last [of "nat i"] plain by (simp add: str_int_def)
  next
    case (TName x)
    with assms plain show ?thesis by (auto simp: c_ident_def list_all_iff)
  qed (simp_all add: is_space_def)
qed

lemma toks_text_ends:
  "list_all tok_ok ts \<Longrightarrow> ts \<noteq> [] \<Longrightarrow> tl (toks_text ts) \<noteq> [] \<and> \<not> is_space (hd (tl (toks_text ts))) \<and> \<not> is_space (last (toks_text ts))"
proof -
  assume ok: "list_all tok_ok ts" and ne: "ts \<noteq> []"
  obtain a u where ts: "ts = a # u" using ne by (cases ts) auto
  obtain v b where snoc: "ts = v @ [b]" using ne by (cases ts rule: rev_cases) auto
  have b: "tok_ok b" using ok by (simp add: snoc)
  then have "last (toks_text ts) = last (tok_text b)" using tok_text_ends [of b] by (simp add: snoc toks_text_def)
  with tok_text_ends [OF b] have "\<not> is_space (last (toks_text ts))" by simp
  moreover have "tl (toks_text ts) \<noteq> [] \<and> \<not> is_space (hd (tl (toks_text ts)))"
    using ok tok_text_ends [of a] by (simp add: ts toks_text_def)
  ultimately show ?thesis by simp
qed

lemma expr_text_strip: "expr_ok e \<Longrightarrow> strip (expr_text e) = expr_text e \<and> expr_text e \<noteq> [] \<and> \<not> is_space (last (expr_text e))"
proof -
  assume "expr_ok e"
  note ends = toks_text_ends [OF expr_toks_ok [OF this] expr_toks_not_Nil, of 0]
  have "last (expr_text e) = last (toks_text (expr_toks 0 e))"
    using ends by (cases "toks_text (expr_toks 0 e)") (auto simp: expr_text_def)
  with ends show ?thesis by (simp add: expr_text_def strip_id)
qed

subsection \<open>Patterns\<close>

lemma rx_lit_hd: "rx_run (rx_lit p) (before, p @ s, gs) = [(rev p @ before, s, gs)]"
proof (induction p arbitrary: before)
  case (Cons c p)
  then show ?case by (cases p) (simp_all add: rx_lit_def)
qed (simp add: rx_lit_def)

text \<open>A pattern that matches at no position leaves a text unchanged.\<close>

lemma rx_sub_id:
  assumes "\<And>u t. s = u @ t \<Longrightarrow> rx_run r (rev u, t, []) = []"
  shows "rx_sub r f s = s"
proof -
  have "rx_sub_fuel n r f before s = s" if "\<And>u t. s = u @ t \<Longrightarrow> rx_run r (rev u @ before, t, []) = []" "length s < n" for n before s
    using that
  proof (induction n arbitrary: before s)
    case (Suc n)
    from Suc.prems(1) [of "[]" s] have none: "rx_run r (before, s, []) = []" by simp
    show ?case
    proof (cases s)
      case (Cons c cs)
      have "rx_run r (rev u @ c # before, t, []) = []" if "cs = u @ t" for u t
        using Suc.prems(1) [of "c # u" t] that Cons by simp
      with Suc.IH [of cs "c # before"] Suc.prems(2) none Cons show ?thesis by simp
    qed (use none in simp)
  qed simp
  from this [of s "[]" "Suc (length s)"] assms show ?thesis by (simp add: rx_sub_def del: rx_sub_fuel.simps)
qed

lemma no_comment: "CHR ''/'' \<notin> set s \<Longrightarrow> rx_sub rx_comment f s = s"
proof (rule rx_sub_id)
  fix u t
  assume none: "CHR ''/'' \<notin> set s" and s: "s = u @ t"
  have "\<not> startswith t ''/*''" "\<not> startswith t ''//''" using none s by (cases t; auto simp: startswith_def)+
  then have "rx_run (rx_lit ''/*'') (rev u, t, []) = []" "rx_run (rx_lit ''//'') (rev u, t, []) = []"
    using rx_lit_run by blast+
  then show "rx_run rx_comment (rev u, t, []) = []"
    unfolding rx_comment_def rx_seq.simps rx_run.simps(3,4) by simp
qed

text \<open>The first match.\<close>

definition rx_first :: "rx \<Rightarrow> rx_pos \<Rightarrow> rx_pos \<Rightarrow> bool" where
  "rx_first r p q \<longleftrightarrow> (\<exists>qs. rx_run r p = q # qs)"

lemma first_seq: "rx_first r p q \<Longrightarrow> rx_first s q q' \<Longrightarrow> rx_first (Seq r s) p q'"
  unfolding rx_first_def using rx_seq_hd by blast

lemma first_lit: "rx_first (rx_lit p) (before, p @ s, gs) (rev p @ before, s, gs)"
  by (simp add: rx_first_def rx_lit_hd)

lemma first_plus:
  "list_all P u \<Longrightarrow> u \<noteq> [] \<Longrightarrow> t = [] \<or> \<not> P (hd t) \<Longrightarrow> rx_first (rx_plus (Cls P)) (before, u @ t, gs) (rev u @ before, t, gs)"
  unfolding rx_first_def by (rule plus_cls_hd)

lemma first_star:
  "list_all P u \<Longrightarrow> t = [] \<or> \<not> P (hd t) \<Longrightarrow> rx_first (Star (Cls P)) (before, u @ t, gs) (rev u @ before, t, gs)"
  unfolding rx_first_def by (rule star_cls_hd)

lemma first_grp: "rx_first r (before, u @ t, gs) (before', t, gs) \<Longrightarrow> rx_first (Grp r) (before, u @ t, gs) (before', t, gs @ [u])"
  unfolding rx_first_def using rx_grp_hd [of r before u t gs before' gs] by blast

lemma enum_found:
  assumes "c_ident name" "CHR ''}'' \<notin> set body" "body \<noteq> []"
  shows "rx_findall (rx_enum name) (''enum '' @ name @ '' {'' @ body @ ''};'') = [[body]]"
proof -
  have name: "name \<noteq> []" "\<not> is_space (hd name)"
    using assms(1) by (auto simp: c_ident_def is_letter_def is_space_def Let_def)
  have body: "list_all (\<lambda>c. c \<noteq> CHR ''}'') body" using assms(2) by (auto simp: list_all_iff)
  have 1: "rx_first Wordb ([], ''enum'' @ '' '' @ name @ '' '' @ ''{'' @ body @ ''}'' @ '';'', []) ([], ''enum'' @ '' '' @ name @ '' '' @ ''{'' @ body @ ''}'' @ '';'', [])"
    by (simp add: rx_first_def is_word_def)
  have 2: "rx_first rx_spaces1 (b, '' '' @ name @ t, []) (rev '' '' @ b, name @ t, [])" for b t
    unfolding rx_spaces1_def using name by (intro first_plus) (simp_all add: is_space_def)
  have 3: "rx_first rx_spaces (b, '' '' @ ''{'' @ t, []) (rev '' '' @ b, ''{'' @ t, [])" for b t
    unfolding rx_spaces_def by (intro first_star) (simp_all add: is_space_def)
  have 4: "rx_first (Grp (rx_plus (Cls (\<lambda>c. c \<noteq> CHR ''}'')))) (b, body @ ''}'' @ t, []) (rev body @ b, ''}'' @ t, [] @ [body])" for b t
    using body assms(3) by (intro first_grp first_plus) simp_all
  obtain b qs where run: "rx_run (rx_enum name) ([], ''enum'' @ '' '' @ name @ '' '' @ ''{'' @ body @ ''}'' @ '';'', []) = (CHR ''}'' # b, '';'', [body]) # qs"
    using first_seq [OF 1 first_seq [OF first_lit first_seq [OF 2 first_seq [OF first_lit first_seq [OF 3
      first_seq [OF first_lit first_seq [OF 4 first_lit]]]]]]] name(1)
    by (auto simp: rx_first_def rx_enum_def rx_enum_body_def)
  have stop: "rx_run (rx_enum name) (CHR ''}'' # b, '';'', []) = []" "rx_run (rx_enum name) (CHR '';'' # CHR ''}'' # b, [], []) = []" for b
    using name(1) by (simp_all add: rx_enum_def is_word_def)
  have "rx_findall_at (rx_enum name) [] (''enum'' @ '' '' @ name @ '' '' @ ''{'' @ body @ ''}'' @ '';'') =
      [body] # rx_findall_at (rx_enum name) (CHR ''}'' # b) '';''"
    by (rule rx_findall_at_match [OF run]) simp
  also have "\<dots> = [[body]]"
    using rx_findall_at_skip [OF stop(1)] rx_findall_at_end [OF stop(2)] by simp
  finally show ?thesis by (simp add: rx_findall_def rx_findall_at_def)
qed

text \<open>No literal of a printed expression has a suffix.\<close>

fun plain_words :: "bool \<Rightarrow> string \<Rightarrow> bool" where
  "plain_words inside [] \<longleftrightarrow> True"
| "plain_words inside (c # cs) \<longleftrightarrow>
     (\<not> inside \<and> is_digit c \<longrightarrow> list_all is_digit (takeWhile is_word (c # cs))) \<and> plain_words (is_word c) cs"

lemma plain_words_drop: "plain_words b (u @ t) \<Longrightarrow> plain_words (if u = [] then b else is_word (last u)) t"
  by (induction u arbitrary: b) auto

lemma seq_none: "(\<And>q. q \<in> set (rx_run r p) \<Longrightarrow> rx_run s q = []) \<Longrightarrow> rx_run (Seq r s) p = []"
  by simp

lemma no_suffix_at:
  assumes "plain_words inside t" "inside = (before \<noteq> [] \<and> is_word (hd before))"
  shows "rx_run rx_suffixed (before, t, []) = []"
proof (cases "t \<noteq> [] \<and> is_digit (hd t)")
  case False
  then have "rx_run (Alt (rx_seq [rx_lit ''0'', Cls (\<lambda>c. c \<in> set ''xX''), rx_plus (Cls is_hex)]) rx_digits) (before, t, []) = []"
    by (cases t) (auto simp: rx_lit_def rx_digits_def rx_plus_def is_digit_def)
  then show ?thesis unfolding rx_suffixed_def rx_seq.simps rx_run.simps by simp
next
  case True
  then obtain c cs where t: "t = c # cs" "is_digit c" by (cases t) auto
  show ?thesis
  proof (cases inside)
    case True
    then show ?thesis using assms(2) t word_facts(2) by (simp add: rx_suffixed_def)
  next
    case False
    with assms(1) t have digits: "list_all is_digit (takeWhile is_word t)" by simp
    have ahead: "is_digit x" if "t = u @ x # v" "list_all is_digit u" "is_word x" for u x v
    proof -
      have "takeWhile is_word t = u @ takeWhile is_word (x # v)"
        using that(1,2) word_facts(2) by (auto simp: list_all_iff takeWhile_append2)
      with digits that(3) show ?thesis by simp
    qed
    have hex: "rx_run (rx_seq [rx_lit ''0'', Cls (\<lambda>c. c \<in> set ''xX''), rx_plus (Cls is_hex)]) (before, t, []) = []"
      using ahead [of "[c]"] t by (cases cs) (auto simp: rx_lit_def is_word_def is_digit_def)
    have "rx_run (rx_plus (Cls (\<lambda>c. c \<in> set ''uUlL''))) (b, rest, gs) = []"
      if "(b0, rest, gs0) \<in> set (rx_run rx_digits (before, t, []))" for b rest gs b0 gs0
    proof (cases rest)
      case (Cons x v)
      from plus_cls_set [OF that [unfolded rx_digits_def]] obtain u where "t = u @ x # v" "list_all is_digit u"
        using Cons by auto
      with ahead [of u x v] show ?thesis by (auto simp: Cons rx_plus_def is_word_def is_digit_def)
    qed (simp add: rx_plus_def)
    then have "rx_run (rx_plus (Cls (\<lambda>c. c \<in> set ''uUlL''))) q = []"
      if "q \<in> set (rx_run (Grp (Alt (rx_seq [rx_lit ''0'', Cls (\<lambda>c. c \<in> set ''xX''), rx_plus (Cls is_hex)]) rx_digits)) (before, t, []))" for q
      using that hex unfolding rx_run.simps(4,6) by (cases q) auto
    then have "rx_run (Seq (rx_plus (Cls (\<lambda>c. c \<in> set ''uUlL''))) Wordb) q = []"
      if "q \<in> set (rx_run (Grp (Alt (rx_seq [rx_lit ''0'', Cls (\<lambda>c. c \<in> set ''xX''), rx_plus (Cls is_hex)]) rx_digits)) (before, t, []))" for q
      using that by (intro seq_none) simp
    then have "rx_run (Seq (Grp (Alt (rx_seq [rx_lit ''0'', Cls (\<lambda>c. c \<in> set ''xX''), rx_plus (Cls is_hex)]) rx_digits))
        (Seq (rx_plus (Cls (\<lambda>c. c \<in> set ''uUlL''))) Wordb)) (before, t, []) = []"
      by (rule seq_none)
    moreover have "q = (before, t, [])" if "q \<in> set (rx_run Wordb (before, t, []))" for q
      using that by (auto split: if_splits)
    ultimately show ?thesis unfolding rx_suffixed_def rx_seq.simps by (metis (no_types, lifting) seq_none)
  qed
qed

lemma no_suffix: "plain_words False s \<Longrightarrow> rx_sub rx_suffixed f s = s"
proof (rule rx_sub_id)
  fix u t
  assume "plain_words False s" "s = u @ t"
  then have "plain_words (u \<noteq> [] \<and> is_word (last u)) t"
    using plain_words_drop [of False u t] by (cases "u = []") simp_all
  then show "rx_run rx_suffixed (rev u, t, []) = []"
    by (rule no_suffix_at) (auto simp: hd_rev)
qed

lemma plain_words_inside: "list_all is_word w \<Longrightarrow> plain_words True (w @ s) = plain_words True s"
  by (induction w) auto

lemma plain_words_word:
  assumes "list_all is_word w" "w \<noteq> []" "is_digit (hd w) \<longrightarrow> list_all is_digit w" "s = [] \<or> hd s = CHR 0x20" "plain_words False s"
  shows "plain_words False (w @ s)"
proof -
  obtain c u where w: "w = c # u" using assms(2) by (cases w) auto
  have "plain_words True s" using assms(4,5) by (cases s) (auto simp: is_digit_def)
  moreover have "takeWhile is_word (w @ s) = w"
    using takeWhile_run [OF assms(1), of s] assms(4) by (auto simp: is_word_def)
  ultimately show ?thesis using assms(1,3) plain_words_inside [of u s] by (auto simp: w)
qed

lemma letter_word: "is_letter c \<Longrightarrow> is_word c"
  by (auto simp: is_letter_def is_word_def Let_def)

lemma plain_words_toks: "list_all tok_ok ts \<Longrightarrow> plain_words False (toks_text ts)"
proof (induction ts)
  case (Cons t ts)
  let ?s = "toks_text ts"
  have s: "?s = [] \<or> hd ?s = CHR 0x20" by (cases ts) (auto simp: toks_text_def)
  have "plain_words False (tok_text t @ ?s)"
  proof (cases t)
    case (TInt i)
    with Cons s str_int_digits [of i] word_facts(2) show ?thesis
      by (auto intro!: plain_words_word simp: list_all_iff str_int_def)
  next
    case (TName x)
    with Cons.prems have x: "x \<noteq> []" "is_letter (hd x)" "list_all (\<lambda>c. is_letter c \<or> is_digit c) x" by (simp_all add: c_ident_def)
    from x(3) have "list_all is_word x" by (rule list.pred_mono_strong) (auto intro: letter_word word_facts(2))
    with x s Cons letter_facts(3) TName show ?thesis by (auto intro!: plain_words_word)
  qed (use Cons s in \<open>simp_all add: is_digit_def is_word_def\<close>)
  then show ?case by (simp add: toks_text_def is_digit_def is_word_def)
qed (simp add: toks_text_def)

lemma plain_words_expr: "expr_ok e \<Longrightarrow> plain_words False (expr_text e)"
  using plain_words_toks [OF expr_toks_ok, of e 0] by (cases "expr_toks 0 e") (simp_all add: expr_text_def toks_text_def is_word_def)

lemma evaluate_expr_text: "expr_ok e \<Longrightarrow> evaluate known (expr_text e) = visit known e"
  by (simp add: evaluate_def no_suffix plain_words_expr py_parse_expr_text)

subsection \<open>Items\<close>

lemma split_on_run: "c \<notin> set u \<Longrightarrow> split_on c (u @ c # s) = u # split_on c s" "c \<notin> set u \<Longrightarrow> split_on c u = [u]"
  by (induction u) auto

lemma split_on_join: "xs \<noteq> [] \<Longrightarrow> \<forall>x \<in> set xs. c \<notin> set x \<Longrightarrow> split_on c (join [c] xs) = xs"
  by (induction "[c]" xs rule: join.induct) (auto simp: split_on_run)

lemma ident_facts:
  assumes "c_ident x"
  shows "x \<noteq> []" "\<not> is_space (hd x)" "\<not> is_space (last x)" "c \<in> set x \<Longrightarrow> is_letter c \<or> is_digit c" "rx_fullmatch rx_symbol x \<noteq> None"
proof -
  have chars: "is_letter c \<or> is_digit c" if "c \<in> set x" for c using assms that by (auto simp: c_ident_def list_all_iff)
  have space: "\<not> is_space c" if "is_letter c \<or> is_digit c" for c
    using that by (auto simp: is_letter_def is_digit_def is_space_def Let_def)
  show ne: "x \<noteq> []" using assms by (simp add: c_ident_def)
  show "\<not> is_space (hd x)" "\<not> is_space (last x)" using ne space chars hd_in_set last_in_set by blast+
  show "is_letter c \<or> is_digit c" if "c \<in> set x" using chars that .
  obtain a u where x: "x = a # u" using ne by (cases x) auto
  have "is_letter a" using assms by (simp add: c_ident_def x)
  have "list_all is_word u" using chars letter_word word_facts(2) by (auto simp: x list_all_iff)
  from star_cls_hd [OF this, of "[]" "[a]" "[]"] obtain qs where "rx_run (Star (Cls is_word)) ([a], u, []) = (rev u @ [a], [], []) # qs" by auto
  with \<open>is_letter a\<close> show "rx_fullmatch rx_symbol x \<noteq> None"
    by (simp add: rx_fullmatch_def rx_start_def rx_symbol_def x)
qed

lemma other_chars:
  "is_letter c \<or> is_digit c \<Longrightarrow> c \<notin> set ''/},= ''" "expr_char c \<Longrightarrow> c \<notin> set ''/},=''"
  by (auto simp: is_letter_def is_digit_def expr_char_def Let_def)

text \<open>The item of a declaration.\<close>

lemma decl_parts:
  assumes "decl_ok d"
  shows "strip (decl_text d) = tl (decl_text d)" "strip (decl_text d) \<noteq> []"
    "strip (takeWhile (\<lambda>c. c \<noteq> CHR ''='') (tl (decl_text d))) = fst d" "CHR ''='' \<in> set (tl (decl_text d)) \<longleftrightarrow> snd d \<noteq> None"
    "snd d = Some e \<Longrightarrow> strip (drop 1 (dropWhile (\<lambda>c. c \<noteq> CHR ''='') (tl (decl_text d)))) = expr_text e"
    "c \<in> set ''/},'' \<Longrightarrow> c \<notin> set (decl_text d)"
proof -
  obtain x o' where d: "d = (x, o')" by (metis surj_pair)
  have x: "c_ident x" using assms by (simp add: decl_ok_def d)
  note ident = ident_facts [OF x]
  have eq: "list_all (\<lambda>c. c \<noteq> CHR ''='') x" using ident(4) other_chars(1) by (force simp: list_all_iff)
  have sp: "strip (CHR 0x20 # s) = strip s" for s by (simp add: strip_def lstrip_def is_space_def)
  have body: "tl (decl_text d) \<noteq> []" "\<not> is_space (hd (tl (decl_text d)))" "\<not> is_space (last (tl (decl_text d)))"
    using ident(1-3) expr_text_strip assms by (auto simp: decl_text_def d decl_ok_def split: option.splits)
  have dt: "decl_text d = CHR 0x20 # tl (decl_text d)" by (simp add: decl_text_def)
  have "strip (decl_text d) = strip (tl (decl_text d))" by (subst dt) (rule sp)
  with strip_id [OF body] show strip: "strip (decl_text d) = tl (decl_text d)" by simp
  with body(1) show "strip (decl_text d) \<noteq> []" by simp
  have x_sp: "strip (x @ '' '') = x" "strip x = x"
    using ident(1-3) by (simp_all add: strip_id) (simp add: strip_def lstrip_def is_space_def dropWhile_hd_id hd_rev)
  have run: "takeWhile (\<lambda>c. c \<noteq> CHR ''='') (x @ '' = '' @ s) = x @ '' ''" "dropWhile (\<lambda>c. c \<noteq> CHR ''='') (x @ '' = '' @ s) = ''= '' @ s" for s
    using eq by (simp_all add: takeWhile_append2 list_all_iff)
  have plain: "takeWhile (\<lambda>c. c \<noteq> CHR ''='') x = x" using eq by (simp add: list_all_iff)
  show "strip (takeWhile (\<lambda>c. c \<noteq> CHR ''='') (tl (decl_text d))) = fst d"
    by (cases o') (simp_all only: decl_text_def d fst_conv snd_conv option.case list.sel append_Nil2 plain run x_sp)
  show "CHR ''='' \<in> set (tl (decl_text d)) \<longleftrightarrow> snd d \<noteq> None"
    using eq by (cases o') (auto simp: decl_text_def d list_all_iff)
  show "strip (drop 1 (dropWhile (\<lambda>c. c \<noteq> CHR ''='') (tl (decl_text d)))) = expr_text e" if "snd d = Some e"
    using that run sp expr_text_strip [of e] assms by (simp add: decl_text_def d decl_ok_def)
  show "c \<notin> set (decl_text d)" if "c \<in> set ''/},''"
  proof -
    have "c \<notin> set x" using ident(4) [of c] other_chars(1) [of c] that by auto
    moreover have "c \<notin> set (expr_text e)" if "o' = Some e" for e
    proof -
      have "list_all expr_char (expr_text e)" using assms that by (intro expr_text_chars) (simp add: decl_ok_def d)
      with other_chars(2) [of c] \<open>c \<in> set ''/},''\<close> show ?thesis by (auto simp: list_all_iff)
    qed
    ultimately show ?thesis using that by (cases o') (auto simp: decl_text_def d)
  qed
qed

lemma enum_item_text:
  assumes "decl_ok d"
  shows "enum_item source (decl_text d) (known, prev) =
    (if has_key (fst d) known then Inl (ValueError (source @ '': invalid/duplicate enum symbol '' @ fst d))
     else case (case snd d of None \<Rightarrow> Some (prev + 1) | Some e \<Rightarrow> visit known e) of
       None \<Rightarrow> Inl (ValueError (source @ '': '' @ fst d @ '': unsupported enum expression''))
     | Some v \<Rightarrow> if 0 \<le> v \<and> v \<le> 0xffff then Inr (known @ [(fst d, v)], v)
         else Inl (ValueError (source @ '': opcode out of range: '' @ fst d @ ''='' @ str_int v)))"
proof -
  note parts = decl_parts [OF assms]
  obtain gs where symbol: "rx_fullmatch rx_symbol (fst d) = Some gs" using assms ident_facts(5) by (auto simp: decl_ok_def)
  show ?thesis
  proof (cases "snd d")
    case None
    then show ?thesis using parts symbol by (simp add: enum_item_def Let_def)
  next
    case (Some e)
    then have "evaluate known (strip (drop 1 (dropWhile (\<lambda>c. c \<noteq> CHR ''='') (tl (decl_text d))))) = visit known e"
      using parts(5) assms evaluate_expr_text by (simp add: decl_ok_def)
    with parts(1,3,4) symbol Some show ?thesis by (cases "visit known e") (simp_all add: enum_item_def Let_def)
  qed
qed

lemma enum_items_values:
  "list_all decl_ok ds \<Longrightarrow>
     (case enum_values known prev ds of
        Some vs \<Rightarrow> \<exists>v. rfold (enum_item source) (map decl_text ds) (known, prev) = Inr (vs, v)
      | None \<Rightarrow> \<exists>m. rfold (enum_item source) (map decl_text ds) (known, prev) = Inl (ValueError m))"
proof (induction ds arbitrary: known prev)
  case (Cons d ds)
  obtain x e where d: "d = (x, e)" by (metis surj_pair)
  show ?case
  proof (cases "has_key x known \<or> (case e of None \<Rightarrow> Some (prev + 1) | Some e' \<Rightarrow> visit known e') = None")
    case True
    then show ?thesis using Cons.prems by (auto simp: d enum_item_text)
  next
    case False
    then obtain v where v: "(case e of None \<Rightarrow> Some (prev + 1) | Some e' \<Rightarrow> visit known e') = Some v" by auto
    with False Cons.prems Cons.IH [of "known @ [(x, v)]" v] show ?thesis by (auto simp: d enum_item_text split: option.splits)
  qed
qed simp

subsection \<open>Enumerations\<close>


definition demo_enum :: "enum_decl list" where
  "demo_enum = [(''A'', Some (EConst 1)), (''B'', None), (''C'', Some (EBinOp (EBinOp (EName ''A'') Op_LShift (EConst 3)) Op_BitOr (EName ''B'')))]"

lemma demo_enum_ok: "c_ident ''sample''" "list_all decl_ok demo_enum" "demo_enum \<noteq> []"
  "enum_values [] (- 1) demo_enum = Some [(''A'', 1), (''B'', 2), (''C'', 10)]"
  by code_simp+


text \<open>
  A conditional body is not refused.  The tool means to reject conditional compilation inside an enumeration, but
  a directive that follows an expression is a comment to \<^verbatim>\<open>ast.parse\<close>: the declaration it guards is counted.
\<close>

theorem conditional_enum_accepted:
  "enum_entries (''enum x { A = 1'' @ [CHR 0x0A] @ ''#ifdef M'' @ [CHR 0x0A] @ '', B = 5'' @ [CHR 0x0A] @ ''#endif'' @ [CHR 0x0A] @ ''};'') ''x'' ''a.h'' =
     Inr [(''A'', 1), (''B'', 5)]"
  by code_simp

end
