(* ===== verification/Coverage_Facts.thy ===== *)
theory Coverage_Facts
  imports Enum_Facts
begin

section \<open>The inventory of commands\<close>

text \<open>
  What the inventory holds, that it does not depend on the order of the groups, and when the check of
  the declarations succeeds.
\<close>

subsection \<open>Declarations\<close>

definition group_entries :: "(string \<Rightarrow> string res) \<Rightarrow> cov_group \<Rightarrow> opcodes res" where
  "group_entries read_text grp = (case grp of (namespace, path, enum_name) \<Rightarrow>
     rbind (read_text path) (\<lambda>text. enum_entries text enum_name path))"

definition declared :: "(string \<Rightarrow> string res) \<Rightarrow> cov_group list \<Rightarrow> (cov_group \<times> string \<times> int) list" where
  "declared read_text groups = concat (map (\<lambda>grp. map (Pair grp) (case group_entries read_text grp of Inr es \<Rightarrow> es | Inl _ \<Rightarrow> [])) groups)"

text \<open>The declarations of an opcode; a bound of an enumeration is none.\<close>

definition aliases_of :: "(cov_group \<times> string \<times> int) list \<Rightarrow> string \<times> int \<Rightarrow> cov_alias set" where
  "aliases_of ds key = {\<lparr>ca_symbol = symbol, ca_source = path, ca_enum = enum_name\<rparr> | symbol path enum_name.
     ((fst key, path, enum_name), symbol, snd key) \<in> set ds \<and> \<not> endswith symbol ''_MAX''}"

definition row_for :: "string \<times> int \<Rightarrow> cov_row \<Rightarrow> bool" where
  "row_for key row \<longleftrightarrow> cr_namespace row = fst key \<and> cr_opcode row = snd key \<and> cr_service_id row = map_of SERVICE_IDS (fst key) \<and>
     cr_classification row = classify (fst key) (snd key) \<and> cr_basis row = ''manual-source-review''"

definition row_at :: "(cov_group \<times> string \<times> int) list \<Rightarrow> string \<times> int \<Rightarrow> cov_row option \<Rightarrow> bool" where
  "row_at ds key found \<longleftrightarrow> (case found of
     None \<Rightarrow> aliases_of ds key = {}
   | Some row \<Rightarrow> row_for key row \<and> distinct (cr_aliases row) \<and> set (cr_aliases row) = aliases_of ds key \<and> cr_aliases row \<noteq> [])"

definition rows_inv :: "(cov_group \<times> string \<times> int) list \<Rightarrow> cov_rows \<Rightarrow> bool" where
  "rows_inv ds rows \<longleftrightarrow> distinct (map fst rows) \<and> (\<forall>key. row_at ds key (map_of rows key))"

lemma aliases_of_snoc:
  "aliases_of (ds @ [((ns, path, en), symbol, v)]) key =
     aliases_of ds key \<union> (if key = (ns, v) \<and> \<not> endswith symbol ''_MAX'' then {\<lparr>ca_symbol = symbol, ca_source = path, ca_enum = en\<rparr>} else {})"
  by (cases key) (auto simp: aliases_of_def)

lemma add_alias_facts:
  "cr_aliases (add_alias a row) \<noteq> []" "set (cr_aliases (add_alias a row)) = insert a (set (cr_aliases row))"
  "distinct (cr_aliases (add_alias a row)) = distinct (cr_aliases row)" "row_for key (add_alias a row) = row_for key row"
  by (auto simp: add_alias_def row_for_def)

lemma row_for_new: "row_for (ns, v) (new_row ns v)" "cr_aliases (new_row ns v) = []"
  by (simp_all add: row_for_def new_row_def)

lemma add_entry_inv:
  assumes "rows_inv ds rows"
  shows "rows_inv (ds @ [(grp, entry)]) (add_entry grp entry rows)"
proof -
  obtain ns path en symbol v where d: "grp = (ns, path, en)" "entry = (symbol, v)" by (metis prod.exhaust)
  show ?thesis
  proof (cases "endswith symbol ''_MAX''")
    case True
    then have "aliases_of (ds @ [(grp, entry)]) = aliases_of ds" by (intro ext) (simp add: d aliases_of_snoc)
    moreover have "add_entry grp entry rows = rows" using True by (simp add: d add_entry_def)
    ultimately show ?thesis using assms by (simp only: rows_inv_def row_at_def simp_thms)
  next
    case False
    let ?a = "\<lparr>ca_symbol = symbol, ca_source = path, ca_enum = en\<rparr>"
    let ?row = "dict_get (ns, v) (new_row ns v) rows"
    have "row_at ds (ns, v) (map_of rows (ns, v))" using assms unfolding rows_inv_def by blast
    then have row: "row_for (ns, v) ?row" "distinct (cr_aliases ?row)" "set (cr_aliases ?row) = aliases_of ds (ns, v)"
      using row_for_new by (auto simp: row_at_def dict_get_def split: option.splits)
    have add: "add_entry grp entry rows = dict_set (ns, v) (add_alias ?a ?row) rows"
      using False by (simp add: d add_entry_def Let_def)
    have "row_at (ds @ [(grp, entry)]) key (map_of (add_entry grp entry rows) key)" for key
    proof (cases "key = (ns, v)")
      case True
      then show ?thesis unfolding add using row False add_alias_facts(1-3) [of ?a ?row] add_alias_facts(4) [of "(ns, v)" ?a ?row]
        by (simp add: row_at_def d aliases_of_snoc)
    next
      case other: False
      then have "aliases_of (ds @ [(grp, entry)]) key = aliases_of ds key" by (simp add: d aliases_of_snoc)
      moreover have "row_at ds key (map_of rows key)" using assms unfolding rows_inv_def by blast
      ultimately show ?thesis unfolding add using other by (cases "map_of rows key") (simp_all add: row_at_def)
    qed
    moreover have "distinct (map fst (add_entry grp entry rows))"
      unfolding add using assms by (simp add: rows_inv_def distinct_update)
    ultimately show ?thesis unfolding rows_inv_def by blast
  qed
qed

lemma fold_entries_inv: "rows_inv ds rows \<Longrightarrow> rows_inv (ds @ map (Pair grp) es) (fold (add_entry grp) es rows)"
proof (induction es arbitrary: ds rows)
  case (Cons e es)
  from Cons.IH [OF add_entry_inv [OF Cons.prems, of grp e]] show ?case by simp
qed simp

lemma add_group_Inr:
  "add_group read_text grp rows = Inr rows' \<longleftrightarrow> (\<exists>es. group_entries read_text grp = Inr es \<and> rows' = fold (add_entry grp) es rows)"
  by (cases grp) (auto simp: add_group_def group_entries_def)

lemma add_groups_inv:
  "rows_inv ds rows \<Longrightarrow> rfold (add_group read_text) groups rows = Inr rows' \<Longrightarrow> rows_inv (ds @ declared read_text groups) rows'"
proof (induction groups arbitrary: ds rows)
  case (Cons grp groups)
  then obtain es where es: "group_entries read_text grp = Inr es"
    "rfold (add_group read_text) groups (fold (add_entry grp) es rows) = Inr rows'"
    by (auto simp: add_group_Inr)
  from Cons.IH [OF fold_entries_inv [OF Cons.prems(1)] es(2)] show ?case
    by (simp add: declared_def es(1))
qed (simp add: declared_def)

lemma add_groups_total:
  "(\<exists>rows'. rfold (add_group read_text) groups rows = Inr rows') \<longleftrightarrow> (\<forall>grp \<in> set groups. \<exists>es. group_entries read_text grp = Inr es)"
proof (induction groups arbitrary: rows)
  case (Cons grp groups)
  show ?case
  proof (cases "\<exists>es. group_entries read_text grp = Inr es")
    case True
    then obtain es where "group_entries read_text grp = Inr es" by blast
    with Cons.IH [of "fold (add_entry grp) es rows"] show ?thesis by (auto simp: add_group_Inr)
  qed (auto simp: add_group_Inr)
qed simp

lemma rows_inv_Nil: "rows_inv [] []"
  by (simp add: rows_inv_def row_at_def aliases_of_def)

text \<open>Opcodes have 16 bits.\<close>

abbreviation opcodes_ok :: "opcodes \<Rightarrow> bool" where
  "opcodes_ok es \<equiv> list_all (\<lambda>(_, v). 0 \<le> v \<and> v \<le> 0xffff) es"

interpretation enum_loop: checked_loop "enum_item source" "\<lambda>_ state. opcodes_ok (fst state)" is_ValueError for source
  by unfold_locales (auto simp: enum_item_def Let_def raises_only_def split: prod.splits if_splits option.splits sum.splits)

lemma enum_entries_range:
  assumes "enum_entries text enum_name source = Inr es"
  shows "opcodes_ok es"
proof -
  obtain gs state where run: "rfold (enum_item source) (enum_items (hd gs)) ([], - 1) = Inr state" "es = fst state"
    using assms by (auto simp: enum_entries_def split: list.splits)
  from enum_loop.loop_inv [OF _ run(1)] run(2) show ?thesis by simp
qed

lemma aliases_of_range:
  assumes "aliases_of (declared read_text groups) key \<noteq> {}"
  shows "0 \<le> snd key \<and> snd key \<le> 0xffff"
proof -
  obtain grp symbol where "(grp, symbol, snd key) \<in> set (declared read_text groups)"
    using assms by (auto simp: aliases_of_def)
  then obtain es where "group_entries read_text grp = Inr es" "(symbol, snd key) \<in> set es"
    by (cases "group_entries read_text grp") (auto simp: declared_def)
  then show ?thesis by (auto simp: group_entries_def list_all_iff split: prod.splits dest!: enum_entries_range)
qed

subsection \<open>Sorted rows\<close>

text \<open>Lists without duplicates that have the same elements are sorted alike by a key that tells them apart.\<close>

lemma sort_key_unique:
  assumes "distinct xs" "distinct ys" "set xs = set ys" "inj_on f (set xs)"
  shows "sort_key f xs = sort_key f ys"
proof -
  have d: "distinct (map f (sort_key f zs))" if "distinct zs" "inj_on f (set zs)" for zs
    using that by (simp add: distinct_map)
  have "inj_on f (set ys)" using assms(3,4) by simp
  from sorted_distinct_set_unique [OF sorted_sort_key d [OF assms(1,4)] sorted_sort_key d [OF assms(2) this]] assms(3)
  have "map f (sort_key f xs) = map f (sort_key f ys)" by simp
  then show ?thesis
    by (rule map_inj_on) (use assms(3,4) in simp)
qed

lemma sort_key_map: "sort_key f (map g xs) = map g (sort_key (\<lambda>x. f (g x)) xs)"
proof -
  have "insort_key f (g x) (map g ys) = map g (insort_key (\<lambda>x. f (g x)) x ys)" for x ys
    by (induction ys) auto
  then show ?thesis by (induction xs) (simp_all add: sort_key_def)
qed

text \<open>The rows with sorted declarations, as a dictionary.\<close>

abbreviation cov_key :: "cov_row \<Rightarrow> string \<times> int" where
  "cov_key r \<equiv> (cr_namespace r, cr_opcode r)"

definition sorted_rows :: "cov_rows \<Rightarrow> cov_rows" where
  "sorted_rows rows = map (\<lambda>(key, row). (key, sort_aliases row)) rows"

definition keyed :: "cov_rows \<Rightarrow> bool" where
  "keyed rows \<longleftrightarrow> distinct (map fst rows) \<and> list_all (\<lambda>(key, row). cov_key row = key) rows"

lemma keyed_rows: "keyed rows \<Longrightarrow> map fst rows = map cov_key (map snd rows)"
  by (auto simp: keyed_def list_all_iff)

lemma keyed_sort:
  assumes "keyed rows"
  shows "map (\<lambda>key. the (map_of rows key)) (sort (map fst rows)) = sort_key cov_key (map snd rows)"
proof -
  let ?sorted = "sort_key cov_key (map snd rows)"
  have "sort (map fst rows) = map cov_key ?sorted"
    unfolding keyed_rows [OF assms] using sort_key_map [of "\<lambda>x. x" cov_key "map snd rows"] by simp
  then have "map (\<lambda>key. the (map_of rows key)) (sort (map fst rows)) = map (\<lambda>r. the (map_of rows (cov_key r))) ?sorted"
    by (simp add: comp_def)
  also have "\<dots> = ?sorted"
  proof (rule map_idI)
    fix r
    assume "r \<in> set ?sorted"
    then obtain key where "(key, r) \<in> set rows" by auto
    with assms show "the (map_of rows (cov_key r)) = r" by (auto simp: keyed_def list_all_iff)
  qed
  finally show ?thesis .
qed

lemma keyed_inj: "keyed rows \<Longrightarrow> distinct (map snd rows)" "keyed rows \<Longrightarrow> inj_on cov_key (set (map snd rows))"
proof -
  assume k: "keyed rows"
  then have "distinct (map cov_key (map snd rows))" unfolding keyed_rows [OF k, symmetric] by (simp add: keyed_def)
  then show "distinct (map snd rows)" "inj_on cov_key (set (map snd rows))" by (simp_all only: distinct_map)
qed

text \<open>The fingerprints depend only on the set of rows, their keys and their declarations.\<close>

lemma fingerprints_sorted:
  assumes "distinct rs" "inj_on cov_key (set rs)"
  shows "declaration_fingerprints sha256 (sort_key cov_key rs) = declaration_fingerprints sha256 rs"
proof -
  have "sort_key cov_key (sort_key cov_key rs) = sort_key cov_key rs"
    using assms by (intro sort_key_unique) simp_all
  then show ?thesis by (simp add: declaration_fingerprints_def declarations_json_def)
qed

lemma fingerprints_review: "declaration_fingerprints sha256 (map (review fps) rs) = declaration_fingerprints sha256 rs"
proof -
  have review: "cr_namespace (review fps r) = cr_namespace r" "cr_opcode (review fps r) = cr_opcode r" "row_json (review fps r) = row_json r" for r
    by (simp_all add: review_def row_json_def)
  have "declarations_json ns (map (review fps) rs) = declarations_json ns rs" for ns
    by (simp add: declarations_json_def sort_key_map review filter_map comp_def)
  then show ?thesis by (simp add: declaration_fingerprints_def review comp_def image_comp)
qed

text \<open>The inventory of rows that are keyed.\<close>

lemma cov_entries_Inr:
  assumes "cov_entries sha256 read_text groups = Inr out"
  obtains rows where "rfold (add_group read_text) groups [] = Inr rows" "rows_inv (declared read_text groups) rows"
    "out = map (review (declaration_fingerprints sha256 (map snd (sorted_rows rows)))) (sort_key cov_key (map snd (sorted_rows rows)))"
    "keyed (sorted_rows rows)"
proof -
  from assms obtain rows where rows: "rfold (add_group read_text) groups [] = Inr rows"
    by (auto simp: cov_entries_def)
  have inv: "rows_inv (declared read_text groups) rows" using add_groups_inv [OF rows_inv_Nil rows] by simp
  have "row_for key row" if "(key, row) \<in> set rows" for key row
  proof -
    have "row_at (declared read_text groups) key (map_of rows key)" using inv unfolding rows_inv_def by blast
    moreover have "map_of rows key = Some row" using that inv by (simp add: rows_inv_def)
    ultimately show ?thesis by (simp add: row_at_def)
  qed
  then have keyed: "keyed (sorted_rows rows)"
    using inv by (auto simp: keyed_def sorted_rows_def rows_inv_def list_all_iff sort_aliases_def row_for_def comp_def split_def)
  have "out = map (review (declaration_fingerprints sha256 (map snd (sorted_rows rows)))) (sort_key cov_key (map snd (sorted_rows rows)))"
    using assms rows keyed_sort [OF keyed, symmetric] by (auto simp: cov_entries_def Let_def sorted_rows_def [symmetric] comp_def)
  with rows inv keyed that show thesis by blast
qed

subsection \<open>The inventory\<close>

lemma review_facts:
  "cov_key (review fps r) = cov_key r" "cr_aliases (review fps r) = cr_aliases r" "cr_service_id (review fps r) = cr_service_id r"
  "cr_classification (review fps r) =
     (if map_of fps (cr_namespace r) = map_of REVIEWED_DECLARATIONS (cr_namespace r) then cr_classification r else ''unreviewed'')"
  by (simp_all add: review_def)

lemma inventory_row:
  assumes "rows_inv (declared read_text groups) stored" "(key, row) \<in> set stored" "r = review fps (sort_aliases row)"
  shows "cov_key r = key" "0 \<le> cr_opcode r \<and> cr_opcode r \<le> 0xffff" "distinct (cr_aliases r)"
    "sorted (map (\<lambda>a. (ca_symbol a, ca_source a)) (cr_aliases r))" "set (cr_aliases r) = aliases_of (declared read_text groups) key"
    "cr_classification r = (if map_of fps (cr_namespace r) = map_of REVIEWED_DECLARATIONS (cr_namespace r)
       then classify (cr_namespace r) (cr_opcode r) else ''unreviewed'')"
proof -
  have "map_of stored key = Some row" using assms(1,2) by (simp add: rows_inv_def)
  moreover have "row_at (declared read_text groups) key (map_of stored key)" using assms(1) unfolding rows_inv_def by blast
  ultimately have row: "row_for key row" "distinct (cr_aliases row)" "set (cr_aliases row) = aliases_of (declared read_text groups) key"
    "cr_aliases row \<noteq> []" by (simp_all add: row_at_def)
  show key: "cov_key r = key" using row(1) by (simp add: assms(3) review_def sort_aliases_def row_for_def)
  have aliases: "cr_aliases r = sort_key (\<lambda>a. (ca_symbol a, ca_source a)) (cr_aliases row)"
    by (simp add: assms(3) review_def sort_aliases_def)
  with row(2,3) show "distinct (cr_aliases r)" "sorted (map (\<lambda>a. (ca_symbol a, ca_source a)) (cr_aliases r))"
    "set (cr_aliases r) = aliases_of (declared read_text groups) key" by simp_all
  have "0 \<le> snd key \<and> snd key \<le> 0xffff" using aliases_of_range [of read_text groups key] row(3,4) by (metis set_empty)
  then show "0 \<le> cr_opcode r \<and> cr_opcode r \<le> 0xffff" using key by auto
  show "cr_classification r = (if map_of fps (cr_namespace r) = map_of REVIEWED_DECLARATIONS (cr_namespace r)
      then classify (cr_namespace r) (cr_opcode r) else ''unreviewed'')"
    using row(1) by (simp add: assms(3) review_facts) (simp add: review_def sort_aliases_def row_for_def)
qed

text \<open>The rows that are yielded, in terms of the stored ones.\<close>

lemma cov_entries_rows:
  assumes "cov_entries sha256 read_text groups = Inr rows"
  obtains stored where "rows_inv (declared read_text groups) stored" "map cov_key rows = sort (map fst stored)"
    "\<And>r. r \<in> set rows \<Longrightarrow> \<exists>key row. (key, row) \<in> set stored \<and> r = review (declaration_fingerprints sha256 rows) (sort_aliases row)"
proof -
  obtain stored where run: "rows_inv (declared read_text groups) stored" "keyed (sorted_rows stored)"
    "rows = map (review (declaration_fingerprints sha256 (map snd (sorted_rows stored)))) (sort_key cov_key (map snd (sorted_rows stored)))"
    by (rule cov_entries_Inr [OF assms])
  let ?rs = "map snd (sorted_rows stored)"
  have fps: "declaration_fingerprints sha256 rows = declaration_fingerprints sha256 ?rs"
    unfolding run(3) fingerprints_review by (rule fingerprints_sorted [OF keyed_inj [OF run(2)]])
  have "map fst (sorted_rows stored) = map fst stored" by (simp add: sorted_rows_def split_def)
  then have "map cov_key rows = sort (map fst stored)"
    unfolding run(3) using sort_key_map [of "\<lambda>x. x" cov_key ?rs] keyed_rows [OF run(2)] by (simp add: review_facts comp_def)
  moreover have "\<exists>key row. (key, row) \<in> set stored \<and> r = review (declaration_fingerprints sha256 rows) (sort_aliases row)" if "r \<in> set rows" for r
  proof -
    from that obtain z where "z \<in> set ?rs" "r = review (declaration_fingerprints sha256 rows) z" unfolding fps by (auto simp: run(3))
    then show ?thesis by (fastforce simp: sorted_rows_def)
  qed
  ultimately show thesis using run(1) that by blast
qed

lemma inventory_class:
  assumes "cov_entries sha256 read_text groups = Inr rows" "r \<in> set rows"
  shows "cr_classification r = (if map_of (declaration_fingerprints sha256 rows) (cr_namespace r) = map_of REVIEWED_DECLARATIONS (cr_namespace r)
    then classify (cr_namespace r) (cr_opcode r) else ''unreviewed'')"
proof (rule cov_entries_rows [OF assms(1)])
  fix stored
  assume stored: "rows_inv (declared read_text groups) stored"
    "\<And>r. r \<in> set rows \<Longrightarrow> \<exists>key row. (key, row) \<in> set stored \<and> r = review (declaration_fingerprints sha256 rows) (sort_aliases row)"
  from stored(2) [OF assms(2)] obtain key row where
    "(key, row) \<in> set stored" "r = review (declaration_fingerprints sha256 rows) (sort_aliases row)" by blast
  from inventory_row(6) [OF stored(1) this] show ?thesis .
qed

text \<open>
  C13. The inventory is exact.  Its rows stand in the strict order of namespace and opcode; every opcode has 16 bits; the
  declarations of a row are exactly the enumerators, bounds apart, that a group of its namespace gives its
  opcode, each once and sorted; every enumerator is in a row; and the classification is the reviewed one, or
  \<^verbatim>\<open>unreviewed\<close> when the fingerprint of the namespace is not the reviewed fingerprint.
\<close>

theorem inventory_exact:
  assumes "cov_entries sha256 read_text groups = Inr rows"
  shows "sorted_wrt (<) (map cov_key rows) \<and>
    (\<forall>r \<in> set rows. 0 \<le> cr_opcode r \<and> cr_opcode r \<le> 0xffff \<and> distinct (cr_aliases r) \<and>
       sorted (map (\<lambda>a. (ca_symbol a, ca_source a)) (cr_aliases r)) \<and>
       set (cr_aliases r) = aliases_of (declared read_text groups) (cov_key r) \<and>
       cr_classification r = (if map_of (declaration_fingerprints sha256 rows) (cr_namespace r) = map_of REVIEWED_DECLARATIONS (cr_namespace r)
         then classify (cr_namespace r) (cr_opcode r) else ''unreviewed'')) \<and>
    (\<forall>key. aliases_of (declared read_text groups) key \<noteq> {} \<longrightarrow> key \<in> cov_key ` set rows)"
proof (rule cov_entries_rows [OF assms])
  fix stored
  assume stored: "rows_inv (declared read_text groups) stored" "map cov_key rows = sort (map fst stored)"
    "\<And>r. r \<in> set rows \<Longrightarrow> \<exists>key row. (key, row) \<in> set stored \<and> r = review (declaration_fingerprints sha256 rows) (sort_aliases row)"
  have "sorted_wrt (<) (map cov_key rows)" using stored(1) unfolding stored(2) by (simp add: strict_sorted_iff rows_inv_def)
  moreover have "0 \<le> cr_opcode r \<and> cr_opcode r \<le> 0xffff \<and> distinct (cr_aliases r) \<and>
       sorted (map (\<lambda>a. (ca_symbol a, ca_source a)) (cr_aliases r)) \<and> set (cr_aliases r) = aliases_of (declared read_text groups) (cov_key r)"
    if "r \<in> set rows" for r
  proof -
    from stored(3) [OF that] obtain key row where
      "(key, row) \<in> set stored" "r = review (declaration_fingerprints sha256 rows) (sort_aliases row)" by blast
    from inventory_row(1-5) [OF stored(1) this] show ?thesis by simp
  qed
  moreover have "key \<in> cov_key ` set rows" if "aliases_of (declared read_text groups) key \<noteq> {}" for key
  proof -
    have "row_at (declared read_text groups) key (map_of stored key)" using stored(1) unfolding rows_inv_def by blast
    with that obtain row where "map_of stored key = Some row" by (cases "map_of stored key") (auto simp: row_at_def)
    then have "key \<in> set (map cov_key rows)" unfolding stored(2) by (force dest: map_of_SomeD)
    then show ?thesis by simp
  qed
  ultimately show ?thesis using inventory_class [OF assms] by blast
qed

subsection \<open>The order of the groups\<close>

lemma aliases_of_groups:
  assumes "set groups = set groups'"
  shows "aliases_of (declared read_text groups) key = aliases_of (declared read_text groups') key"
proof -
  have "set (declared read_text groups) = set (declared read_text groups')"
    using assms by (simp add: declared_def)
  then show ?thesis by (simp add: aliases_of_def)
qed

lemma sorted_rows_groups:
  assumes "rows_inv ds rows" "rows_inv ds' rows'" "\<And>key. aliases_of ds key = aliases_of ds' key"
    and "\<And>key. inj_on (\<lambda>a. (ca_symbol a, ca_source a)) (aliases_of ds key)"
  shows "map_of (sorted_rows rows) = map_of (sorted_rows rows')"
proof
  fix key
  have lookup: "map_of (sorted_rows zs) key = map_option sort_aliases (map_of zs key)" for zs
    by (induction zs) (auto simp: sorted_rows_def)
  have at: "row_at ds key (map_of rows key)" "row_at ds' key (map_of rows' key)"
    using assms(1,2) unfolding rows_inv_def by blast+
  show "map_of (sorted_rows rows) key = map_of (sorted_rows rows') key"
  proof (cases "map_of rows key")
    case None
    with at assms(3) [of key] show ?thesis unfolding lookup by (cases "map_of rows' key") (auto simp: row_at_def)
  next
    case (Some row)
    with at assms(3) [of key] obtain row' where row': "map_of rows' key = Some row'" by (cases "map_of rows' key") (auto simp: row_at_def)
    have "sort_key (\<lambda>a. (ca_symbol a, ca_source a)) (cr_aliases row) = sort_key (\<lambda>a. (ca_symbol a, ca_source a)) (cr_aliases row')"
      using at Some row' assms(3) [of key] assms(4) [of key] by (intro sort_key_unique) (auto simp: row_at_def)
    then have "sort_aliases row = sort_aliases row'"
      using at Some row' by (auto simp: sort_aliases_def row_at_def row_for_def intro: cov_row.equality)
    with Some row' show ?thesis by (simp add: lookup)
  qed
qed

text \<open>
  C33. The inventory does not depend on the order in which the groups are read, nor on groups that are named twice, as
  long as no two declarations of an opcode have the same symbol and file.
\<close>

theorem inventory_order_independent:
  assumes "cov_entries sha256 read_text groups = Inr rows" and "set groups = set groups'"
    and "\<And>key. inj_on (\<lambda>a. (ca_symbol a, ca_source a)) (aliases_of (declared read_text groups) key)"
  shows "cov_entries sha256 read_text groups' = Inr rows"
proof -
  obtain stored where run: "rfold (add_group read_text) groups [] = Inr stored" "rows_inv (declared read_text groups) stored"
    "rows = map (review (declaration_fingerprints sha256 (map snd (sorted_rows stored)))) (sort_key cov_key (map snd (sorted_rows stored)))"
    "keyed (sorted_rows stored)"
    by (rule cov_entries_Inr [OF assms(1)])
  have "\<exists>stored'. rfold (add_group read_text) groups' [] = Inr stored'"
    using add_groups_total [of read_text groups "[]"] add_groups_total [of read_text groups' "[]"] run(1) assms(2) by auto
  then obtain out where out: "cov_entries sha256 read_text groups' = Inr out" by (auto simp: cov_entries_def Let_def)
  obtain stored' where run': "rows_inv (declared read_text groups') stored'"
    "out = map (review (declaration_fingerprints sha256 (map snd (sorted_rows stored')))) (sort_key cov_key (map snd (sorted_rows stored')))"
    "keyed (sorted_rows stored')"
    by (rule cov_entries_Inr [OF out])
  have "map_of (sorted_rows stored) = map_of (sorted_rows stored')"
    using sorted_rows_groups [OF run(2) run'(1) aliases_of_groups [OF assms(2)] assms(3)] .
  then have "set (sorted_rows stored) = set (sorted_rows stored')"
    using run(4) run'(3) by (metis keyed_def map_of_inject_set)
  then have same: "sort_key cov_key (map snd (sorted_rows stored)) = sort_key cov_key (map snd (sorted_rows stored'))"
    using keyed_inj [OF run(4)] keyed_inj [OF run'(3)] by (intro sort_key_unique) simp_all
  then have "declaration_fingerprints sha256 (map snd (sorted_rows stored)) = declaration_fingerprints sha256 (map snd (sorted_rows stored'))"
    using fingerprints_sorted [OF keyed_inj [OF run(4)]] fingerprints_sorted [OF keyed_inj [OF run'(3)]] by metis
  with same out run(3) run'(2) show ?thesis by simp
qed

subsection \<open>The check\<close>

lemma fingerprint_keys: "map fst (declaration_fingerprints sha256 rows) = sorted_list_of_set (set (map cr_namespace rows))"
  by (simp add: declaration_fingerprints_def comp_def)

lemma map_of_None_keys: "map_of d k = None \<longleftrightarrow> k \<notin> set (map fst d)"
  by (simp add: map_of_eq_None_iff)

lemma maps_agree:
  assumes "\<And>k. m k = None \<longleftrightarrow> k \<notin> K" "\<And>k. n k = None \<longleftrightarrow> k \<notin> N"
  shows "(\<forall>k \<in> K \<union> N. m k = n k) \<longleftrightarrow> K = N \<and> (\<forall>k \<in> K. m k = n k)"
proof
  assume same: "\<forall>k \<in> K \<union> N. m k = n k"
  have "k \<in> K \<longleftrightarrow> k \<in> N" for k
    using same assms(1) [of k] assms(2) [of k] by (cases "k \<in> K \<union> N") auto
  with same show "K = N \<and> (\<forall>k \<in> K. m k = n k)" by blast
qed blast

lemma classify_reviewed: "classify ns v \<noteq> ''unreviewed''"
  by (simp add: classify_def)

text \<open>
  C34. The check fails closed.  With \<^verbatim>\<open>--check\<close> the tool exits with 0 exactly when every group could be read, the
  namespaces found are the reviewed ones and no command is unreviewed; when all groups are readable it exits with 1
  otherwise, and a header that is missing or not understood raises.
\<close>

theorem coverage_check_exact:
  "(cov_main sha256 read_text True = Inr 0 \<longleftrightarrow>
     (\<exists>rows. cov_entries sha256 read_text GROUPS = Inr rows \<and> set (map cr_namespace rows) = set (map fst REVIEWED_DECLARATIONS) \<and>
        list_all (\<lambda>r. cr_classification r \<noteq> ''unreviewed'') rows)) \<and>
   (cov_main sha256 read_text True \<in> {Inr 0, Inr 1} \<longleftrightarrow> (\<exists>rows. cov_entries sha256 read_text GROUPS = Inr rows))"
proof -
  have "dict_eq (declaration_fingerprints sha256 rows) REVIEWED_DECLARATIONS \<longleftrightarrow>
      set (map cr_namespace rows) = set (map fst REVIEWED_DECLARATIONS) \<and> list_all (\<lambda>r. cr_classification r \<noteq> ''unreviewed'') rows"
    (is "?eq \<longleftrightarrow> ?ns \<and> ?class") if rows: "cov_entries sha256 read_text GROUPS = Inr rows" for rows
  proof -
    let ?fps = "declaration_fingerprints sha256 rows"
    have keys: "set (map fst ?fps) = set (map cr_namespace rows)" unfolding fingerprint_keys by simp
    have each: "?class \<longleftrightarrow> (\<forall>k \<in> set (map fst ?fps). map_of ?fps k = map_of REVIEWED_DECLARATIONS k)"
      unfolding keys using inventory_class [OF rows] classify_reviewed by (auto simp: list_all_iff)
    have "?eq \<longleftrightarrow> (\<forall>k \<in> set (map fst ?fps) \<union> set (map fst REVIEWED_DECLARATIONS). map_of ?fps k = map_of REVIEWED_DECLARATIONS k)"
      by (auto simp: dict_eq_def list_all_iff)
    also have "\<dots> \<longleftrightarrow> ?ns \<and> ?class"
      unfolding each using maps_agree [OF map_of_None_keys map_of_None_keys, of ?fps REVIEWED_DECLARATIONS] unfolding keys .
    finally show ?thesis .
  qed
  then show ?thesis by (cases "cov_entries sha256 read_text GROUPS") (auto simp: cov_main_def)
qed

subsection \<open>An example\<close>

definition demo_header :: "string \<Rightarrow> string res" where
  "demo_header path = (if path = ''a.h'' then Inr ''enum a { Z = 1, A = 1, A_MAX = 2 };'' else if path = ''b.h'' then Inr ''enum b { B = 1 };''
     else Inl (OSError ''No such file or directory''))"

definition demo_groups :: "cov_group list" where
  "demo_groups = [(''ubase'', ''a.h'', ''a''), (''ubase'', ''b.h'', ''b''), (''ctrlq-tp'', ''b.h'', ''b'')]"

lemma demo_declared:
  "declared demo_header demo_groups = [((''ubase'', ''a.h'', ''a''), ''Z'', 1), ((''ubase'', ''a.h'', ''a''), ''A'', 1), ((''ubase'', ''a.h'', ''a''), ''A_MAX'', 2),
     ((''ubase'', ''b.h'', ''b''), ''B'', 1), ((''ctrlq-tp'', ''b.h'', ''b''), ''B'', 1)]"
  by code_simp

lemma demo_inventory:
  "map_sum id (map (\<lambda>r. (cov_key r, map ca_symbol (cr_aliases r), cr_classification r))) (cov_entries (\<lambda>_. []) demo_header demo_groups) =
     Inr [((''ctrlq-tp'', 1), [''B''], ''unreviewed''), ((''ubase'', 1), [''A'', ''B'', ''Z''], ''unreviewed'')]"
  by code_simp

lemma demo_inventory_rows:
  obtains rows where "cov_entries (\<lambda>_. []) demo_header demo_groups = Inr rows" "map cov_key rows = [(''ctrlq-tp'', 1), (''ubase'', 1)]"
    "map (\<lambda>r. map ca_symbol (cr_aliases r)) rows = [[''B''], [''A'', ''B'', ''Z'']]"
  using demo_inventory by (cases "cov_entries (\<lambda>_. []) demo_header demo_groups") auto

theorem inventory_exact_witness:
  "\<exists>rows. cov_entries (\<lambda>_. []) demo_header demo_groups = Inr rows \<and> rows \<noteq> [] \<and> sorted_wrt (<) (map cov_key rows) \<and>
     list_all (\<lambda>r. 0 \<le> cr_opcode r \<and> set (cr_aliases r) = aliases_of (declared demo_header demo_groups) (cov_key r)) rows"
proof -
  obtain rows where "cov_entries (\<lambda>_. []) demo_header demo_groups = Inr rows" "rows \<noteq> []"
    by (rule demo_inventory_rows) auto
  with inventory_exact [of "\<lambda>_. []" demo_header demo_groups rows] show ?thesis by (auto simp: list_all_iff)
qed

theorem inventory_order_independent_witness:
  "\<exists>rows. cov_entries (\<lambda>_. []) demo_header demo_groups = Inr rows \<and> map cov_key rows = [(''ctrlq-tp'', 1), (''ubase'', 1)] \<and>
     cov_entries (\<lambda>_. []) demo_header (rev demo_groups) = Inr rows"
proof -
  obtain rows where rows: "cov_entries (\<lambda>_. []) demo_header demo_groups = Inr rows" "map cov_key rows = [(''ctrlq-tp'', 1), (''ubase'', 1)]"
    by (rule demo_inventory_rows)
  have "inj_on (\<lambda>a. (ca_symbol a, ca_source a)) (aliases_of (declared demo_header demo_groups) key)" for key
    unfolding demo_declared aliases_of_def by (auto simp: inj_on_def)
  from inventory_order_independent [OF rows(1) _ this, of "rev demo_groups"] rows show ?thesis by auto
qed

end
