(* ===== verification/Py_Quote.thy ===== *)
theory Py_Quote
  imports Py_Shlex
begin

section \<open>Quoting for a shell\<close>

text \<open>
  \<^verbatim>\<open>shlex.quote\<close> and \<^verbatim>\<open>str.replace(old, new, 1)\<close>, with the fact that a quoted text is one word of
  \<^verbatim>\<open>shlex.split\<close>, also inside a longer word.
\<close>

definition sh_safe :: "char \<Rightarrow> bool" where
  "sh_safe c \<longleftrightarrow> (let n = (of_char c :: nat) in
     (48 \<le> n \<and> n \<le> 57) \<or> (65 \<le> n \<and> n \<le> 90) \<or> (97 \<le> n \<and> n \<le> 122)) \<or> c \<in> set ''_@%+=:,./-''"

definition quote_char :: "char \<Rightarrow> string" where
  "quote_char c = (if c = CHR 0x27 then [CHR 0x27, CHR 0x22, CHR 0x27, CHR 0x22, CHR 0x27] else [c])"

definition shlex_quote :: "string \<Rightarrow> string" where
  "shlex_quote s = (if s = [] then [CHR 0x27, CHR 0x27]
     else if list_all sh_safe s then s
     else CHR 0x27 # concat (map quote_char s) @ [CHR 0x27])"

text \<open>\<^verbatim>\<open>s.replace(old, new, 1)\<close> for a text \<open>old\<close> that is not empty.\<close>

fun replace_first :: "string \<Rightarrow> string \<Rightarrow> string \<Rightarrow> string" where
  "replace_first old new [] = []"
| "replace_first old new (c # s) =
     (if startswith (c # s) old then new @ drop (length old) (c # s) else c # replace_first old new s)"

lemma sh_safe_plain: "sh_safe c \<Longrightarrow> sh_plain_char c"
proof -
  have "\<not> sh_safe c" if "c \<in> {CHR 0x20, CHR 0x09, CHR 0x0D, CHR 0x0A, CHR 0x27, CHR 0x22, CHR 0x5C}"
    using that by (auto simp: sh_safe_def)
  then show "sh_safe c \<Longrightarrow> sh_plain_char c"
    by (auto simp: sh_plain_char_def sh_white_def sh_quote_def)
qed

lemma sh_tokens_quoted:
  "sh_tokens (Sh_Quote (CHR 0x27)) tok quoted (concat (map quote_char s) @ CHR 0x27 # rest) =
     sh_tokens Sh_Word (rev s @ tok) True rest"
  by (induction s arbitrary: tok quoted) (auto simp: quote_char_def sh_white_def sh_quote_def)

text \<open>Inside a word a quoted text adds its characters to the word, and at the start it begins one.\<close>

lemma sh_tokens_quote:
  "\<exists>q. sh_tokens Sh_Word tok quoted (shlex_quote s @ rest) = sh_tokens Sh_Word (rev s @ tok) q rest \<and> (s = [] \<longrightarrow> q)"
proof (cases "s = []")
  case True
  then show ?thesis
    by (intro exI [of _ True]) (simp add: shlex_quote_def sh_white_def sh_quote_def)
next
  case False
  show ?thesis
  proof (cases "list_all sh_safe s")
    case True
    then have "list_all sh_plain_char s" by (auto simp: list_all_iff sh_safe_plain)
    from sh_tokens_run [OF this, of tok quoted rest] True False show ?thesis by (auto simp: shlex_quote_def)
  next
    case other: False
    have "sh_tokens Sh_Word tok quoted (shlex_quote s @ rest) = sh_tokens Sh_Word (rev s @ tok) True rest"
      using False other sh_tokens_quoted [of tok quoted s rest]
      by (simp add: shlex_quote_def sh_white_def sh_quote_def)
    then show ?thesis by blast
  qed
qed

lemma sh_tokens_quote_start:
  "\<exists>q. sh_tokens Sh_Space [] False (shlex_quote s @ rest) = sh_tokens Sh_Word (rev s) q rest \<and> (s = [] \<longrightarrow> q)"
proof (cases "s \<noteq> [] \<and> list_all sh_safe s")
  case True
  then have "sh_plain s" by (auto simp: sh_plain_def list_all_iff sh_safe_plain)
  then have "sh_tokens Sh_Space [] False (shlex_quote s @ rest) = sh_tokens Sh_Word (rev s) False rest"
    using True shlex_split_word [of s rest] by (simp add: shlex_quote_def shlex_split_def)
  with True show ?thesis by blast
next
  case False
  then have "sh_tokens Sh_Space [] False (shlex_quote s @ rest) = sh_tokens Sh_Word (rev s) True rest"
    using sh_tokens_quoted [of "[]" False s rest]
    by (auto simp: shlex_quote_def sh_white_def sh_quote_def)
  then show ?thesis by blast
qed

lemma shlex_split_quote: "shlex_split (shlex_quote s) = Inr [s]"
  using sh_tokens_quote_start [of s "[]"] by (auto simp: shlex_split_def sh_finish_def)

text \<open>A word that ends in a quoted text, before more words.\<close>

lemma shlex_split_option:
  assumes "sh_plain w" and "list_all sh_plain ws"
  shows "shlex_split (w @ shlex_quote s @ '' '' @ join '' '' ws) = Inr ((w @ s) # ws)"
proof -
  obtain q where "sh_tokens Sh_Word (rev w) False (shlex_quote s @ '' '' @ join '' '' ws) =
      sh_tokens Sh_Word (rev s @ rev w) q ('' '' @ join '' '' ws)"
    using sh_tokens_quote by blast
  moreover have "shlex_split (join '' '' ws) = Inr ws" using assms(2) by (rule shlex_split_join)
  ultimately show ?thesis
    using assms(1) shlex_split_word [OF assms(1), of "shlex_quote s @ '' '' @ join '' '' ws"]
    by (auto simp: shlex_split_def sh_white_def sh_finish_def sh_plain_def)
qed

text \<open>A plain word before other text.\<close>

lemma shlex_split_Cons:
  assumes "sh_plain w" and "shlex_split s = Inr ws"
  shows "shlex_split (w @ '' '' @ s) = Inr (w # ws)"
  using assms shlex_split_word [OF assms(1), of "'' '' @ s"]
  by (auto simp: shlex_split_def sh_white_def sh_finish_def sh_plain_def)

text \<open>The first occurrence stands where nothing before it matches.\<close>

lemma replace_first_here: "old \<noteq> [] \<Longrightarrow> replace_first old new (old @ s) = new @ s"
  by (cases old) (auto simp: startswith_iff)

lemma replace_first_later:
  assumes "old = c # old'" "c \<notin> set p"
  shows "replace_first old new (p @ s) = p @ replace_first old new s"
  using assms by (induction p) (auto simp: startswith_iff)

lemma replace_first_at:
  assumes "old = c # old'" "c \<notin> set p"
  shows "replace_first old new (p @ old @ s) = p @ new @ s"
  using replace_first_later [OF assms, of new "old @ s"] replace_first_here [of old new s] assms(1) by simp

end
