(* ===== verification/Sweeps.thy ===== *)
theory Sweeps
  imports Experiment_Results Py_Float Py_Quote
begin

section \<open>Measurement sweeps\<close>

text \<open>
  Model of the tools that drive a list of bandwidth or latency cases through the serial tool on a ready
  pair of guests and write one table row per case: \<^verbatim>\<open>tools/run_gem5_read_size_sweep.py\<close>,
  \<^verbatim>\<open>run_gem5_read_latency_sweep.py\<close>, \<^verbatim>\<open>run_gem5_write_jetty_sweep.py\<close>, \<^verbatim>\<open>run_gem5_rma_jetty_compare.py\<close>,
  \<^verbatim>\<open>profile_gem5_read_jettys.py\<close> and \<^verbatim>\<open>run_read_compare_scan.py\<close>.  What a sweep leaves is its exit code
  or exception, the rows of its tables and its transcripts.  Printed progress, the copy of the manifest
  and the copies of logs in the output directory are not modelled.
\<close>

subsection \<open>What the sweeps share\<close>

text \<open>
  The world of a sweep: the run manifest, the creation of the output directory, the size of a regular
  file before a case and the file after it, the exit code and output of the serial tool, and the
  elapsed time of a case as it is printed.
\<close>

record sweep_world =
  gw_manifest :: "string res"
  gw_mkdir :: "unit res"
  gw_size :: "nat \<Rightarrow> string \<Rightarrow> nat option"
  gw_file :: "nat \<Rightarrow> string \<Rightarrow> log_file res"
  gw_serial :: "nat \<Rightarrow> string list \<Rightarrow> int \<times> string"
  gw_wall :: "nat \<Rightarrow> string"

datatype cell = CInt int | CFloat pyfloat | CText string

type_synonym table_row = "(string \<times> cell) list"

record sweep_out =
  so_rows :: "table_row list"
  so_files :: "(string \<times> string) list"

text \<open>
  \<^verbatim>\<open>csv.DictWriter.writerow\<close>: a key that is no field is an error, a missing one an empty cell.
\<close>

definition writerow :: "string list \<Rightarrow> table_row \<Rightarrow> table_row res" where
  "writerow fieldnames row =
     (if list_ex (\<lambda>(key, _). key \<notin> set fieldnames) row then Inl (ValueError ''dict contains fields not in fieldnames'')
      else Inr (map (\<lambda>name. (name, dict_get name (CText []) row)) fieldnames))"

text \<open>
  The loop over the cases.  A case writes its transcript and then raises, ends the sweep with exit code
  1, or gives a row.
\<close>

type_synonym sweep_case = "(string \<times> string) \<times> table_row option res"

fun sweep_loop :: "(nat \<Rightarrow> 'c \<Rightarrow> sweep_case) \<Rightarrow> nat \<Rightarrow> 'c list \<Rightarrow> sweep_out \<Rightarrow> int res \<times> sweep_out" where
  "sweep_loop step index [] out = (Inr 0, out)"
| "sweep_loop step index (c # cs) out =
     (let (transcript, result) = step index c; out1 = out\<lparr>so_files := so_files out @ [transcript]\<rparr> in
      case result of
        Inl e \<Rightarrow> (Inl e, out1)
      | Inr None \<Rightarrow> (Inr 1, out1)
      | Inr (Some row) \<Rightarrow> sweep_loop step (Suc index) cs (out1\<lparr>so_rows := so_rows out1 @ [row]\<rparr>))"

definition no_output :: sweep_out where
  "no_output = \<lparr>so_rows = [], so_files = []\<rparr>"

text \<open>\<^verbatim>\<open>parser.error\<close> exits with 2; \<open>lacking\<close> is the loop over the required lines of the manifest.\<close>

definition lacking :: "string list \<Rightarrow> string \<Rightarrow> bool" where
  "lacking required manifest \<longleftrightarrow> list_ex (\<lambda>line. \<not> str_in (line @ [CHR 0x0A]) manifest) required"

text \<open>A sweep after its arguments: manifest, output directory, cases.\<close>

definition sweep_start :: "sweep_world \<Rightarrow> (string \<Rightarrow> bool) \<Rightarrow> (unit \<Rightarrow> int res \<times> sweep_out) \<Rightarrow> int res \<times> sweep_out" where
  "sweep_start w refused cases = (case gw_manifest w of
       Inl e \<Rightarrow> (Inl e, no_output)
     | Inr manifest \<Rightarrow> if refused manifest then (Inl (SystemExit 2), no_output) else
         (case gw_mkdir w of Inl e \<Rightarrow> (Inl e, no_output) | Inr _ \<Rightarrow> cases ()))"

definition sweep_argv :: "string \<Rightarrow> string \<Rightarrow> string \<times> string \<Rightarrow> string list" where
  "sweep_argv lab timeout commands =
     [''python3'', path_under lab ''tools/dual_serial_command.py'', ''--ports'', ''3460'', ''3470'', ''--commands'',
      fst commands, snd commands, ''--timeout'', timeout, ''--prompt-kick-after'', ''1'', ''--stagger'', ''1'', ''--full-output'']"

definition sweep_fences :: "'w sweep_world_scheme \<Rightarrow> string \<Rightarrow> nat \<Rightarrow> string list" where
  "sweep_fences w run_root index =
     (let paths = fence_logs run_root;
          offsets = (\<lambda>name. case map_of paths name of None \<Rightarrow> None | Some path \<Rightarrow> gw_size w index path);
          (logs, log_errors) = collect_fence_deltas paths offsets (gw_file w index) in
      log_errors @ validate_fences logs)"

definition rx_rate :: rx where
  "rx_rate = rx_plus (Cls (\<lambda>c. is_digit c \<or> c = CHR ''.''))"

definition rx_rates :: "int \<Rightarrow> int \<Rightarrow> rx" where
  "rx_rates bytes ops = rx_row ([rx_lit (str_int bytes), rx_lit (str_int ops)] @ replicate 3 (Grp rx_rate))"

definition repr_rows :: "string list list \<Rightarrow> string" where
  "repr_rows rows = ''['' @ join '', '' (map (\<lambda>row. ''('' @ join '', '' (map repr_str row) @ '')'') rows) @ '']''"

type_synonym rates = "pyfloat \<times> pyfloat \<times> pyfloat"

definition float_row :: "string list \<Rightarrow> rates res" where
  "float_row row = rbind (py_float (row ! 0)) (\<lambda>peak. rbind (py_float (row ! 1)) (\<lambda>average.
     rbind (py_float (row ! 2)) (\<lambda>mpps. Inr (peak, average, mpps))))"

definition jetty_counts :: "string \<Rightarrow> string list" where
  "jetty_counts output = map hd (rx_findall rx_jetty_count output)"

definition guest_exits :: "string \<Rightarrow> string list" where
  "guest_exits output = map hd (rx_findall rx_exit output)"

definition library_option :: string where
  "library_option = ''LD_LIBRARY_PATH=/lib:/usr/lib''"

text \<open>\<^verbatim>\<open>if args.client_library_path\<close>: the client uses other libraries.\<close>

definition client_libraries :: "string option \<Rightarrow> string \<Rightarrow> string" where
  "client_libraries path client = (case path of
       None \<Rightarrow> client
     | Some p \<Rightarrow> if p = [] then client else replace_first library_option (''LD_LIBRARY_PATH='' @ shlex_quote p) client)"

definition sync_words :: "string list" where
  "sync_words = [''UBSIM_DIST_SYNC=1'', ''OPENURMA_DIST_SYNC=1'']"

definition server_words :: "string option \<Rightarrow> string list" where
  "server_words server = (case server of None \<Rightarrow> [] | Some s \<Rightarrow> [''-S'', s])"

subsection \<open>READ bandwidth by size\<close>

record size_args =
  za_lab :: string
  za_run_root :: string
  za_sizes :: "int list"
  za_target_bytes :: "int option"
  za_client_library_path :: "string option"
  za_timeout :: string

definition size_command :: "int \<Rightarrow> int \<Rightarrow> int \<Rightarrow> string option \<Rightarrow> string" where
  "size_command bytes iterations port server = join '' '' (sync_words @
     [library_option, ''urma_perftest'', ''read_bw'', ''-d'', ''udma0'', ''--eid_idx'', ''0'', ''--ctp'',
      ''-s'', str_int bytes, ''-P'', str_int port, ''-J'', ''1'', ''-I'', ''0'',
      ''-T'', ''8192'', ''-R'', ''8192'', ''-C'', ''524288'',
      ''-n'', str_int iterations, ''-l'', ''256'', ''-Q'', ''1'', ''-p'', ''0''] @ server_words server)"

definition parse_bandwidth :: "string \<Rightarrow> int \<Rightarrow> int \<Rightarrow> rates res" where
  "parse_bandwidth output bytes iterations =
     (let counts = jetty_counts output; exits = guest_exits output; rows = rx_findall (rx_rates bytes iterations) output in
      if counts \<noteq> [''1'', ''1''] \<or> exits \<noteq> [''0'', ''0''] \<or> length rows \<noteq> 2 \<or> rows ! 0 \<noteq> rows ! 1
      then Inl (ValueError (''invalid READ result: jettys='' @ repr_strs counts @ '', exits='' @ repr_strs exits @
        '', rows='' @ repr_rows rows))
      else float_row (rows ! 0))"

definition size_iterations :: "int option \<Rightarrow> int \<Rightarrow> int" where
  "size_iterations target bytes = (case target of
       None \<Rightarrow> 16384
     | Some t \<Rightarrow> max 256 (min 16384 ((t div bytes div 256) * 256)))"

definition size_fields :: "string list" where
  "size_fields = [''sequence'', ''size_bytes'', ''iterations'', ''jettys'', ''peak_mib_s'', ''average_mib_s'',
     ''message_rate_mpps'', ''wall_seconds'', ''transcript'']"

definition size_serial :: "size_args \<Rightarrow> sweep_world \<Rightarrow> nat \<Rightarrow> int \<Rightarrow> int \<times> string" where
  "size_serial args w index bytes =
     (let iterations = size_iterations (za_target_bytes args) bytes; port = 21520 + int index in
      gw_serial w index (sweep_argv (za_lab args) (za_timeout args)
        (size_command bytes iterations port None,
         client_libraries (za_client_library_path args) (size_command bytes iterations port (Some ''10.0.0.1'')))))"

definition size_transcript :: "nat \<Rightarrow> int \<Rightarrow> string" where
  "size_transcript index bytes = ''read-bw-'' @ pad2 index @ ''-s'' @ str_int bytes @ ''.uart.txt''"

definition size_row :: "size_args \<Rightarrow> sweep_world \<Rightarrow> nat \<Rightarrow> int \<Rightarrow> rates \<Rightarrow> table_row" where
  "size_row args w index bytes r = (case r of (peak, average, mpps) \<Rightarrow>
     [(''sequence'', CInt (int index + 1)), (''size_bytes'', CInt bytes),
      (''iterations'', CInt (size_iterations (za_target_bytes args) bytes)), (''jettys'', CInt 1),
      (''peak_mib_s'', CFloat peak), (''average_mib_s'', CFloat average), (''message_rate_mpps'', CFloat mpps),
      (''wall_seconds'', CText (gw_wall w index)), (''transcript'', CText (size_transcript index bytes))])"

definition size_case :: "size_args \<Rightarrow> sweep_world \<Rightarrow> nat \<Rightarrow> int \<Rightarrow> sweep_case" where
  "size_case args w index bytes =
     (let (returncode, stdout) = size_serial args w index bytes in
      ((size_transcript index bytes, stdout),
       if returncode \<noteq> 0 then Inr None
       else case parse_bandwidth stdout bytes (size_iterations (za_target_bytes args) bytes) of
         Inl e \<Rightarrow> if is_ValueError e then Inr None else Inl e
       | Inr r \<Rightarrow> map_sum id Some (writerow size_fields (size_row args w index bytes r))))"

definition READY_RUN :: "string list" where
  "READY_RUN = [''profile=modern'', ''sync_request=roi'', ''ub_port_count=1'']"

definition size_main :: "size_args \<Rightarrow> sweep_world \<Rightarrow> int res \<times> sweep_out" where
  "size_main args w =
     (if list_ex (\<lambda>bytes. bytes < 1) (za_sizes args) then (Inl (SystemExit 2), no_output)
      else if za_target_bytes args \<noteq> None \<and> the (za_target_bytes args) < 1 then (Inl (SystemExit 2), no_output)
      else sweep_start w (lacking READY_RUN) (\<lambda>_. sweep_loop (size_case args w) 0 (za_sizes args) no_output))"

subsection \<open>READ latency by size\<close>

record latency_args =
  ya_lab :: string
  ya_run_root :: string
  ya_sizes :: "int list"
  ya_iterations :: int
  ya_client_library_path :: "string option"
  ya_timeout :: string

definition read_lat_command :: "int \<Rightarrow> int \<Rightarrow> int \<Rightarrow> string option \<Rightarrow> string" where
  "read_lat_command bytes iterations port server = join '' '' (sync_words @
     [library_option, ''urma_perftest'', ''read_lat'', ''-d'', ''udma0'', ''--eid_idx'', ''0'', ''--ctp'',
      ''-s'', str_int bytes, ''-P'', str_int port, ''-J'', ''1'', ''-I'', ''128'',
      ''-T'', ''8192'', ''-R'', ''8192'', ''-C'', ''524288'',
      ''-n'', str_int iterations, ''-Q'', ''1'', ''-p'', ''0''] @ server_words server)"

definition latency_columns :: "string list" where
  "latency_columns = [''samples'', ''minimum_us'', ''maximum_us'', ''median_us'', ''average_us'', ''stdev_us'', ''p99_us'',
     ''p999_us'', ''p9999_us'', ''p99999_us'']"

definition parse_latency :: "string \<Rightarrow> int \<Rightarrow> sdict res" where
  "parse_latency output bytes =
     (let matches = rx_findall (rx_latency bytes) output; exits = guest_exits output; jettys = jetty_counts output in
      if length matches \<noteq> 1 \<or> exits \<noteq> [''0'', ''0''] \<or> jettys \<noteq> [''1'', ''1'']
      then Inl (ValueError (''invalid READ latency result: rows='' @ repr_rows matches @ '', exits='' @ repr_strs exits @
        '', jettys='' @ repr_strs jettys))
      else Inr (zip latency_columns (matches ! 0)))"

definition latency_fields :: "string list" where
  "latency_fields = [''sequence'', ''size_bytes'', ''requested_iterations'', ''wall_seconds''] @ latency_columns @ [''transcript'']"

definition latency_serial :: "latency_args \<Rightarrow> sweep_world \<Rightarrow> nat \<Rightarrow> int \<Rightarrow> int \<times> string" where
  "latency_serial args w index bytes =
     (let command = read_lat_command bytes (ya_iterations args) (21800 + int index) in
      gw_serial w index (sweep_argv (ya_lab args) (ya_timeout args)
        (command None, client_libraries (ya_client_library_path args) (command (Some ''10.0.0.1'')))))"

definition latency_transcript :: "nat \<Rightarrow> int \<Rightarrow> string" where
  "latency_transcript index bytes = ''read-lat-'' @ pad2 index @ ''-s'' @ str_int bytes @ ''.uart.txt''"

definition latency_row :: "latency_args \<Rightarrow> sweep_world \<Rightarrow> nat \<Rightarrow> int \<Rightarrow> sdict \<Rightarrow> table_row" where
  "latency_row args w index bytes parsed = dict_update
     [(''sequence'', CInt (int index + 1)), (''size_bytes'', CInt bytes), (''requested_iterations'', CInt (ya_iterations args)),
      (''wall_seconds'', CText (gw_wall w index)), (''transcript'', CText (latency_transcript index bytes))]
     (map (map_prod id CText) parsed)"

definition latency_case :: "latency_args \<Rightarrow> sweep_world \<Rightarrow> nat \<Rightarrow> int \<Rightarrow> sweep_case" where
  "latency_case args w index bytes =
     (let (returncode, stdout) = latency_serial args w index bytes in
      ((latency_transcript index bytes, stdout),
       if returncode \<noteq> 0 \<or> sweep_fences w (ya_run_root args) index \<noteq> [] then Inr None
       else case parse_latency stdout bytes of
         Inl e \<Rightarrow> if is_ValueError e then Inr None else Inl e
       | Inr parsed \<Rightarrow> map_sum id Some (writerow latency_fields (latency_row args w index bytes parsed))))"

definition latency_main :: "latency_args \<Rightarrow> sweep_world \<Rightarrow> int res \<times> sweep_out" where
  "latency_main args w =
     sweep_start w (lacking READY_RUN) (\<lambda>_. sweep_loop (latency_case args w) 0 (ya_sizes args) no_output)"

end
