(* ===== verification/Jetty_Sweeps.thy ===== *)
theory Jetty_Sweeps
  imports Sweeps
begin

section \<open>Sweeps over the number of Jettys\<close>

text \<open>
  Model of \<^verbatim>\<open>tools/run_gem5_write_jetty_sweep.py\<close> and \<^verbatim>\<open>tools/run_gem5_rma_jetty_compare.py\<close>.  Lists of
  Jetty counts and sizes are never empty (\<^verbatim>\<open>nargs="+"\<close>).
\<close>

subsection \<open>WRITE bandwidth by Jettys\<close>

record write_args =
  wa_lab :: string
  wa_run_root :: string
  wa_jettys :: "int list"
  wa_total_ops :: int
  wa_queue_depth :: int
  wa_jfc_depth :: int
  wa_post_list :: int
  wa_timeout :: string

definition write_command :: "int \<Rightarrow> int \<Rightarrow> int \<Rightarrow> string option \<Rightarrow> int \<Rightarrow> int \<Rightarrow> int \<Rightarrow> string" where
  "write_command jettys iterations port server queue_depth jfc_depth post_list = join '' '' (sync_words @
     [library_option, ''urma_perftest'', ''write_bw'', ''-d'', ''udma0'', ''--eid_idx'', ''0'', ''--ctp'',
      ''-s'', ''512'', ''-P'', str_int port, ''-J'', str_int jettys, ''--jettys_pre_jfr'', ''1'', ''-I'', ''0'',
      ''-T'', str_int queue_depth, ''-R'', str_int queue_depth, ''-C'', str_int jfc_depth, ''-n'', str_int iterations,
      ''-l'', str_int post_list, ''-Q'', ''1'', ''-p'', ''0''] @ server_words server)"

definition parse_write :: "string \<Rightarrow> int \<Rightarrow> int \<Rightarrow> rates res" where
  "parse_write output jettys total_ops =
     (let counts = jetty_counts output in
      if counts \<noteq> [str_int jettys, str_int jettys] then Inl (ValueError (''Jetty headers differ: '' @ repr_strs counts))
      else let exits = guest_exits output in
      if exits \<noteq> [''0'', ''0''] then Inl (ValueError (''guest exit codes differ: '' @ repr_strs exits))
      else let rows = rx_findall (rx_rates 512 total_ops) output in
      if length rows \<noteq> 2 \<or> rows ! 0 \<noteq> rows ! 1
      then Inl (ValueError (''expected two matching WRITE rows, got '' @ repr_rows rows))
      else float_row (rows ! 0))"

definition write_fields :: "string list" where
  "write_fields = [''jettys'', ''iterations_per_jetty'', ''total_operations'', ''queue_depth'', ''jfc_depth'', ''post_list'',
     ''peak_mib_s'', ''average_mib_s'', ''message_rate_mpps'', ''wall_seconds'', ''transcript'']"

definition bad_jettys :: "int \<Rightarrow> int \<Rightarrow> int \<Rightarrow> bool" where
  "bad_jettys total_ops post_list count \<longleftrightarrow> count < 1 \<or> total_ops mod count \<noteq> 0 \<or> total_ops div count < post_list"

definition max_window :: "int \<Rightarrow> int \<Rightarrow> int list \<Rightarrow> int" where
  "max_window depth total_ops jettys = Max (set (map (\<lambda>count. count * min depth (total_ops div count)) jettys))"

text \<open>
  The last part of a case: errors of the fences and of \<^verbatim>\<open>parse_result\<close> are collected, and any of them or
  an exit code other than 0 ends the sweep.
\<close>

definition rated_case :: "int \<Rightarrow> string list \<Rightarrow> rates res \<Rightarrow> (rates \<Rightarrow> table_row res) \<Rightarrow> table_row option res" where
  "rated_case returncode errors parsed row = (case parsed of
       Inl e \<Rightarrow> if is_ValueError e then Inr None else Inl e
     | Inr r \<Rightarrow> if returncode \<noteq> 0 \<or> errors \<noteq> [] then Inr None else map_sum id Some (row r))"

definition write_serial :: "write_args \<Rightarrow> sweep_world \<Rightarrow> nat \<Rightarrow> int \<Rightarrow> int \<times> string" where
  "write_serial args w index jettys =
     (let command = (\<lambda>server. write_command jettys (wa_total_ops args div jettys) (21520 + int index) server
        (wa_queue_depth args) (wa_jfc_depth args) (wa_post_list args)) in
      gw_serial w index (sweep_argv (wa_lab args) (wa_timeout args) (command None, command (Some ''10.0.0.1''))))"

definition write_transcript :: "nat \<Rightarrow> int \<Rightarrow> string" where
  "write_transcript index jettys = ''write-bw-512-'' @ pad2 index @ ''-j'' @ str_int jettys @ ''.uart.txt''"

definition write_row :: "write_args \<Rightarrow> sweep_world \<Rightarrow> nat \<Rightarrow> int \<Rightarrow> rates \<Rightarrow> table_row" where
  "write_row args w index jettys r = (case r of (peak, average, mpps) \<Rightarrow>
     [(''jettys'', CInt jettys), (''iterations_per_jetty'', CInt (wa_total_ops args div jettys)),
      (''total_operations'', CInt (wa_total_ops args)), (''queue_depth'', CInt (wa_queue_depth args)),
      (''jfc_depth'', CInt (wa_jfc_depth args)), (''post_list'', CInt (wa_post_list args)),
      (''peak_mib_s'', CFloat peak), (''average_mib_s'', CFloat average), (''message_rate_mpps'', CFloat mpps),
      (''wall_seconds'', CText (gw_wall w index)), (''transcript'', CText (write_transcript index jettys))])"

definition write_case :: "write_args \<Rightarrow> sweep_world \<Rightarrow> nat \<Rightarrow> int \<Rightarrow> sweep_case" where
  "write_case args w index jettys =
     (let (returncode, stdout) = write_serial args w index jettys in
      ((write_transcript index jettys, stdout),
       rated_case returncode (sweep_fences w (wa_run_root args) index) (parse_write stdout jettys (wa_total_ops args))
         (\<lambda>r. writerow write_fields (write_row args w index jettys r))))"

definition write_main :: "write_args \<Rightarrow> sweep_world \<Rightarrow> int res \<times> sweep_out" where
  "write_main args w =
     (if list_ex (bad_jettys (wa_total_ops args) (wa_post_list args)) (wa_jettys args) then (Inl (SystemExit 2), no_output)
      else if wa_queue_depth args < wa_post_list args \<or> wa_queue_depth args > 8192 then (Inl (SystemExit 2), no_output)
      else if wa_jfc_depth args < max_window (wa_queue_depth args) (wa_total_ops args) (wa_jettys args)
      then (Inl (SystemExit 2), no_output)
      else sweep_start w (lacking [''profile=modern'', ''sync_request=roi''])
        (\<lambda>_. sweep_loop (write_case args w) 0 (wa_jettys args) no_output))"

subsection \<open>READ and WRITE by Jettys\<close>

record compare_args =
  ca_lab :: string
  ca_run_root :: string
  ca_size :: int
  ca_jettys :: "int list"
  ca_total_ops :: int
  ca_depth :: int
  ca_jfc_depth :: int
  ca_post_list :: int
  ca_repeat_one :: bool
  ca_timeout :: string

definition compare_command :: "string \<Rightarrow> int \<Rightarrow> int \<Rightarrow> int \<Rightarrow> int \<Rightarrow> string option \<Rightarrow> int \<Rightarrow> int \<Rightarrow> int \<Rightarrow> string" where
  "compare_command op bytes jettys iterations port server depth jfc_depth post_list = join '' '' (sync_words @
     [library_option, ''urma_perftest'', op @ ''_bw'', ''-d'', ''udma0'', ''--eid_idx'', ''0'', ''--ctp'',
      ''-s'', str_int bytes, ''-P'', str_int port, ''-J'', str_int jettys, ''--jettys_pre_jfr'', ''1'', ''-I'', ''0'',
      ''-T'', str_int depth, ''-R'', str_int depth, ''-C'', str_int jfc_depth, ''-n'', str_int iterations,
      ''-l'', str_int post_list, ''-Q'', ''1'', ''-p'', ''0''] @ server_words server)"

definition parse_compare :: "string \<Rightarrow> int \<Rightarrow> int \<Rightarrow> int \<Rightarrow> rates res" where
  "parse_compare output bytes jettys total_ops =
     (let counts = jetty_counts output; exits = guest_exits output; rows = rx_findall (rx_rates bytes total_ops) output in
      if counts \<noteq> replicate 2 (str_int jettys) \<or> exits \<noteq> replicate 2 ''0'' \<or> length rows \<noteq> 2 \<or> rows ! 0 \<noteq> rows ! 1
      then Inl (ValueError (''invalid result: jettys='' @ repr_strs counts @ '', exits='' @ repr_strs exits @ '', rows='' @ repr_rows rows))
      else float_row (rows ! 0))"

definition compare_cases :: "compare_args \<Rightarrow> (string \<times> int \<times> bool) list" where
  "compare_cases args =
     concat (map (\<lambda>j. map (\<lambda>op. (op, j, False)) [''read'', ''write'']) (ca_jettys args)) @
     (if ca_repeat_one args then map (\<lambda>op. (op, 1, True)) [''read'', ''write''] else [])"

definition compare_fields :: "string list" where
  "compare_fields = [''sequence'', ''operation'', ''jettys'', ''repeat'', ''size_bytes'', ''iterations_per_jetty'',
     ''total_operations'', ''queue_depth'', ''jfc_depth'', ''post_list'', ''peak_mib_s'', ''average_mib_s'',
     ''message_rate_mpps'', ''wall_seconds'', ''transcript'']"

definition compare_serial :: "compare_args \<Rightarrow> sweep_world \<Rightarrow> nat \<Rightarrow> string \<times> int \<times> bool \<Rightarrow> int \<times> string" where
  "compare_serial args w index c = (case c of (op, jettys, again) \<Rightarrow>
     let command = (\<lambda>server. compare_command op (ca_size args) jettys (ca_total_ops args div jettys) (21600 + int index) server
       (ca_depth args) (ca_jfc_depth args) (ca_post_list args)) in
     gw_serial w index (sweep_argv (ca_lab args) (ca_timeout args) (command None, command (Some ''10.0.0.1''))))"

definition compare_transcript :: "compare_args \<Rightarrow> nat \<Rightarrow> string \<times> int \<times> bool \<Rightarrow> string" where
  "compare_transcript args index c = (case c of (op, jettys, again) \<Rightarrow>
     pad2 index @ ''-'' @ op @ ''-s'' @ str_int (ca_size args) @ ''-j'' @ str_int jettys @
     (if again then ''-repeat'' else []) @ ''.uart.txt'')"

definition compare_row :: "compare_args \<Rightarrow> sweep_world \<Rightarrow> nat \<Rightarrow> string \<times> int \<times> bool \<Rightarrow> rates \<Rightarrow> table_row" where
  "compare_row args w index c r = (case c of (op, jettys, again) \<Rightarrow> case r of (peak, average, mpps) \<Rightarrow>
     [(''sequence'', CInt (int index + 1)), (''operation'', CText op), (''jettys'', CInt jettys),
      (''repeat'', CInt (if again then 1 else 0)), (''size_bytes'', CInt (ca_size args)),
      (''iterations_per_jetty'', CInt (ca_total_ops args div jettys)), (''total_operations'', CInt (ca_total_ops args)),
      (''queue_depth'', CInt (ca_depth args)), (''jfc_depth'', CInt (ca_jfc_depth args)), (''post_list'', CInt (ca_post_list args)),
      (''peak_mib_s'', CFloat peak), (''average_mib_s'', CFloat average), (''message_rate_mpps'', CFloat mpps),
      (''wall_seconds'', CText (gw_wall w index)), (''transcript'', CText (compare_transcript args index c))])"

definition compare_case :: "compare_args \<Rightarrow> sweep_world \<Rightarrow> nat \<Rightarrow> string \<times> int \<times> bool \<Rightarrow> sweep_case" where
  "compare_case args w index c =
     (let (returncode, stdout) = compare_serial args w index c in
      ((compare_transcript args index c, stdout),
       rated_case returncode (sweep_fences w (ca_run_root args) index) (parse_compare stdout (ca_size args) (fst (snd c)) (ca_total_ops args))
         (\<lambda>r. writerow compare_fields (compare_row args w index c r))))"

definition SINGLE_PORT_RUN :: "string list" where
  "SINGLE_PORT_RUN = [''profile=modern'', ''sync_request=roi'', ''ub_port_count=1'', ''peer_link_rate_gbps=400'']"

definition compare_main :: "compare_args \<Rightarrow> sweep_world \<Rightarrow> int res \<times> sweep_out" where
  "compare_main args w =
     (if ca_size args < 1 \<or> ca_post_list args < 1 \<or> ca_depth args < ca_post_list args \<or> ca_depth args > 8192
      then (Inl (SystemExit 2), no_output)
      else if list_ex (bad_jettys (ca_total_ops args) (ca_post_list args)) (ca_jettys args) then (Inl (SystemExit 2), no_output)
      else if ca_jfc_depth args < max_window (ca_depth args) (ca_total_ops args) (ca_jettys args)
      then (Inl (SystemExit 2), no_output)
      else sweep_start w (lacking SINGLE_PORT_RUN)
        (\<lambda>_. sweep_loop (compare_case args w) 0 (compare_cases args) no_output))"

end
