(* ===== verification/Read_Profiles.thy ===== *)
theory Read_Profiles
  imports Jetty_Sweeps
begin

section \<open>Profiled READ runs and scans of two simulators\<close>

text \<open>
  Model of \<^verbatim>\<open>tools/profile_gem5_read_jettys.py\<close>, which adds instrumentation of the client to a sweep, and of
  \<^verbatim>\<open>tools/run_read_compare_scan.py\<close>, which measures latency and then bandwidth of either simulator.
\<close>

subsection \<open>Profiles by Jettys\<close>

record profile_args =
  pa_lab :: string
  pa_run_root :: string
  pa_jettys :: "int list"
  pa_total_ops :: int
  pa_aggregate_depth :: "int option"
  pa_client_preload :: "string option"
  pa_client_binary :: "string option"
  pa_client_env :: "string option"
  pa_client_stats_helper :: "string option"
  pa_client_library_path :: "string option"
  pa_pin_cpu :: "int option"
  pa_client_provider_profile :: bool
  pa_no_peak :: bool
  pa_timeout :: string

text \<open>An option given and not empty (or not zero) is true.\<close>

definition given :: "string option \<Rightarrow> bool" where
  "given opt \<longleftrightarrow> opt \<noteq> None \<and> opt \<noteq> Some []"

definition aggregate :: "profile_args \<Rightarrow> int option" where
  "aggregate args = (if pa_aggregate_depth args = Some 0 then None else pa_aggregate_depth args)"

definition case_depth :: "profile_args \<Rightarrow> int \<Rightarrow> int" where
  "case_depth args j = (case aggregate args of None \<Rightarrow> 8192 | Some d \<Rightarrow> d div j)"

definition profile_server :: "profile_args \<Rightarrow> string \<Rightarrow> string" where
  "profile_server args command =
     (let c1 = (if pa_no_peak args then command @ '' -N'' else command) in
      case pa_pin_cpu args of
        None \<Rightarrow> c1
      | Some cpu \<Rightarrow> replace_first ''urma_perftest'' (''taskset '' @ show_hex (2 ^ nat cpu) @ '' urma_perftest'') c1)"

definition profile_client :: "profile_args \<Rightarrow> string \<Rightarrow> string" where
  "profile_client args command =
     (let c1 = (if pa_no_peak args then command @ '' -N'' else command);
          c2 = (if given (pa_client_preload args) then ''LD_PRELOAD='' @ shlex_quote (the (pa_client_preload args)) @ '' '' @ c1 else c1);
          binary = (if given (pa_client_binary args) then shlex_quote (the (pa_client_binary args)) else ''urma_perftest'');
          c3 = (if given (pa_client_binary args) then replace_first ''urma_perftest'' binary c2 else c2);
          c4 = client_libraries (pa_client_library_path args) c3;
          c5 = (case pa_pin_cpu args of
                  None \<Rightarrow> c4
                | Some cpu \<Rightarrow> replace_first binary (''taskset '' @ show_hex (2 ^ nat cpu) @ '' '' @ binary) c4);
          c6 = (if given (pa_client_env args) then the (pa_client_env args) @ '' '' @ c5 else c5) in
      if given (pa_client_stats_helper args)
      then (let helper = shlex_quote (the (pa_client_stats_helper args)) in
        helper @ '' r && ( '' @ c6 @ '' ); __ubsim_read_rc=$?; '' @ helper @ '' d; test $__ubsim_read_rc -eq 0'')
      else c6)"

definition profile_fields :: "string list" where
  "profile_fields =
     [''sequence'', ''jettys'', ''iterations_per_jetty'', ''total_operations'', ''effective_jfs_depth'', ''peak_mib_s'',
      ''average_mib_s'', ''message_rate_mpps'', ''wall_seconds'', ''transcript''] @
     map (\<lambda>k. ''phase_'' @ k)
       [''frequency_hz'', ''span_ticks'', ''post_jetty_calls'', ''post_jetty_ticks'', ''post_jfs_calls'', ''post_jfs_ticks'',
        ''poll_calls'', ''poll_ticks'', ''poll_empty_calls'', ''poll_empty_ticks'', ''poll_positive_calls'', ''poll_positive_ticks'',
        ''cqes'', ''other_ticks'', ''gap_post_post_ticks'', ''gap_post_poll_ticks'', ''gap_poll_post_ticks'', ''gap_poll_poll_ticks'',
        ''gap_post_post_calls'', ''gap_post_poll_calls'', ''gap_poll_post_calls'', ''gap_poll_poll_calls'', ''gap_post_post_max'',
        ''gap_post_poll_max'', ''gap_poll_post_max'', ''gap_poll_poll_max'', ''post_max'', ''poll_max''] @
     map (\<lambda>k. ''loop_'' @ k)
       [''frequency_hz'', ''outer_loops'', ''jetty_visits'', ''post_calls'', ''poll_calls'', ''cqes'', ''empty_polls'', ''scan_ticks'',
        ''post_ticks'', ''poll_ticks'', ''account_ticks''] @
     map (\<lambda>k. ''inner_'' @ k)
       [''frequency_hz'', ''post_calls'', ''post_wrs'', ''post_lock_calls'', ''post_total_ticks'', ''post_encode_ticks'',
        ''post_barrier_ticks'', ''post_db_ticks'', ''poll_calls'', ''poll_cqes'', ''poll_empty_calls'', ''poll_lock_calls'',
        ''poll_total_ticks'', ''poll_scan_ticks'', ''poll_db_ticks'', ''cqe_samples'', ''cqe_lookup_ticks'', ''cqe_barrier_ticks'',
        ''cqe_parse_ticks'', ''cqe_timer_pair_ticks'', ''cqe_relookup_ticks'', ''wqe_samples'', ''wqe_check_ticks'', ''wqe_set_ticks'',
        ''wqe_queue_ticks'', ''wqe_timer_pair_ticks'', ''sqe_samples'', ''sqe_check_ticks'', ''sqe_prepare_ticks'', ''sqe_parse_ticks'']"

definition rx_profile_line :: "string \<Rightarrow> rx" where
  "rx_profile_line tag = rx_seq [Bol, rx_lit (''['' @ tag @ ''] ''), Grp (Star (Cls (\<lambda>c. c \<noteq> CHR 0x0A))), Eol]"

text \<open>
  One of the three profile lines.  Its counters join the columns under a prefix, and the number of
  completions must be the number of operations; the digits of a match are always a number.
\<close>

definition profile_line :: "string \<Rightarrow> string \<Rightarrow> string \<Rightarrow> string \<Rightarrow> string \<Rightarrow> int \<Rightarrow> sdict \<times> string list \<Rightarrow> sdict \<times> string list" where
  "profile_line tag prefix what cqes output total_ops st = (case st of (phase, errors) \<Rightarrow>
     (case rx_findall (rx_profile_line tag) output of
        [gs] \<Rightarrow>
          (let phase1 = dict_update phase (dict_update [] (map (\<lambda>kv. (prefix @ kv ! 0, kv ! 1)) (rx_findall rx_fields (hd gs)))) in
           (phase1, errors @ (if parse_int (dict_get (prefix @ cqes) ''-1'' phase1) \<noteq> Some total_ops
              then [what @ '' CQE count mismatch: '' @ dict_get (prefix @ cqes) ''None'' phase1] else [])))
      | matches \<Rightarrow> (phase, errors @ [''expected one '' @ tag @ '' row, got '' @ show_nat (length matches)])))"

definition profile_lines :: "profile_args \<Rightarrow> string \<Rightarrow> sdict \<times> string list" where
  "profile_lines args output =
     (let line = (\<lambda>wanted tag prefix what cqes st.
        if wanted then profile_line tag prefix what cqes output (pa_total_ops args) st else st) in
      line (pa_client_provider_profile args) ''UDMA_INNER'' ''inner_'' ''provider'' ''poll_cqes''
        (line (given (pa_client_binary args)) ''URMA_LOOP'' ''loop_'' ''loop'' ''cqes''
          (line (given (pa_client_preload args)) ''URMA_PHASE'' ''phase_'' ''phase'' ''cqes'' ([], []))))"

text \<open>The statistics of both nodes are copied from their old end on; a missing file is an error.\<close>

definition read_stats :: "profile_args \<Rightarrow> sweep_world \<Rightarrow> nat \<Rightarrow> unit res" where
  "read_stats args w index = rbind (gw_file w index (path_under (pa_run_root args) ''node0/stats.txt'')) (\<lambda>_.
     rbind (gw_file w index (path_under (pa_run_root args) ''node1/stats.txt'')) (\<lambda>_. Inr ()))"

definition profile_serial :: "profile_args \<Rightarrow> sweep_world \<Rightarrow> nat \<Rightarrow> int \<Rightarrow> int \<times> string" where
  "profile_serial args w index jettys =
     (let command = (\<lambda>server. compare_command ''read'' 128 jettys (pa_total_ops args div jettys) (21700 + int index) server
        (case_depth args jettys) 524288 256) in
      gw_serial w index (sweep_argv (pa_lab args) (pa_timeout args)
        (profile_server args (command None), profile_client args (command (Some ''10.0.0.1'')))))"

definition profile_transcript :: "nat \<Rightarrow> int \<Rightarrow> string" where
  "profile_transcript index jettys = pad2 index @ ''-read-s128-j'' @ str_int jettys @ ''.uart.txt''"

definition profile_row :: "profile_args \<Rightarrow> sweep_world \<Rightarrow> nat \<Rightarrow> int \<Rightarrow> sdict \<Rightarrow> rates \<Rightarrow> table_row" where
  "profile_row args w index jettys phase r = (case r of (peak, average, mpps) \<Rightarrow> dict_update
     [(''sequence'', CInt (int index + 1)), (''jettys'', CInt jettys), (''iterations_per_jetty'', CInt (pa_total_ops args div jettys)),
      (''total_operations'', CInt (pa_total_ops args)), (''effective_jfs_depth'', CInt (case_depth args jettys)),
      (''peak_mib_s'', CFloat peak), (''average_mib_s'', CFloat average), (''message_rate_mpps'', CFloat mpps),
      (''wall_seconds'', CText (gw_wall w index)), (''transcript'', CText (profile_transcript index jettys))]
     (map (map_prod id CText) phase))"

definition profile_case :: "profile_args \<Rightarrow> sweep_world \<Rightarrow> nat \<Rightarrow> int \<Rightarrow> sweep_case" where
  "profile_case args w index jettys =
     (let (returncode, stdout) = profile_serial args w index jettys; (phase, errors) = profile_lines args stdout in
      ((profile_transcript index jettys, stdout),
       rbind (read_stats args w index) (\<lambda>_.
         rated_case returncode (sweep_fences w (pa_run_root args) index @ errors) (parse_compare stdout 128 jettys (pa_total_ops args))
           (\<lambda>r. writerow profile_fields (profile_row args w index jettys phase r)))))"

definition bad_profile :: "profile_args \<Rightarrow> int \<Rightarrow> bool" where
  "bad_profile args j \<longleftrightarrow> j < 1 \<or> pa_total_ops args mod j \<noteq> 0 \<or>
     (case aggregate args of None \<Rightarrow> False | Some d \<Rightarrow> d mod j \<noteq> 0) \<or> pa_total_ops args div j < case_depth args j"

definition profile_main :: "profile_args \<Rightarrow> sweep_world \<Rightarrow> int res \<times> sweep_out" where
  "profile_main args w =
     (if (case pa_pin_cpu args of None \<Rightarrow> False | Some cpu \<Rightarrow> cpu < 0) then (Inl (SystemExit 2), no_output)
      else if list_ex (bad_profile args) (pa_jettys args) then (Inl (SystemExit 2), no_output)
      else if (case aggregate args of None \<Rightarrow> False | Some d \<Rightarrow> d < Max (set (pa_jettys args)) * 256 \<or> d > 8192)
      then (Inl (SystemExit 2), no_output)
      else sweep_start w (lacking SINGLE_PORT_RUN)
        (\<lambda>_. sweep_loop (profile_case args w) 0 (pa_jettys args) no_output))"

subsection \<open>Scans of two simulators\<close>

datatype scan_kind = Lat | Bw

record scan_args =
  na_gem5 :: bool
  na_run_root :: string
  na_script :: string
  na_sizes :: "int list"
  na_bw_iterations :: int
  na_lat_iterations :: int
  na_bw_target_bytes :: int
  na_timeout :: int
  na_allow_unsynchronized :: bool

text \<open>
  Standard output and error are apart here.  The cases of the second kind are numbered after those of
  the first in the world.
\<close>

record scan_world = sweep_world +
  nw_stderr :: "nat \<Rightarrow> string"
  nw_sync_ready :: bool

fun kind_name :: "scan_kind \<Rightarrow> string" where
  "kind_name Lat = ''lat''"
| "kind_name Bw = ''bw''"

definition read_scan_command :: "bool \<Rightarrow> scan_kind \<Rightarrow> int \<Rightarrow> int \<Rightarrow> int \<Rightarrow> bool \<Rightarrow> string" where
  "read_scan_command gem5 kind bytes count port client =
     (if gem5 then ''UBSIM_DIST_SYNC=1 OPENURMA_DIST_SYNC=1 '' else '''') @
     ''LD_LIBRARY_PATH=/lib:/usr/lib urma_perftest read_'' @ kind_name kind @ '' '' @
     ''-d udma0 --eid_idx 0 --ctp -s '' @ str_int bytes @ '' -P '' @ str_int port @ '' -J 1 -T 8192 -R 8192 -C 524288 -n '' @
     str_int count @ '' -Q 1 -p 0'' @
     (case kind of Bw \<Rightarrow> '' -I 0 -l 256'' | Lat \<Rightarrow> '' -I 128'') @
     (if client then '' -S 10.0.0.1'' else '''')"

definition scan_count :: "scan_args \<Rightarrow> scan_kind \<Rightarrow> int \<Rightarrow> int" where
  "scan_count args kind bytes = (case kind of
       Lat \<Rightarrow> na_lat_iterations args
     | Bw \<Rightarrow> max 256 (min (na_bw_iterations args) (na_bw_target_bytes args div bytes div 256 * 256)))"

fun scan_fields :: "scan_kind \<Rightarrow> string list" where
  "scan_fields Lat = [''size_bytes'', ''iterations'', ''samples'', ''average_us'', ''p99_us'', ''wall_seconds'', ''transcript'']"
| "scan_fields Bw = [''size_bytes'', ''iterations'', ''peak_mib_s'', ''average_mib_s'', ''message_rate_mpps'', ''wall_seconds'', ''transcript'']"

definition scan_row :: "scan_kind \<Rightarrow> string \<Rightarrow> int \<Rightarrow> int \<Rightarrow> string \<Rightarrow> string \<Rightarrow> table_row res" where
  "scan_row kind stdout bytes count wall transcript =
     (let first = [(''size_bytes'', CInt bytes), (''iterations'', CInt count)];
          rest = [(''wall_seconds'', CText wall), (''transcript'', CText transcript)] in
      case kind of
        Lat \<Rightarrow> rbind (parse_latency stdout bytes) (\<lambda>parsed.
          rbind (getitem ''samples'' parsed) (\<lambda>samples. rbind (getitem ''average_us'' parsed) (\<lambda>average.
          rbind (getitem ''p99_us'' parsed) (\<lambda>p99.
            Inr (first @ [(''samples'', CText samples), (''average_us'', CText average), (''p99_us'', CText p99)] @ rest)))))
      | Bw \<Rightarrow> rbind (parse_bandwidth stdout bytes count) (\<lambda>(peak, average, mpps).
            Inr (first @ [(''peak_mib_s'', CFloat peak), (''average_mib_s'', CFloat average), (''message_rate_mpps'', CFloat mpps)] @ rest)))"

definition scan_argv :: "scan_args \<Rightarrow> string \<Rightarrow> string \<Rightarrow> string list" where
  "scan_argv args server client =
     [''python3'', na_script args, ''--ports''] @ (if na_gem5 args then [''3460'', ''3470''] else [''3560'', ''3570'']) @
     [''--commands'', server, client, ''--stagger'', ''1'', ''--prompt-kick-after'', ''1'', ''--timeout'', str_int (na_timeout args),
      ''--full-output'']"

definition scan_serial :: "scan_args \<Rightarrow> scan_world \<Rightarrow> scan_kind \<Rightarrow> nat \<Rightarrow> nat \<Rightarrow> int \<Rightarrow> int \<times> string" where
  "scan_serial args w kind base index bytes =
     (let command = read_scan_command (na_gem5 args) kind bytes (scan_count args kind bytes)
        ((case kind of Lat \<Rightarrow> 22100 | Bw \<Rightarrow> 22200) + int index) in
      gw_serial w (base + index) (scan_argv args (command False) (command True)))"

definition scan_transcript :: "scan_kind \<Rightarrow> nat \<Rightarrow> int \<Rightarrow> string" where
  "scan_transcript kind index bytes = ''read-'' @ kind_name kind @ ''-'' @ pad2 index @ ''-s'' @ str_int bytes @ ''.uart.txt''"

definition scan_case :: "scan_args \<Rightarrow> scan_world \<Rightarrow> scan_kind \<Rightarrow> nat \<Rightarrow> nat \<Rightarrow> int \<Rightarrow> sweep_case" where
  "scan_case args w kind base index bytes =
     (let (returncode, stdout) = scan_serial args w kind base index bytes;
          transcript = scan_transcript kind index bytes;
          errors = (if na_gem5 args then sweep_fences w (na_run_root args) (base + index) else []) in
      ((transcript, stdout @ nw_stderr w (base + index)),
       if errors \<noteq> [] then Inl (RuntimeError (transcript @ '': synchronization errors: '' @ repr_strs errors))
       else if returncode \<noteq> 0 then Inl (RuntimeError (transcript @ '': command failed with '' @ str_int returncode))
       else rbind (scan_row kind stdout bytes (scan_count args kind bytes) (gw_wall w (base + index)) transcript) (\<lambda>row.
         map_sum id Some (writerow (scan_fields kind) row))))"

definition sync_marker :: "scan_args \<Rightarrow> string" where
  "sync_marker args = (if na_gem5 args then ''sync_request=roi'' else
     if na_allow_unsynchronized args then ''synchronization=off'' else ''synchronization=required'')"

text \<open>The results are the two tables; the second one is not opened when the first kind fails.\<close>

definition scan_main :: "scan_args \<Rightarrow> scan_world \<Rightarrow> int res \<times> sweep_out \<times> sweep_out option" where
  "scan_main args w =
     (if list_ex (\<lambda>bytes. bytes < 1) (na_sizes args) then (Inl (SystemExit 2), no_output, None)
      else case gw_manifest w of
        Inl e \<Rightarrow> (Inl e, no_output, None)
      | Inr manifest \<Rightarrow>
        if lacking [sync_marker args, ''node_count=2''] manifest then (Inl (SystemExit 2), no_output, None)
        else if na_gem5 args \<and> \<not> nw_sync_ready w then (Inl (SystemExit 2), no_output, None)
        else case gw_mkdir w of
          Inl e \<Rightarrow> (Inl e, no_output, None)
        | Inr _ \<Rightarrow>
          (let (result, lat) = sweep_loop (scan_case args w Lat 0) 0 (na_sizes args) no_output in
           if result \<noteq> Inr 0 then (result, lat, None)
           else let (result, bw) = sweep_loop (scan_case args w Bw (length (na_sizes args))) 0 (na_sizes args) no_output in
             (result, lat, Some bw)))"

end
