(* ===== verification/Regex_Groups.thy ===== *)
theory Regex_Groups
  imports Py_Regex
begin

section \<open>The number of groups of a match\<close>

text \<open>
  A pattern whose alternatives have the same number of groups, and whose repetitions have none, gives
  that number of groups in every match, so that indexing into a match never fails.
\<close>

fun rx_arity :: "rx \<Rightarrow> nat" where
  "rx_arity (Seq r s) = rx_arity r + rx_arity s"
| "rx_arity (Alt r s) = rx_arity r"
| "rx_arity (Grp r) = Suc (rx_arity r)"
| "rx_arity _ = 0"

fun rx_uniform :: "rx \<Rightarrow> bool" where
  "rx_uniform (Seq r s) \<longleftrightarrow> rx_uniform r \<and> rx_uniform s"
| "rx_uniform (Alt r s) \<longleftrightarrow> rx_uniform r \<and> rx_uniform s \<and> rx_arity r = rx_arity s"
| "rx_uniform (Star r) \<longleftrightarrow> rx_uniform r \<and> rx_arity r = 0"
| "rx_uniform (Lazy r) \<longleftrightarrow> rx_uniform r \<and> rx_arity r = 0"
| "rx_uniform (Grp r) \<longleftrightarrow> rx_uniform r"
| "rx_uniform _ \<longleftrightarrow> True"

lemma rx_run_groups:
  "(before', rest', gs') \<in> set (rx_run r (before, rest, gs)) \<Longrightarrow> rx_uniform r \<Longrightarrow> length gs' = length gs + rx_arity r"
proof (induction r "(before, rest, gs)" arbitrary: before rest gs before' rest' gs' rule: rx_run.induct)
  case (1 P)
  then show ?case by (auto split: list.splits if_splits)
next
  case (3 r s)
  then obtain b1 r1 g1 where p: "(b1, r1, g1) \<in> set (rx_run r (before, rest, gs))"
    "(before', rest', gs') \<in> set (rx_run s (b1, r1, g1))" by auto
  from "3.hyps"(1) [OF p(1)] "3.hyps"(2) [OF p(1) p(2)] "3.prems"(2) show ?case by auto
next
  case (4 r s)
  then show ?case by auto
next
  case (5 r)
  show ?case
  proof (cases "(before', rest', gs') = (before, rest, gs)")
    case False
    with "5.prems"(1) obtain b1 r1 g1 where p: "(b1, r1, g1) \<in> set (rx_run r (before, rest, gs))"
      "length r1 < length rest" "(before', rest', gs') \<in> set (rx_run (Star r) (b1, r1, g1))"
      by (auto simp del: rx_run.simps(5) simp: rx_run.simps(5) [of r "(before, rest, gs)"] split: if_splits)
    from "5.hyps"(1) [OF p(1)] "5.hyps"(2) [OF p(1) _ p(3)] p(2) "5.prems"(2) show ?thesis by auto
  qed simp
next
  case (6 r)
  then show ?case by fastforce
next
  case (11 r)
  show ?case
  proof (cases "(before', rest', gs') = (before, rest, gs)")
    case False
    with "11.prems"(1) obtain b1 r1 g1 where p: "(b1, r1, g1) \<in> set (rx_run r (before, rest, gs))"
      "length r1 < length rest" "(before', rest', gs') \<in> set (rx_run (Lazy r) (b1, r1, g1))"
      by (auto simp del: rx_run.simps(11) simp: rx_run.simps(11) [of r "(before, rest, gs)"] split: if_splits)
    from "11.hyps"(1) [OF p(1)] "11.hyps"(2) [OF p(1) _ p(3)] p(2) "11.prems"(2) show ?thesis by auto
  qed simp
qed (auto split: if_splits)

lemma rx_findall_fuel_groups:
  "rx_uniform r \<Longrightarrow> gs \<in> set (rx_findall_fuel n r before rest) \<Longrightarrow> length gs = rx_arity r"
proof (induction n r before rest rule: rx_findall_fuel.induct)
  case (2 n r before rest)
  show ?case
  proof (cases "rx_run r (before, rest, [])")
    case Nil
    with 2 show ?thesis by (cases rest) auto
  next
    case (Cons p ps)
    obtain b1 r1 g1 where p: "p = (b1, r1, g1)" by (cases p) auto
    have g1: "length g1 = rx_arity r"
      using rx_run_groups [of b1 r1 g1 r before rest "[]"] Cons p "2.prems"(1) by simp
    from 2 Cons p g1 show ?thesis by (cases rest) (auto split: if_splits)
  qed
qed simp

lemma rx_findall_groups: "rx_uniform r \<Longrightarrow> gs \<in> set (rx_findall r s) \<Longrightarrow> length gs = rx_arity r"
  unfolding rx_findall_def by (rule rx_findall_fuel_groups)

text \<open>Literals have no group.\<close>

lemma rx_lit_uniform [simp]: "rx_uniform (rx_lit s)" "rx_arity (rx_lit s) = 0"
proof -
  have "rx_uniform (rx_lit s) \<and> rx_arity (rx_lit s) = 0"
  proof (induction s)
    case Nil
    then show ?case by (simp add: rx_lit_def)
  next
    case (Cons c s)
    then show ?case by (cases s) (simp_all add: rx_lit_def)
  qed
  then show "rx_uniform (rx_lit s)" "rx_arity (rx_lit s) = 0" by auto
qed

end
