(* ===== verification/Sweep_Facts.thy ===== *)
theory Sweep_Facts
  imports Read_Profiles Regex_Groups
begin

section \<open>What a sweep has measured\<close>

text \<open>
  The contract of a case of a sweep (locale \<open>case_sweep\<close>), its consequence for the loop, and one
  interpretation for each sweep.  An accepted case is described by what both guests printed and by
  the fences of all participants, not by the checks.
\<close>

subsection \<open>Transcripts and fences\<close>

definition transcript_shows :: "string \<Rightarrow> int \<Rightarrow> int \<Rightarrow> int \<Rightarrow> rates \<Rightarrow> bool" where
  "transcript_shows output bytes jettys ops r \<longleftrightarrow>
     jetty_counts output = [str_int jettys, str_int jettys] \<and> guest_exits output = [''0'', ''0''] \<and>
     (\<exists>row. rx_findall (rx_rates bytes ops) output = [row, row] \<and> float_row row = Inr r)"

definition latency_shows :: "string \<Rightarrow> int \<Rightarrow> string list \<Rightarrow> bool" where
  "latency_shows output bytes row \<longleftrightarrow>
     jetty_counts output = [''1'', ''1''] \<and> guest_exits output = [''0'', ''0''] \<and>
     rx_findall (rx_latency bytes) output = [row] \<and> length row = 10"

definition fences_met :: "'w sweep_world_scheme \<Rightarrow> string \<Rightarrow> nat \<Rightarrow> bool" where
  "fences_met w run_root index \<longleftrightarrow> (\<exists>logs xs. fences_complete xs \<and> list_all (participant_ok logs xs) FENCE_NAMES \<and>
     collect_fence_deltas (fence_logs run_root)
       (\<lambda>name. case map_of (fence_logs run_root) name of None \<Rightarrow> None | Some path \<Rightarrow> gw_size w index path)
       (gw_file w index) = (logs, []))"

lemma two_rows: "\<not> (length rows \<noteq> 2 \<or> rows ! 0 \<noteq> rows ! 1) \<longleftrightarrow> (\<exists>row. rows = [row, row])"
  by (cases rows rule: remdups_adj.cases) auto

lemma parse_rates_Inr:
  "(if counts \<noteq> cs \<or> exits \<noteq> es \<or> length rows \<noteq> 2 \<or> rows ! 0 \<noteq> rows ! 1 then Inl e else float_row (rows ! 0)) = Inr r \<longleftrightarrow>
     counts = cs \<and> exits = es \<and> (\<exists>row. rows = [row, row] \<and> float_row row = Inr r)"
  using two_rows [of rows] by auto

lemma str_int_1: "str_int 1 = ''1''"
  by code_simp

lemma parse_bandwidth_Inr: "parse_bandwidth output bytes ops = Inr r \<longleftrightarrow> transcript_shows output bytes 1 ops r"
  unfolding parse_bandwidth_def Let_def parse_rates_Inr transcript_shows_def str_int_1 by simp

lemma parse_compare_Inr: "parse_compare output bytes jettys ops = Inr r \<longleftrightarrow> transcript_shows output bytes jettys ops r"
  unfolding parse_compare_def Let_def parse_rates_Inr transcript_shows_def by (simp add: numeral_2_eq_2)

lemma parse_write_Inr: "parse_write output jettys ops = Inr r \<longleftrightarrow> transcript_shows output 512 jettys ops r"
  using two_rows [of "rx_findall (rx_rates 512 ops) output"]
  by (auto simp: parse_write_def transcript_shows_def Let_def)

lemma latency_arity:
  "rx_uniform (rx_latency bytes)" "rx_arity (rx_latency bytes) = 10"
  by (simp_all add: rx_latency_def rx_row_def rx_decimal_def rx_digits_def rx_opt_def rx_plus_def rx_spaces_def
    rx_spaces1_def numeral_nat del: rx_run.simps)

lemma parse_latency_Inr:
  "parse_latency output bytes = Inr parsed \<longleftrightarrow> (\<exists>row. latency_shows output bytes row \<and> parsed = zip latency_columns row)"
proof -
  let ?rows = "rx_findall (rx_latency bytes) output"
  have len: "length row = 10" if "?rows = [row]" for row
    using rx_findall_groups [OF latency_arity(1) [of bytes], of row "output"] that by (simp add: latency_arity)
  have "length ?rows = 1 \<longleftrightarrow> (\<exists>row. ?rows = [row])" by (cases ?rows) auto
  then show ?thesis
    using len by (auto simp: parse_latency_def latency_shows_def Let_def)
qed

lemma sweep_fences_Nil: "sweep_fences w run_root index = [] \<longleftrightarrow> fences_met w run_root index"
  by (auto simp: sweep_fences_def fences_met_def Let_def validate_fences_spec split: prod.splits)

lemma float_row_raises: "float_row row = Inl e \<Longrightarrow> is_ValueError e"
  by (auto simp: float_row_def rbind_eq_Inl py_float_def split: option.splits)

lemma parse_raises:
  "parse_bandwidth output bytes ops = Inl e \<Longrightarrow> is_ValueError e"
  "parse_compare output bytes jettys ops = Inl e \<Longrightarrow> is_ValueError e"
  "parse_write output jettys ops = Inl e \<Longrightarrow> is_ValueError e"
  "parse_latency output bytes = Inl e \<Longrightarrow> is_ValueError e"
  by (auto simp: parse_bandwidth_def parse_compare_def parse_write_def parse_latency_def Let_def
    dest: float_row_raises split: if_splits)

lemma writerow_Inr:
  "writerow names row = Inr cells \<longleftrightarrow> fst ` set row \<subseteq> set names \<and> cells = map (\<lambda>name. (name, dict_get name (CText []) row)) names"
  by (auto simp: writerow_def list_ex_iff)

lemma map_of_nth_fst: "distinct (map fst row) \<Longrightarrow> i < length row \<Longrightarrow> map_of row (fst (row ! i)) = Some (snd (row ! i))"
  by simp

lemma writerow_exact:
  assumes "map fst row = names" and "distinct names"
  shows "writerow names row = Inr row"
proof -
  have "map (\<lambda>name. (name, dict_get name (CText []) row)) (map fst row) = row"
    using assms by (auto simp: dict_get_def map_of_nth_fst intro!: nth_equalityI)
  with assms(1) show ?thesis by (force simp: writerow_Inr)
qed

subsection \<open>The loop\<close>

text \<open>
  The provider says when a case gives a row: some result \<open>r\<close> was measured, and the row shows it.
\<close>

locale case_sweep =
  fixes step :: "nat \<Rightarrow> 'c \<Rightarrow> sweep_case"
    and measured :: "nat \<Rightarrow> 'c \<Rightarrow> 'r \<Rightarrow> bool"
    and row :: "nat \<Rightarrow> 'c \<Rightarrow> 'r \<Rightarrow> table_row"
  assumes step_row: "snd (step index c) = Inr (Some cells) \<longleftrightarrow> (\<exists>r. measured index c r \<and> cells = row index c r)"
begin

definition rows_of :: "nat \<Rightarrow> 'c list \<Rightarrow> table_row list \<Rightarrow> bool" where
  "rows_of index cs rows \<longleftrightarrow> length rows \<le> length cs \<and>
     (\<forall>k < length rows. \<exists>r. measured (index + k) (cs ! k) r \<and> rows ! k = row (index + k) (cs ! k) r)"

lemma loop_rows:
  assumes "sweep_loop step index cs out = (result, out')"
  shows "\<exists>rows. so_rows out' = so_rows out @ rows \<and> rows_of index cs rows \<and>
    (result = Inr 0 \<longleftrightarrow> length rows = length cs) \<and>
    (length rows < length cs \<longrightarrow> (\<nexists>r. measured (index + length rows) (cs ! length rows) r)) \<and>
    so_files out' = so_files out @ map2 (\<lambda>k c. fst (step k c)) [index..<index + length cs] (take (Suc (length rows)) cs)"
  using assms
proof (induction cs arbitrary: index out)
  case Nil
  then show ?case by (auto simp: rows_of_def)
next
  case (Cons c cs)
  obtain transcript res where s: "step index c = (transcript, res)" by fastforce
  have upt: "[index..<index + length (c # cs)] = index # [Suc index..<Suc index + length cs]"
    by (subst upt_conv_Cons) simp_all
  show ?case
  proof (cases "\<exists>cells. res = Inr (Some cells)")
    case True
    then obtain cells where c: "res = Inr (Some cells)" by blast
    then obtain r where r: "measured index c r" "cells = row index c r"
      using step_row [of index c cells] s by auto
    from Cons.prems have "sweep_loop step (Suc index) cs (out\<lparr>so_files := so_files out @ [transcript], so_rows := so_rows out @ [cells]\<rparr>) = (result, out')"
      by (simp add: s c)
    from Cons.IH [OF this] obtain rows where rows: "so_rows out' = so_rows out @ cells # rows" "rows_of (Suc index) cs rows"
      "result = Inr 0 \<longleftrightarrow> length rows = length cs"
      "length rows < length cs \<longrightarrow> (\<nexists>r. measured (Suc index + length rows) (cs ! length rows) r)"
      "so_files out' = so_files out @ transcript # map2 (\<lambda>k c. fst (step k c)) [Suc index..<Suc index + length cs] (take (Suc (length rows)) cs)"
      by auto
    have "rows_of index (c # cs) (cells # rows)"
      using rows(2) r by (auto simp: rows_of_def less_Suc_eq_0_disj)
    with rows s upt show ?thesis by (intro exI [of _ "cells # rows"]) simp
  next
    case False
    then have "result \<noteq> Inr 0 \<and> so_rows out' = so_rows out \<and> so_files out' = so_files out @ [transcript]"
      using Cons.prems s by (auto simp: Let_def split: sum.splits option.splits)
    moreover have "\<nexists>r. measured index c r"
      using False step_row [of index c] s by auto
    ultimately show ?thesis
      using s upt by (intro exI [of _ "[]"]) (simp add: rows_of_def)
  qed
qed

text \<open>The verdict of a whole sweep, which starts without rows.\<close>

lemma loop_verdict:
  assumes "sweep_loop step 0 cs no_output = (result, out)"
  shows "(result = Inr 0 \<longleftrightarrow> (\<forall>k < length cs. \<exists>r. measured k (cs ! k) r)) \<and>
    (result = Inr 0 \<longleftrightarrow> length (so_rows out) = length cs) \<and> length (so_rows out) \<le> length cs \<and>
    (\<forall>k < length (so_rows out). \<exists>r. measured k (cs ! k) r \<and> so_rows out ! k = row k (cs ! k) r) \<and>
    so_files out = map2 (\<lambda>k c. fst (step k c)) [0..<length cs] (take (Suc (length (so_rows out))) cs)"
proof -
  from loop_rows [OF assms] have rows: "rows_of 0 cs (so_rows out)"
    "result = Inr 0 \<longleftrightarrow> length (so_rows out) = length cs"
    "length (so_rows out) < length cs \<longrightarrow> (\<nexists>r. measured (length (so_rows out)) (cs ! length (so_rows out)) r)"
    "so_files out = map2 (\<lambda>k c. fst (step k c)) [0..<length cs] (take (Suc (length (so_rows out))) cs)"
    by (auto simp: no_output_def)
  then show ?thesis
    by (auto simp: rows_of_def) (metis le_neq_implies_less)
qed

end

subsection \<open>The sweeps\<close>

definition size_measured :: "size_args \<Rightarrow> sweep_world \<Rightarrow> nat \<Rightarrow> int \<Rightarrow> rates \<Rightarrow> bool" where
  "size_measured args w index bytes r \<longleftrightarrow> (\<exists>stdout. size_serial args w index bytes = (0, stdout) \<and>
     transcript_shows stdout bytes 1 (size_iterations (za_target_bytes args) bytes) r)"

definition write_measured :: "write_args \<Rightarrow> sweep_world \<Rightarrow> nat \<Rightarrow> int \<Rightarrow> rates \<Rightarrow> bool" where
  "write_measured args w index jettys r \<longleftrightarrow> (\<exists>stdout. write_serial args w index jettys = (0, stdout) \<and>
     transcript_shows stdout 512 jettys (wa_total_ops args) r \<and> fences_met w (wa_run_root args) index)"

definition compare_measured :: "compare_args \<Rightarrow> sweep_world \<Rightarrow> nat \<Rightarrow> string \<times> int \<times> bool \<Rightarrow> rates \<Rightarrow> bool" where
  "compare_measured args w index c r \<longleftrightarrow> (\<exists>stdout. compare_serial args w index c = (0, stdout) \<and>
     transcript_shows stdout (ca_size args) (fst (snd c)) (ca_total_ops args) r \<and> fences_met w (ca_run_root args) index)"

lemma map_sum_Some: "map_sum id Some x = Inr (Some y) \<longleftrightarrow> x = Inr y"
  by (cases x) auto

lemma rated_case_row:
  "rated_case returncode errors parsed row = Inr (Some cells) \<longleftrightarrow>
     returncode = 0 \<and> errors = [] \<and> (\<exists>r. parsed = Inr r \<and> row r = Inr cells)"
  by (auto simp: rated_case_def map_sum_Some split: sum.splits)

lemma rows_written:
  "writerow size_fields (size_row args w index bytes r) = Inr (size_row args w index bytes r)"
  "writerow write_fields (write_row args' w index jettys r) = Inr (write_row args' w index jettys r)"
  "writerow compare_fields (compare_row args'' w index c r) = Inr (compare_row args'' w index c r)"
  by (rule writerow_exact; auto simp: size_fields_def size_row_def write_fields_def write_row_def
    compare_fields_def compare_row_def split: prod.splits)+

interpretation size_sweep: case_sweep "size_case args w" "size_measured args w" "size_row args w" for args w
  by unfold_locales (auto simp: size_case_def size_measured_def parse_bandwidth_Inr [symmetric] map_sum_Some rows_written
    split: prod.splits sum.splits)

interpretation write_sweep: case_sweep "write_case args w" "write_measured args w" "write_row args w" for args w
  by unfold_locales (auto simp: write_case_def write_measured_def parse_write_Inr [symmetric] rated_case_row rows_written
    sweep_fences_Nil split: prod.splits)

interpretation compare_sweep: case_sweep "compare_case args w" "compare_measured args w" "compare_row args w" for args w
  by unfold_locales (auto simp: compare_case_def compare_measured_def parse_compare_Inr [symmetric] rated_case_row rows_written
    sweep_fences_Nil split: prod.splits)

end
