(* ===== verification/Sweep_Verdicts.thy ===== *)
theory Sweep_Verdicts
  imports Sweep_Facts
begin

section \<open>Verdicts of the sweeps\<close>

text \<open>
  The remaining instances of \<open>case_sweep\<close> (latency, profiles, scans) and what the exit codes and tables
  of the sweeps mean.
\<close>

subsection \<open>Latency, profiles and scans\<close>

definition latency_measured :: "latency_args \<Rightarrow> sweep_world \<Rightarrow> nat \<Rightarrow> int \<Rightarrow> string list \<Rightarrow> bool" where
  "latency_measured args w index bytes m \<longleftrightarrow> (\<exists>stdout. latency_serial args w index bytes = (0, stdout) \<and>
     latency_shows stdout bytes m \<and> fences_met w (ya_run_root args) index)"

definition latency_cells :: "latency_args \<Rightarrow> sweep_world \<Rightarrow> nat \<Rightarrow> int \<Rightarrow> string list \<Rightarrow> table_row" where
  "latency_cells args w index bytes m =
     [(''sequence'', CInt (int index + 1)), (''size_bytes'', CInt bytes), (''requested_iterations'', CInt (ya_iterations args)),
      (''wall_seconds'', CText (gw_wall w index))] @ zip latency_columns (map CText m) @
     [(''transcript'', CText (latency_transcript index bytes))]"

lemma ten: "length m = 10 \<longleftrightarrow> (\<exists>a b c d e f g h i j. m = [a, b, c, d, e, f, g, h, i, j])"
  by (auto simp: numeral_nat length_Suc_conv)

lemma latency_row_written:
  "length m = 10 \<Longrightarrow> writerow latency_fields (latency_row args w index bytes (zip latency_columns m)) = Inr (latency_cells args w index bytes m)"
  by (auto simp: ten writerow_Inr latency_fields_def latency_columns_def latency_row_def latency_cells_def dict_update_def dict_get_def)

interpretation latency_sweep: case_sweep "latency_case args w" "latency_measured args w" "latency_cells args w" for args w
proof unfold_locales
  fix index c cells
  show "snd (latency_case args w index c) = Inr (Some cells) \<longleftrightarrow>
      (\<exists>m. latency_measured args w index c m \<and> cells = latency_cells args w index c m)"
  proof (cases "\<exists>m. parse_latency (snd (latency_serial args w index c)) c = Inr m")
    case True
    then obtain m where m: "latency_shows (snd (latency_serial args w index c)) c m"
      "parse_latency (snd (latency_serial args w index c)) c = Inr (zip latency_columns m)"
      by (auto simp: parse_latency_Inr)
    then have "m' = m" if "latency_shows (snd (latency_serial args w index c)) c m'" for m'
      using that by (simp add: latency_shows_def)
    with m show ?thesis
      using latency_row_written [of m args w index c]
      by (auto simp: latency_case_def latency_measured_def sweep_fences_Nil map_sum_Some latency_shows_def split: prod.splits)
  next
    case False
    then have "\<nexists>m. latency_shows (snd (latency_serial args w index c)) c m" by (auto simp: parse_latency_Inr)
    with False show ?thesis
      by (auto simp: latency_case_def latency_measured_def split: prod.splits sum.splits)
  qed
qed

definition profile_measured :: "profile_args \<Rightarrow> sweep_world \<Rightarrow> nat \<Rightarrow> int \<Rightarrow> sdict \<times> rates \<Rightarrow> bool" where
  "profile_measured args w index jettys r \<longleftrightarrow> (\<exists>stdout. profile_serial args w index jettys = (0, stdout) \<and>
     transcript_shows stdout 128 jettys (pa_total_ops args) (snd r) \<and> fences_met w (pa_run_root args) index \<and>
     read_stats args w index = Inr () \<and> profile_lines args stdout = (fst r, []) \<and> fst ` set (fst r) \<subseteq> set profile_fields)"

definition profile_cells :: "profile_args \<Rightarrow> sweep_world \<Rightarrow> nat \<Rightarrow> int \<Rightarrow> sdict \<times> rates \<Rightarrow> table_row" where
  "profile_cells args w index jettys r =
     map (\<lambda>name. (name, dict_get name (CText []) (profile_row args w index jettys (fst r) (snd r)))) profile_fields"

lemma dict_update_keys: "fst ` set (dict_update d e) = fst ` set d \<union> fst ` set e"
proof -
  have "map_of (dict_update d e) k = None \<longleftrightarrow> map_of d k = None \<and> map_of (rev e) k = None" for k
    by (simp add: map_of_dict_update split: option.splits)
  then show ?thesis unfolding set_eq_iff Un_iff by (metis map_of_eq_None_iff set_rev)
qed

lemma profile_row_written:
  "writerow profile_fields (profile_row args w index jettys phase r) = Inr cells \<longleftrightarrow>
     fst ` set phase \<subseteq> set profile_fields \<and> cells = profile_cells args w index jettys (phase, r)"
proof -
  have "fst ` set (profile_row args w index jettys phase r) \<subseteq> set profile_fields \<longleftrightarrow> fst ` set phase \<subseteq> set profile_fields"
    by (cases r) (simp add: profile_row_def dict_update_keys image_comp o_def, simp add: profile_fields_def)
  then show ?thesis by (simp add: writerow_Inr profile_cells_def)
qed

interpretation profile_sweep: case_sweep "profile_case args w" "profile_measured args w" "profile_cells args w" for args w
proof unfold_locales
  fix index c cells
  obtain returncode stdout phase errors where
    out: "profile_serial args w index c = (returncode, stdout)" "profile_lines args stdout = (phase, errors)" by fastforce
  then show "snd (profile_case args w index c) = Inr (Some cells) \<longleftrightarrow>
      (\<exists>r. profile_measured args w index c r \<and> cells = profile_cells args w index c r)"
    by (auto simp: profile_case_def profile_measured_def rbind_eq_Inr rated_case_row profile_row_written sweep_fences_Nil
      parse_compare_Inr)
qed

definition scan_cells :: "scan_args \<Rightarrow> scan_world \<Rightarrow> scan_kind \<Rightarrow> nat \<Rightarrow> nat \<Rightarrow> int \<Rightarrow> (string \<times> cell) list \<Rightarrow> table_row" where
  "scan_cells args w kind base index bytes results =
     [(''size_bytes'', CInt bytes), (''iterations'', CInt (scan_count args kind bytes))] @ results @
     [(''wall_seconds'', CText (gw_wall w (base + index))), (''transcript'', CText (scan_transcript kind index bytes))]"

text \<open>What a scan enters in the middle of a row: columns of the one latency row, or the common bandwidth row.\<close>

definition scan_measured :: "scan_args \<Rightarrow> scan_world \<Rightarrow> scan_kind \<Rightarrow> nat \<Rightarrow> nat \<Rightarrow> int \<Rightarrow> (string \<times> cell) list \<Rightarrow> bool" where
  "scan_measured args w kind base index bytes results \<longleftrightarrow>
     (\<exists>stdout. scan_serial args w kind base index bytes = (0, stdout) \<and>
        (na_gem5 args \<longrightarrow> fences_met w (na_run_root args) (base + index)) \<and>
        (case kind of
           Lat \<Rightarrow> (\<exists>m. latency_shows stdout bytes m \<and>
             results = [(''samples'', CText (m ! 0)), (''average_us'', CText (m ! 4)), (''p99_us'', CText (m ! 6))])
         | Bw \<Rightarrow> (\<exists>peak average mpps. transcript_shows stdout bytes 1 (scan_count args kind bytes) (peak, average, mpps) \<and>
             results = [(''peak_mib_s'', CFloat peak), (''average_mib_s'', CFloat average), (''message_rate_mpps'', CFloat mpps)])))"

lemma latency_items:
  assumes "length m = 10"
  shows "getitem ''samples'' (zip latency_columns m) = Inr (m ! 0)" "getitem ''average_us'' (zip latency_columns m) = Inr (m ! 4)"
    "getitem ''p99_us'' (zip latency_columns m) = Inr (m ! 6)"
  using assms by (auto simp: ten getitem_def latency_columns_def)

lemma scan_row_Inr:
  "scan_row kind stdout bytes count wall transcript = Inr cells \<longleftrightarrow>
     (\<exists>results. cells = [(''size_bytes'', CInt bytes), (''iterations'', CInt count)] @ results @
         [(''wall_seconds'', CText wall), (''transcript'', CText transcript)] \<and>
       (case kind of
          Lat \<Rightarrow> (\<exists>m. latency_shows stdout bytes m \<and>
            results = [(''samples'', CText (m ! 0)), (''average_us'', CText (m ! 4)), (''p99_us'', CText (m ! 6))])
        | Bw \<Rightarrow> (\<exists>peak average mpps. transcript_shows stdout bytes 1 count (peak, average, mpps) \<and>
            results = [(''peak_mib_s'', CFloat peak), (''average_mib_s'', CFloat average), (''message_rate_mpps'', CFloat mpps)])))"
proof (cases kind)
  case Lat
  show ?thesis
  proof (cases "\<exists>m. latency_shows stdout bytes m")
    case True
    then obtain m where m: "latency_shows stdout bytes m" by blast
    then have unique: "latency_shows stdout bytes m' \<longleftrightarrow> m' = m" for m' by (auto simp: latency_shows_def)
    have "parse_latency stdout bytes = Inr (zip latency_columns m)" "length m = 10"
      using m by (auto simp: parse_latency_Inr latency_shows_def)
    then show ?thesis
      by (auto simp: Lat scan_row_def Let_def latency_items unique)
  next
    case False
    then show ?thesis by (auto simp: Lat scan_row_def Let_def rbind_eq_Inr parse_latency_Inr)
  qed
next
  case Bw
  then show ?thesis
    by (auto simp: scan_row_def Let_def rbind_eq_Inr parse_bandwidth_Inr split: prod.splits)
qed

lemma scan_row_written:
  "scan_row kind stdout bytes count wall transcript = Inr cells \<Longrightarrow> writerow (scan_fields kind) cells = Inr cells"
  by (rule writerow_exact; cases kind) (auto simp: scan_row_Inr)

interpretation scan_sweep: case_sweep "scan_case args w kind base" "scan_measured args w kind base" "scan_cells args w kind base"
  for args w kind base
proof unfold_locales
  fix index c cells
  obtain returncode stdout where out: "scan_serial args w kind base index c = (returncode, stdout)" by fastforce
  let ?row = "scan_row kind stdout c (scan_count args kind c) (gw_wall w (base + index)) (scan_transcript kind index c)"
  have "snd (scan_case args w kind base index c) = Inr (Some cells) \<longleftrightarrow>
      (na_gem5 args \<longrightarrow> fences_met w (na_run_root args) (base + index)) \<and> returncode = 0 \<and> ?row = Inr cells"
    using scan_row_written [of kind stdout c "scan_count args kind c" "gw_wall w (base + index)" "scan_transcript kind index c"]
    by (auto simp: scan_case_def out Let_def rbind_eq_Inr map_sum_Some sweep_fences_Nil split: if_splits)
  then show "snd (scan_case args w kind base index c) = Inr (Some cells) \<longleftrightarrow>
      (\<exists>r. scan_measured args w kind base index c r \<and> cells = scan_cells args w kind base index c r)"
    unfolding scan_row_Inr scan_measured_def scan_cells_def out by auto
qed

subsection \<open>Comparison of READ and WRITE\<close>

definition run_ready :: "string list \<Rightarrow> 'w sweep_world_scheme \<Rightarrow> bool" where
  "run_ready required w \<longleftrightarrow> gw_mkdir w = Inr () \<and>
     (\<exists>manifest. gw_manifest w = Inr manifest \<and> list_all (\<lambda>line. str_in (line @ [CHR 0x0A]) manifest) required)"

lemma sweep_start_cases:
  assumes "sweep_start w (lacking required) cases = (result, out)"
  shows "run_ready required w \<and> cases () = (result, out) \<or> \<not> run_ready required w \<and> out = no_output \<and> (\<exists>e. result = Inl e)"
  using assms by (auto simp: sweep_start_def run_ready_def lacking_def list_ex_iff list_all_iff split: sum.splits if_splits)

lemma map2_prefix:
  assumes "xs = map2 f [0..<length cs] (take n cs)"
  shows "map g xs = map2 (\<lambda>k c. g (f k c)) [0..<length xs] (take (length xs) cs)"
proof (rule nth_equalityI)
  have len: "length xs = min (length cs) n" by (simp add: assms)
  then show "length (map g xs) = length (map2 (\<lambda>k c. g (f k c)) [0..<length xs] (take (length xs) cs))" by simp
  fix i
  assume "i < length (map g xs)"
  then have i: "i < length xs" "i < length cs" "i < n" using len by auto
  then have "xs ! i = f i (cs ! i)" by (subst assms) simp
  with i show "map g xs ! i = map2 (\<lambda>k c. g (f k c)) [0..<length xs] (take (length xs) cs) ! i" by simp
qed

definition jettys_fit :: "int \<Rightarrow> int \<Rightarrow> int \<Rightarrow> int \<Rightarrow> int \<Rightarrow> bool" where
  "jettys_fit total_ops post_list depth jfc_depth j \<longleftrightarrow> 1 \<le> j \<and> j * (total_ops div j) = total_ops \<and>
     post_list \<le> total_ops div j \<and> j * min depth (total_ops div j) \<le> jfc_depth"

lemma jettys_fit_checks:
  assumes "jettys \<noteq> []"
  shows "\<not> list_ex (bad_jettys total_ops post_list) jettys \<and> \<not> jfc_depth < max_window depth total_ops jettys \<longleftrightarrow>
    list_all (jettys_fit total_ops post_list depth jfc_depth) jettys"
proof -
  have "\<not> jfc_depth < max_window depth total_ops jettys \<longleftrightarrow> (\<forall>j \<in> set jettys. j * min depth (total_ops div j) \<le> jfc_depth)"
    using assms by (auto simp: max_window_def not_less)
  moreover have "\<not> bad_jettys total_ops post_list j \<longleftrightarrow> 1 \<le> j \<and> j * (total_ops div j) = total_ops \<and> post_list \<le> total_ops div j" for j
    by (auto simp: bad_jettys_def) (metis dvd_triv_left mod_0_imp_dvd mod_eq_0_iff_dvd)
  ultimately show ?thesis by (auto simp: list_all_iff list_ex_iff jettys_fit_def)
qed

text \<open>A repeat with one Jetty needs no more room than any admitted number of Jettys.\<close>

lemma one_jetty_fits:
  assumes "jettys_fit total_ops post_list depth jfc_depth j" and "0 \<le> depth" and "0 \<le> post_list"
  shows "jettys_fit total_ops post_list depth jfc_depth 1"
proof -
  let ?n = "total_ops div j"
  have j: "1 \<le> j" "j * ?n = total_ops" "post_list \<le> ?n" "j * min depth ?n \<le> jfc_depth"
    using assms(1) by (auto simp: jettys_fit_def)
  have n: "0 \<le> ?n" using j(3) assms(3) by linarith
  have total: "?n \<le> total_ops" using mult_right_mono [OF j(1) n] j(2) by simp
  have "min depth total_ops \<le> j * min depth ?n"
  proof (cases "depth \<le> ?n")
    case True
    then show ?thesis using mult_right_mono [OF j(1) assms(2)] by simp
  next
    case False
    then show ?thesis using j(2) by simp
  qed
  with j(3,4) total show ?thesis by (simp add: jettys_fit_def)
qed

definition compare_admitted :: "compare_args \<Rightarrow> bool" where
  "compare_admitted args \<longleftrightarrow> 1 \<le> ca_size args \<and> 1 \<le> ca_post_list args \<and> ca_post_list args \<le> ca_depth args \<and> ca_depth args \<le> 8192 \<and>
     list_all (jettys_fit (ca_total_ops args) (ca_post_list args) (ca_depth args) (ca_jfc_depth args)) (ca_jettys args)"

lemma compare_main_cases:
  assumes "ca_jettys args \<noteq> []" and "compare_main args w = (result, out)"
  shows "compare_admitted args \<and> run_ready SINGLE_PORT_RUN w \<and> sweep_loop (compare_case args w) 0 (compare_cases args) no_output = (result, out) \<or>
    \<not> (compare_admitted args \<and> run_ready SINGLE_PORT_RUN w) \<and> out = no_output \<and> (\<exists>e. result = Inl e)"
proof (cases "compare_admitted args")
  case True
  then have "compare_main args w = sweep_start w (lacking SINGLE_PORT_RUN) (\<lambda>_. sweep_loop (compare_case args w) 0 (compare_cases args) no_output)"
    using jettys_fit_checks [OF assms(1), of "ca_total_ops args" "ca_post_list args" "ca_jfc_depth args" "ca_depth args"]
    by (simp add: compare_main_def compare_admitted_def not_less)
  with sweep_start_cases [of w SINGLE_PORT_RUN] assms(2) True show ?thesis by metis
next
  case False
  then have "out = no_output \<and> (\<exists>e. result = Inl e)"
    using jettys_fit_checks [OF assms(1), of "ca_total_ops args" "ca_post_list args" "ca_jfc_depth args" "ca_depth args"] assms(2)
    by (auto simp: compare_main_def compare_admitted_def not_less split: if_splits)
  with False show ?thesis by blast
qed

text \<open>
  C24. The exit code of the comparison is 0 exactly when the settings are admitted, the run is the required
  one and every case was measured: the serial tool succeeded, both guests exited with 0, announced the
  number of Jettys and printed the same result row for exactly the operations of the case, and all five
  participants left complete and equal fences.  The table has one row for each leading measured case, in
  the order of the cases and with the numbers the guests printed; every case that started left its transcript.
\<close>

theorem compare_verdict:
  assumes "ca_jettys args \<noteq> []" and "compare_main args w = (result, out)"
  shows "(result = Inr 0 \<longleftrightarrow> compare_admitted args \<and> run_ready SINGLE_PORT_RUN w \<and>
      (\<forall>k < length (compare_cases args). \<exists>r. compare_measured args w k (compare_cases args ! k) r)) \<and>
    (result = Inr 0 \<longleftrightarrow> length (so_rows out) = length (compare_cases args)) \<and>
    (\<forall>k < length (so_rows out). \<exists>r. compare_measured args w k (compare_cases args ! k) r \<and>
      so_rows out ! k = compare_row args w k (compare_cases args ! k) r) \<and>
    map fst (so_files out) = map2 (compare_transcript args) [0..<length (so_files out)] (take (length (so_files out)) (compare_cases args))"
proof -
  have nonempty: "compare_cases args \<noteq> []" using assms(1) by (cases "ca_jettys args") (auto simp: compare_cases_def)
  have files: "fst (fst (compare_case args w k c)) = compare_transcript args k c" for k c
    by (simp add: compare_case_def split: prod.splits)
  from compare_main_cases [OF assms] show ?thesis
  proof (elim disjE conjE exE)
    assume ready: "compare_admitted args" "run_ready SINGLE_PORT_RUN w"
      and loop: "sweep_loop (compare_case args w) 0 (compare_cases args) no_output = (result, out)"
    note v = compare_sweep.loop_verdict [OF loop]
    have "map fst (so_files out) = map2 (compare_transcript args) [0..<length (so_files out)] (take (length (so_files out)) (compare_cases args))"
      using map2_prefix [OF conjunct2 [OF conjunct2 [OF conjunct2 [OF conjunct2 [OF v]]]], of fst] by (simp add: files)
    with v ready show ?thesis by blast
  next
    fix e
    assume "\<not> (compare_admitted args \<and> run_ready SINGLE_PORT_RUN w)" "out = no_output" "result = Inl e"
    then show ?thesis using nonempty by (auto simp: no_output_def)
  qed
qed


end
