(* ===== verification/Scan_Facts.thy ===== *)
theory Scan_Facts
  imports Sweep_Verdicts
begin

section \<open>Scans, sizes and library paths\<close>

text \<open>
  The verdict of the scan of either simulator, the bounds of the number of operations of a size, and the
  words of a client command with other libraries.
\<close>

subsection \<open>Scans\<close>

definition scan_ready :: "scan_args \<Rightarrow> scan_world \<Rightarrow> bool" where
  "scan_ready args w \<longleftrightarrow> list_all (\<lambda>bytes. 1 \<le> bytes) (na_sizes args) \<and>
     run_ready [sync_marker args, ''node_count=2''] w \<and> (na_gem5 args \<longrightarrow> nw_sync_ready w)"

lemma scan_case_never_stops: "snd (scan_case args w kind base index bytes) \<noteq> Inr None"
proof (cases "scan_serial args w kind base index bytes")
  case (Pair returncode stdout)
  have some: "map_sum id Some x \<noteq> Inr None" for x :: "table_row res" by (cases x) auto
  show ?thesis by (simp add: scan_case_def Pair Let_def rbind_eq_Inr some)
qed

lemma sweep_loop_exit:
  assumes "\<And>index c. snd (step index c) \<noteq> Inr None"
  shows "fst (sweep_loop step index cs out) = Inr 0 \<or> (\<exists>e. fst (sweep_loop step index cs out) = Inl e)"
proof (induction cs arbitrary: index out)
  case (Cons c cs)
  show ?case using assms [of index c] Cons.IH
    by (auto simp: Let_def split: prod.splits sum.splits option.splits)
qed simp

lemma scan_main_cases:
  assumes "scan_main args w = (result, lat, bw)"
  shows "\<not> scan_ready args w \<and> (\<exists>e. result = Inl e) \<and> lat = no_output \<and> bw = None \<or>
    scan_ready args w \<and> (\<exists>first. sweep_loop (scan_case args w Lat 0) 0 (na_sizes args) no_output = (first, lat) \<and>
      (first \<noteq> Inr 0 \<and> result = first \<and> bw = None \<or>
       first = Inr 0 \<and> (\<exists>b. bw = Some b \<and>
         sweep_loop (scan_case args w Bw (length (na_sizes args))) 0 (na_sizes args) no_output = (result, b))))"
proof (cases "scan_ready args w")
  case True
  then obtain manifest where m: "\<not> list_ex (\<lambda>bytes. bytes < 1) (na_sizes args)" "gw_manifest w = Inr manifest" "gw_mkdir w = Inr ()"
    "\<not> lacking [sync_marker args, ''node_count=2''] manifest" "\<not> (na_gem5 args \<and> \<not> nw_sync_ready w)"
    by (auto simp: scan_ready_def run_ready_def lacking_def list_ex_iff list_all_iff not_less)
  obtain first lat' where l: "sweep_loop (scan_case args w Lat 0) 0 (na_sizes args) no_output = (first, lat')" by fastforce
  obtain second b where b: "sweep_loop (scan_case args w Bw (length (na_sizes args))) 0 (na_sizes args) no_output = (second, b)" by fastforce
  from assms show ?thesis
    using m by (auto simp: scan_main_def l b True split: if_splits)
next
  case False
  then show ?thesis
    using assms by (auto simp: scan_main_def scan_ready_def run_ready_def lacking_def list_ex_iff list_all_iff not_less not_le
      split: sum.splits if_splits)
qed

text \<open>
  A scan returns only 0, and every failure is an exception.  It returns 0 exactly when all sizes are
  positive, the run is a two-host run with the required synchronisation, and every size was measured
  for latency and then for bandwidth: exit codes 0, one Jetty, the expected result rows, and for gem5
  complete and equal fences.  Each table has one row for each leading measured size, in order, and when
  the latency table is incomplete no bandwidth case runs.
\<close>

theorem scan_complete:
  assumes "scan_main args w = (result, lat, bw)"
  shows "(result = Inr 0 \<or> (\<exists>e. result = Inl e)) \<and>
    (result = Inr 0 \<longleftrightarrow> scan_ready args w \<and>
      (\<forall>k < length (na_sizes args). \<exists>r. scan_measured args w Lat 0 k (na_sizes args ! k) r) \<and>
      (\<forall>k < length (na_sizes args). \<exists>r. scan_measured args w Bw (length (na_sizes args)) k (na_sizes args ! k) r)) \<and>
    (\<forall>k < length (so_rows lat). \<exists>r. scan_measured args w Lat 0 k (na_sizes args ! k) r \<and>
      so_rows lat ! k = scan_cells args w Lat 0 k (na_sizes args ! k) r) \<and>
    (\<forall>b. bw = Some b \<longrightarrow> length (so_rows lat) = length (na_sizes args) \<and> (result = Inr 0 \<longleftrightarrow> length (so_rows b) = length (na_sizes args)) \<and>
      (\<forall>k < length (so_rows b). \<exists>r. scan_measured args w Bw (length (na_sizes args)) k (na_sizes args ! k) r \<and>
        so_rows b ! k = scan_cells args w Bw (length (na_sizes args)) k (na_sizes args ! k) r))"
proof -
  note exits = sweep_loop_exit [of "scan_case args w kind base" for kind base, OF scan_case_never_stops]
  from scan_main_cases [OF assms] show ?thesis
  proof (elim disjE conjE exE)
    fix e
    assume "\<not> scan_ready args w" "result = Inl e" "lat = no_output" "bw = None"
    then show ?thesis by (simp add: no_output_def)
  next
    fix first
    assume ready: "scan_ready args w" and loop: "sweep_loop (scan_case args w Lat 0) 0 (na_sizes args) no_output = (first, lat)"
      and rest: "first \<noteq> Inr 0" "result = first" "bw = None"
    show ?thesis
      using ready scan_sweep.loop_verdict [OF loop] rest exits [of Lat 0 0 "na_sizes args" no_output] loop by auto
  next
    fix first b
    assume ready: "scan_ready args w" and loop: "sweep_loop (scan_case args w Lat 0) 0 (na_sizes args) no_output = (first, lat)"
      and rest: "first = Inr 0" "bw = Some b"
      and loop2: "sweep_loop (scan_case args w Bw (length (na_sizes args))) 0 (na_sizes args) no_output = (result, b)"
    show ?thesis
      using ready scan_sweep.loop_verdict [OF loop] scan_sweep.loop_verdict [OF loop2] rest
        exits [of Bw "length (na_sizes args)" 0 "na_sizes args" no_output] loop2 by auto
  qed
qed

subsection \<open>The number of operations of a size\<close>

text \<open>
  With a target volume the number of operations is a multiple of 256 between 256 and 16384, does not
  exceed the volume unless it is the smallest, and is the largest such number.  Without one it is 16384.
\<close>

theorem size_iterations_bounds:
  assumes "1 \<le> bytes" and "n = size_iterations (Some t) bytes"
  shows "256 dvd n \<and> 256 \<le> n \<and> n \<le> 16384 \<and> (n = 256 \<or> n * bytes \<le> t) \<and> (n = 16384 \<or> t < (n + 256) * bytes)"
proof -
  define q where "q = t div bytes div 256"
  have "q * 256 \<le> t div bytes" "t div bytes < q * 256 + 256" unfolding q_def by linarith+
  moreover have "(t div bytes) * bytes \<le> t"
    using assms(1) by (metis add.commute le_add_same_cancel2 mod_div_mult_eq pos_mod_sign zero_less_one order_less_le_trans)
  moreover have "t < (t div bytes + 1) * bytes"
    using assms(1) by (metis add.commute add_less_cancel_left distrib_right mod_div_mult_eq mult_1 pos_mod_bound zero_less_one order_less_le_trans)
  ultimately have low: "q * 256 * bytes \<le> t" and high: "t < (q * 256 + 256) * bytes"
    using assms(1) mult_right_mono [of "q * 256" "t div bytes" bytes] mult_right_mono [of "t div bytes + 1" "q * 256 + 256" bytes]
    by linarith+
  have n: "n = max 256 (min 16384 (q * 256))" by (simp add: assms(2) size_iterations_def q_def)
  consider "q \<le> 1" | "64 \<le> q" | "1 < q" "q < 64" by linarith
  then show ?thesis
  proof cases
    case 1
    then have "(q * 256 + 256) * bytes \<le> (256 + 256) * bytes" using assms(1) by (intro mult_right_mono) auto
    with 1 high n show ?thesis by (auto simp: max_def min_def)
  next
    case 2
    then have "16384 * bytes \<le> q * 256 * bytes" using assms(1) by (intro mult_right_mono) auto
    with low have "16384 * bytes \<le> t" by (rule order_trans [rotated])
    with 2 n show ?thesis by (auto simp: max_def min_def)
  next
    case 3
    with low high n show ?thesis by (auto simp: max_def min_def)
  qed
qed

theorem size_iterations_bounds_witness:
  "256 dvd size_iterations (Some 1048576) 512 \<and> size_iterations (Some 1048576) 512 * 512 \<le> 1048576"
  using size_iterations_bounds [of 512 _ 1048576, OF _ refl] by (simp add: size_iterations_def)

subsection \<open>Other libraries for the client\<close>

lemma library_words:
  assumes "path \<noteq> []" and "list_all sh_plain ws" and "ws \<noteq> []"
  shows "shlex_split (client_libraries (Some path) (join '' '' (sync_words @ library_option # ws))) =
    Inr (sync_words @ (''LD_LIBRARY_PATH='' @ path) # ws)"
proof -
  let ?a = "''UBSIM_DIST_SYNC=1''" and ?b = "''OPENURMA_DIST_SYNC=1''"
  obtain v vs where ws: "ws = v # vs" using assms(3) by (cases ws) auto
  have whole: "join '' '' (sync_words @ library_option # ws) = (?a @ '' '' @ ?b @ '' '') @ library_option @ '' '' @ join '' '' ws"
    unfolding sync_words_def ws by (simp del: append_assoc add: append_assoc [symmetric])
  have "client_libraries (Some path) (join '' '' (sync_words @ library_option # ws)) =
      ?a @ '' '' @ ?b @ '' '' @ ''LD_LIBRARY_PATH='' @ shlex_quote path @ '' '' @ join '' '' ws"
  proof -
    have "replace_first library_option new ((?a @ '' '' @ ?b @ '' '') @ library_option @ s) = (?a @ '' '' @ ?b @ '' '') @ new @ s" for new s
      by (rule replace_first_at [where c = "CHR ''L''" and old' = "tl library_option"]) (simp_all add: library_option_def)
    then show ?thesis using assms(1) unfolding client_libraries_def whole by simp
  qed
  moreover have "sh_plain ?a" "sh_plain ?b" "sh_plain ''LD_LIBRARY_PATH=''" by code_simp+
  ultimately show ?thesis
    using shlex_split_option [of "''LD_LIBRARY_PATH=''" ws path] assms(2)
    by (simp add: shlex_split_Cons sync_words_def del: append.simps append_assoc)
qed

definition size_words :: "int \<Rightarrow> int \<Rightarrow> int \<Rightarrow> string list" where
  "size_words bytes iterations port =
     [''urma_perftest'', ''read_bw'', ''-d'', ''udma0'', ''--eid_idx'', ''0'', ''--ctp'', ''-s'', str_int bytes, ''-P'', str_int port,
      ''-J'', ''1'', ''-I'', ''0'', ''-T'', ''8192'', ''-R'', ''8192'', ''-C'', ''524288'', ''-n'', str_int iterations, ''-l'', ''256'',
      ''-Q'', ''1'', ''-p'', ''0'']"

definition latency_words :: "int \<Rightarrow> int \<Rightarrow> int \<Rightarrow> string list" where
  "latency_words bytes iterations port =
     [''urma_perftest'', ''read_lat'', ''-d'', ''udma0'', ''--eid_idx'', ''0'', ''--ctp'', ''-s'', str_int bytes, ''-P'', str_int port,
      ''-J'', ''1'', ''-I'', ''128'', ''-T'', ''8192'', ''-R'', ''8192'', ''-C'', ''524288'', ''-n'', str_int iterations,
      ''-Q'', ''1'', ''-p'', ''0'']"

lemma plain_literals:
  "list_all sh_plain [''UBSIM_DIST_SYNC=1'', ''OPENURMA_DIST_SYNC=1'', library_option, ''urma_perftest'', ''read_bw'', ''read_lat'',
     ''-d'', ''udma0'', ''--eid_idx'', ''0'', ''--ctp'', ''-s'', ''-P'', ''-J'', ''1'', ''-I'', ''128'', ''-T'', ''8192'', ''-R'', ''-C'', ''524288'',
     ''-n'', ''-l'', ''256'', ''-Q'', ''-p'', ''-S'', ''10.0.0.1'']"
  by code_simp

lemma words_plain:
  "list_all sh_plain (size_words bytes n port)" "list_all sh_plain (latency_words bytes n port)"
  using plain_literals by (simp_all add: size_words_def latency_words_def sh_plain_str_int)

text \<open>
  With other libraries for the client, the two guests still get the same command: a shell reads the
  client's command as the words of the server's, with one assignment replaced by the given path,
  whatever characters it has, and the address of the server at the end.
\<close>

theorem client_command_words:
  assumes "path \<noteq> []" and "words = (if latency then latency_words else size_words) bytes n port"
    and "command = (if latency then read_lat_command else size_command) bytes n port"
  shows "shlex_split (command None) = Inr (sync_words @ library_option # words) \<and>
    shlex_split (client_libraries (Some path) (command (Some ''10.0.0.1''))) =
      Inr (sync_words @ (''LD_LIBRARY_PATH='' @ path) # words @ [''-S'', ''10.0.0.1''])"
proof -
  have command: "command server = join '' '' (sync_words @ library_option # words @ server_words server)" for server
    by (cases latency) (simp_all add: assms latency_words_def size_words_def read_lat_command_def size_command_def del: join.simps)
  have plain: "list_all sh_plain words" "words \<noteq> []" using assms(2) words_plain by (auto simp: latency_words_def size_words_def)
  have "list_all sh_plain (sync_words @ library_option # words)" "list_all sh_plain (words @ [''-S'', ''10.0.0.1''])"
    using plain(1) plain_literals by (simp_all add: sync_words_def)
  then show ?thesis
    using shlex_split_join library_words [OF assms(1), of "words @ [''-S'', ''10.0.0.1'']"] plain(2)
    by (simp add: command server_words_def del: join.simps)
qed

theorem client_command_words_witness:
  "shlex_split (client_libraries (Some ''/my libs'') (size_command 64 256 21520 (Some ''10.0.0.1''))) =
     Inr (sync_words @ ''LD_LIBRARY_PATH=/my libs'' # size_words 64 256 21520 @ [''-S'', ''10.0.0.1''])"
  using client_command_words [of "''/my libs''" _ False 64 256 21520, OF _ refl refl] by simp

subsection \<open>Two small runs\<close>

text \<open>A run in which the guests print one row and all fences are met.\<close>

definition demo_guest :: string where
  "demo_guest = ''Number of jettys : 1'' @ [CHR 0x0A] @ ''64 256 9 8 1'' @ [CHR 0x0A] @ ''__UBSIM_RC_1_2__=0'' @ [CHR 0x0A]"

definition demo_single_port_manifest :: string where
  "demo_single_port_manifest = concat (map (\<lambda>line. line @ [CHR 0x0A]) SINGLE_PORT_RUN)"

definition demo_sweep_world :: sweep_world where
  "demo_sweep_world = \<lparr>gw_manifest = Inr demo_single_port_manifest, gw_mkdir = Inr (), gw_size = (\<lambda>_ _. Some 0),
     gw_file = (\<lambda>_. rw_file demo_rma_world 0), gw_serial = (\<lambda>_ _. (0, demo_guest @ demo_guest)), gw_wall = (\<lambda>_. ''0.5'')\<rparr>"

definition demo_compare_args :: compare_args where
  "demo_compare_args = \<lparr>ca_lab = ''/lab'', ca_run_root = ''/run'', ca_size = 64, ca_jettys = [1], ca_total_ops = 256, ca_depth = 256,
     ca_jfc_depth = 256, ca_post_list = 256, ca_repeat_one = True, ca_timeout = ''900.0''\<rparr>"

lemma demo_guest_findings:
  "jetty_counts (demo_guest @ demo_guest) = [''1'', ''1'']" "guest_exits (demo_guest @ demo_guest) = [''0'', ''0'']"
  "rx_findall (rx_rates 64 256) (demo_guest @ demo_guest) = [[''9'', ''8'', ''1''], [''9'', ''8'', ''1'']]"
  by code_simp+

lemma demo_float_row: "\<exists>r. float_row [''9'', ''8'', ''1''] = Inr r"
proof -
  have "list_all (\<lambda>s. strip s = s \<and> ascii_lower s = s \<and> snd (digit_run 0 0 s) = (1, [])) [''9'', ''8'', ''1'']"
    by code_simp
  moreover have "is_digit (CHR ''9'')" "is_digit (CHR ''8'')" "is_digit (CHR ''1'')" by code_simp+
  ultimately show ?thesis
    by (simp add: float_row_def py_float_def parse_float_def parse_unsigned_def parse_decimal_def parse_exponent_def split: prod.splits)
qed

lemma demo_case_measured:
  assumes "c \<in> set (compare_cases demo_compare_args)"
  shows "\<exists>r. compare_measured demo_compare_args demo_sweep_world k c r"
proof -
  obtain r where r: "float_row [''9'', ''8'', ''1''] = Inr r" using demo_float_row by blast
  have c: "fst (snd c) = 1" using assms by (auto simp: compare_cases_def demo_compare_args_def)
  have "compare_serial demo_compare_args demo_sweep_world k c = (0, demo_guest @ demo_guest)"
    by (simp add: compare_serial_def demo_sweep_world_def split: prod.splits)
  moreover have files: "gw_size demo_sweep_world k x = Some 0" "gw_file demo_sweep_world k = rw_file demo_rma_world 0" for x
    by (simp_all add: demo_sweep_world_def)
  moreover have "transcript_shows (demo_guest @ demo_guest) 64 1 256 r"
    by (simp add: transcript_shows_def demo_guest_findings r str_int_1)
  moreover have "sweep_fences demo_sweep_world ''/run'' k = []"
    using demo_fences demo_fences_valid by (simp add: sweep_fences_def files Let_def cong: option.case_cong)
  ultimately have "compare_measured demo_compare_args demo_sweep_world k c r"
    using c by (simp add: compare_measured_def sweep_fences_Nil [symmetric] demo_compare_args_def)
  then show ?thesis by (rule exI)
qed

lemma demo_ready: "compare_admitted demo_compare_args" "run_ready SINGLE_PORT_RUN demo_sweep_world"
proof -
  show "compare_admitted demo_compare_args"
    by (simp add: compare_admitted_def demo_compare_args_def jettys_fit_def)
  have "list_all (\<lambda>line. str_in (line @ [CHR 0x0A]) demo_single_port_manifest) SINGLE_PORT_RUN" by code_simp
  then show "run_ready SINGLE_PORT_RUN demo_sweep_world" by (simp add: run_ready_def demo_sweep_world_def)
qed

theorem compare_verdict_witness:
  "\<exists>out. compare_main demo_compare_args demo_sweep_world = (Inr 0, out) \<and> length (so_rows out) = 4"
proof -
  obtain result out where main: "compare_main demo_compare_args demo_sweep_world = (result, out)" by fastforce
  have jettys: "ca_jettys demo_compare_args \<noteq> []" by (simp add: demo_compare_args_def)
  have "result = Inr 0" "length (so_rows out) = length (compare_cases demo_compare_args)"
    using compare_verdict [OF jettys main] demo_ready demo_case_measured nth_mem by blast+
  moreover have "length (compare_cases demo_compare_args) = 4" by (simp add: compare_cases_def demo_compare_args_def)
  ultimately show ?thesis using main by simp
qed


text \<open>A scan of a synchronised QEMU run with one size.\<close>

definition demo_scan_args :: scan_args where
  "demo_scan_args = \<lparr>na_gem5 = False, na_run_root = ''/run'', na_script = ''/lab/tools/dual_serial_command.py'', na_sizes = [64],
     na_bw_iterations = 256, na_lat_iterations = 16, na_bw_target_bytes = 16384, na_timeout = 450, na_allow_unsynchronized = False\<rparr>"

definition demo_latency_guests :: string where
  "demo_latency_guests = ''Number of jettys : 1'' @ [CHR 0x0A] @ ''64 16 1 2 3 4 5 6 7 8 9'' @ [CHR 0x0A] @ ''__UBSIM_RC_1_2__=0'' @ [CHR 0x0A] @
     ''Number of jettys : 1'' @ [CHR 0x0A] @ ''__UBSIM_RC_1_2__=0'' @ [CHR 0x0A]"

definition demo_scan_world :: scan_world where
  "demo_scan_world = \<lparr>gw_manifest = Inr (''synchronization=required'' @ [CHR 0x0A] @ ''node_count=2'' @ [CHR 0x0A]), gw_mkdir = Inr (),
     gw_size = (\<lambda>_ _. None), gw_file = (\<lambda>_ _. Inl (OSError [])),
     gw_serial = (\<lambda>index _. (0, if index = 0 then demo_latency_guests else demo_guest @ demo_guest)), gw_wall = (\<lambda>_. ''0.5''),
     nw_stderr = (\<lambda>_. []), nw_sync_ready = False\<rparr>"

lemma demo_latency_findings:
  "jetty_counts demo_latency_guests = [''1'', ''1'']" "guest_exits demo_latency_guests = [''0'', ''0'']"
  "rx_findall (rx_latency 64) demo_latency_guests = [[''16'', ''1'', ''2'', ''3'', ''4'', ''5'', ''6'', ''7'', ''8'', ''9'']]"
  by code_simp+

lemma demo_scan_ready: "scan_ready demo_scan_args demo_scan_world"
proof -
  have "list_all (\<lambda>line. str_in (line @ [CHR 0x0A]) (''synchronization=required'' @ [CHR 0x0A] @ ''node_count=2'' @ [CHR 0x0A]))
      [''synchronization=required'', ''node_count=2'']" by code_simp
  then show ?thesis by (simp add: scan_ready_def run_ready_def demo_scan_args_def demo_scan_world_def sync_marker_def)
qed

lemma demo_scan_measured:
  "\<exists>r. scan_measured demo_scan_args demo_scan_world Lat 0 0 64 r" "\<exists>r. scan_measured demo_scan_args demo_scan_world Bw 1 0 64 r"
proof -
  show "\<exists>r. scan_measured demo_scan_args demo_scan_world Lat 0 0 64 r"
    by (simp add: scan_measured_def scan_serial_def demo_scan_world_def demo_scan_args_def latency_shows_def demo_latency_findings)
  obtain peak average mpps where r: "float_row [''9'', ''8'', ''1''] = Inr (peak, average, mpps)"
    using demo_float_row by (metis prod_cases3)
  have "transcript_shows (demo_guest @ demo_guest) 64 1 256 (peak, average, mpps)"
    by (simp add: transcript_shows_def demo_guest_findings r str_int_1)
  then show "\<exists>r. scan_measured demo_scan_args demo_scan_world Bw 1 0 64 r"
    by (auto simp: scan_measured_def scan_serial_def scan_count_def demo_scan_world_def demo_scan_args_def)
qed

theorem scan_complete_witness:
  "\<exists>lat b. scan_main demo_scan_args demo_scan_world = (Inr 0, lat, Some b) \<and> length (so_rows lat) = 1 \<and> length (so_rows b) = 1"
proof -
  obtain result lat bw where main: "scan_main demo_scan_args demo_scan_world = (result, lat, bw)" by (metis prod_cases3)
  have sizes: "na_sizes demo_scan_args = [64]" by (simp add: demo_scan_args_def)
  note v = scan_complete [OF main]
  have zero: "result = Inr 0"
    using v demo_scan_ready demo_scan_measured by (simp add: sizes)
  then obtain b where "bw = Some b"
    using scan_main_cases [OF main] demo_scan_ready by auto
  with zero v main show ?thesis by (auto simp: sizes)
qed

end
