(* ===== verification/Cpio_Image.thy ===== *)
theory Cpio_Image
  imports Py_Expr
begin

section \<open>Replacing a program in an initial file system\<close>

text \<open>
  Model of \<^verbatim>\<open>replace_perftest\<close> of \<^verbatim>\<open>tools/build_perftest_bw_diagnostic.py\<close>, which walks over the records of
  a \<^verbatim>\<open>newc\<close> archive and replaces the contents of one of them.  A byte is a character.  A record with a
  negative size sends the walk backwards, possibly for ever, so the walk is a partial function.  The
  digest \<open>sha\<close> is an argument.
\<close>

subsection \<open>Bytes\<close>

text \<open>\<^verbatim>\<open>xs[i:j]\<close>, where a negative position counts from the end.\<close>

definition py_position :: "nat \<Rightarrow> int \<Rightarrow> nat" where
  "py_position n i = (if i < 0 then nat (i + int n) else min (nat i) n)"

definition py_slice :: "string \<Rightarrow> int \<Rightarrow> int \<Rightarrow> string" where
  "py_slice xs i j = (let a = py_position (length xs) i; b = py_position (length xs) j in take (b - a) (drop a xs))"

text \<open>\<^verbatim>\<open>int(xs, 16)\<close> on bytes: white space of C around the number, a sign, the prefix \<^verbatim>\<open>0x\<close>, digits with single underscores.\<close>

definition c_space :: "char \<Rightarrow> bool" where
  "c_space c \<longleftrightarrow> (let n = (of_char c :: nat) in n = 32 \<or> (9 \<le> n \<and> n \<le> 13))"

definition int16 :: "string \<Rightarrow> int res" where
  "int16 s = (let t = rev (dropWhile c_space (rev (dropWhile c_space s)));
       negative = (t \<noteq> [] \<and> hd t = CHR ''-'');
       u = (if t \<noteq> [] \<and> hd t \<in> set ''+-'' then tl t else t);
       prefixed = (length u \<ge> 2 \<and> hd u = CHR ''0'' \<and> u ! 1 \<in> set ''xX'');
       v = (if prefixed then drop 2 u else u) in
     if v = [] \<or> (\<not> prefixed \<and> hd v = CHR ''_'') then Inl (ValueError ''invalid literal for int() with base 16'')
     else case base_digits 16 0 v of
       None \<Rightarrow> Inl (ValueError ''invalid literal for int() with base 16'')
     | Some n \<Rightarrow> Inr (if negative then - int n else int n))"

text \<open>\<^verbatim>\<open>bytes.decode()\<close> raises unless the bytes are UTF-8.  Equal bytes decode to equal texts, so names stay bytes.\<close>

definition in_range :: "nat \<Rightarrow> nat \<Rightarrow> char \<Rightarrow> bool" where
  "in_range a b c \<longleftrightarrow> a \<le> of_char c \<and> of_char c \<le> b"

definition utf8_tails :: "char \<Rightarrow> (char \<Rightarrow> bool) list option" where
  "utf8_tails c = (let t = in_range 0x80 0xBF in
     if in_range 0 0x7F c then Some []
     else if in_range 0xC2 0xDF c then Some [t]
     else if in_range 0xE0 0xE0 c then Some [in_range 0xA0 0xBF, t]
     else if in_range 0xED 0xED c then Some [in_range 0x80 0x9F, t]
     else if in_range 0xE1 0xEF c then Some [t, t]
     else if in_range 0xF0 0xF0 c then Some [in_range 0x90 0xBF, t, t]
     else if in_range 0xF1 0xF3 c then Some [t, t, t]
     else if in_range 0xF4 0xF4 c then Some [in_range 0x80 0x8F, t, t]
     else None)"

fun utf8_run :: "(char \<Rightarrow> bool) list \<Rightarrow> string \<Rightarrow> bool" where
  "utf8_run [] [] \<longleftrightarrow> True"
| "utf8_run (P # Ps) [] \<longleftrightarrow> False"
| "utf8_run (P # Ps) (c # cs) \<longleftrightarrow> P c \<and> utf8_run Ps cs"
| "utf8_run [] (c # cs) \<longleftrightarrow> (case utf8_tails c of None \<Rightarrow> False | Some Ps \<Rightarrow> utf8_run Ps cs)"

definition is_utf8 :: "string \<Rightarrow> bool" where
  "is_utf8 s = utf8_run [] s"

definition zeros :: "nat \<Rightarrow> string" where
  "zeros k = replicate k (CHR 0x00)"

text \<open>\<^verbatim>\<open>b"\0" * (-n % k)\<close>, \<^verbatim>\<open>(i + 3) & ~3\<close> and \<^verbatim>\<open>f"{n:08x}"\<close>.\<close>

definition fill :: "nat \<Rightarrow> nat \<Rightarrow> string" where
  "fill k n = zeros (nat (- int n mod int k))"

definition align4 :: "int \<Rightarrow> int" where
  "align4 i = (i + 3) div 4 * 4"

definition hex8 :: "nat \<Rightarrow> string" where
  "hex8 n = (let s = show_hex n in replicate (8 - length s) (CHR ''0'') @ s)"

subsection \<open>The walk\<close>

record cpio_change =
  cc_name :: string
  cc_old :: string
  cc_new :: string

type_synonym cpio_state = "string \<times> cpio_change list \<times> nat"

definition PERFTEST :: string where
  "PERFTEST = ''usr/bin/urma_perftest''"

text \<open>One round of the loop: whether it ends, the next position, the output and what was counted.\<close>

definition cpio_step :: "(string \<Rightarrow> string) \<Rightarrow> string \<Rightarrow> string \<Rightarrow> int \<Rightarrow> cpio_state \<Rightarrow> (bool \<times> int \<times> cpio_state) res" where
  "cpio_step sha raw replacement offset st = (case st of (out, replaced, unchanged) \<Rightarrow>
     if py_slice raw offset (offset + 6) \<noteq> ''070701'' then
       (if list_all (\<lambda>c. c = CHR 0x00) (py_slice raw offset (int (length raw))) then Inr (True, offset, st)
        else Inl (RuntimeError ''unsupported initramfs format''))
     else let hdr = py_slice raw offset (offset + 110) in
       rbind (int16 (py_slice hdr 54 62)) (\<lambda>bytes. rbind (int16 (py_slice hdr 94 102)) (\<lambda>namesize.
         let name = py_slice raw (offset + 110) (offset + 110 + namesize - 1);
             content_offset = align4 (offset + 110 + namesize);
             end_offset = align4 (content_offset + bytes) in
         if \<not> is_utf8 name then Inl (ValueError ''invalid utf-8'')
         else Inr (name = ''TRAILER!!!'', end_offset,
           if removeprefix name ''./'' = PERFTEST
           then (out @ py_slice hdr 0 54 @ hex8 (length replacement) @ py_slice hdr 62 (int (length hdr)) @
                   py_slice raw (offset + 110) content_offset @ replacement @ fill 4 (length replacement),
                 replaced @ [\<lparr>cc_name = name, cc_old = sha (py_slice raw content_offset (content_offset + bytes)), cc_new = sha replacement\<rparr>],
                 unchanged)
           else (out @ py_slice raw offset end_offset, replaced, Suc unchanged)))))"

partial_function (option) cpio_loop ::
  "(string \<Rightarrow> string) \<Rightarrow> string \<Rightarrow> string \<Rightarrow> int \<Rightarrow> cpio_state \<Rightarrow> cpio_state res option" where
  "cpio_loop sha raw replacement offset st =
     (if \<not> offset < int (length raw) then Some (Inr st)
      else case cpio_step sha raw replacement offset st of
        Inl e \<Rightarrow> Some (Inl e)
      | Inr (finished, offset', st') \<Rightarrow> if finished then Some (Inr st') else cpio_loop sha raw replacement offset' st')"

definition replace_perftest :: "(string \<Rightarrow> string) \<Rightarrow> string \<Rightarrow> string \<Rightarrow> cpio_state res option" where
  "replace_perftest sha raw replacement = map_option (\<lambda>r. rbind r (\<lambda>(out, replaced, unchanged).
     if length replaced \<noteq> 1 then Inl (RuntimeError ''expected exactly one perftest entry'')
     else Inr (out @ fill 512 (length out), replaced, unchanged))) (cpio_loop sha raw replacement 0 ([], [], 0))"

end
