(* ===== verification/Cpio_Facts.thy ===== *)
theory Cpio_Facts
  imports Cpio_Image
begin

section \<open>Only the program is replaced\<close>

text \<open>
  Archives as lists of records, and the result of \<^verbatim>\<open>replace_perftest\<close> on every archive.
\<close>

subsection \<open>Numbers and slices\<close>

lemma hex_digit_facts:
  assumes "d < 16"
  shows "is_hex (hex_digit d)" "hex_val (hex_digit d) = d" "\<not> c_space (hex_digit d)" "hex_digit d \<notin> set ''+-_xX''"
proof -
  have "d \<in> set [0..<16]" using assms by simp
  moreover have "list_all (\<lambda>d. is_hex (hex_digit d) \<and> hex_val (hex_digit d) = d \<and> \<not> c_space (hex_digit d) \<and> hex_digit d \<notin> set ''+-_xX'') [0..<16]"
    by code_simp
  ultimately show "is_hex (hex_digit d)" "hex_val (hex_digit d) = d" "\<not> c_space (hex_digit d)" "hex_digit d \<notin> set ''+-_xX''"
    unfolding list_all_iff by blast+
qed

definition hex_word :: "string \<Rightarrow> bool" where
  "hex_word s \<longleftrightarrow> (\<forall>c \<in> set s. \<exists>d < 16. c = hex_digit d)"

lemma show_hex_word: "hex_word (show_hex n)"
proof (induction n rule: show_hex.induct)
  case (1 n)
  have "\<exists>d < 16. hex_digit (n mod 16) = hex_digit d" by (intro exI [of _ "n mod 16"]) simp
  with 1 show ?case by (subst show_hex.simps) (auto simp: hex_word_def)
qed

lemma base_digits_append:
  "hex_word s \<Longrightarrow> base_digits 16 acc (s @ t) = (case base_digits 16 acc s of None \<Rightarrow> None | Some v \<Rightarrow> base_digits 16 v t)"
proof (induction s arbitrary: acc)
  case (Cons c s)
  then obtain d where d: "d < 16" "c = hex_digit d" "hex_word s" unfolding hex_word_def by auto
  have c: "is_hex c" "hex_val c < 16" "c \<noteq> CHR ''_''" using hex_digit_facts [OF d(1)] d(1,2) by auto
  from Cons.IH [OF d(3)] show ?case by (simp add: c)
qed simp

lemma base_digits_show_hex: "base_digits 16 0 (show_hex n) = Some n"
proof (induction n rule: show_hex.induct)
  case (1 n)
  have digit: "base_digits 16 v [hex_digit d] = Some (v * 16 + d)" if "d < 16" for v d
    using hex_digit_facts [OF that] that by auto
  show ?case
  proof (cases "n < 16")
    case True
    then show ?thesis using digit [of n 0] by (subst show_hex.simps) simp
  next
    case False
    with 1 digit [of "n mod 16" "n div 16"] show ?thesis
      by (subst show_hex.simps) (simp add: base_digits_append [OF show_hex_word])
  qed
qed

lemma length_show_hex: "n < 16 ^ k \<Longrightarrow> 0 < k \<Longrightarrow> length (show_hex n) \<le> k"
proof (induction k arbitrary: n)
  case (Suc k)
  show ?case
  proof (cases "n < 16")
    case True
    then show ?thesis by (subst show_hex.simps) simp
  next
    case False
    with Suc.prems have "0 < k" "n div 16 < 16 ^ k" by (cases k; auto)+
    with Suc.IH False show ?thesis by (subst show_hex.simps) simp
  qed
qed simp

lemma base_digits_zeros: "base_digits 16 0 (replicate k (CHR ''0'') @ s) = base_digits 16 0 s"
proof (induction k)
  case (Suc k)
  have "is_hex (CHR ''0'')" "hex_val (CHR ''0'') = 0" by code_simp+
  with Suc show ?case by simp
qed simp

lemma hex8_word: "hex_word (hex8 n)" "hex8 n \<noteq> []"
proof -
  have "CHR ''0'' = hex_digit 0" by code_simp
  then have "\<exists>d < 16. CHR ''0'' = hex_digit d" by (intro exI [of _ 0]) simp
  then show "hex_word (hex8 n)" using show_hex_word [of n] by (auto simp: hex8_def hex_word_def Let_def)
  show "hex8 n \<noteq> []" by (subst hex8_def, subst show_hex.simps) (simp add: Let_def)
qed

lemma length_hex8: "n < 16 ^ 8 \<Longrightarrow> length (hex8 n) = 8"
  using length_show_hex [of n 8] by (simp add: hex8_def Let_def)

lemma int16_hex8: "int16 (hex8 n) = Inr (int n)"
proof -
  let ?s = "hex8 n"
  obtain c cs where s: "?s = c # cs" using hex8_word(2) by (cases ?s) auto
  have digits: "\<not> c_space x \<and> x \<notin> set ''+-_xX''" if x: "x \<in> set ?s" for x
  proof -
    obtain d where "d < 16" "x = hex_digit d" using hex8_word(1) [of n] x unfolding hex_word_def by blast
    then show ?thesis using hex_digit_facts by simp
  qed
  have trim: "rev (dropWhile c_space (rev (dropWhile c_space ?s))) = ?s"
  proof -
    have "dropWhile c_space ?s = ?s" using digits s by (simp add: dropWhile_eq_self_iff)
    moreover have "dropWhile c_space (rev ?s) = rev ?s"
      using digits hex8_word(2) by (metis dropWhile_eq_self_iff hd_in_set set_rev)
    ultimately show ?thesis by simp
  qed
  have first: "c \<notin> set ''+-_xX''" using digits s by simp
  have second: "\<not> (length ?s \<ge> 2 \<and> ?s ! 1 \<in> set ''xX'')"
    using digits nth_mem [of 1 ?s] by fastforce
  have "base_digits 16 0 ?s = Some n"
    by (simp add: hex8_def Let_def base_digits_zeros base_digits_show_hex)
  then show ?thesis
    using first second unfolding int16_def Let_def trim by (auto simp: s)
qed

lemma py_slice_mid:
  assumes "xs = p @ m @ r" and "i = int (length p)" and "j = int (length p + length m)"
  shows "py_slice xs i j = m"
  using assms by (simp add: py_slice_def py_position_def Let_def min_def nat_add_distrib)

subsection \<open>Archives\<close>

text \<open>
  A record: the parts of the header around the two sizes that matter, the name and the data.  Header and
  name, and the data, are filled to a multiple of four.
\<close>

record cpio_entry =
  ce_before :: string
  ce_between :: string
  ce_check :: string
  ce_name :: string
  ce_data :: string

definition cpio_header :: "cpio_entry \<Rightarrow> string" where
  "cpio_header e = ''070701'' @ ce_before e @ hex8 (length (ce_data e)) @ ce_between e @ hex8 (Suc (length (ce_name e))) @ ce_check e"

definition cpio_name :: "cpio_entry \<Rightarrow> string" where
  "cpio_name e = ce_name e @ zeros 1 @ fill 4 (111 + length (ce_name e))"

definition cpio_bytes :: "cpio_entry \<Rightarrow> string" where
  "cpio_bytes e = cpio_header e @ cpio_name e @ ce_data e @ fill 4 (length (ce_data e))"

definition entry_ok :: "cpio_entry \<Rightarrow> bool" where
  "entry_ok e \<longleftrightarrow> length (ce_before e) = 48 \<and> length (ce_between e) = 32 \<and> length (ce_check e) = 8 \<and>
     length (ce_data e) < 16 ^ 8 \<and> Suc (length (ce_name e)) < 16 ^ 8 \<and> is_utf8 (ce_name e)"

definition is_perftest :: "cpio_entry \<Rightarrow> bool" where
  "is_perftest e \<longleftrightarrow> removeprefix (ce_name e) ''./'' = PERFTEST"

definition put_data :: "string \<Rightarrow> cpio_entry \<Rightarrow> cpio_entry" where
  "put_data new e = (if is_perftest e then e\<lparr>ce_data := new\<rparr> else e)"

definition changes :: "(string \<Rightarrow> string) \<Rightarrow> string \<Rightarrow> cpio_entry list \<Rightarrow> cpio_change list" where
  "changes sha new es = map (\<lambda>e. \<lparr>cc_name = ce_name e, cc_old = sha (ce_data e), cc_new = sha new\<rparr>) (filter is_perftest es)"

lemma length_fill [simp]: "length (fill k n) = nat (- int n mod int k)"
  by (simp add: fill_def zeros_def)

lemma align4_fill: "align4 (int n) = int n + int (nat (- int n mod 4))"
proof -
  have "(int n + 3) div 4 * 4 = int n + (- int n mod 4)" by presburger
  then show ?thesis by (simp add: align4_def)
qed

lemma align4_shift: "4 dvd n \<Longrightarrow> align4 (int n + i) = int n + align4 i"
  unfolding align4_def by (elim dvdE) presburger

lemma align4_dvd: "4 dvd align4 i"
  by (simp add: align4_def)

lemma entry_lengths:
  assumes "entry_ok e"
  shows "length (cpio_header e) = 110" "align4 (int (111 + length (ce_name e))) = 110 + int (length (cpio_name e))"
    "int (length (cpio_bytes e)) = 110 + int (length (cpio_name e)) + align4 (int (length (ce_data e)))" "4 dvd length (cpio_bytes e)"
proof -
  show h: "length (cpio_header e) = 110"
    using assms by (simp add: cpio_header_def entry_ok_def length_hex8)
  show n: "align4 (int (111 + length (ce_name e))) = 110 + int (length (cpio_name e))"
    using align4_fill [of "111 + length (ce_name e)"] by (simp add: cpio_name_def zeros_def)
  show b: "int (length (cpio_bytes e)) = 110 + int (length (cpio_name e)) + align4 (int (length (ce_data e)))"
    using h by (simp add: cpio_bytes_def align4_fill)
  have "4 dvd int (length (cpio_bytes e))"
    unfolding b n [symmetric] by (intro dvd_add align4_dvd)
  then show "4 dvd length (cpio_bytes e)" by (metis int_dvd_int_iff of_nat_numeral)
qed

text \<open>What one round finds at the start of a record.\<close>

lemma entry_slices:
  fixes pre rest e
  defines "raw \<equiv> pre @ cpio_bytes e @ rest" and "at \<equiv> int (length pre)"
  assumes ok: "entry_ok e" and aligned: "4 dvd length pre"
  shows "py_slice raw at (at + 6) = ''070701''" "py_slice raw at (at + 110) = cpio_header e"
    "py_slice raw (at + 110) (at + 110 + int (Suc (length (ce_name e))) - 1) = ce_name e"
    "align4 (at + 110 + int (Suc (length (ce_name e)))) = at + 110 + int (length (cpio_name e))"
    "py_slice raw (at + 110) (at + 110 + int (length (cpio_name e))) = cpio_name e"
    "py_slice raw (at + 110 + int (length (cpio_name e))) (at + 110 + int (length (cpio_name e)) + int (length (ce_data e))) = ce_data e"
    "align4 (at + 110 + int (length (cpio_name e)) + int (length (ce_data e))) = at + int (length (cpio_bytes e))"
    "py_slice raw at (at + int (length (cpio_bytes e))) = cpio_bytes e"
proof -
  note len = entry_lengths [OF ok]
  have parts: "cpio_bytes e = cpio_header e @ cpio_name e @ ce_data e @ fill 4 (length (ce_data e))" by (rule cpio_bytes_def)
  show "py_slice raw at (at + 6) = ''070701''"
    by (rule py_slice_mid [of _ pre _ "drop 6 (cpio_bytes e) @ rest"]) (simp_all add: raw_def at_def cpio_bytes_def cpio_header_def)
  show "py_slice raw at (at + 110) = cpio_header e"
    by (rule py_slice_mid [of _ pre]) (simp_all add: raw_def at_def parts len)
  show "py_slice raw (at + 110) (at + 110 + int (Suc (length (ce_name e))) - 1) = ce_name e"
    by (rule py_slice_mid [of _ "pre @ cpio_header e"]) (simp_all add: raw_def at_def parts cpio_name_def len)
  show name_end: "align4 (at + 110 + int (Suc (length (ce_name e)))) = at + 110 + int (length (cpio_name e))"
    using align4_shift [OF aligned, of "111 + int (length (ce_name e))"] len(2) by (simp add: at_def algebra_simps)
  show "py_slice raw (at + 110) (at + 110 + int (length (cpio_name e))) = cpio_name e"
    by (rule py_slice_mid [of _ "pre @ cpio_header e"]) (simp_all add: raw_def at_def parts len)
  show "py_slice raw (at + 110 + int (length (cpio_name e))) (at + 110 + int (length (cpio_name e)) + int (length (ce_data e))) = ce_data e"
    by (rule py_slice_mid [of _ "pre @ cpio_header e @ cpio_name e"]) (simp_all add: raw_def at_def parts len)
  have "4 dvd 110 + length (cpio_name e)"
    using align4_dvd [of "int (111 + length (ce_name e))"] unfolding len(2) by presburger
  then have "4 dvd length pre + (110 + length (cpio_name e))" using aligned by (rule dvd_add [rotated])
  from align4_shift [OF this, of "int (length (ce_data e))"] len(3)
  show "align4 (at + 110 + int (length (cpio_name e)) + int (length (ce_data e))) = at + int (length (cpio_bytes e))"
    by (simp add: at_def algebra_simps)
  show "py_slice raw at (at + int (length (cpio_bytes e))) = cpio_bytes e"
    by (rule py_slice_mid [of _ pre _ rest]) (simp_all add: raw_def at_def)
qed

lemma header_slices:
  assumes "entry_ok e"
  shows "py_slice (cpio_header e) 54 62 = hex8 (length (ce_data e))" "py_slice (cpio_header e) 94 102 = hex8 (Suc (length (ce_name e)))"
    "py_slice (cpio_header e) 0 54 = ''070701'' @ ce_before e"
    "py_slice (cpio_header e) 62 110 = ce_between e @ hex8 (Suc (length (ce_name e))) @ ce_check e"
proof -
  have len: "length (ce_before e) = 48" "length (ce_between e) = 32" "length (ce_check e) = 8"
    "length (hex8 (length (ce_data e))) = 8" "length (hex8 (Suc (length (ce_name e)))) = 8"
    using assms by (simp_all add: entry_ok_def length_hex8)
  show "py_slice (cpio_header e) 54 62 = hex8 (length (ce_data e))"
    by (rule py_slice_mid [of _ "''070701'' @ ce_before e"]) (simp_all add: cpio_header_def len)
  show "py_slice (cpio_header e) 94 102 = hex8 (Suc (length (ce_name e)))"
    by (rule py_slice_mid [of _ "''070701'' @ ce_before e @ hex8 (length (ce_data e)) @ ce_between e"]) (simp_all add: cpio_header_def len)
  show "py_slice (cpio_header e) 0 54 = ''070701'' @ ce_before e"
    by (rule py_slice_mid [of _ "[]" _ "hex8 (length (ce_data e)) @ ce_between e @ hex8 (Suc (length (ce_name e))) @ ce_check e"])
      (simp_all add: cpio_header_def len)
  show "py_slice (cpio_header e) 62 110 = ce_between e @ hex8 (Suc (length (ce_name e))) @ ce_check e"
    by (rule py_slice_mid [of _ "''070701'' @ ce_before e @ hex8 (length (ce_data e))" _ "[]"]) (simp_all add: cpio_header_def len)
qed

lemma cpio_step_entry:
  assumes "entry_ok e" and "4 dvd length pre"
  shows "cpio_step sha (pre @ cpio_bytes e @ rest) new (int (length pre)) (out, replaced, unchanged) =
    Inr (ce_name e = ''TRAILER!!!'', int (length (pre @ cpio_bytes e)),
      out @ cpio_bytes (put_data new e), replaced @ changes sha new [e], if is_perftest e then unchanged else Suc unchanged)"
proof -
  note sl = entry_slices [OF assms] and hs = header_slices [OF assms(1)]
  have utf8: "is_utf8 (ce_name e)" using assms(1) by (simp add: entry_ok_def)
  have step: "cpio_step sha (pre @ cpio_bytes e @ rest) new (int (length pre)) (out, replaced, unchanged) =
    Inr (ce_name e = ''TRAILER!!!'', int (length pre) + int (length (cpio_bytes e)),
      if is_perftest e
      then (out @ py_slice (cpio_header e) 0 54 @ hex8 (length new) @ py_slice (cpio_header e) 62 110 @ cpio_name e @ new @ fill 4 (length new),
        replaced @ [\<lparr>cc_name = ce_name e, cc_old = sha (ce_data e), cc_new = sha new\<rparr>], unchanged)
      else (out @ cpio_bytes e, replaced, Suc unchanged))"
    unfolding cpio_step_def Let_def prod.case sl hs int16_hex8 rbind_simps is_perftest_def
    by (simp add: utf8 entry_lengths(1) [OF assms(1)] hs)
  show ?thesis
    unfolding step hs by (simp add: put_data_def changes_def cpio_bytes_def cpio_header_def cpio_name_def)
qed

lemma cpio_loop_entries:
  assumes "list_all entry_ok es" and "list_all (\<lambda>e. ce_name e \<noteq> ''TRAILER!!!'') es" and "4 dvd length pre"
    and "raw = pre @ concat (map cpio_bytes es) @ rest"
  shows "cpio_loop sha raw new (int (length pre)) (out, replaced, unchanged) =
    cpio_loop sha raw new (int (length (pre @ concat (map cpio_bytes es))))
      (out @ concat (map (\<lambda>e. cpio_bytes (put_data new e)) es), replaced @ changes sha new es,
       unchanged + length (filter (\<lambda>e. \<not> is_perftest e) es))"
  using assms
proof (induction es arbitrary: pre out replaced unchanged)
  case Nil
  then show ?case by (simp add: changes_def)
next
  case (Cons e es)
  have ok: "entry_ok e" "ce_name e \<noteq> ''TRAILER!!!''" using Cons.prems by auto
  have "int (length pre) < int (length raw)" using Cons.prems(4) entry_lengths(1) [OF ok(1)] by (simp add: cpio_bytes_def)
  moreover have "raw = pre @ cpio_bytes e @ concat (map cpio_bytes es) @ rest" using Cons.prems(4) by simp
  ultimately have "cpio_loop sha raw new (int (length pre)) (out, replaced, unchanged) =
      cpio_loop sha raw new (int (length (pre @ cpio_bytes e)))
        (out @ cpio_bytes (put_data new e), replaced @ changes sha new [e], if is_perftest e then unchanged else Suc unchanged)"
    using ok cpio_step_entry [OF ok(1) Cons.prems(3), of sha "concat (map cpio_bytes es) @ rest" new out replaced unchanged]
    by (subst cpio_loop.simps) simp
  moreover have "4 dvd length (pre @ cpio_bytes e)" using Cons.prems(3) entry_lengths(4) [OF ok(1)] by simp
  ultimately show ?case
    using Cons.IH [of "pre @ cpio_bytes e"] Cons.prems by (simp add: changes_def)
qed

text \<open>The archive of some records, ended by the record that closes an archive.\<close>

definition archive :: "cpio_entry list \<Rightarrow> cpio_entry \<Rightarrow> string" where
  "archive es trailer = concat (map cpio_bytes (es @ [trailer]))"

definition is_archive :: "cpio_entry list \<Rightarrow> cpio_entry \<Rightarrow> bool" where
  "is_archive es trailer \<longleftrightarrow> list_all entry_ok (es @ [trailer]) \<and>
     list_all (\<lambda>e. ce_name e \<noteq> ''TRAILER!!!'') es \<and> ce_name trailer = ''TRAILER!!!''"

lemma replace_perftest_result:
  assumes "is_archive es trailer"
  shows "replace_perftest sha (archive es trailer @ tail) new = Some (
    if length (filter is_perftest es) = 1
    then Inr (archive (map (put_data new) es) trailer @ fill 512 (length (archive (map (put_data new) es) trailer)),
      changes sha new es, length es)
    else Inl (RuntimeError ''expected exactly one perftest entry''))"
proof -
  let ?raw = "archive es trailer @ tail" and ?pre = "concat (map cpio_bytes es)"
  have ok: "list_all entry_ok es" "entry_ok trailer" "list_all (\<lambda>e. ce_name e \<noteq> ''TRAILER!!!'') es" "ce_name trailer = ''TRAILER!!!''"
    using assms by (auto simp: is_archive_def)
  have raw: "?raw = [] @ ?pre @ cpio_bytes trailer @ tail" by (simp add: archive_def)
  have not: "\<not> is_perftest trailer"
    unfolding is_perftest_def ok(4) PERFTEST_def by code_simp
  have "4 dvd length ?pre"
    using ok(1) by (induction es) (auto intro!: dvd_add entry_lengths(4))
  from cpio_step_entry [OF ok(2) this, of sha tail new]
  have step: "cpio_step sha ?raw new (int (length ?pre)) (out, replaced, unchanged) =
      Inr (True, int (length (?pre @ cpio_bytes trailer)), out @ cpio_bytes trailer, replaced, Suc unchanged)" for out replaced unchanged
    using not ok(4) by (simp add: raw put_data_def changes_def)
  have "length ?pre < length ?raw"
    using entry_lengths(1) [OF ok(2)] unfolding raw by (simp add: cpio_bytes_def)
  then have last: "cpio_loop sha ?raw new (int (length ?pre)) (out, replaced, unchanged) = Some (Inr (out @ cpio_bytes trailer, replaced, Suc unchanged))"
    for out replaced unchanged
    by (subst cpio_loop.simps) (simp add: step)
  have loop: "cpio_loop sha ?raw new 0 ([], [], 0) = Some (Inr (archive (map (put_data new) es) trailer, changes sha new es,
      Suc (length (filter (\<lambda>e. \<not> is_perftest e) es))))"
    using cpio_loop_entries [OF ok(1,3), of "[]" ?raw "cpio_bytes trailer @ tail" sha new "[]" "[]" 0] last raw
    by (simp add: archive_def o_def)
  have "length (filter is_perftest es) + length (filter (\<lambda>e. \<not> is_perftest e) es) = length es"
    by (rule sum_length_filter_compl)
  then show ?thesis
    unfolding replace_perftest_def loop by (auto simp: changes_def)
qed

lemma put_data_archive:
  assumes "is_archive es trailer" and "length new < 16 ^ 8"
  shows "is_archive (map (put_data new) es) trailer"
  using assms by (auto simp: is_archive_def list_all_iff put_data_def entry_ok_def)

lemma is_perftest_put [simp]: "is_perftest (put_data new e) = is_perftest e"
  by (simp add: put_data_def is_perftest_def)

lemma put_data_back:
  assumes "filter is_perftest es = [e]"
  shows "map (put_data (ce_data e)) (map (put_data new) es) = es"
proof -
  have "put_data (ce_data e) (put_data new x) = x" if "x \<in> set es" for x
  proof (cases "is_perftest x")
    case True
    with that have "x \<in> set (filter is_perftest es)" by simp
    with assms have "x = e" by simp
    with True show ?thesis using is_perftest_put [of new e] by (simp add: put_data_def is_perftest_def)
  next
    case False
    then show ?thesis by (simp add: put_data_def)
  qed
  then show ?thesis by (simp add: map_idI)
qed


definition demo_entry :: "string \<Rightarrow> string \<Rightarrow> cpio_entry" where
  "demo_entry name content = \<lparr>ce_before = replicate 48 (CHR ''0''), ce_between = replicate 32 (CHR ''0''), ce_check = replicate 8 (CHR ''0''),
     ce_name = name, ce_data = content\<rparr>"

lemma demo_archive: "is_archive [demo_entry ''./usr/bin/urma_perftest'' ''old'', demo_entry ''init'' ''sh''] (demo_entry ''TRAILER!!!'' [])"
proof -
  have "is_utf8 ''./usr/bin/urma_perftest''" "is_utf8 ''init''" "is_utf8 ''TRAILER!!!''" by code_simp+
  then show ?thesis by (simp add: is_archive_def entry_ok_def demo_entry_def)
qed


end
