(* ===== verification/Qemu_Integrity.thy ===== *)
theory Qemu_Integrity
  imports Rma_Regression Py_Expr
begin

section \<open>Integrity suites and device profiles\<close>

text \<open>
  Model of \<^verbatim>\<open>tools/run_qemu_integrity.py\<close>, which runs byte-level checks of the URMA interface on two QEMU
  guests, and of \<^verbatim>\<open>tools/check_udma_profile.py\<close>, which checks the counters a device model prints at its
  end.  What the guests and the device print is an argument.  Times, digests, copies of files and
  printed progress are not modelled.
\<close>

subsection \<open>Transcripts of a case\<close>

record integrity_case =
  ic_op :: string
  ic_size :: int
  ic_rounds :: int
  ic_batch :: int
  ic_depth :: int

definition integrity_marker :: "integrity_case \<Rightarrow> int \<Rightarrow> bool \<Rightarrow> string \<Rightarrow> string" where
  "integrity_marker c shared_jettys negative role =
     (if negative then ''PASS negative-send-length bytes=4097 expected_status=2 receiver_unchanged=1 role='' @ role
      else ''PASS integrity op='' @ ic_op c @ '' bytes='' @ str_int (ic_size c) @ '' rounds='' @ str_int (ic_rounds c) @
        '' batch='' @ str_int (ic_batch c) @ '' depth='' @ str_int (ic_depth c) @ '' shared_jettys='' @ str_int shared_jettys @
        '' schedule=round-robin-pairs payloads='' @ str_int (ic_rounds c * ic_batch c) @ '' role='' @ role)"

definition pass_markers :: "string \<Rightarrow> string list" where
  "pass_markers transcript = map strip (filter (\<lambda>line. startswith line ''PASS '') (splitlines transcript))"

definition validate_output :: "string \<Rightarrow> integrity_case \<Rightarrow> bool \<Rightarrow> int \<Rightarrow> bool \<Rightarrow> string list" where
  "validate_output output c concurrent shared_jettys negative =
     (let sections = uart_sections output in
      if length sections \<noteq> 2 then [''expected two UART transcripts'']
      else concat (map (\<lambda>(transcript, role).
        let markers = pass_markers transcript in
        if markers \<noteq> replicate (if concurrent then 2 else 1) (integrity_marker c shared_jettys negative role)
        then [role @ '': incorrect or missing acceptance marker: '' @ repr_strs markers] else [])
        (zip sections [''server'', ''client''])))"

subsection \<open>Suites\<close>

datatype integrity_suite = ISmoke | IBoundaries | IWrap | IConcurrent | IShared | ILarge | IOverlimit

definition icase :: "string \<Rightarrow> int \<Rightarrow> int \<Rightarrow> int \<Rightarrow> int \<Rightarrow> integrity_case" where
  "icase op bytes rounds batch depth = \<lparr>ic_op = op, ic_size = bytes, ic_rounds = rounds, ic_batch = batch, ic_depth = depth\<rparr>"

definition OPS3 :: "string list" where
  "OPS3 = [''send'', ''write'', ''read'']"

fun integrity_cases :: "integrity_suite \<Rightarrow> integrity_case list" where
  "integrity_cases IBoundaries = concat (map (\<lambda>op. map (\<lambda>bytes. icase op bytes 4 1 64)
     ([1, 2, 63, 64, 65, 127, 128, 129, 4095, 4096] @ (if op = ''send'' then [] else [4097, 65535, 65536]))) OPS3)"
| "integrity_cases IWrap = map (\<lambda>op. icase op 4096 8 512 512) OPS3"
| "integrity_cases IShared = map (\<lambda>op. icase op 4096 8 512 512) OPS3"
| "integrity_cases ILarge = concat (map (\<lambda>op. map (\<lambda>bytes. icase op bytes 4 1 64) [65537, 1048576]) [''write'', ''read''])"
| "integrity_cases IOverlimit = [icase ''send'' 4097 1 1 512]"
| "integrity_cases ISmoke = map (\<lambda>op. icase op 4096 4 1 64) OPS3"
| "integrity_cases IConcurrent = map (\<lambda>op. icase op 4096 4 1 64) OPS3"

definition shared_jettys :: "integrity_suite \<Rightarrow> int" where
  "shared_jettys suite = (if suite = IShared then 2 else 1)"

definition integrity_base :: "integrity_suite \<Rightarrow> integrity_case \<Rightarrow> string" where
  "integrity_base suite c =
     (if suite = IOverlimit then ''UBSIM_INTEGRITY_EXPECT_SEND_LENGTH_ERROR=1 '' else []) @
     ''UBSIM_INTEGRITY_SHARED_JETTYS='' @ str_int (shared_jettys suite) @
     '' LD_LIBRARY_PATH=/lib:/usr/lib /tmp/urma-integrity udma0 '' @
     join '' '' [ic_op c, str_int (ic_size c), str_int (ic_rounds c), str_int (ic_batch c), str_int (ic_depth c)]"

definition integrity_port :: "nat \<Rightarrow> int" where
  "integrity_port index = 21500 + int index * 2"

definition integrity_command :: "integrity_suite \<Rightarrow> integrity_case \<Rightarrow> nat \<Rightarrow> bool \<Rightarrow> string" where
  "integrity_command suite c index client =
     (let base = integrity_base suite c; port = integrity_port index; peer = (if client then '' 10.0.0.1'' else []) in
      if suite = IConcurrent
      then base @ '' '' @ str_int port @ peer @ '' >/tmp/integrity-a.log 2>&1 & a=$!; '' @
        base @ '' '' @ str_int (port + 1) @ peer @ '' >/tmp/integrity-b.log 2>&1 & b=$!; '' @
        ''wait $a; ra=$?; wait $b; rb=$?; cat /tmp/integrity-a.log /tmp/integrity-b.log; '' @
        ''test $ra -eq 0 && test $rb -eq 0''
      else base @ '' '' @ str_int port @ peer)"

subsection \<open>The runner\<close>

text \<open>
  The world: the directory, the manifest, the program, the exit codes of the two copies to the guests,
  and exit code and output of the serial tool.  A failed copy raises \<^verbatim>\<open>CalledProcessError\<close>.
\<close>

record integrity_world =
  iw_mkdir :: "unit res"
  iw_manifest :: "string res"
  iw_binary :: "string res"
  iw_copy :: "int \<Rightarrow> int"
  iw_serial :: "nat \<Rightarrow> string list \<Rightarrow> int \<times> string"

record integrity_args =
  ia_suite :: integrity_suite
  ia_root :: string
  ia_timeout :: string

record integrity_record =
  ir_case :: integrity_case
  ir_commands :: "string \<times> string"
  ir_returncode :: int
  ir_accepted :: bool
  ir_errors :: "string list"
  ir_raw :: string

definition integrity_argv :: "integrity_args \<Rightarrow> string \<times> string \<Rightarrow> string list" where
  "integrity_argv args commands =
     [''python3'', path_under (ia_root args) ''tools/dual_serial_command.py'', ''--ports'', ''3560'', ''3570'', ''--commands'',
      fst commands, snd commands, ''--timeout'', ia_timeout args, ''--stagger'', ''1'', ''--prompt-kick-after'', ''1'', ''--full-output'']"

definition integrity_run :: "integrity_args \<Rightarrow> integrity_world \<Rightarrow> nat \<Rightarrow> integrity_case \<Rightarrow> integrity_record" where
  "integrity_run args w index c =
     (let suite = ia_suite args;
          commands = (integrity_command suite c index False, integrity_command suite c index True);
          (returncode, stdout) = iw_serial w index (integrity_argv args commands);
          errors = validate_output stdout c (suite = IConcurrent) (shared_jettys suite) (suite = IOverlimit) in
      \<lparr>ir_case = c, ir_commands = commands, ir_returncode = returncode, ir_accepted = (returncode = 0 \<and> errors = []), ir_errors = errors,
       ir_raw = pad2 index @ ''-'' @ ic_op c @ ''-'' @ str_int (ic_size c) @ ''.uart.txt''\<rparr>)"

fun integrity_loop :: "integrity_args \<Rightarrow> integrity_world \<Rightarrow> nat \<Rightarrow> integrity_case list \<Rightarrow> integrity_record list" where
  "integrity_loop args w index [] = []"
| "integrity_loop args w index (c # cs) =
     (let r = integrity_run args w index c in r # (if \<not> ir_accepted r then [] else integrity_loop args w (Suc index) cs))"

definition integrity_exit :: "integrity_case list \<Rightarrow> integrity_record list \<Rightarrow> int" where
  "integrity_exit cases records = (if length records \<noteq> length cases \<or> \<not> list_all ir_accepted records then 1 else 0)"

fun copy_binary :: "integrity_world \<Rightarrow> int list \<Rightarrow> unit res" where
  "copy_binary w [] = Inr ()"
| "copy_binary w (port # ports) =
     (if iw_copy w port \<noteq> 0 then Inl (RuntimeError ''Command returned non-zero exit status'') else copy_binary w ports)"

definition integrity_main :: "integrity_args \<Rightarrow> integrity_world \<Rightarrow> (int \<times> integrity_record list) res" where
  "integrity_main args w =
     rbind (iw_mkdir w) (\<lambda>_. rbind (iw_manifest w) (\<lambda>manifest.
       if ''synchronization=off'' \<notin> set (splitlines manifest) then Inl (RuntimeError ''functional integrity runner requires no-sync'')
       else rbind (iw_binary w) (\<lambda>_. rbind (copy_binary w [2220, 2221]) (\<lambda>_.
         let cases = integrity_cases (ia_suite args); records = integrity_loop args w 0 cases in
         Inr (integrity_exit cases records, records)))))"

subsection \<open>Device profiles\<close>

definition rx_metric :: rx where
  "rx_metric = rx_seq [Grp (rx_plus (Cls is_word)), rx_lit ''='', Grp (Alt (rx_seq [rx_lit ''0x'', rx_plus (Cls is_hex)]) rx_digits)]"

text \<open>\<^verbatim>\<open>int(value, 0)\<close>: a literal of the language.\<close>

definition literal_value :: "string \<Rightarrow> int res" where
  "literal_value s = (case py_literal s of None \<Rightarrow> Inl (ValueError ''invalid literal for int() with base 0'') | Some v \<Rightarrow> Inr v)"

fun metric_values :: "sdict \<Rightarrow> (string \<times> int) list res" where
  "metric_values [] = Inr []"
| "metric_values ((key, s) # rest) = rbind (literal_value s) (\<lambda>v. rbind (metric_values rest) (\<lambda>vs. Inr ((key, v) # vs)))"

definition metric_text :: "int option \<Rightarrow> string" where
  "metric_text v = (case v of None \<Rightarrow> ''None'' | Some i \<Rightarrow> str_int i)"

definition profile_errors :: "(string \<times> int) list \<Rightarrow> int \<Rightarrow> int \<Rightarrow> string list" where
  "profile_errors metrics expected_wqes min_rma_peak =
     concat (map (\<lambda>key. if map_of metrics key \<noteq> Some expected_wqes
       then [key @ '': expected '' @ str_int expected_wqes @ '', got '' @ metric_text (map_of metrics key)] else []) [''sq_wqes'', ''sq_completions'']) @
     concat (map (\<lambda>key. if map_of metrics key \<noteq> Some 0
       then [key @ '': expected zero, got '' @ metric_text (map_of metrics key)] else []) [''sq_depth_rejects'', ''sq_decode_rejects'', ''ubase_errors'']) @
     concat (map (\<lambda>(key, minimum). if dict_get key (-1) metrics < minimum
       then [key @ '': expected >= '' @ str_int minimum @ '', got '' @ metric_text (map_of metrics key)] else [])
       [(''rma_pending_peak'', min_rma_peak), (''sq_wqebbs_retired'', expected_wqes), (''sq_consumer_wraps'', 1)])"

definition udma_check_profile :: "string \<Rightarrow> int \<Rightarrow> int \<Rightarrow> ((string \<times> int) list \<times> string list) res" where
  "udma_check_profile log expected_wqes min_rma_peak =
     (case filter (\<lambda>line. startswith line ''[UDMA_PROFILE]'') (splitlines log) of
        [line] \<Rightarrow>
          rbind (metric_values (dict_update [] (map (\<lambda>gs. (gs ! 0, gs ! 1)) (rx_findall rx_metric line)))) (\<lambda>metrics.
            Inr (metrics, profile_errors metrics expected_wqes min_rma_peak))
      | _ \<Rightarrow> Inr ([], [''expected exactly one final UDMA profile'']))"

fun check_profiles :: "(string \<Rightarrow> string res) \<Rightarrow> int \<Rightarrow> int \<Rightarrow> string list \<Rightarrow> (string \<times> (string \<times> int) list \<times> string list) list res" where
  "check_profiles read_text expected_wqes min_rma_peak [] = Inr []"
| "check_profiles read_text expected_wqes min_rma_peak (path # paths) =
     rbind (read_text path) (\<lambda>log. rbind (udma_check_profile log expected_wqes min_rma_peak) (\<lambda>(metrics, errors).
       rbind (check_profiles read_text expected_wqes min_rma_peak paths) (\<lambda>reports. Inr ((path, metrics, errors) # reports))))"

definition udma_profile_main :: "(string \<Rightarrow> string res) \<Rightarrow> int \<Rightarrow> int \<Rightarrow> string list \<Rightarrow> int res" where
  "udma_profile_main read_text expected_wqes min_rma_peak paths =
     rbind (check_profiles read_text expected_wqes min_rma_peak paths) (\<lambda>reports.
       Inr (if list_ex (\<lambda>(_, _, errors). errors \<noteq> []) reports then 1 else 0))"

subsection \<open>What the verdicts mean\<close>

text \<open>Exactly the expected acceptance lines of both guests, in a transcript of two parts.\<close>

definition markers_exact :: "string \<Rightarrow> integrity_case \<Rightarrow> integrity_suite \<Rightarrow> bool" where
  "markers_exact output c suite \<longleftrightarrow> (\<exists>server client. uart_sections output = [server, client] \<and>
     pass_markers server = replicate (if suite = IConcurrent then 2 else 1) (integrity_marker c (shared_jettys suite) (suite = IOverlimit) ''server'') \<and>
     pass_markers client = replicate (if suite = IConcurrent then 2 else 1) (integrity_marker c (shared_jettys suite) (suite = IOverlimit) ''client''))"

lemma validate_output_Nil:
  "validate_output output c (suite = IConcurrent) (shared_jettys suite) (suite = IOverlimit) = [] \<longleftrightarrow> markers_exact output c suite"
proof -
  have two: "length xs = 2 \<longleftrightarrow> (\<exists>a b. xs = [a, b])" for xs :: "string list" by (auto simp: numeral_2_eq_2 length_Suc_conv)
  show ?thesis
    by (cases "length (uart_sections output) = 2") (auto simp: validate_output_def markers_exact_def two Let_def split: if_splits)
qed

definition integrity_shown :: "integrity_args \<Rightarrow> integrity_world \<Rightarrow> nat \<Rightarrow> integrity_case \<Rightarrow> bool" where
  "integrity_shown args w index c \<longleftrightarrow> (\<exists>stdout.
     iw_serial w index (integrity_argv args (integrity_command (ia_suite args) c index False, integrity_command (ia_suite args) c index True)) = (0, stdout) \<and>
     markers_exact stdout c (ia_suite args))"

lemma integrity_run_accepted: "ir_accepted (integrity_run args w index c) \<longleftrightarrow> integrity_shown args w index c"
  by (auto simp: integrity_run_def integrity_shown_def validate_output_Nil Let_def split: prod.splits)

lemma integrity_loop_records:
  "\<exists>n \<le> length cs. integrity_loop args w index cs = map2 (integrity_run args w) [index..<index + length cs] (take n cs) \<and>
     (\<forall>k < n - 1. integrity_shown args w (index + k) (cs ! k)) \<and>
     (n < length cs \<longrightarrow> 0 < n \<and> \<not> integrity_shown args w (index + (n - 1)) (cs ! (n - 1)))"
proof (induction cs arbitrary: index)
  case (Cons c cs)
  have upt: "[index..<index + length (c # cs)] = index # [Suc index..<Suc index + length cs]"
    by (subst upt_conv_Cons) simp_all
  show ?case
  proof (cases "integrity_shown args w index c")
    case True
    from Cons.IH [of "Suc index"] obtain n where n: "n \<le> length cs"
      "integrity_loop args w (Suc index) cs = map2 (integrity_run args w) [Suc index..<Suc index + length cs] (take n cs)"
      "\<forall>k < n - 1. integrity_shown args w (Suc index + k) (cs ! k)"
      "n < length cs \<longrightarrow> 0 < n \<and> \<not> integrity_shown args w (Suc index + (n - 1)) (cs ! (n - 1))" by blast
    have "integrity_shown args w (index + k) ((c # cs) ! k)" if "k < n" for k
      using that n(3) True by (cases k) auto
    moreover have "Suc index + (n - 1) = index + n \<and> (c # cs) ! n = cs ! (n - 1)" if "0 < n" using that by (cases n) auto
    ultimately show ?thesis
      using n(1,2,4) True upt by (intro exI [of _ "Suc n"]) (auto simp: integrity_run_accepted Let_def)
  next
    case False
    then show ?thesis using upt by (intro exI [of _ 1]) (auto simp: integrity_run_accepted Let_def)
  qed
qed simp

text \<open>
  C29. The exit code of an integrity suite is 0 exactly when every case of the suite was shown: the serial
  tool succeeded with the commands of the case, and each guest printed exactly the acceptance lines of
  its role (two in the concurrent suite, whose processes use ports of their own).  The records are those
  of the first cases in order, and a shorter run ends with a case that was not accepted.
\<close>

theorem integrity_verdict:
  assumes "integrity_main args w = Inr (code, records)" and "cases = integrity_cases (ia_suite args)"
  shows "(code = 0 \<longleftrightarrow> (\<forall>k < length cases. integrity_shown args w k (cases ! k))) \<and>
    records = map2 (integrity_run args w) [0..<length records] (take (length records) cases) \<and>
    (\<forall>k < length records. ir_accepted (records ! k) \<longleftrightarrow> integrity_shown args w k (cases ! k)) \<and>
    (length records < length cases \<longrightarrow> records \<noteq> [] \<and> \<not> ir_accepted (last records)) \<and>
    (\<forall>i < length cases. \<forall>j < length cases. i \<noteq> j \<longrightarrow>
      {integrity_port i, integrity_port i + 1} \<inter> {integrity_port j, integrity_port j + 1} = {})"
proof -
  from assms have r: "records = integrity_loop args w 0 cases" and c: "code = integrity_exit cases records"
    by (auto simp: integrity_main_def rbind_eq_Inr Let_def split: if_splits)
  from integrity_loop_records [of cases args w 0] obtain n where n: "n \<le> length cases"
    "records = map2 (integrity_run args w) [0..<length cases] (take n cases)"
    "\<forall>k < n - 1. integrity_shown args w k (cases ! k)"
    "n < length cases \<longrightarrow> 0 < n \<and> \<not> integrity_shown args w (n - 1) (cases ! (n - 1))" by (auto simp: r)
  have len: "length records = n" using n(1,2) by simp
  have nth: "records ! k = integrity_run args w k (cases ! k)" if "k < n" for k
    using that n(1) by (subst n(2)) simp
  have pre: "records = map2 (integrity_run args w) [0..<length records] (take (length records) cases)"
    using n(1) nth by (intro nth_equalityI) (simp_all add: len)
  have acc: "ir_accepted (records ! k) \<longleftrightarrow> integrity_shown args w k (cases ! k)" if "k < n" for k
    using that by (simp add: nth integrity_run_accepted)
  have short: "records \<noteq> [] \<and> \<not> ir_accepted (last records)" if "n < length cases"
    using that n(4) acc [of "n - 1"] len by (auto simp: last_conv_nth)
  have "code = 0 \<longleftrightarrow> n = length cases \<and> (\<forall>k < n. integrity_shown args w k (cases ! k))"
    using acc len by (auto simp: c integrity_exit_def list_all_length)
  then have code: "code = 0 \<longleftrightarrow> (\<forall>k < length cases. integrity_shown args w k (cases ! k))"
    using n(1,4) by (metis diff_less le_neq_implies_less less_trans zero_less_one)
  have "\<forall>i < length cases. \<forall>j < length cases. i \<noteq> j \<longrightarrow>
      {integrity_port i, integrity_port i + 1} \<inter> {integrity_port j, integrity_port j + 1} = {}"
    by (auto simp: integrity_port_def)
  with code pre acc short show ?thesis unfolding len by blast
qed

text \<open>
  A profile is accepted exactly when the device printed one final profile line, its counters of
  submitted and completed work are the expected ones, no request was rejected, and the peak of
  outstanding requests, the retired blocks and the wraps of the queue reach their minimum; a counter
  that is missing counts as -1.
\<close>

theorem check_profile_exact:
  assumes "udma_check_profile log expected peak = Inr (metrics, errors)"
  shows "errors = [] \<longleftrightarrow>
    (\<exists>line. filter (\<lambda>line. startswith line ''[UDMA_PROFILE]'') (splitlines log) = [line]) \<and>
    map_of metrics ''sq_wqes'' = Some expected \<and> map_of metrics ''sq_completions'' = Some expected \<and>
    map_of metrics ''sq_depth_rejects'' = Some 0 \<and> map_of metrics ''sq_decode_rejects'' = Some 0 \<and> map_of metrics ''ubase_errors'' = Some 0 \<and>
    peak \<le> dict_get ''rma_pending_peak'' (-1) metrics \<and> expected \<le> dict_get ''sq_wqebbs_retired'' (-1) metrics \<and>
    1 \<le> dict_get ''sq_consumer_wraps'' (-1) metrics"
proof -
  have errors: "profile_errors metrics expected peak = [] \<longleftrightarrow>
    map_of metrics ''sq_wqes'' = Some expected \<and> map_of metrics ''sq_completions'' = Some expected \<and>
    map_of metrics ''sq_depth_rejects'' = Some 0 \<and> map_of metrics ''sq_decode_rejects'' = Some 0 \<and> map_of metrics ''ubase_errors'' = Some 0 \<and>
    peak \<le> dict_get ''rma_pending_peak'' (-1) metrics \<and> expected \<le> dict_get ''sq_wqebbs_retired'' (-1) metrics \<and>
    1 \<le> dict_get ''sq_consumer_wraps'' (-1) metrics"
    unfolding profile_errors_def by (auto simp: not_less split: if_splits)
  show ?thesis
  proof (cases "\<exists>line. filter (\<lambda>line. startswith line ''[UDMA_PROFILE]'') (splitlines log) = [line]")
    case True
    then obtain line where "filter (\<lambda>line. startswith line ''[UDMA_PROFILE]'') (splitlines log) = [line]" by blast
    with assms have "errors = profile_errors metrics expected peak" by (auto simp: udma_check_profile_def rbind_eq_Inr)
    with True errors show ?thesis by simp
  next
    case False
    then have "errors \<noteq> []" using assms by (auto simp: udma_check_profile_def split: list.splits)
    with False show ?thesis by simp
  qed
qed

definition demo_profile_log :: string where
  "demo_profile_log = ''[UDMA_PROFILE] sq_wqes=8 sq_completions=0x8 sq_depth_rejects=0 sq_decode_rejects=0 ubase_errors=0 '' @
     ''rma_pending_peak=2 sq_wqebbs_retired=9 sq_consumer_wraps=1'' @ [CHR 0x0A]"

theorem check_profile_exact_witness: "\<exists>metrics. udma_check_profile demo_profile_log 8 2 = Inr (metrics, [])"
proof -
  have run: "udma_check_profile demo_profile_log 8 2 = Inr ([(''sq_wqes'', 8), (''sq_completions'', 8), (''sq_depth_rejects'', 0), (''sq_decode_rejects'', 0),
      (''ubase_errors'', 0), (''rma_pending_peak'', 2), (''sq_wqebbs_retired'', 9), (''sq_consumer_wraps'', 1)], [])"
    by code_simp
  show ?thesis using check_profile_exact [OF run] run by blast
qed

definition demo_integrity_args :: integrity_args where
  "demo_integrity_args = \<lparr>ia_suite = IOverlimit, ia_root = ''/lab'', ia_timeout = ''90''\<rparr>"

definition demo_integrity_output :: string where
  "demo_integrity_output = ''--- UART 1 ---'' @ [CHR 0x0A] @ integrity_marker (icase ''send'' 4097 1 1 512) 1 True ''server'' @ [CHR 0x0A] @
     ''--- UART 2 ---'' @ [CHR 0x0A] @ integrity_marker (icase ''send'' 4097 1 1 512) 1 True ''client'' @ [CHR 0x0A]"

definition demo_integrity_world :: integrity_world where
  "demo_integrity_world = \<lparr>iw_mkdir = Inr (), iw_manifest = Inr ''synchronization=off'', iw_binary = Inr [], iw_copy = (\<lambda>_. 0),
     iw_serial = (\<lambda>_ _. (0, demo_integrity_output))\<rparr>"

lemma demo_integrity_valid: "validate_output demo_integrity_output (icase ''send'' 4097 1 1 512) False 1 True = []"
  by code_simp

theorem integrity_verdict_witness:
  "\<exists>records. integrity_main demo_integrity_args demo_integrity_world = Inr (0, records)"
proof -
  have manifest: "''synchronization=off'' \<in> set (splitlines ''synchronization=off'')" by code_simp
  obtain code records where run: "integrity_main demo_integrity_args demo_integrity_world = Inr (code, records)"
    using manifest by (simp add: integrity_main_def demo_integrity_world_def Let_def)
  have "integrity_shown demo_integrity_args demo_integrity_world 0 (icase ''send'' 4097 1 1 512)"
    using demo_integrity_valid validate_output_Nil [of demo_integrity_output "icase ''send'' 4097 1 1 512" IOverlimit]
    by (simp add: integrity_shown_def demo_integrity_args_def demo_integrity_world_def shared_jettys_def)
  then have "code = 0"
    using integrity_verdict [OF run refl] by (simp add: demo_integrity_args_def)
  with run show ?thesis by blast
qed

end
