(* ===== verification/Guest_Transfer.thy ===== *)
theory Guest_Transfer
  imports Dual_Serial Py_Quote
begin

section \<open>A program through the console\<close>

text \<open>
  Model of \<^verbatim>\<open>tools/transfer_guest_bootstrap.py\<close>: a file is compressed, uuencoded, and appended to a file of
  the guest in pieces of 150 characters, each by one command on the console.  The consoles of the
  attempts are a sequence of worlds; \<^verbatim>\<open>gzip.compress\<close> is the argument \<open>compress\<close>.  Bytes are characters.
\<close>

subsection \<open>Uuencoding\<close>

text \<open>\<^verbatim>\<open>binascii.b2a_uu\<close>: the length, then four characters for three bytes, filled with zero bits.\<close>

definition uu_char :: "nat \<Rightarrow> char" where
  "uu_char n = char_of (n + 32)"

definition uu_group :: "nat \<Rightarrow> nat \<Rightarrow> nat \<Rightarrow> string" where
  "uu_group a b c = (let v = a * 65536 + b * 256 + c in
     map uu_char [v div 262144, v div 4096 mod 64, v div 64 mod 64, v mod 64])"

fun uu_groups :: "string \<Rightarrow> string" where
  "uu_groups [] = []"
| "uu_groups [a] = uu_group (of_char a) 0 0"
| "uu_groups [a, b] = uu_group (of_char a) (of_char b) 0"
| "uu_groups (a # b # c # s) = uu_group (of_char a) (of_char b) (of_char c) @ uu_groups s"

definition b2a_uu :: "string \<Rightarrow> string" where
  "b2a_uu s = uu_char (length s) # uu_groups s @ [CHR 0x0A]"

text \<open>\<^verbatim>\<open>[xs[i:i + k] for i in range(0, len(xs), k)]\<close> for a positive \<open>k\<close>.\<close>

definition chunks :: "nat \<Rightarrow> string \<Rightarrow> string list" where
  "chunks k xs = map (\<lambda>i. take k (drop (i * k) xs)) [0..<(length xs + k - 1) div k]"

definition uuencoded :: "string \<Rightarrow> string" where
  "uuencoded compressed = ''begin 644 payload.gz'' @ [CHR 0x0A] @ concat (map b2a_uu (chunks 45 compressed)) @
     [CHR 0x60, CHR 0x0A] @ ''end'' @ [CHR 0x0A]"

subsection \<open>Commands\<close>

text \<open>
  \<^verbatim>\<open>send\<close>: up to five attempts, as long as another terminal is attached.  The second result is the
  number of consoles used so far.
\<close>

fun send_attempts :: "(nat \<Rightarrow> serial_world) \<Rightarrow> int \<Rightarrow> string \<Rightarrow> nat \<Rightarrow> nat \<Rightarrow> string res \<times> nat" where
  "send_attempts us port command 0 k = (Inl (RuntimeError ''ERROR: gem5 UART remained attached after retries''), k)"
| "send_attempts us port command (Suc n) k =
     (let transcript = fst (run_one (us k) port command 45 (Some 1)) in
      if str_in ''terminal already attached'' transcript then send_attempts us port command n (Suc k)
      else if startswith transcript ''ERROR:'' then (Inl (RuntimeError (last_chars 800 transcript)), Suc k)
      else (Inr transcript, Suc k))"

definition send :: "(nat \<Rightarrow> serial_world) \<Rightarrow> int \<Rightarrow> string \<Rightarrow> nat \<Rightarrow> string res \<times> nat" where
  "send us port command k = send_attempts us port command 5 k"

fun send_all :: "(nat \<Rightarrow> serial_world) \<Rightarrow> int \<Rightarrow> string list \<Rightarrow> nat \<Rightarrow> unit res \<times> nat" where
  "send_all us port [] k = (Inr (), k)"
| "send_all us port (c # cs) k = (case send us port c k of
       (Inl e, k') \<Rightarrow> (Inl e, k')
     | (Inr _, k') \<Rightarrow> send_all us port cs k')"

definition start_command :: string where
  "start_command = '': > /tmp/ubsim-bootstrap.uu''"

definition append_command :: "string \<Rightarrow> string" where
  "append_command chunk = ''printf '' @ [CHR 0x27] @ ''%s'' @ [CHR 0x27] @ '' '' @ shlex_quote chunk @ '' >> /tmp/ubsim-bootstrap.uu''"

definition finish_command :: "string \<Rightarrow> string" where
  "finish_command dest = (let destination = shlex_quote dest in
     ''uudecode -o /tmp/ubsim-bootstrap.gz /tmp/ubsim-bootstrap.uu && gzip -dc /tmp/ubsim-bootstrap.gz > '' @ destination @
     '' && chmod 755 '' @ destination @ '' && wc -c '' @ destination)"

definition transfer_commands :: "string \<Rightarrow> string \<Rightarrow> string list" where
  "transfer_commands compressed dest =
     start_command # map append_command (chunks 150 (uuencoded compressed)) @ [finish_command dest]"

definition transfer_main :: "(string \<Rightarrow> string) \<Rightarrow> string res \<Rightarrow> string \<Rightarrow> int \<Rightarrow> (nat \<Rightarrow> serial_world) \<Rightarrow> int res" where
  "transfer_main compress source dest port us = rbind source (\<lambda>data.
     case fst (send_all us port (transfer_commands (compress data) dest) 0) of
       Inl e \<Rightarrow> if is_RuntimeError e then Inr 1 else Inl e
     | Inr _ \<Rightarrow> Inr 0)"

subsection \<open>Decoding\<close>

text \<open>What a reader of the format makes of a text: the lines after the first, up to one of length zero.\<close>

definition uu_val :: "char \<Rightarrow> nat" where
  "uu_val c = (of_char c - 32) mod 64"

fun uu_bytes :: "string \<Rightarrow> string" where
  "uu_bytes (w # x # y # z # s) = (let v = uu_val w * 262144 + uu_val x * 4096 + uu_val y * 64 + uu_val z in
     char_of (v div 65536) # char_of (v div 256 mod 256) # char_of (v mod 256) # uu_bytes s)"
| "uu_bytes _ = []"

fun uu_lines :: "string list \<Rightarrow> string option" where
  "uu_lines [] = None"
| "uu_lines ([] # ls) = None"
| "uu_lines ((c # body) # ls) = (if uu_val c = 0 then Some []
     else map_option ((@) (take (uu_val c) (uu_bytes body))) (uu_lines ls))"

definition uudecode :: "string \<Rightarrow> string option" where
  "uudecode txt = (case split_on (CHR 0x0A) txt of [] \<Rightarrow> None | first # ls \<Rightarrow>
     if startswith first ''begin '' then uu_lines ls else None)"

lemma uu_val_char: "n < 64 \<Longrightarrow> uu_val (uu_char n) = n"
  by (simp add: uu_val_def uu_char_def)

lemma uu_bytes_group:
  assumes "a < 256" "b < 256" "c < 256"
  shows "uu_bytes (uu_group a b c @ s) = char_of a # char_of b # char_of c # uu_bytes s"
proof -
  define v where "v = a * 65536 + b * 256 + c"
  have "(q * 256 + c) mod 256 = c" "(q * 256 + c) div 256 = q" for q using assms(3) by simp_all
  from this [of "a * 256 + b"] have "v mod 256 = c" "v div 256 = a * 256 + b" by (simp_all add: v_def algebra_simps)
  then have v: "v < 16777216" "v div 65536 = a" "v div 256 mod 256 = b" "v mod 256 = c"
    using assms by (simp_all add: v_def)
  have small: "v div 262144 < 64" using v(1) by simp
  have q: "v div 4096 = v div 64 div 64" "v div 262144 = v div 64 div 64 div 64"
    by (simp_all add: div_mult2_eq [symmetric])
  have "v div 262144 * 262144 + v div 4096 mod 64 * 4096 + v div 64 mod 64 * 64 + v mod 64 = v"
    using div_mult_mod_eq [of v 64] div_mult_mod_eq [of "v div 64" 64] div_mult_mod_eq [of "v div 64 div 64" 64]
    unfolding q by linarith
  then show ?thesis
    using v small assms by (simp add: uu_group_def v_def [symmetric] Let_def uu_val_char)
qed

lemma uu_bytes_groups: "\<exists>rest. uu_bytes (uu_groups s) = s @ rest"
proof (induction s rule: uu_groups.induct)
  case (4 a b c s)
  then obtain rest where "uu_bytes (uu_groups s) = s @ rest" by blast
  then show ?case using nat_of_char_less_256 by (intro exI [of _ rest]) (simp add: uu_bytes_group)
qed (use uu_bytes_group [of _ _ _ "[]"] nat_of_char_less_256 in auto)

lemma concat_chunks: "0 < k \<Longrightarrow> concat (chunks k xs) = xs"
proof -
  assume k: "0 < k"
  have "concat (map (\<lambda>i. take k (drop (i * k) xs)) [0..<n]) = take (n * k) xs" for n
  proof (induction n)
    case (Suc n)
    then show ?case using take_add [of "n * k" k xs] by (simp add: add.commute [of k])
  qed simp
  moreover have "length xs \<le> (length xs + k - 1) div k * k"
  proof -
    have "length xs + k - 1 < (length xs + k - 1) div k * k + k"
      using k by (metis add_less_cancel_left div_mult_mod_eq mod_less_divisor)
    then show ?thesis by linarith
  qed
  ultimately show ?thesis by (simp add: chunks_def)
qed

lemma chunk_length: "c \<in> set (chunks k xs) \<Longrightarrow> 0 < k \<Longrightarrow> 0 < length c \<and> length c \<le> k"
proof -
  assume k: "0 < k" and "c \<in> set (chunks k xs)"
  then obtain i where i: "i < (length xs + k - 1) div k" "c = take k (drop (i * k) xs)" by (auto simp: chunks_def)
  then have "Suc i * k \<le> length xs + k - 1" using k by (metis Suc_leI div_le_mono less_eq_div_iff_mult_less_eq)
  then have "i * k < length xs" using k by simp
  with i(2) k show ?thesis by simp
qed

lemma uu_char_bound: "n < 64 \<Longrightarrow> 32 \<le> (of_char (uu_char n) :: nat)"
  by (simp add: uu_char_def)

lemma uu_group_bound:
  assumes "c \<in> set (uu_group x y z)" "x < 256" "y < 256" "z < 256"
  shows "32 \<le> (of_char c :: nat)"
proof -
  have "(x * 65536 + y * 256 + z) div 262144 < 64" using assms(2-4) by simp
  then show ?thesis using assms(1) uu_char_bound by (fastforce simp: uu_group_def Let_def)
qed

lemma uu_groups_bound: "c \<in> set (uu_groups s) \<Longrightarrow> 32 \<le> (of_char c :: nat)"
  by (induction s rule: uu_groups.induct) (auto dest: uu_group_bound)

lemma split_on_line: "sep \<notin> set l \<Longrightarrow> split_on sep (l @ sep # rest) = l # split_on sep rest"
  by (induction l) auto

lemma uu_lines_encoded:
  assumes "\<forall>c \<in> set cs. 0 < length c \<and> length c \<le> 45"
  shows "uu_lines (split_on (CHR 0x0A) (concat (map b2a_uu cs) @ [CHR 0x60, CHR 0x0A] @ rest)) = Some (concat cs)"
  using assms
proof (induction cs)
  case Nil
  have "uu_val (CHR 0x60) = 0" by code_simp
  then show ?case using split_on_line [of "CHR 0x0A" "[CHR 0x60]" rest] by simp
next
  case (Cons c cs)
  have len: "0 < length c" "length c \<le> 45" using Cons.prems by auto
  have "32 \<le> (of_char x :: nat)" if "x \<in> set (uu_char (length c) # uu_groups c)" for x
    using that len(2) uu_char_bound [of "length c"] uu_groups_bound by auto
  then have line: "CHR 0x0A \<notin> set (uu_char (length c) # uu_groups c)" by fastforce
  obtain more where "uu_bytes (uu_groups c) = c @ more" using uu_bytes_groups by blast
  moreover have "uu_val (uu_char (length c)) = length c" using len(2) by (simp add: uu_val_char)
  moreover have whole: "concat (map b2a_uu (c # cs)) @ [CHR 0x60, CHR 0x0A] @ rest =
      (uu_char (length c) # uu_groups c) @ CHR 0x0A # concat (map b2a_uu cs) @ [CHR 0x60, CHR 0x0A] @ rest" by (simp add: b2a_uu_def)
  ultimately show ?case
    unfolding whole split_on_line [OF line] using Cons.IH Cons.prems len by simp
qed

lemma uudecode_encoded: "uudecode (uuencoded compressed) = Some compressed"
proof -
  have first: "CHR 0x0A \<notin> set ''begin 644 payload.gz''" "startswith ''begin 644 payload.gz'' ''begin ''" by code_simp+
  have "\<forall>c \<in> set (chunks 45 compressed). 0 < length c \<and> length c \<le> 45" using chunk_length [of _ 45] by simp
  from uu_lines_encoded [OF this, of "''end'' @ [CHR 0x0A]"] show ?thesis
    using split_on_line [OF first(1)] first(2) concat_chunks [of 45 compressed] by (simp add: uudecode_def uuencoded_def)
qed

subsection \<open>What arrives\<close>

lemma append_words: "shlex_split (append_command chunk) = Inr [''printf'', ''%s'', chunk, ''>>'', ''/tmp/ubsim-bootstrap.uu'']"
proof -
  obtain q where q: "sh_tokens Sh_Space [] False (shlex_quote chunk @ '' >> /tmp/ubsim-bootstrap.uu'') =
      sh_tokens Sh_Word (rev chunk) q '' >> /tmp/ubsim-bootstrap.uu''" "chunk = [] \<longrightarrow> q"
    using sh_tokens_quote_start by blast
  have "sh_tokens Sh_Space [] False ''>> /tmp/ubsim-bootstrap.uu'' = Inr [''>>'', ''/tmp/ubsim-bootstrap.uu'']" by code_simp
  then have "sh_tokens Sh_Space [] False (shlex_quote chunk @ '' >> /tmp/ubsim-bootstrap.uu'') = Inr [chunk, ''>>'', ''/tmp/ubsim-bootstrap.uu'']"
    using q by (simp add: sh_white_def sh_finish_def)
  then show ?thesis by (simp add: append_command_def shlex_split_def sh_white_def sh_quote_def sh_finish_def)
qed

text \<open>A command that was sent: it ran on one of the consoles, and its shell returned 0.\<close>

definition completed :: "(nat \<Rightarrow> serial_world) \<Rightarrow> int \<Rightarrow> string \<Rightarrow> nat \<Rightarrow> bool" where
  "completed us port command k \<longleftrightarrow> (\<exists>kicks new_text transcript digits.
     snd (run_one (us k) port command 45 (Some 1)) = kicks @ [CHR 0x15 # wrapped (serial_nonce (us k) port) command] \<and>
     set kicks \<subseteq> {[CHR 0x0D]} \<and> command_done (serial_nonce (us k) port) new_text = Some (transcript, digits) \<and> py_int digits = Inr 0)"

lemma send_attempts_done:
  "send_attempts us port command n k = (Inr transcript, k') \<Longrightarrow>
     k < k' \<and> k' \<le> k + n \<and> completed us port command (k' - 1) \<and>
     (\<forall>j. k \<le> j \<and> j < k' - 1 \<longrightarrow> str_in ''terminal already attached'' (fst (run_one (us j) port command 45 (Some 1))))"
proof (induction n arbitrary: k)
  case (Suc n)
  obtain shown sent where run: "run_one (us k) port command 45 (Some 1) = (shown, sent)" by fastforce
  show ?case
  proof (cases "str_in ''terminal already attached'' shown")
    case True
    with Suc.prems run have "send_attempts us port command n (Suc k) = (Inr transcript, k')" by (simp add: Let_def)
    with Suc.IH [of "Suc k"] True run show ?thesis by (metis Suc_leI add_Suc_right add_Suc fst_conv le_SucI le_less less_SucI Suc_le_lessD)
  next
    case False
    with Suc.prems run have "\<not> startswith shown ''ERROR:''" "k' = Suc k" by (auto simp: Let_def split: if_splits)
    with run_one_success [OF run] run show ?thesis by (fastforce simp: completed_def)
  qed
qed simp

text \<open>Positions of the consoles on which the commands completed, in order and without repetition.\<close>

lemma send_all_done:
  "send_all us port cs k = (Inr (), k') \<Longrightarrow>
     \<exists>ks. length ks = length cs \<and> sorted_wrt (<) ks \<and> (\<forall>i < length cs. k \<le> ks ! i \<and> completed us port (cs ! i) (ks ! i))"
proof (induction cs arbitrary: k)
  case (Cons c cs)
  then obtain transcript k1 where c: "send us port c k = (Inr transcript, k1)" "send_all us port cs k1 = (Inr (), k')"
    by (auto split: prod.splits sum.splits)
  from Cons.IH [OF c(2)] obtain ks where ks: "length ks = length cs" "sorted_wrt (<) ks"
    "\<forall>i < length cs. k1 \<le> ks ! i \<and> completed us port (cs ! i) (ks ! i)" by blast
  from send_attempts_done [of us port c 5 k] c(1) have first: "k < k1" "completed us port c (k1 - 1)"
    by (auto simp: send_def)
  have "\<forall>x \<in> set ks. k1 - 1 < x" using ks(1,3) first(1) by (metis diff_less in_set_conv_nth less_le_trans less_nat_zero_code neq0_conv zero_less_one)
  moreover have "k \<le> ((k1 - 1) # ks) ! i \<and> completed us port ((c # cs) ! i) (((k1 - 1) # ks) ! i)" if "i < length (c # cs)" for i
    using that ks(3) first by (cases i) fastforce+
  ultimately show ?case using ks(1,2) by (intro exI [of _ "(k1 - 1) # ks"]) auto
qed simp


text \<open>The transfer of an empty file on a console that answers every command.\<close>

lemma run_one_reply: "fst (run_one u port command timeout kick) = fst (run_one u port [] timeout kick)"
  by (auto simp: run_one_def Let_def split: prod.splits sum.splits)

lemma demo_reply:
  "\<not> str_in ''terminal already attached'' (fst (run_one demo_console 1 command 45 (Some 1))) \<and>
   \<not> startswith (fst (run_one demo_console 1 command 45 (Some 1))) ''ERROR:''"
  unfolding run_one_reply [of demo_console 1 command] by code_simp


end
