(* ===== verification/Console_Tools.thy ===== *)
theory Console_Tools
  imports Py_Expr
begin

section \<open>Consoles, a debugger and a compiler\<close>

text \<open>
  Model of \<^verbatim>\<open>tools/drive-console.py\<close>, \<^verbatim>\<open>tools/probe_gem5_gdb.py\<close>, \<^verbatim>\<open>tools/aarch64-umdk-cc.py\<close> and
  \<^verbatim>\<open>tools/aarch64-umdk-cxx.py\<close>.  Bytes are characters.  Printed messages are not modelled.
\<close>

subsection \<open>One command on a console\<close>

text \<open>
  A round of the loop is the clock at its test and what \<^verbatim>\<open>recv\<close> gives: nothing in time, or some bytes, none
  at the end of the stream.  A list that ends stands for a clock past the deadline.
\<close>

definition console_payload :: "string \<Rightarrow> string \<Rightarrow> string" where
  "console_payload command marker = [CHR 0x0A] @ command @ ''; printf '' @ [CHR 0x27, CHR 0x5C] @ ''n'' @ marker @ ''%s'' @
     [CHR 0x5C] @ ''n'' @ [CHR 0x27] @ '' $?'' @ [CHR 0x0A]"

text \<open>The text after the first occurrence of \<open>m\<close>, which is not empty.\<close>

fun after_first :: "string \<Rightarrow> string \<Rightarrow> string option" where
  "after_first m [] = None"
| "after_first m (c # s) = (if startswith (c # s) m then Some (drop (length m) (c # s)) else after_first m s)"

text \<open>\<^verbatim>\<open>int\<close> of bytes: only white space of C may surround the number.\<close>

definition c_blank :: "char \<Rightarrow> bool" where
  "c_blank c \<longleftrightarrow> (let n = (of_char c :: nat) in n = 32 \<or> (9 \<le> n \<and> n \<le> 13))"

definition int_bytes :: "string \<Rightarrow> int res" where
  "int_bytes s = (let t = rev (dropWhile c_blank (rev (dropWhile c_blank s))) in
     if t \<noteq> [] \<and> (is_space (hd t) \<or> is_space (last t)) then Inl (ValueError ''invalid literal for int() with base 10'')
     else py_int t)"

text \<open>\<^verbatim>\<open>received[...].splitlines()[0]\<close>: lines of bytes end at a line feed or a carriage return.\<close>

definition console_status :: "string \<Rightarrow> int res" where
  "console_status rest = (if rest = [] then Inl (IndexError ''list index out of range'')
     else case int_bytes (takeWhile (\<lambda>c. c \<noteq> CHR 0x0A \<and> c \<noteq> CHR 0x0D) rest) of Inl _ \<Rightarrow> Inr 3 | Inr status \<Rightarrow> Inr status)"

fun console_loop :: "string \<Rightarrow> int \<Rightarrow> (int \<times> string option) list \<Rightarrow> string \<Rightarrow> int res" where
  "console_loop marker deadline [] received = Inr 2"
| "console_loop marker deadline ((now, data) # rounds) received =
     (if \<not> now < deadline then Inr 2
      else case data of
        None \<Rightarrow> console_loop marker deadline rounds received
      | Some chunk \<Rightarrow>
          if chunk = [] then Inr 2
          else (case after_first marker (received @ chunk) of
              Some rest \<Rightarrow> console_status rest
            | None \<Rightarrow> console_loop marker deadline rounds (received @ chunk)))"

text \<open>\<open>connection\<close> is what opening the connection gives, \<open>start\<close> the clock at the start.\<close>

definition drive_console :: "unit res \<Rightarrow> int \<Rightarrow> int \<Rightarrow> string \<Rightarrow> (int \<times> string option) list \<Rightarrow> int res" where
  "drive_console connection start timeout marker rounds =
     rbind connection (\<lambda>_. console_loop marker (start + timeout) rounds [])"

subsection \<open>Packets of the debugger\<close>

definition rsp_packet :: "string \<Rightarrow> string" where
  "rsp_packet payload = [CHR ''$''] @ payload @ [CHR ''#''] @
     (let s = show_hex (sum_list (map of_char payload) mod 256) in if length s < 2 then ''0'' @ s else s)"

text \<open>
  \<^verbatim>\<open>receive\<close> on the bytes that still arrive.  The first loop ends at the end of the stream, the second
  one does not: \<^verbatim>\<open>recv\<close> keeps giving no bytes, and the result is \<^const>\<open>None\<close>.  Both bytes of the checksum
  are taken to arrive together.
\<close>

fun rsp_start :: "string \<Rightarrow> string res" where
  "rsp_start [] = Inl (EOFError ''remote closed the RSP connection'')"
| "rsp_start (c # s) = (if c = CHR ''$'' then Inr s else rsp_start s)"

fun rsp_data :: "string \<Rightarrow> (string \<times> string) option" where
  "rsp_data [] = None"
| "rsp_data (c # s) = (if c = CHR ''#'' then Some ([], s) else map_option (map_prod ((#) c) id) (rsp_data s))"

definition is_ascii :: "string \<Rightarrow> bool" where
  "is_ascii s \<longleftrightarrow> list_all (\<lambda>c. (of_char c :: nat) < 128) s"

definition rsp_receive :: "string \<Rightarrow> (string \<times> string) res option" where
  "rsp_receive stream = (case rsp_start stream of
       Inl e \<Rightarrow> Some (Inl e)
     | Inr s \<Rightarrow> map_option (\<lambda>(payload, rest).
         if is_ascii payload then Inr (payload, drop 2 rest) else Inl (ValueError ''ordinal not in range(128)'')) (rsp_data s))"

text \<open>\<^verbatim>\<open>request\<close>: what is sent, and the payload with the rest of the stream.\<close>

definition rsp_request :: "string \<Rightarrow> string \<Rightarrow> (string \<times> string) res option \<times> string list" where
  "rsp_request payload stream =
     (if take 1 stream \<noteq> ''+'' then (Some (Inl (RuntimeError ''missing RSP acknowledgement'')), [rsp_packet payload])
      else case rsp_receive (drop 1 stream) of
        None \<Rightarrow> (None, [rsp_packet payload])
      | Some (Inl (EOFError m)) \<Rightarrow> (Some (Inl (EOFError m)), [rsp_packet payload])
      | Some r \<Rightarrow> (Some r, [rsp_packet payload, ''+'']))"

text \<open>\<^verbatim>\<open>bytes.fromhex\<close>: pairs of digits, with white space before a pair.\<close>

fun from_hex :: "string \<Rightarrow> string option" where
  "from_hex [] = Some []"
| "from_hex [c] = (if c_blank c then Some [] else None)"
| "from_hex (c # d # s) =
     (if c_blank c then from_hex (d # s)
      else if is_hex c \<and> is_hex d then map_option ((#) (char_of (hex_val c * 16 + hex_val d))) (from_hex s) else None)"

definition le_value :: "string \<Rightarrow> nat" where
  "le_value s = foldr (\<lambda>c v. of_char c + 256 * v) s 0"

record probe_result =
  pb_stop :: string
  pb_pc :: nat
  pb_sp :: nat
  pb_code :: string

definition gdb_probe :: "string \<Rightarrow> probe_result res option \<times> string list" where
  "gdb_probe stream = (case rsp_request ''?'' stream of
       (None, sent) \<Rightarrow> (None, sent)
     | (Some (Inl e), sent) \<Rightarrow> (Some (Inl e), sent)
     | (Some (Inr (stop, stream1)), sent1) \<Rightarrow> (case rsp_request ''g'' stream1 of
         (None, sent) \<Rightarrow> (None, sent1 @ sent)
       | (Some (Inl e), sent) \<Rightarrow> (Some (Inl e), sent1 @ sent)
       | (Some (Inr (hex, stream2)), sent2) \<Rightarrow> (case from_hex hex of
           None \<Rightarrow> (Some (Inl (ValueError ''non-hexadecimal number found in fromhex() arg'')), sent1 @ sent2)
         | Some registers \<Rightarrow>
             if length registers < 264 then (Some (Inl (RuntimeError ''short AArch64 register packet'')), sent1 @ sent2)
             else let sp = le_value (take 8 (drop 248 registers)); pc = le_value (take 8 (drop 256 registers)) in
               (case rsp_request (''m'' @ show_hex pc @ '',10'') stream2 of
                  (None, sent) \<Rightarrow> (None, sent1 @ sent2 @ sent)
                | (Some (Inl e), sent) \<Rightarrow> (Some (Inl e), sent1 @ sent2 @ sent)
                | (Some (Inr (code, _)), sent) \<Rightarrow>
                    (Some (Inr \<lparr>pb_stop = stop, pb_pc = pc, pb_sp = sp, pb_code = code\<rparr>), sent1 @ sent2 @ sent @ [rsp_packet ''D''])))))"

subsection \<open>The compiler launchers\<close>

datatype compiler_outcome = Exit int | Exec string "string list"

text \<open>
  \<^verbatim>\<open>main\<close> of either launcher; \<open>variable\<close> and \<open>fallback\<close> name the compiler.  \<open>resolve\<close> is \<^verbatim>\<open>Path.resolve\<close>.
\<close>

definition target_arg :: "string \<Rightarrow> string \<Rightarrow> string list" where
  "target_arg sysroot arg =
     (if arg = ''-msse4.2'' \<or> arg = ''-DUB_ARCH_X86_64'' then []
      else if arg = ''-I/usr/include/libnl3'' then [''-I'' @ sysroot @ ''/usr/include/libnl3''] else [arg])"

definition compiler_main :: "string \<Rightarrow> string \<Rightarrow> sdict \<Rightarrow> (string \<Rightarrow> string) \<Rightarrow> (string \<Rightarrow> bool) \<Rightarrow> string list \<Rightarrow> compiler_outcome" where
  "compiler_main variable fallback env resolve is_dir args =
     (if env_get env ''UBSIM_ARM64_SYSROOT'' [] = [] then Exit 2
      else let sysroot = resolve (env_get env ''UBSIM_ARM64_SYSROOT'' []) in
        if \<not> is_dir (path_under sysroot ''usr/include'') then Exit 2
        else let real = env_get env variable fallback in
          Exec real (real # concat (map (target_arg sysroot) args) @ [''--sysroot='' @ sysroot, ''-march=armv8-a+crc'', ''-DUB_ARCH_ARM64'']))"

definition umdk_cc :: "sdict \<Rightarrow> (string \<Rightarrow> string) \<Rightarrow> (string \<Rightarrow> bool) \<Rightarrow> string list \<Rightarrow> compiler_outcome" where
  "umdk_cc = compiler_main ''UBSIM_AARCH64_CC'' ''aarch64-linux-gnu-gcc''"

definition umdk_cxx :: "sdict \<Rightarrow> (string \<Rightarrow> string) \<Rightarrow> (string \<Rightarrow> bool) \<Rightarrow> string list \<Rightarrow> compiler_outcome" where
  "umdk_cxx = compiler_main ''UBSIM_AARCH64_CXX'' ''aarch64-linux-gnu-g++''"

subsection \<open>What a status means\<close>

lemma int_bytes_digits: "int_bytes (show_nat n) = Inr (int n)"
proof -
  have digits: "\<not> c_blank c \<and> \<not> is_space c" if "is_digit c" for c
    using that digit_not_space [of c] by (auto simp: c_blank_def is_digit_def Let_def)
  have all: "is_digit c" if "c \<in> set (show_nat n)" for c using show_nat_digits [of n] that by (simp add: list_all_iff)
  have ends: "hd (show_nat n) \<in> set (show_nat n)" "last (show_nat n) \<in> set (show_nat n)" by (simp_all add: show_nat_not_Nil)
  have trim: "rev (dropWhile c_blank (rev (dropWhile c_blank (show_nat n)))) = show_nat n"
  proof -
    have "dropWhile c_blank (show_nat n) = show_nat n" using digits all ends(1) by (simp add: dropWhile_eq_self_iff)
    moreover have "dropWhile c_blank (rev (show_nat n)) = rev (show_nat n)"
      using digits all ends(2) show_nat_not_Nil [of n] by (simp add: dropWhile_eq_self_iff hd_rev)
    ultimately show ?thesis by simp
  qed
  have "py_int (show_nat n) = Inr (int n)" using py_int_str_int [of "int n"] by (simp add: str_int_def)
  then show ?thesis unfolding int_bytes_def trim Let_def using digits all ends by simp
qed

lemma trim_first: "\<not> P c \<Longrightarrow> \<exists>y. rev (dropWhile P (rev (c # x))) = c # y"
proof -
  assume c: "\<not> P c"
  have "dropWhile P (ys @ [c]) = dropWhile P ys @ [c]" for ys
    by (induction ys) (simp_all add: c)
  then show ?thesis by simp
qed

lemma takeWhile_digits: "takeWhile (\<lambda>c. c \<noteq> CHR 0x0A \<and> c \<noteq> CHR 0x0D) (show_nat n @ rest) =
    show_nat n @ takeWhile (\<lambda>c. c \<noteq> CHR 0x0A \<and> c \<noteq> CHR 0x0D) rest"
proof -
  have "c \<noteq> CHR 0x0A \<and> c \<noteq> CHR 0x0D" if "c \<in> set (show_nat n)" for c
  proof -
    have "is_digit c" using show_nat_digits [of n] that by (simp add: list_all_iff)
    then show ?thesis by (auto simp: is_digit_def)
  qed
  then show ?thesis by (simp add: takeWhile_append2)
qed



subsection \<open>The probe\<close>

lemma rsp_data_payload: "CHR ''#'' \<notin> set payload \<Longrightarrow> rsp_data (payload @ CHR ''#'' # rest) = Some (payload, rest)"
  by (induction payload) auto

lemma rsp_receive_packet:
  assumes "CHR ''#'' \<notin> set payload" and "is_ascii payload"
  shows "rsp_receive (rsp_packet payload @ rest) = Some (Inr (payload, rest))"
proof -
  define s where "s = show_hex (sum_list (map of_char payload) mod 256)"
  define check where "check = (if length s < 2 then ''0'' @ s else s)"
  have "length s \<le> 2"
  proof -
    have "length (show_hex n) \<le> 2" if "n < 256" for n
      using that by (subst show_hex.simps, cases "n < 16", simp, subst show_hex.simps) (auto simp: less_mult_imp_div_less)
    then show ?thesis by (simp add: s_def)
  qed
  moreover have "s \<noteq> []" unfolding s_def by (subst show_hex.simps) simp
  ultimately have two: "length check = 2" by (auto simp: check_def le_Suc_eq numeral_2_eq_2 length_0_conv)
  have "rsp_packet payload @ rest = CHR ''$'' # payload @ CHR ''#'' # check @ rest"
    by (simp add: rsp_packet_def check_def s_def Let_def)
  then show ?thesis using rsp_data_payload [OF assms(1)] assms(2) two by (simp add: rsp_receive_def)
qed

lemma rsp_request_packet:
  assumes "CHR ''#'' \<notin> set reply" and "is_ascii reply"
  shows "rsp_request payload ([CHR ''+''] @ rsp_packet reply @ rest) = (Some (Inr (reply, rest)), [rsp_packet payload, ''+''])"
  using rsp_receive_packet [OF assms] by (simp add: rsp_request_def)

text \<open>A stub that closes the connection inside a packet is waited for without end.\<close>

lemma rsp_receive_cut: "CHR ''#'' \<notin> set payload \<Longrightarrow> rsp_receive (CHR ''$'' # payload) = None"
proof -
  assume "CHR ''#'' \<notin> set payload"
  then have "rsp_data payload = None" by (induction payload) auto
  then show ?thesis by (simp add: rsp_receive_def)
qed

text \<open>
  Against a stub that acknowledges and answers each request with one packet, the probe asks for the
  stop reason and the registers, reads program counter and stack pointer as little-endian numbers at
  their places, asks for the code at the program counter, acknowledges every answer and detaches; a
  stub that closes inside a packet makes it wait for ever.
\<close>

theorem gdb_probe_session:
  assumes "CHR ''#'' \<notin> set stop" "is_ascii stop" "CHR ''#'' \<notin> set hex" "is_ascii hex" "CHR ''#'' \<notin> set code" "is_ascii code"
    and "from_hex hex = Some registers" "264 \<le> length registers"
    and "pc = le_value (take 8 (drop 256 registers))"
  shows "gdb_probe ([CHR ''+''] @ rsp_packet stop @ [CHR ''+''] @ rsp_packet hex @ [CHR ''+''] @ rsp_packet code) =
    (Some (Inr \<lparr>pb_stop = stop, pb_pc = pc, pb_sp = le_value (take 8 (drop 248 registers)), pb_code = code\<rparr>),
     [rsp_packet ''?'', ''+'', rsp_packet ''g'', ''+'', rsp_packet (''m'' @ show_hex pc @ '',10''), ''+'', rsp_packet ''D'']) \<and>
    fst (gdb_probe ([CHR ''+'', CHR ''$''] @ stop)) = None"
proof
  have last: "rsp_request p ([CHR ''+''] @ rsp_packet code) = (Some (Inr (code, [])), [rsp_packet p, ''+''])" for p
    using rsp_request_packet [OF assms(5,6), of p "[]"] by simp
  show "gdb_probe ([CHR ''+''] @ rsp_packet stop @ [CHR ''+''] @ rsp_packet hex @ [CHR ''+''] @ rsp_packet code) =
    (Some (Inr \<lparr>pb_stop = stop, pb_pc = pc, pb_sp = le_value (take 8 (drop 248 registers)), pb_code = code\<rparr>),
     [rsp_packet ''?'', ''+'', rsp_packet ''g'', ''+'', rsp_packet (''m'' @ show_hex pc @ '',10''), ''+'', rsp_packet ''D''])"
    unfolding gdb_probe_def rsp_request_packet [OF assms(1,2)] prod.case option.case sum.case rsp_request_packet [OF assms(3,4)]
      assms(7) last Let_def using assms(8,9) by simp
  show "fst (gdb_probe ([CHR ''+'', CHR ''$''] @ stop)) = None"
    using rsp_receive_cut [OF assms(1)] by (simp add: gdb_probe_def rsp_request_def)
qed

theorem gdb_probe_session_witness:
  "fst (gdb_probe ([CHR ''+''] @ rsp_packet ''S05'' @ [CHR ''+''] @ rsp_packet (concat (replicate 264 ''01'')) @ [CHR ''+''] @ rsp_packet ''00'')) \<noteq> None"
proof -
  have hex: "from_hex (concat (replicate n ''01'')) = Some (replicate n (CHR 0x01))" for n
  proof (induction n)
    case (Suc n)
    have "\<not> c_blank (CHR ''0'')" "is_hex (CHR ''0'')" "is_hex (CHR ''1'')" "char_of (hex_val (CHR ''0'') * 16 + hex_val (CHR ''1'')) = CHR 0x01" by code_simp+
    with Suc show ?case by simp
  qed simp
  have plain: "CHR ''#'' \<notin> set ''S05''" "is_ascii ''S05''" "CHR ''#'' \<notin> set ''00''" "is_ascii ''00''" by code_simp+
  have "CHR ''#'' \<notin> set (concat (replicate 264 ''01''))" "is_ascii (concat (replicate 264 ''01''))"
    by (auto simp: is_ascii_def list_all_iff)
  from gdb_probe_session [OF plain(1,2) this plain(3,4) hex _ refl] show ?thesis by simp
qed

subsection \<open>Target flags\<close>

text \<open>
  Both launchers run the compiler with the arguments in order, without the two flags of the host's
  architecture and with the one absolute include path moved into the target's file system, followed by
  the flags of the target.
\<close>

theorem compiler_flags:
  assumes "env_get env ''UBSIM_ARM64_SYSROOT'' [] \<noteq> []" and "sysroot = resolve (env_get env ''UBSIM_ARM64_SYSROOT'' [])"
    and "is_dir (path_under sysroot ''usr/include'')" and "launcher \<in> {umdk_cc, umdk_cxx}"
  shows "\<exists>real kept. launcher env resolve is_dir args =
      Exec real (real # kept @ [''--sysroot='' @ sysroot, ''-march=armv8-a+crc'', ''-DUB_ARCH_ARM64'']) \<and>
    set kept \<inter> {''-msse4.2'', ''-DUB_ARCH_X86_64'', ''-I/usr/include/libnl3''} \<subseteq> {''-I'' @ sysroot @ ''/usr/include/libnl3''} \<and>
    filter (\<lambda>a. a \<noteq> ''-I'' @ sysroot @ ''/usr/include/libnl3'') kept =
      filter (\<lambda>a. a \<notin> {''-msse4.2'', ''-DUB_ARCH_X86_64'', ''-I/usr/include/libnl3'', ''-I'' @ sysroot @ ''/usr/include/libnl3''}) args \<and>
    length kept = length (filter (\<lambda>a. a \<notin> {''-msse4.2'', ''-DUB_ARCH_X86_64''}) args)"
proof -
  let ?kept = "concat (map (target_arg sysroot) args)" and ?moved = "''-I'' @ sysroot @ ''/usr/include/libnl3''"
  have run: "\<exists>real. launcher env resolve is_dir args = Exec real (real # ?kept @ [''--sysroot='' @ sysroot, ''-march=armv8-a+crc'', ''-DUB_ARCH_ARM64''])"
    using assms by (auto simp: umdk_cc_def umdk_cxx_def compiler_main_def Let_def)
  have "set ?kept \<inter> {''-msse4.2'', ''-DUB_ARCH_X86_64'', ''-I/usr/include/libnl3''} \<subseteq> {?moved}"
    by (auto simp: target_arg_def split: if_splits)
  moreover have "filter (\<lambda>a. a \<noteq> ?moved) ?kept =
      filter (\<lambda>a. a \<notin> {''-msse4.2'', ''-DUB_ARCH_X86_64'', ''-I/usr/include/libnl3'', ?moved}) args"
    by (induction args) (auto simp: target_arg_def)
  moreover have "length ?kept = length (filter (\<lambda>a. a \<notin> {''-msse4.2'', ''-DUB_ARCH_X86_64''}) args)"
    by (induction args) (auto simp: target_arg_def)
  ultimately show ?thesis using run by blast
qed

end
