(* ===== verification/Spec2Isabelle.thy ===== *)
theory Spec2Isabelle
  imports Lab_Main Lab_Cli_Facts Ethernet_Relay Memory_Guard Experiment_Run Web_Facts Dual_Serial
    Elf_Image Checkpoint_Text Coordinated_Checkpoint Audit_Sound Coverage_Facts
    Scan_Facts Cpio_Facts Qemu_Integrity Guest_Transfer Console_Tools
begin

text \<open>
  A verification of the Python code of the UB simulation laboratory: the tools that read a declared
  topology, start gem5 or QEMU hosts with device models and a fabric, watch the host's memory, drive
  experiments on the guests and serve a local workbench.

  \<^bold>\<open>Parts and how they interact.\<close>  A topology document is compiled to a plan (\<^verbatim>\<open>ubsim_lab/topology.py\<close>).
  For gem5 the plan is resolved to a manifest of machine settings (\<^verbatim>\<open>config_runtime.py\<close> on the table
  of the \<^verbatim>\<open>modern\<close> profile).  The launcher (\<^verbatim>\<open>config_launcher.py\<close>) checks memory and artefacts, picks a
  checkpoint with the command line's selection (\<^verbatim>\<open>cli.py\<close>) and starts the processes; for QEMU it
  allocates ports (\<^verbatim>\<open>qemu_ports.py\<close>).  The hosts' Ethernet is a relay (\<^verbatim>\<open>tools/ethernet_relay.py\<close>) and
  their memory is guarded (\<^verbatim>\<open>tools/host_memory_guard.py\<close>).  Commands reach the guests through the
  serial tool (\<^verbatim>\<open>tools/dual_serial_command.py\<close>), which the regression
  (\<^verbatim>\<open>tools/run_modular_rma_regression.py\<close>) and the experiments (\<^verbatim>\<open>experiments.py\<close>) call.  The workbench
  (\<^verbatim>\<open>web.py\<close>) stores tasks and recipes, starts topologies and experiments and connects browsers to the
  consoles.  A timing trial (\<^verbatim>\<open>tools/run_qemu_timing_trial.py\<close>) launches two QEMU hosts, gives the guests
  bandwidth commands and leaves a directory of evidence, which an audit
  (\<^verbatim>\<open>tools/check_qemu_write_trial.py\<close>) accepts or refuses.  Three tools make and repair checkpoints:
  \<^verbatim>\<open>tools/coordinated_checkpoint.py\<close>, \<^verbatim>\<open>tools/normalize_gem5_checkpoint.py\<close>, \<^verbatim>\<open>tools/elf_to_flat_binary.py\<close>.
  An inventory of the opcodes of the drivers (\<^verbatim>\<open>tools/audit_command_coverage.py\<close>) is read from C headers and
  compared with what was reviewed.  Six sweeps (\<^verbatim>\<open>tools/run_gem5_*_sweep.py\<close>, \<^verbatim>\<open>run_gem5_rma_jetty_compare.py\<close>,
  \<^verbatim>\<open>profile_gem5_read_jettys.py\<close>, \<^verbatim>\<open>run_read_compare_scan.py\<close>) run lists of measurements through the serial tool
  and check them with the fences of the regression; \<^verbatim>\<open>tools/run_qemu_integrity.py\<close> does so with byte checks.
  Smaller tools replace the measured program in an initramfs (\<^verbatim>\<open>build_perftest_bw_diagnostic.py\<close>), send a file
  over a console (\<^verbatim>\<open>transfer_guest_bootstrap.py\<close>), run one command on it (\<^verbatim>\<open>drive-console.py\<close>), ask a debugger
  stub (\<^verbatim>\<open>probe_gem5_gdb.py\<close>) and correct compiler flags (\<^verbatim>\<open>aarch64-umdk-cc.py\<close>, \<^verbatim>\<open>-cxx.py\<close>).

  \<^bold>\<open>Theories.\<close>
  \<^item> \<^verbatim>\<open>Py_Prelude\<close>: JSON values, dictionaries as association lists in insertion order, exceptions as the
    left summand of a result, strings, integers as text, paths; the locales \<^verbatim>\<open>checked_loop\<close> (loops that
    validate) and \<^verbatim>\<open>transition_invariant\<close> (concurrent components).
  \<^item> \<^verbatim>\<open>Py_Regex\<close>, \<^verbatim>\<open>Regex_Runs\<close>: the module \<^verbatim>\<open>re\<close> as far as it is used, with backtracking; what repetitions
    and literals match.
  \<^item> \<^verbatim>\<open>Py_Expr\<close>, \<^verbatim>\<open>Py_Expr_Facts\<close>: \<^verbatim>\<open>ast.parse\<close> of integer expressions, tokens and precedence climbing; the fuel
    is enough, and a printed expression parses back to itself.
  \<^item> \<^verbatim>\<open>Topology\<close>, \<^verbatim>\<open>Topology_Facts\<close>: \<^verbatim>\<open>compile_topology\<close>; accepted documents give well-formed plans, the
    wiring and delays are the declared ones, only the documented exception is raised (and one other).
  \<^item> \<^verbatim>\<open>Profile_Defaults\<close>, \<^verbatim>\<open>Config_Runtime\<close>, \<^verbatim>\<open>Config_Facts\<close>: \<^verbatim>\<open>resolve_gem5\<close>; it is total on compiled
    documents, carries the links over and chooses a safe synchronisation quantum.
  \<^item> \<^verbatim>\<open>Qemu_Ports\<close>: \<^verbatim>\<open>qemu_ports\<close>; accepted ports are distinct and in range.
  \<^item> \<^verbatim>\<open>Lab_Cli\<close>, \<^verbatim>\<open>Lab_Cli_Facts\<close>, \<^verbatim>\<open>Lab_Main\<close>: options, manifests, checkpoint selection, scripts, \<^verbatim>\<open>main\<close> and
    \<^verbatim>\<open>lab topology\<close>; a selected checkpoint fits the request, manifests survive a round trip, a start on
    a ready host succeeds.
  \<^item> \<^verbatim>\<open>Launcher\<close>, \<^verbatim>\<open>Launcher_Facts\<close>, \<^verbatim>\<open>Launch_Ready\<close>: \<^verbatim>\<open>start_gem5\<close> and \<^verbatim>\<open>start_qemu\<close> as computations on a
    record of started and terminated processes; all processes run or all recorded ones are terminated
    (locale \<^verbatim>\<open>launch_step\<close>), and on a ready host the launch returns.
  \<^item> \<^verbatim>\<open>Framing\<close>: the locales \<^verbatim>\<open>frame_reader\<close> and \<^verbatim>\<open>framing\<close> of messages in a byte stream, with two
    instances: \<^verbatim>\<open>Ws_Terminal\<close> (WebSocket frames of \<^verbatim>\<open>web.py\<close>) and \<^verbatim>\<open>Ethernet_Relay\<close> (length-prefixed
    Ethernet frames).  The relay's threads are a step relation that refines a learning switch.
  \<^item> \<^verbatim>\<open>Memory_Guard\<close>: \<^verbatim>\<open>check\<close> and \<^verbatim>\<open>monitor\<close>; the stop script runs exactly under sustained pressure.
  \<^item> \<^verbatim>\<open>Recipe\<close>, \<^verbatim>\<open>Preflight\<close>, \<^verbatim>\<open>Experiment_Results\<close>, \<^verbatim>\<open>Experiment_Run\<close>: \<^verbatim>\<open>experiments.py\<close> in the order of the
    file; recipes are accepted exactly when they are sound, a positive preflight can be acted on, an
    experiment records exactly its accepted runs and its summary is complete.
  \<^item> \<^verbatim>\<open>Rma_Regression\<close>: case tables, fences, transcripts and verdict of the regression.
  \<^item> \<^verbatim>\<open>Dual_Serial\<close>: the serial tool; exit code 0 means every command ran once and returned 0.
  \<^item> \<^verbatim>\<open>Task_Store\<close>, \<^verbatim>\<open>Workbench\<close>, \<^verbatim>\<open>Web_Requests\<close>, \<^verbatim>\<open>Web_Facts\<close>: \<^verbatim>\<open>web.py\<close>; the store of tasks (locale
    \<^verbatim>\<open>store_operation\<close>), the server object, its request handlers and their interleavings.
  \<^item> \<^verbatim>\<open>Py_Shlex\<close>, \<^verbatim>\<open>Py_Float\<close>: \<^verbatim>\<open>shlex.split\<close>; binary64 numbers as rationals with infinities and NaN, rounded
    to nearest even, with \<^verbatim>\<open>float(s)\<close>, \<^verbatim>\<open>math.isclose\<close> and \<^verbatim>\<open>math.floor\<close>.
  \<^item> \<^verbatim>\<open>Timing_Trial\<close>, \<^verbatim>\<open>Timing_Trial_Facts\<close>: the timing trial; a launched laboratory is stopped on every path,
    a successful trial leaves a complete report, an observed drain is two quiet samples in a row.
  \<^item> \<^verbatim>\<open>Trial_Audit\<close>, \<^verbatim>\<open>Trial_Audit_Facts\<close>, \<^verbatim>\<open>Counter_Lines\<close>, \<^verbatim>\<open>Audit_Sound\<close>: the audit; it reads the commands of
    the trial back as their settings, and what it accepts has done exactly the work of its cases.
    \<^verbatim>\<open>Counter_Lines\<close> shows what \<^verbatim>\<open>re.findall\<close> gives on a printed line of counters.
  \<^item> \<^verbatim>\<open>Elf_Image\<close>, \<^verbatim>\<open>Checkpoint_Text\<close>, \<^verbatim>\<open>Coordinated_Checkpoint\<close>: the checkpoint tools; the layout of a flat
    image, the all-or-nothing rewriting of a checkpoint, and the barrier before the checkpoint command.
  \<^item> \<^verbatim>\<open>Command_Coverage\<close>, \<^verbatim>\<open>Enum_Facts\<close>, \<^verbatim>\<open>Coverage_Facts\<close>: the inventory of opcodes; a printed enumeration is read
    as the values C gives it, the inventory has exactly the declared names, does not depend on the order
    of its sources, and the check passes exactly when nothing is unreviewed.  \<^verbatim>\<open>conditional_enum_accepted\<close>
    shows a conditional enumeration that is not refused.
  \<^item> \<^verbatim>\<open>Sweeps\<close>, \<^verbatim>\<open>Jetty_Sweeps\<close>, \<^verbatim>\<open>Read_Profiles\<close>: the six sweeps, with \<^verbatim>\<open>Py_Quote\<close> (\<^verbatim>\<open>shlex.quote\<close>) and
    \<^verbatim>\<open>Regex_Groups\<close> (how many groups a match has); \<^verbatim>\<open>Sweep_Facts\<close>, \<^verbatim>\<open>Sweep_Verdicts\<close>, \<^verbatim>\<open>Scan_Facts\<close>: the locale
    \<^verbatim>\<open>case_sweep\<close> of a loop over measured cases, with an interpretation for each sweep; the exit code is 0
    exactly when every case was measured, the rows are the printed numbers, the windows of an admitted
    comparison fit their queues, and a client with other libraries runs the same command.
  \<^item> \<^verbatim>\<open>Qemu_Integrity\<close>: the integrity suites and the check of device profiles.
  \<^item> \<^verbatim>\<open>Cpio_Image\<close>, \<^verbatim>\<open>Cpio_Facts\<close>: \<^verbatim>\<open>replace_perftest\<close>; only the data of one record of an archive changes.
  \<^item> \<^verbatim>\<open>Guest_Transfer\<close>: a complete transfer has written a text that decodes to the compressed file.
  \<^item> \<^verbatim>\<open>Console_Tools\<close>: the console tool, with the cases in which its status is wrong, the debugger probe and the
    compiler launchers.

  \<^bold>\<open>Correspondence.\<close>  Functions keep their names without leading underscores; a name that clashes gets
  a prefix of its module (\<^verbatim>\<open>web_runtime\<close>, \<^verbatim>\<open>exp_command\<close>, \<^verbatim>\<open>serial_main\<close>).  A raise is \<^const>\<open>Inl\<close> with the
  exception, and a function with effects returns the changed state also when it raises.  The operating
  system, files that other programs write, child processes, sockets and the clock are fields of world
  records (\<^verbatim>\<open>lab_world\<close>, \<^verbatim>\<open>launch_world\<close>, \<^verbatim>\<open>exp_world\<close>, \<^verbatim>\<open>run_world\<close>, \<^verbatim>\<open>web_world\<close>, ...); what is needed of
  them is a hypothesis, with a concrete world in the witness.  Floating-point arithmetic of the older parts is
  the record \<^verbatim>\<open>float_ops\<close>, in the trials the concrete \<^verbatim>\<open>Py_Float\<close>.  Texts written in Chinese are rendered by short English ones.

  \<^bold>\<open>Bounds.\<close>  \<^verbatim>\<open>rx_findall\<close> and \<^verbatim>\<open>rx_split\<close> recurse on fuel, one more than the length of the text; every
  call consumes a character, and \<^verbatim>\<open>rx_findall_fuel_enough\<close> shows that more fuel changes nothing;
  \<^verbatim>\<open>rx_sub\<close> has the same measure.  The expression parser has five units of fuel per token, and \<^verbatim>\<open>p_expr_fuel\<close>
  shows that more gives the same.  The
  loops that wait for a clock (memory guard, relay start-up) are partial functions whose return is
  proved, or run on the list of what the clock and the sockets deliver (serial tool, terminal).

  \<^bold>\<open>Not modelled.\<close>  Printed messages, usage texts and argument parsing by \<^verbatim>\<open>argparse\<close>; failures of file
  writes, except where named; response headers and the HTTP parsing of the standard library; character
  sets beyond Latin-1; the nesting limit of \<^verbatim>\<open>ast.parse\<close>.  \<^verbatim>\<open>configs/arm64_fs.py\<close> builds the machine through
  gem5's Python interface, which is not in the repository.  The profile
  builders, apart from \<^verbatim>\<open>replace_perftest\<close>, rewrite sources of other projects and call compilers and profilers;
  \<^verbatim>\<open>compare_read_curve.py\<close> prints the ratios of two tables; the plots and renderings call graphics libraries.  The C++, C and shell parts are left out.
\<close>

end
